(* ===== verification/Prelude.thy ===== *)
theory Prelude
  imports Main
begin

text \<open>
  Shared vocabulary of the development: the wire view of a JSON document, the fragments of the Go
  packages \<^verbatim>\<open>strings\<close> and \<^verbatim>\<open>time\<close> that the components call, and the generic lemmas on lists and
  ordered key/value buckets that the component theories reuse.

  Go strings are byte sequences, so they are \<^typ>\<open>string\<close>s (lists of 8-bit characters) here.
  The case mapping and trimming functions are those of ASCII, to which the Go functions specialise
  on the identifiers, field names and keywords the code compares.
\<close>

named_theorems go_strings \<open>definitions of the string primitives\<close>
named_theorems inv_intros \<open>preservation of a component's invariant by its operations\<close>

section \<open>JSON documents as the code reads them\<close>

text \<open>
  A byte string handed to \<^verbatim>\<open>json.Unmarshal\<close> is seen through the only observation the code makes
  of it: either decoding into the target type fails, or it yields a value of that type.
\<close>

datatype 'a wire = Malformed | Decoded 'a

section \<open>Package strings\<close>

definition lower_char :: "char \<Rightarrow> char" where
  "lower_char c = (let n = (of_char c :: nat) in if 65 \<le> n \<and> n \<le> 90 then char_of (n + 32) else c)"

definition upper_char :: "char \<Rightarrow> char" where
  "upper_char c = (let n = (of_char c :: nat) in if 97 \<le> n \<and> n \<le> 122 then char_of (n - 32) else c)"

definition space_char :: "char \<Rightarrow> bool" where
  "space_char c = (let n = (of_char c :: nat) in n = 32 \<or> (9 \<le> n \<and> n \<le> 13))"

definition digit_char :: "char \<Rightarrow> bool" where
  "digit_char c = (let n = (of_char c :: nat) in 48 \<le> n \<and> n \<le> 57)"

definition digit_val :: "char \<Rightarrow> nat" where
  "digit_val c = (of_char c :: nat) - 48"

definition ToLower :: "string \<Rightarrow> string" where
  "ToLower s = map lower_char s"

definition ToUpper :: "string \<Rightarrow> string" where
  "ToUpper s = map upper_char s"

definition TrimSpace :: "string \<Rightarrow> string" where
  "TrimSpace s = rev (dropWhile space_char (rev (dropWhile space_char s)))"

fun HasPrefix :: "string \<Rightarrow> string \<Rightarrow> bool" where
  "HasPrefix s [] = True"
| "HasPrefix [] (p # ps) = False"
| "HasPrefix (c # cs) (p # ps) = (c = p \<and> HasPrefix cs ps)"

fun Contains :: "string \<Rightarrow> string \<Rightarrow> bool" where
  "Contains [] sub = (sub = [])"
| "Contains (c # cs) sub = (HasPrefix (c # cs) sub \<or> Contains cs sub)"

definition EqualFold :: "string \<Rightarrow> string \<Rightarrow> bool" where
  "EqualFold a b = (ToLower a = ToLower b)"

text \<open>Comparison character by character, the form in which the function is evaluated.\<close>

fun fold_eq :: "string \<Rightarrow> string \<Rightarrow> bool" where
  "fold_eq [] [] = True"
| "fold_eq (a # as) (b # bs) =
     (if a = b then fold_eq as bs else if lower_char a = lower_char b then fold_eq as bs else False)"
| "fold_eq _ _ = False"

lemma EqualFold_code [code]: "EqualFold a b = fold_eq a b"
proof -
  have "fold_eq a b = (ToLower a = ToLower b)"
    by (induction a b rule: fold_eq.induct) (auto simp: ToLower_def)
  then show ?thesis by (simp add: EqualFold_def)
qed

text \<open>\<^verbatim>\<open>strings.Fields\<close>: the words between white space; \<open>acc\<close> is the current word in reverse.\<close>

fun fields_from :: "string \<Rightarrow> string \<Rightarrow> string list" where
  "fields_from acc [] = (if acc = [] then [] else [rev acc])"
| "fields_from acc (c # cs) =
     (if space_char c then (if acc = [] then fields_from [] cs else rev acc # fields_from [] cs)
      else fields_from (c # acc) cs)"

text \<open>\<^verbatim>\<open>strings.Split\<close> with a one-character separator; the result is never empty.\<close>

fun Split :: "char \<Rightarrow> string \<Rightarrow> string list" where
  "Split sep [] = [[]]"
| "Split sep (c # cs) =
     (if c = sep then [] # Split sep cs
      else case Split sep cs of [] \<Rightarrow> [[c]] | w # ws \<Rightarrow> (c # w) # ws)"

text \<open>\<^verbatim>\<open>strings.Join\<close> with a one-character separator.\<close>

fun Join :: "char \<Rightarrow> string list \<Rightarrow> string" where
  "Join sep [] = []"
| "Join sep [w] = w"
| "Join sep (w # v # ws) = w @ sep # Join sep (v # ws)"

text \<open>Decimal digits of a number, as \<^verbatim>\<open>fmt\<close>'s \<^verbatim>\<open>%d\<close> prints it.\<close>

fun nat_digits :: "nat \<Rightarrow> string" where
  "nat_digits n =
     (if n < 10 then [char_of (n + 48)] else nat_digits (n div 10) @ [char_of (n mod 10 + 48)])"

declare nat_digits.simps [simp del]

definition int_digits :: "int \<Rightarrow> string" where
  "int_digits i = (if i < 0 then CHR ''-'' # nat_digits (nat (- i)) else nat_digits (nat i))"

text \<open>Decimal notation is injective: the value can be read back from the digits.\<close>

definition digits_value :: "string \<Rightarrow> nat" where
  "digits_value s = foldl (\<lambda>v c. v * 10 + (of_char c - 48)) 0 s"

lemma digits_value_nat_digits [simp]: "digits_value (nat_digits n) = n"
proof (induction n rule: nat_digits.induct)
  case (1 n)
  have d: "of_char (char_of (m + 48)) - (48::nat) = m" if "m < 10" for m
    using that by (simp add: of_char_of take_bit_eq_mod)
  show ?case
  proof (cases "n < 10")
    case True
    then show ?thesis by (subst nat_digits.simps) (simp add: digits_value_def d)
  next
    case False
    then have "digits_value (nat_digits n) = digits_value (nat_digits (n div 10)) * 10 + n mod 10"
      by (subst nat_digits.simps) (simp add: digits_value_def d)
    with 1 False show ?thesis by simp
  qed
qed

lemma nat_digits_inject [simp]: "nat_digits m = nat_digits n \<longleftrightarrow> m = n"
  by (metis digits_value_nat_digits)

lemma int_digits_inject: "0 \<le> i \<Longrightarrow> 0 \<le> j \<Longrightarrow> int_digits i = int_digits j \<longleftrightarrow> i = j"
  by (simp add: int_digits_def eq_nat_nat_iff)

lemma HasPrefix_iff: "HasPrefix s p \<longleftrightarrow> (\<exists>t. s = p @ t)"
  by (induction s p rule: HasPrefix.induct) auto

lemma Contains_iff: "Contains s sub \<longleftrightarrow> (\<exists>a b. s = a @ sub @ b)"
proof (induction s)
  case Nil
  then show ?case by auto
next
  case (Cons c cs)
  have "(\<exists>a b. c # cs = a @ sub @ b) \<longleftrightarrow> (\<exists>b. c # cs = sub @ b) \<or> (\<exists>a b. cs = a @ sub @ b)"
    by (metis append_Cons append_Nil list.exhaust list.inject)
  with Cons show ?case by (simp add: HasPrefix_iff)
qed

lemma Split_not_Nil [simp]: "Split sep s \<noteq> []"
  by (cases s) (auto split: list.splits)

lemma Split_no_sep: "sep \<notin> set s \<Longrightarrow> Split sep s = [s]"
  by (induction s) auto

lemma Split_append:
  "sep \<notin> set w \<Longrightarrow> Split sep (w @ sep # s) = w # Split sep s"
  by (induction w) auto

lemma Split_sep_free: "w \<in> set (Split sep s) \<Longrightarrow> sep \<notin> set w"
  by (induction s arbitrary: w) (auto split: list.splits if_splits)

lemma Split_Join:
  "ws \<noteq> [] \<Longrightarrow> (\<And>w. w \<in> set ws \<Longrightarrow> sep \<notin> set w) \<Longrightarrow> Split sep (Join sep ws) = ws"
  by (induction sep ws rule: Join.induct) (auto simp: Split_no_sep Split_append)

lemma Join_Split: "Join sep (Split sep s) = s"
proof (induction s)
  case Nil
  then show ?case by simp
next
  case (Cons c cs)
  obtain w ws where sp: "Split sep cs = w # ws" by (cases "Split sep cs") auto
  with Cons show ?case by (cases ws) auto
qed

lemma fields_from_chars:
  "concat (fields_from acc v) = rev acc @ filter (\<lambda>c. \<not> space_char c) v"
  by (induction acc v rule: fields_from.induct) auto

lemma fields_from_words:
  "list_all (\<lambda>c. \<not> space_char c) acc \<Longrightarrow>
     list_all (\<lambda>a. a \<noteq> [] \<and> list_all (\<lambda>c. \<not> space_char c) a) (fields_from acc v)"
  by (induction v arbitrary: acc) simp_all

lemma find_SomeD: "find P xs = Some x \<Longrightarrow> x \<in> set xs \<and> P x"
  by (induction xs) (auto split: if_splits)

section \<open>Ordered buckets\<close>

text \<open>
  A bucket of the embedded store (bbolt) is a sequence of key/value pairs with distinct keys,
  iterated in order. \<open>bucket_put\<close> overwrites in place or inserts in key order.
\<close>

type_synonym 'v bucket = "(string \<times> 'v) list"

fun str_less :: "string \<Rightarrow> string \<Rightarrow> bool" where
  "str_less [] [] = False"
| "str_less [] (_ # _) = True"
| "str_less (_ # _) [] = False"
| "str_less (a # as) (b # bs) =
     ((of_char a :: nat) < of_char b \<or> (a = b \<and> str_less as bs))"

definition bucket_get :: "'v bucket \<Rightarrow> string \<Rightarrow> 'v option" where
  "bucket_get b k = map_of b k"

fun bucket_put :: "string \<Rightarrow> 'v \<Rightarrow> 'v bucket \<Rightarrow> 'v bucket" where
  "bucket_put k v [] = [(k, v)]"
| "bucket_put k v ((k', v') # b) =
     (if k = k' then (k, v) # b
      else if str_less k k' then (k, v) # (k', v') # b
      else (k', v') # bucket_put k v b)"

definition bucket_delete :: "string \<Rightarrow> 'v bucket \<Rightarrow> 'v bucket" where
  "bucket_delete k b = filter (\<lambda>(k', _). k' \<noteq> k) b"

lemma str_less_irrefl [simp]: "\<not> str_less a a"
  by (induction a) auto

lemma str_less_trans: "str_less a b \<Longrightarrow> str_less b c \<Longrightarrow> str_less a c"
proof (induction a b arbitrary: c rule: str_less.induct)
  case (2 b bs)
  then show ?case by (cases c) auto
next
  case (4 a as b bs)
  then show ?case by (cases c) auto
qed auto

lemma str_less_total: "a \<noteq> b \<Longrightarrow> str_less a b \<or> str_less b a"
proof (induction a b rule: str_less.induct)
  case (4 a as b bs)
  then show ?case
    by (metis linorder_neqE_nat of_char_eq_iff str_less.simps(4))
qed auto

abbreviation key_less :: "string \<times> 'v \<Rightarrow> string \<times> 'v \<Rightarrow> bool" where
  "key_less p q \<equiv> str_less (fst p) (fst q)"

definition bucket_ok :: "'v bucket \<Rightarrow> bool" where
  "bucket_ok b = sorted_wrt key_less b"

lemma bucket_ok_Nil [simp]: "bucket_ok []"
  by (simp add: bucket_ok_def)

lemma bucket_ok_Cons [simp]:
  "bucket_ok ((k, v) # b) \<longleftrightarrow> (\<forall>p\<in>set b. str_less k (fst p)) \<and> bucket_ok b"
  by (auto simp: bucket_ok_def)

lemma bucket_ok_distinct: "bucket_ok b \<Longrightarrow> distinct (map fst b)"
proof (induction b)
  case (Cons p b)
  then have "fst p \<notin> fst ` set b" by (cases p) force
  with Cons show ?case by (cases p) simp
qed simp

lemma set_bucket_put_fst: "fst ` set (bucket_put k v b) = insert k (fst ` set b)"
  by (induction k v b rule: bucket_put.induct) auto

lemma set_bucket_put_sub: "set (bucket_put k v b) \<subseteq> insert (k, v) (set b)"
  by (induction k v b rule: bucket_put.induct) auto

lemma bucket_ok_put [intro]: "bucket_ok b \<Longrightarrow> bucket_ok (bucket_put k v b)"
proof (induction k v b rule: bucket_put.induct)
  case (2 k v k' v' b)
  show ?case
  proof (cases "k = k' \<or> str_less k k'")
    case True
    with "2.prems" show ?thesis by (auto dest: str_less_trans)
  next
    case False
    then have less: "str_less k' k" using str_less_total by blast
    have "\<forall>p\<in>set (bucket_put k v b). str_less k' (fst p)"
      using set_bucket_put_sub [of k v b] less "2.prems" by auto
    with False 2 show ?thesis by simp
  qed
qed simp

lemma bucket_get_put:
  "bucket_ok b \<Longrightarrow> bucket_get (bucket_put k v b) k' = (if k' = k then Some v else bucket_get b k')"
proof (induction k v b rule: bucket_put.induct)
  case (2 k v a w b)
  then show ?case by (auto simp: bucket_get_def split: if_splits)
qed (simp add: bucket_get_def)

lemma bucket_get_delete [simp]:
  "bucket_get (bucket_delete k b) k' = (if k' = k then None else bucket_get b k')"
  by (induction b) (auto simp: bucket_get_def bucket_delete_def)

lemma bucket_ok_delete [intro]: "bucket_ok b \<Longrightarrow> bucket_ok (bucket_delete k b)"
  unfolding bucket_ok_def bucket_delete_def by (rule sorted_wrt_filter)

lemma bucket_get_in: "bucket_get b k = Some v \<Longrightarrow> (k, v) \<in> set b"
  by (simp add: bucket_get_def map_of_SomeD)

lemma in_bucket_get: "bucket_ok b \<Longrightarrow> (k, v) \<in> set b \<Longrightarrow> bucket_get b k = Some v"
  unfolding bucket_get_def by (rule map_of_is_SomeI) (simp_all add: bucket_ok_distinct)

lemma bucket_put_same:
  "bucket_ok b \<Longrightarrow> bucket_get b k = Some v \<Longrightarrow> bucket_put k v b = b"
proof (induction k v b rule: bucket_put.induct)
  case (2 k v a w b)
  then show ?case
    by (auto simp: bucket_get_def split: if_splits dest!: map_of_SomeD dest: str_less_trans)
qed (simp add: bucket_get_def)

end
