(* ===== verification/Json.thy ===== *)
theory Json
  imports Complex_Main Prelude "HOL-Library.Monad_Syntax"
begin

text \<open>
  JSON documents and the decoding of JSON objects into Go structs (\<^verbatim>\<open>encoding/json\<close>), as far as
  the code uses it: keys match struct fields up to letter case, unknown keys are skipped, a later
  occurrence of a key overwrites an earlier one, \<^verbatim>\<open>null\<close> leaves the field at its zero value, and a
  value of the wrong type makes the whole decoding fail. Numbers are the rationals their literals
  denote.
\<close>

datatype json =
    JNull
  | JBool bool
  | JNum rat
  | JStr string
  | JArr "json list"
  | JObj "(string \<times> json) list"

section \<open>Struct fields\<close>

text \<open>All the values that an object gives to the field \<open>name\<close>, in document order.\<close>

definition json_fields :: "string \<Rightarrow> (string \<times> json) list \<Rightarrow> json list" where
  "json_fields name kvs = map snd (filter (\<lambda>(k, _). EqualFold k name) kvs)"

fun assign_str :: "string \<Rightarrow> json list \<Rightarrow> string option" where
  "assign_str acc [] = Some acc"
| "assign_str acc (JNull # vs) = assign_str acc vs"
| "assign_str acc (JStr s # vs) = assign_str s vs"
| "assign_str acc (_ # vs) = None"

definition int_of_rat :: "rat \<Rightarrow> int option" where
  "int_of_rat r =
     (let i = fst (quotient_of r)
      in if snd (quotient_of r) = 1 \<and> - (2 ^ 63) \<le> i \<and> i < 2 ^ 63 then Some i else None)"

fun assign_int :: "int \<Rightarrow> json list \<Rightarrow> int option" where
  "assign_int acc [] = Some acc"
| "assign_int acc (JNull # vs) = assign_int acc vs"
| "assign_int acc (JNum r # vs) = (case int_of_rat r of None \<Rightarrow> None | Some i \<Rightarrow> assign_int i vs)"
| "assign_int acc (_ # vs) = None"

fun assign_bool :: "bool \<Rightarrow> json list \<Rightarrow> bool option" where
  "assign_bool acc [] = Some acc"
| "assign_bool acc (JNull # vs) = assign_bool acc vs"
| "assign_bool acc (JBool b # vs) = assign_bool b vs"
| "assign_bool acc (_ # vs) = None"

definition dec_str :: "(string \<times> json) list \<Rightarrow> string \<Rightarrow> string option" where
  "dec_str kvs name = assign_str [] (json_fields name kvs)"

definition dec_int :: "(string \<times> json) list \<Rightarrow> string \<Rightarrow> int option" where
  "dec_int kvs name = assign_int 0 (json_fields name kvs)"

definition dec_bool :: "(string \<times> json) list \<Rightarrow> string \<Rightarrow> bool option" where
  "dec_bool kvs name = assign_bool False (json_fields name kvs)"

text \<open>A \<^verbatim>\<open>json.RawMessage\<close> field keeps whatever document it is given.\<close>

definition dec_raw :: "(string \<times> json) list \<Rightarrow> string \<Rightarrow> json option" where
  "dec_raw kvs name = (case rev (json_fields name kvs) of [] \<Rightarrow> None | v # _ \<Rightarrow> Some v)"

text \<open>A \<^verbatim>\<open>[]string\<close> field: an array of strings, where \<^verbatim>\<open>null\<close> elements are empty strings.\<close>

fun string_items :: "json list \<Rightarrow> string list option" where
  "string_items [] = Some []"
| "string_items (JStr s # vs) = map_option (\<lambda>ss. s # ss) (string_items vs)"
| "string_items (JNull # vs) = map_option (\<lambda>ss. [] # ss) (string_items vs)"
| "string_items (_ # vs) = None"

fun assign_strs :: "string list \<Rightarrow> json list \<Rightarrow> string list option" where
  "assign_strs acc [] = Some acc"
| "assign_strs acc (JNull # vs) = assign_strs [] vs"
| "assign_strs acc (JArr xs # vs) = (case string_items xs of None \<Rightarrow> None | Some ss \<Rightarrow> assign_strs ss vs)"
| "assign_strs acc (_ # vs) = None"

definition dec_strs :: "(string \<times> json) list \<Rightarrow> string \<Rightarrow> string list option" where
  "dec_strs kvs name = assign_strs [] (json_fields name kvs)"

text \<open>The object at the top of a document decoded into a struct; \<^verbatim>\<open>null\<close> decodes to the zero struct.\<close>

definition dec_object :: "json wire \<Rightarrow> (string \<times> json) list option" where
  "dec_object data =
     (case data of Decoded (JObj kvs) \<Rightarrow> Some kvs | Decoded JNull \<Rightarrow> Some [] | _ \<Rightarrow> None)"

text \<open>\<^verbatim>\<open>DisallowUnknownFields\<close>: every key of the object names one of the struct's fields.\<close>

definition known_fields :: "string list \<Rightarrow> (string \<times> json) list \<Rightarrow> bool" where
  "known_fields names kvs = list_all (\<lambda>(k, _). list_ex (EqualFold k) names) kvs"

section \<open>Dynamic access\<close>

text \<open>Lookup in a \<^verbatim>\<open>map[string]interface{}\<close> built from an object: exact keys, the last one wins.\<close>

definition obj_get :: "(string \<times> json) list \<Rightarrow> string \<Rightarrow> json option" where
  "obj_get kvs k = map_of (rev kvs) k"

definition obj_str :: "(string \<times> json) list \<Rightarrow> string \<Rightarrow> string" where
  "obj_str kvs k = (case obj_get kvs k of Some (JStr s) \<Rightarrow> s | _ \<Rightarrow> [])"

text \<open>Conversion of a \<^verbatim>\<open>float64\<close> to \<^verbatim>\<open>int\<close> truncates towards zero.\<close>

definition trunc_rat :: "rat \<Rightarrow> int" where
  "trunc_rat r = (if r < 0 then \<lceil>r\<rceil> else \<lfloor>r\<rfloor>)"

lemma int_of_rat_of_int [simp]:
  "int_of_rat (of_int i) = (if - (2 ^ 63) \<le> i \<and> i < 2 ^ 63 then Some i else None)"
  by (simp add: int_of_rat_def quotient_of_int)

lemma trunc_rat_of_int [simp]: "trunc_rat (of_int i) = i"
  by (simp add: trunc_rat_def)

lemma json_fields_Nil [simp]: "json_fields name [] = []"
  by (simp add: json_fields_def)

lemma json_fields_Cons [simp]:
  "json_fields name ((k, v) # kvs) =
     (if EqualFold k name then v # json_fields name kvs else json_fields name kvs)"
  by (simp add: json_fields_def)

lemma EqualFold_lower [simp]: "ToLower a = a \<Longrightarrow> ToLower b = b \<Longrightarrow> EqualFold a b \<longleftrightarrow> a = b"
  by (simp add: EqualFold_def)

lemma int_of_rat_range: "int_of_rat r = Some i \<Longrightarrow> - (2 ^ 63) \<le> i \<and> i < 2 ^ 63"
  by (auto simp: int_of_rat_def Let_def split: if_splits)

lemma assign_int_range:
  "assign_int acc vs = Some i \<Longrightarrow> - (2 ^ 63) \<le> acc \<and> acc < 2 ^ 63 \<Longrightarrow> - (2 ^ 63) \<le> i \<and> i < 2 ^ 63"
proof (induction acc vs rule: assign_int.induct)
  case (3 acc r vs)
  then show ?case by (auto split: option.splits dest: int_of_rat_range)
qed auto

lemma dec_int_range: "dec_int kvs name = Some i \<Longrightarrow> - (2 ^ 63) \<le> i \<and> i < 2 ^ 63"
  unfolding dec_int_def by (rule assign_int_range) auto

end
