(* ===== verification/GoTime.thy ===== *)
theory GoTime
  imports Prelude "HOL-Library.Monad_Syntax"
begin

text \<open>
  Instants of package \<^verbatim>\<open>time\<close> as integers (nanoseconds since the Unix epoch) and the RFC 3339 layout
  in which the components exchange them.
\<close>

type_synonym instant = int

definition Second :: int where "Second = 1000000000"
definition Minute :: int where "Minute = 60 * Second"
definition Hour :: int where "Hour = 60 * Minute"

text \<open>The zero time, at the beginning of year 1, and \<^verbatim>\<open>Time.Sub\<close>, which saturates at the range of a duration.\<close>

definition zero_time :: instant where
  "zero_time = - 62135596800 * Second"

definition Sub_time :: "instant \<Rightarrow> instant \<Rightarrow> int" where
  "Sub_time a b = max (- (2 ^ 63)) (min (2 ^ 63 - 1) (a - b))"

definition leap_year :: "int \<Rightarrow> bool" where
  "leap_year y = (y mod 4 = 0 \<and> (y mod 100 \<noteq> 0 \<or> y mod 400 = 0))"

definition days_in :: "int \<Rightarrow> int \<Rightarrow> int" where
  "days_in y m =
     (if m = 2 then (if leap_year y then 29 else 28)
      else if m = 4 \<or> m = 6 \<or> m = 9 \<or> m = 11 then 30 else 31)"

text \<open>Days from 1970-01-01 in the proleptic Gregorian calendar.\<close>

definition days_from_civil :: "int \<Rightarrow> int \<Rightarrow> int \<Rightarrow> int" where
  "days_from_civil y m d =
     (let y' = (if m \<le> 2 then y - 1 else y);
          era = y' div 400;
          yoe = y' - era * 400;
          doy = (153 * (m + (if m > 2 then - 3 else 9)) + 2) div 5 + d - 1;
          doe = yoe * 365 + yoe div 4 - yoe div 100 + doy
      in era * 146097 + doe - 719468)"

section \<open>Parsing\<close>

fun scan_digits :: "nat \<Rightarrow> nat \<Rightarrow> string \<Rightarrow> (nat \<times> string) option" where
  "scan_digits 0 acc s = Some (acc, s)"
| "scan_digits (Suc n) acc [] = None"
| "scan_digits (Suc n) acc (c # cs) =
     (if digit_char c then scan_digits n (10 * acc + digit_val c) cs else None)"

definition scan_char :: "char \<Rightarrow> string \<Rightarrow> string option" where
  "scan_char c s = (case s of x # xs \<Rightarrow> if x = c then Some xs else None | [] \<Rightarrow> None)"

text \<open>The fraction of a second: nine digits count, further digits are read and dropped.\<close>

definition scan_fraction :: "string \<Rightarrow> (int \<times> string) option" where
  "scan_fraction s =
     (case s of
        c # rest \<Rightarrow>
          if c = CHR ''.'' \<or> c = CHR '','' then
            (let ds = takeWhile digit_char rest;
                 n = foldl (\<lambda>acc c. 10 * acc + int (digit_val c)) 0 (take 9 ds)
             in if ds = [] then None
                else Some (n * 10 ^ (9 - length (take 9 ds)), dropWhile digit_char rest))
          else Some (0, s)
      | [] \<Rightarrow> Some (0, s))"

definition scan_offset :: "string \<Rightarrow> int option" where
  "scan_offset s = do {
     (zh, s1) \<leftarrow> scan_digits 2 0 s;
     s2 \<leftarrow> scan_char (CHR '':'') s1;
     (zm, s3) \<leftarrow> scan_digits 2 0 s2;
     if s3 \<noteq> [] \<or> 24 < zh \<or> 60 < zm then None else Some ((int zh * 60 + int zm) * 60) }"

definition scan_zone :: "string \<Rightarrow> int option" where
  "scan_zone s =
     (if s = ''Z'' then Some 0
      else case s of
        sign # rest \<Rightarrow>
          if sign = CHR ''+'' then scan_offset rest
          else if sign = CHR ''-'' then map_option uminus (scan_offset rest)
          else None
      | [] \<Rightarrow> None)"

text \<open>\<^verbatim>\<open>time.Parse(time.RFC3339, s)\<close>.\<close>

definition Parse_RFC3339 :: "string \<Rightarrow> instant option" where
  "Parse_RFC3339 s0 = do {
     (y, s1) \<leftarrow> scan_digits 4 0 s0;
     s2 \<leftarrow> scan_char (CHR ''-'') s1;
     (mo, s3) \<leftarrow> scan_digits 2 0 s2;
     s4 \<leftarrow> scan_char (CHR ''-'') s3;
     (d, s5) \<leftarrow> scan_digits 2 0 s4;
     s6 \<leftarrow> scan_char (CHR ''T'') s5;
     (h, s7) \<leftarrow> scan_digits 2 0 s6;
     s8 \<leftarrow> scan_char (CHR '':'') s7;
     (mi, s9) \<leftarrow> scan_digits 2 0 s8;
     s10 \<leftarrow> scan_char (CHR '':'') s9;
     (se, s11) \<leftarrow> scan_digits 2 0 s10;
     (frac, s12) \<leftarrow> scan_fraction s11;
     off \<leftarrow> scan_zone s12;
     if mo < 1 \<or> 12 < mo \<or> d < 1 \<or> days_in (int y) (int mo) < int d \<or> 24 \<le> h \<or> 60 \<le> mi \<or> 60 \<le> se
     then None
     else Some ((days_from_civil (int y) (int mo) (int d) * 86400
                 + int h * 3600 + int mi * 60 + int se - off) * Second + frac) }"

section \<open>Formatting\<close>

definition two_digits :: "int \<Rightarrow> string" where
  "two_digits n = [char_of (nat (n div 10 mod 10) + 48), char_of (nat (n mod 10) + 48)]"

definition civil_from_days :: "int \<Rightarrow> int \<times> int \<times> int" where
  "civil_from_days z0 =
     (let z = z0 + 719468;
          era = z div 146097;
          doe = z - era * 146097;
          yoe = (doe - doe div 1460 + doe div 36524 - doe div 146096) div 365;
          doy = doe - (365 * yoe + yoe div 4 - yoe div 100);
          mp = (5 * doy + 2) div 153;
          d = doy - (153 * mp + 2) div 5 + 1;
          m = (if mp < 10 then mp + 3 else mp - 9);
          y = yoe + era * 400
      in (if m \<le> 2 then y + 1 else y, m, d))"

text \<open>\<^verbatim>\<open>t.UTC().Format(time.RFC3339)\<close>, for years of four digits.\<close>

definition Format_RFC3339 :: "instant \<Rightarrow> string" where
  "Format_RFC3339 t =
     (let secs = t div Second;
          (y, m, d) = civil_from_days (secs div 86400);
          r = secs mod 86400
      in two_digits (y div 100) @ two_digits (y mod 100) @ ''-'' @ two_digits m @ ''-'' @ two_digits d
         @ ''T'' @ two_digits (r div 3600) @ '':'' @ two_digits (r div 60 mod 60) @ '':''
         @ two_digits (r mod 60) @ ''Z'')"

end
