(* ===== verification/Lifecycle.thy ===== *)
theory Lifecycle
  imports Main
begin

text \<open>
  The contract shared by every persisted lifecycle of the platform (jobs, deployments, module
  activations): a transition test, a set of final states, and a rank that every permitted transition
  increases. The clients of such a table rely only on these laws; each table is shown to satisfy
  them by an interpretation in the theory that defines it.
\<close>

locale ranked_lifecycle =
  fixes can :: "'s \<Rightarrow> 's \<Rightarrow> bool"
    and final :: "'s \<Rightarrow> bool"
    and rank :: "'s \<Rightarrow> nat"
    and top :: nat
  assumes can_rank: "can a b \<Longrightarrow> rank a < rank b"
    and final_stuck: "final a \<Longrightarrow> \<not> can a b"
    and rank_top: "rank a \<le> top"
begin

lemma path_rank: "(can ^^ n) a b \<Longrightarrow> rank a + n \<le> rank b"
proof (induction n arbitrary: b)
  case (Suc n)
  then obtain c where "(can ^^ n) a c" and "can c b" by (auto elim: relpowp_Suc_E)
  with Suc.IH [of c] can_rank [of c b] show ?case by simp
qed simp

lemma path_bounded: "(can ^^ n) a b \<Longrightarrow> n \<le> top"
  using path_rank [of n a b] rank_top [of b] by simp

lemma no_cycle: "\<not> can\<^sup>+\<^sup>+ a a"
proof
  assume "can\<^sup>+\<^sup>+ a a"
  then obtain n where "0 < n" and "(can ^^ n) a a" by (auto simp: tranclp_power)
  then show False using path_rank [of n a a] by simp
qed

lemma final_reach: "can\<^sup>*\<^sup>* a b \<Longrightarrow> final a \<Longrightarrow> b = a"
  by (induction rule: converse_rtranclp_induct) (auto dest: final_stuck)

lemma can_irrefl: "\<not> can a a"
  using can_rank by blast

end

end
