(* ===== verification/JobState.thy ===== *)
theory JobState
  imports Prelude Lifecycle
begin

text \<open>
  The job state machine, \<^verbatim>\<open>internal/platform/statemachine.go\<close>. A state is the string stored in the
  database; the two tables are association lists and the lookups of the code are lookups in them.
\<close>

abbreviation JobPending :: string where "JobPending \<equiv> ''pending''"
abbreviation JobQueued :: string where "JobQueued \<equiv> ''queued''"
abbreviation JobDispatched :: string where "JobDispatched \<equiv> ''dispatched''"
abbreviation JobRunning :: string where "JobRunning \<equiv> ''running''"
abbreviation JobSucceeded :: string where "JobSucceeded \<equiv> ''succeeded''"
abbreviation JobFailed :: string where "JobFailed \<equiv> ''failed''"
abbreviation JobCancelled :: string where "JobCancelled \<equiv> ''cancelled''"
abbreviation JobExpired :: string where "JobExpired \<equiv> ''expired''"

definition validStates :: "string list" where
  "validStates =
     [JobPending, JobQueued, JobDispatched, JobRunning, JobSucceeded, JobFailed, JobCancelled, JobExpired]"

definition allowedTransitions :: "(string \<times> string list) list" where
  "allowedTransitions =
     [(JobPending, [JobQueued, JobCancelled, JobExpired]),
      (JobQueued, [JobDispatched, JobCancelled, JobExpired]),
      (JobDispatched, [JobRunning, JobSucceeded, JobFailed, JobCancelled, JobExpired]),
      (JobRunning, [JobSucceeded, JobFailed, JobCancelled, JobExpired])]"

definition IsValidState :: "string \<Rightarrow> bool" where
  "IsValidState s = List.member validStates s"

definition CanTransition :: "string \<Rightarrow> string \<Rightarrow> bool" where
  "CanTransition from to =
     (case map_of allowedTransitions from of
        None \<Rightarrow> False
      | Some allowed \<Rightarrow> List.member allowed to)"

datatype transition_error =
    InvalidSourceState string
  | InvalidTargetState string
  | TransitionNotAllowed string string

definition TransitionJob :: "string \<Rightarrow> string \<Rightarrow> transition_error + unit" where
  "TransitionJob from to =
     (if \<not> IsValidState from then Inl (InvalidSourceState from)
      else if \<not> IsValidState to then Inl (InvalidTargetState to)
      else if \<not> CanTransition from to then Inl (TransitionNotAllowed from to)
      else Inr ())"

section \<open>Final states and rank\<close>

definition job_terminal :: "string \<Rightarrow> bool" where
  "job_terminal s = (s = JobSucceeded \<or> s = JobFailed \<or> s = JobCancelled \<or> s = JobExpired)"

definition job_rank :: "string \<Rightarrow> nat" where
  "job_rank s =
     (if s = JobPending then 1 else if s = JobQueued then 2 else if s = JobDispatched then 3
      else if s = JobRunning then 4 else if job_terminal s then 5 else 0)"

lemmas job_state_defs =
  validStates_def allowedTransitions_def IsValidState_def CanTransition_def TransitionJob_def
  job_terminal_def job_rank_def

text \<open>The table as a list of edges; facts about every edge are then checked by evaluation.\<close>

definition job_edges :: "(string \<times> string) list" where
  "job_edges = concat (map (\<lambda>(s, l). map (Pair s) l) allowedTransitions)"

lemma CanTransition_edges: "CanTransition a b \<longleftrightarrow> (a, b) \<in> set job_edges"
  by (auto simp: CanTransition_def job_edges_def allowedTransitions_def)

lemma job_edges_ok:
  "list_all (\<lambda>(a, b). job_rank a < job_rank b \<and> \<not> job_terminal a \<and> IsValidState a \<and> IsValidState b) job_edges"
  by code_simp

lemma CanTransition_edge:
  "CanTransition a b \<Longrightarrow>
     job_rank a < job_rank b \<and> \<not> job_terminal a \<and> IsValidState a \<and> IsValidState b"
  using job_edges_ok unfolding CanTransition_edges list_all_iff by blast

lemma job_rank_le: "job_rank s \<le> 5"
  by (simp add: job_rank_def)

lemma CanTransition_terminal: "job_terminal a \<Longrightarrow> \<not> CanTransition a b"
  using CanTransition_edge by blast

lemma valid_ranked: "list_all (\<lambda>s. 1 \<le> job_rank s) validStates"
  by code_simp

lemma IsValidState_rank: "IsValidState s \<Longrightarrow> 1 \<le> job_rank s"
  using valid_ranked by (auto simp: IsValidState_def list_all_iff)

lemma valid_expires: "list_all (\<lambda>s. job_terminal s \<or> CanTransition s JobExpired) validStates"
  by code_simp

interpretation job_lifecycle: ranked_lifecycle CanTransition job_terminal job_rank 5
  by unfold_locales (simp_all add: CanTransition_edge CanTransition_terminal job_rank_le)

lemma TransitionJob_ok: "TransitionJob a b = Inr () \<longleftrightarrow> CanTransition a b"
  using CanTransition_edge by (auto simp: TransitionJob_def)

lemma TransitionJob_terminal: "job_terminal a \<Longrightarrow> TransitionJob a b \<noteq> Inr ()"
  by (simp add: TransitionJob_ok CanTransition_terminal)

lemma terminal_reachable:
  "IsValidState s \<Longrightarrow> \<not> job_terminal s \<Longrightarrow> \<exists>t. job_terminal t \<and> CanTransition s t"
  using valid_expires by (auto simp: IsValidState_def list_all_iff job_terminal_def)

abbreviation job_step :: "string \<Rightarrow> string \<Rightarrow> bool" where
  "job_step a b \<equiv> TransitionJob a b = Inr ()"

lemma job_step_eq: "job_step = CanTransition"
  by (intro ext) (simp add: TransitionJob_ok)

text \<open>
  C1. Job state machine: a transition between two states is accepted exactly when the table lists
  it, so no accepted sequence of transitions revisits a state, no sequence is longer than four
  transitions when it starts at a valid state, and a sequence that starts in a final state is empty;
  every valid state that is not final has an accepted transition into a final one.
\<close>

theorem job_state_machine:
  "(TransitionJob a b = Inr () \<longleftrightarrow> (\<exists>l. (a, l) \<in> set allowedTransitions \<and> b \<in> set l))
   \<and> \<not> job_step\<^sup>+\<^sup>+ a a
   \<and> (IsValidState a \<longrightarrow> (job_step ^^ n) a b \<longrightarrow> n \<le> 4)
   \<and> (job_terminal a \<longrightarrow> job_step\<^sup>*\<^sup>* a b \<longrightarrow> b = a)
   \<and> (IsValidState a \<longrightarrow> \<not> job_terminal a \<longrightarrow> (\<exists>t. job_terminal t \<and> TransitionJob a t = Inr ()))"
proof (intro conjI impI)
  show "TransitionJob a b = Inr () \<longleftrightarrow> (\<exists>l. (a, l) \<in> set allowedTransitions \<and> b \<in> set l)"
    by (auto simp: TransitionJob_ok CanTransition_def allowedTransitions_def)
  show "\<not> job_step\<^sup>+\<^sup>+ a a"
    unfolding job_step_eq by (rule job_lifecycle.no_cycle)
  show "n \<le> 4" if "IsValidState a" "(job_step ^^ n) a b"
    using job_lifecycle.path_rank [of n a b] that job_rank_le [of b] IsValidState_rank [of a]
    unfolding job_step_eq by simp
  show "b = a" if "job_terminal a" "job_step\<^sup>*\<^sup>* a b"
    using that unfolding job_step_eq by (blast intro: job_lifecycle.final_reach)
  show "\<exists>t. job_terminal t \<and> TransitionJob a t = Inr ()" if "IsValidState a" "\<not> job_terminal a"
    using terminal_reachable [OF that] by (auto simp: TransitionJob_ok)
qed

lemma job_full_run: "(job_step ^^ 4) JobPending JobSucceeded"
proof -
  have "(job_step ^^ Suc (Suc (Suc (Suc 0)))) JobPending JobSucceeded"
    by (rule relpowp_Suc_I [where y = JobRunning] relpowp_Suc_I [where y = JobDispatched]
        relpowp_Suc_I [where y = JobQueued] relpowp_Suc_I [where y = JobPending] relpowp_0_I)+
       (code_simp)+
  then show ?thesis by (simp add: numeral_eq_Suc)
qed

theorem job_state_machine_witness:
  "IsValidState JobPending \<and> (job_step ^^ 4) JobPending JobSucceeded \<and> (4::nat) \<le> 4
   \<and> (\<exists>t. job_terminal t \<and> TransitionJob JobPending t = Inr ())"
proof -
  have v: "IsValidState JobPending" "\<not> job_terminal JobPending" by code_simp+
  show ?thesis
    using job_state_machine [of JobPending JobSucceeded 4] v job_full_run by blast
qed

end
