(* ===== verification/Envelope.thy ===== *)
theory Envelope
  imports Json GoTime JobState
begin

text \<open>
  The messages of the job protocol and the checks at both ends of it:
  \<^verbatim>\<open>internal/platform/command.go\<close> (the envelopes and the orchestrator's validation),
  \<^verbatim>\<open>subjectIdentity\<close> of \<^verbatim>\<open>internal/platform/dispatcher.go\<close>, and the agent's side of the protocol,
  \<^verbatim>\<open>validateCommand\<close> of \<^verbatim>\<open>internal/agent/jobs/handler.go\<close> and the message builders of
  \<^verbatim>\<open>internal/agent/jobs/ledger.go\<close>. The clock is the argument \<open>now\<close>.
\<close>

section \<open>Envelopes\<close>

record CommandEnvelope =
  cSchemaVersion :: int
  cEventID :: string
  cJobID :: string
  cTargetID :: string
  cMSPID :: string
  cClientID :: string
  cSiteID :: string
  cDeviceID :: string
  cAgentID :: string
  cCorrelationID :: string
  cAttempt :: int
  cIssuedAt :: string
  cExpiresAt :: string
  cCommandType :: string
  cPayload :: "json option"

record Acknowledgement =
  aSchemaVersion :: int
  aMessageID :: string
  aEventID :: string
  aJobID :: string
  aTargetID :: string
  aMSPID :: string
  aDeviceID :: string
  aAgentID :: string
  aCorrelationID :: string
  aAttempt :: int
  aStatus :: string
  aTimestamp :: string

record ResultEnvelope =
  rSchemaVersion :: int
  rMessageID :: string
  rEventID :: string
  rJobID :: string
  rTargetID :: string
  rMSPID :: string
  rClientID :: string
  rSiteID :: string
  rDeviceID :: string
  rAgentID :: string
  rCorrelationID :: string
  rAttempt :: int
  rStatus :: string
  rExitCode :: int
  rResult :: "json option"
  rError :: string
  rStartedAt :: string
  rCompletedAt :: string
  rDurationMs :: int
  rTruncated :: bool

abbreviation AckAccepted :: string where "AckAccepted \<equiv> ''accepted''"
abbreviation AckDuplicate :: string where "AckDuplicate \<equiv> ''duplicate''"
abbreviation AckRejected :: string where "AckRejected \<equiv> ''rejected''"
abbreviation AckExpired :: string where "AckExpired \<equiv> ''expired''"
abbreviation AckUnsupported :: string where "AckUnsupported \<equiv> ''unsupported''"

definition CurrentSchemaVersion :: int where "CurrentSchemaVersion = 1"

text \<open>\<^verbatim>\<open>json.Unmarshal\<close> into the three structs, field by field along their tags.\<close>

definition unmarshal_command :: "json wire \<Rightarrow> CommandEnvelope option" where
  "unmarshal_command data = do {
     kvs \<leftarrow> dec_object data;
     sv \<leftarrow> dec_int kvs ''schema_version'';
     ev \<leftarrow> dec_str kvs ''event_id'';
     jb \<leftarrow> dec_str kvs ''job_id'';
     tg \<leftarrow> dec_str kvs ''target_id'';
     ms \<leftarrow> dec_str kvs ''msp_id'';
     cl \<leftarrow> dec_str kvs ''client_id'';
     st \<leftarrow> dec_str kvs ''site_id'';
     dv \<leftarrow> dec_str kvs ''device_id'';
     ag \<leftarrow> dec_str kvs ''agent_id'';
     co \<leftarrow> dec_str kvs ''correlation_id'';
     att \<leftarrow> dec_int kvs ''attempt'';
     is \<leftarrow> dec_str kvs ''issued_at'';
     ex \<leftarrow> dec_str kvs ''expires_at'';
     ct \<leftarrow> dec_str kvs ''command_type'';
     Some \<lparr>cSchemaVersion = sv, cEventID = ev, cJobID = jb, cTargetID = tg, cMSPID = ms,
           cClientID = cl, cSiteID = st, cDeviceID = dv, cAgentID = ag, cCorrelationID = co,
           cAttempt = att, cIssuedAt = is, cExpiresAt = ex, cCommandType = ct,
           cPayload = dec_raw kvs ''payload''\<rparr> }"

definition unmarshal_ack :: "json wire \<Rightarrow> Acknowledgement option" where
  "unmarshal_ack data = do {
     kvs \<leftarrow> dec_object data;
     sv \<leftarrow> dec_int kvs ''schema_version'';
     mi \<leftarrow> dec_str kvs ''message_id'';
     ev \<leftarrow> dec_str kvs ''event_id'';
     jb \<leftarrow> dec_str kvs ''job_id'';
     tg \<leftarrow> dec_str kvs ''target_id'';
     ms \<leftarrow> dec_str kvs ''msp_id'';
     dv \<leftarrow> dec_str kvs ''device_id'';
     ag \<leftarrow> dec_str kvs ''agent_id'';
     co \<leftarrow> dec_str kvs ''correlation_id'';
     att \<leftarrow> dec_int kvs ''attempt'';
     st \<leftarrow> dec_str kvs ''status'';
     ts \<leftarrow> dec_str kvs ''timestamp'';
     Some \<lparr>aSchemaVersion = sv, aMessageID = mi, aEventID = ev, aJobID = jb, aTargetID = tg,
           aMSPID = ms, aDeviceID = dv, aAgentID = ag, aCorrelationID = co, aAttempt = att,
           aStatus = st, aTimestamp = ts\<rparr> }"

definition unmarshal_result :: "json wire \<Rightarrow> ResultEnvelope option" where
  "unmarshal_result data = do {
     kvs \<leftarrow> dec_object data;
     sv \<leftarrow> dec_int kvs ''schema_version'';
     mi \<leftarrow> dec_str kvs ''message_id'';
     ev \<leftarrow> dec_str kvs ''event_id'';
     jb \<leftarrow> dec_str kvs ''job_id'';
     tg \<leftarrow> dec_str kvs ''target_id'';
     ms \<leftarrow> dec_str kvs ''msp_id'';
     cl \<leftarrow> dec_str kvs ''client_id'';
     si \<leftarrow> dec_str kvs ''site_id'';
     dv \<leftarrow> dec_str kvs ''device_id'';
     ag \<leftarrow> dec_str kvs ''agent_id'';
     co \<leftarrow> dec_str kvs ''correlation_id'';
     att \<leftarrow> dec_int kvs ''attempt'';
     st \<leftarrow> dec_str kvs ''status'';
     xc \<leftarrow> dec_int kvs ''exit_code'';
     er \<leftarrow> dec_str kvs ''error'';
     sa \<leftarrow> dec_str kvs ''started_at'';
     ca \<leftarrow> dec_str kvs ''completed_at'';
     du \<leftarrow> dec_int kvs ''duration_ms'';
     tr \<leftarrow> dec_bool kvs ''truncated'';
     Some \<lparr>rSchemaVersion = sv, rMessageID = mi, rEventID = ev, rJobID = jb, rTargetID = tg,
           rMSPID = ms, rClientID = cl, rSiteID = si, rDeviceID = dv, rAgentID = ag,
           rCorrelationID = co, rAttempt = att, rStatus = st, rExitCode = xc,
           rResult = dec_raw kvs ''result'', rError = er, rStartedAt = sa, rCompletedAt = ca,
           rDurationMs = du, rTruncated = tr\<rparr> }"

section \<open>The orchestrator's checks\<close>

datatype envelope_error =
    MalformedEnvelope
  | UnsupportedSchemaVersion int
  | MissingIdentifiers
  | MissingMSPID
  | MSPMismatch string
  | AgentMismatch string
  | DeviceMismatch string
  | InvalidAttempt int
  | MissingCommandType
  | InvalidIssuedAt
  | IssuedInFuture
  | InvalidExpiresAt
  | CommandExpired
  | InvalidResultStatus string

definition ValidateCommandEnvelope ::
  "instant \<Rightarrow> json wire \<Rightarrow> string \<Rightarrow> string \<Rightarrow> string \<Rightarrow> envelope_error + CommandEnvelope" where
  "ValidateCommandEnvelope now raw enrolledMSPID enrolledAgentID enrolledDeviceID =
     (case unmarshal_command raw of
        None \<Rightarrow> Inl MalformedEnvelope
      | Some cmd \<Rightarrow>
          if cSchemaVersion cmd \<le> 0 \<or> CurrentSchemaVersion < cSchemaVersion cmd
            then Inl (UnsupportedSchemaVersion (cSchemaVersion cmd))
          else if cEventID cmd = [] \<or> cJobID cmd = [] \<or> cTargetID cmd = [] then Inl MissingIdentifiers
          else if cMSPID cmd = [] then Inl MissingMSPID
          else if enrolledMSPID \<noteq> [] \<and> cMSPID cmd \<noteq> enrolledMSPID then Inl (MSPMismatch (cMSPID cmd))
          else if enrolledAgentID \<noteq> [] \<and> cAgentID cmd \<noteq> [] \<and> cAgentID cmd \<noteq> enrolledAgentID
            then Inl (AgentMismatch (cAgentID cmd))
          else if enrolledDeviceID \<noteq> [] \<and> cDeviceID cmd \<noteq> enrolledDeviceID
            then Inl (DeviceMismatch (cDeviceID cmd))
          else if cAttempt cmd < 1 then Inl (InvalidAttempt (cAttempt cmd))
          else if cCommandType cmd = [] then Inl MissingCommandType
          else (case Parse_RFC3339 (cIssuedAt cmd) of
                  None \<Rightarrow> Inl InvalidIssuedAt
                | Some issuedAt \<Rightarrow>
                    if issuedAt > now + 5 * Minute then Inl IssuedInFuture
                    else if cExpiresAt cmd = [] then Inr cmd
                    else (case Parse_RFC3339 (cExpiresAt cmd) of
                            None \<Rightarrow> Inl InvalidExpiresAt
                          | Some expiresAt \<Rightarrow>
                              if now > expiresAt then Inl CommandExpired else Inr cmd)))"

definition validResults :: "string list" where
  "validResults = [''succeeded'', ''failed'', ''cancelled'', ''expired'']"

definition ValidateResultEnvelope ::
  "json wire \<Rightarrow> string \<Rightarrow> string \<Rightarrow> string \<Rightarrow> envelope_error + ResultEnvelope" where
  "ValidateResultEnvelope raw enrolledMSPID enrolledAgentID enrolledDeviceID =
     (case unmarshal_result raw of
        None \<Rightarrow> Inl MalformedEnvelope
      | Some res \<Rightarrow>
          if rSchemaVersion res \<le> 0 \<or> CurrentSchemaVersion < rSchemaVersion res
            then Inl (UnsupportedSchemaVersion (rSchemaVersion res))
          else if rEventID res = [] \<or> rJobID res = [] \<or> rTargetID res = [] then Inl MissingIdentifiers
          else if rMSPID res = [] then Inl MissingMSPID
          else if enrolledMSPID \<noteq> [] \<and> rMSPID res \<noteq> enrolledMSPID then Inl (MSPMismatch (rMSPID res))
          else if enrolledAgentID \<noteq> [] \<and> rAgentID res \<noteq> enrolledAgentID
            then Inl (AgentMismatch (rAgentID res))
          else if enrolledDeviceID \<noteq> [] \<and> rDeviceID res \<noteq> enrolledDeviceID
            then Inl (DeviceMismatch (rDeviceID res))
          else if rAttempt res < 1 then Inl (InvalidAttempt (rAttempt res))
          else if \<not> List.member validResults (rStatus res) then Inl (InvalidResultStatus (rStatus res))
          else Inr res)"

text \<open>The tenant and agent named by a subject \<^verbatim>\<open>tenant.MSP.agent.AGENT.SUFFIX\<close>.\<close>

definition subjectIdentity :: "string \<Rightarrow> string \<Rightarrow> string \<times> string \<times> bool" where
  "subjectIdentity subject suffix =
     (let parts = Split (CHR ''.'') subject
      in if length parts \<noteq> 5 \<or> parts ! 0 \<noteq> ''tenant'' \<or> parts ! 2 \<noteq> ''agent'' \<or> parts ! 4 \<noteq> suffix
         then ([], [], False)
         else (parts ! 1, parts ! 3, parts ! 1 \<noteq> [] \<and> parts ! 3 \<noteq> []))"

text \<open>The subject as both sides format it.\<close>

definition agent_subject :: "string \<Rightarrow> string \<Rightarrow> string \<Rightarrow> string" where
  "agent_subject mspID agentID suffix =
     ''tenant.'' @ mspID @ ''.agent.'' @ agentID @ ''.'' @ suffix"

section \<open>The agent's checks and messages\<close>

datatype command_error = MalformedCommand | InvalidCommand | OwnershipMismatch | ExpiredCommand

definition validateCommand ::
  "instant \<Rightarrow> json wire \<Rightarrow> string \<Rightarrow> string \<Rightarrow> command_error + CommandEnvelope" where
  "validateCommand now data tenantID agentID =
     (case unmarshal_command data of
        None \<Rightarrow> Inl MalformedCommand
      | Some cmd \<Rightarrow>
          if cSchemaVersion cmd \<noteq> 1 \<or> cEventID cmd = [] \<or> cJobID cmd = [] \<or> cTargetID cmd = []
             \<or> cDeviceID cmd = [] \<or> cCorrelationID cmd = [] \<or> cCommandType cmd = [] \<or> cAttempt cmd < 1
            then Inl InvalidCommand
          else if cMSPID cmd \<noteq> tenantID \<or> (cAgentID cmd \<noteq> [] \<and> cAgentID cmd \<noteq> agentID)
            then Inl OwnershipMismatch
          else if cExpiresAt cmd = [] then Inr cmd
          else (case Parse_RFC3339 (cExpiresAt cmd) of
                  None \<Rightarrow> Inl ExpiredCommand
                | Some expiresAt \<Rightarrow> if \<not> now < expiresAt then Inl ExpiredCommand else Inr cmd))"

definition ack_message_id :: "string \<Rightarrow> int \<Rightarrow> string \<Rightarrow> string" where
  "ack_message_id eventID attempt status =
     ''ack-'' @ eventID @ ''-'' @ int_digits attempt @ ''-'' @ status"

definition PublishAcknowledgement ::
  "instant \<Rightarrow> string \<Rightarrow> string \<Rightarrow> string \<Rightarrow> string \<Rightarrow> string \<Rightarrow> string \<Rightarrow> string \<Rightarrow> int \<Rightarrow> string \<Rightarrow> json" where
  "PublishAcknowledgement now eventID jobID targetID mspID deviceID agentID correlationID attempt status =
     JObj [(''schema_version'', JNum 1),
           (''message_id'', JStr (ack_message_id eventID attempt status)),
           (''event_id'', JStr eventID), (''job_id'', JStr jobID), (''target_id'', JStr targetID),
           (''msp_id'', JStr mspID), (''device_id'', JStr deviceID), (''agent_id'', JStr agentID),
           (''correlation_id'', JStr correlationID), (''attempt'', JNum (of_int attempt)),
           (''status'', JStr status), (''timestamp'', JStr (Format_RFC3339 now))]"

definition res_message_id :: "string \<Rightarrow> int \<Rightarrow> string" where
  "res_message_id eventID attempt = ''res-'' @ eventID @ ''-'' @ int_digits attempt"

text \<open>
  The result bytes a command handler returns: \<open>None\<close> for a nil slice, which marshals to \<^verbatim>\<open>null\<close>;
  bytes that are not JSON make \<^verbatim>\<open>json.Marshal\<close> fail.
\<close>

type_synonym result_bytes = "json wire option"

definition raw_message :: "result_bytes \<Rightarrow> json option" where
  "raw_message b =
     (case b of None \<Rightarrow> Some JNull | Some Malformed \<Rightarrow> None | Some (Decoded j) \<Rightarrow> Some j)"

text \<open>Go integer division truncates towards zero.\<close>

definition quot :: "int \<Rightarrow> int \<Rightarrow> int" where
  "quot a b = sgn a * sgn b * (\<bar>a\<bar> div \<bar>b\<bar>)"

definition MarshalResult ::
  "string \<Rightarrow> CommandEnvelope \<Rightarrow> string \<Rightarrow> string \<Rightarrow> int \<Rightarrow> result_bytes \<Rightarrow> string \<Rightarrow> instant \<Rightarrow> instant
     \<Rightarrow> string \<times> json option" where
  "MarshalResult msgID0 cmd agentID status exitCode resultJSON errorStr startedAt completedAt =
     (let msgID = (if msgID0 = [] then res_message_id (cEventID cmd) (cAttempt cmd) else msgID0)
      in (msgID,
          map_option (\<lambda>result. JObj
            [(''schema_version'', JNum 1), (''message_id'', JStr msgID),
             (''event_id'', JStr (cEventID cmd)), (''job_id'', JStr (cJobID cmd)),
             (''target_id'', JStr (cTargetID cmd)), (''msp_id'', JStr (cMSPID cmd)),
             (''client_id'', JStr (cClientID cmd)), (''site_id'', JStr (cSiteID cmd)),
             (''device_id'', JStr (cDeviceID cmd)), (''agent_id'', JStr agentID),
             (''correlation_id'', JStr (cCorrelationID cmd)),
             (''attempt'', JNum (of_int (cAttempt cmd))), (''status'', JStr status),
             (''exit_code'', JNum (of_int exitCode)), (''result'', result), (''error'', JStr errorStr),
             (''started_at'', JStr (Format_RFC3339 startedAt)),
             (''completed_at'', JStr (Format_RFC3339 completedAt)),
             (''duration_ms'', JNum (of_int (quot (completedAt - startedAt) 1000000)))])
            (raw_message resultJSON)))"

section \<open>Field names\<close>

text \<open>
  Every key the two sides write is in lower case, so matching keys up to case is equality on them.
\<close>

definition wire_names :: "string list" where
  "wire_names =
     [''schema_version'', ''message_id'', ''event_id'', ''job_id'', ''target_id'', ''msp_id'',
      ''client_id'', ''site_id'', ''device_id'', ''agent_id'', ''correlation_id'', ''attempt'',
      ''status'', ''exit_code'', ''result'', ''error'', ''started_at'', ''completed_at'',
      ''duration_ms'', ''truncated'', ''timestamp'', ''issued_at'', ''expires_at'',
      ''command_type'', ''payload'', ''type'']"

lemma wire_names_lower: "list_all (\<lambda>s. ToLower s = s) wire_names"
  by code_simp

lemmas wire_name_facts = wire_names_lower [unfolded wire_names_def list.pred_inject]

section \<open>Decoding\<close>

lemma unmarshal_command_attempt:
  assumes "unmarshal_command data = Some cmd"
  shows "- (2 ^ 63) \<le> cAttempt cmd \<and> cAttempt cmd < 2 ^ 63"
proof -
  from assms obtain kvs where "dec_int kvs ''attempt'' = Some (cAttempt cmd)"
    unfolding unmarshal_command_def by (auto simp: bind_eq_Some_conv)
  then show ?thesis by (rule dec_int_range)
qed

lemma validateCommand_ok:
  "validateCommand now data t a = Inr cmd \<longleftrightarrow>
     unmarshal_command data = Some cmd \<and> cSchemaVersion cmd = 1 \<and> cEventID cmd \<noteq> [] \<and> cJobID cmd \<noteq> []
     \<and> cTargetID cmd \<noteq> [] \<and> cDeviceID cmd \<noteq> [] \<and> cCorrelationID cmd \<noteq> [] \<and> cCommandType cmd \<noteq> []
     \<and> 1 \<le> cAttempt cmd \<and> cMSPID cmd = t \<and> (cAgentID cmd = [] \<or> cAgentID cmd = a)
     \<and> (cExpiresAt cmd = [] \<or> (\<exists>e. Parse_RFC3339 (cExpiresAt cmd) = Some e \<and> now < e))"
  by (auto simp: validateCommand_def split: option.splits)

lemma ValidateResultEnvelope_ok:
  "ValidateResultEnvelope data m a d = Inr res \<longleftrightarrow>
     unmarshal_result data = Some res \<and> rSchemaVersion res = 1 \<and> rEventID res \<noteq> [] \<and> rJobID res \<noteq> []
     \<and> rTargetID res \<noteq> [] \<and> rMSPID res \<noteq> [] \<and> (m = [] \<or> rMSPID res = m) \<and> (a = [] \<or> rAgentID res = a)
     \<and> (d = [] \<or> rDeviceID res = d) \<and> 1 \<le> rAttempt res \<and> rStatus res \<in> set validResults"
  (is "?lhs = ?rhs")
proof
  assume ?lhs
  then show ?rhs
    by (simp add: ValidateResultEnvelope_def CurrentSchemaVersion_def split: option.splits if_splits)
next
  assume ?rhs
  then show ?lhs
    by (simp add: ValidateResultEnvelope_def CurrentSchemaVersion_def)
qed

lemma validResults_terminal: "s \<in> set validResults \<longleftrightarrow> job_terminal s"
  by (auto simp: validResults_def job_terminal_def)

text \<open>What the agent marshals decodes to the fields of the command it answers.\<close>

definition result_of ::
  "string \<Rightarrow> CommandEnvelope \<Rightarrow> string \<Rightarrow> string \<Rightarrow> int \<Rightarrow> json \<Rightarrow> string \<Rightarrow> instant \<Rightarrow> instant \<Rightarrow> ResultEnvelope" where
  "result_of msgID cmd agentID status exitCode result errorStr startedAt completedAt =
     \<lparr>rSchemaVersion = 1, rMessageID = msgID, rEventID = cEventID cmd, rJobID = cJobID cmd,
      rTargetID = cTargetID cmd, rMSPID = cMSPID cmd, rClientID = cClientID cmd,
      rSiteID = cSiteID cmd, rDeviceID = cDeviceID cmd, rAgentID = agentID,
      rCorrelationID = cCorrelationID cmd, rAttempt = cAttempt cmd, rStatus = status,
      rExitCode = exitCode, rResult = Some result, rError = errorStr,
      rStartedAt = Format_RFC3339 startedAt, rCompletedAt = Format_RFC3339 completedAt,
      rDurationMs = quot (completedAt - startedAt) 1000000, rTruncated = False\<rparr>"

definition int64 :: "int \<Rightarrow> bool" where
  "int64 i = (- (2 ^ 63) \<le> i \<and> i < 2 ^ 63)"

lemma int_of_rat_1 [simp]: "int_of_rat 1 = Some 1"
  using int_of_rat_of_int [of 1] by simp

lemma unmarshal_MarshalResult:
  assumes "raw_message result = Some j" and "int64 (cAttempt cmd)" and "int64 exitCode"
    and "int64 (quot (completedAt - startedAt) 1000000)"
    and "MarshalResult [] cmd agentID status exitCode result err startedAt completedAt = (msgID, Some doc)"
  shows "unmarshal_result (Decoded doc) =
           Some (result_of msgID cmd agentID status exitCode j err startedAt completedAt)"
proof -
  note num = assms(2-4) [unfolded int64_def]
  show ?thesis
    using assms(1,5) num
    by (clarsimp simp: MarshalResult_def Let_def unmarshal_result_def result_of_def dec_object_def
        dec_int_def dec_str_def dec_bool_def dec_raw_def wire_name_facts)
qed

section \<open>Subjects\<close>

lemma agent_subject_Join:
  "agent_subject m a suffix = Join (CHR ''.'') [''tenant'', m, ''agent'', a, suffix]"
  by (simp add: agent_subject_def)

lemma subjectIdentity_parts:
  "subjectIdentity s suffix = (m, a, True) \<longleftrightarrow>
     Split (CHR ''.'') s = [''tenant'', m, ''agent'', a, suffix] \<and> m \<noteq> [] \<and> a \<noteq> []"
proof -
  have five: "length ps = 5 \<longleftrightarrow> (\<exists>p0 p1 p2 p3 p4. ps = [p0, p1, p2, p3, p4])" for ps :: "string list"
    by (auto simp: length_Suc_conv numeral_eq_Suc)
  show ?thesis
  proof (cases "length (Split (CHR ''.'') s) = 5")
    case True
    then obtain p0 p1 p2 p3 p4 where "Split (CHR ''.'') s = [p0, p1, p2, p3, p4]"
      using five by blast
    then show ?thesis by (auto simp: subjectIdentity_def numeral_eq_Suc Let_def split: if_splits)
  next
    case False
    then show ?thesis by (auto simp: subjectIdentity_def)
  qed
qed

text \<open>
  C2. Tenant isolation of subjects: the identity taken from a subject is the one it was built from,
  and a subject that yields a tenant and an agent is exactly the subject of that tenant and that
  agent with the expected suffix; tokens with separators in them cannot forge another identity.
\<close>

theorem subject_identity_exact:
  "(subjectIdentity s suffix = (m, a, True) \<longrightarrow>
      s = agent_subject m a suffix \<and> CHR ''.'' \<notin> set m \<and> CHR ''.'' \<notin> set a)
   \<and> (m \<noteq> [] \<and> a \<noteq> [] \<and> CHR ''.'' \<notin> set m \<and> CHR ''.'' \<notin> set a \<and> CHR ''.'' \<notin> set suffix \<longrightarrow>
      subjectIdentity (agent_subject m a suffix) suffix = (m, a, True))"
proof (intro conjI impI; (elim conjE)?)
  assume "subjectIdentity s suffix = (m, a, True)"
  then have sp: "Split (CHR ''.'') s = [''tenant'', m, ''agent'', a, suffix]"
    by (simp add: subjectIdentity_parts)
  have "CHR ''.'' \<notin> set w" if "w \<in> set (Split (CHR ''.'') s)" for w
    using that by (rule Split_sep_free)
  with sp show "CHR ''.'' \<notin> set m" "CHR ''.'' \<notin> set a" by auto
  show "s = agent_subject m a suffix"
    unfolding agent_subject_Join using sp Join_Split [of "CHR ''.''" s] by simp
next
  assume nonempty: "m \<noteq> []" "a \<noteq> []" and dots: "CHR ''.'' \<notin> set m" "CHR ''.'' \<notin> set a" "CHR ''.'' \<notin> set suffix"
  have "Split (CHR ''.'') (agent_subject m a suffix) = [''tenant'', m, ''agent'', a, suffix]"
    unfolding agent_subject_Join by (rule Split_Join) (use dots in auto)
  with nonempty show "subjectIdentity (agent_subject m a suffix) suffix = (m, a, True)"
    by (simp add: subjectIdentity_parts)
qed

theorem subject_identity_exact_witness:
  "subjectIdentity (agent_subject ''acme'' ''a1'' ''result'') ''result'' = (''acme'', ''a1'', True)
   \<and> agent_subject ''acme'' ''a1'' ''result'' = ''tenant.acme.agent.a1.result''"
  using subject_identity_exact [of _ "''result''" "''acme''" "''a1''"] by (simp add: agent_subject_def)

text \<open>
  Result protocol: whatever terminal status an agent reports for a command it accepted, the
  document it marshals passes the orchestrator's validation for the tenant and the agent of the
  subject it is published on, and the decoded result carries the identifiers, the attempt and the
  correlation of the command, the reported status, exit code, error and result document.
\<close>

theorem result_envelope_roundtrip:
  assumes "validateCommand now data tenant agent = Inr cmd"
    and "tenant \<noteq> []" and "agent \<noteq> []" and "job_terminal status"
    and "raw_message bytes = Some j" and "int64 exitCode"
    and "int64 (quot (completedAt - startedAt) 1000000)"
  shows "\<exists>doc. MarshalResult [] cmd agent status exitCode bytes err startedAt completedAt
             = (res_message_id (cEventID cmd) (cAttempt cmd), Some doc)
           \<and> ValidateResultEnvelope (Decoded doc) tenant agent [] =
               Inr (result_of (res_message_id (cEventID cmd) (cAttempt cmd)) cmd agent status exitCode j err
                      startedAt completedAt)"
proof -
  from assms(1) have ok: "unmarshal_command data = Some cmd" "cEventID cmd \<noteq> []" "cJobID cmd \<noteq> []"
    "cTargetID cmd \<noteq> []" "1 \<le> cAttempt cmd" "cMSPID cmd = tenant"
    by (auto simp: validateCommand_ok)
  have att: "int64 (cAttempt cmd)"
    using unmarshal_command_attempt [OF ok(1)] by (simp add: int64_def)
  obtain doc where doc: "MarshalResult [] cmd agent status exitCode bytes err startedAt completedAt
      = (res_message_id (cEventID cmd) (cAttempt cmd), Some doc)"
    using assms(5) by (simp add: MarshalResult_def Let_def)
  have "unmarshal_result (Decoded doc) = Some (result_of (res_message_id (cEventID cmd) (cAttempt cmd))
      cmd agent status exitCode j err startedAt completedAt)"
    by (rule unmarshal_MarshalResult [OF assms(5) att assms(6,7) doc])
  moreover have "status \<in> set validResults" using assms(4) by (simp add: validResults_terminal)
  ultimately show ?thesis
    using doc ok assms(2,3) by (auto simp: ValidateResultEnvelope_ok result_of_def)
qed

definition example_command :: json where
  "example_command = JObj
     [(''schema_version'', JNum 1), (''event_id'', JStr ''j:t:1''), (''job_id'', JStr ''j''),
      (''target_id'', JStr ''t''), (''msp_id'', JStr ''acme''), (''device_id'', JStr ''d''),
      (''agent_id'', JStr ''a1''), (''correlation_id'', JStr ''c''), (''attempt'', JNum 1),
      (''expires_at'', JStr ''2024-02-29T12:30:15Z''), (''command_type'', JStr ''script'')]"

lemma example_command_ok:
  "case validateCommand 0 (Decoded example_command) ''acme'' ''a1'' of
     Inl e \<Rightarrow> False | Inr cmd \<Rightarrow> cJobID cmd = ''j''"
  by code_simp

theorem result_envelope_roundtrip_witness:
  "\<exists>cmd doc. validateCommand 0 (Decoded example_command) ''acme'' ''a1'' = Inr cmd
     \<and> MarshalResult [] cmd ''a1'' ''succeeded'' 0 None [] 0 1000000
         = (res_message_id (cEventID cmd) (cAttempt cmd), Some doc)
     \<and> ValidateResultEnvelope (Decoded doc) ''acme'' ''a1'' [] =
         Inr (result_of (res_message_id (cEventID cmd) (cAttempt cmd)) cmd ''a1'' ''succeeded'' 0 JNull [] 0 1000000)"
proof -
  obtain cmd where cmd: "validateCommand 0 (Decoded example_command) ''acme'' ''a1'' = Inr cmd"
    using example_command_ok by (auto split: sum.splits)
  have "job_terminal ''succeeded''" "raw_message None = Some JNull" "int64 0"
    "int64 (quot (1000000 - 0) 1000000)"
    by (simp_all add: job_terminal_def raw_message_def int64_def quot_def)
  from result_envelope_roundtrip [OF cmd _ _ this, where err = "[]"] cmd show ?thesis by blast
qed

end
