(* ===== verification/OnceLedger.thy ===== *)
theory OnceLedger
  imports Main
begin

text \<open>
  What a durable command ledger promises to the code that executes commands: every key moves through
  phases (0: unknown, 1: recorded and not started, 2: started or finished) and never back, and a
  start is granted only in the phase before. From these laws alone, a key is started at most once in
  any interleaving of ledger operations, whichever goroutines issue them and however often a command
  is redelivered.
\<close>

fun count_starts :: "('op \<Rightarrow> 'l \<Rightarrow> 'l) \<Rightarrow> ('op \<Rightarrow> 'l \<Rightarrow> bool) \<Rightarrow> 'l \<Rightarrow> 'op list \<Rightarrow> nat" where
  "count_starts step starts l [] = 0"
| "count_starts step starts l (x # xs) =
     (if starts x l then 1 else 0) + count_starts step starts (step x l) xs"

locale once_ledger =
  fixes ok :: "'op \<Rightarrow> bool"
    and step :: "'op \<Rightarrow> 'l \<Rightarrow> 'l"
    and starts :: "'k \<Rightarrow> 'op \<Rightarrow> 'l \<Rightarrow> bool"
    and phase :: "'l \<Rightarrow> 'k \<Rightarrow> nat"
    and inv :: "'l \<Rightarrow> bool"
  assumes inv_step: "inv l \<Longrightarrow> ok x \<Longrightarrow> inv (step x l)"
    and phase_mono: "inv l \<Longrightarrow> ok x \<Longrightarrow> phase l k \<le> phase (step x l) k"
    and start_phase: "inv l \<Longrightarrow> ok x \<Longrightarrow> starts k x l \<Longrightarrow> phase l k = 1 \<and> phase (step x l) k = 2"
begin

lemma started_no_more:
  "inv l \<Longrightarrow> list_all ok xs \<Longrightarrow> 2 \<le> phase l k \<Longrightarrow> count_starts step (starts k) l xs = 0"
proof (induction xs arbitrary: l)
  case (Cons x xs)
  then have x: "ok x" and xs: "list_all ok xs" by auto
  have "\<not> starts k x l" using start_phase [OF Cons.prems(1) x] Cons.prems(3) by fastforce
  moreover have "2 \<le> phase (step x l) k" using phase_mono [OF Cons.prems(1) x, of k] Cons.prems(3) by simp
  then have "count_starts step (starts k) (step x l) xs = 0"
    using Cons.IH [OF inv_step [OF Cons.prems(1) x] xs] by blast
  ultimately show ?case by simp
qed simp

lemma at_most_once:
  "inv l \<Longrightarrow> list_all ok xs \<Longrightarrow> count_starts step (starts k) l xs \<le> 1"
proof (induction xs arbitrary: l)
  case (Cons x xs)
  then have x: "ok x" and xs: "list_all ok xs" by auto
  note inv' = inv_step [OF Cons.prems(1) x]
  show ?case
  proof (cases "starts k x l")
    case True
    then have "2 \<le> phase (step x l) k" using start_phase [OF Cons.prems(1) x] by simp
    with True started_no_more [OF inv' xs] show ?thesis by simp
  next
    case False
    with Cons.IH [OF inv' xs] show ?thesis by simp
  qed
qed simp

end

text \<open>
  A ledger that can also give a claim back: a key is held from a start until a release. Between two starts
  of a key there is a release of it.
\<close>

locale claim_ledger =
  fixes ok :: "'op \<Rightarrow> bool"
    and step :: "'op \<Rightarrow> 'l \<Rightarrow> 'l"
    and starts :: "'k \<Rightarrow> 'op \<Rightarrow> 'l \<Rightarrow> bool"
    and releases :: "'k \<Rightarrow> 'op \<Rightarrow> 'l \<Rightarrow> bool"
    and held :: "'l \<Rightarrow> 'k \<Rightarrow> bool"
    and inv :: "'l \<Rightarrow> bool"
  assumes claim_inv: "inv l \<Longrightarrow> ok x \<Longrightarrow> inv (step x l)"
    and claim_start: "inv l \<Longrightarrow> ok x \<Longrightarrow> starts k x l \<Longrightarrow> \<not> held l k \<and> held (step x l) k"
    and claim_keep: "inv l \<Longrightarrow> ok x \<Longrightarrow> held l k \<Longrightarrow> \<not> releases k x l \<Longrightarrow> held (step x l) k"
begin

lemma starts_after_releases:
  "inv l \<Longrightarrow> list_all ok xs \<Longrightarrow>
     count_starts step (starts k) l xs + (if held l k then 1 else 0) \<le> count_starts step (releases k) l xs + 1"
proof (induction xs arbitrary: l)
  case (Cons x xs)
  then have x: "ok x" and xs: "list_all ok xs" by auto
  note ih = Cons.IH [OF claim_inv [OF Cons.prems(1) x] xs]
  show ?case
    using ih claim_start [OF Cons.prems(1) x, of k] claim_keep [OF Cons.prems(1) x, of k]
    by (cases "starts k x l"; cases "releases k x l"; cases "held l k"; cases "held (step x l) k") auto
qed simp

end

sublocale once_ledger \<subseteq> claims: claim_ledger ok step starts "\<lambda>_ _ _. False" "\<lambda>l k. 2 \<le> phase l k" inv
proof
  show "inv l \<Longrightarrow> ok x \<Longrightarrow> inv (step x l)" for l x by (rule inv_step)
  show "inv l \<Longrightarrow> ok x \<Longrightarrow> starts k x l \<Longrightarrow> \<not> 2 \<le> phase l k \<and> 2 \<le> phase (step x l) k" for l x k
    using start_phase by fastforce
  show "inv l \<Longrightarrow> ok x \<Longrightarrow> 2 \<le> phase l k \<Longrightarrow> \<not> False \<Longrightarrow> 2 \<le> phase (step x l) k" for l x k
    using phase_mono [of l x k] by simp
qed

end
