(* ===== verification/ReceiptLedger.thy ===== *)
theory ReceiptLedger
  imports Envelope OnceLedger
begin

text \<open>
  The agent's durable command ledger, \<^verbatim>\<open>internal/agent/jobs/ledger.go\<close> and
  \<^verbatim>\<open>internal/agent/jobs/recovery.go\<close>. The bucket \<^verbatim>\<open>command_receipts\<close> maps an event id to the
  JSON text of a receipt, which is kept here as what \<^verbatim>\<open>json.Unmarshal\<close> reads from it. Every
  operation is one bbolt transaction: it commits its bucket or leaves it as it was. The argument
  \<open>io\<close> says whether the storage accepts the commit.
\<close>

section \<open>Receipts\<close>

abbreviation StateReceived :: string where "StateReceived \<equiv> ''received''"
abbreviation StateRunning :: string where "StateRunning \<equiv> ''running''"
abbreviation StateSucceeded :: string where "StateSucceeded \<equiv> ''succeeded''"
abbreviation StateFailed :: string where "StateFailed \<equiv> ''failed''"
abbreviation StateCancelled :: string where "StateCancelled \<equiv> ''cancelled''"
abbreviation StateExpired :: string where "StateExpired \<equiv> ''expired''"

record CommandReceipt =
  rcEventID :: string
  rcJobID :: string
  rcTargetID :: string
  rcMSPID :: string
  rcClientID :: string
  rcSiteID :: string
  rcDeviceID :: string
  rcAgentID :: string
  rcCorrelationID :: string
  rcAttempt :: int
  rcCommandType :: string
  rcReceivedAt :: string
  rcState :: string
  rcResultMsgID :: string
  rcResultEnvelope :: "json option"
  rcResultAcked :: bool

type_synonym ledger = "CommandReceipt wire bucket"

datatype ledger_error =
    EventIDRequired
  | DuplicateReceipt
  | ReceiptNotFound
  | UndecodableReceipt
  | MessageIDRequired
  | IdentifierRequired
  | InvalidReceivedAt
  | StorageError

text \<open>Commit of a transaction whose body produced a bucket and a value, or failed.\<close>

definition bolt_update :: "bool \<Rightarrow> ledger \<Rightarrow> ledger_error + ledger \<times> 'a \<Rightarrow> ledger \<times> (ledger_error + 'a)" where
  "bolt_update io b body =
     (case body of
        Inl e \<Rightarrow> (b, Inl e)
      | Inr (b', x) \<Rightarrow> if io then (b', Inr x) else (b, Inl StorageError))"

section \<open>Operations\<close>

definition RecordReceipt :: "bool \<Rightarrow> CommandReceipt \<Rightarrow> ledger \<Rightarrow> ledger \<times> (ledger_error + unit)" where
  "RecordReceipt io receipt b =
     (if rcEventID receipt = [] then (b, Inl EventIDRequired)
      else bolt_update io b
        (case bucket_get b (rcEventID receipt) of
           Some _ \<Rightarrow> Inl DuplicateReceipt
         | None \<Rightarrow> Inr (bucket_put (rcEventID receipt) (Decoded receipt) b, ())))"

definition GetReceipt :: "string \<Rightarrow> ledger \<Rightarrow> ledger_error + CommandReceipt" where
  "GetReceipt eventID b =
     (case bucket_get b eventID of
        None \<Rightarrow> Inl ReceiptNotFound
      | Some Malformed \<Rightarrow> Inl UndecodableReceipt
      | Some (Decoded r) \<Rightarrow> Inr r)"

definition IsDuplicate :: "string \<Rightarrow> ledger \<Rightarrow> bool" where
  "IsDuplicate eventID b = (case GetReceipt eventID b of Inl _ \<Rightarrow> False | Inr _ \<Rightarrow> True)"

text \<open>The shared read-modify-write; the mutation also returns what its closure captured.\<close>

definition ledger_update ::
  "bool \<Rightarrow> string \<Rightarrow> (CommandReceipt \<Rightarrow> CommandReceipt \<times> 'a) \<Rightarrow> ledger \<Rightarrow> ledger \<times> (ledger_error + 'a)" where
  "ledger_update io eventID mutate b =
     bolt_update io b
       (case GetReceipt eventID b of
          Inl e \<Rightarrow> Inl e
        | Inr r \<Rightarrow> (case mutate r of (r', x) \<Rightarrow> Inr (bucket_put eventID (Decoded r') b, x)))"

definition MarkRunning :: "bool \<Rightarrow> string \<Rightarrow> ledger \<Rightarrow> ledger \<times> (ledger_error + unit)" where
  "MarkRunning io eventID = ledger_update io eventID (\<lambda>r. (r\<lparr>rcState := StateRunning\<rparr>, ()))"

definition BeginExecution :: "bool \<Rightarrow> string \<Rightarrow> ledger \<Rightarrow> ledger \<times> (ledger_error + bool)" where
  "BeginExecution io eventID =
     ledger_update io eventID
       (\<lambda>r. if rcState r \<noteq> StateReceived then (r, False) else (r\<lparr>rcState := StateRunning\<rparr>, True))"

definition MarkComplete ::
  "bool \<Rightarrow> string \<Rightarrow> string \<Rightarrow> string \<Rightarrow> json \<Rightarrow> ledger \<Rightarrow> ledger \<times> (ledger_error + unit)" where
  "MarkComplete io eventID status resultMsgID envelope =
     ledger_update io eventID
       (\<lambda>r. (r\<lparr>rcState := status, rcResultMsgID := resultMsgID, rcResultEnvelope := Some envelope,
               rcResultAcked := False\<rparr>, ()))"

definition ResumeInterruptedExecution :: "bool \<Rightarrow> string \<Rightarrow> ledger \<Rightarrow> ledger \<times> (ledger_error + bool)" where
  "ResumeInterruptedExecution io eventID =
     ledger_update io eventID
       (\<lambda>r. if rcState r \<noteq> StateRunning then (r, False) else (r\<lparr>rcState := StateReceived\<rparr>, True))"

text \<open>
  \<^verbatim>\<open>ForEach\<close> over the bucket decodes every receipt and stops at the first that does not decode.
\<close>

fun decode_all :: "ledger \<Rightarrow> (string \<times> CommandReceipt) list option" where
  "decode_all [] = Some []"
| "decode_all ((k, Malformed) # b) = None"
| "decode_all ((k, Decoded r) # b) = map_option (Cons (k, r)) (decode_all b)"

definition acknowledge :: "string \<Rightarrow> CommandReceipt \<Rightarrow> CommandReceipt" where
  "acknowledge messageID r = (if rcResultMsgID r = messageID then r\<lparr>rcResultAcked := True\<rparr> else r)"

definition MarkResultAcknowledged :: "bool \<Rightarrow> string \<Rightarrow> ledger \<Rightarrow> ledger \<times> (ledger_error + unit)" where
  "MarkResultAcknowledged io messageID b =
     (if messageID = [] then (b, Inl MessageIDRequired)
      else case bolt_update io b
             (case decode_all b of
                None \<Rightarrow> Inl UndecodableReceipt
              | Some rs \<Rightarrow>
                  Inr (map (\<lambda>(k, r). (k, Decoded (acknowledge messageID r))) rs,
                       list_ex (\<lambda>(_, r). rcResultMsgID r = messageID) rs)) of
           (b', Inl e) \<Rightarrow> (b', Inl e)
         | (b', Inr found) \<Rightarrow> if found then (b', Inr ()) else (b', Inl ReceiptNotFound))"

definition receipt_final :: "CommandReceipt \<Rightarrow> bool" where
  "receipt_final r =
     (rcState r = StateSucceeded \<or> rcState r = StateFailed \<or> rcState r = StateCancelled \<or> rcState r = StateExpired)"

text \<open>The last receipt, in iteration order, that has the event id or the target id of the request.\<close>

definition cancel_match :: "string \<Rightarrow> string \<Rightarrow> CommandReceipt \<Rightarrow> bool" where
  "cancel_match eventID targetID r =
     (\<not> ((eventID = [] \<or> rcEventID r \<noteq> eventID) \<and> (targetID = [] \<or> rcTargetID r \<noteq> targetID)))"

definition MarkCancelled :: "bool \<Rightarrow> string \<Rightarrow> string \<Rightarrow> ledger \<Rightarrow> ledger \<times> (ledger_error + unit)" where
  "MarkCancelled io eventID targetID b =
     (if eventID = [] \<and> targetID = [] then (b, Inl IdentifierRequired)
      else case bolt_update io b
             (case decode_all b of
                None \<Rightarrow> Inl UndecodableReceipt
              | Some rs \<Rightarrow>
                  (case rev (filter (\<lambda>(_, r). cancel_match eventID targetID r) rs) of
                     [] \<Rightarrow> Inr (b, False)
                   | (k, r) # _ \<Rightarrow>
                       if receipt_final r then Inr (b, True)
                       else Inr (bucket_put k (Decoded (r\<lparr>rcState := StateCancelled\<rparr>)) b, True))) of
           (b', Inl e) \<Rightarrow> (b', Inl e)
         | (b', Inr found) \<Rightarrow> if found then (b', Inr ()) else (b', Inl ReceiptNotFound))"

definition GetUnacknowledgedResults :: "ledger \<Rightarrow> ledger_error + CommandReceipt list" where
  "GetUnacknowledgedResults b =
     (case decode_all b of
        None \<Rightarrow> Inl UndecodableReceipt
      | Some rs \<Rightarrow> Inr (filter (\<lambda>r. \<not> rcResultAcked r \<and> rcResultEnvelope r \<noteq> None) (map snd rs)))"

fun cleanup_keys :: "instant \<Rightarrow> ledger \<Rightarrow> ledger_error + string list" where
  "cleanup_keys before [] = Inr []"
| "cleanup_keys before ((k, Malformed) # b) = Inl UndecodableReceipt"
| "cleanup_keys before ((k, Decoded r) # b) =
     (case Parse_RFC3339 (rcReceivedAt r) of
        None \<Rightarrow> Inl InvalidReceivedAt
      | Some receivedAt \<Rightarrow>
          (case cleanup_keys before b of
             Inl e \<Rightarrow> Inl e
           | Inr keys \<Rightarrow> Inr (if rcResultAcked r \<and> receivedAt < before then k # keys else keys)))"

definition Cleanup :: "bool \<Rightarrow> instant \<Rightarrow> ledger \<Rightarrow> ledger \<times> (ledger_error + unit)" where
  "Cleanup io before b =
     bolt_update io b
       (case cleanup_keys before b of
          Inl e \<Rightarrow> Inl e
        | Inr keys \<Rightarrow> Inr (fold bucket_delete keys b, ()))"

section \<open>Effect of the operations on lookups\<close>

text \<open>Receipts are stored under their own event id, which is never empty.\<close>

definition ledger_ok :: "ledger \<Rightarrow> bool" where
  "ledger_ok b =
     (bucket_ok b \<and> list_all (\<lambda>(k, v). case v of Malformed \<Rightarrow> True | Decoded r \<Rightarrow> rcEventID r = k \<and> k \<noteq> []) b)"

lemma ledger_ok_Nil [simp]: "ledger_ok []"
  by (simp add: ledger_ok_def)

lemma ledger_okD: "ledger_ok b \<Longrightarrow> bucket_ok b"
  by (simp add: ledger_ok_def)

lemma ledger_ok_key: "ledger_ok b \<Longrightarrow> (k, Decoded r) \<in> set b \<Longrightarrow> rcEventID r = k \<and> k \<noteq> []"
  by (fastforce simp: ledger_ok_def list_all_iff)

lemma ledger_ok_put:
  assumes "ledger_ok b" and "rcEventID r = k" and "k \<noteq> []"
  shows "ledger_ok (bucket_put k (Decoded r) b)"
proof -
  have "\<forall>p\<in>set (bucket_put k (Decoded r) b). p = (k, Decoded r) \<or> p \<in> set b"
    using set_bucket_put_sub [of k "Decoded r" b] by blast
  with assms show ?thesis by (fastforce simp: ledger_ok_def list_all_iff)
qed

lemma GetReceipt_Inr: "GetReceipt k b = Inr r \<longleftrightarrow> bucket_get b k = Some (Decoded r)"
  by (auto simp: GetReceipt_def split: option.splits wire.splits)

lemma GetReceipt_key: "ledger_ok b \<Longrightarrow> GetReceipt k b = Inr r \<Longrightarrow> rcEventID r = k \<and> k \<noteq> []"
  by (auto simp: GetReceipt_Inr dest: bucket_get_in ledger_ok_key)

lemma ledger_update_cases:
  obtains (fail) e where "ledger_update io k f b = (b, Inl e)"
  | (commit) r r' x where "GetReceipt k b = Inr r" and "f r = (r', x)" and "io"
      and "ledger_update io k f b = (bucket_put k (Decoded r') b, Inr x)"
proof (cases "GetReceipt k b")
  case (Inl e)
  then show ?thesis by (intro fail [of e]) (simp add: ledger_update_def bolt_update_def)
next
  case (Inr r)
  obtain r' x where f: "f r = (r', x)" by fastforce
  show ?thesis
  proof (cases io)
    case True
    with Inr f show ?thesis by (intro commit) (simp_all add: ledger_update_def bolt_update_def)
  next
    case False
    with Inr f show ?thesis by (intro fail [of StorageError]) (simp add: ledger_update_def bolt_update_def)
  qed
qed

lemma decode_all_Some: "decode_all b = Some rs \<Longrightarrow> b = map (\<lambda>(k, r). (k, Decoded r)) rs"
  by (induction b arbitrary: rs rule: decode_all.induct) auto

lemma decode_all_in: "decode_all b = Some rs \<Longrightarrow> (k, r) \<in> set rs \<longleftrightarrow> (k, Decoded r) \<in> set b"
  by (auto dest!: decode_all_Some)

lemma MarkResultAcknowledged_cases:
  obtains (same) "fst (MarkResultAcknowledged io m b) = b"
  | (commit) rs where "decode_all b = Some rs"
      and "fst (MarkResultAcknowledged io m b) = map (\<lambda>(k, r). (k, Decoded (acknowledge m r))) rs"
proof (cases "m = [] \<or> decode_all b = None \<or> \<not> io")
  case True
  then have "fst (MarkResultAcknowledged io m b) = b"
    by (auto simp: MarkResultAcknowledged_def bolt_update_def split: option.splits)
  then show ?thesis by (rule same)
next
  case False
  then obtain rs where rs: "decode_all b = Some rs" by auto
  with False show ?thesis
    by (intro commit [OF rs]) (auto simp: MarkResultAcknowledged_def bolt_update_def)
qed

lemma MarkCancelled_cases:
  obtains (same) res where "MarkCancelled io ev tg b = (b, res)"
  | (commit) k r where "(k, Decoded r) \<in> set b" and "cancel_match ev tg r" and "\<not> receipt_final r" and "io"
      and "MarkCancelled io ev tg b = (bucket_put k (Decoded (r\<lparr>rcState := StateCancelled\<rparr>)) b, Inr ())"
proof (cases "\<exists>rs k r rest. (ev \<noteq> [] \<or> tg \<noteq> []) \<and> io \<and> decode_all b = Some rs
                \<and> rev (filter (\<lambda>(_, r). cancel_match ev tg r) rs) = (k, r) # rest \<and> \<not> receipt_final r")
  case True
  then obtain rs k r rest where rs: "ev \<noteq> [] \<or> tg \<noteq> []" "io" "decode_all b = Some rs"
    and hit: "rev (filter (\<lambda>(_, r). cancel_match ev tg r) rs) = (k, r) # rest" "\<not> receipt_final r"
    by blast
  have "(k, r) \<in> set (rev (filter (\<lambda>(_, r). cancel_match ev tg r) rs))" by (simp add: hit(1))
  then have "(k, r) \<in> set rs" "cancel_match ev tg r" by auto
  with rs hit show ?thesis
    by (intro commit [of k r]) (auto simp: MarkCancelled_def bolt_update_def decode_all_in)
next
  case False
  then have "fst (MarkCancelled io ev tg b) = b"
    by (auto simp: MarkCancelled_def bolt_update_def split: option.splits list.splits sum.splits prod.splits if_splits)
  then show ?thesis by (metis same prod.collapse)
qed

section \<open>Interleavings of ledger operations\<close>

text \<open>
  The operations that the running agent issues (from command, cancellation and receipt goroutines);
  a completion always carries a terminal status.
\<close>

datatype ledger_op =
    OpRecord bool CommandReceipt
  | OpBegin bool string
  | OpComplete bool string string string json
  | OpAck bool string
  | OpCancel bool string string

fun ledger_op_ok :: "ledger_op \<Rightarrow> bool" where
  "ledger_op_ok (OpComplete io k status m j) = job_terminal status"
| "ledger_op_ok _ = True"

fun ledger_step :: "ledger_op \<Rightarrow> ledger \<Rightarrow> ledger" where
  "ledger_step (OpRecord io r) b = fst (RecordReceipt io r b)"
| "ledger_step (OpBegin io k) b = fst (BeginExecution io k b)"
| "ledger_step (OpComplete io k status m j) b = fst (MarkComplete io k status m j b)"
| "ledger_step (OpAck io m) b = fst (MarkResultAcknowledged io m b)"
| "ledger_step (OpCancel io ev tg) b = fst (MarkCancelled io ev tg b)"

text \<open>The operation hands command \<open>k\<close> to its handler: \<^verbatim>\<open>BeginExecution\<close> returned \<^verbatim>\<open>true\<close>.\<close>

fun ledger_starts :: "string \<Rightarrow> ledger_op \<Rightarrow> ledger \<Rightarrow> bool" where
  "ledger_starts k (OpBegin io k') b = (k' = k \<and> snd (BeginExecution io k' b) = Inr True)"
| "ledger_starts k _ b = False"

definition value_phase :: "CommandReceipt wire option \<Rightarrow> nat" where
  "value_phase v =
     (case v of None \<Rightarrow> 0 | Some Malformed \<Rightarrow> 2
      | Some (Decoded r) \<Rightarrow> if rcState r = StateReceived then 1 else 2)"

definition ledger_phase :: "ledger \<Rightarrow> string \<Rightarrow> nat" where
  "ledger_phase b k = value_phase (bucket_get b k)"

lemma value_phase_simps [simp]:
  "value_phase None = 0" "value_phase (Some Malformed) = 2"
  "value_phase (Some (Decoded r)) = (if rcState r = StateReceived then 1 else 2)"
  by (simp_all add: value_phase_def)

lemma value_phase_le: "value_phase v \<le> 2"
  by (auto simp: value_phase_def split: option.splits wire.splits)

lemma ledger_phase_put:
  "bucket_ok b \<Longrightarrow> ledger_phase (bucket_put k v b) k' = (if k' = k then value_phase (Some v) else ledger_phase b k')"
  by (simp add: ledger_phase_def bucket_get_put)

lemma ledger_ok_update:
  assumes "ledger_ok b" and "\<And>r. rcEventID (fst (f r)) = rcEventID r"
  shows "ledger_ok (fst (ledger_update io k f b))"
proof (cases rule: ledger_update_cases [of io k f b])
  case (commit r r' x)
  have "rcEventID r' = k" "k \<noteq> []"
    using GetReceipt_key [OF assms(1) commit(1)] assms(2) [of r] commit(2) by auto
  with assms(1) commit(4) show ?thesis by (simp add: ledger_ok_put)
qed (simp add: assms(1))

lemma map_of_decoded:
  "map_of (map (\<lambda>(k, r). (k, Decoded (g r))) rs) k = map_option (\<lambda>r. Decoded (g r)) (map_of rs k)"
  by (induction rs) auto

lemma decode_all_get: "decode_all b = Some rs \<Longrightarrow> bucket_get b k = map_option Decoded (map_of rs k)"
  using map_of_decoded [of id rs k] by (auto dest!: decode_all_Some simp: bucket_get_def comp_def)

lemma MarkResultAcknowledged_get:
  "bucket_get (fst (MarkResultAcknowledged io m b)) k = bucket_get b k
    \<or> (\<exists>r. bucket_get b k = Some (Decoded r)
          \<and> bucket_get (fst (MarkResultAcknowledged io m b)) k = Some (Decoded (acknowledge m r)))"
proof (cases rule: MarkResultAcknowledged_cases [of io m b])
  case (commit rs)
  have "bucket_get (fst (MarkResultAcknowledged io m b)) k =
      map_option (\<lambda>r. Decoded (acknowledge m r)) (map_of rs k)"
    by (simp add: commit(2) bucket_get_def map_of_decoded)
  then show ?thesis by (cases "map_of rs k") (simp_all add: decode_all_get [OF commit(1)])
qed simp

lemma acknowledge_simps [simp]:
  "rcEventID (acknowledge m r) = rcEventID r" "rcState (acknowledge m r) = rcState r"
  "rcResultEnvelope (acknowledge m r) = rcResultEnvelope r"
  by (simp_all add: acknowledge_def)

lemma ledger_ok_decoded:
  "ledger_ok (map (\<lambda>(k, r). (k, Decoded (g r))) rs) \<longleftrightarrow>
     sorted_wrt (\<lambda>p q. str_less (fst p) (fst q)) rs \<and> (\<forall>(k, r)\<in>set rs. rcEventID (g r) = k \<and> k \<noteq> [])"
  by (auto simp: ledger_ok_def bucket_ok_def sorted_wrt_map list_all_iff split_beta)

lemma ledger_ok_ack: "ledger_ok b \<Longrightarrow> ledger_ok (fst (MarkResultAcknowledged io m b))"
proof (cases rule: MarkResultAcknowledged_cases [of io m b])
  case (commit rs)
  assume "ledger_ok b"
  then show ?thesis
    using ledger_ok_decoded [of id rs] ledger_ok_decoded [of "acknowledge m" rs]
    by (simp add: decode_all_Some [OF commit(1), symmetric] commit(2))
qed simp

lemma ledger_ok_cancel: "ledger_ok b \<Longrightarrow> ledger_ok (fst (MarkCancelled io ev tg b))"
proof (cases rule: MarkCancelled_cases [of io ev tg b])
  case (commit k r)
  assume "ledger_ok b"
  with commit ledger_ok_key [of b k r] show ?thesis by (simp add: ledger_ok_put)
qed simp

lemma ledger_ok_record: "ledger_ok b \<Longrightarrow> ledger_ok (fst (RecordReceipt io r b))"
  by (auto simp: RecordReceipt_def bolt_update_def ledger_ok_put split: option.splits)

lemma ledger_step_ok: "ledger_ok b \<Longrightarrow> ledger_ok (ledger_step x b)"
  by (cases x) (auto simp: BeginExecution_def MarkComplete_def ledger_ok_record ledger_ok_ack ledger_ok_cancel
      intro!: ledger_ok_update)

lemma BeginExecution_started:
  "snd (BeginExecution io k b) = Inr True \<longleftrightarrow>
     io \<and> (\<exists>r. bucket_get b k = Some (Decoded r) \<and> rcState r = StateReceived)"
proof (cases rule: ledger_update_cases [of io k
      "\<lambda>r. if rcState r \<noteq> StateReceived then (r, False) else (r\<lparr>rcState := StateRunning\<rparr>, True)" b])
  case (fail e)
  then show ?thesis
    by (auto simp: BeginExecution_def ledger_update_def bolt_update_def GetReceipt_def
        split: option.splits wire.splits if_splits)
next
  case (commit r r' x)
  then show ?thesis by (auto simp: BeginExecution_def GetReceipt_Inr split: if_splits)
qed

lemma ledger_phase_update:
  assumes "bucket_ok b" and "\<And>r. rcState (fst (f r)) = StateReceived \<Longrightarrow> rcState r = StateReceived"
  shows "ledger_phase b k' \<le> ledger_phase (fst (ledger_update io k f b)) k'"
proof (cases rule: ledger_update_cases [of io k f b])
  case (commit r r' x)
  with assms(2) [of r] show ?thesis
    by (auto simp: bucket_get_put [OF assms(1)] GetReceipt_Inr ledger_phase_def)
qed simp

lemma ledger_phase_ack:
  "ledger_phase b k \<le> ledger_phase (fst (MarkResultAcknowledged io m b)) k"
  using MarkResultAcknowledged_get [of io m b k] by (auto simp: ledger_phase_def)

lemma ledger_phase_cancel:
  assumes "ledger_ok b"
  shows "ledger_phase b k' \<le> ledger_phase (fst (MarkCancelled io ev tg b)) k'"
proof (cases rule: MarkCancelled_cases [of io ev tg b])
  case (commit k r)
  show ?thesis
    using commit value_phase_le by (auto simp: bucket_get_put [OF ledger_okD [OF assms]] ledger_phase_def)
qed simp

lemma ledger_phase_record:
  assumes "bucket_ok b"
  shows "ledger_phase b k \<le> ledger_phase (fst (RecordReceipt io r b)) k"
  using assms
  by (auto simp: RecordReceipt_def bolt_update_def bucket_get_put ledger_phase_def split: option.splits)

lemma ledger_step_phase:
  "ledger_ok b \<Longrightarrow> ledger_op_ok x \<Longrightarrow> ledger_phase b k \<le> ledger_phase (ledger_step x b) k"
  by (cases x)
     (auto simp: BeginExecution_def MarkComplete_def ledger_phase_record ledger_phase_ack ledger_phase_cancel
        ledger_okD job_terminal_def intro!: ledger_phase_update split: if_splits)

lemma ledger_starts_phase:
  assumes "ledger_ok b" and "ledger_starts k x b"
  shows "ledger_phase b k = 1 \<and> ledger_phase (ledger_step x b) k = 2"
proof -
  from assms(2) obtain io where x: "x = OpBegin io k" and st: "snd (BeginExecution io k b) = Inr True"
    by (cases x) auto
  from st obtain r where r: "bucket_get b k = Some (Decoded r)" "rcState r = StateReceived" "io"
    by (auto simp: BeginExecution_started)
  then show ?thesis
    by (simp add: x BeginExecution_def ledger_update_def bolt_update_def GetReceipt_def ledger_phase_put
        ledger_okD [OF assms(1)]) (simp add: ledger_phase_def)
qed

interpretation receipt_ledger: once_ledger ledger_op_ok ledger_step ledger_starts ledger_phase ledger_ok
  by unfold_locales (simp_all add: ledger_step_ok ledger_step_phase ledger_starts_phase)

text \<open>
  C3. At-most-once execution on the endpoint: over any interleaving of ledger operations issued by the
  agent's goroutines, including redelivered commands, cancellations, result receipts and storage
  failures, the ledger grants the execution of a command at most once, and never again once the
  command's receipt has left the received state.
\<close>

theorem command_starts_at_most_once:
  assumes "ledger_ok b" and "list_all ledger_op_ok ops"
  shows "count_starts ledger_step (ledger_starts k) b ops \<le> 1
    \<and> (ledger_phase b k = 2 \<longrightarrow> count_starts ledger_step (ledger_starts k) b ops = 0)"
  using receipt_ledger.at_most_once [OF assms] receipt_ledger.started_no_more [OF assms] by simp

definition example_receipt :: CommandReceipt where
  "example_receipt =
     \<lparr>rcEventID = ''e'', rcJobID = ''j'', rcTargetID = ''t'', rcMSPID = ''acme'', rcClientID = [], rcSiteID = [],
      rcDeviceID = ''d'', rcAgentID = ''a1'', rcCorrelationID = ''c'', rcAttempt = 1, rcCommandType = ''script'',
      rcReceivedAt = ''2024-02-29T12:30:15Z'', rcState = StateReceived, rcResultMsgID = [],
      rcResultEnvelope = None, rcResultAcked = False\<rparr>"

definition example_ops :: "ledger_op list" where
  "example_ops =
     [OpRecord True example_receipt, OpBegin True ''e'', OpRecord True example_receipt, OpBegin True ''e'',
      OpCancel True ''e'' [], OpComplete True ''e'' ''cancelled'' ''res-e-1'' JNull, OpBegin True ''e'',
      OpAck True ''res-e-1'', OpBegin True ''e'']"

theorem command_starts_at_most_once_witness:
  "ledger_ok [] \<and> list_all ledger_op_ok example_ops
   \<and> count_starts ledger_step (ledger_starts ''e'') [] example_ops = 1
   \<and> ledger_phase (fold ledger_step example_ops []) ''e'' = 2
   \<and> count_starts ledger_step (ledger_starts ''e'') (fold ledger_step example_ops []) example_ops = 0"
proof -
  have ok: "list_all ledger_op_ok example_ops" by code_simp
  have one: "count_starts ledger_step (ledger_starts ''e'') [] example_ops \<ge> 1" by code_simp
  have fin: "ledger_phase (fold ledger_step example_ops []) ''e'' = 2" by code_simp
  have inv: "ledger_ok (fold ledger_step example_ops [])" by code_simp
  show ?thesis
    using command_starts_at_most_once [of "[]" example_ops "''e''"]
      command_starts_at_most_once [of "fold ledger_step example_ops []" example_ops "''e''"] ok one fin inv
    by simp
qed

end
