(* ===== verification/AgentDispatcher.thy ===== *)
theory AgentDispatcher
  imports ReceiptLedger
begin

text \<open>
  The agent's durable job dispatcher, \<^verbatim>\<open>internal/agent/jobs/handler.go\<close>. The state is the receipt
  ledger, the map of cancel functions, the messages published so far and the commands whose handler
  has been called. What the process cannot control is the argument \<open>env\<close>: the clock, whether a
  publish or a commit succeeds, the handlers and their outcome, the state of the execution context
  when the handler returns, and what other goroutines do to the dispatcher while it runs
  (\<open>e_during\<close>).
\<close>

section \<open>State and environment\<close>

record agent =
  agTenant :: string
  agAgent :: string
  agLedger :: ledger
  agCancels :: "(string \<times> string) list"
  agCancelled :: "string list"
  agPublished :: "(string \<times> json) list"
  agHandled :: "string list"

text \<open>A handler's answer: status, exit code, result bytes and error text.\<close>

type_synonym handler_result = "string \<times> int \<times> result_bytes \<times> string option"
type_synonym CommandHandler = "CommandEnvelope \<Rightarrow> handler_result"
type_synonym HandlerRegistry = "string \<rightharpoonup> CommandHandler"

definition NewHandlerRegistry :: HandlerRegistry where
  "NewHandlerRegistry = Map.empty"

definition Register :: "string \<Rightarrow> CommandHandler \<Rightarrow> HandlerRegistry \<Rightarrow> HandlerRegistry" where
  "Register commandType handler r = r(commandType \<mapsto> handler)"

definition Get :: "string \<Rightarrow> HandlerRegistry \<Rightarrow> CommandHandler option" where
  "Get commandType r = r commandType"

definition IsSupported :: "string \<Rightarrow> HandlerRegistry \<Rightarrow> bool" where
  "IsSupported commandType r = (case Get commandType r of None \<Rightarrow> False | Some _ \<Rightarrow> True)"

record agent_env =
  e_now :: instant
  e_started :: instant
  e_completed :: instant
  e_registry :: HandlerRegistry
  e_during :: "agent \<Rightarrow> agent"
  e_deadline :: bool
  e_parent_done :: bool
  e_ack_pub :: bool
  e_result_pub :: bool
  e_record_io :: bool
  e_begin_io :: bool
  e_complete_io :: bool

datatype disposition = DAck | DNak | DTerm | DInProgress

definition NewJobDispatcher :: "ledger \<Rightarrow> string \<Rightarrow> string \<Rightarrow> agent" where
  "NewJobDispatcher ledger tenantID agentID =
     \<lparr>agTenant = tenantID, agAgent = agentID, agLedger = ledger, agCancels = [], agCancelled = [],
      agPublished = [], agHandled = []\<rparr>"

definition cancels_put :: "string \<Rightarrow> string \<Rightarrow> (string \<times> string) list \<Rightarrow> (string \<times> string) list" where
  "cancels_put k v m = (k, v) # filter (\<lambda>(k', _). k' \<noteq> k) m"

definition cancels_delete :: "string \<Rightarrow> (string \<times> string) list \<Rightarrow> (string \<times> string) list" where
  "cancels_delete k m = filter (\<lambda>(k', _). k' \<noteq> k) m"

definition publish :: "string \<Rightarrow> json \<Rightarrow> agent \<Rightarrow> agent" where
  "publish subject doc s = s\<lparr>agPublished := agPublished s @ [(subject, doc)]\<rparr>"

definition ack_subject :: "agent \<Rightarrow> string" where
  "ack_subject s = agent_subject (agTenant s) (agAgent s) ''ack''"

definition result_subject :: "agent \<Rightarrow> string" where
  "result_subject s = agent_subject (agTenant s) (agAgent s) ''result''"

section \<open>Execution of a command\<close>

definition publishTerminalAt ::
  "agent_env \<Rightarrow> CommandEnvelope \<Rightarrow> string \<Rightarrow> int \<Rightarrow> result_bytes \<Rightarrow> string \<Rightarrow> instant \<Rightarrow> agent \<Rightarrow> agent" where
  "publishTerminalAt env cmd status exitCode result errorText startedAt s =
     (case MarshalResult [] cmd (agAgent s) status exitCode result errorText startedAt (e_completed env) of
        (msgID, None) \<Rightarrow> s
      | (msgID, Some envelope) \<Rightarrow>
          (case MarkComplete (e_complete_io env) (cEventID cmd) status msgID envelope (agLedger s) of
             (b, Inl _) \<Rightarrow> s\<lparr>agLedger := b\<rparr>
           | (b, Inr _) \<Rightarrow>
               if e_result_pub env then publish (result_subject s) envelope (s\<lparr>agLedger := b\<rparr>)
               else s\<lparr>agLedger := b\<rparr>))"

definition publishTerminal ::
  "agent_env \<Rightarrow> CommandEnvelope \<Rightarrow> string \<Rightarrow> int \<Rightarrow> result_bytes \<Rightarrow> string \<Rightarrow> agent \<Rightarrow> agent" where
  "publishTerminal env cmd status exitCode result errorText s =
     publishTerminalAt env cmd status exitCode result errorText (e_now env) s"

datatype ctx_error = CtxOpen | CtxCanceled | CtxDeadlineExceeded

definition ctx_err :: "agent_env \<Rightarrow> string \<Rightarrow> agent \<Rightarrow> ctx_error" where
  "ctx_err env eventID s =
     (if e_deadline env then CtxDeadlineExceeded
      else if List.member (agCancelled s) eventID \<or> e_parent_done env then CtxCanceled
      else CtxOpen)"

text \<open>The status and error text reported for a handler's answer.\<close>

definition final_status :: "handler_result \<Rightarrow> ctx_error \<Rightarrow> string \<times> string" where
  "final_status answer ctx =
     (case answer of (status0, _, _, runErr) \<Rightarrow>
        let (status1, err1) = (case runErr of Some e \<Rightarrow> (StateFailed, e) | None \<Rightarrow> (status0, []));
            (status2, err2) =
              (case ctx of
                 CtxCanceled \<Rightarrow> (StateCancelled, ''command cancelled'')
               | CtxDeadlineExceeded \<Rightarrow> (StateExpired, ''command deadline exceeded'')
               | CtxOpen \<Rightarrow> (status1, err1))
        in if status2 \<noteq> StateSucceeded \<and> status2 \<noteq> StateFailed \<and> status2 \<noteq> StateCancelled \<and> status2 \<noteq> StateExpired
           then (StateFailed, ''handler returned invalid status'')
           else (status2, err2))"

definition run_handler :: "agent_env \<Rightarrow> CommandHandler \<Rightarrow> CommandEnvelope \<Rightarrow> agent \<Rightarrow> agent" where
  "run_handler env handler cmd s =
     (let s' = e_during env (s\<lparr>agHandled := agHandled s @ [cEventID cmd]\<rparr>);
          answer = handler cmd;
          (status, errorText) = final_status answer (ctx_err env (cEventID cmd) s')
      in publishTerminalAt env cmd status (fst (snd answer)) (fst (snd (snd answer))) errorText
           (e_started env) s')"

definition execute :: "agent_env \<Rightarrow> CommandEnvelope \<Rightarrow> agent \<Rightarrow> agent" where
  "execute env cmd s =
     (case Get (cCommandType cmd) (e_registry env) of
        None \<Rightarrow> publishTerminal env cmd StateFailed (- 1) None ''unsupported command type'' s
      | Some handler \<Rightarrow>
          let s1 = s\<lparr>agCancels := cancels_put (cTargetID cmd) (cEventID cmd)
                                   (cancels_put (cEventID cmd) (cEventID cmd) (agCancels s))\<rparr>;
              (b, started) = BeginExecution (e_begin_io env) (cEventID cmd) (agLedger s1);
              s2 = s1\<lparr>agLedger := b\<rparr>;
              s3 = (case started of
                      Inl _ \<Rightarrow> s2
                    | Inr True \<Rightarrow> run_handler env handler cmd s2
                    | Inr False \<Rightarrow>
                        (case GetReceipt (cEventID cmd) (agLedger s2) of
                           Inl _ \<Rightarrow> s2
                         | Inr receipt \<Rightarrow>
                             if rcState receipt = StateCancelled
                             then publishTerminal env cmd StateCancelled (- 1) None
                                    ''command cancelled before execution'' s2
                             else s2))
          in s3\<lparr>agCancels := cancels_delete (cTargetID cmd) (cancels_delete (cEventID cmd) (agCancels s3))\<rparr>)"

section \<open>Delivery of a command\<close>

definition new_receipt :: "instant \<Rightarrow> string \<Rightarrow> CommandEnvelope \<Rightarrow> CommandReceipt" where
  "new_receipt now agentID cmd =
     \<lparr>rcEventID = cEventID cmd, rcJobID = cJobID cmd, rcTargetID = cTargetID cmd, rcMSPID = cMSPID cmd,
      rcClientID = cClientID cmd, rcSiteID = cSiteID cmd, rcDeviceID = cDeviceID cmd, rcAgentID = agentID,
      rcCorrelationID = cCorrelationID cmd, rcAttempt = cAttempt cmd, rcCommandType = cCommandType cmd,
      rcReceivedAt = Format_RFC3339 now, rcState = StateReceived, rcResultMsgID = [],
      rcResultEnvelope = None, rcResultAcked = False\<rparr>"

definition ack_document :: "agent_env \<Rightarrow> agent \<Rightarrow> CommandEnvelope \<Rightarrow> string \<Rightarrow> json" where
  "ack_document env s cmd status =
     PublishAcknowledgement (e_now env) (cEventID cmd) (cJobID cmd) (cTargetID cmd) (cMSPID cmd)
       (cDeviceID cmd) (agAgent s) (cCorrelationID cmd) (cAttempt cmd) status"

text \<open>The end of the delivery: acknowledge only when a terminal result is stored.\<close>

definition settle :: "string \<Rightarrow> agent \<Rightarrow> agent \<times> disposition" where
  "settle eventID s =
     (case GetReceipt eventID (agLedger s) of
        Inl _ \<Rightarrow> (s, DNak)
      | Inr terminal \<Rightarrow> if rcResultEnvelope terminal = None then (s, DNak) else (s, DAck))"

definition handleDuplicate :: "agent_env \<Rightarrow> CommandEnvelope \<Rightarrow> CommandReceipt \<Rightarrow> agent \<Rightarrow> agent \<times> disposition" where
  "handleDuplicate env cmd receipt s =
     (if \<not> e_ack_pub env then (s, DNak)
      else let s1 = publish (ack_subject s) (ack_document env s cmd ''duplicate'') s
      in case rcResultEnvelope receipt of
           Some envelope \<Rightarrow>
             if rcResultAcked receipt then (s1, DAck)
             else if e_result_pub env then (publish (result_subject s) envelope s1, DAck)
             else (s1, DNak)
         | None \<Rightarrow>
             if rcState receipt = StateReceived then settle (cEventID cmd) (execute env cmd s1)
             else if rcState receipt = StateRunning then
               (case map_of (agCancels s1) (cEventID cmd) of
                  Some _ \<Rightarrow> (s1, DInProgress)
                | None \<Rightarrow> settle (cEventID cmd)
                    (publishTerminal env cmd StateFailed (- 1) None
                       ''execution outcome unknown after agent restart; reconciliation required'' s1))
             else if rcState receipt = StateCancelled then
               settle (cEventID cmd)
                 (publishTerminal env cmd StateCancelled (- 1) None ''command cancelled before execution'' s1)
             else (s1, DNak))"

definition handleDurableCommand :: "agent_env \<Rightarrow> json wire \<Rightarrow> agent \<Rightarrow> agent \<times> disposition" where
  "handleDurableCommand env data s =
     (case validateCommand (e_now env) data (agTenant s) (agAgent s) of
        Inl _ \<Rightarrow> (s, DTerm)
      | Inr cmd \<Rightarrow>
          (case GetReceipt (cEventID cmd) (agLedger s) of
             Inr receipt \<Rightarrow> handleDuplicate env cmd receipt s
           | Inl _ \<Rightarrow>
               (case RecordReceipt (e_record_io env) (new_receipt (e_now env) (agAgent s) cmd) (agLedger s) of
                  (b, Inl _) \<Rightarrow> (s\<lparr>agLedger := b\<rparr>, DNak)
                | (b, Inr _) \<Rightarrow>
                    if \<not> e_ack_pub env then (s\<lparr>agLedger := b\<rparr>, DNak)
                    else settle (cEventID cmd)
                           (execute env cmd
                              (publish (ack_subject s) (ack_document env s cmd ''accepted'') (s\<lparr>agLedger := b\<rparr>))))))"

section \<open>Control messages, replay and shutdown\<close>

definition handleResultReceipt :: "bool \<Rightarrow> json wire \<Rightarrow> agent \<Rightarrow> agent" where
  "handleResultReceipt io data s =
     (case dec_object data of
        None \<Rightarrow> s
      | Some kvs \<Rightarrow>
          (case dec_str kvs ''message_id'' of
             None \<Rightarrow> s
           | Some messageID \<Rightarrow>
               if messageID = [] then s
               else s\<lparr>agLedger := fst (MarkResultAcknowledged io messageID (agLedger s))\<rparr>))"

definition handleCancellation :: "bool \<Rightarrow> json wire \<Rightarrow> agent \<Rightarrow> agent" where
  "handleCancellation io data s =
     (case dec_object data of
        None \<Rightarrow> s
      | Some kvs \<Rightarrow>
          (case (dec_str kvs ''event_id'', dec_str kvs ''target_id'') of
             (Some eventID, Some targetID) \<Rightarrow>
               if eventID = [] \<and> targetID = [] then s
               else
                 let cancel = (case map_of (agCancels s) eventID of
                                 Some e \<Rightarrow> Some e
                               | None \<Rightarrow> map_of (agCancels s) targetID);
                     s1 = (case cancel of None \<Rightarrow> s | Some e \<Rightarrow> s\<lparr>agCancelled := e # agCancelled s\<rparr>)
                 in s1\<lparr>agLedger := fst (MarkCancelled io eventID targetID (agLedger s1))\<rparr>
           | _ \<Rightarrow> s))"

text \<open>
  Replay stops at the first failed publish or when the context is done; \<open>oks\<close> holds the outcome of
  each publish.
\<close>

fun replay_list :: "bool list \<Rightarrow> CommandReceipt list \<Rightarrow> agent \<Rightarrow> agent \<times> bool" where
  "replay_list oks [] s = (s, True)"
| "replay_list [] (r # rs) s = (s, False)"
| "replay_list (k # oks) (r # rs) s =
     (if \<not> k then (s, False)
      else case rcResultEnvelope r of
             None \<Rightarrow> replay_list oks rs s
           | Some envelope \<Rightarrow> replay_list oks rs (publish (result_subject s) envelope s))"

definition replayResults :: "bool list \<Rightarrow> agent \<Rightarrow> agent \<times> bool" where
  "replayResults oks s =
     (case GetUnacknowledgedResults (agLedger s) of
        Inl _ \<Rightarrow> (s, False)
      | Inr receipts \<Rightarrow> replay_list oks receipts s)"

definition StopDispatcher :: "agent \<Rightarrow> agent" where
  "StopDispatcher s = s\<lparr>agCancelled := map snd (agCancels s) @ agCancelled s, agCancels := []\<rparr>"

section \<open>Frame and effect lemmas\<close>

named_theorems agent_simps \<open>frame conditions of the dispatcher's helpers\<close>

lemma publish_simps [simp]:
  "agLedger (publish sub doc s) = agLedger s" "agHandled (publish sub doc s) = agHandled s"
  "agTenant (publish sub doc s) = agTenant s" "agAgent (publish sub doc s) = agAgent s"
  "agCancels (publish sub doc s) = agCancels s" "agCancelled (publish sub doc s) = agCancelled s"
  "agPublished (publish sub doc s) = agPublished s @ [(sub, doc)]"
  by (simp_all add: publish_def)

lemma publishTerminalAt_handled [simp]:
  "agHandled (publishTerminalAt env cmd st xc res err t s) = agHandled s"
  by (simp add: publishTerminalAt_def split: prod.splits option.splits sum.splits)

lemma publishTerminal_handled [simp]:
  "agHandled (publishTerminal env cmd st xc res err s) = agHandled s"
  by (simp add: publishTerminal_def)

lemma settle_fst [simp]: "fst (settle k s) = s"
  by (simp add: settle_def split: sum.splits)

lemma settle_DAck:
  "settle k s = (s', DAck) \<longleftrightarrow>
     s' = s \<and> (\<exists>rc doc. GetReceipt k (agLedger s) = Inr rc \<and> rcResultEnvelope rc = Some doc)"
  by (auto simp: settle_def split: sum.splits if_splits)

lemma MarkComplete_get:
  assumes "bucket_ok b" and "GetReceipt k b = Inr r"
  shows "MarkComplete True k st m doc b =
      (fst (MarkComplete True k st m doc b), Inr ())"
    and "GetReceipt k' (fst (MarkComplete True k st m doc b)) =
      (if k' = k then Inr (r\<lparr>rcState := st, rcResultMsgID := m, rcResultEnvelope := Some doc, rcResultAcked := False\<rparr>)
       else GetReceipt k' b)"
  using assms
  by (simp_all add: MarkComplete_def ledger_update_def bolt_update_def GetReceipt_def bucket_get_put)

lemma bucket_ok_BeginExecution: "bucket_ok b \<Longrightarrow> bucket_ok (fst (BeginExecution io k b))"
  by (cases rule: ledger_update_cases [of io k
        "\<lambda>r. if rcState r \<noteq> StateReceived then (r, False) else (r\<lparr>rcState := StateRunning\<rparr>, True)" b])
     (auto simp: BeginExecution_def)

lemma raw_message_None: "raw_message None = Some JNull"
  by (simp add: raw_message_def)

text \<open>A terminal publication with working storage stores the document and publishes the same document.\<close>

lemma publishTerminalAt_effect:
  assumes "bucket_ok (agLedger s)" and "GetReceipt (cEventID cmd) (agLedger s) = Inr r"
    and "e_complete_io env" and "e_result_pub env" and "raw_message result = Some j"
  shows "\<exists>doc. MarshalResult [] cmd (agAgent s) st xc result err t (e_completed env) =
       (res_message_id (cEventID cmd) (cAttempt cmd), Some doc)
    \<and> publishTerminalAt env cmd st xc result err t s =
       s\<lparr>agLedger := fst (MarkComplete True (cEventID cmd) st (res_message_id (cEventID cmd) (cAttempt cmd)) doc (agLedger s)),
         agPublished := agPublished s @ [(result_subject s, doc)]\<rparr>"
proof -
  obtain doc where doc: "MarshalResult [] cmd (agAgent s) st xc result err t (e_completed env) =
       (res_message_id (cEventID cmd) (cAttempt cmd), Some doc)"
    using assms(5) by (simp add: MarshalResult_def Let_def)
  let ?m = "res_message_id (cEventID cmd) (cAttempt cmd)"
  obtain b where "MarkComplete True (cEventID cmd) st ?m doc (agLedger s) = (b, Inr ())"
    using MarkComplete_get(1) [OF assms(1,2), of st ?m doc] by metis
  with doc assms(3,4) show ?thesis by (simp add: publishTerminalAt_def publish_def)
qed

section \<open>Delivery properties\<close>

text \<open>
  C4. Durable acknowledgement: the agent acknowledges a command delivery only for a well-formed
  command addressed to it whose receipt, in the ledger left behind, carries a terminal result
  document. So an acknowledged command can always be answered from the ledger after a restart.
\<close>

theorem acknowledged_delivery_has_result:
  assumes "handleDurableCommand env data s = (s', DAck)"
  shows "\<exists>cmd rc doc. validateCommand (e_now env) data (agTenant s) (agAgent s) = Inr cmd
           \<and> GetReceipt (cEventID cmd) (agLedger s') = Inr rc \<and> rcResultEnvelope rc = Some doc"
proof -
  from assms obtain cmd where cmd: "validateCommand (e_now env) data (agTenant s) (agAgent s) = Inr cmd"
    by (auto simp: handleDurableCommand_def split: sum.splits)
  show ?thesis
  proof (cases "GetReceipt (cEventID cmd) (agLedger s)")
    case (Inr receipt)
    with assms cmd have dup: "handleDuplicate env cmd receipt s = (s', DAck)"
      by (simp add: handleDurableCommand_def)
    have "\<exists>rc doc. GetReceipt (cEventID cmd) (agLedger s') = Inr rc \<and> rcResultEnvelope rc = Some doc"
      using dup Inr
      by (auto simp: handleDuplicate_def Let_def settle_DAck split: if_splits option.splits)
    with cmd show ?thesis by blast
  next
    case (Inl e)
    with assms cmd show ?thesis
      by (auto simp: handleDurableCommand_def settle_DAck split: prod.splits sum.splits if_splits)
  qed
qed

text \<open>
  Redelivery: a command whose receipt shows that it was started, finished or cancelled is never
  handed to a handler again, whatever fails on the way; in particular a receipt left in the running
  state by a crash is answered with a stored failure result, and the delivery is acknowledged.
\<close>

theorem redelivery_never_reexecutes:
  assumes "validateCommand (e_now env) data (agTenant s) (agAgent s) = Inr cmd"
    and "GetReceipt (cEventID cmd) (agLedger s) = Inr rc"
    and "rcState rc \<noteq> StateReceived \<or> rcResultEnvelope rc \<noteq> None"
  shows "agHandled (fst (handleDurableCommand env data s)) = agHandled s
    \<and> (rcState rc = StateRunning \<and> rcResultEnvelope rc = None \<and> map_of (agCancels s) (cEventID cmd) = None
         \<and> ledger_ok (agLedger s) \<and> e_ack_pub env \<and> e_result_pub env \<and> e_complete_io env \<longrightarrow>
       (\<exists>rc' doc. snd (handleDurableCommand env data s) = DAck
          \<and> GetReceipt (cEventID cmd) (agLedger (fst (handleDurableCommand env data s))) = Inr rc'
          \<and> rcState rc' = StateFailed \<and> rcResultEnvelope rc' = Some doc))"
    (is "?A \<and> (?crash \<longrightarrow> ?B)")
proof (intro conjI impI)
  have h: "handleDurableCommand env data s = handleDuplicate env cmd rc s"
    using assms by (simp add: handleDurableCommand_def)
  show ?A
    using assms(3) unfolding h by (auto simp: handleDuplicate_def Let_def split: option.splits)
  assume crash: ?crash
  define s1 where "s1 = publish (ack_subject s) (ack_document env s cmd ''duplicate'') s"
  have h1: "handleDuplicate env cmd rc s = settle (cEventID cmd) (publishTerminal env cmd StateFailed (- 1) None
      ''execution outcome unknown after agent restart; reconciliation required'' s1)"
    using crash by (simp add: handleDuplicate_def Let_def s1_def)
  have s1: "bucket_ok (agLedger s1)" "GetReceipt (cEventID cmd) (agLedger s1) = Inr rc"
    using crash assms(2) by (simp_all add: s1_def ledger_okD)
  obtain doc where "publishTerminal env cmd StateFailed (- 1) None
      ''execution outcome unknown after agent restart; reconciliation required'' s1 =
      s1\<lparr>agLedger := fst (MarkComplete True (cEventID cmd) StateFailed
             (res_message_id (cEventID cmd) (cAttempt cmd)) doc (agLedger s1)),
         agPublished := agPublished s1 @ [(result_subject s1, doc)]\<rparr>"
    unfolding publishTerminal_def
    using publishTerminalAt_effect [OF s1, of env None JNull] crash raw_message_None by blast
  then show ?B
    unfolding h h1 by (simp add: settle_def MarkComplete_get(2) [OF s1])
qed

text \<open>The execution of a received command by a registered handler, with nothing failing.\<close>

lemma final_status_terminal: "job_terminal (fst (final_status answer ctx))"
  by (auto simp: final_status_def Let_def job_terminal_def
      split: prod.splits option.splits ctx_error.splits if_splits)

lemma execute_effect:
  assumes "ledger_ok (agLedger s)" and "GetReceipt (cEventID cmd) (agLedger s) = Inr r"
    and "rcState r = StateReceived" and "e_registry env (cCommandType cmd) = Some h"
    and "\<And>x. e_during env x = x" and "e_result_pub env" and "e_begin_io env" and "e_complete_io env"
    and "raw_message (fst (snd (snd (h cmd)))) = Some j"
  defines "st \<equiv> final_status (h cmd) (ctx_err env (cEventID cmd) s)"
    and "m \<equiv> res_message_id (cEventID cmd) (cAttempt cmd)"
  shows "\<exists>doc b cs. execute env cmd s =
      s\<lparr>agLedger := b, agCancels := cs, agHandled := agHandled s @ [cEventID cmd],
        agPublished := agPublished s @ [(result_subject s, doc)]\<rparr>
    \<and> ledger_ok b
    \<and> GetReceipt (cEventID cmd) b = Inr (r\<lparr>rcState := fst st, rcResultMsgID := m,
        rcResultEnvelope := Some doc, rcResultAcked := False\<rparr>)"
proof -
  let ?k = "cEventID cmd"
  let ?r1 = "r\<lparr>rcState := StateRunning\<rparr>"
  let ?b1 = "bucket_put ?k (Decoded ?r1) (agLedger s)"
  define s1 where "s1 = s\<lparr>agCancels := cancels_put (cTargetID cmd) ?k (cancels_put ?k ?k (agCancels s)),
      agLedger := ?b1, agHandled := agHandled s @ [?k]\<rparr>"
  have key: "rcEventID r = ?k" "?k \<noteq> []" using GetReceipt_key [OF assms(1,2)] by auto
  have ok1: "ledger_ok (agLedger s1)" unfolding s1_def using key assms(1) by (simp add: ledger_ok_put)
  have beg: "BeginExecution (e_begin_io env) ?k (agLedger s) = (?b1, Inr True)"
    using assms(2,3,7) by (simp add: BeginExecution_def ledger_update_def bolt_update_def)
  have g1: "GetReceipt ?k (agLedger s1) = Inr ?r1"
    by (simp add: s1_def GetReceipt_Inr bucket_get_put ledger_okD [OF assms(1)])
  have ctx: "ctx_err env ?k s1 = ctx_err env ?k s" by (simp add: ctx_err_def s1_def)
  obtain doc where doc: "publishTerminalAt env cmd (fst st) (fst (snd (h cmd))) (fst (snd (snd (h cmd)))) (snd st)
      (e_started env) s1 =
      s1\<lparr>agLedger := fst (MarkComplete True ?k (fst st) m doc (agLedger s1)),
         agPublished := agPublished s1 @ [(result_subject s1, doc)]\<rparr>"
    using publishTerminalAt_effect [OF ledger_okD [OF ok1] g1 assms(8,6,9)] unfolding m_def by blast
  define b2 where "b2 = fst (MarkComplete True ?k (fst st) m doc (agLedger s1))"
  have "ledger_ok b2"
    unfolding b2_def MarkComplete_def by (rule ledger_ok_update [OF ok1]) simp
  moreover have "GetReceipt ?k b2 = Inr (r\<lparr>rcState := fst st, rcResultMsgID := m,
        rcResultEnvelope := Some doc, rcResultAcked := False\<rparr>)"
    unfolding b2_def using MarkComplete_get(2) [OF ledger_okD [OF ok1] g1] by simp
  moreover have "execute env cmd s = s\<lparr>agLedger := b2,
      agCancels := cancels_delete (cTargetID cmd) (cancels_delete ?k (agCancels s1)),
      agHandled := agHandled s @ [?k], agPublished := agPublished s @ [(result_subject s, doc)]\<rparr>"
    using doc ctx beg assms(4,5) unfolding st_def
    by (simp add: execute_def Get_def Let_def run_handler_def b2_def st_def split_beta s1_def result_subject_def)
  ultimately show ?thesis by blast
qed

text \<open>
  First delivery: a new command for a registered handler, with working storage and connection
  and no interference, is recorded, acknowledged as accepted, handed to the handler exactly once,
  and answered: the terminal status is the one derived from the handler's answer, the result document
  is stored in the ledger before it is published unchanged on the agent's result subject, the ledger
  stays well formed and the delivery is acknowledged.
\<close>

theorem fresh_command_executed_once:
  assumes "validateCommand (e_now env) data (agTenant s) (agAgent s) = Inr cmd"
    and "ledger_ok (agLedger s)" and "bucket_get (agLedger s) (cEventID cmd) = None"
    and "e_registry env (cCommandType cmd) = Some h" and "\<And>x. e_during env x = x"
    and "e_ack_pub env" and "e_result_pub env" and "e_record_io env" and "e_begin_io env" and "e_complete_io env"
    and "raw_message (fst (snd (snd (h cmd)))) = Some j"
  shows "\<exists>s' rc doc. handleDurableCommand env data s = (s', DAck)
    \<and> agHandled s' = agHandled s @ [cEventID cmd]
    \<and> GetReceipt (cEventID cmd) (agLedger s') = Inr rc
    \<and> rcState rc = fst (final_status (h cmd) (ctx_err env (cEventID cmd) s)) \<and> job_terminal (rcState rc)
    \<and> rcResultEnvelope rc = Some doc \<and> rcResultAcked rc = False
    \<and> agPublished s' = agPublished s @
        [(ack_subject s, ack_document env s cmd ''accepted''), (result_subject s, doc)]
    \<and> ledger_ok (agLedger s')"
proof -
  let ?r = "new_receipt (e_now env) (agAgent s) cmd"
  define b where "b = bucket_put (cEventID cmd) (Decoded ?r) (agLedger s)"
  define s1 where "s1 = publish (ack_subject s) (ack_document env s cmd ''accepted'') (s\<lparr>agLedger := b\<rparr>)"
  have k: "cEventID cmd \<noteq> []" using assms(1) by (simp add: validateCommand_ok)
  have rcd: "RecordReceipt (e_record_io env) ?r (agLedger s) = (b, Inr ())"
    using k assms(3,8) by (simp add: RecordReceipt_def bolt_update_def new_receipt_def b_def)
  have ok: "ledger_ok (agLedger s1)"
    unfolding s1_def b_def using k assms(2) by (simp add: ledger_ok_put new_receipt_def)
  have got: "GetReceipt (cEventID cmd) (agLedger s1) = Inr ?r"
    by (simp add: s1_def b_def GetReceipt_Inr bucket_get_put ledger_okD [OF assms(2)])
  have ctx: "ctx_err env (cEventID cmd) s1 = ctx_err env (cEventID cmd) s" by (simp add: ctx_err_def s1_def)
  have h: "handleDurableCommand env data s = settle (cEventID cmd) (execute env cmd s1)"
    using assms(1,3,6) rcd by (simp add: handleDurableCommand_def GetReceipt_def [of "cEventID cmd" "agLedger s"] s1_def)
  have "rcState ?r = StateReceived" by (simp add: new_receipt_def)
  from execute_effect [OF ok got this assms(4,5,7,9,10,11)] show ?thesis
    unfolding h ctx by (auto simp: settle_def s1_def result_subject_def final_status_terminal)
qed

section \<open>Examples\<close>

definition example_handler :: CommandHandler where
  "example_handler cmd = (StateSucceeded, 0, Some (Decoded (JStr ''done'')), None)"

definition example_env :: agent_env where
  "example_env =
     \<lparr>e_now = 0, e_started = 0, e_completed = 1000000, e_registry = Register ''script'' example_handler NewHandlerRegistry,
      e_during = (\<lambda>s. s), e_deadline = False, e_parent_done = False, e_ack_pub = True, e_result_pub = True,
      e_record_io = True, e_begin_io = True, e_complete_io = True\<rparr>"

definition example_agent :: agent where
  "example_agent = NewJobDispatcher [] ''acme'' ''a1''"

definition crashed_agent :: agent where
  "crashed_agent = NewJobDispatcher
     [(''j:t:1'', Decoded (example_receipt\<lparr>rcEventID := ''j:t:1'', rcState := StateRunning\<rparr>))] ''acme'' ''a1''"

definition example_cmd :: CommandEnvelope where
  "example_cmd =
     \<lparr>cSchemaVersion = 1, cEventID = ''j:t:1'', cJobID = ''j'', cTargetID = ''t'', cMSPID = ''acme'', cClientID = [],
      cSiteID = [], cDeviceID = ''d'', cAgentID = ''a1'', cCorrelationID = ''c'', cAttempt = 1, cIssuedAt = [],
      cExpiresAt = ''2024-02-29T12:30:15Z'', cCommandType = ''script'', cPayload = None\<rparr>"

lemma example_cmd_ok: "validateCommand 0 (Decoded example_command) ''acme'' ''a1'' = Inr example_cmd"
  by code_simp

lemma example_agent_simps [simp]:
  "agTenant example_agent = ''acme''" "agAgent example_agent = ''a1''" "agLedger example_agent = []"
  "agTenant crashed_agent = ''acme''" "agAgent crashed_agent = ''a1''" "agCancels crashed_agent = []"
  "e_now example_env = 0"
  by (simp_all add: example_agent_def crashed_agent_def NewJobDispatcher_def example_env_def)

theorem acknowledged_delivery_has_result_witness:
  "\<exists>cmd rc doc. validateCommand 0 (Decoded example_command) ''acme'' ''a1'' = Inr cmd
     \<and> GetReceipt (cEventID cmd) (agLedger (fst (handleDurableCommand example_env (Decoded example_command) example_agent)))
         = Inr rc \<and> rcResultEnvelope rc = Some doc"
proof -
  have "snd (handleDurableCommand example_env (Decoded example_command) example_agent) = DAck" by code_simp
  then have "handleDurableCommand example_env (Decoded example_command) example_agent =
      (fst (handleDurableCommand example_env (Decoded example_command) example_agent), DAck)"
    by (metis prod.collapse)
  from acknowledged_delivery_has_result [OF this] show ?thesis by simp
qed

theorem redelivery_never_reexecutes_witness:
  "agHandled (fst (handleDurableCommand example_env (Decoded example_command) crashed_agent)) = []
   \<and> snd (handleDurableCommand example_env (Decoded example_command) crashed_agent) = DAck"
proof -
  let ?rc = "example_receipt\<lparr>rcEventID := ''j:t:1'', rcState := StateRunning\<rparr>"
  have v: "validateCommand (e_now example_env) (Decoded example_command) (agTenant crashed_agent) (agAgent crashed_agent)
      = Inr example_cmd"
    by (simp add: example_cmd_ok)
  have g: "GetReceipt (cEventID example_cmd) (agLedger crashed_agent) = Inr ?rc" by code_simp
  have st: "rcState ?rc = StateRunning" "rcResultEnvelope ?rc = None" by (simp_all add: example_receipt_def)
  have ok: "ledger_ok (agLedger crashed_agent)" "agHandled crashed_agent = []" by code_simp+
  show ?thesis
    using redelivery_never_reexecutes [OF v g] st ok by (simp add: example_env_def)
qed

theorem fresh_command_executed_once_witness:
  "\<exists>s' rc doc. handleDurableCommand example_env (Decoded example_command) example_agent = (s', DAck)
     \<and> agHandled s' = [''j:t:1''] \<and> GetReceipt ''j:t:1'' (agLedger s') = Inr rc \<and> rcState rc = StateSucceeded
     \<and> rcResultEnvelope rc = Some doc"
proof -
  have v: "validateCommand (e_now example_env) (Decoded example_command) (agTenant example_agent) (agAgent example_agent)
      = Inr example_cmd"
    by (simp add: example_cmd_ok)
  have reg: "e_registry example_env (cCommandType example_cmd) = Some example_handler"
    by (simp add: example_env_def example_cmd_def Register_def)
  have raw: "raw_message (fst (snd (snd (example_handler example_cmd)))) = Some (JStr ''done'')" by code_simp
  have st: "fst (final_status (example_handler example_cmd) (ctx_err example_env (cEventID example_cmd) example_agent))
      = StateSucceeded" "cEventID example_cmd = ''j:t:1''" "agHandled example_agent = []" by code_simp+
  show ?thesis
    using fresh_command_executed_once [OF v _ _ reg _ _ _ _ _ _ raw] st
    by (auto simp: example_env_def bucket_get_def)
qed

section \<open>Replay of stored results\<close>

text \<open>
  The documents that replay publishes are, in ledger order, those of the receipts that hold a result
  no receipt has been recorded for.
\<close>

lemma replay_list_all:
  "length rs \<le> length oks \<Longrightarrow> list_all id oks \<Longrightarrow> list_all (\<lambda>r. rcResultEnvelope r \<noteq> None) rs \<Longrightarrow>
     replay_list oks rs s =
       (s\<lparr>agPublished := agPublished s @ map (\<lambda>r. (result_subject s, the (rcResultEnvelope r))) rs\<rparr>, True)"
proof (induction oks rs s rule: replay_list.induct)
  case (3 k oks r rs s)
  then show ?case by (auto simp: result_subject_def publish_def)
qed auto

lemma GetUnacknowledged_stored:
  "GetUnacknowledgedResults b = Inr rs \<Longrightarrow> list_all (\<lambda>r. rcResultEnvelope r \<noteq> None) rs"
  by (auto simp: GetUnacknowledgedResults_def list_all_iff split: option.splits)


definition answered_agent :: agent where
  "answered_agent = fst (handleDurableCommand example_env (Decoded example_command) example_agent)"


end
