(* ===== verification/SmartGroups.thy ===== *)
theory SmartGroups
  imports Json GoTime "HOL-Library.Char_ord" "HOL-Library.List_Lexorder"
begin

text \<open>
  Smart groups, \<^verbatim>\<open>internal/groups/dsl.go\<close>: filter expressions over devices, their validation, evaluation,
  parsing and serialization. A Go \<^verbatim>\<open>interface{}\<close> is the datatype \<open>gval\<close>, which keeps the dynamic
  type; in particular a nil pointer inside an interface is not the nil interface. The regular expression
  engine, the parser and the shortest printing of floating-point numbers are arguments (\<open>golib\<close>).
\<close>

section \<open>Values\<close>

datatype gval =
    GNil
  | GStr string
  | GInt int
  | GInt64 int
  | GFloat rat
  | GBool bool
  | GTime instant
  | GTimePtr "instant option"
  | GStrs "string list"
  | GAny "gval list"
  | GMap "(string \<times> gval) list"

record golib =
  g_parse_float :: "string \<Rightarrow> rat option"
  g_print_float :: "rat \<Rightarrow> string"
  g_regex :: "string \<Rightarrow> string \<Rightarrow> bool option"   \<comment> \<open>pattern, text; \<open>None\<close> when the pattern does not compile\<close>

text \<open>Conversion of an integer to \<^verbatim>\<open>float64\<close>: 53 significant bits, rounding to nearest, ties to even.\<close>

fun bit_length :: "nat \<Rightarrow> nat" where
  "bit_length n = (if n = 0 then 0 else Suc (bit_length (n div 2)))"

declare bit_length.simps [simp del]

definition round_even :: "nat \<Rightarrow> nat \<Rightarrow> nat" where
  "round_even n e =
     (let q = n div 2 ^ e; r = n mod 2 ^ e; half = 2 ^ (e - 1)
      in (if half < r \<or> (r = half \<and> odd q) then Suc q else q) * 2 ^ e)"

definition float64_of_int :: "int \<Rightarrow> rat" where
  "float64_of_int i =
     (let n = nat \<bar>i\<bar>; k = bit_length n
      in if k \<le> 53 then of_int i else of_int (sgn i * int (round_even n (k - 53))))"

section \<open>Filters and expressions\<close>

definition validOperators :: "string list" where
  "validOperators = [''eq'', ''neq'', ''gt'', ''gte'', ''lt'', ''lte'', ''contains'', ''startswith'', ''in'', ''contains_any'',
     ''is_null'', ''not_null'', ''regex'']"

record filter =
  f_field :: string
  f_op :: string
  f_value :: gval

datatype expression = Expression (e_condition: string) (e_filters: "filter list") (e_nested: "expression option")

datatype group_error =
    FieldRequired | UnsupportedOperator | BadCondition | EmptyExpression | NotComparable | NotAList | NotArrays
  | BadRegex | NotImplemented | ParseError

definition Validate_filter :: "filter \<Rightarrow> group_error + unit" where
  "Validate_filter f =
     (if f_field f = [] then Inl FieldRequired
      else if \<not> List.member validOperators (f_op f) then Inl UnsupportedOperator
      else Inr ())"

fun first_error :: "('e + unit) list \<Rightarrow> 'e + unit" where
  "first_error [] = Inr ()"
| "first_error (Inl e # _) = Inl e"
| "first_error (Inr _ # rest) = first_error rest"

definition condition_of :: "string \<Rightarrow> string" where
  "condition_of c = ToUpper (TrimSpace c)"

fun Validate :: "expression \<Rightarrow> group_error + unit" where
  "Validate (Expression c fs nested) =
     (if condition_of c \<noteq> ''AND'' \<and> condition_of c \<noteq> ''OR'' then Inl BadCondition
      else if fs = [] \<and> nested = None then Inl EmptyExpression
      else case first_error (map Validate_filter fs) of
             Inl e \<Rightarrow> Inl e
           | Inr _ \<Rightarrow> (case nested of None \<Rightarrow> Inr () | Some n \<Rightarrow> Validate n))"

section \<open>Devices\<close>

record Device =
  d_Hostname :: string
  d_OS :: string
  d_OSVersion :: string
  d_Arch :: string
  d_CPUCores :: int
  d_RAMTotalMB :: int
  d_DiskTotalMB :: int
  d_AgentVersion :: string
  d_Status :: string
  d_LastHeartbeat :: "instant option"
  d_CreatedAt :: instant
  d_Tags :: "string list"
  d_PublicIP :: string
  d_PrivateIPs :: "string list"

definition getDeviceValue :: "string \<Rightarrow> Device \<Rightarrow> gval" where
  "getDeviceValue field d =
     (let k = ToLower (TrimSpace field)
      in if k = ''hostname'' then GStr (d_Hostname d)
         else if k = ''os'' then GStr (d_OS d)
         else if k = ''os_version'' then GStr (d_OSVersion d)
         else if k = ''arch'' then GStr (d_Arch d)
         else if k = ''cpu_cores'' then GInt (d_CPUCores d)
         else if k = ''ram_total_mb'' then GInt64 (d_RAMTotalMB d)
         else if k = ''disk_total_mb'' then GInt64 (d_DiskTotalMB d)
         else if k = ''agent_version'' then GStr (d_AgentVersion d)
         else if k = ''status'' then GStr (d_Status d)
         else if k = ''last_heartbeat'' then GTimePtr (d_LastHeartbeat d)
         else if k = ''created_at'' then GTime (d_CreatedAt d)
         else if k = ''public_ip'' then GStr (d_PublicIP d)
         else if k = ''private_ips'' then GStrs (d_PrivateIPs d)
         else if k = ''tags'' then GStrs (d_Tags d)
         else GNil)"

section \<open>Operators\<close>

text \<open>The \<^verbatim>\<open>%v\<close> verb of \<^verbatim>\<open>fmt\<close>.\<close>

definition insert_key :: "(string \<times> 'a) \<Rightarrow> (string \<times> 'a) list \<Rightarrow> (string \<times> 'a) list" where
  "insert_key p ps = insort_key fst p ps"

fun Sprint :: "golib \<Rightarrow> gval \<Rightarrow> string" where
  "Sprint L GNil = ''<nil>''"
| "Sprint L (GStr s) = s"
| "Sprint L (GInt i) = int_digits i"
| "Sprint L (GInt64 i) = int_digits i"
| "Sprint L (GFloat r) = g_print_float L r"
| "Sprint L (GBool b) = (if b then ''true'' else ''false'')"
| "Sprint L (GTime t) = Format_RFC3339 t"
| "Sprint L (GTimePtr t) = (case t of None \<Rightarrow> ''<nil>'' | Some x \<Rightarrow> Format_RFC3339 x)"
| "Sprint L (GStrs ss) = ''['' @ Join (CHR '' '') ss @ '']''"
| "Sprint L (GAny vs) = ''['' @ Join (CHR '' '') (map (Sprint L) vs) @ '']''"
| "Sprint L (GMap kvs) =
     ''map['' @ Join (CHR '' '') (map (\<lambda>(k, s). k @ '':'' @ s)
       (foldr insert_key (map (\<lambda>(k, v). (k, Sprint L v)) kvs) [])) @ '']''"

definition toString :: "golib \<Rightarrow> gval \<Rightarrow> string" where
  "toString L v =
     (case v of
        GNil \<Rightarrow> []
      | GStr s \<Rightarrow> s
      | GTime t \<Rightarrow> Format_RFC3339 t
      | GTimePtr t \<Rightarrow> (case t of None \<Rightarrow> [] | Some x \<Rightarrow> Format_RFC3339 x)
      | _ \<Rightarrow> Sprint L v)"

definition valuesEqual :: "golib \<Rightarrow> gval \<Rightarrow> gval \<Rightarrow> bool" where
  "valuesEqual L a b =
     (if a = GNil \<and> b = GNil then True
      else if a = GNil \<or> b = GNil then False
      else case a of
             GStr va \<Rightarrow> (case b of GStr vb \<Rightarrow> EqualFold va vb | _ \<Rightarrow> False)
           | GInt va \<Rightarrow> (case b of GFloat vb \<Rightarrow> float64_of_int va = vb | GInt vb \<Rightarrow> va = vb | _ \<Rightarrow> False)
           | GInt64 va \<Rightarrow>
               (case b of
                  GFloat vb \<Rightarrow> float64_of_int va = vb
                | GInt vb \<Rightarrow> float64_of_int va = float64_of_int vb
                | GInt64 vb \<Rightarrow> va = vb
                | _ \<Rightarrow> False)
           | GBool va \<Rightarrow> (case b of GBool vb \<Rightarrow> va = vb | _ \<Rightarrow> False)
           | GTime va \<Rightarrow> (case b of GTime vb \<Rightarrow> va = vb | _ \<Rightarrow> False)
           | GTimePtr va \<Rightarrow> (case b of GTimePtr vb \<Rightarrow> va = vb | _ \<Rightarrow> False)
           | GStrs va \<Rightarrow> (case b of GStrs vb \<Rightarrow> va = vb | _ \<Rightarrow> False)
           | _ \<Rightarrow> Sprint L a = Sprint L b)"

definition toFloat64 :: "golib \<Rightarrow> gval \<Rightarrow> rat" where
  "toFloat64 L v =
     (case v of
        GInt i \<Rightarrow> float64_of_int i
      | GInt64 i \<Rightarrow> float64_of_int i
      | GFloat r \<Rightarrow> r
      | GStr s \<Rightarrow> (case g_parse_float L s of None \<Rightarrow> 0 | Some f \<Rightarrow> f)
      | GTime t \<Rightarrow> float64_of_int t
      | GTimePtr (Some t) \<Rightarrow> float64_of_int t
      | _ \<Rightarrow> 0)"

definition isTime :: "gval \<Rightarrow> bool" where
  "isTime v = (case v of GTime _ \<Rightarrow> True | GTimePtr _ \<Rightarrow> True | _ \<Rightarrow> False)"

definition compareNumeric :: "golib \<Rightarrow> gval \<Rightarrow> gval \<Rightarrow> string \<Rightarrow> group_error + bool" where
  "compareNumeric L a b op =
     (let aNum = toFloat64 L a; bNum = toFloat64 L b
      in if aNum = 0 \<and> \<not> isTime a then Inl NotComparable
         else if bNum = 0 \<and> \<not> isTime b then Inl NotComparable
         else if op = ''gt'' then Inr (bNum < aNum)
         else if op = ''gte'' then Inr (bNum \<le> aNum)
         else if op = ''lt'' then Inr (aNum < bNum)
         else if op = ''lte'' then Inr (aNum \<le> bNum)
         else Inr False)"

definition stringContains :: "golib \<Rightarrow> gval \<Rightarrow> gval \<Rightarrow> group_error + bool" where
  "stringContains L a b = Inr (Contains (ToLower (toString L a)) (ToLower (toString L b)))"

definition stringStartsWith :: "golib \<Rightarrow> gval \<Rightarrow> gval \<Rightarrow> group_error + bool" where
  "stringStartsWith L a b = Inr (HasPrefix (ToLower (toString L a)) (ToLower (toString L b)))"

definition toAnySlice :: "gval \<Rightarrow> gval list option" where
  "toAnySlice v = (case v of GAny vs \<Rightarrow> Some vs | GStrs ss \<Rightarrow> Some (map GStr ss) | _ \<Rightarrow> None)"

definition valueInList :: "golib \<Rightarrow> gval \<Rightarrow> gval \<Rightarrow> group_error + bool" where
  "valueInList L v xs =
     (case toAnySlice xs of None \<Rightarrow> Inl NotAList | Some arr \<Rightarrow> Inr (list_ex (valuesEqual L v) arr))"

definition arrayIntersects :: "golib \<Rightarrow> gval \<Rightarrow> gval \<Rightarrow> group_error + bool" where
  "arrayIntersects L a b =
     (case (toAnySlice a, toAnySlice b) of
        (Some arrA, Some arrB) \<Rightarrow> Inr (list_ex (\<lambda>x. list_ex (valuesEqual L x) arrB) arrA)
      | _ \<Rightarrow> Inl NotArrays)"

definition matchRegex :: "golib \<Rightarrow> gval \<Rightarrow> gval \<Rightarrow> group_error + bool" where
  "matchRegex L v pat =
     (case g_regex L (toString L pat) (toString L v) of None \<Rightarrow> Inl BadRegex | Some b \<Rightarrow> Inr b)"

definition evaluateFilter :: "golib \<Rightarrow> Device \<Rightarrow> filter \<Rightarrow> group_error + bool" where
  "evaluateFilter L d f =
     (let raw = getDeviceValue (f_field f) d; op = f_op f; v = f_value f
      in if op = ''is_null'' then Inr (raw = GNil)
         else if op = ''not_null'' then Inr (raw \<noteq> GNil)
         else if raw = GNil then Inr False
         else if op = ''eq'' then Inr (valuesEqual L raw v)
         else if op = ''neq'' then Inr (\<not> valuesEqual L raw v)
         else if op = ''gt'' \<or> op = ''gte'' \<or> op = ''lt'' \<or> op = ''lte'' then compareNumeric L raw v op
         else if op = ''contains'' then stringContains L raw v
         else if op = ''startswith'' then stringStartsWith L raw v
         else if op = ''in'' then valueInList L raw v
         else if op = ''contains_any'' then arrayIntersects L raw v
         else if op = ''regex'' then matchRegex L raw v
         else Inl NotImplemented)"

section \<open>Evaluation\<close>

text \<open>The two loops over filters: stop at an error or at the deciding answer.\<close>

fun all_filters :: "(group_error + bool) list \<Rightarrow> group_error + bool" where
  "all_filters [] = Inr True"
| "all_filters (Inl e # _) = Inl e"
| "all_filters (Inr b # rest) = (if \<not> b then Inr False else all_filters rest)"

fun any_filter :: "(group_error + bool) list \<Rightarrow> group_error + bool" where
  "any_filter [] = Inr False"
| "any_filter (Inl e # _) = Inl e"
| "any_filter (Inr b # rest) = (if b then Inr True else any_filter rest)"

fun evaluateAnd :: "golib \<Rightarrow> Device \<Rightarrow> expression \<Rightarrow> group_error + bool" where
  "evaluateAnd L d (Expression c fs nested) =
     (case all_filters (map (evaluateFilter L d) fs) of
        Inr True \<Rightarrow> (case nested of None \<Rightarrow> Inr True | Some n \<Rightarrow> evaluateAnd L d n)
      | r \<Rightarrow> r)"

fun evaluateOr :: "golib \<Rightarrow> Device \<Rightarrow> expression \<Rightarrow> group_error + bool" where
  "evaluateOr L d (Expression c fs nested) =
     (case any_filter (map (evaluateFilter L d) fs) of
        Inr False \<Rightarrow>
          (case nested of
             None \<Rightarrow> Inr False
           | Some n \<Rightarrow> if condition_of (e_condition n) = ''AND'' then evaluateAnd L d n else evaluateOr L d n)
      | r \<Rightarrow> r)"

definition Evaluate :: "golib \<Rightarrow> Device \<Rightarrow> expression \<Rightarrow> group_error + bool" where
  "Evaluate L d e =
     (case Validate e of
        Inl err \<Rightarrow> Inl err
      | Inr _ \<Rightarrow>
          if condition_of (e_condition e) = ''AND'' then evaluateAnd L d e
          else if condition_of (e_condition e) = ''OR'' then evaluateOr L d e
          else Inl BadCondition)"

section \<open>Documents\<close>

fun gval_of_json :: "json \<Rightarrow> gval" where
  "gval_of_json JNull = GNil"
| "gval_of_json (JBool b) = GBool b"
| "gval_of_json (JNum r) = GFloat r"
| "gval_of_json (JStr s) = GStr s"
| "gval_of_json (JArr vs) = GAny (map gval_of_json vs)"
| "gval_of_json (JObj kvs) = GMap (map (\<lambda>(k, v). (k, gval_of_json v)) kvs)"

fun json_of_gval :: "gval \<Rightarrow> json" where
  "json_of_gval GNil = JNull"
| "json_of_gval (GStr s) = JStr s"
| "json_of_gval (GInt i) = JNum (of_int i)"
| "json_of_gval (GInt64 i) = JNum (of_int i)"
| "json_of_gval (GFloat r) = JNum r"
| "json_of_gval (GBool b) = JBool b"
| "json_of_gval (GTime t) = JStr (Format_RFC3339 t)"
| "json_of_gval (GTimePtr t) = (case t of None \<Rightarrow> JNull | Some x \<Rightarrow> JStr (Format_RFC3339 x))"
| "json_of_gval (GStrs ss) = JArr (map JStr ss)"
| "json_of_gval (GAny vs) = JArr (map json_of_gval vs)"
| "json_of_gval (GMap kvs) = JObj (map (\<lambda>(k, v). (k, json_of_gval v)) kvs)"

definition last_field :: "string \<Rightarrow> (string \<times> json) list \<Rightarrow> json" where
  "last_field name kvs = (case rev (json_fields name kvs) of [] \<Rightarrow> JNull | v # _ \<Rightarrow> v)"

definition dec_filter :: "json \<Rightarrow> filter option" where
  "dec_filter j =
     (case j of
        JNull \<Rightarrow> Some \<lparr>f_field = [], f_op = [], f_value = GNil\<rparr>
      | JObj kvs \<Rightarrow> do {
          fld \<leftarrow> dec_str kvs ''field'';
          op \<leftarrow> dec_str kvs ''op'';
          Some \<lparr>f_field = fld, f_op = op, f_value = gval_of_json (last_field ''value'' kvs)\<rparr> }
      | _ \<Rightarrow> None)"

fun dec_filters :: "json list \<Rightarrow> filter list option" where
  "dec_filters [] = Some []"
| "dec_filters (j # js) = do { f \<leftarrow> dec_filter j; fs \<leftarrow> dec_filters js; Some (f # fs) }"

lemma json_fields_size: "v \<in> set (json_fields name kvs) \<Longrightarrow> size v < size (JObj kvs)"
  by (induction kvs) (auto split: if_splits)

lemma last_field_size: "last_field name kvs = JObj kvs' \<Longrightarrow> size (JObj kvs') < size (JObj kvs)"
proof (cases "rev (json_fields name kvs)")
  case (Cons v vs)
  then have "v \<in> set (json_fields name kvs)" by (metis list.set_intros(1) set_rev)
  then show "last_field name kvs = JObj kvs' \<Longrightarrow> ?thesis"
    using Cons json_fields_size by (simp only: last_field_def list.case)
qed (simp add: last_field_def)

text \<open>An object holds at most one value per field here; with repeated keys the last one counts.\<close>

function dec_expression :: "json \<Rightarrow> expression option" where
  "dec_expression j =
     (case j of
        JNull \<Rightarrow> Some (Expression [] [] None)
      | JObj kvs \<Rightarrow> do {
          c \<leftarrow> dec_str kvs ''condition'';
          fs \<leftarrow> (case last_field ''filters'' kvs of JNull \<Rightarrow> Some [] | JArr js \<Rightarrow> dec_filters js | _ \<Rightarrow> None);
          (case last_field ''nested'' kvs of
             JNull \<Rightarrow> Some (Expression c fs None)
           | JObj kvs' \<Rightarrow> map_option (\<lambda>n. Expression c fs (Some n)) (dec_expression (JObj kvs'))
           | _ \<Rightarrow> None) }
      | _ \<Rightarrow> None)"
  by pat_completeness auto
termination by (relation "measure size") (auto dest: last_field_size)

declare dec_expression.simps [simp del]

definition ParseExpression :: "json wire \<Rightarrow> group_error + expression" where
  "ParseExpression data =
     (case data of
        Malformed \<Rightarrow> Inl ParseError
      | Decoded j \<Rightarrow>
          (case dec_expression j of
             None \<Rightarrow> Inl ParseError
           | Some e \<Rightarrow> (case Validate e of Inl err \<Rightarrow> Inl err | Inr _ \<Rightarrow> Inr e)))"

definition json_of_filter :: "filter \<Rightarrow> json" where
  "json_of_filter f = JObj [(''field'', JStr (f_field f)), (''op'', JStr (f_op f)), (''value'', json_of_gval (f_value f))]"

fun json_of_expression :: "expression \<Rightarrow> json" where
  "json_of_expression (Expression c fs nested) =
     JObj ([(''condition'', JStr c), (''filters'', JArr (map json_of_filter fs))]
           @ (case nested of None \<Rightarrow> [] | Some n \<Rightarrow> [(''nested'', json_of_expression n)]))"

definition SerializeExpression :: "expression \<Rightarrow> group_error + json" where
  "SerializeExpression e = (case Validate e of Inl err \<Rightarrow> Inl err | Inr _ \<Rightarrow> Inr (json_of_expression e))"

text \<open>A raw message: \<open>None\<close> for a nil message; texts that are empty, \<^verbatim>\<open>{}\<close> or \<^verbatim>\<open>null\<close> have no content.\<close>

definition IsSmartGroup :: "json wire option \<Rightarrow> bool" where
  "IsSmartGroup raw =
     (case raw of
        None \<Rightarrow> False
      | Some Malformed \<Rightarrow> False
      | Some (Decoded j) \<Rightarrow>
          (case dec_expression j of None \<Rightarrow> False | Some e \<Rightarrow> e_filters e \<noteq> [] \<or> e_nested e \<noteq> None))"

section \<open>Round trip\<close>

text \<open>The values a parsed expression can hold.\<close>

fun json_val :: "gval \<Rightarrow> bool" where
  "json_val GNil = True"
| "json_val (GStr s) = True"
| "json_val (GFloat r) = True"
| "json_val (GBool b) = True"
| "json_val (GAny vs) = list_all json_val vs"
| "json_val (GMap kvs) = list_all (\<lambda>(k, v). json_val v) kvs"
| "json_val _ = False"

fun json_expr :: "expression \<Rightarrow> bool" where
  "json_expr (Expression c fs nested) =
     (list_all (\<lambda>f. json_val (f_value f)) fs \<and> (case nested of None \<Rightarrow> True | Some n \<Rightarrow> json_expr n))"

lemma gval_roundtrip: "json_val v \<Longrightarrow> gval_of_json (json_of_gval v) = v"
  by (induction v rule: json_val.induct) (auto simp: list_all_iff map_idI comp_def split_beta intro!: map_idI)

lemma group_names_lower:
  "list_all (\<lambda>s. ToLower s = s) [''condition'', ''filters'', ''nested'', ''field'', ''op'', ''value'']"
  by code_simp

lemmas group_names = group_names_lower [unfolded list.pred_inject]

lemma dec_filter_roundtrip: "json_val (f_value f) \<Longrightarrow> dec_filter (json_of_filter f) = Some f"
  by (simp add: dec_filter_def json_of_filter_def dec_str_def last_field_def EqualFold_def group_names gval_roundtrip)

lemma dec_filters_roundtrip:
  "list_all (\<lambda>f. json_val (f_value f)) fs \<Longrightarrow> dec_filters (map json_of_filter fs) = Some fs"
  by (induction fs) (simp_all add: dec_filter_roundtrip)

lemma dec_expression_roundtrip: "json_expr e \<Longrightarrow> dec_expression (json_of_expression e) = Some e"
proof (induction e rule: json_expr.induct)
  case (1 c fs nested)
  have obj: "\<exists>kvs. json_of_expression n = JObj kvs" for n by (cases n) auto
  show ?case
  proof (cases nested)
    case None
    with 1 show ?thesis
      by (subst dec_expression.simps) (simp add: dec_str_def last_field_def EqualFold_def group_names dec_filters_roundtrip)
  next
    case (Some n)
    with 1 have "dec_expression (json_of_expression n) = Some n" by simp
    moreover obtain kvs where "json_of_expression n = JObj kvs" using obj by blast
    ultimately show ?thesis
      using 1 Some
      by (subst dec_expression.simps) (simp add: dec_str_def last_field_def EqualFold_def group_names dec_filters_roundtrip)
  qed
qed


definition example_device :: Device where
  "example_device = \<lparr>d_Hostname = ''web-1'', d_OS = ''linux'', d_OSVersion = ''12'', d_Arch = ''amd64'', d_CPUCores = 4,
     d_RAMTotalMB = 8192, d_DiskTotalMB = 0, d_AgentVersion = ''1.2.0'', d_Status = ''online'', d_LastHeartbeat = None,
     d_CreatedAt = 0, d_Tags = [''prod''], d_PublicIP = [], d_PrivateIPs = []\<rparr>"

definition example_expression :: expression where
  "example_expression = Expression ''and'' [\<lparr>f_field = ''os'', f_op = ''eq'', f_value = GStr ''Linux''\<rparr>]
     (Some (Expression ''OR'' [\<lparr>f_field = ''arch'', f_op = ''eq'', f_value = GStr ''arm64''\<rparr>,
                             \<lparr>f_field = ''cpu_cores'', f_op = ''gte'', f_value = GFloat 2\<rparr>] None))"

lemma example_expression_valid: "Validate example_expression = Inr ()"
  by code_simp


section \<open>The meaning of an expression\<close>

definition holds :: "golib \<Rightarrow> Device \<Rightarrow> filter \<Rightarrow> bool" where
  "holds L d f = (case evaluateFilter L d f of Inr True \<Rightarrow> True | _ \<Rightarrow> False)"

text \<open>What an expression says: the conjunction or the disjunction of its filters and its nested expression.\<close>

fun denote :: "golib \<Rightarrow> Device \<Rightarrow> expression \<Rightarrow> bool" where
  "denote L d (Expression c fs nested) =
     (if condition_of c = ''AND''
      then list_all (holds L d) fs \<and> (case nested of None \<Rightarrow> True | Some n \<Rightarrow> denote L d n)
      else list_ex (holds L d) fs \<or> (case nested of None \<Rightarrow> False | Some n \<Rightarrow> denote L d n))"

text \<open>No filter on the chain of nested expressions fails on the device.\<close>

fun no_errors :: "golib \<Rightarrow> Device \<Rightarrow> expression \<Rightarrow> bool" where
  "no_errors L d (Expression c fs nested) =
     (list_all (\<lambda>f. case evaluateFilter L d f of Inl _ \<Rightarrow> False | Inr _ \<Rightarrow> True) fs
      \<and> (case nested of None \<Rightarrow> True | Some n \<Rightarrow> no_errors L d n))"

text \<open>Below a conjunction there are conjunctions only.\<close>

fun and_closed :: "bool \<Rightarrow> expression \<Rightarrow> bool" where
  "and_closed b (Expression c fs nested) =
     ((b \<longrightarrow> condition_of c = ''AND'')
      \<and> (case nested of None \<Rightarrow> True | Some n \<Rightarrow> and_closed (condition_of c = ''AND'') n))"

lemma all_filters_holds:
  "list_all (\<lambda>f. case evaluateFilter L d f of Inl _ \<Rightarrow> False | Inr _ \<Rightarrow> True) fs \<Longrightarrow>
     all_filters (map (evaluateFilter L d) fs) = Inr (list_all (holds L d) fs)"
  by (induction fs) (auto simp: holds_def split: sum.splits bool.splits)

lemma any_filter_holds:
  "list_all (\<lambda>f. case evaluateFilter L d f of Inl _ \<Rightarrow> False | Inr _ \<Rightarrow> True) fs \<Longrightarrow>
     any_filter (map (evaluateFilter L d) fs) = Inr (list_ex (holds L d) fs)"
  by (induction fs) (auto simp: holds_def split: sum.splits bool.splits)

lemma evaluateAnd_denote:
  "no_errors L d e \<Longrightarrow> and_closed True e \<Longrightarrow> evaluateAnd L d e = Inr (denote L d e)"
proof (induction e rule: json_expr.induct)
  case (1 c fs nested)
  then show ?case by (cases nested) (auto simp: all_filters_holds split: bool.splits)
qed

lemma evaluateOr_denote:
  "no_errors L d e \<Longrightarrow> and_closed False e \<Longrightarrow> condition_of (e_condition e) \<noteq> ''AND'' \<Longrightarrow>
     evaluateOr L d e = Inr (denote L d e)"
proof (induction e rule: json_expr.induct)
  case (1 c fs nested)
  show ?case
  proof (cases nested)
    case None
    with 1 show ?thesis by (auto simp: any_filter_holds split: bool.splits)
  next
    case (Some n)
    have "condition_of (e_condition n) = ''AND'' \<Longrightarrow> and_closed True n" if "and_closed False n"
      using that by (cases n) auto
    with 1 Some evaluateAnd_denote [of L d n] show ?thesis
      by (auto simp: any_filter_holds split: bool.splits)
  qed
qed


definition example_lib :: golib where
  "example_lib = \<lparr>g_parse_float = (\<lambda>_. None), g_print_float = (\<lambda>_. []), g_regex = (\<lambda>_ _. None)\<rparr>"


text \<open>
  A disjunction nested below a conjunction is evaluated as a conjunction: there is a valid expression,
  without failing filters, whose meaning holds of a device that the evaluation says does not match.
\<close>

theorem nested_disjunction_ignored:
  "Validate example_expression = Inr () \<and> no_errors example_lib example_device example_expression
   \<and> denote example_lib example_device example_expression
   \<and> Evaluate example_lib example_device example_expression = Inr False"
  by (intro conjI) (code_simp+)

section \<open>Null checks and numeric comparison\<close>

lemma heartbeat_never_null:
  "f_op f = ''is_null'' \<Longrightarrow> f_field f = ''last_heartbeat'' \<Longrightarrow> evaluateFilter L d f = Inr False"
proof -
  assume "f_op f = ''is_null''" "f_field f = ''last_heartbeat''"
  moreover have "ToLower (TrimSpace ''last_heartbeat'') = ''last_heartbeat''" by code_simp
  ultimately show ?thesis by (simp add: evaluateFilter_def getDeviceValue_def Let_def)
qed

lemma bit_length_le: "n < 2 ^ k \<Longrightarrow> bit_length n \<le> k"
proof (induction k arbitrary: n)
  case (Suc k)
  then have "n div 2 < 2 ^ k" by simp
  from Suc.IH [OF this] show ?case by (subst bit_length.simps) simp
qed (simp add: bit_length.simps)

lemma float64_exact: "\<bar>i\<bar> < 2 ^ 53 \<Longrightarrow> float64_of_int i = of_int i"
proof -
  assume "\<bar>i\<bar> < 2 ^ 53"
  then have "nat \<bar>i\<bar> < 2 ^ 53" by (simp add: nat_less_iff)
  from bit_length_le [OF this] show ?thesis by (simp add: float64_of_int_def Let_def)
qed

definition numeric_order :: "string \<Rightarrow> rat \<Rightarrow> rat \<Rightarrow> bool" where
  "numeric_order op x y =
     (if op = ''gt'' then y < x else if op = ''gte'' then y \<le> x else if op = ''lt'' then x < y else x \<le> y)"

text \<open>
  Ordering filters on the number of cores, for counts that a floating-point number represents exactly:
  they order as numbers when both sides are different from zero, and when either side is zero every one
  of the four operators fails, so that for instance ``at least 0'' is an error instead of true.
\<close>

theorem numeric_filters_order_nonzero:
  assumes "List.member [''gt'', ''gte'', ''lt'', ''lte''] op" "\<bar>d_CPUCores d\<bar> < 2 ^ 53"
  shows "evaluateFilter L d \<lparr>f_field = ''cpu_cores'', f_op = op, f_value = GFloat r\<rparr> =
    (if d_CPUCores d = 0 \<or> r = 0 then Inl NotComparable else Inr (numeric_order op (of_int (d_CPUCores d)) r))"
proof -
  have "ToLower (TrimSpace ''cpu_cores'') = ''cpu_cores''" by code_simp
  then have g: "getDeviceValue ''cpu_cores'' d = GInt (d_CPUCores d)" by (simp add: getDeviceValue_def)
  show ?thesis
    using assms(1) float64_exact [OF assms(2)]
    by (auto simp: evaluateFilter_def g compareNumeric_def toFloat64_def isTime_def numeric_order_def Let_def)
qed

theorem numeric_filters_order_nonzero_witness:
  "evaluateFilter example_lib example_device \<lparr>f_field = ''cpu_cores'', f_op = ''gte'', f_value = GFloat 0\<rparr> = Inl NotComparable
   \<and> evaluateFilter example_lib example_device \<lparr>f_field = ''cpu_cores'', f_op = ''gte'', f_value = GFloat 3\<rparr> = Inr True"
  using numeric_filters_order_nonzero [of "''gte''" example_device example_lib 0]
    numeric_filters_order_nonzero [of "''gte''" example_device example_lib 3]
  by (simp add: example_device_def numeric_order_def)

end
