(* ===== verification/Policy.thy ===== *)
theory Policy
  imports Json "HOL-Library.AList" "HOL-Library.Char_ord" "HOL-Library.List_Lexorder"
begin

text \<open>
  Policies: \<^verbatim>\<open>internal/platform/policy_model.go\<close> (normalization, validation, merging of layers),
  \<^verbatim>\<open>policy_effective.go\<close> (the effective policy of a device) and \<^verbatim>\<open>policy_diff.go\<close> (the difference of two
  versions). A Go map is an association list with distinct keys (\<open>map_ok\<close>); the order of a Go map iteration is
  the order of the list, and the theorems hold for every order. The length of an encoded document is
  the argument \<open>encoded\<close>.
\<close>

section \<open>Inputs\<close>

type_synonym config = "(string \<times> json) list"

definition policyCategories :: "string list" where
  "policyCategories = [''patch'', ''alerting'', ''monitoring'', ''software'', ''script'', ''maintenance'', ''maintenance_window'']"

definition policyScopeRank :: "string \<Rightarrow> nat" where
  "policyScopeRank s =
     (if s = ''msp'' then 1 else if s = ''client'' then 2 else if s = ''site'' then 3 else if s = ''device'' then 4 else 0)"

record policyInput =
  pName :: string
  pCategory :: string
  pDescription :: string
  pConfig :: config
  pScopeLevel :: string
  pClientID :: string
  pSiteID :: string
  pDeviceID :: string
  pMaintenanceStart :: "string option"
  pMaintenanceEnd :: "string option"
  pMaintenanceDays :: "string list option"
  pMaintenanceTimezone :: string

record policyLayer =
  lID :: string
  lScopeLevel :: string
  lVersion :: int
  lPublishedVersion :: int
  lConfig :: "config option"  \<comment> \<open>\<open>None\<close> is the nil map\<close>
  lMaintenanceStart :: "string option"
  lMaintenanceEnd :: "string option"
  lMaintenanceDays :: "string list option"
  lMaintenanceTimezone :: string

definition normalize :: "policyInput \<Rightarrow> policyInput" where
  "normalize p =
     p\<lparr>pName := TrimSpace (pName p), pCategory := ToLower (TrimSpace (pCategory p)),
       pDescription := TrimSpace (pDescription p),
       pScopeLevel := (let s = ToLower (TrimSpace (pScopeLevel p)) in if s = [] then ''msp'' else s),
       pMaintenanceTimezone := (if pMaintenanceTimezone p = [] then ''UTC'' else pMaintenanceTimezone p)\<rparr>"

definition digit :: "char \<Rightarrow> bool" where
  "digit c = (CHR ''0'' \<le> c \<and> c \<le> CHR ''9'')"

definition digit_value :: "char \<Rightarrow> nat" where
  "digit_value c = of_char c - 48"

definition isValidTime :: "string \<Rightarrow> bool" where
  "isValidTime t =
     (case t of
        [h1, h0, sep, m1, m0] \<Rightarrow>
          sep = CHR '':'' \<and> digit h1 \<and> digit m1 \<and> digit h0 \<and> digit m0
          \<and> digit_value h1 * 10 + digit_value h0 < 24 \<and> digit_value m1 * 10 + digit_value m0 < 60
      | _ \<Rightarrow> False)"

definition isValidDay :: "string \<Rightarrow> bool" where
  "isValidDay day = List.member [''monday'', ''tuesday'', ''wednesday'', ''thursday'', ''friday'', ''saturday'', ''sunday''] day"

fun policyDepth :: "json \<Rightarrow> nat" where
  "policyDepth (JObj kvs) = foldr (\<lambda>(k, v) m. max (policyDepth v) m) kvs 0 + 1"
| "policyDepth (JArr vs) = foldr (\<lambda>v m. max (policyDepth v) m) vs 0 + 1"
| "policyDepth _ = 1"

definition scope_problem :: "policyInput \<Rightarrow> string list" where
  "scope_problem p =
     (let c = pClientID p \<noteq> []; s = pSiteID p \<noteq> []; d = pDeviceID p \<noteq> []
      in if pScopeLevel p = ''msp'' then
           (if c \<or> s \<or> d then [''msp policies cannot identify a child scope''] else [])
         else if pScopeLevel p = ''client'' then
           (if \<not> c \<or> s \<or> d then [''client policies require only client_id''] else [])
         else if pScopeLevel p = ''site'' then
           (if \<not> c \<or> \<not> s \<or> d then [''site policies require client_id and site_id''] else [])
         else if pScopeLevel p = ''device'' then
           (if \<not> c \<or> \<not> s \<or> \<not> d then [''device policies require client_id, site_id, and device_id''] else [])
         else [])"

definition problem :: "bool \<Rightarrow> string \<Rightarrow> string list" where
  "problem bad text = (if bad then [text] else [])"

definition days_problem :: "string list option \<Rightarrow> string list" where
  "days_problem days =
     (case days of
        None \<Rightarrow> []
      | Some [] \<Rightarrow> [''maintenance_days must not be empty'']
      | Some ds \<Rightarrow> problem (list_ex (\<lambda>d. \<not> isValidDay d) ds)
                     ''maintenance_days must contain valid day names (monday-sunday)'')"

definition policy_problems :: "(config \<Rightarrow> nat option) \<Rightarrow> policyInput \<Rightarrow> string list" where
  "policy_problems encoded p =
     problem (pName p = [] \<or> 200 < length (pName p)) ''name must contain 1-200 characters''
     @ problem (2000 < length (pDescription p)) ''description must not exceed 2000 characters''
     @ problem (\<not> List.member policyCategories (pCategory p)) ''unsupported category''
     @ problem (policyScopeRank (pScopeLevel p) = 0) ''scope_level must be msp, client, site, or device''
     @ scope_problem p
     @ (if pConfig p = [] then [''config must be a non-empty object'']
        else if (case encoded (pConfig p) of None \<Rightarrow> True | Some n \<Rightarrow> 64 * 1024 < n)
          then [''config must be valid JSON no larger than 64 KiB'']
        else problem (12 < policyDepth (JObj (pConfig p))) ''config nesting must not exceed 12 levels'')
     @ problem (case pMaintenanceStart p of None \<Rightarrow> False | Some t \<Rightarrow> \<not> isValidTime t) ''maintenance_start must be in HH:MM format''
     @ problem (case pMaintenanceEnd p of None \<Rightarrow> False | Some t \<Rightarrow> \<not> isValidTime t) ''maintenance_end must be in HH:MM format''
     @ problem (case (pMaintenanceStart p, pMaintenanceEnd p) of (Some s, Some e) \<Rightarrow> e \<le> s | _ \<Rightarrow> False)
         ''maintenance_start must be before maintenance_end''
     @ days_problem (pMaintenanceDays p)"

definition validate :: "(config \<Rightarrow> nat option) \<Rightarrow> policyInput \<Rightarrow> string + unit" where
  "validate encoded p =
     (let problems = policy_problems encoded p
      in if 0 < length problems
         then Inl (''invalid policy: '' @ foldr (\<lambda>s acc. if acc = [] then s else s @ ''; '' @ acc) problems [])
         else Inr ())"

section \<open>Merging\<close>

text \<open>\<^verbatim>\<open>clonePolicyValue\<close> encodes and decodes a document, which gives the same document.\<close>

definition clonePolicyValue :: "json \<Rightarrow> json" where
  "clonePolicyValue v = v"

fun mergePolicyMap :: "config \<Rightarrow> config \<Rightarrow> config" where
  "mergePolicyMap destination [] = destination"
| "mergePolicyMap destination ((key, value) # source) =
     mergePolicyMap
       (AList.update key
          (case (value, map_of destination key) of
             (JObj sourceMap, Some (JObj destinationMap)) \<Rightarrow> JObj (mergePolicyMap destinationMap sourceMap)
           | _ \<Rightarrow> clonePolicyValue value)
          destination)
       source"

definition the_config :: "policyLayer \<Rightarrow> config" where
  "the_config l = (case lConfig l of None \<Rightarrow> [] | Some c \<Rightarrow> c)"

definition mergePolicyLayers :: "policyLayer list \<Rightarrow> config" where
  "mergePolicyLayers layers = foldl (\<lambda>effective layer. mergePolicyMap effective (the_config layer)) [] layers"

section \<open>The effective policy\<close>

record policy_row =
  q_id :: string
  q_msp_id :: string
  q_category :: string
  q_status :: string
  q_scope_level :: string
  q_client_id :: "string option"
  q_site_id :: "string option"
  q_device_id :: "string option"
  q_published_version :: "int option"
  q_published_config :: config
  q_start :: "string option"
  q_end :: "string option"
  q_days :: "string list"
  q_timezone :: string

record device_row =
  v_id :: string
  v_msp_id :: string
  v_client_id :: string
  v_site_id :: string
  v_is_active :: bool

record EffectivePolicy =
  eCategory :: string
  eConfig :: config
  eMaintenance :: "(string \<times> json) list"
  eLayers :: "policyLayer list"
  eScopeLevel :: string
  ePublishedVersion :: int

definition computeEffectiveMaintenance :: "policyLayer list \<Rightarrow> (string \<times> json) list" where
  "computeEffectiveMaintenance layers =
     foldl (\<lambda>m l.
        let m1 = (case lMaintenanceStart l of None \<Rightarrow> m | Some s \<Rightarrow> AList.update ''maintenance_start'' (JStr s) m);
            m2 = (case lMaintenanceEnd l of None \<Rightarrow> m1 | Some s \<Rightarrow> AList.update ''maintenance_end'' (JStr s) m1);
            m3 = (case lMaintenanceDays l of
                    Some (d # ds) \<Rightarrow> AList.update ''maintenance_days'' (JArr (map JStr (d # ds))) m2
                  | _ \<Rightarrow> m2)
        in if lMaintenanceTimezone l = [] then m3
           else AList.update ''maintenance_timezone'' (JStr (lMaintenanceTimezone l)) m3) [] layers"

definition layer_of :: "policy_row \<Rightarrow> policyLayer" where
  "layer_of q =
     \<lparr>lID = q_id q, lScopeLevel = q_scope_level q, lVersion = 0,
      lPublishedVersion = (case q_published_version q of None \<Rightarrow> 0 | Some n \<Rightarrow> n), lConfig = Some (q_published_config q),
      lMaintenanceStart = q_start q, lMaintenanceEnd = q_end q,
      lMaintenanceDays = (if q_days q = [] then None else Some (q_days q)), lMaintenanceTimezone = q_timezone q\<rparr>"

text \<open>\<^verbatim>\<open>x = NULLIF(y, '')\<close>\<close>

definition matches :: "string option \<Rightarrow> string \<Rightarrow> bool" where
  "matches x y = (y \<noteq> [] \<and> x = Some y)"

definition applicable :: "string \<Rightarrow> string \<Rightarrow> string \<Rightarrow> string \<Rightarrow> string \<Rightarrow> policy_row \<Rightarrow> bool" where
  "applicable mspID category clientID siteID deviceID q =
     (q_msp_id q = mspID \<and> q_category q = category \<and> q_status q = ''active'' \<and> q_published_version q \<noteq> None
      \<and> (q_scope_level q = ''msp''
         \<or> q_scope_level q = ''client'' \<and> matches (q_client_id q) clientID
         \<or> q_scope_level q = ''site'' \<and> matches (q_site_id q) siteID
         \<or> q_scope_level q = ''device'' \<and> matches (q_device_id q) deviceID))"

definition effective_layers :: "policy_row list \<Rightarrow> string \<Rightarrow> string \<Rightarrow> string \<Rightarrow> string \<Rightarrow> string \<Rightarrow> policyLayer list" where
  "effective_layers rows mspID category clientID siteID deviceID =
     map layer_of (sort_key (\<lambda>q. policyScopeRank (q_scope_level q))
       (sort_key q_id (List.filter (applicable mspID category clientID siteID deviceID) rows)))"

text \<open>The scope of the most specific layer and its version, as the loop over the layers computes them.\<close>

definition most_specific :: "policyLayer list \<Rightarrow> string \<times> int" where
  "most_specific layers =
     foldl (\<lambda>(scopeLevel, publishedVersion) layer.
        if policyScopeRank scopeLevel < policyScopeRank (lScopeLevel layer)
        then (lScopeLevel layer, lPublishedVersion layer) else (scopeLevel, publishedVersion)) (''msp'', 0) layers"

definition computeEffectiveForCategory ::
  "policy_row list \<Rightarrow> device_row list \<Rightarrow> string \<Rightarrow> string \<Rightarrow> string \<Rightarrow> EffectivePolicy" where
  "computeEffectiveForCategory rows devices mspID deviceID category =
     (let resolve = (\<lambda>clientID siteID.
            let layers = effective_layers rows mspID category clientID siteID deviceID
            in \<lparr>eCategory = category, eConfig = mergePolicyLayers layers, eMaintenance = computeEffectiveMaintenance layers,
                eLayers = layers, eScopeLevel = fst (most_specific layers), ePublishedVersion = snd (most_specific layers)\<rparr>)
      in if deviceID = [] then resolve [] []
         else (case find (\<lambda>v. v_id v = deviceID \<and> v_msp_id v = mspID \<and> v_is_active v) devices of
                 None \<Rightarrow> \<lparr>eCategory = category, eConfig = [], eMaintenance = [], eLayers = [], eScopeLevel = [],
                          ePublishedVersion = 0\<rparr>
               | Some v \<Rightarrow> resolve (v_client_id v) (v_site_id v)))"

definition ComputeEffectivePolicy ::
  "policy_row list \<Rightarrow> device_row list \<Rightarrow> string \<Rightarrow> string \<Rightarrow> (string \<times> EffectivePolicy) list option" where
  "ComputeEffectivePolicy rows devices mspID deviceID =
     (if mspID = [] then None
      else Some (map (\<lambda>c. (c, computeEffectiveForCategory rows devices mspID deviceID c)) policyCategories))"

section \<open>Differences\<close>

record policyChange =
  cPath :: string
  cOldValue :: json
  cNewValue :: json

record policyDiff =
  dPolicyID :: string
  dVersion1 :: int
  dVersion2 :: int
  dChanges :: "policyChange list"
  dIsChanged :: bool

lemma zip_size [termination_simp]: "(a, b) \<in> set (zip vs ws) \<Longrightarrow> size a < Suc (size_list size vs)"
  using set_zip_leftD [of a b vs ws] by (simp add: size_list_estimation' less_Suc_eq_le)

text \<open>\<^verbatim>\<open>reflect.DeepEqual\<close> on decoded documents: maps are equal when they have the same keys with equal values.\<close>

fun DeepEqual :: "json \<Rightarrow> json \<Rightarrow> bool" where
  "DeepEqual (JObj kvs) b =
     (case b of
        JObj kvs' \<Rightarrow> set (map fst kvs) = set (map fst kvs')
          \<and> list_all (\<lambda>(k, v). case map_of kvs' k of None \<Rightarrow> False | Some v' \<Rightarrow> DeepEqual v v') kvs
      | _ \<Rightarrow> False)"
| "DeepEqual (JArr vs) b =
     (case b of JArr vs' \<Rightarrow> length vs = length vs' \<and> list_all (\<lambda>p. p) (map2 DeepEqual vs vs') | _ \<Rightarrow> False)"
| "DeepEqual (JStr s) b = (b = JStr s)"
| "DeepEqual (JNum r) b = (b = JNum r)"
| "DeepEqual (JBool p) b = (b = JBool p)"
| "DeepEqual JNull b = (b = JNull)"

fun compareValues :: "string \<Rightarrow> json \<Rightarrow> json \<Rightarrow> policyChange list" where
  "compareValues path (JObj m1) v2 =
     (case v2 of
        JObj m2 \<Rightarrow>
          concat (map (\<lambda>(k, v). case map_of m2 k of
                                  Some v' \<Rightarrow> compareValues (path @ ''/'' @ k) v v'
                                | None \<Rightarrow> [\<lparr>cPath = path @ ''/'' @ k, cOldValue = v, cNewValue = JNull\<rparr>]) m1)
          @ concat (map (\<lambda>(k, v). if List.member (map fst m1) k then []
                                  else [\<lparr>cPath = path @ ''/'' @ k, cOldValue = JNull, cNewValue = v\<rparr>]) m2)
      | _ \<Rightarrow> [\<lparr>cPath = path, cOldValue = JObj m1, cNewValue = v2\<rparr>])"
| "compareValues path v1 v2 =
     (if DeepEqual v1 v2 then [] else [\<lparr>cPath = path, cOldValue = v1, cNewValue = v2\<rparr>])"

definition opt_json :: "string option \<Rightarrow> json" where
  "opt_json s = (case s of None \<Rightarrow> JNull | Some x \<Rightarrow> JStr x)"

definition opt_days :: "string list option \<Rightarrow> json" where
  "opt_days s = (case s of None \<Rightarrow> JNull | Some x \<Rightarrow> JArr (map JStr x))"

definition change_if :: "bool \<Rightarrow> string \<Rightarrow> json \<Rightarrow> json \<Rightarrow> policyChange list" where
  "change_if b path old new = (if b then [\<lparr>cPath = path, cOldValue = old, cNewValue = new\<rparr>] else [])"

definition layer_changes :: "policyLayer \<Rightarrow> policyLayer \<Rightarrow> policyChange list" where
  "layer_changes a b =
     (case (lConfig a, lConfig b) of
        (Some ca, Some cb) \<Rightarrow> compareValues ''config'' (JObj ca) (JObj cb)
      | _ \<Rightarrow> [])
     @ change_if (lMaintenanceStart a \<noteq> lMaintenanceStart b) ''maintenance_start''
         (opt_json (lMaintenanceStart a)) (opt_json (lMaintenanceStart b))
     @ change_if (lMaintenanceEnd a \<noteq> lMaintenanceEnd b) ''maintenance_end''
         (opt_json (lMaintenanceEnd a)) (opt_json (lMaintenanceEnd b))
     @ change_if (lMaintenanceDays a \<noteq> lMaintenanceDays b) ''maintenance_days''
         (opt_days (lMaintenanceDays a)) (opt_days (lMaintenanceDays b))
     @ change_if (lMaintenanceTimezone a \<noteq> lMaintenanceTimezone b) ''maintenance_timezone''
         (JStr (lMaintenanceTimezone a)) (JStr (lMaintenanceTimezone b))"

datatype go_panic = IndexOutOfRange

text \<open>Reading the identifier of the first layer panics when there is none.\<close>

definition computePolicyDiff :: "policyLayer list \<Rightarrow> int \<Rightarrow> int \<Rightarrow> go_panic + policyDiff" where
  "computePolicyDiff layers v1 v2 =
     (case layers of
        [] \<Rightarrow> Inl IndexOutOfRange
      | l0 # _ \<Rightarrow>
          let pick = (\<lambda>v. find (\<lambda>l. lVersion l = v) (rev layers));
              mk = (\<lambda>cs. \<lparr>dPolicyID = lID l0, dVersion1 = v1, dVersion2 = v2, dChanges = cs, dIsChanged = 0 < length cs\<rparr>)
          in Inr (case (pick v1, pick v2) of
                    (Some a, Some b) \<Rightarrow> mk (layer_changes a b)
                  | _ \<Rightarrow> mk [\<lparr>cPath = ''/'', cOldValue = JNull, cNewValue = JNull\<rparr>]))"

section \<open>Times of day\<close>

definition minutes :: "string \<Rightarrow> nat" where
  "minutes t =
     (case t of
        [h1, h0, _, m1, m0] \<Rightarrow> (digit_value h1 * 10 + digit_value h0) * 60 + (digit_value m1 * 10 + digit_value m0)
      | _ \<Rightarrow> 0)"

lemma isValidTime_cases:
  assumes "isValidTime t"
  obtains h1 h0 m1 m0 where "t = [h1, h0, CHR '':'', m1, m0]" "digit h1" "digit h0" "digit m1" "digit m0"
    "digit_value h1 * 10 + digit_value h0 < 24" "digit_value m1 * 10 + digit_value m0 < 60"
  using assms by (auto simp: isValidTime_def split: list.splits)

lemma digit_less: "digit c \<Longrightarrow> digit d \<Longrightarrow> c < d \<longleftrightarrow> digit_value c < digit_value d"
  by (simp add: digit_def digit_value_def less_char_def less_eq_char_def less_diff_iff)

lemma digit_eq: "digit c \<Longrightarrow> digit d \<Longrightarrow> c = d \<longleftrightarrow> digit_value c = digit_value d"
  by (simp add: digit_def digit_value_def less_eq_char_def eq_diff_iff)

lemma digit_value_le: "digit c \<Longrightarrow> digit_value c < 10"
  unfolding digit_def digit_value_def less_eq_char_def by simp linarith

lemma lex_less:
  fixes a b a' b' n :: nat
  assumes "b < n" "b' < n"
  shows "a * n + b < a' * n + b' \<longleftrightarrow> a < a' \<or> a = a' \<and> b < b'"
proof -
  have step: "x * n + y < x' * n + y'" if "x < x'" "y < n" for x y x' y'
  proof -
    have "x * n + y < Suc x * n" using that(2) by simp
    also have "\<dots> \<le> x' * n" using that(1) by (intro mult_le_mono1) simp
    finally show ?thesis by simp
  qed
  show ?thesis
    using step [of a a' b b'] step [of a' a b' b] assms by (cases a a' rule: linorder_cases) auto
qed

lemma lex_eq:
  fixes a b a' b' n :: nat
  assumes "b < n" "b' < n"
  shows "a * n + b = a' * n + b' \<longleftrightarrow> a = a' \<and> b = b'"
  using lex_less [OF assms, of a a'] lex_less [OF assms(2,1), of a' a] by (metis nat_neq_iff)

lemma time_order:
  assumes "isValidTime s" "isValidTime t"
  shows "s < t \<longleftrightarrow> minutes s < minutes t"
proof -
  obtain a b c d where s: "s = [a, b, CHR '':'', c, d]" and ds: "digit a" "digit b" "digit c" "digit d"
    "digit_value a * 10 + digit_value b < 24" "digit_value c * 10 + digit_value d < 60"
    using assms(1) by (rule isValidTime_cases)
  obtain a' b' c' d' where t: "t = [a', b', CHR '':'', c', d']" and dt: "digit a'" "digit b'" "digit c'" "digit d'"
    "digit_value a' * 10 + digit_value b' < 24" "digit_value c' * 10 + digit_value d' < 60"
    using assms(2) by (rule isValidTime_cases)
  note lt = ds(1-4) [THEN digit_value_le] dt(1-4) [THEN digit_value_le]
  have "s < t \<longleftrightarrow> (digit_value a < digit_value a' \<or> digit_value a = digit_value a' \<and> digit_value b < digit_value b')
      \<or> (digit_value a = digit_value a' \<and> digit_value b = digit_value b') \<and>
       (digit_value c < digit_value c' \<or> digit_value c = digit_value c' \<and> digit_value d < digit_value d')"
    using ds(1-4) dt(1-4) by (auto simp: s t digit_less digit_eq)
  also have "\<dots> \<longleftrightarrow> digit_value a * 10 + digit_value b < digit_value a' * 10 + digit_value b'
      \<or> digit_value a * 10 + digit_value b = digit_value a' * 10 + digit_value b'
        \<and> digit_value c * 10 + digit_value d < digit_value c' * 10 + digit_value d'"
    using lt by (simp only: lex_less lex_eq)
  also have "\<dots> \<longleftrightarrow> minutes s < minutes t"
    unfolding s t minutes_def list.case using ds(6) dt(6) by (subst lex_less) simp_all
  finally show ?thesis .
qed

section \<open>The merge\<close>

text \<open>Documents whose objects have distinct keys.\<close>

fun map_ok :: "json \<Rightarrow> bool" where
  "map_ok (JObj kvs) = (distinct (map fst kvs) \<and> list_all (\<lambda>(k, v). map_ok v) kvs)"
| "map_ok (JArr vs) = list_all map_ok vs"
| "map_ok _ = True"

definition merge_value :: "json \<Rightarrow> json option \<Rightarrow> json" where
  "merge_value v old =
     (case (v, old) of (JObj s, Some (JObj d)) \<Rightarrow> JObj (mergePolicyMap d s) | _ \<Rightarrow> v)"

lemma mergePolicyMap_Cons:
  "mergePolicyMap d ((k, v) # src) = mergePolicyMap (AList.update k (merge_value v (map_of d k)) d) src"
  by (simp add: merge_value_def clonePolicyValue_def split: json.splits option.splits)

lemma mergePolicyMap_lookup:
  "distinct (map fst src) \<Longrightarrow>
     map_of (mergePolicyMap d src) k =
       (case map_of src k of None \<Rightarrow> map_of d k | Some v \<Rightarrow> Some (merge_value v (map_of d k)))"
proof (induction src arbitrary: d)
  case (Cons p src)
  obtain k' v where p: "p = (k', v)" by fastforce
  from Cons have "map_of src k' = None" by (simp add: p map_of_eq_None_iff)
  with Cons show ?case
    by (auto simp: p mergePolicyMap_Cons update_conv' simp del: mergePolicyMap.simps split: option.splits)
qed simp

text \<open>The value at a path, and a document that says nothing about a path.\<close>

fun get :: "config \<Rightarrow> string list \<Rightarrow> json option" where
  "get c [] = None"
| "get c [k] = map_of c k"
| "get c (k # ks) = (case map_of c k of Some (JObj c') \<Rightarrow> get c' ks | _ \<Rightarrow> None)"

fun silent :: "config \<Rightarrow> string list \<Rightarrow> bool" where
  "silent c [] = True"
| "silent c [k] = (map_of c k = None)"
| "silent c (k # ks) = (case map_of c k of None \<Rightarrow> True | Some (JObj c') \<Rightarrow> silent c' ks | Some _ \<Rightarrow> False)"

definition is_leaf :: "json \<Rightarrow> bool" where
  "is_leaf v = (case v of JObj _ \<Rightarrow> False | _ \<Rightarrow> True)"

lemma map_ok_child: "map_ok (JObj c) \<Longrightarrow> map_of c k = Some v \<Longrightarrow> map_ok v"
  by (auto simp: list_all_iff dest!: map_of_SomeD)

lemma silent_get: "silent c path \<Longrightarrow> get c path = None"
  by (induction c path rule: silent.induct) (auto split: option.splits json.splits)

lemma merge_wins:
  "map_ok (JObj src) \<Longrightarrow> get src path = Some v \<Longrightarrow> is_leaf v \<Longrightarrow> get (mergePolicyMap d src) path = Some v"
proof (induction src path arbitrary: d rule: get.induct)
  case (2 c k)
  then show ?case by (auto simp: mergePolicyMap_lookup merge_value_def is_leaf_def split: json.splits)
next
  case (3 c k k2 ks)
  then obtain c' where c': "map_of c k = Some (JObj c')" "get c' (k2 # ks) = Some v"
    by (auto split: option.splits json.splits)
  with 3 have ih: "get (mergePolicyMap d c') (k2 # ks) = Some v" for d
    using map_ok_child by blast
  show ?case
    using 3 c' ih
    by (auto simp: mergePolicyMap_lookup merge_value_def split: option.splits json.splits)
qed simp

lemma merge_silent:
  "map_ok (JObj src) \<Longrightarrow> silent src path \<Longrightarrow> get (mergePolicyMap d src) path = get d path"
proof (induction src path arbitrary: d rule: silent.induct)
  case (2 c k)
  then show ?case by (simp add: mergePolicyMap_lookup)
next
  case (3 c k k2 ks)
  show ?case
  proof (cases "map_of c k")
    case None
    with 3 show ?thesis by (simp add: mergePolicyMap_lookup)
  next
    case (Some v)
    with 3 obtain c' where v: "v = JObj c'" "silent c' (k2 # ks)" by (auto split: json.splits)
    with 3 Some have ih: "get (mergePolicyMap d c') (k2 # ks) = get d (k2 # ks)" for d
      using map_ok_child by blast
    show ?thesis
      using 3(2) Some v ih silent_get [OF v(2)]
      by (auto simp: mergePolicyMap_lookup merge_value_def split: option.splits json.splits)
  qed
qed simp

lemma layers_silent:
  "(\<And>m. m \<in> set ls \<Longrightarrow> map_ok (JObj (the_config m)) \<and> silent (the_config m) path) \<Longrightarrow>
     get (foldl (\<lambda>e l. mergePolicyMap e (the_config l)) e ls) path = get e path"
  by (induction ls arbitrary: e) (simp_all add: merge_silent)

lemma layers_most_specific:
  assumes "map_ok (JObj (the_config l))" "get (the_config l) path = Some v" "is_leaf v"
    and "\<And>m. m \<in> set ls' \<Longrightarrow> map_ok (JObj (the_config m)) \<and> silent (the_config m) path"
  shows "get (mergePolicyLayers (ls @ l # ls')) path = Some v"
  using merge_wins [OF assms(1-3)] layers_silent [OF assms(4)] by (simp add: mergePolicyLayers_def)

lemma effective_layers_sorted:
  "sorted (map (\<lambda>l. policyScopeRank (lScopeLevel l)) (effective_layers rows m c cl si dv))"
  by (simp add: effective_layers_def layer_of_def comp_def)

lemma effective_cases:
  assumes "computeEffectiveForCategory rows devices mspID deviceID category = e"
  shows "eLayers e = [] \<or> (\<exists>cl si. eLayers e = effective_layers rows mspID category cl si deviceID
    \<and> eConfig e = mergePolicyLayers (eLayers e))"
proof (cases "deviceID = []")
  case True
  then show ?thesis
    using assms by (intro disjI2 exI [of _ "[]"]) (auto simp: computeEffectiveForCategory_def Let_def)
next
  case False
  show ?thesis
  proof (cases "find (\<lambda>v. v_id v = deviceID \<and> v_msp_id v = mspID \<and> v_is_active v) devices")
    case None
    with False assms show ?thesis by (auto simp: computeEffectiveForCategory_def Let_def)
  next
    case (Some v)
    with False assms show ?thesis
      by (intro disjI2 exI [of _ "v_client_id v"] exI [of _ "v_site_id v"])
        (auto simp: computeEffectiveForCategory_def Let_def)
  qed
qed


definition example_policy :: "string \<Rightarrow> config \<Rightarrow> policy_row" where
  "example_policy scope c = \<lparr>q_id = scope, q_msp_id = ''acme'', q_category = ''patch'', q_status = ''active'', q_scope_level = scope,
     q_client_id = None, q_site_id = None, q_device_id = Some ''d'', q_published_version = Some 1, q_published_config = c,
     q_start = None, q_end = None, q_days = [], q_timezone = []\<rparr>"

definition example_policies :: "policy_row list" where
  "example_policies = [example_policy ''device'' [(''window'', JObj [(''hour'', JNum 3)])],
     example_policy ''msp'' [(''window'', JObj [(''hour'', JNum 1), (''day'', JStr ''monday'')])]]"

definition example_devices :: "device_row list" where
  "example_devices = [\<lparr>v_id = ''d'', v_msp_id = ''acme'', v_client_id = ''c'', v_site_id = ''s'', v_is_active = True\<rparr>]"


section \<open>Scope and version\<close>

text \<open>The version of a policy that exists at the tenant level only is not reported.\<close>

lemma msp_version_lost:
  "list_all (\<lambda>l. lScopeLevel l = ''msp'') layers \<Longrightarrow> most_specific layers = (''msp'', 0)"
proof -
  have "foldl (\<lambda>(s, n) l. if policyScopeRank s < policyScopeRank (lScopeLevel l) then (lScopeLevel l, lPublishedVersion l) else (s, n))
      (''msp'', n) layers = (''msp'', n)" if "list_all (\<lambda>l. lScopeLevel l = ''msp'') layers" for n
    using that by (induction layers) auto
  then show "list_all (\<lambda>l. lScopeLevel l = ''msp'') layers \<Longrightarrow> ?thesis" by (simp add: most_specific_def)
qed

section \<open>Differences\<close>

lemma compareValues_DeepEqual: "compareValues path a b = [] \<longleftrightarrow> DeepEqual a b"
proof (induction path a b rule: compareValues.induct)
  case (1 path m1 v2)
  show ?case
  proof (cases v2)
    case (JObj m2)
    have ih: "(compareValues (path @ ''/'' @ k) v v' = []) = DeepEqual v v'"
      if "(k, v) \<in> set m1" "map_of m2 k = Some v'" for k v v'
      using "1.IH" JObj that by blast
    have a: "concat (map (\<lambda>(k, v). case map_of m2 k of
                                  Some v' \<Rightarrow> compareValues (path @ ''/'' @ k) v v'
                                | None \<Rightarrow> [\<lparr>cPath = path @ ''/'' @ k, cOldValue = v, cNewValue = JNull\<rparr>]) m1) = []
        \<longleftrightarrow> (\<forall>(k, v) \<in> set m1. \<exists>v'. map_of m2 k = Some v' \<and> DeepEqual v v')"
      using ih by (auto split: option.splits)
    have b: "concat (map (\<lambda>(k, v). if List.member (map fst m1) k then []
              else [\<lparr>cPath = path @ ''/'' @ k, cOldValue = JNull, cNewValue = v\<rparr>]) m2) = []
        \<longleftrightarrow> fst ` set m2 \<subseteq> fst ` set m1"
      by (auto simp: split_beta split: if_splits)
    have c: "(\<forall>(k, v) \<in> set m1. \<exists>v'. map_of m2 k = Some v' \<and> DeepEqual v v') \<Longrightarrow> fst ` set m1 \<subseteq> fst ` set m2"
      by (force dest: map_of_SomeD)
    show ?thesis
      using a b c by (simp add: JObj) (auto simp: list_all_iff split: option.splits)
  qed simp_all
qed simp_all

lemma DeepEqual_refl: "map_ok v \<Longrightarrow> DeepEqual v v"
proof (induction v rule: map_ok.induct)
  case (1 kvs)
  then show ?case by (auto simp: list_all_iff)
next
  case (2 vs)
  then show ?case by (auto simp: list_all_iff set_zip)
qed simp_all

text \<open>
  C14. The difference of two versions is exact: it reports no change if and only if the configurations are deeply
  equal, up to the order of keys, and the maintenance settings agree; the difference of a version with
  itself is empty. Without any version the code reads the first element of an empty slice and panics.
\<close>

theorem policy_diff_exact:
  "computePolicyDiff [] v1 v2 = Inl IndexOutOfRange
   \<and> (layers \<noteq> [] \<and> find (\<lambda>l. lVersion l = v1) (rev layers) = Some a \<and> find (\<lambda>l. lVersion l = v2) (rev layers) = Some b
      \<and> lConfig a = Some ca \<and> lConfig b = Some cb \<longrightarrow>
      (\<exists>d. computePolicyDiff layers v1 v2 = Inr d
         \<and> (\<not> dIsChanged d \<longleftrightarrow> DeepEqual (JObj ca) (JObj cb) \<and> lMaintenanceStart a = lMaintenanceStart b
              \<and> lMaintenanceEnd a = lMaintenanceEnd b \<and> lMaintenanceDays a = lMaintenanceDays b
              \<and> lMaintenanceTimezone a = lMaintenanceTimezone b)
         \<and> (v1 = v2 \<and> map_ok (JObj ca) \<longrightarrow> dChanges d = [])))"
proof (intro conjI impI)
  assume h: "layers \<noteq> [] \<and> find (\<lambda>l. lVersion l = v1) (rev layers) = Some a \<and> find (\<lambda>l. lVersion l = v2) (rev layers) = Some b
      \<and> lConfig a = Some ca \<and> lConfig b = Some cb"
  obtain l0 ls where l: "layers = l0 # ls" using h by (cases layers) auto
  let ?d = "\<lparr>dPolicyID = lID l0, dVersion1 = v1, dVersion2 = v2, dChanges = layer_changes a b,
      dIsChanged = 0 < length (layer_changes a b)\<rparr>"
  have d: "computePolicyDiff layers v1 v2 = Inr ?d" using h by (simp add: computePolicyDiff_def Let_def l)
  have e: "layer_changes a b = [] \<longleftrightarrow> DeepEqual (JObj ca) (JObj cb) \<and> lMaintenanceStart a = lMaintenanceStart b
      \<and> lMaintenanceEnd a = lMaintenanceEnd b \<and> lMaintenanceDays a = lMaintenanceDays b
      \<and> lMaintenanceTimezone a = lMaintenanceTimezone b"
    using h compareValues_DeepEqual [of "''config''" "JObj ca" "JObj cb"]
    by (simp add: layer_changes_def change_if_def del: compareValues.simps DeepEqual.simps)
  have "layer_changes a b = []" if "v1 = v2" "map_ok (JObj ca)"
  proof -
    from h that(1) have "a = b" "ca = cb" by auto
    with e DeepEqual_refl [OF that(2)] show ?thesis by (simp del: DeepEqual.simps)
  qed
  with d e show "\<exists>d. computePolicyDiff layers v1 v2 = Inr d
         \<and> (\<not> dIsChanged d \<longleftrightarrow> DeepEqual (JObj ca) (JObj cb) \<and> lMaintenanceStart a = lMaintenanceStart b
              \<and> lMaintenanceEnd a = lMaintenanceEnd b \<and> lMaintenanceDays a = lMaintenanceDays b
              \<and> lMaintenanceTimezone a = lMaintenanceTimezone b)
         \<and> (v1 = v2 \<and> map_ok (JObj ca) \<longrightarrow> dChanges d = [])"
    by (intro exI [of _ ?d]) (auto simp del: DeepEqual.simps map_ok.simps)
qed (simp add: computePolicyDiff_def)

definition example_layer :: "string \<Rightarrow> int \<Rightarrow> config \<Rightarrow> policyLayer" where
  "example_layer scope v c = \<lparr>lID = ''p'', lScopeLevel = scope, lVersion = v, lPublishedVersion = v, lConfig = Some c,
     lMaintenanceStart = None, lMaintenanceEnd = None, lMaintenanceDays = None, lMaintenanceTimezone = ''UTC''\<rparr>"

theorem policy_diff_exact_witness:
  "\<exists>d. computePolicyDiff [example_layer ''msp'' 1 [(''a'', JNull)], example_layer ''msp'' 2 [(''a'', JBool True)]] 1 2 = Inr d
     \<and> dIsChanged d"
proof -
  let ?a = "example_layer ''msp'' 1 [(''a'', JNull)]" and ?b = "example_layer ''msp'' 2 [(''a'', JBool True)]"
  have "\<exists>d. computePolicyDiff [?a, ?b] 1 2 = Inr d
         \<and> (\<not> dIsChanged d \<longleftrightarrow> DeepEqual (JObj [(''a'', JNull)]) (JObj [(''a'', JBool True)])
              \<and> lMaintenanceStart ?a = lMaintenanceStart ?b
              \<and> lMaintenanceEnd ?a = lMaintenanceEnd ?b \<and> lMaintenanceDays ?a = lMaintenanceDays ?b
              \<and> lMaintenanceTimezone ?a = lMaintenanceTimezone ?b)"
    using policy_diff_exact [of 1 2 "[?a, ?b]" ?a ?b "[(''a'', JNull)]" "[(''a'', JBool True)]"]
    by (auto simp: example_layer_def simp del: DeepEqual.simps)
  then show ?thesis by auto
qed

section \<open>What validation guarantees\<close>

lemma minutes_bound: "isValidTime t \<Longrightarrow> minutes t < 1440"
  by (erule isValidTime_cases) (simp add: minutes_def)

lemma problem_Nil [simp]: "problem b t = [] \<longleftrightarrow> \<not> b"
  by (simp add: problem_def)

lemma scope_problem_Nil:
  "scope_problem p = [] \<Longrightarrow> policyScopeRank (pScopeLevel p) \<noteq> 0 \<Longrightarrow>
     policyScopeRank (pScopeLevel p) =
       1 + length (List.filter (\<lambda>x. x \<noteq> []) [pClientID p, pSiteID p, pDeviceID p])
     \<and> (pDeviceID p \<noteq> [] \<longrightarrow> pSiteID p \<noteq> []) \<and> (pSiteID p \<noteq> [] \<longrightarrow> pClientID p \<noteq> [])"
  by (auto simp: scope_problem_def policyScopeRank_def Let_def split: if_splits)

text \<open>
  C15. An accepted policy is well formed: its category is known; its scope is exactly the one its identifiers
  name, so that a device comes with its site and a site with its client; its configuration is not empty, at most
  twelve levels deep and at most 64 KiB; and a maintenance window with both ends starts and ends within one day,
  the start before the end in time, although the code compares the texts.
\<close>

theorem validated_policy:
  assumes "validate encoded p = Inr ()"
  shows "pCategory p \<in> set policyCategories
    \<and> policyScopeRank (pScopeLevel p) = 1 + length (List.filter (\<lambda>x. x \<noteq> []) [pClientID p, pSiteID p, pDeviceID p])
    \<and> (pDeviceID p \<noteq> [] \<longrightarrow> pSiteID p \<noteq> []) \<and> (pSiteID p \<noteq> [] \<longrightarrow> pClientID p \<noteq> [])
    \<and> pConfig p \<noteq> [] \<and> policyDepth (JObj (pConfig p)) \<le> 12 \<and> (\<exists>n \<le> 64 * 1024. encoded (pConfig p) = Some n)
    \<and> (\<forall>s e. pMaintenanceStart p = Some s \<and> pMaintenanceEnd p = Some e \<longrightarrow> minutes s < minutes e \<and> minutes e < 1440)"
proof -
  have none: "policy_problems encoded p = []"
    using assms by (auto simp: validate_def Let_def split: if_splits)
  have cfg: "pConfig p \<noteq> []" "policyDepth (JObj (pConfig p)) \<le> 12" "\<exists>n \<le> 64 * 1024. encoded (pConfig p) = Some n"
    using none by (auto simp: policy_problems_def simp del: policyDepth.simps split: if_splits option.splits)
  have sc: "scope_problem p = []" "policyScopeRank (pScopeLevel p) \<noteq> 0" "pCategory p \<in> set policyCategories"
    using none by (auto simp: policy_problems_def simp del: policyDepth.simps)
  have win: "minutes s < minutes e \<and> minutes e < 1440"
    if "pMaintenanceStart p = Some s" "pMaintenanceEnd p = Some e" for s e
  proof -
    have "isValidTime s" "isValidTime e" "s < e"
      using none that by (auto simp: policy_problems_def simp del: policyDepth.simps)
    then show ?thesis using time_order minutes_bound by blast
  qed
  show ?thesis using cfg sc win scope_problem_Nil [OF sc(1,2)] by blast
qed

theorem validated_policy_witness:
  "minutes ''01:30'' < minutes ''05:00''"
proof -
  let ?p = "\<lparr>pName = ''p'', pCategory = ''patch'', pDescription = [], pConfig = [(''a'', JNull)], pScopeLevel = ''msp'',
    pClientID = [], pSiteID = [], pDeviceID = [], pMaintenanceStart = Some ''01:30'', pMaintenanceEnd = Some ''05:00'',
    pMaintenanceDays = Some [''monday''], pMaintenanceTimezone = ''UTC''\<rparr>"
  have "validate (\<lambda>_. Some 8) ?p = Inr ()" by code_simp
  from validated_policy [OF this] show ?thesis by simp
qed

end
