(* ===== verification/PolicyEnforcement.thy ===== *)
theory PolicyEnforcement
  imports Policy
begin

text \<open>
  The enforcement of policies, \<^verbatim>\<open>internal/platform/policy_enforcement.go\<close>, and one cycle of
  \<^verbatim>\<open>policy_scheduler.go\<close>: active published policies are assigned to the devices in their scope. The
  state is the table \<^verbatim>\<open>policy_assignments\<close>, whose only key is its identifier; identifiers are fresh.
\<close>

section \<open>State\<close>

record assignment =
  as_id :: nat
  as_policy_id :: string
  as_device_id :: string

record enforcement =
  en_policies :: "policy_row list"
  en_devices :: "device_row list"
  en_clients :: "(string \<times> string) list"   \<comment> \<open>client and its tenant\<close>
  en_assignments :: "assignment list"
  en_next :: nat

section \<open>Operations\<close>

definition findDevicesForMSP :: "enforcement \<Rightarrow> string \<Rightarrow> string list" where
  "findDevicesForMSP s mspID =
     map v_id (List.filter (\<lambda>v. v_msp_id v = mspID \<and> v_is_active v) (en_devices s))"

definition findDevicesForClient :: "enforcement \<Rightarrow> string \<Rightarrow> string \<Rightarrow> string list" where
  "findDevicesForClient s mspID clientID =
     concat (map (\<lambda>v. map (\<lambda>_. v_id v) (List.filter (\<lambda>(c, m). c = v_client_id v \<and> m = mspID) (en_clients s)))
       (List.filter (\<lambda>v. v_client_id v = clientID \<and> v_is_active v) (en_devices s)))"

definition findDevicesForSite :: "enforcement \<Rightarrow> string \<Rightarrow> string list" where
  "findDevicesForSite s siteID =
     map v_id (List.filter (\<lambda>v. v_site_id v = siteID \<and> v_is_active v) (en_devices s))"

text \<open>\<open>None\<close> is a failed query.\<close>

definition findMatchingDevices :: "bool \<Rightarrow> enforcement \<Rightarrow> string \<Rightarrow> policy_row \<Rightarrow> string list option" where
  "findMatchingDevices ok s mspID p =
     (let query = (\<lambda>r. if ok then Some r else None)
      in if q_scope_level p = ''device'' then
           Some (case q_device_id p of Some (c # cs) \<Rightarrow> [c # cs] | _ \<Rightarrow> [])
         else if q_scope_level p = ''site'' then
           (case q_site_id p of Some (c # cs) \<Rightarrow> query (findDevicesForSite s (c # cs)) | _ \<Rightarrow> Some [])
         else if q_scope_level p = ''client'' then
           (case q_client_id p of Some (c # cs) \<Rightarrow> query (findDevicesForClient s mspID (c # cs)) | _ \<Rightarrow> Some [])
         else if q_scope_level p = ''msp'' \<or> q_scope_level p = ''platform'' then query (findDevicesForMSP s mspID)
         else Some [])"

text \<open>The insert conflicts only with an equal identifier, which a fresh one never is.\<close>

definition assignPolicyToDevice :: "string \<Rightarrow> string \<Rightarrow> enforcement \<Rightarrow> enforcement" where
  "assignPolicyToDevice policyID deviceID s =
     (if list_ex (\<lambda>a. as_id a = en_next s) (en_assignments s) then s\<lparr>en_next := Suc (en_next s)\<rparr>
      else s\<lparr>en_assignments := en_assignments s @ [\<lparr>as_id = en_next s, as_policy_id = policyID, as_device_id = deviceID\<rparr>],
             en_next := Suc (en_next s)\<rparr>)"

definition active_policies :: "enforcement \<Rightarrow> string \<Rightarrow> policy_row list" where
  "active_policies s mspID =
     sort_key q_scope_level (sort_key q_id
       (List.filter (\<lambda>q. q_msp_id q = mspID \<and> q_status q = ''active'' \<and> q_published_version q \<noteq> None) (en_policies s)))"

definition apply_policy :: "(string \<Rightarrow> bool) \<Rightarrow> string \<Rightarrow> policy_row \<Rightarrow> enforcement \<Rightarrow> enforcement" where
  "apply_policy ok mspID p s =
     (case findMatchingDevices (ok (q_id p)) s mspID p of
        None \<Rightarrow> s
      | Some devices \<Rightarrow> fold (\<lambda>d. assignPolicyToDevice (q_id p) d) devices s)"

text \<open>\<open>setup\<close>: the transaction begins, its tenant setting and the policy query succeed; \<open>commit\<close>: it commits.\<close>

definition ApplyPoliciesToDevices ::
  "bool \<Rightarrow> bool \<Rightarrow> (string \<Rightarrow> bool) \<Rightarrow> string \<Rightarrow> enforcement \<Rightarrow> enforcement \<times> bool" where
  "ApplyPoliciesToDevices begin_ok commit_ok ok mspID s =
     (if \<not> begin_ok then (s, False)
      else let s' = fold (apply_policy ok mspID) (active_policies s mspID) s
           in if commit_ok then (s', True) else (s, False))"

definition getActiveMSPIDs :: "enforcement \<Rightarrow> string list" where
  "getActiveMSPIDs s =
     remdups (map q_msp_id (List.filter (\<lambda>q. q_status q = ''active'' \<and> q_published_version q \<noteq> None) (en_policies s)))"

definition evaluatePolicies :: "enforcement \<Rightarrow> enforcement" where
  "evaluatePolicies s =
     fold (\<lambda>m s. fst (ApplyPoliciesToDevices True True (\<lambda>_. True) m s)) (getActiveMSPIDs s) s"

text \<open>The devices that hold an active policy, by \<^verbatim>\<open>GetDeviceAssignments\<close>.\<close>

definition GetDeviceAssignments :: "enforcement \<Rightarrow> string \<Rightarrow> (nat \<times> string) list" where
  "GetDeviceAssignments s deviceID =
     concat (map (\<lambda>a. map (\<lambda>p. (as_id a, q_id p))
        (List.filter (\<lambda>p. q_id p = as_policy_id a \<and> q_status p = ''active'') (en_policies s)))
       (List.filter (\<lambda>a. as_device_id a = deviceID) (en_assignments s)))"

section \<open>Properties\<close>

text \<open>Fresh identifiers are above all used ones.\<close>

definition enforcement_ok :: "enforcement \<Rightarrow> bool" where
  "enforcement_ok s \<longleftrightarrow> (\<forall>a \<in> set (en_assignments s). as_id a < en_next s)"

lemma assign_ok:
  "enforcement_ok s \<Longrightarrow> enforcement_ok (assignPolicyToDevice p d s)
     \<and> map (\<lambda>a. (as_policy_id a, as_device_id a)) (en_assignments (assignPolicyToDevice p d s))
         = map (\<lambda>a. (as_policy_id a, as_device_id a)) (en_assignments s) @ [(p, d)]
     \<and> en_policies (assignPolicyToDevice p d s) = en_policies s
     \<and> en_devices (assignPolicyToDevice p d s) = en_devices s
     \<and> en_clients (assignPolicyToDevice p d s) = en_clients s"
  by (auto simp: assignPolicyToDevice_def enforcement_ok_def list_ex_iff less_Suc_eq)

lemma assign_all:
  "enforcement_ok s \<Longrightarrow> enforcement_ok (fold (\<lambda>d. assignPolicyToDevice p d) ds s)
     \<and> map (\<lambda>a. (as_policy_id a, as_device_id a)) (en_assignments (fold (\<lambda>d. assignPolicyToDevice p d) ds s))
         = map (\<lambda>a. (as_policy_id a, as_device_id a)) (en_assignments s) @ map (Pair p) ds
     \<and> en_policies (fold (\<lambda>d. assignPolicyToDevice p d) ds s) = en_policies s
     \<and> en_devices (fold (\<lambda>d. assignPolicyToDevice p d) ds s) = en_devices s
     \<and> en_clients (fold (\<lambda>d. assignPolicyToDevice p d) ds s) = en_clients s"
proof (induction ds arbitrary: s)
  case (Cons d ds)
  from assign_ok [OF Cons.prems, of p d] Cons.IH [of "assignPolicyToDevice p d s"] show ?case by simp
qed simp

text \<open>The assignments one run makes, as pairs of policy and device.\<close>

definition matching :: "enforcement \<Rightarrow> string \<Rightarrow> policy_row \<Rightarrow> (string \<times> string) list" where
  "matching s mspID p =
     (case findMatchingDevices True s mspID p of None \<Rightarrow> [] | Some ds \<Rightarrow> map (Pair (q_id p)) ds)"

lemma findMatchingDevices_cong:
  "en_devices s = en_devices s' \<Longrightarrow> en_clients s = en_clients s' \<Longrightarrow>
     findMatchingDevices ok s m p = findMatchingDevices ok s' m p"
proof -
  assume "en_devices s = en_devices s'" "en_clients s = en_clients s'"
  then have eq: "findDevicesForMSP s = findDevicesForMSP s'" "findDevicesForClient s = findDevicesForClient s'"
    "findDevicesForSite s = findDevicesForSite s'"
    by (auto simp: fun_eq_iff findDevicesForMSP_def findDevicesForClient_def findDevicesForSite_def)
  show ?thesis unfolding findMatchingDevices_def eq ..
qed

lemma apply_policies:
  "enforcement_ok s \<Longrightarrow> enforcement_ok (fold (apply_policy (\<lambda>_. True) m) ps s)
     \<and> map (\<lambda>a. (as_policy_id a, as_device_id a)) (en_assignments (fold (apply_policy (\<lambda>_. True) m) ps s))
         = map (\<lambda>a. (as_policy_id a, as_device_id a)) (en_assignments s) @ concat (map (matching s m) ps)
     \<and> en_policies (fold (apply_policy (\<lambda>_. True) m) ps s) = en_policies s
     \<and> en_devices (fold (apply_policy (\<lambda>_. True) m) ps s) = en_devices s
     \<and> en_clients (fold (apply_policy (\<lambda>_. True) m) ps s) = en_clients s"
proof (induction ps arbitrary: s)
  case (Cons p ps)
  let ?s = "apply_policy (\<lambda>_. True) m p s"
  have one: "enforcement_ok ?s \<and> map (\<lambda>a. (as_policy_id a, as_device_id a)) (en_assignments ?s)
       = map (\<lambda>a. (as_policy_id a, as_device_id a)) (en_assignments s) @ matching s m p
     \<and> en_policies ?s = en_policies s \<and> en_devices ?s = en_devices s \<and> en_clients ?s = en_clients s"
    using assign_all [OF Cons.prems] Cons.prems
    by (auto simp: apply_policy_def matching_def split: option.splits)
  then have "matching ?s m = matching s m"
    using findMatchingDevices_cong [of ?s s] by (auto simp: matching_def fun_eq_iff)
  with one Cons.IH [of ?s] show ?case by simp
qed simp

text \<open>
  A run for a tenant assigns exactly the devices in the scope of each active, published policy of the
  tenant, in addition to what was assigned before: the assignment is not an upsert, so a second run adds
  every assignment once more and the table grows with every cycle. A run that does not commit assigns
  nothing.
\<close>

theorem enforcement_appends:
  assumes "enforcement_ok s"
  shows "map (\<lambda>a. (as_policy_id a, as_device_id a)) (en_assignments (fst (ApplyPoliciesToDevices True True (\<lambda>_. True) m s)))
      = map (\<lambda>a. (as_policy_id a, as_device_id a)) (en_assignments s)
        @ concat (map (matching s m) (active_policies s m))
    \<and> length (en_assignments (fst (ApplyPoliciesToDevices True True (\<lambda>_. True) m
          (fst (ApplyPoliciesToDevices True True (\<lambda>_. True) m s)))))
      = length (en_assignments s) + 2 * length (concat (map (matching s m) (active_policies s m)))
    \<and> fst (ApplyPoliciesToDevices True False ok m s) = s"
proof (intro conjI)
  let ?run = "\<lambda>s. fst (ApplyPoliciesToDevices True True (\<lambda>_. True) m s)"
  have run: "?run s = fold (apply_policy (\<lambda>_. True) m) (active_policies s m) s" for s
    by (simp add: ApplyPoliciesToDevices_def Let_def)
  have step: "enforcement_ok (?run t) \<and> map (\<lambda>a. (as_policy_id a, as_device_id a)) (en_assignments (?run t))
       = map (\<lambda>a. (as_policy_id a, as_device_id a)) (en_assignments t) @ concat (map (matching t m) (active_policies t m))
     \<and> en_policies (?run t) = en_policies t \<and> en_devices (?run t) = en_devices t \<and> en_clients (?run t) = en_clients t"
    if "enforcement_ok t" for t
    using apply_policies [OF that] by (simp add: run)
  from step [OF assms] show "map (\<lambda>a. (as_policy_id a, as_device_id a)) (en_assignments (?run s))
      = map (\<lambda>a. (as_policy_id a, as_device_id a)) (en_assignments s) @ concat (map (matching s m) (active_policies s m))" by simp
  have same: "active_policies (?run s) m = active_policies s m" "matching (?run s) m = matching s m"
  proof -
    from step [OF assms] have k: "en_policies (?run s) = en_policies s" "en_devices (?run s) = en_devices s"
      "en_clients (?run s) = en_clients s" by blast+
    show "active_policies (?run s) m = active_policies s m" unfolding active_policies_def k by (rule refl)
    show "matching (?run s) m = matching s m" by (rule ext) (simp only: matching_def findMatchingDevices_cong [OF k(2,3)])
  qed
  have len: "length (en_assignments (?run t)) = length (en_assignments t) + length (concat (map (matching t m) (active_policies t m)))"
    if "enforcement_ok t" for t
    using arg_cong [OF step [OF that, THEN conjunct2, THEN conjunct1], of length] by simp
  show "length (en_assignments (?run (?run s))) = length (en_assignments s) + 2 * length (concat (map (matching s m) (active_policies s m)))"
    using len [OF assms] len [of "?run s"] step [OF assms] same by simp
qed (simp add: ApplyPoliciesToDevices_def Let_def)

theorem enforcement_appends_witness:
  "length (en_assignments (fst (ApplyPoliciesToDevices True True (\<lambda>_. True) ''acme''
      (fst (ApplyPoliciesToDevices True True (\<lambda>_. True) ''acme''
        \<lparr>en_policies = example_policies, en_devices = example_devices, en_clients = [], en_assignments = [], en_next = 0\<rparr>))))) = 4"
proof -
  let ?s = "\<lparr>en_policies = example_policies, en_devices = example_devices, en_clients = [], en_assignments = [], en_next = 0\<rparr>"
  have "enforcement_ok ?s" by (simp add: enforcement_ok_def)
  moreover have "length (concat (map (matching ?s ''acme'') (active_policies ?s ''acme''))) = 2" by code_simp
  ultimately show ?thesis using enforcement_appends [of ?s "''acme''"] by simp
qed

end
