(* ===== verification/SoftwareInstaller.thy ===== *)
theory SoftwareInstaller
  imports Json OnceLedger "HOL-Library.Word"
begin

text \<open>
  Software deployment on the agent: the receipt ledger \<^verbatim>\<open>internal/agent/software/ledger.go\<close> and the
  installer \<^verbatim>\<open>internal/agent/software/installer.go\<close>. The ledger maps a command key to a receipt; every
  operation is one transaction that commits (\<open>io\<close>) or changes nothing. What the installer cannot control is the
  argument \<open>env\<close>: the hash of a command, failures of the file system, the network and the storage, the exit
  code of a program and the state of the context.
\<close>

section \<open>Receipts\<close>

record SoftwareResult =
  srType :: string
  srDeploymentID :: string
  srAction :: string
  srStatus :: string
  srErrorMessage :: string
  srDurationMs :: int

record softwareReceipt =
  sKey :: string
  sFingerprint :: string
  sState :: string
  sResult :: SoftwareResult
  sHasResult :: bool

definition no_result :: SoftwareResult where
  "no_result = \<lparr>srType = [], srDeploymentID = [], srAction = [], srStatus = [], srErrorMessage = [], srDurationMs = 0\<rparr>"

datatype begin_disposition = BeginExecute | BeginInFlight | BeginReplay

datatype sw_error =
    IdentityRequired | DecodeError | CommandConflict | MissingResult | InvalidState | ReceiptMissing | DifferentResult
  | NotRunning | InvalidKey | SwStorage

type_synonym sw_ledger = "softwareReceipt wire bucket"

definition sw_update :: "bool \<Rightarrow> sw_ledger \<Rightarrow> sw_error + sw_ledger \<times> 'a \<Rightarrow> sw_ledger \<times> (sw_error + 'a)" where
  "sw_update io b body =
     (case body of
        Inl e \<Rightarrow> (b, Inl e)
      | Inr (b', x) \<Rightarrow> if io then (b', Inr x) else (b, Inl SwStorage))"

definition sw_begin ::
  "bool \<Rightarrow> string \<Rightarrow> string \<Rightarrow> sw_ledger \<Rightarrow> sw_ledger \<times> (sw_error + begin_disposition \<times> SoftwareResult)" where
  "sw_begin io key fingerprint b =
     (if key = [] \<or> fingerprint = [] then (b, Inl IdentityRequired)
      else sw_update io b
        (case bucket_get b key of
           None \<Rightarrow>
             Inr (bucket_put key (Decoded \<lparr>sKey = key, sFingerprint = fingerprint, sState = ''running'',
                                            sResult = no_result, sHasResult = False\<rparr>) b, (BeginExecute, no_result))
         | Some Malformed \<Rightarrow> Inl DecodeError
         | Some (Decoded r) \<Rightarrow>
             if sFingerprint r \<noteq> fingerprint then Inl CommandConflict
             else if sState r = ''received'' then
               Inr (bucket_put key (Decoded (r\<lparr>sState := ''running''\<rparr>)) b, (BeginExecute, no_result))
             else if sState r = ''running'' then Inr (b, (BeginInFlight, no_result))
             else if sState r = ''terminal'' then
               (if \<not> sHasResult r then Inl MissingResult else Inr (b, (BeginReplay, sResult r)))
             else Inl InvalidState))"

definition sw_complete :: "bool \<Rightarrow> string \<Rightarrow> string \<Rightarrow> SoftwareResult \<Rightarrow> sw_ledger \<Rightarrow> sw_ledger \<times> (sw_error + unit)" where
  "sw_complete io key fingerprint result b =
     sw_update io b
       (case bucket_get b key of
          None \<Rightarrow> Inl ReceiptMissing
        | Some Malformed \<Rightarrow> Inl DecodeError
        | Some (Decoded r) \<Rightarrow>
            if sFingerprint r \<noteq> fingerprint then Inl CommandConflict
            else if sState r = ''terminal'' then
              (if sHasResult r \<and> sResult r = result then Inr (b, ()) else Inl DifferentResult)
            else if sState r \<noteq> ''running'' then Inl NotRunning
            else Inr (bucket_put key (Decoded (r\<lparr>sState := ''terminal'', sResult := result, sHasResult := True\<rparr>)) b, ()))"

definition sw_release :: "bool \<Rightarrow> string \<Rightarrow> string \<Rightarrow> sw_ledger \<Rightarrow> sw_ledger \<times> (sw_error + unit)" where
  "sw_release io key fingerprint b =
     sw_update io b
       (case bucket_get b key of
          None \<Rightarrow> Inr (b, ())
        | Some Malformed \<Rightarrow> Inl DecodeError
        | Some (Decoded r) \<Rightarrow>
            if sFingerprint r \<noteq> fingerprint then Inl CommandConflict
            else if sState r \<noteq> ''running'' then Inr (b, ())
            else Inr (bucket_put key (Decoded (r\<lparr>sState := ''received''\<rparr>)) b, ()))"

text \<open>\<^verbatim>\<open>strings.SplitN(key, NUL, 2)\<close>, when it has two parts.\<close>

fun split_key :: "string \<Rightarrow> (string \<times> string) option" where
  "split_key [] = None"
| "split_key (c # cs) = (if c = CHR 0x00 then Some ([], cs) else map_option (\<lambda>(a, b). (c # a, b)) (split_key cs))"

definition interrupted :: "softwareReceipt \<Rightarrow> softwareReceipt option" where
  "interrupted r =
     (case split_key (sKey r) of
        None \<Rightarrow> None
      | Some (dep, action) \<Rightarrow>
          if dep = [] \<or> (action \<noteq> ''install'' \<and> action \<noteq> ''uninstall'') then None
          else Some (r\<lparr>sState := ''terminal'',
                       sResult := \<lparr>srType = ''software_result'', srDeploymentID = dep, srAction = action, srStatus = ''failed'',
                                   srErrorMessage = ''execution outcome unknown after agent restart; manual reconciliation required'',
                                   srDurationMs = 0\<rparr>,
                       sHasResult := True\<rparr>))"

fun resume_all :: "sw_ledger \<Rightarrow> sw_error + sw_ledger" where
  "resume_all [] = Inr []"
| "resume_all ((k, Malformed) # b) = Inl DecodeError"
| "resume_all ((k, Decoded r) # b) =
     (if sState r \<noteq> ''running'' then
        (case resume_all b of Inl e \<Rightarrow> Inl e | Inr b' \<Rightarrow> Inr ((k, Decoded r) # b'))
      else (case interrupted r of
              None \<Rightarrow> Inl InvalidKey
            | Some r' \<Rightarrow> (case resume_all b of Inl e \<Rightarrow> Inl e | Inr b' \<Rightarrow> Inr ((k, Decoded r') # b'))))"

definition resumeInterrupted :: "bool \<Rightarrow> sw_ledger \<Rightarrow> sw_ledger \<times> (sw_error + unit)" where
  "resumeInterrupted io b =
     sw_update io b (case resume_all b of Inl e \<Rightarrow> Inl e | Inr b' \<Rightarrow> Inr (b', ()))"

section \<open>Commands\<close>

record SoftwareCommand =
  scType :: string
  scDeploymentID :: string
  scAction :: string
  scSourceURL :: string
  scChecksum :: string
  scInstallArgs :: string
  scUninstallArgs :: string
  scPackageType :: string
  scTimeout :: int

definition command_fields :: "string list" where
  "command_fields = [''type'', ''deployment_id'', ''action'', ''source_url'', ''checksum'', ''install_args'', ''uninstall_args'',
     ''package_type'', ''timeout'']"

text \<open>Unknown fields are refused; a document followed by another one counts as malformed.\<close>

definition decodeSoftwareCommand :: "json wire \<Rightarrow> SoftwareCommand option" where
  "decodeSoftwareCommand data = do {
     kvs \<leftarrow> dec_object data;
     _ \<leftarrow> (if list_all (\<lambda>(k, _). list_ex (EqualFold k) command_fields) kvs then Some () else None);
     ty \<leftarrow> dec_str kvs ''type'';
     dep \<leftarrow> dec_str kvs ''deployment_id'';
     act \<leftarrow> dec_str kvs ''action'';
     url \<leftarrow> dec_str kvs ''source_url'';
     chk \<leftarrow> dec_str kvs ''checksum'';
     ia \<leftarrow> dec_str kvs ''install_args'';
     ua \<leftarrow> dec_str kvs ''uninstall_args'';
     pt \<leftarrow> dec_str kvs ''package_type'';
     tm \<leftarrow> dec_int kvs ''timeout'';
     Some \<lparr>scType = ty, scDeploymentID = dep, scAction = act, scSourceURL = url, scChecksum = chk,
           scInstallArgs = ia, scUninstallArgs = ua, scPackageType = pt, scTimeout = tm\<rparr> }"

text \<open>\<^verbatim>\<open>time.Duration(n) * time.Second\<close> on 64-bit integers.\<close>

definition nanoseconds :: "int \<Rightarrow> int" where
  "nanoseconds n = sint (word_of_int n * word_of_int 1000000000 :: 64 word)"

definition maxSoftwareTimeout :: int where
  "maxSoftwareTimeout = 2 * 3600 * 1000000000"

datatype command_problem = NoDeployment | BadAction | TypeMismatch | NoSource | BadPackageType | BadTimeout

text \<open>
  \<^verbatim>\<open>%q\<close>: a Go string literal. Bytes outside ASCII are kept, as for printable characters.
\<close>

definition hex_digit :: "nat \<Rightarrow> char" where
  "hex_digit n = (if n < 10 then char_of (48 + n) else char_of (87 + n))"

definition quote_char :: "char \<Rightarrow> string" where
  "quote_char c =
     (let n = of_char c :: nat; bs = CHR 0x5C
      in if n = 34 \<or> n = 92 then [bs, c]
         else if n = 7 then bs # ''a'' else if n = 8 then bs # ''b'' else if n = 9 then bs # ''t''
         else if n = 10 then bs # ''n'' else if n = 11 then bs # ''v'' else if n = 12 then bs # ''f''
         else if n = 13 then bs # ''r''
         else if n < 32 \<or> n = 127 then [bs, CHR ''x'', hex_digit (n div 16), hex_digit (n mod 16)]
         else [c])"

definition go_quote :: "string \<Rightarrow> string" where
  "go_quote s = CHR 0x22 # concat (map quote_char s) @ [CHR 0x22]"

definition problem_text :: "SoftwareCommand \<Rightarrow> command_problem \<Rightarrow> string" where
  "problem_text cmd e =
     (case e of
        NoDeployment \<Rightarrow> ''deployment_id is required''
      | BadAction \<Rightarrow> ''unsupported software action '' @ go_quote (scAction cmd)
      | TypeMismatch \<Rightarrow> ''software command type/action mismatch''
      | NoSource \<Rightarrow> ''source_url is required''
      | BadPackageType \<Rightarrow> ''unsupported package type '' @ go_quote (scPackageType cmd)
      | BadTimeout \<Rightarrow> ''software timeout is outside allowed bounds'')"

definition validateSoftwareCommand :: "SoftwareCommand \<Rightarrow> command_problem + unit" where
  "validateSoftwareCommand cmd =
     (if scDeploymentID cmd = [] then Inl NoDeployment
      else if scAction cmd \<noteq> ''install'' \<and> scAction cmd \<noteq> ''uninstall'' then Inl BadAction
      else if scType cmd \<noteq> ''software_'' @ scAction cmd then Inl TypeMismatch
      else if scSourceURL cmd = [] then Inl NoSource
      else if \<not> List.member [''msi'', ''exe'', ''deb'', ''rpm'', ''appimage'', ''script''] (scPackageType cmd) then Inl BadPackageType
      else if scTimeout cmd < 0 \<or> maxSoftwareTimeout < nanoseconds (scTimeout cmd) then Inl BadTimeout
      else Inr ())"

definition softwareCommandKey :: "SoftwareCommand \<Rightarrow> string" where
  "softwareCommandKey cmd = scDeploymentID cmd @ [CHR 0x00] @ scAction cmd"

section \<open>Execution\<close>

definition splitSoftwareArgs :: "string \<Rightarrow> string list" where
  "splitSoftwareArgs value = fields_from [] value"

text \<open>The program and arguments that are run; \<open>None\<close> gives exit code 127.\<close>

definition runScript :: "bool \<Rightarrow> string \<Rightarrow> string list \<Rightarrow> string \<times> string list" where
  "runScript windows path args =
     (if windows then (''powershell.exe'', [''-NoProfile'', ''-NonInteractive'', ''-File'', path] @ args)
      else (''/bin/sh'', path # args))"

definition runInstall :: "bool \<Rightarrow> SoftwareCommand \<Rightarrow> string \<Rightarrow> (string \<times> string list) option" where
  "runInstall windows cmd path =
     (let args = splitSoftwareArgs (scInstallArgs cmd); pt = scPackageType cmd
      in if pt = ''msi'' then Some (''msiexec.exe'', [''/i'', path, ''/quiet'', ''/norestart''] @ args)
         else if pt = ''exe'' then Some (path, args)
         else if pt = ''deb'' then Some (''dpkg'', [''-i'', path] @ args)
         else if pt = ''rpm'' then Some (''rpm'', [''-ivh'', path] @ args)
         else if pt = ''appimage'' then Some (path, ''--appimage-extract-and-run'' # args)
         else if pt = ''script'' then Some (runScript windows path args)
         else None)"

definition runUninstall :: "SoftwareCommand \<Rightarrow> string \<Rightarrow> (string \<times> string list) option" where
  "runUninstall cmd path =
     (let args = splitSoftwareArgs (scUninstallArgs cmd); pt = scPackageType cmd
      in if pt = ''msi'' then Some (''msiexec.exe'', [''/x'', path, ''/quiet'', ''/norestart''] @ args)
         else if pt = ''exe'' then Some (path, args)
         else if pt = ''deb'' then Some (''dpkg'', [''-r'', path] @ args)
         else if pt = ''rpm'' then Some (''rpm'', [''-e'', path] @ args)
         else if pt = ''appimage'' \<or> pt = ''script'' then Some (path, args)
         else None)"

definition boundedSoftwareError :: "string \<Rightarrow> string" where
  "boundedSoftwareError e = take 4096 e"

datatype run_context = RunOpen | RunDeadline | RunCancelled

text \<open>
  \<open>x_response\<close> is the outcome of the request: a transport error, or the status and the body; \<open>x_copied\<close> is an error of
  the destination file or of the copy; \<open>x_base\<close> and \<open>x_join\<close> are the platform's path functions; \<open>x_context\<close> gives the state of a context of the given duration after the run.
\<close>

record sw_env =
  x_fingerprint :: "SoftwareCommand \<Rightarrow> string"
  x_sha256 :: "string \<Rightarrow> string"
  x_windows :: bool
  x_tmp :: "string + string"
  x_separator :: string
  x_base :: "string \<Rightarrow> string"
  x_join :: "string \<Rightarrow> string \<Rightarrow> string"
  x_response :: "string \<Rightarrow> string + int \<times> string"
  x_copied :: "string option"
  x_chmod :: "string option"
  x_exit :: "string \<Rightarrow> string list \<Rightarrow> int"
  x_context :: "int \<Rightarrow> run_context"
  x_ms :: int
  x_begin_io :: bool
  x_complete_io :: bool
  x_release_io :: bool
  x_publish :: bool

definition downloadFile :: "sw_env \<Rightarrow> string \<Rightarrow> string \<Rightarrow> string option" where
  "downloadFile env url expectedChecksum =
     (case x_response env url of
        Inl e \<Rightarrow> Some e
      | Inr (status, body) \<Rightarrow>
          if status \<noteq> 200 then Some (''HTTP '' @ int_digits status)
          else (case x_copied env of
                  Some e \<Rightarrow> Some e
                | None \<Rightarrow>
                    if expectedChecksum \<noteq> [] \<and> \<not> EqualFold (x_sha256 env body) (TrimSpace expectedChecksum)
                    then Some ''checksum mismatch'' else None))"

definition defaultSoftwareTimeout :: int where
  "defaultSoftwareTimeout = 30 * 60 * 1000000000"

definition run_timeout :: "SoftwareCommand \<Rightarrow> int" where
  "run_timeout cmd = (if 0 < scTimeout cmd then nanoseconds (scTimeout cmd) else defaultSoftwareTimeout)"

definition local_path :: "sw_env \<Rightarrow> string \<Rightarrow> string \<Rightarrow> string" where
  "local_path env dir url =
     (let base = x_base env url
      in x_join env dir (if base = ''.'' \<or> base = x_separator env \<or> base = [] then ''package.bin'' else base))"

text \<open>The result, and the program that was run with its arguments.\<close>

definition executeWithContext :: "sw_env \<Rightarrow> SoftwareCommand \<Rightarrow> SoftwareResult \<times> (string \<times> string list) option" where
  "executeWithContext env cmd =
     (let result = (\<lambda>status err. \<lparr>srType = ''software_result'', srDeploymentID = scDeploymentID cmd, srAction = scAction cmd,
                       srStatus = status, srErrorMessage = err, srDurationMs = x_ms env\<rparr>);
          fail = (\<lambda>err. (result ''failed'' (boundedSoftwareError err), None))
      in case validateSoftwareCommand cmd of
           Inl e \<Rightarrow> fail (problem_text cmd e)
         | Inr _ \<Rightarrow>
             (case x_tmp env of
                Inl e \<Rightarrow> fail (''temp dir: '' @ e)
              | Inr tmpDir \<Rightarrow>
                  (case downloadFile env (scSourceURL cmd) (scChecksum cmd) of
                     Some e \<Rightarrow> fail (''download: '' @ e)
                   | None \<Rightarrow>
                       (case x_chmod env of
                          Some e \<Rightarrow> fail (''prepare package: '' @ e)
                        | None \<Rightarrow>
                            let localPath = local_path env tmpDir (scSourceURL cmd);
                                plan = (if scAction cmd = ''install'' then runInstall (x_windows env) cmd localPath
                                        else runUninstall cmd localPath);
                                exitCode = (case plan of None \<Rightarrow> 127 | Some (program, args) \<Rightarrow> x_exit env program args)
                            in (case x_context env (run_timeout cmd) of
                                  RunDeadline \<Rightarrow> (result ''failed'' ''timeout'', plan)
                                | RunCancelled \<Rightarrow> (result ''failed'' ''cancelled'', plan)
                                | RunOpen \<Rightarrow>
                                    if exitCode = 0 then (result ''success'' [], plan)
                                    else (result ''failed'' (''exit code: '' @ int_digits exitCode), plan))))))"

record sw_agent =
  swLedger :: sw_ledger
  swPublished :: "SoftwareResult list"
  swExecuted :: "(string \<times> (string \<times> string list) option) list"

definition publishResult :: "sw_env \<Rightarrow> SoftwareResult \<Rightarrow> sw_agent \<Rightarrow> sw_agent \<times> bool" where
  "publishResult env result s =
     (let bounded = boundedSoftwareError (srErrorMessage result);
          sent = result\<lparr>srErrorMessage := if bounded = ''<nil>'' then [] else bounded\<rparr>
      in if x_publish env then (s\<lparr>swPublished := swPublished s @ [sent]\<rparr>, True) else (s, False))"

datatype sw_disposition = SwTerm | SwNak | SwAck

text \<open>Claim, run, store, publish: what happens to a command that decodes and validates.\<close>

definition run_claimed ::
  "sw_env \<Rightarrow> SoftwareCommand \<Rightarrow> sw_ledger \<Rightarrow> sw_agent \<Rightarrow> sw_agent \<times> sw_disposition" where
  "run_claimed env cmd b s =
     (let key = softwareCommandKey cmd; fp = x_fingerprint env cmd; (result, plan) = executeWithContext env cmd;
          s1 = s\<lparr>swLedger := b, swExecuted := swExecuted s @ [(key, plan)]\<rparr>
      in (case sw_complete (x_complete_io env) key fp result b of
            (b2, Inl _) \<Rightarrow> (s1\<lparr>swLedger := fst (sw_release (x_release_io env) key fp b2)\<rparr>, SwNak)
          | (b2, Inr _) \<Rightarrow>
              (case publishResult env result (s1\<lparr>swLedger := b2\<rparr>) of
                 (s', ok) \<Rightarrow> (s', if ok then SwAck else SwNak))))"

definition handleCommand :: "sw_env \<Rightarrow> json wire \<Rightarrow> sw_agent \<Rightarrow> sw_agent \<times> sw_disposition" where
  "handleCommand env data s =
     (case decodeSoftwareCommand data of
        None \<Rightarrow> (s, SwTerm)
      | Some cmd \<Rightarrow>
          (case validateSoftwareCommand cmd of
             Inl _ \<Rightarrow> (s, SwTerm)
           | Inr _ \<Rightarrow>
               (case sw_begin (x_begin_io env) (softwareCommandKey cmd) (x_fingerprint env cmd) (swLedger s) of
                  (b, Inl e) \<Rightarrow> (s\<lparr>swLedger := b\<rparr>, if e = CommandConflict then SwTerm else SwNak)
                | (b, Inr (BeginReplay, replay)) \<Rightarrow>
                    (case publishResult env replay (s\<lparr>swLedger := b\<rparr>) of (s', ok) \<Rightarrow> (s', if ok then SwAck else SwNak))
                | (b, Inr (BeginInFlight, _)) \<Rightarrow> (s\<lparr>swLedger := b\<rparr>, SwNak)
                | (b, Inr (BeginExecute, _)) \<Rightarrow> run_claimed env cmd b s)))"

section \<open>Interleavings of ledger operations\<close>

datatype sw_op =
    SwBegin bool string string
  | SwComplete bool string string SoftwareResult
  | SwRelease bool string string
  | SwResume bool

fun sw_step :: "sw_op \<Rightarrow> sw_ledger \<Rightarrow> sw_ledger" where
  "sw_step (SwBegin io k fp) b = fst (sw_begin io k fp b)"
| "sw_step (SwComplete io k fp res) b = fst (sw_complete io k fp res b)"
| "sw_step (SwRelease io k fp) b = fst (sw_release io k fp b)"
| "sw_step (SwResume io) b = fst (resumeInterrupted io b)"

fun sw_starts :: "string \<Rightarrow> sw_op \<Rightarrow> sw_ledger \<Rightarrow> bool" where
  "sw_starts k (SwBegin io k' fp) b =
     (k' = k \<and> (case snd (sw_begin io k' fp b) of Inr (BeginExecute, _) \<Rightarrow> True | _ \<Rightarrow> False))"
| "sw_starts k _ b = False"

fun sw_releases :: "string \<Rightarrow> sw_op \<Rightarrow> sw_ledger \<Rightarrow> bool" where
  "sw_releases k (SwRelease io k' fp) b = (k' = k)"
| "sw_releases k _ b = False"

definition value_held :: "softwareReceipt wire option \<Rightarrow> bool" where
  "value_held v = (case v of None \<Rightarrow> False | Some Malformed \<Rightarrow> True | Some (Decoded r) \<Rightarrow> sState r \<noteq> ''received'')"

definition sw_held :: "sw_ledger \<Rightarrow> string \<Rightarrow> bool" where
  "sw_held b k = value_held (bucket_get b k)"

lemma value_held_simps [simp]:
  "\<not> value_held None" "value_held (Some Malformed)" "value_held (Some (Decoded r)) \<longleftrightarrow> sState r \<noteq> ''received''"
  by (simp_all add: value_held_def)

lemma sw_begin_cases:
  obtains (same) "fst (sw_begin io k fp b) = b" "\<And>x. snd (sw_begin io k fp b) \<noteq> Inr (BeginExecute, x)"
  | (claim) r where "\<not> sw_held b k" "sw_begin io k fp b = (bucket_put k (Decoded r) b, Inr (BeginExecute, no_result))"
      "sState r = ''running''" "sFingerprint r = fp"
proof (cases "k \<noteq> [] \<and> fp \<noteq> [] \<and> io")
  case False
  then show ?thesis
    by (intro same) (auto simp: sw_begin_def sw_update_def split: option.splits wire.splits)
next
  case ok: True
  show ?thesis
  proof (cases "bucket_get b k")
    case None
    with ok show ?thesis by (intro claim) (auto simp: sw_begin_def sw_update_def sw_held_def)
  next
    case (Some w)
    show ?thesis
    proof (cases "\<exists>r. w = Decoded r \<and> sFingerprint r = fp \<and> sState r = ''received''")
      case True
      then obtain r where "w = Decoded r" "sFingerprint r = fp" "sState r = ''received''" by blast
      with Some ok show ?thesis
        by (intro claim [of "r\<lparr>sState := ''running''\<rparr>"]) (auto simp: sw_begin_def sw_update_def sw_held_def)
    next
      case False
      with Some ok show ?thesis
        by (intro same) (auto simp: sw_begin_def sw_update_def split: wire.splits)
    qed
  qed
qed

lemma sw_complete_cases:
  obtains (same) "fst (sw_complete io k fp res b) = b"
  | (finish) r where "bucket_get b k = Some (Decoded r)" "sState r = ''running''"
      "fst (sw_complete io k fp res b) =
         bucket_put k (Decoded (r\<lparr>sState := ''terminal'', sResult := res, sHasResult := True\<rparr>)) b"
proof (cases "\<exists>r. io \<and> bucket_get b k = Some (Decoded r) \<and> sFingerprint r = fp \<and> sState r = ''running''")
  case True
  then obtain r where "io" "bucket_get b k = Some (Decoded r)" "sFingerprint r = fp" "sState r = ''running''" by blast
  then show ?thesis by (intro finish [of r]) (simp_all add: sw_complete_def sw_update_def)
next
  case False
  then show ?thesis
    by (intro same) (auto simp: sw_complete_def sw_update_def split: option.splits wire.splits)
qed

lemma sw_release_cases:
  obtains (same) "fst (sw_release io k fp b) = b"
  | (release) r where "bucket_get b k = Some (Decoded r)" "sState r = ''running''"
      "fst (sw_release io k fp b) = bucket_put k (Decoded (r\<lparr>sState := ''received''\<rparr>)) b"
proof (cases "\<exists>r. io \<and> bucket_get b k = Some (Decoded r) \<and> sFingerprint r = fp \<and> sState r = ''running''")
  case True
  then obtain r where "io" "bucket_get b k = Some (Decoded r)" "sFingerprint r = fp" "sState r = ''running''" by blast
  then show ?thesis by (intro release [of r]) (simp_all add: sw_release_def sw_update_def)
next
  case False
  then show ?thesis
    by (intro same) (auto simp: sw_release_def sw_update_def split: option.splits wire.splits)
qed

definition resumed :: "softwareReceipt wire \<Rightarrow> softwareReceipt wire" where
  "resumed v =
     (case v of
        Malformed \<Rightarrow> Malformed
      | Decoded r \<Rightarrow> if sState r \<noteq> ''running'' then Decoded r
                     else (case interrupted r of None \<Rightarrow> Decoded r | Some r' \<Rightarrow> Decoded r'))"

lemma resume_all_map: "resume_all b = Inr b' \<Longrightarrow> b' = map (\<lambda>(k, v). (k, resumed v)) b"
  by (induction b arbitrary: b' rule: resume_all.induct)
    (auto simp: resumed_def split: if_splits option.splits sum.splits)

lemma bucket_get_map: "bucket_get (map (\<lambda>(k, v). (k, f v)) b) k = map_option f (bucket_get b k)"
  by (induction b) (auto simp: bucket_get_def)

lemma bucket_ok_map: "bucket_ok (map (\<lambda>(k, v). (k, f v)) b) \<longleftrightarrow> bucket_ok b"
  by (induction b) (auto simp: bucket_ok_def)

lemma resumed_held: "value_held (map_option resumed v) \<longleftrightarrow> value_held v"
  by (auto simp: value_held_def resumed_def interrupted_def split: option.splits wire.splits if_splits)

lemma resumeInterrupted_cases:
  obtains (same) "fst (resumeInterrupted io b) = b"
  | (resume) "fst (resumeInterrupted io b) = map (\<lambda>(k, v). (k, resumed v)) b"
proof (cases "resume_all b")
  case (Inl e)
  then show ?thesis by (intro same) (simp add: resumeInterrupted_def sw_update_def)
next
  case (Inr b')
  with resume_all_map [OF Inr] show ?thesis
    by (cases io; intro same resume; simp add: resumeInterrupted_def sw_update_def)
qed

lemma sw_step_ok: "bucket_ok b \<Longrightarrow> bucket_ok (sw_step x b)"
proof (cases x)
  case (SwBegin io k fp)
  then show "bucket_ok b \<Longrightarrow> ?thesis" by (cases rule: sw_begin_cases [of io k fp b]) auto
next
  case (SwComplete io k fp res)
  then show "bucket_ok b \<Longrightarrow> ?thesis" by (cases rule: sw_complete_cases [of io k fp res b]) auto
next
  case (SwRelease io k fp)
  then show "bucket_ok b \<Longrightarrow> ?thesis" by (cases rule: sw_release_cases [of io k fp b]) auto
next
  case (SwResume io)
  then show "bucket_ok b \<Longrightarrow> ?thesis" by (cases rule: resumeInterrupted_cases [of io b]) (auto simp: bucket_ok_map)
qed

lemma sw_step_keep:
  assumes "bucket_ok b" "sw_held b k" "\<not> sw_releases k x b"
  shows "sw_held (sw_step x b) k"
proof (cases x)
  case (SwBegin io k' fp)
  with assms show ?thesis
    by (cases rule: sw_begin_cases [of io k' fp b]) (auto simp: sw_held_def bucket_get_put)
next
  case (SwComplete io k' fp res)
  with assms show ?thesis
    by (cases rule: sw_complete_cases [of io k' fp res b]) (auto simp: sw_held_def bucket_get_put)
next
  case (SwRelease io k' fp)
  with assms show ?thesis
    by (cases rule: sw_release_cases [of io k' fp b]) (auto simp: sw_held_def bucket_get_put)
next
  case (SwResume io)
  with assms show ?thesis
    by (cases rule: resumeInterrupted_cases [of io b]) (auto simp: sw_held_def bucket_get_map resumed_held)
qed

lemma sw_step_start:
  assumes "bucket_ok b" "sw_starts k x b"
  shows "\<not> sw_held b k \<and> sw_held (sw_step x b) k"
proof (cases x)
  case (SwBegin io k' fp)
  with assms show ?thesis
    by (cases rule: sw_begin_cases [of io k' fp b])
      (auto simp: sw_held_def bucket_get_put split: sum.splits prod.splits begin_disposition.splits)
qed (use assms in auto)

interpretation software_ledger: claim_ledger "\<lambda>_. True" sw_step sw_starts sw_releases sw_held bucket_ok
  by unfold_locales (use sw_step_ok sw_step_start sw_step_keep in auto)

text \<open>A terminal receipt is not changed by any operation.\<close>

lemma sw_step_terminal:
  assumes "bucket_ok b" "bucket_get b k = Some (Decoded r)" "sState r = ''terminal''"
  shows "bucket_get (sw_step x b) k = Some (Decoded r)"
proof (cases x)
  case (SwBegin io k' fp)
  with assms show ?thesis
    by (cases rule: sw_begin_cases [of io k' fp b]) (auto simp: sw_held_def bucket_get_put)
next
  case (SwComplete io k' fp res)
  with assms show ?thesis
    by (cases rule: sw_complete_cases [of io k' fp res b]) (auto simp: bucket_get_put)
next
  case (SwRelease io k' fp)
  with assms show ?thesis
    by (cases rule: sw_release_cases [of io k' fp b]) (auto simp: bucket_get_put)
next
  case (SwResume io)
  with assms show ?thesis
    by (cases rule: resumeInterrupted_cases [of io b]) (auto simp: bucket_get_map resumed_def)
qed

lemma terminal_for_ever:
  "bucket_ok b \<Longrightarrow> bucket_get b k = Some (Decoded r) \<Longrightarrow> sState r = ''terminal'' \<Longrightarrow>
     bucket_get (fold sw_step ops b) k = Some (Decoded r) \<and> count_starts sw_step (sw_starts k) b ops = 0"
proof (induction ops arbitrary: b)
  case (Cons x ops)
  have "\<not> sw_starts k x b" using sw_step_start [of b k x] Cons.prems by (auto simp: sw_held_def)
  with Cons sw_step_ok sw_step_terminal show ?case by simp
qed simp

text \<open>
  C16. Software commands are claimed before they run: over any interleaving of claims, completions, releases and
  restarts, with any storage failures, an installation is started at most once more than its claim was
  released; once its result is stored it is never started again, and the stored result never changes.
\<close>

theorem software_execution_claims:
  assumes "bucket_ok b"
  shows "count_starts sw_step (sw_starts k) b ops \<le> count_starts sw_step (sw_releases k) b ops + 1
    \<and> (\<forall>r. bucket_get b k = Some (Decoded r) \<and> sState r = ''terminal'' \<longrightarrow>
         count_starts sw_step (sw_starts k) b ops = 0 \<and> bucket_get (fold sw_step ops b) k = Some (Decoded r))"
  using software_ledger.starts_after_releases [OF assms, of ops k] terminal_for_ever [OF assms]
  by (auto simp: list_all_iff split: if_splits)

theorem software_execution_claims_witness:
  "count_starts sw_step (sw_starts ''k'') []
     [SwBegin True ''k'' ''f'', SwBegin True ''k'' ''f'', SwRelease True ''k'' ''f'', SwBegin True ''k'' ''f'', SwBegin True ''k'' ''f''] \<le> 2"
proof -
  let ?ops = "[SwBegin True ''k'' ''f'', SwBegin True ''k'' ''f'', SwRelease True ''k'' ''f'', SwBegin True ''k'' ''f'', SwBegin True ''k'' ''f'']"
  have "count_starts sw_step (sw_releases ''k'') [] ?ops = 1" by simp
  with software_execution_claims [OF bucket_ok_Nil, of "''k''" ?ops] show ?thesis by simp
qed

section \<open>Handling a command\<close>

lemma publishResult_simps [simp]:
  "swLedger (fst (publishResult env r s)) = swLedger s" "swExecuted (fst (publishResult env r s)) = swExecuted s"
  by (simp_all add: publishResult_def Let_def)

definition published_form :: "SoftwareResult \<Rightarrow> SoftwareResult" where
  "published_form r =
     r\<lparr>srErrorMessage := (if take 4096 (srErrorMessage r) = ''<nil>'' then [] else take 4096 (srErrorMessage r))\<rparr>"

lemma publishResult_eq:
  "publishResult env r s =
     (if x_publish env then (s\<lparr>swPublished := swPublished s @ [published_form r]\<rparr>, True) else (s, False))"
  by (simp add: publishResult_def Let_def boundedSoftwareError_def published_form_def)

definition settled :: "string \<Rightarrow> string \<Rightarrow> SoftwareResult \<Rightarrow> sw_ledger \<Rightarrow> bool" where
  "settled k fp res b =
     (case bucket_get b k of
        Some (Decoded r) \<Rightarrow> sState r = ''terminal'' \<and> sHasResult r \<and> sResult r = res \<and> sFingerprint r = fp
      | _ \<Rightarrow> False)"

lemma sw_begin_replay:
  "sw_begin io k fp b = (b', Inr (BeginReplay, res)) \<Longrightarrow> b' = b \<and> settled k fp res b"
  by (auto simp: sw_begin_def sw_update_def settled_def split: if_splits option.splits wire.splits)

lemma sw_begin_error: "sw_begin io k fp b = (b', Inl e) \<Longrightarrow> b' = b"
  by (auto simp: sw_begin_def sw_update_def split: if_splits option.splits wire.splits)

lemma sw_begin_inflight: "sw_begin io k fp b = (b', Inr (BeginInFlight, x)) \<Longrightarrow> b' = b"
  by (auto simp: sw_begin_def sw_update_def split: if_splits option.splits wire.splits)

lemma sw_complete_settles:
  "bucket_ok b \<Longrightarrow> sw_complete io k fp res b = (b', Inr x) \<Longrightarrow> settled k fp res b'"
  by (auto simp: sw_complete_def sw_update_def settled_def bucket_get_put split: if_splits option.splits wire.splits)

lemma run_claimed_result:
  "bucket_ok b \<Longrightarrow> run_claimed env cmd b s = (s', d) \<Longrightarrow>
     d \<noteq> SwTerm \<and> swExecuted s' = swExecuted s @ [(softwareCommandKey cmd, snd (executeWithContext env cmd))]
     \<and> (d = SwAck \<longrightarrow> settled (softwareCommandKey cmd) (x_fingerprint env cmd) (fst (executeWithContext env cmd)) (swLedger s')
          \<and> swPublished s' = swPublished s @ [published_form (fst (executeWithContext env cmd))])"
  by (auto simp: run_claimed_def publishResult_eq Let_def dest: sw_complete_settles
      split: prod.splits sum.splits if_splits)

lemma handleCommand_cases:
  assumes "handleCommand env data s = (s', d)" and ok: "bucket_ok (swLedger s)"
  obtains (refuse) "s' = s" "d \<noteq> SwAck"
  | (replay) cmd res where "decodeSoftwareCommand data = Some cmd" "validateSoftwareCommand cmd = Inr ()"
      "settled (softwareCommandKey cmd) (x_fingerprint env cmd) res (swLedger s)" "d \<noteq> SwTerm"
      "publishResult env res s = (s', d = SwAck)"
  | (run) cmd b where "decodeSoftwareCommand data = Some cmd" "validateSoftwareCommand cmd = Inr ()"
      "\<not> sw_held (swLedger s) (softwareCommandKey cmd)" "run_claimed env cmd b s = (s', d)" "bucket_ok b"
proof (cases "decodeSoftwareCommand data")
  case None
  with assms show ?thesis by (intro refuse) (auto simp: handleCommand_def)
next
  case cmd: (Some cmd)
  let ?claim = "sw_begin (x_begin_io env) (softwareCommandKey cmd) (x_fingerprint env cmd) (swLedger s)"
  show ?thesis
  proof (cases "validateSoftwareCommand cmd")
    case (Inl e)
    with cmd assms show ?thesis by (intro refuse) (auto simp: handleCommand_def)
  next
    case valid: (Inr u)
    obtain b r where r: "?claim = (b, r)" by fastforce
    show ?thesis
    proof (cases r)
      case (Inl e)
      with cmd valid r assms sw_begin_error show ?thesis
        by (intro refuse) (fastforce simp: handleCommand_def split: if_splits)+
    next
      case (Inr p)
      obtain disp res where p: "p = (disp, res)" by fastforce
      show ?thesis
      proof (cases disp)
        case BeginExecute
        with r Inr p have "\<not> sw_held (swLedger s) (softwareCommandKey cmd)"
          by (cases rule: sw_begin_cases [of "x_begin_io env" "softwareCommandKey cmd" "x_fingerprint env cmd" "swLedger s"])
            auto
        moreover have "run_claimed env cmd b s = (s', d)"
          using cmd valid r Inr p BeginExecute assms by (simp add: handleCommand_def)
        moreover have "bucket_ok b"
          using sw_step_ok [OF ok, of "SwBegin (x_begin_io env) (softwareCommandKey cmd) (x_fingerprint env cmd)"] r by simp
        ultimately show ?thesis using run cmd valid by simp
      next
        case BeginInFlight
        with cmd valid r Inr p assms sw_begin_inflight show ?thesis
          by (intro refuse) (fastforce simp: handleCommand_def)+
      next
        case BeginReplay
        with r Inr p sw_begin_replay have "b = swLedger s"
          "settled (softwareCommandKey cmd) (x_fingerprint env cmd) res (swLedger s)" by blast+
        with cmd valid r Inr p assms BeginReplay show ?thesis
          by (intro replay [of cmd res]) (auto simp: handleCommand_def publishResult_eq split: if_splits)
      qed
    qed
  qed
qed

lemma nanoseconds_exact:
  assumes "- 9223372036 \<le> n" "n \<le> 9223372036"
  shows "nanoseconds n = n * 1000000000"
  unfolding nanoseconds_def wi_hom_mult
  using assms by (subst signed_of_int) (simp add: signed_take_bit_int_eq_self_iff)

definition example_software_env :: sw_env where
  "example_software_env = \<lparr>x_fingerprint = (\<lambda>cmd. scSourceURL cmd), x_sha256 = (\<lambda>body. ''AB''), x_windows = False,
     x_tmp = Inr ''/tmp/s'', x_separator = ''/'', x_base = (\<lambda>_. ''a.deb''), x_join = (\<lambda>a b. a @ ''/'' @ b),
     x_response = (\<lambda>_. Inr (200, ''x'')), x_copied = None, x_chmod = None, x_exit = (\<lambda>_ _. 0), x_context = (\<lambda>_. RunOpen),
     x_ms = 5, x_begin_io = True, x_complete_io = True, x_release_io = True, x_publish = True\<rparr>"

definition example_software_command :: SoftwareCommand where
  "example_software_command = \<lparr>scType = ''software_install'', scDeploymentID = ''d'', scAction = ''install'',
     scSourceURL = ''http://h/a.deb'', scChecksum = '' ab'', scInstallArgs = '' -y  ; rm'', scUninstallArgs = [],
     scPackageType = ''deb'', scTimeout = 60\<rparr>"

definition example_software_message :: "json wire" where
  "example_software_message = Decoded (JObj [(''type'', JStr ''software_install''), (''deployment_id'', JStr ''d''),
     (''action'', JStr ''install''), (''source_url'', JStr ''http://h/a.deb''), (''checksum'', JStr '' ab''),
     (''install_args'', JStr '' -y  ; rm''), (''package_type'', JStr ''deb''), (''timeout'', JNum 60)])"

definition example_agent :: sw_agent where
  "example_agent = \<lparr>swLedger = [], swPublished = [], swExecuted = []\<rparr>"

lemmas example_software_defs = example_software_env_def example_software_command_def example_agent_def

lemma example_decoded: "decodeSoftwareCommand example_software_message = Some example_software_command"
  by code_simp

lemma example_validated: "validateSoftwareCommand example_software_command = Inr ()"
  by (simp add: validateSoftwareCommand_def example_software_command_def maxSoftwareTimeout_def nanoseconds_exact List.member_iff)

text \<open>
  Handling a command: it is acknowledged only when a terminal receipt with a result for exactly this command is
  in the ledger and that result was published; it is executed only if no receipt held its key; a message that is
  dropped leaves the agent unchanged.
\<close>

theorem software_command_durable:
  assumes "bucket_ok (swLedger s)" and "handleCommand env data s = (s', d)"
  shows "(d = SwAck \<longrightarrow> (\<exists>cmd res. decodeSoftwareCommand data = Some cmd \<and> validateSoftwareCommand cmd = Inr ()
            \<and> settled (softwareCommandKey cmd) (x_fingerprint env cmd) res (swLedger s')
            \<and> swPublished s' = swPublished s @ [published_form res]))
    \<and> (swExecuted s' = swExecuted s \<or> (\<exists>cmd. decodeSoftwareCommand data = Some cmd
            \<and> \<not> sw_held (swLedger s) (softwareCommandKey cmd)
            \<and> swExecuted s' = swExecuted s @ [(softwareCommandKey cmd, snd (executeWithContext env cmd))]))
    \<and> (d = SwTerm \<longrightarrow> s' = s)"
  using assms(2, 1)
proof (cases rule: handleCommand_cases)
  case (replay cmd res)
  then show ?thesis by (auto simp: publishResult_eq split: if_splits)
next
  case (run cmd b)
  with run_claimed_result [OF run(5, 4)] show ?thesis by auto
qed auto

lemma example_executed:
  "executeWithContext example_software_env example_software_command =
     (\<lparr>srType = ''software_result'', srDeploymentID = ''d'', srAction = ''install'', srStatus = ''success'', srErrorMessage = [],
       srDurationMs = 5\<rparr>, Some (''dpkg'', [''-i'', ''/tmp/s/a.deb'', ''-y'', '';'', ''rm'']))"
proof -
  have "EqualFold ''AB'' ''ab''" by code_simp
  then show ?thesis unfolding executeWithContext_def example_validated
    by (simp add: example_software_defs downloadFile_def local_path_def runInstall_def splitSoftwareArgs_def Let_def
        TrimSpace_def space_char_def)
qed

theorem software_command_durable_witness:
  "snd (handleCommand example_software_env example_software_message example_agent) = SwAck
   \<and> length (swPublished (fst (handleCommand example_software_env example_software_message example_agent))) = 1"
proof -
  let ?r = "handleCommand example_software_env example_software_message example_agent"
  have ack: "snd ?r = SwAck"
    unfolding handleCommand_def example_decoded option.case example_validated sum.case
      run_claimed_def example_executed Let_def
    by (simp add: publishResult_def sw_begin_def sw_complete_def sw_update_def
        example_software_defs softwareCommandKey_def Let_def bucket_get_def boundedSoftwareError_def)
  have "bucket_ok (swLedger example_agent)" by (simp add: example_agent_def)
  from software_command_durable [OF this prod.collapse [symmetric], of example_software_env example_software_message] ack
  show ?thesis by (auto simp: example_agent_def)
qed

section \<open>What is run\<close>

lemma downloadFile_verified:
  "downloadFile env url chk = None \<longleftrightarrow>
     (\<exists>body. x_response env url = Inr (200, body) \<and> x_copied env = None
        \<and> (chk = [] \<or> EqualFold (x_sha256 env body) (TrimSpace chk)))"
  by (auto simp: downloadFile_def split: sum.splits prod.splits option.splits if_splits)

text \<open>
  C17. A program is run only for a valid command whose package was downloaded completely with status 200 and,
  when the command has a checksum, has that checksum. The arguments of the command reach the program as words
  without white space, at the end of its argument list and never through a shell's parser; success is reported only for exit
  code 0 before the deadline.
\<close>

theorem software_run_verified:
  assumes "executeWithContext env cmd = (res, Some (program, args))"
  shows "validateSoftwareCommand cmd = Inr ()
    \<and> (\<exists>body. x_response env (scSourceURL cmd) = Inr (200, body)
         \<and> (scChecksum cmd = [] \<or> EqualFold (x_sha256 env body) (TrimSpace (scChecksum cmd))))
    \<and> (\<exists>pre extra. args = pre @ extra \<and> length pre \<le> 4
         \<and> concat extra = filter (\<lambda>c. \<not> space_char c) (if scAction cmd = ''install'' then scInstallArgs cmd else scUninstallArgs cmd)
         \<and> (\<forall>a \<in> set extra. a \<noteq> [] \<and> (\<forall>c \<in> set a. \<not> space_char c)))
    \<and> (srStatus res = ''success'' \<longleftrightarrow> x_exit env program args = 0 \<and> x_context env (run_timeout cmd) = RunOpen)"
proof -
  let ?extra = "splitSoftwareArgs (if scAction cmd = ''install'' then scInstallArgs cmd else scUninstallArgs cmd)"
  obtain dir where v: "validateSoftwareCommand cmd = Inr ()" and d: "downloadFile env (scSourceURL cmd) (scChecksum cmd) = None"
    and plan: "(if scAction cmd = ''install'' then runInstall (x_windows env) cmd (local_path env dir (scSourceURL cmd))
                else runUninstall cmd (local_path env dir (scSourceURL cmd))) = Some (program, args)"
    and st: "srStatus res = ''success'' \<longleftrightarrow> x_exit env program args = 0 \<and> x_context env (run_timeout cmd) = RunOpen"
    using assms by (auto simp: executeWithContext_def Let_def split: sum.splits option.splits run_context.splits if_splits)
  from plan have "\<exists>pre. args = pre @ ?extra \<and> length pre \<le> 4"
    by (auto simp: runInstall_def runUninstall_def runScript_def Let_def split: if_splits)
  then obtain pre where "args = pre @ ?extra" "length pre \<le> 4" by blast
  moreover have "concat (splitSoftwareArgs v) = filter (\<lambda>c. \<not> space_char c) v" for v
    by (simp add: splitSoftwareArgs_def fields_from_chars)
  moreover have "a \<noteq> [] \<and> (\<forall>c \<in> set a. \<not> space_char c)" if "a \<in> set ?extra" for a
    using that fields_from_words [of "[]"] by (simp add: splitSoftwareArgs_def list_all_iff)
  ultimately have "\<exists>pre extra. args = pre @ extra \<and> length pre \<le> 4
       \<and> concat extra = filter (\<lambda>c. \<not> space_char c) (if scAction cmd = ''install'' then scInstallArgs cmd else scUninstallArgs cmd)
       \<and> (\<forall>a \<in> set extra. a \<noteq> [] \<and> (\<forall>c \<in> set a. \<not> space_char c))"
    by (intro exI [of _ pre] exI [of _ ?extra]) simp
  with v d st show ?thesis by (simp add: downloadFile_verified) blast
qed

theorem software_run_verified_witness:
  "\<exists>body. x_response example_software_env ''http://h/a.deb'' = Inr (200, body) \<and> EqualFold (x_sha256 example_software_env body) ''ab''"
  using software_run_verified [OF example_executed]
  by (auto simp: example_software_command_def TrimSpace_def space_char_def)

section \<open>Timeouts\<close>

lemma validated_timeout:
  assumes "validateSoftwareCommand cmd = Inr ()"
  shows "0 \<le> scTimeout cmd" "nanoseconds (scTimeout cmd) \<le> maxSoftwareTimeout"
  using assms by (auto simp: validateSoftwareCommand_def split: if_splits)

text \<open>
  The timeout of a valid command: the run's duration never exceeds two hours, whatever the 64-bit product
  of the seconds and the nanoseconds per second is; and when that product does not overflow, the command asks for at
  most 7200 seconds and the duration is positive.
\<close>

theorem software_timeout_bound:
  assumes "validateSoftwareCommand cmd = Inr ()"
  shows "run_timeout cmd \<le> maxSoftwareTimeout
    \<and> (scTimeout cmd \<le> 9223372036 \<longrightarrow> scTimeout cmd \<le> 7200 \<and> 0 < run_timeout cmd)"
  using validated_timeout [OF assms] nanoseconds_exact [of "scTimeout cmd"]
  by (auto simp: run_timeout_def defaultSoftwareTimeout_def maxSoftwareTimeout_def)

theorem software_timeout_bound_witness: "run_timeout example_software_command \<le> maxSoftwareTimeout"
  using software_timeout_bound [OF example_validated] by blast

text \<open>The overflow is real: a request for about 292 years is accepted as a valid timeout.\<close>

lemma overflowing_timeout_accepted:
  "validateSoftwareCommand (example_software_command\<lparr>scTimeout := 9223372037\<rparr>) = Inr ()
   \<and> run_timeout (example_software_command\<lparr>scTimeout := 9223372037\<rparr>) < 0"
  by (simp add: validateSoftwareCommand_def run_timeout_def example_software_command_def maxSoftwareTimeout_def nanoseconds_def
      List.member_iff)

end
