(* ===== verification/Routes.thy ===== *)
theory Routes
  imports Prelude
begin

text \<open>
  The route registry of \<^verbatim>\<open>internal/platform/middleware.go\<close>: every method and path with the access it needs, in the order of the code, and the
  matching of paths.
\<close>

datatype RouteAccess = AccessPublic | AccessUser | AccessAgent | AccessAdmin | AccessDenied | AccessModule

datatype Route = Route (rt_method: string) (rt_path: string) (rt_access: RouteAccess)

definition user_routes_monitoring :: "Route list" where
  "user_routes_monitoring = [
     Route ''POST'' ''/api/v1/admin/users'' AccessUser,
     Route ''PUT'' ''/api/v1/admin/users/{userID}/tenants'' AccessUser,
     Route ''PUT'' ''/api/v1/admin/users/{userID}/memberships'' AccessUser,
     Route ''POST'' ''/api/v1/enroll'' AccessUser,
     Route ''POST'' ''/api/v1/enrollment/tokens'' AccessUser,
     Route ''GET'' ''/api/v1/enrollment/tokens'' AccessUser,
     Route ''DELETE'' ''/api/v1/enrollment/tokens/{tokenID}'' AccessUser,
     Route ''GET'' ''/api/v1/platform/overview'' AccessUser,
     Route ''GET'' ''/api/v1/platform/customers'' AccessUser,
     Route ''GET'' ''/api/v1/platform/customers/{tenantID}/devices'' AccessUser,
     Route ''GET'' ''/api/v1/platform/customers/{tenantID}/devices/{deviceID}'' AccessUser,
     Route ''GET'' ''/api/v1/platform/customers/{tenantID}/devices-with-versions'' AccessUser,
     Route ''POST'' ''/api/v1/platform/customers/{tenantID}/update-source'' AccessUser,
     Route ''POST'' ''/api/v1/platform/customers/{tenantID}/devices/{deviceID}/update'' AccessUser,
     Route ''POST'' ''/api/v1/platform/customers/{tenantID}/devices/update-all'' AccessUser,
     Route ''GET'' ''/api/v1/metrics'' AccessUser,
     Route ''GET'' ''/api/v1/devices/{tenantID}/{deviceID}/metrics/{metricName}'' AccessUser,
     Route ''GET'' ''/api/v1/heartbeat/{tenantID}/{deviceID}'' AccessUser,
     Route ''GET'' ''/api/v1/alerts/{tenantID}'' AccessUser,
     Route ''GET'' ''/api/v1/alerts/{tenantID}/history'' AccessUser,
     Route ''POST'' ''/api/v1/alerts/{tenantID}/{alertID}/acknowledge'' AccessUser,
     Route ''GET'' ''/api/v1/alerts/{tenantID}/groups'' AccessUser,
     Route ''GET'' ''/api/v1/alerts/{tenantID}/groups/severity/{severity}'' AccessUser,
     Route ''GET'' ''/api/v1/alerts/{tenantID}/groups/device/{deviceID}'' AccessUser,
     Route ''POST'' ''/api/v1/alerts/{tenantID}/groups/device/{deviceID}/resolve'' AccessUser,
     Route ''POST'' ''/api/v1/alerts/{tenantID}/groups/resolve-all'' AccessUser,
     Route ''GET'' ''/api/v1/alerts/{tenantID}/groups/cascade'' AccessUser,
     Route ''GET'' ''/api/v1/alerts/{tenantID}/groups/time-window/{duration}'' AccessUser,
     Route ''POST'' ''/api/v1/tenants/{tenantID}/maintenance-windows'' AccessUser,
     Route ''GET'' ''/api/v1/tenants/{tenantID}/maintenance-windows'' AccessUser,
     Route ''DELETE'' ''/api/v1/tenants/{tenantID}/maintenance-windows/{windowID}'' AccessUser,
     Route ''POST'' ''/api/v1/maintenance-windows'' AccessUser,
     Route ''GET'' ''/api/v1/maintenance-windows'' AccessUser,
     Route ''DELETE'' ''/api/v1/maintenance-windows/{windowID}'' AccessUser,
     Route ''GET'' ''/api/v1/tenants/{tenantID}/retention'' AccessUser,
     Route ''PATCH'' ''/api/v1/tenants/{tenantID}/retention'' AccessUser,
     Route ''GET'' ''/api/v1/retention/policies'' AccessUser,
     Route ''POST'' ''/api/v1/rules/{tenantID}'' AccessUser,
     Route ''GET'' ''/api/v1/rules/{tenantID}'' AccessUser,
     Route ''DELETE'' ''/api/v1/rules/{tenantID}/{ruleID}'' AccessUser,
     Route ''GET'' ''/api/v1/vulnerabilities/device/{deviceID}'' AccessUser,
     Route ''GET'' ''/api/v1/vulnerabilities/tenant/{tenantID}'' AccessUser,
     Route ''GET'' ''/api/v1/vulnerabilities/tenant/{tenantID}/summary'' AccessUser,
     Route ''POST'' ''/api/v1/vulnerabilities/{vulnID}/resolve'' AccessUser,
     Route ''POST'' ''/api/v1/vulnerabilities/{vulnID}/ignore'' AccessUser,
     Route ''GET'' ''/api/v1/cve/stats'' AccessUser,
     Route ''POST'' ''/api/v1/cve/sync'' AccessUser,
     Route ''GET'' ''/api/v1/cve/packages'' AccessUser,
     Route ''POST'' ''/api/v1/cve/packages'' AccessUser,
     Route ''DELETE'' ''/api/v1/cve/packages/{name}/{ecosystem}'' AccessUser,
     Route ''GET'' ''/api/v1/cve/sync/status'' AccessUser,
     Route ''GET'' ''/api/v1/cve/package/{name}'' AccessUser,
     Route ''GET'' ''/api/v1/thirdparty/apps'' AccessUser,
     Route ''GET'' ''/api/v1/thirdparty/packages'' AccessUser,
     Route ''POST'' ''/api/v1/thirdparty/sync'' AccessUser,
     Route ''POST'' ''/api/v1/thirdparty/sync/{app}'' AccessUser,
     Route ''GET'' ''/api/v1/thirdparty/vendors'' AccessUser,
     Route ''POST'' ''/api/v1/thirdparty/vendors/{vendor}/sync'' AccessUser,
     Route ''GET'' ''/api/v1/thirdparty/vendors/status'' AccessUser,
     Route ''GET'' ''/api/v1/patch-policies'' AccessUser,
     Route ''GET'' ''/api/v1/patch-policies/{policyID}'' AccessUser,
     Route ''POST'' ''/api/v1/patch-policies'' AccessUser,
     Route ''DELETE'' ''/api/v1/patch-policies/{policyID}'' AccessUser,
     Route ''GET'' ''/api/v1/patch-deployments'' AccessUser,
     Route ''POST'' ''/api/v1/patch-deployments'' AccessUser,
     Route ''GET'' ''/api/v1/patch-inventory/{tenantID}/{deviceID}'' AccessUser,
     Route ''GET'' ''/api/v1/patch-inventory/{tenantID}/{deviceID}/latest'' AccessUser,
     Route ''POST'' ''/api/v1/integrations/psa/tickets'' AccessUser,
     Route ''GET'' ''/api/v1/integrations/psa/tickets/{ticketID}'' AccessUser,
     Route ''PUT'' ''/api/v1/integrations/psa/tickets/{ticketID}'' AccessUser,
     Route ''DELETE'' ''/api/v1/integrations/psa/tickets/{ticketID}'' AccessUser,
     Route ''GET'' ''/api/v1/integrations/psa/tickets/device/{deviceID}'' AccessUser,
     Route ''POST'' ''/api/v1/integrations/psa/feedback'' AccessUser,
     Route ''POST'' ''/api/v1/integrations/psa/webhooks'' AccessPublic,
     Route ''POST'' ''/api/v1/webrtc/sessions'' AccessUser,
     Route ''GET'' ''/api/v1/webrtc/sessions/{sessionID}'' AccessUser,
     Route ''GET'' ''/api/v1/webrtc/sessions'' AccessUser,
     Route ''POST'' ''/api/v1/webrtc/sessions/{sessionID}/offer'' AccessUser,
     Route ''POST'' ''/api/v1/webrtc/sessions/{sessionID}/answer'' AccessUser,
     Route ''POST'' ''/api/v1/webrtc/sessions/{sessionID}/ice-candidate'' AccessUser,
     Route ''POST'' ''/api/v1/webrtc/sessions/{sessionID}/end'' AccessUser,
     Route ''GET'' ''/api/v1/webrtc/sessions/{sessionID}/relay-config'' AccessUser,
     Route ''POST'' ''/api/v1/webrtc/sessions/{sessionID}/record'' AccessUser,
     Route ''POST'' ''/api/v1/webrtc/recordings/{recordingID}/stop'' AccessUser,
     Route ''GET'' ''/api/v1/webrtc/sessions/{sessionID}/recordings'' AccessUser,
     Route ''POST'' ''/api/v1/webrtc/sessions/{sessionID}/transcribe'' AccessUser,
     Route ''POST'' ''/api/v1/webrtc/transcriptions/{transcriptionID}/stop'' AccessUser,
     Route ''GET'' ''/api/v1/webrtc/sessions/{sessionID}/transcriptions'' AccessUser,
     Route ''POST'' ''/api/v1/lancache/entries'' AccessUser,
     Route ''GET'' ''/api/v1/lancache/entries/{entryID}'' AccessUser,
     Route ''GET'' ''/api/v1/lancache/entries'' AccessUser,
     Route ''DELETE'' ''/api/v1/lancache/entries/{entryID}'' AccessUser,
     Route ''GET'' ''/api/v1/lancache/stats'' AccessUser,
     Route ''GET'' ''/api/v1/reports/{tenantID}'' AccessUser,
     Route ''POST'' ''/api/v1/reports/{tenantID}/schedules'' AccessUser,
     Route ''GET'' ''/api/v1/reports/{tenantID}/schedules'' AccessUser,
     Route ''DELETE'' ''/api/v1/reports/{tenantID}/schedules/{scheduleID}'' AccessUser,
     Route ''PATCH'' ''/api/v1/reports/{tenantID}/schedules/{scheduleID}'' AccessUser,
     Route ''PATCH'' ''/api/v1/reports/{tenantID}/schedules/{scheduleID}/enable'' AccessUser,
     Route ''POST'' ''/api/v1/reports/{tenantID}/schedules/{scheduleID}/trigger'' AccessUser,
     Route ''POST'' ''/api/v1/reports/{tenantID}/generate'' AccessUser,
     Route ''GET'' ''/api/v1/reports/{tenantID}/{reportID}/download'' AccessUser,
     Route ''POST'' ''/api/v1/reports/{tenantID}/compliance'' AccessUser,
     Route ''GET'' ''/api/v1/reports/{tenantID}/compliance'' AccessUser,
     Route ''GET'' ''/api/v1/reports/{tenantID}/compliance/{reportID}'' AccessUser,
     Route ''GET'' ''/api/v1/reports/{tenantID}/compliance/{reportID}/export/csv'' AccessUser,
     Route ''GET'' ''/api/v1/reports/{tenantID}/compliance/{reportID}/export/json'' AccessUser]"

definition user_routes_operations :: "Route list" where
  "user_routes_operations = [
     Route ''GET'' ''/api/v1/devices/relationships'' AccessUser,
     Route ''POST'' ''/api/v1/devices/relationships'' AccessUser,
     Route ''DELETE'' ''/api/v1/devices/relationships/{relationshipID}'' AccessUser,
     Route ''GET'' ''/api/v1/devices/{deviceID}/dependencies'' AccessUser,
     Route ''GET'' ''/api/v1/devices/{deviceID}/impact'' AccessUser,
     Route ''GET'' ''/api/v1/devices/addresses'' AccessUser,
     Route ''POST'' ''/api/v1/devices/addresses'' AccessUser,
     Route ''GET'' ''/api/v1/devices/{deviceID}/packages'' AccessUser,
     Route ''POST'' ''/api/v1/devices/{deviceID}/packages'' AccessUser,
     Route ''GET'' ''/api/v1/devices/{deviceID}/services'' AccessUser,
     Route ''POST'' ''/api/v1/remote/{tenantID}/session'' AccessUser,
     Route ''POST'' ''/api/v1/remote/{tenantID}/session/{sessionID}/input'' AccessUser,
     Route ''DELETE'' ''/api/v1/remote/{tenantID}/session/{sessionID}'' AccessUser,
     Route ''POST'' ''/api/v1/remote/{tenantID}/interactive'' AccessUser,
     Route ''POST'' ''/api/v1/remote/{tenantID}/interactive/{sessionID}/input'' AccessUser,
     Route ''DELETE'' ''/api/v1/remote/{tenantID}/interactive/{sessionID}'' AccessUser,
     Route ''GET'' ''/api/v1/remote/{tenantID}/interactive'' AccessUser,
     Route ''POST'' ''/api/v1/remote/{tenantID}/interactive/{sessionID}/recording'' AccessUser,
     Route ''POST'' ''/api/v1/remote/{tenantID}/recording/{recordingID}/stop'' AccessUser,
     Route ''GET'' ''/api/v1/remote/{tenantID}/recording/{recordingID}/playback'' AccessUser,
     Route ''GET'' ''/api/v1/remote/{tenantID}/recordings'' AccessUser,
     Route ''POST'' ''/api/v1/keys/{tenantID}'' AccessUser,
     Route ''GET'' ''/api/v1/keys/{tenantID}'' AccessUser,
     Route ''GET'' ''/api/v1/keys/{tenantID}/active'' AccessUser,
     Route ''POST'' ''/api/v1/keys/{tenantID}/rotate'' AccessUser,
     Route ''DELETE'' ''/api/v1/keys/{tenantID}/{keyID}'' AccessUser,
     Route ''GET'' ''/api/v1/access/audit/{tenantID}'' AccessUser,
     Route ''GET'' ''/api/v1/access/users/{tenantID}'' AccessUser,
     Route ''GET'' ''/api/v1/access/permissions/{tenantID}'' AccessUser,
     Route ''GET'' ''/api/v1/scripts/{tenantID}'' AccessUser,
     Route ''POST'' ''/api/v1/scripts/{tenantID}'' AccessUser,
     Route ''GET'' ''/api/v1/scripts/{tenantID}/{scriptID}'' AccessUser,
     Route ''DELETE'' ''/api/v1/scripts/{tenantID}/{scriptID}'' AccessUser,
     Route ''POST'' ''/api/v1/scripts/{tenantID}/{scriptID}/run'' AccessUser,
     Route ''GET'' ''/api/v1/scripts/{tenantID}/executions'' AccessUser,
     Route ''GET'' ''/api/v1/scripts/{tenantID}/executions/{execID}'' AccessUser,
     Route ''POST'' ''/api/v1/tenants/{tenantID}/scripts/schedule'' AccessUser,
     Route ''GET'' ''/api/v1/tenants/{tenantID}/scripts/schedules'' AccessUser,
     Route ''GET'' ''/api/v1/tenants/{tenantID}/scripts/schedules/{scheduleID}'' AccessUser,
     Route ''PUT'' ''/api/v1/tenants/{tenantID}/scripts/schedules/{scheduleID}'' AccessUser,
     Route ''DELETE'' ''/api/v1/tenants/{tenantID}/scripts/schedules/{scheduleID}'' AccessUser,
     Route ''POST'' ''/api/v1/tenants/{tenantID}/scripts/schedules/{scheduleID}/preview'' AccessUser,
     Route ''GET'' ''/api/v1/tenants/{tenantID}/scripts/schedules/{scheduleID}/devices'' AccessUser,
     Route ''POST'' ''/api/v1/tenants/{tenantID}/scripts/schedules/{scheduleID}/devices/{execID}/retry'' AccessUser,
     Route ''GET'' ''/api/v1/tenants/{tenantID}/scripts/schedules/executions'' AccessUser,
     Route ''GET'' ''/api/v1/software/packages/{tenantID}'' AccessUser,
     Route ''POST'' ''/api/v1/software/packages/{tenantID}'' AccessUser,
     Route ''DELETE'' ''/api/v1/software/packages/{tenantID}/{pkgID}'' AccessUser,
     Route ''POST'' ''/api/v1/software/deployments/{tenantID}'' AccessUser,
     Route ''GET'' ''/api/v1/software/deployments/{tenantID}'' AccessUser,
     Route ''GET'' ''/api/v1/software/deployments/{tenantID}/{deployID}'' AccessUser,
     Route ''POST'' ''/api/v1/mfa/enroll/{userID}'' AccessUser,
     Route ''POST'' ''/api/v1/mfa/verify/{userID}'' AccessUser,
     Route ''GET'' ''/api/v1/mfa/status/{userID}'' AccessUser,
     Route ''DELETE'' ''/api/v1/mfa/{userID}'' AccessUser,
     Route ''GET'' ''/api/v1/recordings/{tenantID}'' AccessUser,
     Route ''GET'' ''/api/v1/recordings/{id}/playback'' AccessUser,
     Route ''DELETE'' ''/api/v1/recordings/{id}'' AccessUser,
     Route ''GET'' ''/api/v1/branding'' AccessUser,
     Route ''PUT'' ''/api/v1/branding'' AccessUser,
     Route ''GET'' ''/api/v1/domains'' AccessUser,
     Route ''POST'' ''/api/v1/domains'' AccessUser,
     Route ''POST'' ''/api/v1/domains/{domainID}/verify'' AccessUser,
     Route ''DELETE'' ''/api/v1/domains/{domainID}'' AccessUser,
     Route ''POST'' ''/api/v1/jobs'' AccessUser,
     Route ''GET'' ''/api/v1/jobs'' AccessUser,
     Route ''GET'' ''/api/v1/jobs/{jobID}'' AccessUser,
     Route ''POST'' ''/api/v1/jobs/{jobID}/cancel'' AccessUser,
     Route ''POST'' ''/api/v1/jobs/{jobID}/retry'' AccessUser,
     Route ''GET'' ''/api/v1/devices/{deviceID}/jobs'' AccessUser,
     Route ''GET'' ''/api/v1/jobs/{jobID}/events'' AccessUser,
     Route ''POST'' ''/api/v1/device-groups'' AccessUser,
     Route ''GET'' ''/api/v1/device-groups'' AccessUser,
     Route ''DELETE'' ''/api/v1/device-groups/{groupID}'' AccessUser,
     Route ''POST'' ''/api/v1/device-groups/smart'' AccessUser,
     Route ''PUT'' ''/api/v1/device-groups/{groupID}'' AccessUser,
     Route ''GET'' ''/api/v1/device-groups/{groupID}/detail'' AccessUser,
     Route ''GET'' ''/api/v1/device-groups/{groupID}/members'' AccessUser,
     Route ''POST'' ''/api/v1/device-groups/{groupID}/evaluate'' AccessUser,
     Route ''GET'' ''/api/v1/device-groups/{groupID}/evaluation-status'' AccessUser,
     Route ''POST'' ''/api/v1/device-groups/{groupID}/script-bindings'' AccessUser,
     Route ''DELETE'' ''/api/v1/device-groups/{groupID}/script-bindings/{bindingID}'' AccessUser,
     Route ''GET'' ''/api/v1/device-groups/{groupID}/script-bindings'' AccessUser,
     Route ''POST'' ''/api/v1/policies'' AccessUser,
     Route ''GET'' ''/api/v1/policies'' AccessUser,
     Route ''GET'' ''/api/v1/policies/{policyID}'' AccessUser,
     Route ''PUT'' ''/api/v1/policies/{policyID}'' AccessUser,
     Route ''POST'' ''/api/v1/policies/{policyID}/validate'' AccessUser,
     Route ''POST'' ''/api/v1/policies/{policyID}/preview'' AccessUser,
     Route ''POST'' ''/api/v1/policies/{policyID}/publish'' AccessUser,
     Route ''GET'' ''/api/v1/policies/{policyID}/revisions'' AccessUser,
     Route ''POST'' ''/api/v1/policies/{policyID}/diff'' AccessUser,
     Route ''POST'' ''/api/v1/policies/{policyID}/effective'' AccessUser,
     Route ''DELETE'' ''/api/v1/policies/{policyID}'' AccessUser]"

definition user_routes_v2 :: "Route list" where
  "user_routes_v2 = [
     Route ''GET'' ''/api/v2/clients/{clientID}/sites'' AccessUser,
     Route ''POST'' ''/api/v2/clients/{clientID}/sites'' AccessUser,
     Route ''GET'' ''/api/v2/clients/{clientID}/sites/{siteID}'' AccessUser,
     Route ''POST'' ''/api/v2/clients/{clientID}/sites/{siteID}/archive'' AccessUser,
     Route ''GET'' ''/api/v2/clients/{clientID}/auth/providers'' AccessUser,
     Route ''POST'' ''/api/v2/clients/{clientID}/auth/providers'' AccessUser,
     Route ''POST'' ''/api/v2/clients/{clientID}/sessions'' AccessUser,
     Route ''GET'' ''/api/v2/clients/{clientID}/sessions'' AccessUser,
     Route ''DELETE'' ''/api/v2/clients/{clientID}/sessions/{sessionID}'' AccessUser,
     Route ''GET'' ''/api/v2/clients/{clientID}/profile'' AccessUser,
     Route ''PATCH'' ''/api/v2/clients/{clientID}/profile'' AccessUser,
     Route ''GET'' ''/api/v2/clients/{clientID}/settings'' AccessUser,
     Route ''PATCH'' ''/api/v2/clients/{clientID}/settings'' AccessUser,
     Route ''POST'' ''/api/v2/clients/{clientID}/support-requests'' AccessUser,
     Route ''GET'' ''/api/v2/clients/{clientID}/support-requests'' AccessUser,
     Route ''GET'' ''/api/v2/clients/{clientID}/support-requests/{requestID}'' AccessUser,
     Route ''PATCH'' ''/api/v2/clients/{clientID}/support-requests/{requestID}/reply'' AccessUser,
     Route ''PATCH'' ''/api/v2/clients/{clientID}/support-requests/{requestID}/close'' AccessUser,
     Route ''GET'' ''/api/v2/msps/{mspID}/clients'' AccessUser,
     Route ''POST'' ''/api/v2/msps/{mspID}/clients'' AccessUser,
     Route ''GET'' ''/api/v2/msps/{mspID}/clients/{clientID}'' AccessUser,
     Route ''POST'' ''/api/v2/msps/{mspID}/clients/{clientID}/archive'' AccessUser,
     Route ''GET'' ''/api/v2/msps/{mspID}/memberships'' AccessUser,
     Route ''POST'' ''/api/v2/msps/{mspID}/memberships'' AccessUser,
     Route ''DELETE'' ''/api/v2/msps/{mspID}/memberships/{membershipID}'' AccessUser,
     Route ''GET'' ''/api/v2/msps/{mspID}/billing/account'' AccessUser,
     Route ''POST'' ''/api/v2/msps/{mspID}/billing/account'' AccessUser,
     Route ''DELETE'' ''/api/v2/msps/{mspID}/billing/account'' AccessUser,
     Route ''GET'' ''/api/v2/msps/{mspID}/billing/subscriptions'' AccessUser,
     Route ''POST'' ''/api/v2/msps/{mspID}/billing/subscriptions'' AccessUser,
     Route ''DELETE'' ''/api/v2/msps/{mspID}/billing/subscriptions/{subscriptionID}'' AccessUser,
     Route ''GET'' ''/api/v2/msps/{mspID}/billing/invoices'' AccessUser,
     Route ''GET'' ''/api/v2/msps/{mspID}/billing/invoices/{invoiceID}'' AccessUser,
     Route ''POST'' ''/api/v2/msps/{mspID}/billing/usage'' AccessUser,
     Route ''GET'' ''/api/v2/msps/{mspID}/billing/usage/{meterName}'' AccessUser,
     Route ''GET'' ''/api/v2/msps/{mspID}/billing/payment-methods'' AccessUser,
     Route ''POST'' ''/api/v2/msps/{mspID}/billing/payment-methods'' AccessUser,
     Route ''PATCH'' ''/api/v2/msps/{mspID}/billing/payment-methods/{paymentMethodID}'' AccessUser,
     Route ''DELETE'' ''/api/v2/msps/{mspID}/billing/payment-methods/{paymentMethodID}'' AccessUser,
     Route ''GET'' ''/api/v2/msps/{mspID}/billing/reports/revenue'' AccessUser,
     Route ''GET'' ''/api/v2/platform/billing/analytics'' AccessAdmin,
     Route ''GET'' ''/api/v2/msps/{mspID}/entitlement'' AccessUser,
     Route ''GET'' ''/api/v2/msps/{mspID}/usage'' AccessUser,
     Route ''GET'' ''/api/v2/msps/{mspID}/audit'' AccessUser,
     Route ''GET'' ''/api/v2/msps/{mspID}/devices'' AccessUser,
     Route ''GET'' ''/api/v2/context'' AccessUser,
     Route ''POST'' ''/api/v2/context/switch'' AccessUser,
     Route ''GET'' ''/api/v2/devices'' AccessUser,
     Route ''GET'' ''/api/v2/devices/{deviceID}'' AccessUser,
     Route ''POST'' ''/api/v2/devices/{deviceID}/action'' AccessUser,
     Route ''POST'' ''/api/v2/devices/bulk-action'' AccessUser,
     Route ''POST'' ''/api/v2/approvals'' AccessUser,
     Route ''GET'' ''/api/v2/approvals'' AccessUser,
     Route ''GET'' ''/api/v2/approvals/{approvalID}'' AccessUser,
     Route ''POST'' ''/api/v2/approvals/{approvalID}/approve'' AccessUser,
     Route ''POST'' ''/api/v2/approvals/{approvalID}/reject'' AccessUser,
     Route ''POST'' ''/api/v2/approvals/{approvalID}/cancel'' AccessUser,
     Route ''GET'' ''/api/v2/approvals/{approvalID}/decisions'' AccessUser,
     Route ''GET'' ''/api/v2/audit/endpoint'' AccessUser,
     Route ''GET'' ''/api/v2/devices/{deviceID}/capabilities'' AccessUser,
     Route ''GET'' ''/api/v2/devices/{deviceID}/inventory'' AccessUser]"

definition scopedUserRoutes :: "Route list" where
  "scopedUserRoutes = user_routes_monitoring @ user_routes_operations @ user_routes_v2"

definition agentRoutes :: "Route list" where
  "agentRoutes = [
     Route ''POST'' ''/api/v1/agent/config'' AccessAgent,
     Route ''POST'' ''/api/v2/devices/{deviceID}/capabilities'' AccessAgent,
     Route ''POST'' ''/api/v2/devices/{deviceID}/inventory'' AccessAgent]"

definition publicRoutes :: "Route list" where
  "publicRoutes = [
     Route ''GET'' ''/'' AccessPublic,
     Route ''GET'' ''/health'' AccessPublic,
     Route ''GET'' ''/health/live'' AccessPublic,
     Route ''GET'' ''/health/ready'' AccessPublic,
     Route ''GET'' ''/metrics'' AccessPublic,
     Route ''POST'' ''/api/v1/auth/login'' AccessPublic,
     Route ''POST'' ''/api/v1/auth/invitations/inspect'' AccessPublic,
     Route ''POST'' ''/api/v1/auth/invitations/accept'' AccessPublic,
     Route ''POST'' ''/api/v1/agent/register'' AccessPublic,
     Route ''POST'' ''/api/v1/enrollment/validate'' AccessPublic,
     Route ''GET'' ''/install.sh'' AccessPublic,
     Route ''GET'' ''/releases/latest/agent/{os}/{arch}'' AccessPublic,
     Route ''GET'' ''/releases/latest/agent/{os}/{arch}/sha256'' AccessPublic,
     Route ''GET'' ''/api/v1/auth/me'' AccessUser,
     Route ''POST'' ''/api/v1/auth/logout'' AccessUser]"

definition adminRoutes :: "Route list" where
  "adminRoutes = [
     Route ''GET'' ''/api/v2/platform/msps'' AccessAdmin,
     Route ''POST'' ''/api/v2/platform/msps'' AccessAdmin,
     Route ''GET'' ''/api/v2/platform/msps/{mspID}'' AccessAdmin,
     Route ''POST'' ''/api/v2/platform/msps/{mspID}/owner-invitation'' AccessAdmin,
     Route ''POST'' ''/api/v2/platform/msps/{mspID}/suspend'' AccessAdmin,
     Route ''POST'' ''/api/v2/platform/msps/{mspID}/activate'' AccessAdmin,
     Route ''POST'' ''/api/v2/platform/msps/{mspID}/offboarding'' AccessAdmin,
     Route ''GET'' ''/api/v2/platform/msps/{mspID}/offboarding'' AccessAdmin,
     Route ''POST'' ''/api/v2/platform/msps/{mspID}/offboarding/approve-deletion'' AccessAdmin,
     Route ''GET'' ''/api/v2/platform/msps/{mspID}/export'' AccessAdmin,
     Route ''PATCH'' ''/api/v2/platform/msps/{mspID}/entitlement'' AccessAdmin,
     Route ''PATCH'' ''/api/v2/platform/domains/{domainID}/certificate'' AccessAdmin,
     Route ''POST'' ''/api/v2/platform/support-grants'' AccessAdmin,
     Route ''DELETE'' ''/api/v2/platform/support-grants/{grantID}'' AccessAdmin,
     Route ''GET'' ''/api/v2/platform/provider/profile'' AccessAdmin,
     Route ''POST'' ''/api/v2/platform/provider/setup'' AccessAdmin,
     Route ''PATCH'' ''/api/v2/platform/provider/profile'' AccessAdmin,
     Route ''GET'' ''/api/v2/deployment/state'' AccessAdmin,
     Route ''GET'' ''/api/v2/deployment/history'' AccessAdmin,
     Route ''GET'' ''/api/v1/admin/users'' AccessAdmin,
     Route ''POST'' ''/api/v1/admin/customers'' AccessAdmin,
     Route ''GET'' ''/api/v1/admin/update/check'' AccessAdmin,
     Route ''POST'' ''/api/v1/admin/update/apply'' AccessAdmin]"

definition moduleRoutes :: "Route list" where
  "moduleRoutes = [Route ''GET'' ''/api/modules/com.example.backup/devices/{deviceID}'' AccessModule]"

text \<open>\<^verbatim>\<open>strings.Trim\<close> with one character, and the segments of a path.\<close>

definition Trim :: "char \<Rightarrow> string \<Rightarrow> string" where
  "Trim c s = rev (dropWhile (\<lambda>x. x = c) (rev (dropWhile (\<lambda>x. x = c) s)))"

definition segments :: "string \<Rightarrow> string list" where
  "segments path = Split (CHR ''/'') (Trim (CHR ''/'') path)"

definition wildcard :: "string \<Rightarrow> bool" where
  "wildcard seg = (HasPrefix seg ''{'' \<and> HasPrefix (rev seg) ''}'')"

definition matchPath :: "string \<Rightarrow> string \<Rightarrow> bool" where
  "matchPath pattern path =
     (let pp = segments pattern; p = segments path
      in length pp = length p \<and> list_all2 (\<lambda>a b. wildcard a \<or> a = b) pp p)"

definition all_routes :: "Route list" where
  "all_routes = publicRoutes @ agentRoutes @ scopedUserRoutes @ adminRoutes @ moduleRoutes"

definition classifyRoute :: "string \<Rightarrow> string \<Rightarrow> RouteAccess" where
  "classifyRoute meth path =
     (case find (\<lambda>r. rt_method r = meth \<and> matchPath (rt_path r) path) all_routes of
        Some r \<Rightarrow> rt_access r
      | None \<Rightarrow> AccessDenied)"

section \<open>Privileged prefixes\<close>

fun could_match :: "string list \<Rightarrow> string list \<Rightarrow> bool" where
  "could_match ps [] = True"
| "could_match [] (q # qs) = False"
| "could_match (p # ps) (q # qs) = ((wildcard p \<or> p = q) \<and> could_match ps qs)"

lemma match_prefix: "list_all2 (\<lambda>a b. wildcard a \<or> a = b) pp (q @ rest) \<Longrightarrow> could_match pp q"
proof (induction q arbitrary: pp)
  case (Cons x q)
  then show ?case by (cases pp) auto
qed simp

lemma Split_at: "Split sep (u @ sep # r) = Split sep u @ Split sep r"
  by (induction u) (auto split: list.splits)

lemma trim_right:
  assumes "u \<noteq> []" "last u \<noteq> c"
  shows "\<exists>r'. rev (dropWhile (\<lambda>x. x = c) (rev (u @ c # r))) = u @ r' \<and> (r' = [] \<or> (\<exists>r''. r' = c # r''))"
proof (induction r rule: rev_induct)
  case Nil
  from assms have "dropWhile (\<lambda>x. x = c) (rev u) = rev u" by (cases u rule: rev_cases) auto
  then show ?case by simp
next
  case (snoc x r)
  then show ?case by (cases "x = c") auto
qed

lemma segments_prefix:
  assumes "HasPrefix path (''/'' @ u @ ''/'')" "u \<noteq> []" "hd u \<noteq> CHR ''/''" "last u \<noteq> CHR ''/''"
  shows "\<exists>rest. segments path = Split (CHR ''/'') u @ rest"
proof -
  obtain r where path: "path = ''/'' @ u @ ''/'' @ r" using assms(1) by (auto simp: HasPrefix_iff)
  have "dropWhile (\<lambda>x. x = CHR ''/'') path = u @ CHR ''/'' # r"
    using assms(2,3) unfolding path by (cases u) auto
  then have "Trim (CHR ''/'') path = rev (dropWhile (\<lambda>x. x = CHR ''/'') (rev (u @ CHR ''/'' # r)))" by (simp add: Trim_def)
  with trim_right [OF assms(2,4), of r] obtain r' where "Trim (CHR ''/'') path = u @ r'" "r' = [] \<or> (\<exists>r''. r' = CHR ''/'' # r'')"
    by auto
  then show ?thesis by (auto simp: segments_def Split_at)
qed

definition admin_only :: "Route list \<Rightarrow> string list \<Rightarrow> bool" where
  "admin_only rs q = list_all (\<lambda>r. rt_access r = AccessAdmin \<or> \<not> could_match (segments (rt_path r)) q) rs"

lemma admin_only_publicRoutes: "admin_only publicRoutes [''api'', ''v2'', ''platform''] \<and> admin_only publicRoutes [''api'', ''v2'', ''deployment'']"
  by code_simp

lemma admin_only_agentRoutes: "admin_only agentRoutes [''api'', ''v2'', ''platform''] \<and> admin_only agentRoutes [''api'', ''v2'', ''deployment'']"
  by code_simp

lemma admin_only_user_routes_monitoring: "admin_only user_routes_monitoring [''api'', ''v2'', ''platform''] \<and> admin_only user_routes_monitoring [''api'', ''v2'', ''deployment'']"
  by code_simp

lemma admin_only_user_routes_operations: "admin_only user_routes_operations [''api'', ''v2'', ''platform''] \<and> admin_only user_routes_operations [''api'', ''v2'', ''deployment'']"
  by code_simp

lemma admin_only_user_routes_v2: "admin_only user_routes_v2 [''api'', ''v2'', ''platform''] \<and> admin_only user_routes_v2 [''api'', ''v2'', ''deployment'']"
  by code_simp

lemma admin_only_adminRoutes: "admin_only adminRoutes [''api'', ''v2'', ''platform''] \<and> admin_only adminRoutes [''api'', ''v2'', ''deployment'']"
  by code_simp

lemma admin_only_moduleRoutes: "admin_only moduleRoutes [''api'', ''v2'', ''platform''] \<and> admin_only moduleRoutes [''api'', ''v2'', ''deployment'']"
  by code_simp

lemma admin_only_all: "admin_only all_routes [''api'', ''v2'', ''platform'']" "admin_only all_routes [''api'', ''v2'', ''deployment'']"
  using admin_only_publicRoutes admin_only_agentRoutes admin_only_user_routes_monitoring admin_only_user_routes_operations
    admin_only_user_routes_v2 admin_only_adminRoutes admin_only_moduleRoutes
  unfolding all_routes_def scopedUserRoutes_def admin_only_def list_all_append by blast+

lemma classify_segments:
  assumes q: "admin_only all_routes q" and seg: "segments path = q @ rest"
  shows "classifyRoute meth path \<in> {AccessAdmin, AccessDenied}"
proof (cases "find (\<lambda>r. rt_method r = meth \<and> matchPath (rt_path r) path) all_routes")
  case (Some r)
  then have "r \<in> set all_routes" "matchPath (rt_path r) path" by (auto simp: find_Some_iff)
  then have "rt_access r = AccessAdmin"
    using q match_prefix [of "segments (rt_path r)" q rest] seg by (auto simp: admin_only_def list_all_iff matchPath_def Let_def)
  with Some show ?thesis by (simp add: classifyRoute_def)
qed (simp add: classifyRoute_def)

text \<open>
  The privileged prefixes fail closed: whatever follows them, and with whatever method, a path under the platform or the
  deployment prefix is never public and never open to ordinary users, agents or modules; it needs a platform administrator or is denied.
\<close>

theorem privileged_prefixes_closed:
  assumes "HasPrefix path ''/api/v2/platform/'' \<or> HasPrefix path ''/api/v2/deployment/''"
  shows "classifyRoute meth path \<in> {AccessAdmin, AccessDenied}"
proof -
  obtain q rest where q: "admin_only all_routes q" and seg: "segments path = q @ rest"
  proof (cases "HasPrefix path ''/api/v2/platform/''")
    case True
    then have "\<exists>rest. segments path = Split (CHR ''/'') ''api/v2/platform'' @ rest" by (intro segments_prefix) simp_all
    with that [OF admin_only_all(1)] show thesis by auto
  next
    case False
    with assms have "\<exists>rest. segments path = Split (CHR ''/'') ''api/v2/deployment'' @ rest" by (intro segments_prefix) simp_all
    with that [OF admin_only_all(2)] show thesis by auto
  qed
  then show ?thesis by (rule classify_segments)
qed

theorem privileged_prefixes_closed_witness:
  "classifyRoute ''PUT'' ''/api/v2/platform/anything'' \<in> {AccessAdmin, AccessDenied}"
  by (rule privileged_prefixes_closed) simp

end
