(* ===== verification/Tokens.thy ===== *)
theory Tokens
  imports Json Base64 "HOL-Library.Word"
begin

text \<open>
  Signed tokens: \<^verbatim>\<open>pkg/auth/jwt.go\<close>. The argument \<open>env\<close> holds what the code gets from elsewhere: the text of a JSON
  document and its parser, and the keyed hash HMAC-SHA256. Times are in nanoseconds, \<^verbatim>\<open>Unix()\<close> gives whole seconds; differences
  of 64-bit integers wrap around.
\<close>

definition issuer :: string where "issuer = ''strata-rmm''"
definition audience :: string where "audience = ''strata-rmm-api''"
definition minSecretLen :: nat where "minSecretLen = 32"
definition maxModuleTokenTTL :: int where "maxModuleTokenTTL = 15 * 60 * 1000000000"

record Claims =
  clSubject :: string
  clTokenID :: string
  clIssuer :: string
  clAudience :: string
  clTokenUse :: string
  clExpiresAt :: int
  clIssuedAt :: int
  clNotBefore :: int
  clTenantID :: string
  clMSPID :: string
  clClientID :: string
  clSiteID :: string
  clAgentID :: string
  clModuleID :: string
  clRoles :: "string list"
  clPermissions :: "string list"

record TokenGenerator =
  tgSecret :: string
  tgVerifySecrets :: "string list"

record token_env =
  te_text :: "json \<Rightarrow> string"
  te_parse :: "string \<Rightarrow> json wire"
  te_hmac :: "string \<Rightarrow> string \<Rightarrow> string"

datatype token_error =
    SecretMissing | SecretTooShort | PreviousTooShort | PreviousSame | FieldRequired string | BadTTL | NoRandom
  | BadFormat | BadHeader | UnsupportedAlgorithm | UnsupportedType | BadSignature | BadPayload | MissingClaim string
  | InvalidIssuer | InvalidAudience | UnsupportedUse | InvalidModuleIdentity | InvalidModuleRole
  | TokenExpired | NotYetValid | IssuedInFuture | InvalidLifetime | LifetimeTooLong

section \<open>Keys\<close>

definition ValidateJWTConfig :: "string \<Rightarrow> string \<Rightarrow> token_error option" where
  "ValidateJWTConfig secret previous =
     (if secret = [] then Some SecretMissing
      else if length secret < minSecretLen then Some SecretTooShort
      else if previous \<noteq> [] \<and> length previous < minSecretLen then Some PreviousTooShort
      else if previous \<noteq> [] \<and> secret = previous then Some PreviousSame
      else None)"

text \<open>\<open>configured\<close> and \<open>previous\<close> are the two environment variables.\<close>

definition NewTokenGeneratorOrFail :: "string \<Rightarrow> string \<Rightarrow> string \<Rightarrow> token_error + TokenGenerator" where
  "NewTokenGeneratorOrFail configured previous secret =
     (let secret = (if secret = [] then configured else secret)
      in if secret = [] then Inl SecretMissing
         else if length secret < minSecretLen then Inl SecretTooShort
         else if previous = [] then Inr \<lparr>tgSecret = secret, tgVerifySecrets = [secret]\<rparr>
         else if length previous < minSecretLen then Inl PreviousTooShort
         else if secret = previous then Inl PreviousSame
         else Inr \<lparr>tgSecret = secret, tgVerifySecrets = [secret, previous]\<rparr>)"

definition validateSecret :: "TokenGenerator \<Rightarrow> token_error option" where
  "validateSecret g = (if length (tgSecret g) < minSecretLen then Some SecretTooShort else None)"

definition verificationKeys :: "TokenGenerator \<Rightarrow> string list" where
  "verificationKeys g = (if tgVerifySecrets g = [] then [tgSecret g] else tgVerifySecrets g)"

definition signWithSecret :: "token_env \<Rightarrow> string \<Rightarrow> string \<Rightarrow> string" where
  "signWithSecret env secret data = EncodeToString (te_hmac env secret data)"

section \<open>Encoding\<close>

definition json_strings :: "string list \<Rightarrow> json" where
  "json_strings ss = JArr (map JStr ss)"

text \<open>The document of the claims; three fields are left out when they are empty.\<close>

definition claims_json :: "Claims \<Rightarrow> json" where
  "claims_json c = JObj (
     [(''sub'', JStr (clSubject c)), (''jti'', JStr (clTokenID c)), (''iss'', JStr (clIssuer c)), (''aud'', JStr (clAudience c)),
      (''token_use'', JStr (clTokenUse c)), (''exp'', JNum (of_int (clExpiresAt c))), (''iat'', JNum (of_int (clIssuedAt c)))]
     @ (if clNotBefore c = 0 then [] else [(''nbf'', JNum (of_int (clNotBefore c)))])
     @ [(''tid'', JStr (clTenantID c)), (''mid'', JStr (clMSPID c)), (''cid'', JStr (clClientID c)), (''sid'', JStr (clSiteID c)),
        (''aid'', JStr (clAgentID c))]
     @ (if clModuleID c = [] then [] else [(''mod'', JStr (clModuleID c))])
     @ [(''roles'', json_strings (clRoles c))]
     @ (if clPermissions c = [] then [] else [(''permissions'', json_strings (clPermissions c))]))"

definition header_json :: json where
  "header_json = JObj [(''alg'', JStr ''HS256''), (''typ'', JStr ''JWT'')]"

definition encode :: "token_env \<Rightarrow> TokenGenerator \<Rightarrow> Claims \<Rightarrow> string" where
  "encode env g claims =
     (let header = EncodeToString (te_text env header_json);
          payload = EncodeToString (te_text env (claims_json claims));
          sig = signWithSecret env (tgSecret g) (header @ ''.'' @ payload)
      in header @ ''.'' @ payload @ ''.'' @ sig)"

definition unix :: "int \<Rightarrow> int" where
  "unix t = t div 1000000000"

text \<open>\<open>random\<close> holds the sixteen random bytes of a token identifier, if the system gives them.\<close>

definition GenerateAgentToken ::
  "token_env \<Rightarrow> TokenGenerator \<Rightarrow> string option \<Rightarrow> int \<Rightarrow> string \<Rightarrow> string \<Rightarrow> int \<Rightarrow> token_error + string" where
  "GenerateAgentToken env g random now tenantID agentID ttl =
     (case validateSecret g of
        Some e \<Rightarrow> Inl e
      | None \<Rightarrow>
          if tenantID = [] then Inl (FieldRequired ''tenantID'')
          else if agentID = [] then Inl (FieldRequired ''agentID'')
          else (case random of
                  None \<Rightarrow> Inl NoRandom
                | Some bytes \<Rightarrow>
                    Inr (encode env g \<lparr>clSubject = agentID, clTokenID = EncodeToString bytes, clIssuer = issuer, clAudience = audience,
                      clTokenUse = ''agent'', clExpiresAt = unix (now + ttl), clIssuedAt = unix now, clNotBefore = 0,
                      clTenantID = tenantID, clMSPID = [], clClientID = [], clSiteID = [], clAgentID = agentID, clModuleID = [],
                      clRoles = [''agent''], clPermissions = []\<rparr>)))"

definition user_claims ::
  "string \<Rightarrow> int \<Rightarrow> string \<Rightarrow> string \<Rightarrow> string \<Rightarrow> string \<Rightarrow> string \<Rightarrow> string list \<Rightarrow> int \<Rightarrow> Claims" where
  "user_claims bytes now userID tenantID mspID clientID siteID roles ttl =
     \<lparr>clSubject = userID, clTokenID = EncodeToString bytes, clIssuer = issuer, clAudience = audience, clTokenUse = ''user'',
      clExpiresAt = unix (now + ttl), clIssuedAt = unix now, clNotBefore = 0, clTenantID = tenantID, clMSPID = mspID,
      clClientID = clientID, clSiteID = siteID, clAgentID = [], clModuleID = [], clRoles = roles, clPermissions = []\<rparr>"

definition GenerateUserToken ::
  "token_env \<Rightarrow> TokenGenerator \<Rightarrow> string option \<Rightarrow> int \<Rightarrow> string \<Rightarrow> string \<Rightarrow> string \<Rightarrow> string \<Rightarrow> string \<Rightarrow> string list \<Rightarrow> int
     \<Rightarrow> token_error + string" where
  "GenerateUserToken env g random now userID tenantID mspID clientID siteID roles ttl =
     (case validateSecret g of
        Some e \<Rightarrow> Inl e
      | None \<Rightarrow>
          if userID = [] then Inl (FieldRequired ''userID'')
          else if roles = [] then Inl (FieldRequired ''roles'')
          else (case random of
                  None \<Rightarrow> Inl NoRandom
                | Some bytes \<Rightarrow> Inr (encode env g (user_claims bytes now userID tenantID mspID clientID siteID roles ttl))))"

definition GenerateModuleToken ::
  "token_env \<Rightarrow> TokenGenerator \<Rightarrow> string option \<Rightarrow> int \<Rightarrow> string \<Rightarrow> string \<Rightarrow> string \<Rightarrow> string \<Rightarrow> string list \<Rightarrow> int \<Rightarrow> token_error + string" where
  "GenerateModuleToken env g random now moduleID mspID clientID siteID permissions ttl =
     (case validateSecret g of
        Some e \<Rightarrow> Inl e
      | None \<Rightarrow>
          if moduleID = [] then Inl (FieldRequired ''moduleID'')
          else if ttl \<le> 0 \<or> maxModuleTokenTTL < ttl then Inl BadTTL
          else (case random of
                  None \<Rightarrow> Inl NoRandom
                | Some bytes \<Rightarrow>
                    Inr (encode env g \<lparr>clSubject = ''module:'' @ moduleID, clTokenID = EncodeToString bytes, clIssuer = issuer,
                      clAudience = audience, clTokenUse = ''module'', clExpiresAt = unix (now + ttl), clIssuedAt = unix now,
                      clNotBefore = 0, clTenantID = clientID, clMSPID = mspID, clClientID = clientID, clSiteID = siteID,
                      clAgentID = [], clModuleID = moduleID, clRoles = [''module''], clPermissions = permissions\<rparr>)))"

section \<open>Validation\<close>

text \<open>The loop of \<^verbatim>\<open>tokenize\<close>: \<open>cur\<close> is the part since the last separator, in reverse.\<close>

fun tokenize_from :: "char \<Rightarrow> string \<Rightarrow> string \<Rightarrow> string list" where
  "tokenize_from sep cur [] = [rev cur]"
| "tokenize_from sep cur (c # s) =
     (if c = sep then rev cur # tokenize_from sep [] s else tokenize_from sep (c # cur) s)"

definition tokenize :: "string \<Rightarrow> char \<Rightarrow> string list" where
  "tokenize s sep = tokenize_from sep [] s"

definition decode_claims :: "json wire \<Rightarrow> Claims option" where
  "decode_claims data = do {
     kvs \<leftarrow> dec_object data;
     sub \<leftarrow> dec_str kvs ''sub''; jti \<leftarrow> dec_str kvs ''jti''; iss \<leftarrow> dec_str kvs ''iss''; aud \<leftarrow> dec_str kvs ''aud'';
     tuse \<leftarrow> dec_str kvs ''token_use''; exp \<leftarrow> dec_int kvs ''exp''; iat \<leftarrow> dec_int kvs ''iat''; nbf \<leftarrow> dec_int kvs ''nbf'';
     tid \<leftarrow> dec_str kvs ''tid''; mid \<leftarrow> dec_str kvs ''mid''; cid \<leftarrow> dec_str kvs ''cid''; sid \<leftarrow> dec_str kvs ''sid'';
     aid \<leftarrow> dec_str kvs ''aid''; mo \<leftarrow> dec_str kvs ''mod''; roles \<leftarrow> dec_strs kvs ''roles''; perms \<leftarrow> dec_strs kvs ''permissions'';
     Some \<lparr>clSubject = sub, clTokenID = jti, clIssuer = iss, clAudience = aud, clTokenUse = tuse, clExpiresAt = exp, clIssuedAt = iat,
           clNotBefore = nbf, clTenantID = tid, clMSPID = mid, clClientID = cid, clSiteID = sid, clAgentID = aid, clModuleID = mo,
           clRoles = roles, clPermissions = perms\<rparr> }"

definition decode_header :: "json wire \<Rightarrow> (string \<times> string) option" where
  "decode_header data = do {
     kvs \<leftarrow> dec_object data;
     alg \<leftarrow> dec_str kvs ''alg'';
     typ \<leftarrow> dec_str kvs ''typ'';
     Some (alg, typ) }"

definition wrap64 :: "int \<Rightarrow> int" where
  "wrap64 n = sint (word_of_int n :: 64 word)"

definition maxLifetime :: "string \<Rightarrow> int" where
  "maxLifetime tuse = (if tuse = ''agent'' then 31 * 24 * 3600 else if tuse = ''module'' then 15 * 60 else 24 * 3600)"

text \<open>The checks on decoded claims, in their order.\<close>

definition check_claims :: "int \<Rightarrow> Claims \<Rightarrow> token_error option" where
  "check_claims now c =
     (if clSubject c = [] then Some (MissingClaim ''sub'')
      else if clTokenID c = [] then Some (MissingClaim ''jti'')
      else if clIssuer c = [] then Some (MissingClaim ''iss'')
      else if clAudience c = [] then Some (MissingClaim ''aud'')
      else if clTokenUse c = [] then Some (MissingClaim ''token_use'')
      else if clExpiresAt c = 0 then Some (MissingClaim ''exp'')
      else if clIssuedAt c = 0 then Some (MissingClaim ''iat'')
      else if clIssuer c \<noteq> issuer then Some InvalidIssuer
      else if clAudience c \<noteq> audience then Some InvalidAudience
      else if clTokenUse c \<noteq> ''user'' \<and> clTokenUse c \<noteq> ''agent'' \<and> clTokenUse c \<noteq> ''module'' then Some UnsupportedUse
      else if clTokenUse c = ''module'' \<and> (clModuleID c = [] \<or> clSubject c \<noteq> ''module:'' @ clModuleID c) then Some InvalidModuleIdentity
      else if clTokenUse c = ''module'' \<and> clRoles c \<noteq> [''module''] then Some InvalidModuleRole
      else if clExpiresAt c < now then Some TokenExpired
      else if 0 < clNotBefore c \<and> now < clNotBefore c then Some NotYetValid
      else if wrap64 (now + 300) < clIssuedAt c then Some IssuedInFuture
      else if clExpiresAt c \<le> clIssuedAt c then Some InvalidLifetime
      else if maxLifetime (clTokenUse c) < wrap64 (clExpiresAt c - clIssuedAt c) then Some LifetimeTooLong
      else None)"

definition Validate_token :: "token_env \<Rightarrow> TokenGenerator \<Rightarrow> int \<Rightarrow> string \<Rightarrow> token_error + Claims" where
  "Validate_token env g now token =
     (case validateSecret g of
        Some e \<Rightarrow> Inl e
      | None \<Rightarrow>
          (case tokenize token (CHR ''.'') of
             [p0, p1, p2] \<Rightarrow>
               (case DecodeString p0 of
                  None \<Rightarrow> Inl BadHeader
                | Some headerJSON \<Rightarrow>
                    (case decode_header (te_parse env headerJSON) of
                       None \<Rightarrow> Inl BadHeader
                     | Some (alg, typ) \<Rightarrow>
                         if alg \<noteq> ''HS256'' then Inl UnsupportedAlgorithm
                         else if typ \<noteq> ''JWT'' then Inl UnsupportedType
                         else if \<not> list_ex (\<lambda>secret. signWithSecret env secret (p0 @ ''.'' @ p1) = p2) (verificationKeys g)
                         then Inl BadSignature
                         else (case DecodeString p1 of
                                 None \<Rightarrow> Inl BadPayload
                               | Some payload \<Rightarrow>
                                   (case decode_claims (te_parse env payload) of
                                      None \<Rightarrow> Inl BadPayload
                                    | Some c \<Rightarrow> (case check_claims (unix now) c of Some e \<Rightarrow> Inl e | None \<Rightarrow> Inr c)))))
           | _ \<Rightarrow> Inl BadFormat))"

section \<open>Enrollment tokens\<close>

record EnrollmentToken =
  etToken :: string
  etTenantID :: string
  etExpiresAt :: int
  etUsed :: bool

type_synonym enrollment_tokens = "string \<rightharpoonup> EnrollmentToken"

datatype enrollment_error = EnrollmentNotFound | EnrollmentUsed | EnrollmentExpired

definition CreateEnrollmentToken :: "int \<Rightarrow> string \<Rightarrow> int \<Rightarrow> enrollment_tokens \<Rightarrow> enrollment_tokens \<times> EnrollmentToken" where
  "CreateEnrollmentToken now tenantID ttl m =
     (let token = ''enr_'' @ tenantID @ ''_'' @ int_digits now;
          et = \<lparr>etToken = token, etTenantID = tenantID, etExpiresAt = now + ttl, etUsed = False\<rparr>
      in (m(token \<mapsto> et), et))"

definition ValidateEnrollmentToken :: "int \<Rightarrow> string \<Rightarrow> enrollment_tokens \<Rightarrow> enrollment_tokens \<times> (enrollment_error + string)" where
  "ValidateEnrollmentToken now token m =
     (case m token of
        None \<Rightarrow> (m, Inl EnrollmentNotFound)
      | Some et \<Rightarrow>
          if etUsed et then (m, Inl EnrollmentUsed)
          else if etExpiresAt et < now then (m, Inl EnrollmentExpired)
          else (m(token \<mapsto> et\<lparr>etUsed := True\<rparr>), Inr (etTenantID et)))"

lemma enrollment_single_use:
  assumes "ValidateEnrollmentToken now token m = (m', Inr tenantID)"
  shows "ValidateEnrollmentToken now' token m' = (m', Inl EnrollmentUsed)"
  using assms by (auto simp: ValidateEnrollmentToken_def split: option.splits if_splits)

section \<open>What a valid token proves\<close>

lemma tokenize_Split: "tokenize_from sep cur s = (case Split sep s of [] \<Rightarrow> [] | w # ws \<Rightarrow> (rev cur @ w) # ws)"
  by (induction s arbitrary: cur) (auto split: list.splits)

lemma tokenize_eq: "tokenize s sep = Split sep s"
  by (cases "Split sep s") (simp_all add: tokenize_def tokenize_Split)

lemma tokenize_parts:
  "CHR ''.'' \<notin> set a \<Longrightarrow> CHR ''.'' \<notin> set b \<Longrightarrow> CHR ''.'' \<notin> set c \<Longrightarrow> tokenize (a @ ''.'' @ b @ ''.'' @ c) (CHR ''.'') = [a, b, c]"
  by (simp add: tokenize_eq Split_append Split_no_sep)

lemma tokenize_three:
  "tokenize s (CHR ''.'') = [a, b, c] \<Longrightarrow> s = a @ ''.'' @ b @ ''.'' @ c"
  using Join_Split [of "CHR ''.''" s] by (simp add: tokenize_eq)

lemma wrap64_exact: "- (2 ^ 63) \<le> n \<Longrightarrow> n < 2 ^ 63 \<Longrightarrow> wrap64 n = n"
  unfolding wrap64_def by (subst signed_of_int) (simp add: signed_take_bit_int_eq_self_iff)

lemma decode_claims_range:
  assumes "decode_claims data = Some c"
  shows "- (2 ^ 63) \<le> clExpiresAt c \<and> clExpiresAt c < 2 ^ 63" "- (2 ^ 63) \<le> clIssuedAt c \<and> clIssuedAt c < 2 ^ 63"
proof -
  from assms obtain kvs where "dec_int kvs ''exp'' = Some (clExpiresAt c)" "dec_int kvs ''iat'' = Some (clIssuedAt c)"
    by (auto simp: decode_claims_def split: bind_splits)
  then show "- (2 ^ 63) \<le> clExpiresAt c \<and> clExpiresAt c < 2 ^ 63" "- (2 ^ 63) \<le> clIssuedAt c \<and> clIssuedAt c < 2 ^ 63"
    by (auto dest!: dec_int_range)
qed

lemma Validate_token_parts:
  assumes "Validate_token env g now token = Inr c"
  obtains p0 p1 p2 secret payload where "token = p0 @ ''.'' @ p1 @ ''.'' @ p2" "secret \<in> set (verificationKeys g)"
    "p2 = signWithSecret env secret (p0 @ ''.'' @ p1)" "DecodeString p1 = Some payload" "decode_claims (te_parse env payload) = Some c"
    "check_claims (unix now) c = None"
proof -
  obtain p0 p1 p2 where t: "tokenize token (CHR ''.'') = [p0, p1, p2]"
    using assms by (auto simp: Validate_token_def split: option.splits list.splits)
  from assms t that tokenize_three [OF t] show thesis
    by (auto simp: Validate_token_def list_ex_iff split: option.splits if_splits)
qed

text \<open>
  C20. A token that validates was signed: it consists of three parts, the last is the keyed hash of the first two under one of
  the accepted secrets, and the claims are what its payload says. They name this issuer and audience, one of the three uses,
  and a time of expiry that has not passed; a token issued after the epoch lives no longer than its use allows, and a module's
  token has the module role alone.
\<close>

theorem validated_token_signed:
  assumes "Validate_token env g now token = Inr c"
  shows "(\<exists>p0 p1 payload. \<exists>secret \<in> set (verificationKeys g).
      token = p0 @ ''.'' @ p1 @ ''.'' @ signWithSecret env secret (p0 @ ''.'' @ p1)
      \<and> DecodeString p1 = Some payload \<and> decode_claims (te_parse env payload) = Some c)
    \<and> clIssuer c = issuer \<and> clAudience c = audience \<and> clTokenUse c \<in> {''user'', ''agent'', ''module''} \<and> clSubject c \<noteq> []
    \<and> unix now \<le> clExpiresAt c
    \<and> (0 \<le> clIssuedAt c \<longrightarrow> 0 < clExpiresAt c - clIssuedAt c \<and> clExpiresAt c - clIssuedAt c \<le> maxLifetime (clTokenUse c))
    \<and> (clTokenUse c = ''module'' \<longrightarrow> clRoles c = [''module''])"
proof -
  from assms obtain p0 p1 p2 secret payload where parts: "token = p0 @ ''.'' @ p1 @ ''.'' @ p2" "secret \<in> set (verificationKeys g)"
    "p2 = signWithSecret env secret (p0 @ ''.'' @ p1)" "DecodeString p1 = Some payload" "decode_claims (te_parse env payload) = Some c"
    and ok: "check_claims (unix now) c = None" by (rule Validate_token_parts)
  have "clIssuedAt c < clExpiresAt c" using ok by (auto simp: check_claims_def split: if_splits)
  then have "wrap64 (clExpiresAt c - clIssuedAt c) = clExpiresAt c - clIssuedAt c" if "0 \<le> clIssuedAt c"
    using that decode_claims_range [OF parts(5)] by (intro wrap64_exact) auto
  then have checks: "clIssuer c = issuer" "clAudience c = audience" "clTokenUse c \<in> {''user'', ''agent'', ''module''}" "clSubject c \<noteq> []"
    "unix now \<le> clExpiresAt c"
    "0 \<le> clIssuedAt c \<longrightarrow> 0 < clExpiresAt c - clIssuedAt c \<and> clExpiresAt c - clIssuedAt c \<le> maxLifetime (clTokenUse c)"
    "clTokenUse c = ''module'' \<longrightarrow> clRoles c = [''module'']"
    using ok by (auto simp: check_claims_def split: if_splits)
  show ?thesis using parts(2,4,5) checks unfolding parts(1,3) by blast
qed

section \<open>Round trip\<close>

definition claim_names :: "string list" where
  "claim_names = [''sub'', ''jti'', ''iss'', ''aud'', ''token_use'', ''exp'', ''iat'', ''nbf'', ''tid'', ''mid'', ''cid'', ''sid'', ''aid'',
     ''mod'', ''roles'', ''permissions'', ''alg'', ''typ'']"

lemma claim_names_lower: "list_all (\<lambda>s. ToLower s = s) claim_names"
  by code_simp

lemmas claim_name_facts = claim_names_lower [unfolded claim_names_def list.pred_inject]

lemma string_items_JStr [simp]: "string_items (map JStr ss) = Some ss"
  by (induction ss) simp_all

lemma decode_header_json: "decode_header (Decoded header_json) = Some (''HS256'', ''JWT'')"
  by (simp add: decode_header_def header_json_def dec_object_def dec_str_def claim_name_facts)

definition claims_in_range :: "Claims \<Rightarrow> bool" where
  "claims_in_range c \<longleftrightarrow> list_all (\<lambda>i. - (2 ^ 63) \<le> i \<and> i < 2 ^ 63) [clExpiresAt c, clIssuedAt c, clNotBefore c]"

lemma decode_claims_json:
  assumes "claims_in_range c"
  shows "decode_claims (Decoded (claims_json c)) = Some c"
proof -
  have "int_of_rat (of_int (clExpiresAt c)) = Some (clExpiresAt c)" "int_of_rat (of_int (clIssuedAt c)) = Some (clIssuedAt c)"
    "int_of_rat (of_int (clNotBefore c)) = Some (clNotBefore c)"
    using assms by (simp_all add: claims_in_range_def)
  then show ?thesis
    by (simp del: int_of_rat_of_int add: decode_claims_def claims_json_def json_strings_def dec_object_def dec_str_def dec_int_def dec_strs_def
        claim_name_facts)
qed

lemma Validate_encode:
  assumes "te_parse env (te_text env header_json) = Decoded header_json"
    "te_parse env (te_text env (claims_json c)) = Decoded (claims_json c)"
    "validateSecret g' = None" "tgSecret g \<in> set (verificationKeys g')" "claims_in_range c" "check_claims (unix now) c = None"
  shows "Validate_token env g' now (encode env g c) = Inr c"
proof -
  have sig: "CHR ''.'' \<notin> set (signWithSecret env k d)" for k d by (simp add: signWithSecret_def EncodeToString_no_dot)
  have "list_ex (\<lambda>secret. signWithSecret env secret d = signWithSecret env (tgSecret g) d) (verificationKeys g')" for d
    using assms(4) by (auto simp: list_ex_iff)
  with assms show ?thesis
    by (simp add: Validate_token_def encode_def Let_def tokenize_parts [simplified] EncodeToString_no_dot sig decode_header_json
        decode_claims_json)
qed

lemma unix_lifetime:
  assumes "1000000000 \<le> ttl" "ttl \<le> s * 1000000000"
  shows "unix t < unix (t + ttl)" "unix (t + ttl) - unix t \<le> s"
proof -
  have "unix t + 1 = (t + 1000000000) div 1000000000" by (simp add: unix_def)
  also have "\<dots> \<le> unix (t + ttl)" using assms(1) by (simp add: unix_def zdiv_mono1)
  finally show "unix t < unix (t + ttl)" by simp
  have "unix (t + ttl) \<le> (t + s * 1000000000) div 1000000000" using assms(2) by (simp add: unix_def zdiv_mono1)
  then show "unix (t + ttl) - unix t \<le> s" by (simp add: unix_def)
qed

lemma user_token_valid:
  assumes issue: "GenerateUserToken env g (Some bytes) t userID tenantID mspID clientID siteID roles ttl = Inr token"
    and json: "te_parse env (te_text env header_json) = Decoded header_json"
      "te_parse env (te_text env (claims_json (user_claims bytes t userID tenantID mspID clientID siteID roles ttl)))
         = Decoded (claims_json (user_claims bytes t userID tenantID mspID clientID siteID roles ttl))"
    and keys: "validateSecret g' = None" "tgSecret g \<in> set (verificationKeys g')"
    and times: "bytes \<noteq> []" "1000000000 \<le> ttl" "ttl \<le> 86400 * 1000000000" "1000000000 \<le> t" "t < 2 ^ 62" "t \<le> now" "now \<le> t + ttl"
  shows "Validate_token env g' now token = Inr (user_claims bytes t userID tenantID mspID clientID siteID roles ttl)"
proof -
  let ?c = "user_claims bytes t userID tenantID mspID clientID siteID roles ttl"
  have token: "token = encode env g ?c" "userID \<noteq> []"
    using issue by (auto simp: GenerateUserToken_def split: option.splits if_splits)
  have u: "0 < unix t" "unix t \<le> unix now" "unix now \<le> unix (t + ttl)" "unix (t + ttl) < 2 ^ 62"
    using times by (auto simp: unix_def zdiv_mono1 pos_imp_zdiv_pos_iff intro: le_less_trans)
  have ne: "EncodeToString bytes \<noteq> []" using times(1) by (cases bytes rule: list.exhaust) (auto simp: EncodeToString_def elim: b64_digits.elims)
  have "claims_in_range ?c" using u by (auto simp: claims_in_range_def user_claims_def)
  moreover have "check_claims (unix now) ?c = None"
    using u token(2) ne unix_lifetime [OF times(2,3), of t]
    by (auto simp: check_claims_def user_claims_def issuer_def audience_def maxLifetime_def wrap64_exact)
  ultimately show ?thesis unfolding token(1) using Validate_encode [OF json keys] by blast
qed

text \<open>
  Tokens round trip: a token issued for a user, with a lifetime between a second and a day, validates until it expires
  against every generator that still accepts the secret it was signed with, and yields the claims it was issued for, whenever
  the JSON library parses the two documents it wrote.
\<close>

theorem user_token_roundtrip:
  assumes issue: "GenerateUserToken env g (Some bytes) t userID tenantID mspID clientID siteID roles ttl = Inr token"
    and json: "te_parse env (te_text env header_json) = Decoded header_json"
      "te_parse env (te_text env (claims_json (user_claims bytes t userID tenantID mspID clientID siteID roles ttl)))
         = Decoded (claims_json (user_claims bytes t userID tenantID mspID clientID siteID roles ttl))"
    and keys: "validateSecret g' = None" "tgSecret g \<in> set (verificationKeys g')"
    and times: "bytes \<noteq> []" "1000000000 \<le> ttl" "ttl \<le> 86400 * 1000000000" "1000000000 \<le> t" "t < 2 ^ 62" "t \<le> now" "now \<le> t + ttl"
  shows "Validate_token env g' now token = Inr (user_claims bytes t userID tenantID mspID clientID siteID roles ttl)"
  by (rule user_token_valid [OF assms])

definition example_generator :: TokenGenerator where
  "example_generator = \<lparr>tgSecret = replicate 32 (CHR ''k''), tgVerifySecrets = [replicate 32 (CHR ''n''), replicate 32 (CHR ''k'')]\<rparr>"

definition example_user_claims :: Claims where
  "example_user_claims = user_claims ''abc'' 5000000000 ''u'' [] ''m'' [] [] [''msp_admin''] 28800000000000"

definition example_token_env :: token_env where
  "example_token_env = \<lparr>te_text = (\<lambda>j. if j = header_json then ''h'' else ''p''),
     te_parse = (\<lambda>s. if s = ''h'' then Decoded header_json else Decoded (claims_json example_user_claims)), te_hmac = (\<lambda>k d. k)\<rparr>"

lemma example_token_json:
  "te_parse example_token_env (te_text example_token_env header_json) = Decoded header_json"
  "te_parse example_token_env (te_text example_token_env (claims_json example_user_claims)) = Decoded (claims_json example_user_claims)"
  by (simp_all add: example_token_env_def claims_json_def header_json_def)

lemma example_token_secret: "validateSecret example_generator = None" "tgSecret example_generator \<in> set (verificationKeys example_generator)"
  by (simp_all add: validateSecret_def verificationKeys_def example_generator_def minSecretLen_def)

lemma example_token_issued:
  "GenerateUserToken example_token_env example_generator (Some ''abc'') 5000000000 ''u'' [] ''m'' [] [] [''msp_admin''] 28800000000000
     = Inr (encode example_token_env example_generator example_user_claims)"
  by (simp add: GenerateUserToken_def example_token_secret example_user_claims_def)

theorem user_token_roundtrip_witness:
  "Validate_token example_token_env example_generator 6000000000 (encode example_token_env example_generator example_user_claims)
     = Inr example_user_claims"
  unfolding example_user_claims_def
  by (rule user_token_roundtrip [OF example_token_issued [unfolded example_user_claims_def] example_token_json [unfolded example_user_claims_def]
        example_token_secret]) simp_all

theorem validated_token_signed_witness:
  "clIssuer example_user_claims = issuer \<and> clExpiresAt example_user_claims - clIssuedAt example_user_claims \<le> 86400"
proof -
  have "claims_in_range example_user_claims" by code_simp
  moreover have "check_claims (unix 6000000000) example_user_claims = None"
    by (simp add: check_claims_def example_user_claims_def user_claims_def issuer_def audience_def unix_def maxLifetime_def wrap64_exact
        EncodeToString_def)
  ultimately have "Validate_token example_token_env example_generator 6000000000 (encode example_token_env example_generator example_user_claims)
      = Inr example_user_claims" by (rule Validate_encode [OF example_token_json example_token_secret])
  from validated_token_signed [OF this] show ?thesis
    by (simp add: example_user_claims_def user_claims_def unix_def maxLifetime_def)
qed

end
