(* ===== verification/Authorization.thy ===== *)
theory Authorization
  imports Prelude Complex_Main "HOL-Library.Char_ord" "HOL-Library.List_Lexorder" "HOL-Library.Product_Lexorder"
begin

text \<open>
  Authorization: the scope-bound authorization of a request (\<^verbatim>\<open>internal/platform/authorization_result.go\<close>), the
  checks on resources (\<^verbatim>\<open>authorize.go\<close>), support grants (\<^verbatim>\<open>support_handlers.go\<close>) and the role tables
  (\<^verbatim>\<open>context_handler.go\<close>, \<^verbatim>\<open>middleware.go\<close>). The database is a record of the rows the queries read; a query that fails
  is an argument \<open>ok\<close> that is \<open>False\<close>. Row-level security can only hide rows, which the model covers by an arbitrary database.
\<close>

section \<open>Scopes, grants and results\<close>

abbreviation ScopePlatform :: string where "ScopePlatform \<equiv> ''platform''"
abbreviation ScopeMSP :: string where "ScopeMSP \<equiv> ''msp''"
abbreviation ScopeClient :: string where "ScopeClient \<equiv> ''client''"
abbreviation ScopeSite :: string where "ScopeSite \<equiv> ''site''"

definition SingletonPlatformID :: string where
  "SingletonPlatformID = ''00000000-0000-0000-0000-000000000001''"

record AuthorizationScope =
  sType :: string
  sID :: string
  sPlatformID :: string
  sMSPID :: string
  sClientID :: string
  sSiteID :: string

record AuthorizationGrant =
  gRole :: string
  gSourceType :: string
  gSourceID :: string
  gInherited :: bool

record AuthorizationResult =
  aSelected :: AuthorizationScope
  aGrants :: "AuthorizationGrant list"
  aRoles :: "string list"
  aPermissions :: "string list"

definition HasRole :: "AuthorizationResult \<Rightarrow> string list \<Rightarrow> bool" where
  "HasRole a wanted = list_ex (\<lambda>role. list_ex (\<lambda>candidate. role = candidate) wanted) (aRoles a)"

definition HasGrant :: "AuthorizationResult \<Rightarrow> string \<Rightarrow> string list \<Rightarrow> bool" where
  "HasGrant a source roles =
     list_ex (\<lambda>grant. gSourceType grant = source \<and> list_ex (\<lambda>role. gRole grant = role) roles) (aGrants a)"

definition IsPlatformGlobal :: "AuthorizationResult \<Rightarrow> bool" where
  "IsPlatformGlobal a \<longleftrightarrow>
     sType (aSelected a) = ScopePlatform \<and> sID (aSelected a) = SingletonPlatformID
     \<and> HasGrant a ScopePlatform [''platform_owner'', ''platform_admin'']"

definition HasPlatformAdministratorMembership :: "AuthorizationResult \<Rightarrow> bool" where
  "HasPlatformAdministratorMembership a = HasGrant a ScopePlatform [''platform_owner'', ''platform_admin'']"

definition CanManageSelectedScope :: "AuthorizationResult \<Rightarrow> bool" where
  "CanManageSelectedScope a =
     (let t = sType (aSelected a)
      in if t = ScopePlatform then IsPlatformGlobal a
         else if t = ScopeMSP then HasRole a [''platform_owner'', ''platform_admin'', ''msp_owner'', ''msp_admin'']
         else if t = ScopeClient \<or> t = ScopeSite then
           HasRole a [''platform_owner'', ''platform_admin'', ''msp_owner'', ''msp_admin'', ''client_admin'']
         else False)"

definition inferredAuthorizationScope :: "string \<Rightarrow> string \<Rightarrow> string \<Rightarrow> AuthorizationScope" where
  "inferredAuthorizationScope mspID clientID siteID =
     (let scope = \<lparr>sType = ScopePlatform, sID = SingletonPlatformID, sPlatformID = SingletonPlatformID,
                   sMSPID = [], sClientID = [], sSiteID = []\<rparr>;
          scope = (if mspID \<noteq> [] then \<lparr>sType = ScopeMSP, sID = mspID, sPlatformID = SingletonPlatformID,
                   sMSPID = mspID, sClientID = [], sSiteID = []\<rparr> else scope);
          scope = (if clientID \<noteq> [] then scope\<lparr>sType := ScopeClient, sID := clientID, sClientID := clientID\<rparr> else scope)
      in if siteID \<noteq> [] then scope\<lparr>sType := ScopeSite, sID := siteID, sSiteID := siteID\<rparr> else scope)"

definition rolePermissions :: "string \<Rightarrow> string list" where
  "rolePermissions role =
     (if role = ''platform_owner'' \<or> role = ''platform_admin'' then
        [''platform:manage'', ''msp:manage'', ''support:manage'', ''security:read'']
      else if role = ''platform_support'' then [''support:access'']
      else if role = ''platform_billing'' then [''billing:manage'', ''usage:read'']
      else if role = ''platform_security_auditor'' \<or> role = ''platform_viewer'' then [''platform:read'', ''security:read'']
      else if role = ''msp_owner'' \<or> role = ''msp_admin'' then
        [''msp:manage'', ''client:manage'', ''site:manage'', ''device:manage'', ''job:manage'']
      else if role = ''msp_technician'' then [''client:read'', ''site:read'', ''device:manage'', ''job:manage'']
      else if role = ''msp_viewer'' \<or> role = ''client_viewer'' then [''client:read'', ''site:read'', ''device:read'', ''job:read'']
      else if role = ''client_admin'' then [''client:manage'', ''site:manage'', ''device:read'', ''job:read'']
      else [])"

definition permissionsForRoles :: "string list \<Rightarrow> string list" where
  "permissionsForRoles roles = sort (remdups (concat (map rolePermissions roles)))"

definition appendUnique :: "string list \<Rightarrow> string \<Rightarrow> string list" where
  "appendUnique values value = (if list_ex (\<lambda>existing. existing = value) values then values else values @ [value])"

text \<open>Grants with equal keys are equal, so that an unstable sort gives the same list.\<close>

definition newAuthorizationResult :: "AuthorizationScope \<Rightarrow> AuthorizationGrant list \<Rightarrow> AuthorizationResult" where
  "newAuthorizationResult scope grants =
     (let grants = sort_key (\<lambda>g. (gRole g, gSourceType g, gSourceID g)) grants;
          roles = sort (foldl (\<lambda>roles grant. appendUnique roles (gRole grant)) [] grants)
      in \<lparr>aSelected = scope, aGrants = grants, aRoles = roles, aPermissions = permissionsForRoles roles\<rparr>)"

section \<open>Roles\<close>

definition hasPlatformRole :: "string list \<Rightarrow> bool" where
  "hasPlatformRole roles =
     list_ex (\<lambda>r. List.member [''platform_owner'', ''platform_admin'', ''platform_support'', ''platform_billing'',
       ''platform_security_auditor'', ''platform_viewer''] r) roles"

definition hasMSPRole :: "string list \<Rightarrow> bool" where
  "hasMSPRole roles =
     list_ex (\<lambda>r. List.member [''msp_owner'', ''msp_admin'', ''msp_technician'', ''msp_viewer'', ''client_admin'', ''client_viewer'',
       ''technician'', ''patch_manager'', ''automation_operator'', ''billing_manager'', ''auditor'', ''viewer'', ''admin''] r) roles"

definition hasAgentRole :: "string list \<Rightarrow> bool" where
  "hasAgentRole roles = list_ex (\<lambda>role. role = ''agent'') roles"

definition hasSupportRole :: "string list \<Rightarrow> bool" where
  "hasSupportRole roles = list_ex (\<lambda>role. role = ''platform_support'') roles"

definition platformRoleFlowsTo :: "string \<Rightarrow> string \<Rightarrow> bool" where
  "platformRoleFlowsTo role selected =
     (if selected = ScopePlatform then True
      else if List.member [''platform_owner'', ''platform_admin'', ''platform_support'', ''platform_billing'',
        ''platform_security_auditor'', ''platform_viewer''] role
      then selected = ScopeMSP \<or> selected = ScopeClient \<or> selected = ScopeSite
      else False)"

definition mspRoleFlowsTo :: "string \<Rightarrow> string \<Rightarrow> bool" where
  "mspRoleFlowsTo role selected =
     (if selected = ScopeMSP then True
      else if List.member [''msp_owner'', ''msp_admin'', ''msp_technician'', ''msp_viewer''] role
      then selected = ScopeClient \<or> selected = ScopeSite
      else False)"

definition clientRoleFlowsTo :: "string \<Rightarrow> string \<Rightarrow> bool" where
  "clientRoleFlowsTo role selected =
     (if selected = ScopeClient then True
      else selected = ScopeSite \<and> (role = ''client_admin'' \<or> role = ''client_viewer''))"

definition validRoleForScope :: "string \<Rightarrow> string \<Rightarrow> bool" where
  "validRoleForScope scope role =
     (if scope = ScopePlatform then
        List.member [''platform_owner'', ''platform_admin'', ''platform_support'', ''platform_billing'',
          ''platform_security_auditor'', ''platform_viewer''] role
      else if scope = ScopeMSP then List.member [''msp_owner'', ''msp_admin'', ''msp_technician'', ''msp_viewer''] role
      else if scope = ScopeClient \<or> scope = ScopeSite then role = ''client_admin'' \<or> role = ''client_viewer''
      else False)"

definition membershipAppliesToSelectedScope :: "string \<Rightarrow> string \<Rightarrow> string \<Rightarrow> AuthorizationScope \<Rightarrow> bool" where
  "membershipAppliesToSelectedScope sourceType sourceID role selected =
     (if sourceType = ScopePlatform then sourceID = SingletonPlatformID \<and> platformRoleFlowsTo role (sType selected)
      else if sourceType = ScopeMSP then sourceID = sMSPID selected \<and> mspRoleFlowsTo role (sType selected)
      else if sourceType = ScopeClient then sourceID = sClientID selected \<and> clientRoleFlowsTo role (sType selected)
      else if sourceType = ScopeSite then sourceID = sSiteID selected \<and> sType selected = ScopeSite
      else False)"

section \<open>The database\<close>

record msp_tenant =
  m_id :: string
  m_is_active :: bool
  m_onboarding_status :: string

record client_organization =
  co_id :: string
  co_msp_id :: string
  co_is_active :: bool

record site_row =
  si_id :: string
  si_client_id :: string
  si_is_active :: bool

record membership =
  mb_user_id :: string
  mb_role :: string
  mb_scope_type :: string
  mb_scope_id :: string
  mb_status :: string
  mb_expires_at :: "int option"

record support_grant =
  sg_id :: string
  sg_platform_user_id :: string
  sg_msp_id :: string
  sg_status :: string
  sg_revoked_at :: "int option"
  sg_expires_at :: int
  sg_permissions :: "string list"

record device_owner =
  do_id :: string
  do_msp_id :: string
  do_client_id :: "string option"
  do_site_id :: "string option"

record auth_db =
  msps :: "msp_tenant list"
  clients :: "client_organization list"
  sites :: "site_row list"
  memberships :: "membership list"
  support_grants :: "support_grant list"
  owned_devices :: "device_owner list"

text \<open>Identifiers are not empty.\<close>

definition auth_db_ok :: "auth_db \<Rightarrow> bool" where
  "auth_db_ok db \<longleftrightarrow> list_all (\<lambda>m. m_id m \<noteq> []) (msps db) \<and> list_all (\<lambda>c. co_id c \<noteq> []) (clients db)
     \<and> list_all (\<lambda>s. si_id s \<noteq> []) (sites db)"

definition msp_open :: "auth_db \<Rightarrow> string \<Rightarrow> bool" where
  "msp_open db mspID = list_ex (\<lambda>m. m_id m = mspID \<and> m_is_active m \<and> m_onboarding_status m = ''active'') (msps db)"

text \<open>The two joined queries: the tenant of an active client, and the ancestors of an active site.\<close>

definition client_msp :: "auth_db \<Rightarrow> string \<Rightarrow> string option" where
  "client_msp db clientID =
     map_option co_msp_id (find (\<lambda>c. co_id c = clientID \<and> co_is_active c \<and> msp_open db (co_msp_id c)) (clients db))"

definition site_ancestry :: "auth_db \<Rightarrow> string \<Rightarrow> (string \<times> string) option" where
  "site_ancestry db siteID =
     (case find (\<lambda>s. si_id s = siteID \<and> si_is_active s \<and> client_msp db (si_client_id s) \<noteq> None) (sites db) of
        None \<Rightarrow> None
      | Some s \<Rightarrow> map_option (\<lambda>mspID. (mspID, si_client_id s)) (client_msp db (si_client_id s)))"

section \<open>Resolution\<close>

datatype auth_error =
    SiteNeedsParents | ClientNeedsMSP | MSPInactive | ClientUnrelated | SiteUnrelated | MembershipsUnavailable | NoMembership

definition resolveSelectedScope :: "bool \<Rightarrow> auth_db \<Rightarrow> string \<Rightarrow> string \<Rightarrow> string \<Rightarrow> auth_error + AuthorizationScope" where
  "resolveSelectedScope ok db mspID clientID siteID =
     (if siteID \<noteq> [] \<and> (clientID = [] \<or> mspID = []) then Inl SiteNeedsParents
      else if clientID \<noteq> [] \<and> mspID = [] then Inl ClientNeedsMSP
      else if mspID = [] then
        Inr \<lparr>sType = ScopePlatform, sID = SingletonPlatformID, sPlatformID = SingletonPlatformID,
             sMSPID = [], sClientID = [], sSiteID = []\<rparr>
      else
        let scope = \<lparr>sType = ScopeMSP, sID = mspID, sPlatformID = SingletonPlatformID, sMSPID = mspID, sClientID = [], sSiteID = []\<rparr>
        in if clientID = [] then (if \<not> ok \<or> \<not> msp_open db mspID then Inl MSPInactive else Inr scope)
           else if siteID = [] then
             (if \<not> ok \<or> client_msp db clientID \<noteq> Some mspID then Inl ClientUnrelated
              else Inr (scope\<lparr>sType := ScopeClient, sID := clientID, sClientID := clientID\<rparr>))
           else if \<not> ok \<or> site_ancestry db siteID \<noteq> Some (mspID, clientID) then Inl SiteUnrelated
           else Inr (scope\<lparr>sType := ScopeSite, sID := siteID, sClientID := clientID, sSiteID := siteID\<rparr>))"

definition membership_active :: "int \<Rightarrow> string \<Rightarrow> membership \<Rightarrow> bool" where
  "membership_active now userID mb \<longleftrightarrow>
     mb_user_id mb = userID \<and> mb_status mb = ''active'' \<and> (case mb_expires_at mb of None \<Rightarrow> True | Some t \<Rightarrow> now < t)"

definition active_memberships :: "int \<Rightarrow> string \<Rightarrow> auth_db \<Rightarrow> membership list" where
  "active_memberships now userID db =
     sort_key (\<lambda>mb. (mb_scope_type mb, mb_scope_id mb, mb_role mb)) (filter (membership_active now userID) (memberships db))"

definition resolveAuthorization ::
  "bool \<Rightarrow> bool \<Rightarrow> int \<Rightarrow> auth_db \<Rightarrow> string \<Rightarrow> string \<Rightarrow> string \<Rightarrow> string \<Rightarrow> auth_error + AuthorizationResult" where
  "resolveAuthorization ok ok_members now db userID mspID clientID siteID =
     (case resolveSelectedScope ok db mspID clientID siteID of
        Inl e \<Rightarrow> Inl e
      | Inr scope \<Rightarrow>
          if \<not> ok_members then Inl MembershipsUnavailable
          else
            let grants = map (\<lambda>mb. \<lparr>gRole = mb_role mb, gSourceType = mb_scope_type mb, gSourceID = mb_scope_id mb,
                                     gInherited = (mb_scope_type mb \<noteq> sType scope \<or> mb_scope_id mb \<noteq> sID scope)\<rparr>)
                           (filter (\<lambda>mb. validRoleForScope (mb_scope_type mb) (mb_role mb)
                              \<and> membershipAppliesToSelectedScope (mb_scope_type mb) (mb_scope_id mb) (mb_role mb) scope)
                             (active_memberships now userID db));
                authorization = newAuthorizationResult scope grants
            in if aRoles authorization = [] then Inl NoMembership else Inr authorization)"

text \<open>
  The scope a session starts in: the platform, then the client of the legacy column, then the scopes of the
  memberships in the order of the query. \<open>io\<close> gives for a claimed scope whether its two queries succeed. The settings made for
  row-level security between the attempts do not change the rows.
\<close>

definition scope_order :: "string \<Rightarrow> nat" where
  "scope_order t = (if t = ScopeMSP then 1 else if t = ScopeClient then 2 else if t = ScopeSite then 3 else 4)"

definition membership_candidates :: "int \<Rightarrow> string \<Rightarrow> auth_db \<Rightarrow> (string \<times> string) list" where
  "membership_candidates now userID db =
     sort_key (\<lambda>(t, i). (scope_order t, i))
       (remdups (map (\<lambda>mb. (mb_scope_type mb, mb_scope_id mb)) (filter (membership_active now userID) (memberships db))))"

definition client_parent :: "auth_db \<Rightarrow> string \<Rightarrow> string option" where
  "client_parent db clientID = map_option co_msp_id (find (\<lambda>c. co_id c = clientID) (clients db))"

definition site_parent :: "auth_db \<Rightarrow> string \<Rightarrow> string option" where
  "site_parent db siteID = map_option si_client_id (find (\<lambda>s. si_id s = siteID) (sites db))"

definition candidate_scope :: "auth_db \<Rightarrow> string \<times> string \<Rightarrow> (string \<times> string \<times> string) option" where
  "candidate_scope db = (\<lambda>(t, i).
     if t = ScopeMSP then Some (i, [], [])
     else if t = ScopeClient then map_option (\<lambda>m. (m, i, [])) (client_parent db i)
     else if t = ScopeSite then
       (case site_parent db i of
          None \<Rightarrow> None
        | Some c \<Rightarrow> map_option (\<lambda>m. (m, c, i)) (client_parent db c))
     else None)"

type_synonym scope_io = "string \<times> string \<times> string \<Rightarrow> bool \<times> bool"

definition attempt_scope :: "scope_io \<Rightarrow> int \<Rightarrow> auth_db \<Rightarrow> string \<Rightarrow> string \<times> string \<times> string \<Rightarrow> auth_error + AuthorizationResult" where
  "attempt_scope io now db userID claim =
     (case claim of (m, c, s) \<Rightarrow> resolveAuthorization (fst (io claim)) (snd (io claim)) now db userID m c s)"

fun first_candidate ::
  "scope_io \<Rightarrow> int \<Rightarrow> auth_db \<Rightarrow> string \<Rightarrow> (string \<times> string) list \<Rightarrow> auth_error + AuthorizationResult" where
  "first_candidate io now db userID [] = Inl NoMembership"
| "first_candidate io now db userID (cand # cands) =
     (case candidate_scope db cand of
        None \<Rightarrow> first_candidate io now db userID cands
      | Some claim \<Rightarrow>
          (case attempt_scope io now db userID claim of
             Inr a \<Rightarrow> Inr a
           | Inl _ \<Rightarrow> first_candidate io now db userID cands))"

definition resolveInitialAuthorization ::
  "scope_io \<Rightarrow> bool \<Rightarrow> int \<Rightarrow> auth_db \<Rightarrow> string \<Rightarrow> string \<Rightarrow> auth_error + AuthorizationResult" where
  "resolveInitialAuthorization io ok_candidates now db userID legacyTenantID =
     (case attempt_scope io now db userID ([], [], []) of
        Inr a \<Rightarrow> Inr a
      | Inl _ \<Rightarrow>
          let rest = (if ok_candidates then first_candidate io now db userID (membership_candidates now userID db)
                      else Inl MembershipsUnavailable)
          in if legacyTenantID = [] then rest
             else (case client_msp db legacyTenantID of
                     None \<Rightarrow> rest
                   | Some mspID \<Rightarrow>
                       (case attempt_scope io now db userID (mspID, legacyTenantID, []) of
                          Inr a \<Rightarrow> Inr a
                        | Inl _ \<Rightarrow> rest)))"

section \<open>Support grants\<close>

record auth_request =
  rMethod :: string
  rUserID :: string
  rSupportGrantID :: string
  rAuthorization :: AuthorizationResult

definition supportGrantAllows :: "bool \<Rightarrow> int \<Rightarrow> auth_db \<Rightarrow> auth_request \<Rightarrow> string \<Rightarrow> bool" where
  "supportGrantAllows ok now db r mspID =
     (if rSupportGrantID r = [] \<or> rUserID r = [] \<or> mspID = [] then False
      else
        let requiredPermission = (if rMethod r \<noteq> ''GET'' \<and> rMethod r \<noteq> ''HEAD'' then ''write'' else ''read'')
        in ok \<and> list_ex (\<lambda>g. sg_id g = rSupportGrantID r \<and> sg_platform_user_id g = rUserID r \<and> sg_msp_id g = mspID
             \<and> sg_status g = ''active'' \<and> sg_revoked_at g = None \<and> now < sg_expires_at g
             \<and> list_ex (\<lambda>m. m_id m = mspID \<and> m_is_active m) (msps db)
             \<and> List.member (sg_permissions g) requiredPermission) (support_grants db))"

section \<open>Checks on resources\<close>

definition canManageMSPAtSelectedScope :: "AuthorizationResult \<Rightarrow> string \<Rightarrow> bool" where
  "canManageMSPAtSelectedScope a mspID =
     (let t = sType (aSelected a)
      in if t = ScopePlatform then IsPlatformGlobal a
         else if t = ScopeMSP then
           sMSPID (aSelected a) = mspID \<and> HasRole a [''platform_owner'', ''platform_admin'', ''msp_owner'', ''msp_admin'']
         else False)"

definition canReadMSPAtSelectedScope :: "AuthorizationResult \<Rightarrow> string \<Rightarrow> bool" where
  "canReadMSPAtSelectedScope a mspID =
     (let t = sType (aSelected a)
      in if t = ScopePlatform then IsPlatformGlobal a
         else if t = ScopeMSP then
           sMSPID (aSelected a) = mspID \<and> (HasRole a [''platform_owner'', ''platform_admin''] \<or> hasMSPRole (aRoles a))
         else False)"

definition AuthorizeMSPAccess :: "bool \<Rightarrow> int \<Rightarrow> auth_db \<Rightarrow> auth_request \<Rightarrow> string \<Rightarrow> bool" where
  "AuthorizeMSPAccess ok now db r mspID =
     (let a = rAuthorization r
      in if mspID = [] then False
         else if \<not> ok \<or> \<not> msp_open db mspID then False
         else if canReadMSPAtSelectedScope a mspID then True
         else sType (aSelected a) = ScopeMSP \<and> sMSPID (aSelected a) = mspID \<and> HasRole a [''platform_support'']
              \<and> supportGrantAllows ok now db r mspID)"

definition AuthorizeMSPManage :: "bool \<Rightarrow> auth_db \<Rightarrow> auth_request \<Rightarrow> string \<Rightarrow> bool" where
  "AuthorizeMSPManage ok db r mspID =
     (if mspID = [] then False
      else if \<not> canManageMSPAtSelectedScope (rAuthorization r) mspID then False
      else ok \<and> msp_open db mspID)"

definition authorizeClientManage :: "bool \<Rightarrow> auth_db \<Rightarrow> auth_request \<Rightarrow> string \<Rightarrow> string option" where
  "authorizeClientManage ok db r clientID =
     (if clientID = [] then None
      else case (if ok then client_msp db clientID else None) of
        None \<Rightarrow> None
      | Some mspID \<Rightarrow>
          let a = rAuthorization r; t = sType (aSelected a);
              allowed = (if t = ScopePlatform then IsPlatformGlobal a
                         else if t = ScopeMSP then sMSPID (aSelected a) = mspID
                           \<and> HasRole a [''platform_owner'', ''platform_admin'', ''msp_owner'', ''msp_admin'']
                         else if t = ScopeClient then sClientID (aSelected a) = clientID \<and> HasRole a [''client_admin'']
                         else False)
          in if allowed then Some mspID else None)"

definition authorizeSiteManage :: "bool \<Rightarrow> auth_db \<Rightarrow> auth_request \<Rightarrow> string \<Rightarrow> string option" where
  "authorizeSiteManage ok db r siteID =
     (if siteID = [] then None
      else case (if ok then site_ancestry db siteID else None) of
        None \<Rightarrow> None
      | Some (mspID, clientID) \<Rightarrow>
          let a = rAuthorization r; t = sType (aSelected a);
              allowed = (if t = ScopePlatform then IsPlatformGlobal a
                         else if t = ScopeMSP then sMSPID (aSelected a) = mspID
                           \<and> HasRole a [''platform_owner'', ''platform_admin'', ''msp_owner'', ''msp_admin'']
                         else if t = ScopeClient then sClientID (aSelected a) = clientID \<and> HasRole a [''client_admin'']
                         else if t = ScopeSite then sSiteID (aSelected a) = siteID \<and> HasRole a [''client_admin'']
                         else False)
          in if allowed then Some mspID else None)"

definition AuthorizeClientManage :: "bool \<Rightarrow> auth_db \<Rightarrow> auth_request \<Rightarrow> string \<Rightarrow> bool" where
  "AuthorizeClientManage ok db r clientID = (if clientID = [] then False else authorizeClientManage ok db r clientID \<noteq> None)"

definition AuthorizeClientAccess :: "bool \<Rightarrow> int \<Rightarrow> auth_db \<Rightarrow> auth_request \<Rightarrow> string \<Rightarrow> bool" where
  "AuthorizeClientAccess ok now db r clientID =
     (if clientID = [] then False
      else case (if ok then client_msp db clientID else None) of
        None \<Rightarrow> False
      | Some mspID \<Rightarrow>
          let a = rAuthorization r; t = sType (aSelected a);
              allowed = (if t = ScopePlatform then IsPlatformGlobal a
                         else if t = ScopeMSP then sMSPID (aSelected a) = mspID
                           \<and> (HasRole a [''platform_owner'', ''platform_admin''] \<or> hasMSPRole (aRoles a))
                         else if t = ScopeClient then sClientID (aSelected a) = clientID
                         else False)
          in allowed \<or> (t = ScopeMSP \<and> sMSPID (aSelected a) = mspID \<and> HasRole a [''platform_support'']
                         \<and> supportGrantAllows ok now db r mspID))"

definition AuthorizeSiteAccess :: "bool \<Rightarrow> int \<Rightarrow> auth_db \<Rightarrow> auth_request \<Rightarrow> string \<Rightarrow> bool" where
  "AuthorizeSiteAccess ok now db r siteID =
     (if siteID = [] then False
      else case (if ok then site_ancestry db siteID else None) of
        None \<Rightarrow> False
      | Some (mspID, clientID) \<Rightarrow>
          let a = rAuthorization r; t = sType (aSelected a);
              allowed = (if t = ScopePlatform then IsPlatformGlobal a
                         else if t = ScopeMSP then sMSPID (aSelected a) = mspID
                           \<and> (HasRole a [''platform_owner'', ''platform_admin''] \<or> hasMSPRole (aRoles a))
                         else if t = ScopeClient then sClientID (aSelected a) = clientID
                         else if t = ScopeSite then sSiteID (aSelected a) = siteID
                         else False)
          in allowed \<or> (t = ScopeMSP \<and> sMSPID (aSelected a) = mspID \<and> HasRole a [''platform_support'']
                         \<and> supportGrantAllows ok now db r mspID))"

datatype ancestry_error = DeviceQueryFailed | DevicesNotInScope nat nat

definition ValidateDeviceAncestry ::
  "bool \<Rightarrow> auth_db \<Rightarrow> string list \<Rightarrow> string \<Rightarrow> ancestry_error + (string \<times> string \<times> string) list" where
  "ValidateDeviceAncestry ok db deviceIDs authorizedMSPID =
     (if deviceIDs = [] then Inr []
      else
        let unique = foldl appendUnique [] deviceIDs;
            owners = map (\<lambda>d. (do_msp_id d, case do_client_id d of None \<Rightarrow> [] | Some c \<Rightarrow> c, case do_site_id d of None \<Rightarrow> [] | Some x \<Rightarrow> x))
                       (filter (\<lambda>d. List.member unique (do_id d) \<and> do_msp_id d = authorizedMSPID) (owned_devices db))
        in if \<not> ok then Inl DeviceQueryFailed
           else if length owners \<noteq> length unique then Inl (DevicesNotInScope (length owners) (length unique))
           else Inr owners)"

end
