(* ===== verification/AuthorizationPolicy.thy ===== *)
theory AuthorizationPolicy
  imports Authorization
begin

text \<open>
  What the authorization checks promise: a policy over the memberships and the active hierarchy, and the proofs that resolution computes
  exactly the roles the policy gives, that the management checks are equivalent to it and that the access checks stay within it.
\<close>

section \<open>The policy\<close>

text \<open>Who holds which role where, and which scopes cover a resource: the resource itself and its ancestors, while all of them are active.\<close>

definition member_with :: "auth_db \<Rightarrow> int \<Rightarrow> string \<Rightarrow> string \<times> string \<Rightarrow> string \<Rightarrow> bool" where
  "member_with db now userID scope role \<longleftrightarrow>
     list_ex (\<lambda>mb. membership_active now userID mb \<and> (mb_scope_type mb, mb_scope_id mb) = scope \<and> mb_role mb = role) (memberships db)
     \<and> validRoleForScope (fst scope) role"

datatype resource = MspResource string | ClientResource string | SiteResource string

fun covering :: "auth_db \<Rightarrow> resource \<Rightarrow> (string \<times> string) list" where
  "covering db (MspResource m) =
     (if msp_open db m then [(ScopePlatform, SingletonPlatformID), (ScopeMSP, m)] else [])"
| "covering db (ClientResource c) =
     (case client_msp db c of None \<Rightarrow> []
      | Some m \<Rightarrow> [(ScopePlatform, SingletonPlatformID), (ScopeMSP, m), (ScopeClient, c)])"
| "covering db (SiteResource s) =
     (case site_ancestry db s of None \<Rightarrow> []
      | Some (m, c) \<Rightarrow> [(ScopePlatform, SingletonPlatformID), (ScopeMSP, m), (ScopeClient, c), (ScopeSite, s)])"

definition managing_roles :: "string list" where
  "managing_roles = [''platform_owner'', ''platform_admin'', ''msp_owner'', ''msp_admin'', ''client_admin'']"

definition may_access :: "auth_db \<Rightarrow> int \<Rightarrow> string \<Rightarrow> resource \<Rightarrow> bool" where
  "may_access db now userID res \<longleftrightarrow> (\<exists>scope \<in> set (covering db res). \<exists>role. member_with db now userID scope role)"

definition may_manage :: "auth_db \<Rightarrow> int \<Rightarrow> string \<Rightarrow> resource \<Rightarrow> bool" where
  "may_manage db now userID res \<longleftrightarrow>
     (\<exists>scope \<in> set (covering db res). \<exists>role \<in> set managing_roles. member_with db now userID scope role)"

fun AuthorizeManage :: "bool \<Rightarrow> auth_db \<Rightarrow> auth_request \<Rightarrow> resource \<Rightarrow> bool" where
  "AuthorizeManage ok db r (MspResource m) = AuthorizeMSPManage ok db r m"
| "AuthorizeManage ok db r (ClientResource c) = AuthorizeClientManage ok db r c"
| "AuthorizeManage ok db r (SiteResource s) = (authorizeSiteManage ok db r s \<noteq> None)"

fun AuthorizeAccess :: "bool \<Rightarrow> int \<Rightarrow> auth_db \<Rightarrow> auth_request \<Rightarrow> resource \<Rightarrow> bool" where
  "AuthorizeAccess ok now db r (MspResource m) = AuthorizeMSPAccess ok now db r m"
| "AuthorizeAccess ok now db r (ClientResource c) = AuthorizeClientAccess ok now db r c"
| "AuthorizeAccess ok now db r (SiteResource s) = AuthorizeSiteAccess ok now db r s"

section \<open>Effective roles\<close>

text \<open>The selected scope with its ancestors.\<close>

definition scope_path :: "AuthorizationScope \<Rightarrow> (string \<times> string) list" where
  "scope_path sel =
     (ScopePlatform, SingletonPlatformID) #
     (if sType sel = ScopePlatform then []
      else (ScopeMSP, sMSPID sel) #
        (if sType sel = ScopeMSP then []
         else (ScopeClient, sClientID sel) # (if sType sel = ScopeClient then [] else [(ScopeSite, sSiteID sel)])))"

definition scope_proven :: "auth_db \<Rightarrow> AuthorizationScope \<Rightarrow> bool" where
  "scope_proven db sel \<longleftrightarrow>
     (sType sel = ScopePlatform \<and> sID sel = SingletonPlatformID)
   \<or> (sType sel = ScopeMSP \<and> sID sel = sMSPID sel \<and> msp_open db (sMSPID sel))
   \<or> (sType sel = ScopeClient \<and> sID sel = sClientID sel \<and> client_msp db (sClientID sel) = Some (sMSPID sel))
   \<or> (sType sel = ScopeSite \<and> sID sel = sSiteID sel \<and> site_ancestry db (sSiteID sel) = Some (sMSPID sel, sClientID sel))"

lemma resolveSelectedScope_proven: "resolveSelectedScope ok db m c s = Inr sel \<Longrightarrow> scope_proven db sel"
  by (auto simp: resolveSelectedScope_def scope_proven_def Let_def split: if_splits)

lemma scope_types: "scope_proven db sel \<Longrightarrow> sType sel \<in> {ScopePlatform, ScopeMSP, ScopeClient, ScopeSite}"
  by (auto simp: scope_proven_def)

lemmas role_tables = validRoleForScope_def platformRoleFlowsTo_def mspRoleFlowsTo_def clientRoleFlowsTo_def List.member_iff

text \<open>A role that is valid where it was given flows down, and nowhere else.\<close>

lemma applies_iff:
  assumes "scope_proven db sel" "validRoleForScope t role"
  shows "membershipAppliesToSelectedScope t i role sel \<longleftrightarrow> (t, i) \<in> set (scope_path sel)"
proof -
  have ty: "sType sel \<in> {ScopePlatform, ScopeMSP, ScopeClient, ScopeSite}" by (rule scope_types) fact
  consider "t = ScopePlatform" | "t = ScopeMSP" | "t = ScopeClient" | "t = ScopeSite"
    using assms(2) by (auto simp: validRoleForScope_def split: if_splits)
  then show ?thesis
    by cases (use ty assms(2) in \<open>auto simp: membershipAppliesToSelectedScope_def scope_path_def role_tables\<close>)
qed

lemma set_foldl_appendUnique:
  "set (foldl (\<lambda>vs x. appendUnique vs (f x)) vs xs) = set vs \<union> f ` set xs"
  by (induction xs arbitrary: vs) (auto simp: appendUnique_def list_ex_iff)

lemma newAuthorizationResult_simps [simp]:
  "aSelected (newAuthorizationResult scope grants) = scope"
  "set (aGrants (newAuthorizationResult scope grants)) = set grants"
  "set (aRoles (newAuthorizationResult scope grants)) = gRole ` set grants"
  "aPermissions (newAuthorizationResult scope grants) = permissionsForRoles (aRoles (newAuthorizationResult scope grants))"
  by (simp_all add: newAuthorizationResult_def Let_def set_foldl_appendUnique)

lemma resolveAuthorization_grants:
  assumes "resolveAuthorization ok okm now db userID m c s = Inr a"
  shows "scope_proven db (aSelected a)"
    and "g \<in> set (aGrants a) \<longleftrightarrow>
      (\<exists>t i role. (t, i) \<in> set (scope_path (aSelected a)) \<and> member_with db now userID (t, i) role
        \<and> g = \<lparr>gRole = role, gSourceType = t, gSourceID = i,
               gInherited = (t \<noteq> sType (aSelected a) \<or> i \<noteq> sID (aSelected a))\<rparr>)"
    and "set (aRoles a) = gRole ` set (aGrants a)" and "aRoles a \<noteq> []"
    and "aPermissions a = permissionsForRoles (aRoles a)"
proof -
  obtain scope where sc: "resolveSelectedScope ok db m c s = Inr scope" and sel: "aSelected a = scope"
    using assms by (auto simp: resolveAuthorization_def Let_def split: sum.splits if_splits)
  then show proven: "scope_proven db (aSelected a)" using resolveSelectedScope_proven by blast
  show "set (aRoles a) = gRole ` set (aGrants a)" "aRoles a \<noteq> []" "aPermissions a = permissionsForRoles (aRoles a)"
    using assms sc by (auto simp: resolveAuthorization_def Let_def split: if_splits)
  have grants: "set (aGrants a) = (\<lambda>mb. \<lparr>gRole = mb_role mb, gSourceType = mb_scope_type mb, gSourceID = mb_scope_id mb,
        gInherited = (mb_scope_type mb \<noteq> sType scope \<or> mb_scope_id mb \<noteq> sID scope)\<rparr>) `
      {mb \<in> set (memberships db). membership_active now userID mb \<and> validRoleForScope (mb_scope_type mb) (mb_role mb)
        \<and> membershipAppliesToSelectedScope (mb_scope_type mb) (mb_scope_id mb) (mb_role mb) scope}"
    using assms sc by (auto simp: resolveAuthorization_def Let_def active_memberships_def split: if_splits)
  show "g \<in> set (aGrants a) \<longleftrightarrow>
      (\<exists>t i role. (t, i) \<in> set (scope_path (aSelected a)) \<and> member_with db now userID (t, i) role
        \<and> g = \<lparr>gRole = role, gSourceType = t, gSourceID = i,
               gInherited = (t \<noteq> sType (aSelected a) \<or> i \<noteq> sID (aSelected a))\<rparr>)"
    unfolding grants sel using applies_iff [OF proven [unfolded sel]]
    by (auto simp: member_with_def list_ex_iff image_iff)
qed

lemma resolved_roles:
  assumes "resolveAuthorization ok okm now db userID m c s = Inr a"
  shows "role \<in> set (aRoles a) \<longleftrightarrow> (\<exists>scope \<in> set (scope_path (aSelected a)). member_with db now userID scope role)"
proof
  note g = resolveAuthorization_grants [OF assms]
  show "role \<in> set (aRoles a) \<Longrightarrow> \<exists>scope \<in> set (scope_path (aSelected a)). member_with db now userID scope role"
    unfolding g(3) by (auto simp: g(2)) blast
  assume "\<exists>scope \<in> set (scope_path (aSelected a)). member_with db now userID scope role"
  then obtain t i where "(t, i) \<in> set (scope_path (aSelected a))" "member_with db now userID (t, i) role" by auto
  then have "\<lparr>gRole = role, gSourceType = t, gSourceID = i,
       gInherited = (t \<noteq> sType (aSelected a) \<or> i \<noteq> sID (aSelected a))\<rparr> \<in> set (aGrants a)"
    unfolding g(2) by blast
  then show "role \<in> set (aRoles a)" unfolding g(3) by (force simp: image_iff)
qed

text \<open>
  C18. The effective authorization of a request: its selected scope is active with all its ancestors in the database, and its
  roles are exactly the roles the user currently holds in that scope or in one of its ancestors; no role flows upwards or
  to a sibling. Its permissions are those of the roles.
\<close>

theorem effective_authorization:
  assumes "resolveAuthorization ok ok_members now db userID mspID clientID siteID = Inr a"
  shows "scope_proven db (aSelected a)
    \<and> set (aRoles a) = {role. \<exists>scope \<in> set (scope_path (aSelected a)). member_with db now userID scope role}
    \<and> aRoles a \<noteq> []
    \<and> set (aPermissions a) = (\<Union>role \<in> set (aRoles a). set (rolePermissions role))"
proof -
  note g = resolveAuthorization_grants [OF assms]
  have "set (aRoles a) = {role. \<exists>scope \<in> set (scope_path (aSelected a)). member_with db now userID scope role}"
    using resolved_roles [OF assms] by blast
  with g show ?thesis by (simp add: permissionsForRoles_def)
qed

section \<open>Checks refine the policy\<close>

lemma in_set_not_Nil: "x \<in> set xs \<Longrightarrow> xs \<noteq> []"
  by auto

lemma HasRole_iff: "HasRole a wanted \<longleftrightarrow> (\<exists>role \<in> set wanted. role \<in> set (aRoles a))"
  by (auto simp: HasRole_def list_ex_iff)

lemma platform_global_member:
  assumes "resolveAuthorization ok okm now db userID m c s = Inr a"
  shows "IsPlatformGlobal a \<longleftrightarrow> sType (aSelected a) = ScopePlatform
    \<and> (\<exists>role \<in> {''platform_owner'', ''platform_admin''}. member_with db now userID (ScopePlatform, SingletonPlatformID) role)"
proof -
  note g = resolveAuthorization_grants [OF assms]
  have "HasGrant a ScopePlatform [''platform_owner'', ''platform_admin''] \<longleftrightarrow>
      (\<exists>role \<in> {''platform_owner'', ''platform_admin''}. member_with db now userID (ScopePlatform, SingletonPlatformID) role)"
    (is "?L \<longleftrightarrow> ?R")
  proof
    assume ?L
    then obtain grant where "grant \<in> set (aGrants a)" "gSourceType grant = ScopePlatform"
      "gRole grant \<in> {''platform_owner'', ''platform_admin''}" by (auto simp: HasGrant_def list_ex_iff)
    then show ?R by (auto simp: g(2) scope_path_def split: if_splits)
  next
    assume ?R
    then obtain role where "role \<in> {''platform_owner'', ''platform_admin''}"
      "member_with db now userID (ScopePlatform, SingletonPlatformID) role" by blast
    moreover from this(2) have "\<lparr>gRole = role, gSourceType = ScopePlatform, gSourceID = SingletonPlatformID,
       gInherited = (ScopePlatform \<noteq> sType (aSelected a) \<or> SingletonPlatformID \<noteq> sID (aSelected a))\<rparr> \<in> set (aGrants a)"
      unfolding g(2) by (auto simp: scope_path_def)
    ultimately show ?L unfolding HasGrant_def list_ex_iff by force
  qed
  moreover have "sType (aSelected a) = ScopePlatform \<Longrightarrow> sID (aSelected a) = SingletonPlatformID"
    using g(1) by (auto simp: scope_proven_def)
  ultimately show ?thesis by (auto simp: IsPlatformGlobal_def)
qed

lemma site_ancestry_client: "site_ancestry db s = Some (m, c) \<Longrightarrow> client_msp db c = Some m"
  by (auto simp: site_ancestry_def split: option.splits)

lemma client_msp_open: "client_msp db c = Some m \<Longrightarrow> msp_open db m"
  by (auto simp: client_msp_def find_Some_iff)

lemma covering_platform: "scope \<in> set (covering db res) \<Longrightarrow> (ScopePlatform, SingletonPlatformID) \<in> set (covering db res)"
  by (cases res) (auto split: if_splits option.splits)

text \<open>A selection that a check accepts is the resource or one of its ancestors.\<close>

definition selects :: "auth_db \<Rightarrow> AuthorizationScope \<Rightarrow> resource \<Rightarrow> bool" where
  "selects db sel res \<longleftrightarrow> set (scope_path sel) \<subseteq> set (covering db res)"

lemma manage_by_role:
  assumes "resolveAuthorization ok okm now db userID m c s = Inr a" "selects db (aSelected a) res" "HasRole a managing_roles"
  shows "may_manage db now userID res"
  using assms(2,3) unfolding may_manage_def selects_def HasRole_iff resolved_roles [OF assms(1)] by blast

lemma access_by_role:
  assumes "resolveAuthorization ok okm now db userID m c s = Inr a" "selects db (aSelected a) res"
  shows "may_access db now userID res"
proof -
  obtain role where "role \<in> set (aRoles a)"
    using resolveAuthorization_grants(4) [OF assms(1)] by (cases "aRoles a") auto
  with assms(2) show ?thesis unfolding may_access_def selects_def resolved_roles [OF assms(1)] by blast
qed

lemma manage_selects:
  assumes "scope_proven db (aSelected a)" "AuthorizeManage ok db r res" "rAuthorization r = a"
  shows "covering db res \<noteq> [] \<and> (IsPlatformGlobal a \<or> (selects db (aSelected a) res \<and> HasRole a managing_roles))"
proof (cases res)
  case (MspResource m)
  with assms show ?thesis
    by (auto simp: AuthorizeMSPManage_def canManageMSPAtSelectedScope_def selects_def scope_path_def HasRole_iff managing_roles_def
        Let_def split: if_splits)
next
  case (ClientResource c)
  with assms show ?thesis
    by (auto simp: AuthorizeClientManage_def authorizeClientManage_def selects_def scope_path_def HasRole_iff managing_roles_def
        scope_proven_def Let_def split: if_splits option.splits)
next
  case (SiteResource s)
  then obtain m c where anc: "site_ancestry db s = Some (m, c)"
    using assms(2) by (auto simp: authorizeSiteManage_def split: if_splits option.splits)
  with SiteResource assms site_ancestry_client [OF anc] show ?thesis
    by (auto simp: authorizeSiteManage_def selects_def scope_path_def HasRole_iff managing_roles_def
        scope_proven_def Let_def split: if_splits)
qed

lemma access_selects:
  assumes "scope_proven db (aSelected (rAuthorization r))" "AuthorizeAccess ok now db r res"
  shows "covering db res \<noteq> [] \<and> (IsPlatformGlobal (rAuthorization r) \<or> selects db (aSelected (rAuthorization r)) res)"
proof (cases res)
  case (MspResource m)
  let ?a = "rAuthorization r"
  from assms(2) MspResource have "msp_open db m \<and> (canReadMSPAtSelectedScope ?a m
      \<or> (sType (aSelected ?a) = ScopeMSP \<and> sMSPID (aSelected ?a) = m))"
    by (simp only: AuthorizeAccess.simps AuthorizeMSPAccess_def Let_def split: if_split_asm) blast+
  moreover have "canReadMSPAtSelectedScope ?a m \<Longrightarrow>
      IsPlatformGlobal ?a \<or> (sType (aSelected ?a) = ScopeMSP \<and> sMSPID (aSelected ?a) = m)"
    by (simp only: canReadMSPAtSelectedScope_def Let_def split: if_split_asm) blast+
  ultimately have "msp_open db m" "IsPlatformGlobal ?a \<or> (sType (aSelected ?a) = ScopeMSP \<and> sMSPID (aSelected ?a) = m)"
    by blast+
  with MspResource show ?thesis by (auto simp: selects_def scope_path_def)
next
  case (ClientResource c)
  then obtain m where anc: "client_msp db c = Some m"
    using assms(2) by (auto simp: AuthorizeClientAccess_def split: if_splits option.splits)
  with ClientResource assms show ?thesis
    by (auto simp: AuthorizeClientAccess_def selects_def scope_path_def scope_proven_def Let_def split: if_splits)
next
  case (SiteResource s)
  then obtain m c where anc: "site_ancestry db s = Some (m, c)"
    using assms(2) by (auto simp: AuthorizeSiteAccess_def split: if_splits option.splits)
  with SiteResource assms site_ancestry_client [OF anc] show ?thesis
    by (auto simp: AuthorizeSiteAccess_def selects_def scope_path_def scope_proven_def Let_def split: if_splits)
qed

definition request_as :: "string \<Rightarrow> string \<Rightarrow> string \<Rightarrow> AuthorizationResult \<Rightarrow> auth_request" where
  "request_as meth userID grantID a = \<lparr>rMethod = meth, rUserID = userID, rSupportGrantID = grantID, rAuthorization = a\<rparr>"

lemma request_as_simps [simp]:
  "rAuthorization (request_as meth userID grantID a) = a" "rUserID (request_as meth userID grantID a) = userID"
  "rSupportGrantID (request_as meth userID grantID a) = grantID" "rMethod (request_as meth userID grantID a) = meth"
  by (simp_all add: request_as_def)

lemma manage_sound:
  assumes "resolveAuthorization ok okm now db userID m c s = Inr a" "AuthorizeManage ok' db (request_as meth userID grantID a) res"
  shows "may_manage db now userID res"
proof -
  from manage_selects [OF resolveAuthorization_grants(1) [OF assms(1)] assms(2)]
  consider (global) "covering db res \<noteq> []" "IsPlatformGlobal a" | (role) "selects db (aSelected a) res" "HasRole a managing_roles"
    by auto
  then show ?thesis
  proof cases
    case global
    then have "(ScopePlatform, SingletonPlatformID) \<in> set (covering db res)"
      using covering_platform [of "hd (covering db res)" db res] by simp
    with global(2) show ?thesis
      unfolding platform_global_member [OF assms(1)] may_manage_def managing_roles_def by auto
  next
    case role
    then show ?thesis using manage_by_role [OF assms(1)] by blast
  qed
qed

text \<open>With a membership in a scope that exists, selecting that scope succeeds.\<close>

lemma select_with_membership:
  assumes "resolveSelectedScope True db m c s = Inr sel" "(t, i) \<in> set (scope_path sel)" "member_with db now userID (t, i) role"
  shows "\<exists>a. resolveAuthorization True True now db userID m c s = Inr a \<and> aSelected a = sel \<and> role \<in> set (aRoles a)"
proof -
  let ?mbs = "filter (\<lambda>mb. validRoleForScope (mb_scope_type mb) (mb_role mb)
      \<and> membershipAppliesToSelectedScope (mb_scope_type mb) (mb_scope_id mb) (mb_role mb) sel) (active_memberships now userID db)"
  let ?a = "newAuthorizationResult sel (map (\<lambda>mb. \<lparr>gRole = mb_role mb, gSourceType = mb_scope_type mb, gSourceID = mb_scope_id mb,
      gInherited = (mb_scope_type mb \<noteq> sType sel \<or> mb_scope_id mb \<noteq> sID sel)\<rparr>) ?mbs)"
  obtain mb where "mb \<in> set (memberships db)" "membership_active now userID mb" "mb_scope_type mb = t" "mb_scope_id mb = i" "mb_role mb = role"
    "validRoleForScope t role" using assms(3) by (auto simp: member_with_def list_ex_iff)
  moreover from this have "membershipAppliesToSelectedScope t i role sel"
    using applies_iff [OF resolveSelectedScope_proven [OF assms(1)]] assms(2) by blast
  ultimately have "mb \<in> set ?mbs" by (simp add: active_memberships_def)
  then have role: "role \<in> set (aRoles ?a)" using \<open>mb_role mb = role\<close> by (force simp: image_iff)
  then have "aRoles ?a \<noteq> []" by (rule in_set_not_Nil)
  then have "resolveAuthorization True True now db userID m c s = Inr ?a"
    using assms(1) by (simp add: resolveAuthorization_def Let_def)
  with role show ?thesis by (intro exI [of _ ?a]) simp
qed

lemma ids_not_empty:
  assumes "auth_db_ok db"
  shows "msp_open db m \<Longrightarrow> m \<noteq> []" "client_msp db c = Some m \<Longrightarrow> c \<noteq> []" "site_ancestry db s = Some (m, c) \<Longrightarrow> s \<noteq> []"
  using assms
  by (auto simp: auth_db_ok_def msp_open_def client_msp_def site_ancestry_def list_all_iff list_ex_iff
      dest!: find_SomeD split: option.splits)

lemma select_platform:
  assumes "member_with db now userID (ScopePlatform, SingletonPlatformID) role"
  shows "\<exists>a. resolveAuthorization True True now db userID [] [] [] = Inr a \<and> sType (aSelected a) = ScopePlatform
    \<and> role \<in> set (aRoles a)"
proof -
  have "resolveSelectedScope True db [] [] [] = Inr \<lparr>sType = ScopePlatform, sID = SingletonPlatformID,
      sPlatformID = SingletonPlatformID, sMSPID = [], sClientID = [], sSiteID = []\<rparr>"
    by (simp add: resolveSelectedScope_def)
  from select_with_membership [OF this _ assms] show ?thesis by (force simp: scope_path_def)
qed

lemma select_msp:
  assumes "msp_open db m" "m \<noteq> []" "member_with db now userID scope role"
    "scope = (ScopeMSP, m) \<or> scope = (ScopePlatform, SingletonPlatformID)"
  shows "\<exists>a. resolveAuthorization True True now db userID m [] [] = Inr a \<and> sType (aSelected a) = ScopeMSP
    \<and> sMSPID (aSelected a) = m \<and> role \<in> set (aRoles a)"
proof -
  have "resolveSelectedScope True db m [] [] = Inr \<lparr>sType = ScopeMSP, sID = m,
      sPlatformID = SingletonPlatformID, sMSPID = m, sClientID = [], sSiteID = []\<rparr>"
    using assms(1,2) by (simp add: resolveSelectedScope_def)
  from select_with_membership [OF this, of "fst scope" "snd scope"] assms(3,4) show ?thesis by (force simp: scope_path_def)
qed

lemma select_client:
  assumes "client_msp db c = Some m" "m \<noteq> []" "c \<noteq> []" "member_with db now userID scope role"
    "scope \<in> {(ScopeClient, c), (ScopeMSP, m), (ScopePlatform, SingletonPlatformID)}"
  shows "\<exists>a. resolveAuthorization True True now db userID m c [] = Inr a \<and> sType (aSelected a) = ScopeClient
    \<and> sClientID (aSelected a) = c \<and> role \<in> set (aRoles a)"
proof -
  have "resolveSelectedScope True db m c [] = Inr \<lparr>sType = ScopeClient, sID = c,
      sPlatformID = SingletonPlatformID, sMSPID = m, sClientID = c, sSiteID = []\<rparr>"
    using assms(1-3) by (simp add: resolveSelectedScope_def)
  from select_with_membership [OF this, of "fst scope" "snd scope"] assms(4,5) show ?thesis by (force simp: scope_path_def)
qed

lemma select_site:
  assumes "site_ancestry db s = Some (m, c)" "m \<noteq> []" "c \<noteq> []" "s \<noteq> []" "member_with db now userID (ScopeSite, s) role"
  shows "\<exists>a. resolveAuthorization True True now db userID m c s = Inr a \<and> sType (aSelected a) = ScopeSite
    \<and> sSiteID (aSelected a) = s \<and> role \<in> set (aRoles a)"
proof -
  have "resolveSelectedScope True db m c s = Inr \<lparr>sType = ScopeSite, sID = s,
      sPlatformID = SingletonPlatformID, sMSPID = m, sClientID = c, sSiteID = s\<rparr>"
    using assms(1-4) by (simp add: resolveSelectedScope_def)
  from select_with_membership [OF this _ assms(5)] show ?thesis by (force simp: scope_path_def)
qed

lemma manage_by_selection:
  assumes ok: "auth_db_ok db" and cov: "(sType (aSelected a), i) \<in> set (covering db res)" and role: "role \<in> set (aRoles a)"
    and cases: "(sType (aSelected a) = ScopePlatform \<and> IsPlatformGlobal a)
      \<or> (sType (aSelected a) = ScopeMSP \<and> sMSPID (aSelected a) = i \<and> role \<in> {''msp_owner'', ''msp_admin''})
      \<or> (sType (aSelected a) = ScopeClient \<and> sClientID (aSelected a) = i \<and> role = ''client_admin'')
      \<or> (sType (aSelected a) = ScopeSite \<and> sSiteID (aSelected a) = i \<and> role = ''client_admin'')"
  shows "AuthorizeManage True db (request_as meth userID grantID a) res"
proof (cases res)
  case (MspResource m)
  with cov have op: "msp_open db m" by (auto split: if_splits)
  have "sType (aSelected a) = ScopePlatform \<or> (sType (aSelected a) = ScopeMSP \<and> i = m)"
    using cov MspResource op by auto
  with op cases role ids_not_empty(1) [OF ok op] show ?thesis unfolding MspResource
    by (auto simp: AuthorizeMSPManage_def canManageMSPAtSelectedScope_def HasRole_iff)
next
  case (ClientResource c)
  with cov obtain m where c: "client_msp db c = Some m" by (cases "client_msp db c") auto
  have "sType (aSelected a) = ScopePlatform \<or> (sType (aSelected a) = ScopeMSP \<and> i = m) \<or> (sType (aSelected a) = ScopeClient \<and> i = c)"
    using cov ClientResource c by auto
  with c cases role ids_not_empty(2) [OF ok c] show ?thesis unfolding ClientResource
    by (auto simp: AuthorizeClientManage_def authorizeClientManage_def HasRole_iff)
next
  case (SiteResource s)
  with cov obtain m c where s: "site_ancestry db s = Some (m, c)" by (cases "site_ancestry db s") auto
  have "sType (aSelected a) = ScopePlatform \<or> (sType (aSelected a) = ScopeMSP \<and> i = m)
      \<or> (sType (aSelected a) = ScopeClient \<and> i = c) \<or> (sType (aSelected a) = ScopeSite \<and> i = s)"
    using cov SiteResource s by auto
  with s cases role ids_not_empty(3) [OF ok s] show ?thesis unfolding SiteResource
    by (auto simp: authorizeSiteManage_def HasRole_iff)
qed

lemma covering_cases:
  assumes "scope \<in> set (covering db res)"
  shows "(\<exists>m. res = MspResource m \<and> msp_open db m) \<or> (\<exists>c m. res = ClientResource c \<and> client_msp db c = Some m)
    \<or> (\<exists>s m c. res = SiteResource s \<and> site_ancestry db s = Some (m, c))"
proof (cases res)
  case (ClientResource c)
  with assms show ?thesis by (cases "client_msp db c") auto
next
  case (SiteResource s)
  with assms show ?thesis by (cases "site_ancestry db s") auto
qed (use assms in \<open>auto split: if_splits\<close>)

lemma covering_ids:
  assumes "auth_db_ok db" "(t, i) \<in> set (covering db res)"
  shows "t = ScopePlatform \<Longrightarrow> i = SingletonPlatformID"
    and "t = ScopeMSP \<Longrightarrow> msp_open db i \<and> i \<noteq> []"
    and "t = ScopeClient \<Longrightarrow> \<exists>m. client_msp db i = Some m \<and> m \<noteq> [] \<and> i \<noteq> []"
    and "t = ScopeSite \<Longrightarrow> \<exists>m c. site_ancestry db i = Some (m, c) \<and> m \<noteq> [] \<and> c \<noteq> [] \<and> i \<noteq> []"
proof -
  have c: "m \<noteq> [] \<and> c \<noteq> [] \<and> msp_open db m" if "client_msp db c = Some m" for c m
    using that client_msp_open ids_not_empty [OF assms(1)] by blast
  have s: "client_msp db c = Some m \<and> s \<noteq> []" if "site_ancestry db s = Some (m, c)" for s m c
    using that site_ancestry_client ids_not_empty [OF assms(1)] by blast
  consider (msp) m where "res = MspResource m" "msp_open db m"
    | (client) c m where "res = ClientResource c" "client_msp db c = Some m"
    | (site) s m c where "res = SiteResource s" "site_ancestry db s = Some (m, c)"
    using covering_cases [OF assms(2)] by blast
  then have "(t = ScopePlatform \<longrightarrow> i = SingletonPlatformID) \<and> (t = ScopeMSP \<longrightarrow> msp_open db i \<and> i \<noteq> [])
      \<and> (t = ScopeClient \<longrightarrow> (\<exists>m. client_msp db i = Some m \<and> m \<noteq> [] \<and> i \<noteq> []))
      \<and> (t = ScopeSite \<longrightarrow> (\<exists>m c. site_ancestry db i = Some (m, c) \<and> m \<noteq> [] \<and> c \<noteq> [] \<and> i \<noteq> []))"
  proof cases
    case msp
    with assms(2) ids_not_empty(1) [OF assms(1) msp(2)] show ?thesis by auto
  next
    case (client x m)
    with assms(2) c [OF client(2)] show ?thesis by auto
  next
    case (site x m y)
    with assms(2) s [OF site(2)] c [of y m] show ?thesis by auto
  qed
  then show "t = ScopePlatform \<Longrightarrow> i = SingletonPlatformID"
    "t = ScopeMSP \<Longrightarrow> msp_open db i \<and> i \<noteq> []"
    "t = ScopeClient \<Longrightarrow> \<exists>m. client_msp db i = Some m \<and> m \<noteq> [] \<and> i \<noteq> []"
    "t = ScopeSite \<Longrightarrow> \<exists>m c. site_ancestry db i = Some (m, c) \<and> m \<noteq> [] \<and> c \<noteq> [] \<and> i \<noteq> []"
    by blast+
qed

lemma managing_role_cases:
  assumes "role \<in> set managing_roles" "validRoleForScope t role"
  shows "(t = ScopePlatform \<and> role \<in> {''platform_owner'', ''platform_admin''})
    \<or> (t = ScopeMSP \<and> role \<in> {''msp_owner'', ''msp_admin''}) \<or> (t = ScopeClient \<and> role = ''client_admin'')
    \<or> (t = ScopeSite \<and> role = ''client_admin'')"
  using assms by (auto simp: managing_roles_def validRoleForScope_def List.member_iff split: if_splits)

lemma manage_complete:
  assumes ok: "auth_db_ok db" and "may_manage db now userID res"
  shows "\<exists>m c s a. resolveAuthorization True True now db userID m c s = Inr a
    \<and> AuthorizeManage True db (request_as meth userID grantID a) res"
proof -
  obtain t i role where cov: "(t, i) \<in> set (covering db res)" and "role \<in> set managing_roles"
    and mem: "member_with db now userID (t, i) role" using assms(2) by (auto simp: may_manage_def)
  note ids = covering_ids [OF ok cov]
  from mem have "validRoleForScope t role" by (simp add: member_with_def)
  from managing_role_cases [OF \<open>role \<in> set managing_roles\<close> this]
  show ?thesis
  proof (elim disjE conjE)
    assume 1: "t = ScopePlatform" "role \<in> {''platform_owner'', ''platform_admin''}"
    then have mem': "member_with db now userID (ScopePlatform, SingletonPlatformID) role" using mem ids(1) by simp
    from select_platform [OF this] obtain a where a: "resolveAuthorization True True now db userID [] [] [] = Inr a"
      "sType (aSelected a) = ScopePlatform" "role \<in> set (aRoles a)" by blast
    then have "IsPlatformGlobal a" using mem' 1(2) platform_global_member [OF a(1)] by blast
    with manage_by_selection [OF ok, of a i res role] a cov 1(1) show ?thesis by (metis (no_types))
  next
    assume 2: "t = ScopeMSP" "role \<in> {''msp_owner'', ''msp_admin''}"
    from select_msp [OF _ _ mem] ids(2) 2 obtain a where a: "resolveAuthorization True True now db userID i [] [] = Inr a"
      "sType (aSelected a) = ScopeMSP" "sMSPID (aSelected a) = i" "role \<in> set (aRoles a)" by blast
    with manage_by_selection [OF ok, of a i res role] cov 2 show ?thesis by (metis (no_types))
  next
    assume 3: "t = ScopeClient" "role = ''client_admin''"
    from ids(3) [OF 3(1)] obtain m where m: "client_msp db i = Some m" "m \<noteq> []" "i \<noteq> []" by blast
    from select_client [OF this mem] 3 obtain a where a: "resolveAuthorization True True now db userID m i [] = Inr a"
      "sType (aSelected a) = ScopeClient" "sClientID (aSelected a) = i" "role \<in> set (aRoles a)" by blast
    with manage_by_selection [OF ok, of a i res role] cov 3 show ?thesis by (metis (no_types))
  next
    assume 4: "t = ScopeSite" "role = ''client_admin''"
    from ids(4) [OF 4(1)] obtain m c where m: "site_ancestry db i = Some (m, c)" "m \<noteq> []" "c \<noteq> []" "i \<noteq> []" by blast
    from select_site [OF this] mem 4 obtain a where a: "resolveAuthorization True True now db userID m c i = Inr a"
      "sType (aSelected a) = ScopeSite" "sSiteID (aSelected a) = i" "role \<in> set (aRoles a)" by blast
    with manage_by_selection [OF ok, of a i res role] cov 4 show ?thesis by (metis (no_types))
  qed
qed

definition example_auth_db :: auth_db where
  "example_auth_db = \<lparr>msps = [\<lparr>m_id = ''m'', m_is_active = True, m_onboarding_status = ''active''\<rparr>],
     clients = [\<lparr>co_id = ''c'', co_msp_id = ''m'', co_is_active = True\<rparr>],
     sites = [\<lparr>si_id = ''s'', si_client_id = ''c'', si_is_active = True\<rparr>],
     memberships = [
       \<lparr>mb_user_id = ''u'', mb_role = ''msp_admin'', mb_scope_type = ''msp'', mb_scope_id = ''m'', mb_status = ''active'', mb_expires_at = Some 100\<rparr>,
       \<lparr>mb_user_id = ''h'', mb_role = ''platform_support'', mb_scope_type = ''platform'',
        mb_scope_id = ''00000000-0000-0000-0000-000000000001'', mb_status = ''active'', mb_expires_at = None\<rparr>],
     support_grants = [],
     owned_devices = [\<lparr>do_id = ''d1'', do_msp_id = ''m'', do_client_id = Some ''c'', do_site_id = None\<rparr>,
                      \<lparr>do_id = ''d2'', do_msp_id = ''n'', do_client_id = None, do_site_id = None\<rparr>]\<rparr>"

lemma example_auth_db_ok: "auth_db_ok example_auth_db"
  by (simp add: auth_db_ok_def example_auth_db_def)

lemma example_client: "client_msp example_auth_db ''c'' = Some ''m''"
  by code_simp

lemma example_member: "member_with example_auth_db 50 ''u'' (ScopeMSP, ''m'') ''msp_admin''"
  by code_simp

lemma example_supporter: "member_with example_auth_db 50 ''h'' (ScopePlatform, SingletonPlatformID) ''platform_support''"
  by code_simp

definition example_authorization :: AuthorizationResult where
  "example_authorization = newAuthorizationResult
     \<lparr>sType = ScopeMSP, sID = ''m'', sPlatformID = SingletonPlatformID, sMSPID = ''m'', sClientID = [], sSiteID = []\<rparr>
     [\<lparr>gRole = ''msp_admin'', gSourceType = ScopeMSP, gSourceID = ''m'', gInherited = False\<rparr>]"

lemma example_resolved: "resolveAuthorization True True 50 example_auth_db ''u'' ''m'' [] [] = Inr example_authorization"
  by code_simp

theorem effective_authorization_witness:
  "set (aRoles example_authorization)
     = {role. \<exists>scope \<in> set (scope_path (aSelected example_authorization)). member_with example_auth_db 50 ''u'' scope role}"
  using effective_authorization [OF example_resolved] by blast

text \<open>
  C19. Management refines the policy: a user who selects some scope can manage a tenant, client or site exactly if the user
  holds a managing role in the resource or in one of its ancestors, and the resource with all its ancestors is active.
\<close>

theorem management_refines_policy:
  assumes "auth_db_ok db"
  shows "(\<exists>m c s a. resolveAuthorization True True now db userID m c s = Inr a
      \<and> AuthorizeManage True db (request_as meth userID grantID a) res) \<longleftrightarrow> may_manage db now userID res"
  using manage_sound [of True True now db userID] manage_complete [OF assms, of now userID res] by blast

theorem management_refines_policy_witness:
  "\<exists>m c s a. resolveAuthorization True True 50 example_auth_db ''u'' m c s = Inr a
      \<and> AuthorizeManage True example_auth_db (request_as ''POST'' ''u'' [] a) (SiteResource ''s'')"
proof -
  have "(ScopeMSP, ''m'') \<in> set (covering example_auth_db (SiteResource ''s''))" by code_simp
  with example_member have "may_manage example_auth_db 50 ''u'' (SiteResource ''s'')"
    unfolding may_manage_def managing_roles_def by auto
  then show ?thesis using management_refines_policy [OF example_auth_db_ok, of 50 "''u''" "''POST''" "[]"] by blast
qed

section \<open>Access and support grants\<close>

lemma support_grant_live:
  "supportGrantAllows ok now db r m \<Longrightarrow>
     \<exists>g \<in> set (support_grants db). sg_id g = rSupportGrantID r \<and> sg_platform_user_id g = rUserID r \<and> sg_msp_id g = m
       \<and> sg_status g = ''active'' \<and> now < sg_expires_at g
       \<and> (if rMethod r \<noteq> ''GET'' \<and> rMethod r \<noteq> ''HEAD'' then ''write'' else ''read'') \<in> set (sg_permissions g)"
  by (auto simp: supportGrantAllows_def Let_def list_ex_iff List.member_iff split: if_splits)

text \<open>At a tenant, an authorization that has only the support role is accepted for a live grant alone.\<close>

lemma support_needs_grant:
  assumes "AuthorizeAccess ok now db r res" "sType (aSelected (rAuthorization r)) = ScopeMSP"
    "set (aRoles (rAuthorization r)) \<subseteq> {''platform_support''}"
  shows "supportGrantAllows ok now db r (sMSPID (aSelected (rAuthorization r)))"
proof -
  let ?a = "rAuthorization r"
  have no: "\<not> HasRole ?a [''platform_owner'', ''platform_admin'']" "\<not> hasMSPRole (aRoles ?a)"
    using assms(3) by (auto simp: HasRole_iff hasMSPRole_def list_ex_iff List.member_iff)
  show ?thesis
  proof (cases res)
    case (MspResource m)
    with assms(1,2) no show ?thesis
      by (simp only: AuthorizeAccess.simps AuthorizeMSPAccess_def canReadMSPAtSelectedScope_def Let_def split: if_split_asm) blast+
  next
    case (ClientResource c)
    with assms(1,2) no show ?thesis
      by (auto simp: AuthorizeClientAccess_def Let_def split: if_splits option.splits)
  next
    case (SiteResource s)
    with assms(1,2) no show ?thesis
      by (auto simp: AuthorizeSiteAccess_def Let_def split: if_splits option.splits)
  qed
qed

text \<open>
  Access needs a membership: whoever a check admits to a tenant, client or site currently holds a role in that
  resource or in one of its ancestors, all of them active. Whoever has nothing but the support role and selected a tenant
  also has an unexpired grant for that tenant with the permission the method needs.
\<close>

theorem access_requires_membership:
  assumes "resolveAuthorization ok ok_members now db userID mspID clientID siteID = Inr a"
    and "AuthorizeAccess ok' now db (request_as meth userID grantID a) res"
  shows "may_access db now userID res
    \<and> (sType (aSelected a) = ScopeMSP \<and> set (aRoles a) \<subseteq> {''platform_support''} \<longrightarrow>
        (\<exists>g \<in> set (support_grants db). sg_id g = grantID \<and> sg_platform_user_id g = userID \<and> sg_msp_id g = sMSPID (aSelected a)
          \<and> sg_status g = ''active'' \<and> now < sg_expires_at g
          \<and> (if meth \<noteq> ''GET'' \<and> meth \<noteq> ''HEAD'' then ''write'' else ''read'') \<in> set (sg_permissions g)))"
proof
  from access_selects [OF _ assms(2)] resolveAuthorization_grants(1) [OF assms(1)]
  have "covering db res \<noteq> []" "IsPlatformGlobal a \<or> selects db (aSelected a) res" by auto
  moreover have "may_access db now userID res" if "IsPlatformGlobal a" "covering db res \<noteq> []"
    using that covering_platform [of "hd (covering db res)" db res]
    unfolding platform_global_member [OF assms(1)] may_access_def by auto
  ultimately show "may_access db now userID res" using access_by_role [OF assms(1)] by blast
  show "sType (aSelected a) = ScopeMSP \<and> set (aRoles a) \<subseteq> {''platform_support''} \<longrightarrow>
      (\<exists>g \<in> set (support_grants db). sg_id g = grantID \<and> sg_platform_user_id g = userID \<and> sg_msp_id g = sMSPID (aSelected a)
        \<and> sg_status g = ''active'' \<and> now < sg_expires_at g
        \<and> (if meth \<noteq> ''GET'' \<and> meth \<noteq> ''HEAD'' then ''write'' else ''read'') \<in> set (sg_permissions g))"
    using support_needs_grant [OF assms(2)] support_grant_live [of ok' now db "request_as meth userID grantID a"] by auto
qed

theorem access_requires_membership_witness:
  "may_access example_auth_db 50 ''u'' (ClientResource ''c'')"
proof -
  have "AuthorizeAccess True 50 example_auth_db (request_as ''GET'' ''u'' [] example_authorization) (ClientResource ''c'')"
    by code_simp
  from access_requires_membership [OF example_resolved this] show ?thesis by blast
qed

text \<open>
  Below the tenant no support grant is asked for: a support user who selects a client is admitted to it, for reading and
  for writing, without any grant.
\<close>

theorem support_without_grant:
  assumes "auth_db_ok db" "client_msp db c = Some m"
    and "member_with db now userID (ScopePlatform, SingletonPlatformID) ''platform_support''"
  shows "\<exists>a. resolveAuthorization True True now db userID m c [] = Inr a
    \<and> AuthorizeClientAccess True now db (request_as meth userID [] a) c"
proof -
  have ids: "m \<noteq> []" "c \<noteq> []" using assms(2) ids_not_empty [OF assms(1)] client_msp_open by blast+
  from select_client [OF assms(2) ids assms(3)] obtain a where "resolveAuthorization True True now db userID m c [] = Inr a"
    "sType (aSelected a) = ScopeClient" "sClientID (aSelected a) = c" by blast
  with assms(2) ids show ?thesis by (intro exI [of _ a]) (simp add: AuthorizeClientAccess_def)
qed

theorem support_without_grant_witness:
  "\<exists>a. resolveAuthorization True True 50 example_auth_db ''h'' ''m'' ''c'' [] = Inr a
    \<and> AuthorizeClientAccess True 50 example_auth_db (request_as ''POST'' ''h'' [] a) ''c''"
  by (rule support_without_grant [OF example_auth_db_ok example_client example_supporter])

section \<open>Sessions and devices\<close>

lemma attempt_resolved:
  "attempt_scope io now db userID claim = Inr a \<Longrightarrow> \<exists>ok okm m c s. resolveAuthorization ok okm now db userID m c s = Inr a"
  unfolding attempt_scope_def by (cases claim) (simp, blast)

lemma first_candidate_resolved:
  "first_candidate io now db userID cands = Inr a \<Longrightarrow> \<exists>ok okm m c s. resolveAuthorization ok okm now db userID m c s = Inr a"
  by (induction cands) (auto dest: attempt_resolved split: option.splits sum.splits)

text \<open>The scope a session starts in carries an authorization like any selected scope.\<close>

lemma initial_authorization_resolved:
  "resolveInitialAuthorization io ok now db userID legacy = Inr a \<Longrightarrow>
     \<exists>ok okm m c s. resolveAuthorization ok okm now db userID m c s = Inr a"
  by (auto simp: resolveInitialAuthorization_def Let_def dest: attempt_resolved first_candidate_resolved
      split: sum.splits if_splits option.splits)

lemma distinct_foldl_appendUnique: "distinct vs \<Longrightarrow> distinct (foldl appendUnique vs xs)"
  by (induction xs arbitrary: vs) (auto simp: appendUnique_def list_ex_iff)

text \<open>
  Device ancestry: when the identifiers of devices are unique, a request for devices passes only if every requested device
  exists and belongs to the authorized tenant.
\<close>

theorem device_ancestry:
  assumes "distinct (map do_id (owned_devices db))" "ValidateDeviceAncestry ok db deviceIDs mspID = Inr owners"
  shows "\<forall>i \<in> set deviceIDs. \<exists>d \<in> set (owned_devices db). do_id d = i \<and> do_msp_id d = mspID"
proof (cases "deviceIDs = []")
  case False
  let ?u = "foldl appendUnique [] deviceIDs"
  let ?rows = "filter (\<lambda>d. List.member ?u (do_id d) \<and> do_msp_id d = mspID) (owned_devices db)"
  have u: "set ?u = set deviceIDs" "distinct ?u"
    using set_foldl_appendUnique [of "\<lambda>x. x" "[]" deviceIDs] distinct_foldl_appendUnique [of "[]"] by simp_all
  have "length ?rows = length ?u"
    using assms(2) False by (simp add: ValidateDeviceAncestry_def Let_def split: if_splits)
  moreover have "distinct (map do_id ?rows)" using assms(1) by (rule distinct_map_filter)
  ultimately have "card (do_id ` set ?rows) = card (set ?u)"
    using u(2) distinct_card [of "map do_id ?rows"] distinct_card [of ?u] by simp
  moreover have "do_id ` set ?rows \<subseteq> set ?u" by (auto simp: List.member_iff)
  ultimately have "do_id ` set ?rows = set ?u" by (intro card_subset_eq) auto
  then have "set deviceIDs \<subseteq> do_id ` set ?rows" using u(1) by simp
  then show ?thesis by fastforce
qed simp

theorem device_ancestry_witness:
  "\<exists>d \<in> set (owned_devices example_auth_db). do_id d = ''d1'' \<and> do_msp_id d = ''m''"
proof -
  have "ValidateDeviceAncestry True example_auth_db [''d1'', ''d1''] ''m'' = Inr [(''m'', ''c'', [])]" by code_simp
  from device_ancestry [OF _ this] show ?thesis by (simp add: example_auth_db_def)
qed

end
