(* ===== verification/AccessControl.thy ===== *)
theory AccessControl
  imports Routes Tokens AuthorizationPolicy
begin

text \<open>
  The front door of the API: \<^verbatim>\<open>withAccessControl\<close>, \<^verbatim>\<open>validateAndBuildPrincipal\<close> (\<^verbatim>\<open>middleware.go\<close>), the provider setup gate
  (\<^verbatim>\<open>setup_gate.go\<close>) and the change of the selected workspace (\<^verbatim>\<open>handleContextSwitch\<close> in \<^verbatim>\<open>control_plane_handlers.go\<close>). They join
  the route registry, the tokens and the authorization. The outcome of a request is the handler it reaches or a status code.
\<close>

section \<open>Identities\<close>

record user_row =
  us_id :: string
  us_email :: string
  us_is_active :: bool
  us_email_verified :: bool

record agent_row =
  ar_agent_id :: string
  ar_approved :: bool
  ar_device_status :: string
  ar_tenant_id :: string
  ar_tenant_active :: bool
  ar_msp_id :: string
  ar_client_id :: string
  ar_site_id :: string

record identity_db =
  id_users :: "user_row list"
  id_agents :: "agent_row list"
  id_auth :: auth_db

record Principal =
  pUserID :: string
  pEmail :: string
  pTokenID :: string
  pTokenUse :: string
  pPlatformID :: string
  pMSPID :: string
  pClientID :: string
  pSiteID :: string
  pLegacyTenantID :: string
  pAuthorization :: AuthorizationResult
  pSupportGrantID :: string

text \<open>\<open>iq\<close> says which steps of the identity transaction succeed; \<open>iq_commit\<close> is its commit.\<close>

record identity_io =
  iq_begin :: bool
  iq_lookup :: bool
  iq_scope :: bool
  iq_members :: bool
  iq_commit :: bool

record api_server =
  allowClaimPrincipal :: bool
  tokenGen :: TokenGenerator

datatype identity_error =
    TokenRejected token_error | IdentityUnavailable | AgentRevoked | UserRevoked | ScopeRefused auth_error | CommitFailed

definition agent_current :: "auth_db \<Rightarrow> string \<Rightarrow> agent_row \<Rightarrow> bool" where
  "agent_current db agentID ar \<longleftrightarrow>
     ar_agent_id ar = agentID \<and> ar_approved ar \<and> ar_device_status ar \<noteq> ''disabled'' \<and> ar_tenant_active ar
     \<and> list_ex (\<lambda>m. m_id m = ar_msp_id ar \<and> m_is_active m) (msps db)
     \<and> list_ex (\<lambda>c. co_id c = ar_client_id ar \<and> co_msp_id c = ar_msp_id ar \<and> co_is_active c) (clients db)
     \<and> list_ex (\<lambda>s. si_id s = ar_site_id ar \<and> si_client_id s = ar_client_id ar \<and> si_is_active s) (sites db)"

definition base_principal :: "Claims \<Rightarrow> AuthorizationResult \<Rightarrow> Principal" where
  "base_principal c a = \<lparr>pUserID = clSubject c, pEmail = [], pTokenID = clTokenID c, pTokenUse = clTokenUse c, pPlatformID = [],
     pMSPID = clMSPID c, pClientID = clClientID c, pSiteID = clSiteID c, pLegacyTenantID = clTenantID c, pAuthorization = a,
     pSupportGrantID = []\<rparr>"

text \<open>Principals taken from the claims alone exist for isolated tests of handlers (\<open>allowClaimPrincipal\<close>).\<close>

definition claim_principal :: "Claims \<Rightarrow> Principal" where
  "claim_principal c =
     (let scope = inferredAuthorizationScope (clMSPID c) (clClientID c) (clSiteID c);
          grants = map (\<lambda>role. \<lparr>gRole = role, gSourceType = sType scope, gSourceID = sID scope, gInherited = False\<rparr>) (clRoles c)
      in base_principal c (newAuthorizationResult scope grants))"

definition agent_principal :: "Claims \<Rightarrow> agent_row \<Rightarrow> Principal" where
  "agent_principal c ar =
     (base_principal c (newAuthorizationResult
        \<lparr>sType = ScopeSite, sID = ar_site_id ar, sPlatformID = SingletonPlatformID, sMSPID = ar_msp_id ar, sClientID = ar_client_id ar,
         sSiteID = ar_site_id ar\<rparr>
        [\<lparr>gRole = ''agent'', gSourceType = ScopeSite, gSourceID = ar_site_id ar, gInherited = False\<rparr>]))
     \<lparr>pLegacyTenantID := ar_tenant_id ar, pMSPID := ar_msp_id ar, pClientID := ar_client_id ar, pSiteID := ar_site_id ar\<rparr>"

definition user_principal :: "Claims \<Rightarrow> string \<Rightarrow> AuthorizationResult \<Rightarrow> Principal" where
  "user_principal c email a =
     (base_principal c a)\<lparr>pEmail := email, pPlatformID := sPlatformID (aSelected a), pMSPID := sMSPID (aSelected a),
       pClientID := sClientID (aSelected a), pSiteID := sSiteID (aSelected a), pLegacyTenantID := sClientID (aSelected a)\<rparr>"

definition validateAndBuildPrincipal ::
  "token_env \<Rightarrow> api_server \<Rightarrow> identity_io \<Rightarrow> int \<Rightarrow> identity_db \<Rightarrow> string \<Rightarrow> identity_error + Principal" where
  "validateAndBuildPrincipal env srv iq now db rawToken =
     (case Validate_token env (tokenGen srv) now rawToken of
        Inl e \<Rightarrow> Inl (TokenRejected e)
      | Inr c \<Rightarrow>
          if allowClaimPrincipal srv then Inr (claim_principal c)
          else if \<not> iq_begin iq then Inl IdentityUnavailable
          else if clTokenUse c = ''agent'' then
            (case (if iq_lookup iq then find (agent_current (id_auth db) (clSubject c)) (id_agents db) else None) of
               None \<Rightarrow> Inl AgentRevoked
             | Some ar \<Rightarrow>
                 if ar_agent_id ar \<noteq> clAgentID c then Inl AgentRevoked
                 else if \<not> iq_commit iq then Inl CommitFailed
                 else Inr (agent_principal c ar))
          else
            (case (if iq_lookup iq then find (\<lambda>u. us_id u = clSubject c \<and> us_is_active u \<and> us_email_verified u) (id_users db) else None) of
               None \<Rightarrow> Inl UserRevoked
             | Some u \<Rightarrow>
                 (case resolveAuthorization (iq_scope iq) (iq_members iq) now (id_auth db) (clSubject c) (clMSPID c) (clClientID c) (clSiteID c) of
                    Inl e \<Rightarrow> Inl (ScopeRefused e)
                  | Inr a \<Rightarrow> if \<not> iq_commit iq then Inl CommitFailed else Inr (user_principal c (us_email u) a))))"

section \<open>The gates\<close>

record http_request =
  hqMethod :: string
  hqPath :: string
  hqAuthorization :: string
  hqSupportGrant :: string
  hqQueryMSP :: string
  hqQueryClient :: string

definition extractBearerToken :: "string \<Rightarrow> string" where
  "extractBearerToken authHeader =
     (case fields_from [] authHeader of
        [scheme, tok] \<Rightarrow> if EqualFold scheme ''Bearer'' then tok else []
      | _ \<Rightarrow> [])"

definition setupGateAllowlist :: "(string \<times> string) list" where
  "setupGateAllowlist = [(''GET'', ''/api/v1/auth/me''), (''POST'', ''/api/v1/auth/logout''), (''GET'', ''/api/v2/context''),
     (''POST'', ''/api/v2/context/switch''), (''GET'', ''/api/v2/platform/provider/profile''), (''POST'', ''/api/v2/platform/provider/setup''),
     (''PATCH'', ''/api/v2/platform/provider/profile'')]"

text \<open>\<open>prov\<close> is the answer of the database: whether setup is complete, if it can be read.\<close>

definition enforceProviderSetupGate ::
  "api_server \<Rightarrow> bool option \<Rightarrow> string \<Rightarrow> string \<Rightarrow> AuthorizationResult \<Rightarrow> nat option" where
  "enforceProviderSetupGate srv prov meth path a =
     (if allowClaimPrincipal srv then None
      else if \<not> HasPlatformAdministratorMembership a then None
      else if list_ex (\<lambda>(m, p). meth = m \<and> path = p) setupGateAllowlist then None
      else case prov of None \<Rightarrow> Some 503 | Some True \<Rightarrow> None | Some False \<Rightarrow> Some 428)"

definition moduleDeviceInvocationTarget :: "string \<Rightarrow> (string \<times> string) option" where
  "moduleDeviceInvocationTarget path =
     (case segments path of
        [p0, p1, p2, p3, p4, p5, p6, p7] \<Rightarrow>
          if p0 \<noteq> ''api'' \<or> p1 \<noteq> ''v2'' \<or> p2 \<noteq> ''platform'' \<or> p3 \<noteq> ''modules'' \<or> TrimSpace p4 = [] \<or> p5 \<noteq> ''invoke''
             \<or> p6 \<noteq> ''device'' \<or> TrimSpace p7 = []
          then None else Some (TrimSpace p4, TrimSpace p7)
      | _ \<Rightarrow> None)"

definition isModuleLifecycleRequest :: "string \<Rightarrow> string \<Rightarrow> bool" where
  "isModuleLifecycleRequest meth path =
     (if meth = ''POST'' \<and> path = ''/api/v2/platform/modules'' then True
      else if meth = ''POST'' \<and> moduleDeviceInvocationTarget path \<noteq> None then True
      else if \<not> HasPrefix path ''/api/v2/platform/modules/'' then False
      else case segments path of
        [p0, p1, p2, p3, p4, p5] \<Rightarrow>
          if p0 \<noteq> ''api'' \<or> p1 \<noteq> ''v2'' \<or> p2 \<noteq> ''platform'' \<or> p3 \<noteq> ''modules'' \<or> TrimSpace p4 = [] then False
          else if List.member [''enable'', ''disable'', ''quarantine'', ''upgrade'', ''rollback''] p5 then meth = ''POST''
          else if p5 = ''uninstall'' then meth = ''DELETE''
          else False
      | _ \<Rightarrow> False)"

datatype access_outcome =
    ServePublic | ServeReferenceModule | ServeAgent Principal | ServeUser Principal | ServeModuleLifecycle Principal | Refuse nat

text \<open>The checks after the principal is known.\<close>

definition admit_principal :: "api_server \<Rightarrow> bool option \<Rightarrow> http_request \<Rightarrow> RouteAccess \<Rightarrow> Principal \<Rightarrow> access_outcome" where
  "admit_principal srv prov r access p0 =
     (if access = AccessAgent \<and> pTokenUse p0 \<noteq> ''agent'' then Refuse 403
      else if access \<noteq> AccessAgent \<and> pTokenUse p0 \<noteq> ''user'' then Refuse 403
      else
        let a = pAuthorization p0;
            p = (if hasSupportRole (aRoles a) then p0\<lparr>pSupportGrantID := TrimSpace (hqSupportGrant r)\<rparr> else p0)
        in if pMSPID p \<noteq> [] \<and> hqQueryMSP r \<noteq> [] \<and> hqQueryMSP r \<noteq> pMSPID p then Refuse 403
           else if pClientID p \<noteq> [] \<and> hqQueryClient r \<noteq> [] \<and> hqQueryClient r \<noteq> pClientID p then Refuse 403
           else if access = AccessAgent \<and> \<not> hasAgentRole (aRoles a) then Refuse 403
           else if access = AccessAgent then ServeAgent p
           else (case enforceProviderSetupGate srv prov (hqMethod r) (hqPath r) a of
                   Some code \<Rightarrow> Refuse code
                 | None \<Rightarrow>
                     if access = AccessAdmin \<and> \<not> IsPlatformGlobal a then Refuse 403
                     else if access \<noteq> AccessAdmin \<and> \<not> hasMSPRole (aRoles a) \<and> \<not> hasPlatformRole (aRoles a) then Refuse 403
                     else if isModuleLifecycleRequest (hqMethod r) (hqPath r) then ServeModuleLifecycle p
                     else ServeUser p))"

definition effective_access :: "http_request \<Rightarrow> RouteAccess" where
  "effective_access r =
     (let access = classifyRoute (hqMethod r) (hqPath r)
      in if access = AccessDenied \<and> isModuleLifecycleRequest (hqMethod r) (hqPath r) then AccessAdmin else access)"

definition withAccessControl ::
  "token_env \<Rightarrow> api_server \<Rightarrow> identity_io \<Rightarrow> bool option \<Rightarrow> int \<Rightarrow> identity_db \<Rightarrow> http_request \<Rightarrow> access_outcome" where
  "withAccessControl env srv iq prov now db r =
     (case effective_access r of
        AccessPublic \<Rightarrow> ServePublic
      | AccessModule \<Rightarrow> ServeReferenceModule
      | AccessDenied \<Rightarrow> Refuse 403
      | access \<Rightarrow>
          let rawToken = extractBearerToken (hqAuthorization r)
          in if rawToken = [] then Refuse 401
             else (case validateAndBuildPrincipal env srv iq now db rawToken of
                     Inl _ \<Rightarrow> Refuse 401
                   | Inr p \<Rightarrow> admit_principal srv prov r access p))"

section \<open>Changing the workspace\<close>

record switch_request =
  swScopeType :: string
  swMSPID :: string
  swClientID :: string
  swSiteID :: string

record audit_row =
  au_msp_id :: "string option"
  au_actor :: string
  au_action :: string
  au_resource_id :: string

record switch_io =
  sq_begin :: bool
  sq_context :: bool
  sq_scope :: bool
  sq_members :: bool
  sq_role :: bool
  sq_audit :: bool
  sq_commit :: bool

definition switch_scope_type :: "switch_request \<Rightarrow> string" where
  "switch_scope_type req =
     (if swScopeType req \<noteq> [] then swScopeType req
      else if swMSPID req = [] then ScopePlatform
      else if swSiteID req \<noteq> [] then ScopeSite
      else if swClientID req \<noteq> [] then ScopeClient
      else ScopeMSP)"

definition nullIfEmpty :: "string \<Rightarrow> string option" where
  "nullIfEmpty s = (if s = [] then None else Some s)"

text \<open>Eight hours.\<close>

definition workspace_ttl :: int where
  "workspace_ttl = 8 * 3600 * 1000000000"

text \<open>\<open>req\<close> is the decoded body, if it decodes; the answer is a status code or the new token with its authorization.\<close>

definition handleContextSwitch ::
  "token_env \<Rightarrow> api_server \<Rightarrow> switch_io \<Rightarrow> string option \<Rightarrow> int \<Rightarrow> auth_db \<Rightarrow> string \<Rightarrow> switch_request option \<Rightarrow> audit_row list
     \<Rightarrow> audit_row list \<times> (nat + string \<times> AuthorizationResult)" where
  "handleContextSwitch env srv sq random now db userID body audit =
     (case body of
        None \<Rightarrow> (audit, Inl 400)
      | Some req \<Rightarrow>
          let t = switch_scope_type req; m = swMSPID req; c = swClientID req; s = swSiteID req
          in if t = ScopePlatform \<and> (m \<noteq> [] \<or> c \<noteq> [] \<or> s \<noteq> []) then (audit, Inl 400)
             else if t \<noteq> ScopePlatform \<and> m = [] then (audit, Inl 400)
             else if (t = ScopeMSP \<and> (c \<noteq> [] \<or> s \<noteq> [])) \<or> (t = ScopeClient \<and> (c = [] \<or> s \<noteq> [])) \<or> (t = ScopeSite \<and> (c = [] \<or> s = []))
             then (audit, Inl 400)
             else if \<not> sq_begin sq \<or> \<not> sq_context sq then (audit, Inl 503)
             else (case resolveAuthorization (sq_scope sq) (sq_members sq) now db userID m c s of
                     Inl _ \<Rightarrow> (audit, Inl 404)
                   | Inr a \<Rightarrow>
                       let sel = aSelected a
                       in if sType sel \<noteq> t then (audit, Inl 404)
                          else if \<not> sq_role sq then (audit, Inl 503)
                          else if \<not> sq_audit sq then (audit, Inl 500)
                          else if \<not> sq_commit sq then (audit, Inl 500)
                          else
                            let audit' = audit @ [\<lparr>au_msp_id = nullIfEmpty (sMSPID sel), au_actor = userID, au_action = ''context.switched'',
                                                    au_resource_id = sID sel\<rparr>]
                            in (case GenerateUserToken env (tokenGen srv) random now userID (sClientID sel) (sMSPID sel) (sClientID sel) (sSiteID sel)
                                       (aRoles a) workspace_ttl of
                                  Inl _ \<Rightarrow> (audit', Inl 500)
                                | Inr token \<Rightarrow> (audit', Inr (token, a)))))"

section \<open>Whom the handlers see\<close>

definition authenticated_user :: "token_env \<Rightarrow> api_server \<Rightarrow> identity_io \<Rightarrow> int \<Rightarrow> identity_db \<Rightarrow> http_request \<Rightarrow> Principal \<Rightarrow> bool" where
  "authenticated_user env srv iq now db r p \<longleftrightarrow>
     (\<exists>c. Validate_token env (tokenGen srv) now (extractBearerToken (hqAuthorization r)) = Inr c \<and> clTokenUse c = ''user''
        \<and> pUserID p = clSubject c
        \<and> (\<exists>u \<in> set (id_users db). us_id u = clSubject c \<and> us_is_active u \<and> us_email_verified u)
        \<and> resolveAuthorization (iq_scope iq) (iq_members iq) now (id_auth db) (clSubject c) (clMSPID c) (clClientID c) (clSiteID c)
            = Inr (pAuthorization p))"

definition authenticated_agent :: "token_env \<Rightarrow> api_server \<Rightarrow> int \<Rightarrow> identity_db \<Rightarrow> http_request \<Rightarrow> Principal \<Rightarrow> bool" where
  "authenticated_agent env srv now db r p \<longleftrightarrow>
     (\<exists>c. Validate_token env (tokenGen srv) now (extractBearerToken (hqAuthorization r)) = Inr c \<and> clTokenUse c = ''agent''
        \<and> (\<exists>ar \<in> set (id_agents db). agent_current (id_auth db) (clSubject c) ar \<and> clAgentID c = clSubject c
             \<and> pSiteID p = ar_site_id ar \<and> pClientID p = ar_client_id ar \<and> pMSPID p = ar_msp_id ar))"

definition platform_administrator :: "auth_db \<Rightarrow> int \<Rightarrow> string \<Rightarrow> bool" where
  "platform_administrator db now userID \<longleftrightarrow>
     (\<exists>role \<in> {''platform_owner'', ''platform_admin''}. member_with db now userID (ScopePlatform, SingletonPlatformID) role)"

lemma principal_cases:
  assumes "validateAndBuildPrincipal env srv iq now db tok = Inr p" "\<not> allowClaimPrincipal srv"
  shows "\<exists>c. Validate_token env (tokenGen srv) now tok = Inr c \<and> clTokenUse c = pTokenUse p \<and> pUserID p = clSubject c
    \<and> (if pTokenUse p = ''agent''
       then (\<exists>ar \<in> set (id_agents db). agent_current (id_auth db) (clSubject c) ar \<and> clAgentID c = clSubject c
             \<and> pSiteID p = ar_site_id ar \<and> pClientID p = ar_client_id ar \<and> pMSPID p = ar_msp_id ar)
       else (\<exists>u \<in> set (id_users db). us_id u = clSubject c \<and> us_is_active u \<and> us_email_verified u)
          \<and> resolveAuthorization (iq_scope iq) (iq_members iq) now (id_auth db) (clSubject c) (clMSPID c) (clClientID c) (clSiteID c)
              = Inr (pAuthorization p))"
proof -
  obtain c where c: "Validate_token env (tokenGen srv) now tok = Inr c"
    using assms by (auto simp: validateAndBuildPrincipal_def split: sum.splits)
  show ?thesis
  proof (cases "clTokenUse c = ''agent''")
    case True
    with assms c obtain ar where ar: "find (agent_current (id_auth db) (clSubject c)) (id_agents db) = Some ar"
      "ar_agent_id ar = clAgentID c" "p = agent_principal c ar"
      by (auto simp: validateAndBuildPrincipal_def split: if_splits option.splits)
    from find_SomeD [OF ar(1)] have "ar \<in> set (id_agents db)" "agent_current (id_auth db) (clSubject c) ar" by auto
    with True c ar show ?thesis
      by (intro exI [of _ c]) (auto simp: agent_principal_def base_principal_def agent_current_def)
  next
    case False
    with assms c obtain u a where u: "find (\<lambda>u. us_id u = clSubject c \<and> us_is_active u \<and> us_email_verified u) (id_users db) = Some u"
      "resolveAuthorization (iq_scope iq) (iq_members iq) now (id_auth db) (clSubject c) (clMSPID c) (clClientID c) (clSiteID c) = Inr a"
      "p = user_principal c (us_email u) a"
      by (auto simp: validateAndBuildPrincipal_def split: if_splits option.splits sum.splits)
    with False c find_SomeD [OF u(1)] show ?thesis
      by (intro exI [of _ c]) (auto simp: user_principal_def base_principal_def)
  qed
qed

lemma lifecycle_privileged:
  assumes "isModuleLifecycleRequest meth path"
  shows "classifyRoute meth path \<in> {AccessAdmin, AccessDenied}"
proof -
  have "\<exists>rest. segments path = [''api'', ''v2'', ''platform''] @ rest"
  proof (cases "path = ''/api/v2/platform/modules''")
    case True
    then show ?thesis by (simp add: segments_def Trim_def)
  next
    case False
    with assms show ?thesis
      by (auto simp: isModuleLifecycleRequest_def moduleDeviceInvocationTarget_def split: list.splits if_splits)
  qed
  then show ?thesis using classify_segments [OF admin_only_all(1)] by blast
qed

definition same_identity :: "Principal \<Rightarrow> Principal \<Rightarrow> bool" where
  "same_identity p p0 \<longleftrightarrow> pAuthorization p = pAuthorization p0 \<and> pUserID p = pUserID p0 \<and> pSiteID p = pSiteID p0
     \<and> pClientID p = pClientID p0 \<and> pMSPID p = pMSPID p0 \<and> pTokenUse p = pTokenUse p0"

lemma same_identity_grant [simp]: "same_identity (if b then p\<lparr>pSupportGrantID := g\<rparr> else p) p"
  by (simp add: same_identity_def)

lemma admit_cases:
  assumes "admit_principal srv prov r access p0 = out" "\<And>code. out \<noteq> Refuse code"
  obtains (agent) p where "same_identity p p0" "out = ServeAgent p" "access = AccessAgent" "pTokenUse p0 = ''agent''"
  | (user) p where "same_identity p p0" "access \<noteq> AccessAgent" "pTokenUse p0 = ''user''"
      "access = AccessAdmin \<Longrightarrow> IsPlatformGlobal (pAuthorization p0)"
      "out = (if isModuleLifecycleRequest (hqMethod r) (hqPath r) then ServeModuleLifecycle p else ServeUser p)"
proof -
  let ?p = "if hasSupportRole (aRoles (pAuthorization p0)) then p0\<lparr>pSupportGrantID := TrimSpace (hqSupportGrant r)\<rparr> else p0"
  show thesis
  proof (cases "access = AccessAgent")
    case True
    with assms have "pTokenUse p0 = ''agent''" "out = ServeAgent ?p"
      unfolding admit_principal_def Let_def by (auto simp del: if_split split: if_split_asm)
    with True show thesis by (intro agent [of ?p]) simp_all
  next
    case False
    with assms have "pTokenUse p0 = ''user''" "access = AccessAdmin \<Longrightarrow> IsPlatformGlobal (pAuthorization p0)"
      "out = (if isModuleLifecycleRequest (hqMethod r) (hqPath r) then ServeModuleLifecycle ?p else ServeUser ?p)"
      unfolding admit_principal_def Let_def by (auto split: if_split_asm option.splits)
    with False show thesis by (intro user [of ?p]) simp_all
  qed
qed

lemma control_cases:
  assumes "withAccessControl env srv iq prov now db r = out" "\<And>code. out \<noteq> Refuse code"
  obtains (public) "out = ServePublic" "effective_access r = AccessPublic"
  | (module) "out = ServeReferenceModule" "effective_access r = AccessModule"
  | (admit) p0 where "effective_access r \<in> {AccessUser, AccessAgent, AccessAdmin}"
      "validateAndBuildPrincipal env srv iq now db (extractBearerToken (hqAuthorization r)) = Inr p0"
      "admit_principal srv prov r (effective_access r) p0 = out"
proof -
  have "out = ServePublic \<and> effective_access r = AccessPublic \<or> out = ServeReferenceModule \<and> effective_access r = AccessModule
      \<or> (effective_access r \<in> {AccessUser, AccessAgent, AccessAdmin}
         \<and> (\<exists>p0. validateAndBuildPrincipal env srv iq now db (extractBearerToken (hqAuthorization r)) = Inr p0
              \<and> admit_principal srv prov r (effective_access r) p0 = out))"
    using assms by (auto simp: withAccessControl_def Let_def split: RouteAccess.splits sum.splits if_splits)
  with that show thesis by blast
qed

lemma principal_user:
  assumes "validateAndBuildPrincipal env srv iq now db (extractBearerToken (hqAuthorization r)) = Inr p0" "\<not> allowClaimPrincipal srv"
    "pTokenUse p0 = ''user''" "same_identity p p0"
  shows "authenticated_user env srv iq now db r p"
    and "IsPlatformGlobal (pAuthorization p0) \<Longrightarrow> platform_administrator (id_auth db) now (pUserID p)"
proof -
  from principal_cases [OF assms(1,2)] assms(3) obtain c where
    c: "Validate_token env (tokenGen srv) now (extractBearerToken (hqAuthorization r)) = Inr c" "clTokenUse c = ''user''"
      "pUserID p0 = clSubject c" "\<exists>u \<in> set (id_users db). us_id u = clSubject c \<and> us_is_active u \<and> us_email_verified u"
      "resolveAuthorization (iq_scope iq) (iq_members iq) now (id_auth db) (clSubject c) (clMSPID c) (clClientID c) (clSiteID c)
         = Inr (pAuthorization p0)"
    by auto
  then show "authenticated_user env srv iq now db r p"
    using assms(4) by (auto simp: authenticated_user_def same_identity_def)
  show "platform_administrator (id_auth db) now (pUserID p)" if "IsPlatformGlobal (pAuthorization p0)"
    using platform_global_member [OF c(5)] that assms(4) c(3) by (simp add: platform_administrator_def same_identity_def)
qed

lemma principal_agent:
  assumes "validateAndBuildPrincipal env srv iq now db (extractBearerToken (hqAuthorization r)) = Inr p0" "\<not> allowClaimPrincipal srv"
    "pTokenUse p0 = ''agent''" "same_identity p p0"
  shows "authenticated_agent env srv now db r p"
  using principal_cases [OF assms(1,2)] assms(3,4) by (auto simp: authenticated_agent_def same_identity_def)

text \<open>
  C22. What reaches a handler: without a principal only the requests of the public routes and of the reference module; otherwise
  the bearer token is valid, an agent's handler gets the agent of an approved registration in an active site, and a user's
  handler gets an active user with a verified address whose authorization was resolved for this request. Routes for administrators and the
  lifecycle of modules need a current platform administrator.
\<close>

theorem access_control_sound:
  assumes "\<not> allowClaimPrincipal srv"
  shows "case withAccessControl env srv iq prov now db r of
      ServePublic \<Rightarrow> classifyRoute (hqMethod r) (hqPath r) = AccessPublic
    | ServeReferenceModule \<Rightarrow> classifyRoute (hqMethod r) (hqPath r) = AccessModule
    | ServeAgent p \<Rightarrow> classifyRoute (hqMethod r) (hqPath r) = AccessAgent \<and> authenticated_agent env srv now db r p
    | ServeUser p \<Rightarrow> authenticated_user env srv iq now db r p
        \<and> (classifyRoute (hqMethod r) (hqPath r) = AccessUser
           \<or> classifyRoute (hqMethod r) (hqPath r) = AccessAdmin \<and> platform_administrator (id_auth db) now (pUserID p))
    | ServeModuleLifecycle p \<Rightarrow> authenticated_user env srv iq now db r p \<and> platform_administrator (id_auth db) now (pUserID p)
    | Refuse code \<Rightarrow> True"
proof -
  let ?out = "withAccessControl env srv iq prov now db r"
  have eff: "a \<noteq> AccessAdmin \<Longrightarrow> effective_access r = a \<Longrightarrow> classifyRoute (hqMethod r) (hqPath r) = a" for a
    by (auto simp: effective_access_def Let_def split: if_splits)
  show ?thesis
  proof (cases "\<exists>code. ?out = Refuse code")
    case False
    then have "\<And>code. ?out \<noteq> Refuse code" by blast
    from refl this show ?thesis
    proof (cases rule: control_cases)
      case (admit p0)
      from admit(3) \<open>\<And>code. ?out \<noteq> Refuse code\<close> show ?thesis
      proof (cases rule: admit_cases)
        case (agent p)
        from principal_agent [OF admit(2) assms agent(4,1)] agent(2,3) eff show ?thesis by simp
      next
        case (user p)
        note u = principal_user [OF admit(2) assms user(3,1)]
        show ?thesis
        proof (cases "isModuleLifecycleRequest (hqMethod r) (hqPath r)")
          case True
          then have "effective_access r = AccessAdmin" using lifecycle_privileged [OF True] by (auto simp: effective_access_def Let_def)
          with u user True show ?thesis by simp
        next
          case False
          then have "effective_access r = classifyRoute (hqMethod r) (hqPath r)" by (simp add: effective_access_def)
          with u user False admit(1) show ?thesis by auto
        qed
      qed
    qed (simp_all add: eff)
  qed auto
qed

definition example_server :: api_server where
  "example_server = \<lparr>allowClaimPrincipal = False, tokenGen = example_generator\<rparr>"

definition all_ok :: identity_io where
  "all_ok = \<lparr>iq_begin = True, iq_lookup = True, iq_scope = True, iq_members = True, iq_commit = True\<rparr>"

definition example_identities :: identity_db where
  "example_identities = \<lparr>id_users = [\<lparr>us_id = ''u'', us_email = ''e'', us_is_active = True, us_email_verified = True\<rparr>], id_agents = [],
     id_auth = example_auth_db\<rparr>"

definition example_request :: http_request where
  "example_request = \<lparr>hqMethod = ''GET'', hqPath = ''/health'', hqAuthorization = [], hqSupportGrant = [], hqQueryMSP = [], hqQueryClient = []\<rparr>"

theorem access_control_sound_witness:
  "withAccessControl example_token_env example_server all_ok None 0 example_identities example_request = ServePublic
   \<and> classifyRoute ''GET'' ''/health'' = AccessPublic"
proof -
  have "effective_access example_request = AccessPublic" by code_simp
  then have "withAccessControl example_token_env example_server all_ok None 0 example_identities example_request = ServePublic"
    by (simp add: withAccessControl_def)
  moreover have "\<not> allowClaimPrincipal example_server" by (simp add: example_server_def)
  ultimately show ?thesis
    using access_control_sound [where srv = example_server and env = example_token_env and iq = all_ok and prov = None and now = 0
      and db = example_identities and r = example_request] by (simp add: example_request_def)
qed

section \<open>A token only selects\<close>

lemma switch_success:
  assumes "handleContextSwitch env srv sq random now db userID body audit = (audit', Inr (token, a))"
  shows "\<exists>m c s. resolveAuthorization (sq_scope sq) (sq_members sq) now db userID m c s = Inr a"
    and "GenerateUserToken env (tokenGen srv) random now userID (sClientID (aSelected a)) (sMSPID (aSelected a)) (sClientID (aSelected a))
      (sSiteID (aSelected a)) (aRoles a) workspace_ttl = Inr token"
    and "\<exists>row. audit' = audit @ [row] \<and> au_actor row = userID"
  using assms
  by (auto simp: handleContextSwitch_def Let_def split: option.splits if_splits sum.splits)

text \<open>
  A workspace token only selects: a switch of the workspace succeeds for a scope the user's memberships cover and leaves an audit
  row; the token it issues identifies, for eight hours and against any later state of the database, the user with
  the authorization that the memberships of that later state give in the selected scope. The roles in the token are never
  used, so that revoking a membership takes effect at the next request.
\<close>

theorem workspace_token_selects:
  assumes switch: "handleContextSwitch env srv sq (Some bytes) t db userID body audit = (audit', Inr (token, a))"
    and json: "te_parse env (te_text env header_json) = Decoded header_json"
      "te_parse env (te_text env (claims_json (user_claims bytes t userID (sClientID (aSelected a)) (sMSPID (aSelected a)) (sClientID (aSelected a))
           (sSiteID (aSelected a)) (aRoles a) workspace_ttl)))
         = Decoded (claims_json (user_claims bytes t userID (sClientID (aSelected a)) (sMSPID (aSelected a)) (sClientID (aSelected a))
           (sSiteID (aSelected a)) (aRoles a) workspace_ttl))"
    and server: "\<not> allowClaimPrincipal srv" "tgVerifySecrets (tokenGen srv) = [] \<or> tgSecret (tokenGen srv) \<in> set (tgVerifySecrets (tokenGen srv))"
    and times: "bytes \<noteq> []" "1000000000 \<le> t" "t < 2 ^ 62" "t \<le> now" "now \<le> t + workspace_ttl"
    and user: "find (\<lambda>u. us_id u = userID \<and> us_is_active u \<and> us_email_verified u) (id_users later) = Some u"
  shows "scope_proven db (aSelected a) \<and> (\<exists>row. audit' = audit @ [row] \<and> au_actor row = userID)
    \<and> map_sum id pAuthorization (validateAndBuildPrincipal env srv all_ok now later token)
      = map_sum ScopeRefused id (resolveAuthorization True True now (id_auth later) userID (sMSPID (aSelected a)) (sClientID (aSelected a)) (sSiteID (aSelected a)))"
proof -
  let ?c = "user_claims bytes t userID (sClientID (aSelected a)) (sMSPID (aSelected a)) (sClientID (aSelected a)) (sSiteID (aSelected a)) (aRoles a) workspace_ttl"
  have gen: "GenerateUserToken env (tokenGen srv) (Some bytes) t userID (sClientID (aSelected a)) (sMSPID (aSelected a)) (sClientID (aSelected a))
      (sSiteID (aSelected a)) (aRoles a) workspace_ttl = Inr token" by (rule switch_success(2) [OF switch])
  then have sec: "validateSecret (tokenGen srv) = None" by (auto simp: GenerateUserToken_def split: option.splits)
  have key: "tgSecret (tokenGen srv) \<in> set (verificationKeys (tokenGen srv))" using server(2) by (auto simp: verificationKeys_def)
  have "Validate_token env (tokenGen srv) now token = Inr ?c"
    by (rule user_token_valid [OF gen json sec key times(1) _ _ times(2-5)]) (simp_all add: workspace_ttl_def)
  then have "map_sum id pAuthorization (validateAndBuildPrincipal env srv all_ok now later token)
      = map_sum ScopeRefused id (resolveAuthorization True True now (id_auth later) userID (sMSPID (aSelected a)) (sClientID (aSelected a)) (sSiteID (aSelected a)))"
    using server(1) user
    by (auto simp: validateAndBuildPrincipal_def all_ok_def user_claims_def user_principal_def base_principal_def split: sum.splits)
  moreover have "scope_proven db (aSelected a)" using switch_success(1) [OF switch] resolveAuthorization_grants(1) by blast
  ultimately show ?thesis using switch_success(3) [OF switch] by blast
qed

definition example_switch_io :: switch_io where
  "example_switch_io = \<lparr>sq_begin = True, sq_context = True, sq_scope = True, sq_members = True, sq_role = True, sq_audit = True, sq_commit = True\<rparr>"

definition example_switch :: switch_request where
  "example_switch = \<lparr>swScopeType = [], swMSPID = ''m'', swClientID = [], swSiteID = []\<rparr>"

definition example_audit_row :: audit_row where
  "example_audit_row = \<lparr>au_msp_id = Some ''m'', au_actor = ''u'', au_action = ''context.switched'', au_resource_id = ''m''\<rparr>"

lemma example_authorization_simps [simp]:
  "aSelected example_authorization = \<lparr>sType = ScopeMSP, sID = ''m'', sPlatformID = SingletonPlatformID, sMSPID = ''m'', sClientID = [], sSiteID = []\<rparr>"
  "aRoles example_authorization = [''msp_admin'']"
  by (simp_all add: example_authorization_def) (code_simp)

lemma example_switched:
  "handleContextSwitch example_token_env example_server example_switch_io (Some ''abc'') 5000000000 (example_auth_db\<lparr>memberships := map (mb_expires_at_update (\<lambda>_. None)) (memberships example_auth_db)\<rparr>) ''u'' (Some example_switch) []
     = ([example_audit_row], Inr (encode example_token_env example_generator example_user_claims, example_authorization))"
proof -
  have r: "resolveAuthorization True True 5000000000 (example_auth_db\<lparr>memberships := map (mb_expires_at_update (\<lambda>_. None)) (memberships example_auth_db)\<rparr>) ''u'' ''m'' [] []
      = Inr example_authorization" by code_simp
  show ?thesis
    by (simp add: handleContextSwitch_def example_switch_def switch_scope_type_def example_switch_io_def r example_server_def workspace_ttl_def
        Let_def example_token_issued [simplified] nullIfEmpty_def example_audit_row_def)
qed

theorem workspace_token_selects_witness:
  "map_sum id pAuthorization (validateAndBuildPrincipal example_token_env example_server all_ok 6000000000 example_identities
      (encode example_token_env example_generator example_user_claims)) = Inl (ScopeRefused NoMembership)"
proof -
  have user: "find (\<lambda>u. us_id u = ''u'' \<and> us_is_active u \<and> us_email_verified u) (id_users example_identities)
      = Some \<lparr>us_id = ''u'', us_email = ''e'', us_is_active = True, us_email_verified = True\<rparr>" by (simp add: example_identities_def)
  have expired: "resolveAuthorization True True 6000000000 (id_auth example_identities) ''u'' ''m'' [] [] = Inl NoMembership" by code_simp
  from workspace_token_selects [OF example_switched example_token_json(1) _ _ _ _ _ _ _ _ user, where now = 6000000000]
    example_token_json(2) expired
  show ?thesis by (simp add: example_user_claims_def workspace_ttl_def example_server_def example_generator_def)
qed

end
