(* ===== verification/RateLimit.thy ===== *)
theory RateLimit
  imports Prelude
begin

text \<open>
  The in-process rate limiter of \<^verbatim>\<open>pkg/auth/ratelimit.go\<close>: a token bucket per request class and network address. Times are
  nanoseconds; a request reads the clock once. The mutex makes every request and every cleanup one step.
\<close>

record visitor =
  v_tokens :: int
  v_lastSeen :: int

record RateLimiter =
  rl_visitors :: "string \<rightharpoonup> visitor"
  rl_rate :: int
  rl_burst :: int

definition NewRateLimiter :: "int \<Rightarrow> int \<Rightarrow> RateLimiter" where
  "NewRateLimiter rate burst = \<lparr>rl_visitors = Map.empty, rl_rate = rate, rl_burst = burst\<rparr>"

definition policy :: "RateLimiter \<Rightarrow> string \<Rightarrow> string \<Rightarrow> string \<times> int \<times> int" where
  "policy rl meth path =
     (if path = ''/api/v1/auth/login'' then (''login'', 1, 5)
      else if path = ''/api/v1/auth/invitations/inspect'' \<or> path = ''/api/v1/auth/invitations/accept'' then (''account-invitation'', 1, 5)
      else if path = ''/api/v1/enroll'' \<or> path = ''/api/v1/agent/register'' \<or> HasPrefix path ''/api/v1/enrollment/'' then (''enrollment'', 2, 10)
      else if HasPrefix path ''/api/v1/remote/'' \<or> HasPrefix path ''/api/v1/recordings'' then (''remote'', 5, 10)
      else if meth \<noteq> ''GET'' \<and> (HasPrefix path ''/api/v1/jobs'' \<or> HasPrefix path ''/api/v2/approvals'') then (''privileged-mutation'', 10, 20)
      else if path = ''/health'' \<or> path = ''/metrics'' then (''probe'', 100, 200)
      else if path = ''/install.sh'' \<or> HasPrefix path ''/releases/'' then (''public-download'', 10, 20)
      else (''general'', rl_rate rl, rl_burst rl))"

datatype limit_answer = Admitted bool | TooManyRequests

definition second :: int where "second = 1000000000"

text \<open>One request from \<open>ip\<close>; an admitted request carries whether the warning header is set.\<close>

definition Middleware :: "int \<Rightarrow> string \<Rightarrow> string \<Rightarrow> string \<Rightarrow> RateLimiter \<Rightarrow> RateLimiter \<times> limit_answer" where
  "Middleware now ip meth path rl =
     (case policy rl meth path of (class, rate, burst) \<Rightarrow>
        let key = class @ '':'' @ ip;
            v = (case rl_visitors rl key of None \<Rightarrow> \<lparr>v_tokens = burst, v_lastSeen = now\<rparr> | Some v \<Rightarrow> v);
            elapsed = now - v_lastSeen v;
            tokens = min burst (v_tokens v + (elapsed div second) * rate)
        in if tokens \<le> 0
           then (rl\<lparr>rl_visitors := (rl_visitors rl)(key \<mapsto> \<lparr>v_tokens = tokens, v_lastSeen = now\<rparr>)\<rparr>, TooManyRequests)
           else (rl\<lparr>rl_visitors := (rl_visitors rl)(key \<mapsto> \<lparr>v_tokens = tokens - 1, v_lastSeen = now\<rparr>)\<rparr>, Admitted (tokens - 1 < burst div 4)))"

text \<open>One round of the cleanup goroutine.\<close>

definition cleanupVisitors :: "int \<Rightarrow> RateLimiter \<Rightarrow> RateLimiter" where
  "cleanupVisitors now rl =
     rl\<lparr>rl_visitors := (\<lambda>key. case rl_visitors rl key of
        None \<Rightarrow> None
      | Some v \<Rightarrow> if v_lastSeen v < now - 600 * second then None else Some v)\<rparr>"

datatype limit_event = Request int string string string | Cleanup int

fun event_time :: "limit_event \<Rightarrow> int" where
  "event_time (Request now ip meth path) = now"
| "event_time (Cleanup now) = now"

fun limit_step :: "limit_event \<Rightarrow> RateLimiter \<Rightarrow> RateLimiter" where
  "limit_step (Request now ip meth path) rl = fst (Middleware now ip meth path rl)"
| "limit_step (Cleanup now) rl = cleanupVisitors now rl"

definition request_key :: "RateLimiter \<Rightarrow> string \<Rightarrow> string \<Rightarrow> string \<Rightarrow> string" where
  "request_key rl ip meth path = fst (policy rl meth path) @ '':'' @ ip"

fun admits :: "string \<Rightarrow> limit_event \<Rightarrow> RateLimiter \<Rightarrow> bool" where
  "admits key (Request now ip meth path) rl =
     (request_key rl ip meth path = key \<and> (case snd (Middleware now ip meth path rl) of Admitted _ \<Rightarrow> True | TooManyRequests \<Rightarrow> False))"
| "admits key (Cleanup now) rl = False"

fun admitted :: "string \<Rightarrow> limit_event list \<Rightarrow> RateLimiter \<Rightarrow> int" where
  "admitted key [] rl = 0"
| "admitted key (e # es) rl = (if admits key e rl then 1 else 0) + admitted key es (limit_step e rl)"

section \<open>One bucket\<close>

lemma limit_step_config [simp]:
  "rl_rate (limit_step e rl) = rl_rate rl" "rl_burst (limit_step e rl) = rl_burst rl"
  by (cases e; simp add: Middleware_def cleanupVisitors_def Let_def split: prod.splits)+

lemma policy_step [simp]: "policy (limit_step e rl) meth path = policy rl meth path"
  by (simp add: policy_def)

lemma class_no_colon: "CHR '':'' \<notin> set (fst (policy rl meth path))"
  by (simp add: policy_def)

definition limits_of :: "RateLimiter \<Rightarrow> string \<Rightarrow> int \<times> int" where
  "limits_of rl class =
     (if class = ''login'' \<or> class = ''account-invitation'' then (1, 5) else if class = ''enrollment'' then (2, 10)
      else if class = ''remote'' then (5, 10) else if class = ''privileged-mutation'' \<or> class = ''public-download'' then (10, 20)
      else if class = ''probe'' then (100, 200) else (rl_rate rl, rl_burst rl))"

lemma class_limits: "policy rl meth path = (fst (policy rl meth path), limits_of rl (fst (policy rl meth path)))"
  by (simp add: policy_def limits_of_def)

lemma key_limits:
  assumes "request_key rl ip meth path = request_key rl ip' meth' path'"
  shows "policy rl meth path = policy rl meth' path'"
proof -
  have "takeWhile (\<lambda>c. c \<noteq> CHR '':'') (request_key rl i m p) = fst (policy rl m p)" for i m p
    using class_no_colon [of rl m p] by (auto simp: request_key_def takeWhile_append)
  with assms have "fst (policy rl meth path) = fst (policy rl meth' path')" by metis
  then show ?thesis using class_limits by metis
qed

lemma div_superadd: "0 < k \<Longrightarrow> a div k + b div k \<le> (a + b) div (k :: int)"
  by (simp add: div_add1_eq [of a b k] pos_imp_zdiv_nonneg_iff)

text \<open>The credit of a bucket at a time: what it holds and what it gains until then.\<close>

definition credit :: "int \<Rightarrow> int \<Rightarrow> visitor option \<Rightarrow> int \<Rightarrow> int \<Rightarrow> int" where
  "credit rate burst v t until =
     (case v of None \<Rightarrow> burst + rate * ((until - t) div second)
      | Some v \<Rightarrow> v_tokens v + rate * ((until - v_lastSeen v) div second))"

text \<open>A state whose bucket \<open>key\<close> is sound at time \<open>t\<close>.\<close>

definition bucket_sound :: "int \<Rightarrow> visitor option \<Rightarrow> int \<Rightarrow> bool" where
  "bucket_sound burst v t = (case v of None \<Rightarrow> True | Some v \<Rightarrow> 0 \<le> v_tokens v \<and> v_tokens v \<le> burst \<and> v_lastSeen v \<le> t)"

lemma request_other:
  "request_key rl ip meth path \<noteq> key \<Longrightarrow> rl_visitors (fst (Middleware now ip meth path rl)) key = rl_visitors rl key"
  by (auto simp: Middleware_def request_key_def Let_def split: prod.splits)

lemma request_credit:
  assumes "request_key rl ip meth path = key" "policy rl meth path = (class, rate, burst)" "0 \<le> rate" "0 \<le> burst"
    and sound: "bucket_sound burst (rl_visitors rl key) t" and t: "t \<le> now"
  shows "bucket_sound burst (rl_visitors (fst (Middleware now ip meth path rl)) key) now"
    and "(if admits key (Request now ip meth path) rl then 1 else 0)
      + credit rate burst (rl_visitors (fst (Middleware now ip meth path rl)) key) now until \<le> credit rate burst (rl_visitors rl key) t until"
proof -
  let ?v = "case rl_visitors rl key of None \<Rightarrow> \<lparr>v_tokens = burst, v_lastSeen = now\<rparr> | Some v \<Rightarrow> v"
  let ?tokens = "min burst (v_tokens ?v + ((now - v_lastSeen ?v) div second) * rate)"
  have key: "key = class @ '':'' @ ip" using assms(1,2) by (simp add: request_key_def)
  have v: "0 \<le> v_tokens ?v" "v_lastSeen ?v \<le> now" using sound t assms(4) by (auto simp: bucket_sound_def split: option.splits)
  have tok: "0 \<le> ?tokens" "?tokens \<le> burst"
    using v assms(3,4) by (simp_all add: second_def pos_imp_zdiv_nonneg_iff)
  have new: "rl_visitors (fst (Middleware now ip meth path rl)) key
      = Some \<lparr>v_tokens = (if ?tokens \<le> 0 then ?tokens else ?tokens - 1), v_lastSeen = now\<rparr>"
    "admits key (Request now ip meth path) rl \<longleftrightarrow> \<not> ?tokens \<le> 0"
    using assms(1) by (simp_all add: Middleware_def assms(2) key Let_def split: option.splits)
  show "bucket_sound burst (rl_visitors (fst (Middleware now ip meth path rl)) key) now"
    unfolding new using tok by (auto simp: bucket_sound_def)
  have "(now - v_lastSeen ?v) div second + (until - now) div second \<le> (until - v_lastSeen ?v) div second"
    using div_superadd [of second "now - v_lastSeen ?v" "until - now"] by (simp add: second_def)
  then have "rate * ((now - v_lastSeen ?v) div second) + rate * ((until - now) div second) \<le> rate * ((until - v_lastSeen ?v) div second)"
    using assms(3) by (metis distrib_left mult_left_mono)
  then have "?tokens + rate * ((until - now) div second) \<le> v_tokens ?v + rate * ((until - v_lastSeen ?v) div second)"
    by (simp add: min_def mult.commute)
  moreover have "v_tokens ?v + rate * ((until - v_lastSeen ?v) div second) \<le> credit rate burst (rl_visitors rl key) t until"
    using t assms(3) by (auto simp: credit_def second_def intro!: mult_left_mono zdiv_mono1 split: option.splits)
  ultimately show "(if admits key (Request now ip meth path) rl then 1 else 0)
      + credit rate burst (rl_visitors (fst (Middleware now ip meth path rl)) key) now until \<le> credit rate burst (rl_visitors rl key) t until"
    unfolding new by (simp add: credit_def)
qed

lemma cleanup_credit:
  assumes "0 \<le> rate" "burst \<le> 600 * rate" and sound: "bucket_sound burst (rl_visitors rl key) t" and t: "t \<le> now"
  shows "bucket_sound burst (rl_visitors (cleanupVisitors now rl) key) now"
    and "credit rate burst (rl_visitors (cleanupVisitors now rl) key) now until \<le> credit rate burst (rl_visitors rl key) t until"
proof -
  show "bucket_sound burst (rl_visitors (cleanupVisitors now rl) key) now"
    using sound t by (auto simp: bucket_sound_def cleanupVisitors_def split: option.splits)
  have "rate * ((until - now) div second) \<le> rate * ((until - t) div second)"
    using assms(1) t by (intro mult_left_mono zdiv_mono1) (auto simp: second_def)
  moreover have "burst + rate * ((until - now) div second) \<le> v_tokens v + rate * ((until - v_lastSeen v) div second)"
    if "v_lastSeen v < now - 600 * second" "0 \<le> v_tokens v" for v
  proof -
    have "(until - now) div second + 600 = (until - now + 600 * second) div second" by (simp add: second_def)
    also have "\<dots> \<le> (until - v_lastSeen v) div second"
      using that(1) by (intro zdiv_mono1) (auto simp: second_def)
    finally have "rate * ((until - now) div second + 600) \<le> rate * ((until - v_lastSeen v) div second)"
      using assms(1) by (rule mult_left_mono)
    with assms(2) that(2) show ?thesis by (simp add: algebra_simps)
  qed
  ultimately show "credit rate burst (rl_visitors (cleanupVisitors now rl) key) now until \<le> credit rate burst (rl_visitors rl key) t until"
    using sound by (auto simp: credit_def cleanupVisitors_def bucket_sound_def split: option.splits)
qed

lemma credit_later:
  assumes "0 \<le> rate" "t \<le> now"
  shows "credit rate burst v now until \<le> credit rate burst v t until"
  using assms by (auto simp: credit_def second_def intro!: mult_left_mono zdiv_mono1 split: option.splits)

lemma bucket_sound_later: "bucket_sound burst v t \<Longrightarrow> t \<le> now \<Longrightarrow> bucket_sound burst v now"
  by (auto simp: bucket_sound_def split: option.splits)

lemma step_credit:
  assumes "key = request_key rl ip meth path" "policy rl meth path = (class, rate, burst)" "0 \<le> rate" "0 \<le> burst" "burst \<le> 600 * rate"
    and sound: "bucket_sound burst (rl_visitors rl key) t" and t: "t \<le> event_time e"
  shows "bucket_sound burst (rl_visitors (limit_step e rl) key) (event_time e)"
    and "(if admits key e rl then 1 else 0) + credit rate burst (rl_visitors (limit_step e rl) key) (event_time e) until
      \<le> credit rate burst (rl_visitors rl key) t until"
proof -
  have "bucket_sound burst (rl_visitors (limit_step e rl) key) (event_time e)
    \<and> (if admits key e rl then 1 else 0) + credit rate burst (rl_visitors (limit_step e rl) key) (event_time e) until
      \<le> credit rate burst (rl_visitors rl key) t until"
  proof (cases e)
    case (Request now ip' meth' path')
    show ?thesis
    proof (cases "request_key rl ip' meth' path' = key")
      case True
      then have "policy rl meth' path' = (class, rate, burst)" using key_limits assms(1,2) by metis
      with request_credit [OF True this assms(3,4) sound] t Request show ?thesis by simp
    next
      case False
      with Request t sound bucket_sound_later credit_later [OF assms(3)] show ?thesis by (simp add: request_other)
    qed
  next
    case (Cleanup now)
    with cleanup_credit [OF assms(3,5) sound] t show ?thesis by simp
  qed
  then show "bucket_sound burst (rl_visitors (limit_step e rl) key) (event_time e)"
    "(if admits key e rl then 1 else 0) + credit rate burst (rl_visitors (limit_step e rl) key) (event_time e) until
      \<le> credit rate burst (rl_visitors rl key) t until" by blast+
qed

lemma admitted_credit:
  assumes "key = request_key rl ip meth path" "policy rl meth path = (class, rate, burst)" "0 \<le> rate" "0 \<le> burst" "burst \<le> 600 * rate"
    and "bucket_sound burst (rl_visitors rl key) t" "sorted (t # map event_time es @ [until])"
  shows "admitted key es rl \<le> credit rate burst (rl_visitors rl key) t until"
  using assms
proof (induction es arbitrary: rl t)
  case Nil
  have "0 \<le> rate * ((until - u) div second)" if "u \<le> until" for u
    using Nil(3) that by (simp add: second_def pos_imp_zdiv_nonneg_iff)
  with Nil show ?case by (auto simp: credit_def bucket_sound_def split: option.splits)
next
  case (Cons e es)
  have t: "t \<le> event_time e" using Cons.prems(7) by simp
  note step = step_credit [OF Cons.prems(1-6) t]
  have "request_key (limit_step e rl) ip meth path = key" using Cons.prems(1) by (simp add: request_key_def)
  with Cons.IH [of "limit_step e rl" "event_time e"] Cons.prems step(1)
  have "admitted key es (limit_step e rl) \<le> credit rate burst (rl_visitors (limit_step e rl) key) (event_time e) until"
    by simp
  with step(2) [of until] show ?case by simp
qed

text \<open>
  C21. The limit holds: of the requests of one class from one address, among any requests and cleanups in the order of their
  times, a fresh limiter admits at most the burst plus the rate times the whole seconds that passed, whenever ten minutes of
  refill cover the burst.
\<close>

theorem rate_limit_bound:
  assumes "policy (NewRateLimiter r b) meth path = (class, rate, burst)" "0 \<le> rate" "0 \<le> burst" "burst \<le> 600 * rate"
    and "sorted (from # map event_time es @ [until])"
  shows "admitted (request_key (NewRateLimiter r b) ip meth path) es (NewRateLimiter r b) \<le> burst + rate * ((until - from) div second)"
proof -
  let ?rl = "NewRateLimiter r b"
  have none: "rl_visitors ?rl key = None" for key by (simp add: NewRateLimiter_def)
  have "bucket_sound burst (rl_visitors ?rl (request_key ?rl ip meth path)) from" by (simp add: none bucket_sound_def)
  from admitted_credit [OF refl assms(1-4) this assms(5)] show ?thesis by (simp add: none credit_def)
qed

theorem rate_limit_bound_witness:
  "admitted ''login:x'' [Request 0 ''x'' ''POST'' ''/api/v1/auth/login'', Request 1 ''y'' ''GET'' ''/'', Cleanup 2,
      Request 3 ''x'' ''POST'' ''/api/v1/auth/login''] (NewRateLimiter 10 20) \<le> 5"
  using rate_limit_bound [of 10 20 "''POST''" "''/api/v1/auth/login''" "''login''" 1 5 0
      "[Request 0 ''x'' ''POST'' ''/api/v1/auth/login'', Request 1 ''y'' ''GET'' ''/'', Cleanup 2,
        Request 3 ''x'' ''POST'' ''/api/v1/auth/login'']" 4 "''x''"]
  by (simp add: policy_def request_key_def second_def)

section \<open>Steady clients\<close>

fun close_gaps :: "int list \<Rightarrow> bool" where
  "close_gaps (x # y # ts) = (x \<le> y \<and> y - x < second \<and> close_gaps (y # ts))"
| "close_gaps ts = True"

lemma steady_admitted:
  assumes "policy rl meth path = (class, rate, burst)" "rl_visitors rl (request_key rl ip meth path) = Some v"
    "0 \<le> v_tokens v" "v_tokens v \<le> burst" "close_gaps (v_lastSeen v # ts)"
  shows "admitted (request_key rl ip meth path) (map (\<lambda>t. Request t ip meth path) ts) rl \<le> v_tokens v"
  using assms
proof (induction ts arbitrary: rl v)
  case (Cons t ts)
  let ?key = "request_key rl ip meth path" and ?rl = "fst (Middleware t ip meth path rl)"
  let ?v = "\<lparr>v_tokens = (if v_tokens v \<le> 0 then v_tokens v else v_tokens v - 1), v_lastSeen = t\<rparr>"
  have key: "?key = class @ '':'' @ ip" using Cons.prems(1) by (simp add: request_key_def)
  have "(t - v_lastSeen v) div second = 0" using Cons.prems(5) by (auto simp: second_def)
  then have new: "rl_visitors ?rl ?key = Some ?v" "admits ?key (Request t ip meth path) rl \<longleftrightarrow> \<not> v_tokens v \<le> 0"
    using Cons.prems by (simp_all add: Middleware_def key Let_def)
  have "policy ?rl meth path = policy rl meth path" using policy_step [of "Request t ip meth path"] by simp
  then have same: "request_key ?rl ip meth path = ?key" "policy ?rl meth path = (class, rate, burst)"
    using Cons.prems(1) by (simp_all add: request_key_def)
  from Cons.IH [of ?rl ?v] same new(1) Cons.prems
  have "admitted ?key (map (\<lambda>t. Request t ip meth path) ts) ?rl \<le> v_tokens ?v" by simp
  with new(2) show ?case by (auto split: if_splits)
qed simp

text \<open>
  A steady client is starved: whatever the rate is, a client whose requests follow one another within a second is
  admitted at most as often as the burst, however long it goes on, because whole seconds are counted between requests
  and every request, even a refused one, restarts the count.
\<close>

theorem steady_client_starved:
  assumes "policy (NewRateLimiter r b) meth path = (class, rate, burst)" "0 \<le> burst" "close_gaps ts"
  shows "admitted (request_key (NewRateLimiter r b) ip meth path) (map (\<lambda>t. Request t ip meth path) ts) (NewRateLimiter r b) \<le> burst"
proof (cases ts)
  case (Cons t us)
  let ?rl = "NewRateLimiter r b"
  let ?key = "request_key ?rl ip meth path" and ?rl' = "fst (Middleware t ip meth path ?rl)"
  let ?v = "\<lparr>v_tokens = (if burst \<le> 0 then burst else burst - 1), v_lastSeen = t\<rparr>"
  have key: "?key = class @ '':'' @ ip" using assms(1) by (simp add: request_key_def)
  have new: "rl_visitors ?rl' ?key = Some ?v" "admits ?key (Request t ip meth path) ?rl \<longleftrightarrow> \<not> burst \<le> 0"
    using assms(1) by (simp_all add: Middleware_def key Let_def) (simp_all add: NewRateLimiter_def second_def)
  have "policy ?rl' meth path = policy ?rl meth path" using policy_step [of "Request t ip meth path"] by simp
  then have same: "request_key ?rl' ip meth path = ?key" "policy ?rl' meth path = (class, rate, burst)"
    using assms(1) by (simp_all add: request_key_def)
  have "admitted ?key (map (\<lambda>t. Request t ip meth path) us) ?rl' \<le> v_tokens ?v"
    using steady_admitted [OF same(2), of ip ?v us] same(1) new(1) assms(2,3) Cons by simp
  with new(2) Cons show ?thesis by (auto split: if_splits)
qed (simp add: assms(2))

theorem steady_client_starved_witness:
  "admitted ''login:x'' (map (\<lambda>t. Request t ''x'' ''POST'' ''/api/v1/auth/login'') [0, 500000000, 1400000000]) (NewRateLimiter 10 20) \<le> 5"
  using steady_client_starved [of 10 20 "''POST''" "''/api/v1/auth/login''" "''login''" 1 5 "[0, 500000000, 1400000000]" "''x''"]
  by (simp add: policy_def request_key_def second_def)

end
