(* ===== verification/JobStore.thy ===== *)
theory JobStore
  imports Envelope
begin

text \<open>
  The relational state of the job pipeline: the tables \<^verbatim>\<open>jobs\<close>, \<^verbatim>\<open>job_targets\<close>, \<^verbatim>\<open>job_outbox\<close> and
  \<^verbatim>\<open>job_inbox\<close> (the columns that the dispatcher reads or writes) and the two triggers of
  \<^verbatim>\<open>pkg/postgres/durability_schema.go\<close> that keep the job row consistent with its targets. A SQL
  \<^verbatim>\<open>NULL\<close> is \<open>None\<close>; \<open>now\<close> is the transaction's \<^verbatim>\<open>NOW()\<close>. The tables are lists in physical order,
  and every statement is a function on the whole state.
\<close>

section \<open>Tables\<close>

record job_row =
  j_id :: string
  j_msp_id :: string
  j_client_id :: string
  j_site_id :: "string option"
  j_type :: string
  j_status :: string
  j_payload :: json
  j_max_retries :: int
  j_expires_at :: "instant option"
  j_scheduled_for :: "instant option"
  j_correlation_id :: "string option"
  j_idempotency_key :: "string option"
  j_request_hash :: "string option"
  j_dispatch_count :: int
  j_completed_count :: int
  j_failed_count :: int
  j_completed_at :: "instant option"
  j_cancelled_at :: "instant option"

record target_row =
  t_id :: string
  t_job_id :: string
  t_device_id :: string
  t_agent_id :: "string option"
  t_status :: string
  t_attempt :: int
  t_retry_count :: int
  t_next_retry_at :: "instant option"
  t_lease_owner :: "string option"
  t_lease_expires :: "instant option"
  t_dispatched_at :: "instant option"
  t_acknowledged_at :: "instant option"
  t_completed_at :: "instant option"
  t_result :: "json option"
  t_error_message :: "string option"
  t_exit_code :: "int option"
  t_approval_status :: string
  t_offline_at :: "instant option"
  t_reconnect_at :: "instant option"

record outbox_row =
  o_id :: nat
  o_msp_id :: string
  o_aggregate_id :: string
  o_event_type :: string
  o_payload :: json
  o_available_at :: instant
  o_published_at :: "instant option"
  o_lease_owner :: "string option"
  o_lease_expires :: "instant option"
  o_attempt_count :: int
  o_last_error :: "string option"

record inbox_row =
  i_id :: nat
  i_msp_id :: string
  i_message_id :: string
  i_job_id :: string
  i_target_id :: string
  i_event_type :: string
  i_processed_at :: "instant option"

record jobdb =
  jobs :: "job_row list"
  targets :: "target_row list"
  outbox :: "outbox_row list"
  inbox :: "inbox_row list"
  next_id :: nat

definition coalesce :: "string option \<Rightarrow> string" where
  "coalesce x = (case x of None \<Rightarrow> [] | Some v \<Rightarrow> v)"

section \<open>Aggregates and triggers\<close>

text \<open>The statuses the triggers count as not terminal.\<close>

definition nonterminal_statuses :: "string list" where
  "nonterminal_statuses = [''pending'', ''queued'', ''dispatched'', ''running'', ''waiting'']"

definition count_status :: "string list \<Rightarrow> string \<Rightarrow> target_row list \<Rightarrow> int" where
  "count_status sts job ts = int (length (filter (\<lambda>t. t_job_id t = job \<and> List.member sts (t_status t)) ts))"

text \<open>The precedence of the aggregate: failed or expired, then cancelled, then succeeded.\<close>

definition aggregate_status :: "string \<Rightarrow> target_row list \<Rightarrow> string" where
  "aggregate_status job ts =
     (if 0 < count_status [''failed'', ''expired''] job ts then ''failed''
      else if 0 < count_status [''cancelled''] job ts then ''cancelled''
      else ''succeeded'')"

definition coalesce_time :: "instant option \<Rightarrow> instant \<Rightarrow> instant option" where
  "coalesce_time t now = (case t of None \<Rightarrow> Some now | Some x \<Rightarrow> Some x)"

text \<open>\<^verbatim>\<open>BEFORE UPDATE OF status ON jobs\<close>: the row about to be written, rewritten by the trigger.\<close>

definition enforce_job_terminal_aggregate :: "instant \<Rightarrow> target_row list \<Rightarrow> job_row \<Rightarrow> job_row" where
  "enforce_job_terminal_aggregate now ts j =
     (if \<not> List.member [''succeeded'', ''failed'', ''cancelled''] (j_status j) then j
      else if count_status nonterminal_statuses (j_id j) ts \<noteq> 0 then j
      else j\<lparr>j_completed_count := count_status [''succeeded''] (j_id j) ts,
             j_failed_count := count_status [''failed'', ''expired''] (j_id j) ts,
             j_completed_at := coalesce_time (j_completed_at j) now,
             j_status := aggregate_status (j_id j) ts\<rparr>)"

text \<open>An \<^verbatim>\<open>UPDATE jobs\<close> statement that sets \<^verbatim>\<open>status\<close>: rows selected by \<open>sel\<close>, new values by \<open>upd\<close>.\<close>

definition update_jobs :: "instant \<Rightarrow> (job_row \<Rightarrow> bool) \<Rightarrow> (job_row \<Rightarrow> job_row) \<Rightarrow> jobdb \<Rightarrow> jobdb" where
  "update_jobs now sel upd db =
     db\<lparr>jobs := map (\<lambda>j. if sel j then enforce_job_terminal_aggregate now (targets db) (upd j) else j) (jobs db)\<rparr>"

text \<open>\<^verbatim>\<open>AFTER UPDATE OF status ON job_targets\<close>, for one row that the statement changed.\<close>

definition refresh_job_terminal_aggregate_from_target ::
  "instant \<Rightarrow> target_row \<Rightarrow> target_row \<Rightarrow> jobdb \<Rightarrow> jobdb" where
  "refresh_job_terminal_aggregate_from_target now old new db =
     (if t_status new = t_status old then db
      else if \<not> List.member [''succeeded'', ''failed'', ''expired'', ''cancelled''] (t_status new) then db
      else
        let job = t_job_id new;
            open_count = count_status nonterminal_statuses job (targets db)
        in update_jobs now (\<lambda>j. j_id j = job)
             (\<lambda>j. j\<lparr>j_completed_count := count_status [''succeeded''] job (targets db),
                    j_failed_count := count_status [''failed'', ''expired''] job (targets db),
                    j_status := (if 0 < open_count then j_status j else aggregate_status job (targets db)),
                    j_completed_at := (if open_count = 0 then coalesce_time (j_completed_at j) now
                                       else j_completed_at j)\<rparr>) db)"

text \<open>An \<^verbatim>\<open>UPDATE job_targets\<close> statement that sets \<^verbatim>\<open>status\<close>; the row triggers run after it.\<close>

definition update_targets ::
  "instant \<Rightarrow> (target_row \<Rightarrow> bool) \<Rightarrow> (target_row \<Rightarrow> target_row) \<Rightarrow> jobdb \<Rightarrow> jobdb" where
  "update_targets now sel upd db =
     (let changed = map (\<lambda>t. (t, upd t)) (filter sel (targets db));
          db1 = db\<lparr>targets := map (\<lambda>t. if sel t then upd t else t) (targets db)\<rparr>
      in fold (\<lambda>(old, new). refresh_job_terminal_aggregate_from_target now old new) changed db1)"

definition find_job :: "string \<Rightarrow> jobdb \<Rightarrow> job_row option" where
  "find_job k db = find (\<lambda>j. j_id j = k) (jobs db)"

definition find_target :: "string \<Rightarrow> jobdb \<Rightarrow> target_row option" where
  "find_target k db = find (\<lambda>t. t_id t = k) (targets db)"

section \<open>Well-formed stores\<close>

text \<open>Primary keys are unique and the inbox has at most one row per tenant and message.\<close>

definition db_ok :: "jobdb \<Rightarrow> bool" where
  "db_ok db =
     (distinct (map j_id (jobs db)) \<and> distinct (map t_id (targets db))
      \<and> distinct (map i_id (inbox db)) \<and> distinct (map (\<lambda>i. (i_msp_id i, i_message_id i)) (inbox db))
      \<and> list_all (\<lambda>i. i_id i < next_id db) (inbox db) \<and> list_all (\<lambda>x. o_id x < next_id db) (outbox db)
      \<and> distinct (map o_id (outbox db)))"

section \<open>Frame lemmas\<close>

lemma enforce_simps [simp]:
  "j_id (enforce_job_terminal_aggregate now ts j) = j_id j"
  "j_msp_id (enforce_job_terminal_aggregate now ts j) = j_msp_id j"
  "j_client_id (enforce_job_terminal_aggregate now ts j) = j_client_id j"
  "j_site_id (enforce_job_terminal_aggregate now ts j) = j_site_id j"
  "j_type (enforce_job_terminal_aggregate now ts j) = j_type j"
  "j_payload (enforce_job_terminal_aggregate now ts j) = j_payload j"
  "j_max_retries (enforce_job_terminal_aggregate now ts j) = j_max_retries j"
  "j_expires_at (enforce_job_terminal_aggregate now ts j) = j_expires_at j"
  "j_correlation_id (enforce_job_terminal_aggregate now ts j) = j_correlation_id j"
  by (simp_all add: enforce_job_terminal_aggregate_def)

lemma update_jobs_simps [simp]:
  "targets (update_jobs now sel upd db) = targets db"
  "outbox (update_jobs now sel upd db) = outbox db"
  "inbox (update_jobs now sel upd db) = inbox db"
  "next_id (update_jobs now sel upd db) = next_id db"
  by (simp_all add: update_jobs_def)

lemma refresh_simps [simp]:
  "targets (refresh_job_terminal_aggregate_from_target now old new db) = targets db"
  "outbox (refresh_job_terminal_aggregate_from_target now old new db) = outbox db"
  "inbox (refresh_job_terminal_aggregate_from_target now old new db) = inbox db"
  "next_id (refresh_job_terminal_aggregate_from_target now old new db) = next_id db"
  by (simp_all add: refresh_job_terminal_aggregate_from_target_def Let_def)

lemma fold_refresh_simps [simp]:
  "targets (fold (\<lambda>(old, new). refresh_job_terminal_aggregate_from_target now old new) xs db) = targets db"
  "outbox (fold (\<lambda>(old, new). refresh_job_terminal_aggregate_from_target now old new) xs db) = outbox db"
  "inbox (fold (\<lambda>(old, new). refresh_job_terminal_aggregate_from_target now old new) xs db) = inbox db"
  "next_id (fold (\<lambda>(old, new). refresh_job_terminal_aggregate_from_target now old new) xs db) = next_id db"
  by (induction xs arbitrary: db) (auto simp: split_beta)

lemma update_targets_simps [simp]:
  "targets (update_targets now sel upd db) = map (\<lambda>t. if sel t then upd t else t) (targets db)"
  "outbox (update_targets now sel upd db) = outbox db"
  "inbox (update_targets now sel upd db) = inbox db"
  "next_id (update_targets now sel upd db) = next_id db"
  by (simp_all add: update_targets_def Let_def)

text \<open>The identity columns of the job rows, which no statement of the pipeline changes.\<close>

definition job_key :: "job_row \<Rightarrow> string \<times> string \<times> string \<times> string option \<times> string option \<times> int" where
  "job_key j = (j_id j, j_msp_id j, j_client_id j, j_site_id j, j_correlation_id j, j_max_retries j)"

lemma update_jobs_keys:
  "(\<And>j. job_key (upd j) = job_key j) \<Longrightarrow> map job_key (jobs (update_jobs now sel upd db)) = map job_key (jobs db)"
  by (simp add: update_jobs_def comp_def job_key_def)

lemma refresh_keys [simp]:
  "map job_key (jobs (refresh_job_terminal_aggregate_from_target now old new db)) = map job_key (jobs db)"
  by (auto simp: refresh_job_terminal_aggregate_from_target_def Let_def update_jobs_keys job_key_def)

lemma fold_refresh_keys [simp]:
  "map job_key (jobs (fold (\<lambda>(old, new). refresh_job_terminal_aggregate_from_target now old new) xs db)) =
     map job_key (jobs db)"
  by (induction xs arbitrary: db) (auto simp: split_beta)

lemma update_targets_keys [simp]: "map job_key (jobs (update_targets now sel upd db)) = map job_key (jobs db)"
  by (simp add: update_targets_def Let_def)

lemma job_ids_of_keys: "map job_key xs = map job_key ys \<Longrightarrow> map j_id xs = map j_id ys"
  by (metis (mono_tags, lifting) comp_apply fst_conv job_key_def map_map map_eq_conv)

lemma find_map_key:
  "map job_key xs = map job_key ys \<Longrightarrow>
     map_option job_key (find (\<lambda>j. j_id j = k) xs) = map_option job_key (find (\<lambda>j. j_id j = k) ys)"
proof (induction xs arbitrary: ys)
  case (Cons x xs)
  then obtain y ys' where ys: "ys = y # ys'" "job_key x = job_key y" "map job_key xs = map job_key ys'"
    by (auto simp: Cons_eq_map_conv)
  then have "j_id x = j_id y" by (simp add: job_key_def)
  with Cons.IH [OF ys(3)] ys show ?case by simp
qed simp

end
