(* ===== verification/ResultProcessing.thy ===== *)
theory ResultProcessing
  imports JobStore
begin

text \<open>
  How the orchestrator applies what agents report: \<^verbatim>\<open>handleAgentAck\<close>, \<^verbatim>\<open>publishResultReceipt\<close> and the
  result subscription of \<^verbatim>\<open>internal/platform/dispatcher.go\<close>, and the transactional result path of
  \<^verbatim>\<open>internal/platform/result_retry.go\<close>. The database may fail at any statement: \<open>fault\<close> gives the
  error of each step, if it has one, and a transaction that does not commit leaves the tables as
  they were.
\<close>

section \<open>Failures\<close>

datatype db_error = PgError string | NoRows | OtherError

datatype db_step =
    BeginTx | ClaimInbox | VerifyProcessed | SelectTarget | UpdateTarget | MarkProcessed | UpdateJob | CommitTx

type_synonym faults = "db_step \<Rightarrow> db_error option"

definition isRetryableResultTransactionError :: "db_error \<Rightarrow> bool" where
  "isRetryableResultTransactionError e = (case e of PgError code \<Rightarrow> code = ''40001'' \<or> code = ''40P01'' | _ \<Rightarrow> False)"

section \<open>Statements\<close>

text \<open>
  The claim of a message in the inbox. A new message gets a row; a message claimed earlier and not
  processed returns its row; a processed message returns no row.
\<close>

definition claim_result :: "string \<Rightarrow> string \<Rightarrow> string \<Rightarrow> string \<Rightarrow> jobdb \<Rightarrow> (jobdb \<times> nat) option" where
  "claim_result mspID messageID jobID targetID db =
     (case find (\<lambda>i. i_msp_id i = mspID \<and> i_message_id i = messageID) (inbox db) of
        Some i \<Rightarrow> if i_processed_at i = None then Some (db, i_id i) else None
      | None \<Rightarrow>
          Some (db\<lparr>inbox := inbox db @ [\<lparr>i_id = next_id db, i_msp_id = mspID, i_message_id = messageID,
                     i_job_id = jobID, i_target_id = targetID, i_event_type = ''result'', i_processed_at = None\<rparr>],
                   next_id := Suc (next_id db)\<rparr>, next_id db))"

text \<open>The claim of an acknowledgement: a message seen before returns no row.\<close>

definition claim_ack :: "string \<Rightarrow> string \<Rightarrow> string \<Rightarrow> string \<Rightarrow> jobdb \<Rightarrow> (jobdb \<times> nat) option" where
  "claim_ack mspID messageID jobID targetID db =
     (case find (\<lambda>i. i_msp_id i = mspID \<and> i_message_id i = messageID) (inbox db) of
        Some i \<Rightarrow> None
      | None \<Rightarrow>
          Some (db\<lparr>inbox := inbox db @ [\<lparr>i_id = next_id db, i_msp_id = mspID, i_message_id = messageID,
                     i_job_id = jobID, i_target_id = targetID, i_event_type = ''ack'', i_processed_at = None\<rparr>],
                   next_id := Suc (next_id db)\<rparr>, next_id db))"

definition resultProcessedContext :: "string \<Rightarrow> string \<Rightarrow> jobdb \<Rightarrow> bool" where
  "resultProcessedContext mspID messageID db =
     list_ex (\<lambda>i. i_msp_id i = mspID \<and> i_message_id i = messageID \<and> i_processed_at i \<noteq> None) (inbox db)"

text \<open>The target row joined with its job, restricted to the message's target, job, tenant and device.\<close>

definition select_target :: "string \<Rightarrow> string \<Rightarrow> string \<Rightarrow> string \<Rightarrow> jobdb \<Rightarrow> (target_row \<times> job_row) option" where
  "select_target targetID jobID mspID deviceID db =
     (case find (\<lambda>t. t_id t = targetID \<and> t_job_id t = jobID \<and> t_device_id t = deviceID) (targets db) of
        None \<Rightarrow> None
      | Some t \<Rightarrow>
          (case find (\<lambda>j. j_id j = jobID \<and> j_msp_id j = mspID) (jobs db) of
             None \<Rightarrow> None
           | Some j \<Rightarrow> Some (t, j)))"

definition mark_processed :: "instant \<Rightarrow> nat \<Rightarrow> jobdb \<Rightarrow> jobdb" where
  "mark_processed now k db =
     db\<lparr>inbox := map (\<lambda>i. if i_id i = k then i\<lparr>i_processed_at := Some now\<rparr> else i) (inbox db)\<rparr>"

definition apply_result :: "instant \<Rightarrow> ResultEnvelope \<Rightarrow> target_row \<Rightarrow> target_row" where
  "apply_result now res t =
     t\<lparr>t_status := rStatus res, t_result := Some (case rResult res of None \<Rightarrow> JNull | Some j \<Rightarrow> j),
       t_error_message := (if rError res = [] then None else Some (rError res)),
       t_exit_code := Some (rExitCode res), t_completed_at := Some now, t_lease_owner := None,
       t_lease_expires := None\<rparr>"

definition terminal_statuses :: "string list" where
  "terminal_statuses = [''succeeded'', ''failed'', ''cancelled'', ''expired'']"

text \<open>The number of the job's targets that are not in a terminal status.\<close>

definition open_targets :: "string \<Rightarrow> target_row list \<Rightarrow> int" where
  "open_targets job ts =
     int (length (filter (\<lambda>t. t_job_id t = job \<and> \<not> List.member terminal_statuses (t_status t)) ts))"

definition refresh_job :: "instant \<Rightarrow> string \<Rightarrow> jobdb \<Rightarrow> jobdb" where
  "refresh_job now job db =
     (let n = open_targets job (targets db)
      in update_jobs now (\<lambda>j. j_id j = job)
           (\<lambda>j. j\<lparr>j_completed_count := count_status [''succeeded''] job (targets db),
                  j_failed_count := count_status [''failed'', ''expired''] job (targets db),
                  j_status := (if n = 0 then aggregate_status job (targets db) else j_status j),
                  j_completed_at := (if n = 0 then Some now else None)\<rparr>) db)"

section \<open>The result transaction\<close>

definition publishResultReceipt :: "instant \<Rightarrow> ResultEnvelope \<Rightarrow> string \<times> json" where
  "publishResultReceipt now res =
     (''tenant.'' @ rMSPID res @ ''.agent.'' @ rAgentID res @ ''.result.ack'',
      JObj [(''schema_version'', JNum (of_int CurrentSchemaVersion)), (''message_id'', JStr (rMessageID res)),
            (''event_id'', JStr (rEventID res)), (''received_at'', JStr (Format_RFC3339 now))])"

record outcome =
  out_db :: jobdb
  out_receipts :: "(string \<times> json) list"
  out_processed :: bool
  out_error :: "db_error option"

definition give_up :: "jobdb \<Rightarrow> db_error option \<Rightarrow> outcome" where
  "give_up db e = \<lparr>out_db = db, out_receipts = [], out_processed = False, out_error = e\<rparr>"

definition commit :: "faults \<Rightarrow> instant \<Rightarrow> ResultEnvelope \<Rightarrow> jobdb \<Rightarrow> jobdb \<Rightarrow> outcome" where
  "commit fault now res db0 db =
     (case fault CommitTx of
        Some e \<Rightarrow> give_up db0 (Some e)
      | None \<Rightarrow> \<lparr>out_db = db, out_receipts = [publishResultReceipt now res], out_processed = True, out_error = None\<rparr>)"

text \<open>The statements run on the claimed target once its ownership has been checked.\<close>

definition settle_result :: "faults \<Rightarrow> instant \<Rightarrow> ResultEnvelope \<Rightarrow> nat \<Rightarrow> target_row \<Rightarrow> jobdb \<Rightarrow> jobdb \<Rightarrow> outcome" where
  "settle_result fault now res inboxID t db0 db1 =
     (let currentStatus = t_status t
      in if List.member terminal_statuses currentStatus \<and> List.member terminal_statuses (rStatus res)
            \<and> (currentStatus = rStatus res \<or> currentStatus = ''cancelled'') then
           (case fault MarkProcessed of
              Some e \<Rightarrow> give_up db0 (Some e)
            | None \<Rightarrow> commit fault now res db0 (mark_processed now inboxID db1))
         else
           (case TransitionJob currentStatus (rStatus res) of
              Inl _ \<Rightarrow> give_up db0 None
            | Inr _ \<Rightarrow>
                (case fault UpdateTarget of
                   Some e \<Rightarrow> give_up db0 (Some e)
                 | None \<Rightarrow>
                     let db2 = update_targets now (\<lambda>t. t_id t = rTargetID res) (apply_result now res) db1
                     in (case fault MarkProcessed of
                           Some e \<Rightarrow> give_up db0 (Some e)
                         | None \<Rightarrow>
                             (case fault UpdateJob of
                                Some e \<Rightarrow> give_up db0 (Some e)
                              | None \<Rightarrow> commit fault now res db0
                                          (refresh_job now (rJobID res) (mark_processed now inboxID db2)))))))"

definition owns :: "ResultEnvelope \<Rightarrow> target_row \<Rightarrow> job_row \<Rightarrow> bool" where
  "owns res t j =
     (\<not> (coalesce (t_agent_id t) \<noteq> rAgentID res \<or> t_attempt t \<noteq> rAttempt res \<or> j_client_id j \<noteq> rClientID res
         \<or> coalesce (j_site_id j) \<noteq> rSiteID res \<or> coalesce (j_correlation_id j) \<noteq> rCorrelationID res))"

definition result_transaction :: "faults \<Rightarrow> instant \<Rightarrow> ResultEnvelope \<Rightarrow> jobdb \<Rightarrow> outcome" where
  "result_transaction fault now res db =
     (case fault ClaimInbox of
        Some e \<Rightarrow> give_up db (Some e)
      | None \<Rightarrow>
          (case claim_result (rMSPID res) (rMessageID res) (rJobID res) (rTargetID res) db of
             None \<Rightarrow>
               (case fault VerifyProcessed of
                  Some e \<Rightarrow> give_up db (Some e)
                | None \<Rightarrow>
                    let processed = resultProcessedContext (rMSPID res) (rMessageID res) db
                    in \<lparr>out_db = db, out_receipts = (if processed then [publishResultReceipt now res] else []),
                        out_processed = processed, out_error = None\<rparr>)
           | Some (db1, inboxID) \<Rightarrow>
               (case fault SelectTarget of
                  Some e \<Rightarrow> give_up db (Some e)
                | None \<Rightarrow>
                    (case select_target (rTargetID res) (rJobID res) (rMSPID res) (rDeviceID res) db1 of
                       None \<Rightarrow> give_up db (Some NoRows)
                     | Some (t, j) \<Rightarrow>
                         if \<not> owns res t j then give_up db None
                         else settle_result fault now res inboxID t db db1))))"

definition processAgentResultOnce :: "faults \<Rightarrow> instant \<Rightarrow> string \<Rightarrow> json wire \<Rightarrow> jobdb \<Rightarrow> outcome" where
  "processAgentResultOnce fault now subject data db =
     (case subjectIdentity subject ''result'' of (subjectMSP, subjectAgent, ok) \<Rightarrow>
        if \<not> ok then give_up db None
        else (case ValidateResultEnvelope data subjectMSP subjectAgent [] of
                Inl _ \<Rightarrow> give_up db None
              | Inr res \<Rightarrow>
                  if rMessageID res = [] \<or> rCorrelationID res = [] then give_up db None
                  else (case fault BeginTx of
                          Some e \<Rightarrow> give_up db (Some e)
                        | None \<Rightarrow> result_transaction fault now res db)))"

text \<open>
  The bounded retry. \<open>fault n\<close> is what happens in attempt \<open>n\<close>; \<open>ctx_done n\<close> says that the context ends
  while waiting after it. The result is the state, the receipts published and the answer.
\<close>

definition resultTransactionAttempts :: nat where "resultTransactionAttempts = 5"

fun result_attempts ::
  "nat \<Rightarrow> nat \<Rightarrow> (nat \<Rightarrow> faults) \<Rightarrow> (nat \<Rightarrow> bool) \<Rightarrow> instant \<Rightarrow> string \<Rightarrow> json wire \<Rightarrow> jobdb \<Rightarrow> outcome" where
  "result_attempts 0 attempt fault ctx_done now subject data db = give_up db None"
| "result_attempts (Suc left) attempt fault ctx_done now subject data db =
     (let r = processAgentResultOnce (fault attempt) now subject data db
      in case out_error r of
           None \<Rightarrow> r
         | Some e \<Rightarrow>
             if \<not> isRetryableResultTransactionError e then r\<lparr>out_processed := False\<rparr>
             else if left = 0 then r\<lparr>out_processed := False\<rparr>
             else if ctx_done attempt then r\<lparr>out_processed := False\<rparr>
             else result_attempts left (Suc attempt) fault ctx_done now subject data (out_db r))"

definition processAgentResultWithRetry ::
  "(nat \<Rightarrow> faults) \<Rightarrow> (nat \<Rightarrow> bool) \<Rightarrow> instant \<Rightarrow> string \<Rightarrow> json wire \<Rightarrow> jobdb \<Rightarrow> outcome" where
  "processAgentResultWithRetry fault ctx_done now subject data db =
     result_attempts resultTransactionAttempts 0 fault ctx_done now subject data db"

datatype msg_disposition = MsgAck | MsgNak | MsgTerm

text \<open>The result subscription; \<open>gate\<close> is whether the shared recovery lock was acquired.\<close>

definition onAgentResult ::
  "bool \<Rightarrow> (nat \<Rightarrow> faults) \<Rightarrow> (nat \<Rightarrow> bool) \<Rightarrow> instant \<Rightarrow> string \<Rightarrow> json wire \<Rightarrow> jobdb
     \<Rightarrow> jobdb \<times> (string \<times> json) list \<times> msg_disposition" where
  "onAgentResult gate fault ctx_done now subject data db =
     (case subjectIdentity subject ''result'' of (subjectMSP, subjectAgent, ok) \<Rightarrow>
        if \<not> ok then (db, [], MsgTerm)
        else (case ValidateResultEnvelope data subjectMSP subjectAgent [] of
                Inl _ \<Rightarrow> (db, [], MsgTerm)
              | Inr res \<Rightarrow>
                  if rMessageID res = [] then (db, [], MsgTerm)
                  else if \<not> gate then (db, [], MsgNak)
                  else let r = processAgentResultWithRetry fault ctx_done now subject data db
                       in (out_db r, out_receipts r, if out_processed r then MsgAck else MsgNak)))"

section \<open>Acknowledgements\<close>

definition ack_status :: "string \<Rightarrow> string \<Rightarrow> string option" where
  "ack_status status current =
     (if status = AckAccepted then Some ''running''
      else if status = AckDuplicate then Some current
      else if status = AckRejected \<or> status = AckUnsupported then Some ''failed''
      else if status = AckExpired then Some ''expired''
      else None)"

definition apply_ack :: "instant \<Rightarrow> string \<Rightarrow> string \<Rightarrow> target_row \<Rightarrow> target_row" where
  "apply_ack now nextStatus ackStatus t =
     t\<lparr>t_status := nextStatus,
       t_acknowledged_at := (if nextStatus = ''running'' then Some now else t_acknowledged_at t),
       t_completed_at := (if nextStatus = ''failed'' \<or> nextStatus = ''expired'' then Some now else t_completed_at t),
       t_error_message := (if nextStatus = ''failed'' then Some (''target rejected by agent: '' @ ackStatus)
                           else t_error_message t)\<rparr>"

definition ack_identity :: "string \<Rightarrow> Acknowledgement \<Rightarrow> bool" where
  "ack_identity subject ack =
     (case subjectIdentity subject ''ack'' of (subjectMSP, subjectAgent, ok) \<Rightarrow>
        \<not> (\<not> ok \<or> aEventID ack = [] \<or> aMessageID ack = [] \<or> aJobID ack = [] \<or> aTargetID ack = []
           \<or> aMSPID ack \<noteq> subjectMSP \<or> aAgentID ack \<noteq> subjectAgent \<or> aAttempt ack < 1))"

definition finish_ack :: "faults \<Rightarrow> instant \<Rightarrow> nat \<Rightarrow> jobdb \<Rightarrow> jobdb \<Rightarrow> jobdb" where
  "finish_ack fault now inboxID db0 db =
     (case (fault MarkProcessed, fault CommitTx) of
        (None, None) \<Rightarrow> mark_processed now inboxID db
      | _ \<Rightarrow> db0)"

definition handleAgentAck :: "faults \<Rightarrow> instant \<Rightarrow> string \<Rightarrow> json wire \<Rightarrow> jobdb \<Rightarrow> jobdb" where
  "handleAgentAck fault now subject data db =
     (case unmarshal_ack data of
        None \<Rightarrow> db
      | Some ack \<Rightarrow>
          if \<not> ack_identity subject ack then db
          else if fault BeginTx \<noteq> None \<or> fault ClaimInbox \<noteq> None then db
          else (case claim_ack (aMSPID ack) (aMessageID ack) (aJobID ack) (aTargetID ack) db of
                  None \<Rightarrow> db
                | Some (db1, inboxID) \<Rightarrow>
                    if fault SelectTarget \<noteq> None then db
                    else (case select_target (aTargetID ack) (aJobID ack) (aMSPID ack) (aDeviceID ack) db1 of
                            None \<Rightarrow> db
                          | Some (t, j) \<Rightarrow>
                              if coalesce (t_agent_id t) \<noteq> aAgentID ack \<or> t_attempt t \<noteq> aAttempt ack
                                 \<or> coalesce (j_correlation_id j) \<noteq> aCorrelationID ack then db
                              else (case ack_status (aStatus ack) (t_status t) of
                                      None \<Rightarrow> db
                                    | Some nextStatus \<Rightarrow>
                                        if nextStatus = t_status t then finish_ack fault now inboxID db db1
                                        else (case TransitionJob (t_status t) nextStatus of
                                                Inl _ \<Rightarrow> db
                                              | Inr _ \<Rightarrow>
                                                  if fault UpdateTarget \<noteq> None then db
                                                  else finish_ack fault now inboxID db
                                                    (update_targets now (\<lambda>t. t_id t = aTargetID ack)
                                                       (apply_ack now nextStatus (aStatus ack)) db1))))))"

section \<open>What a result transaction can do\<close>

lemma claim_result_simps:
  "claim_result m k j t db = Some (db1, x) \<Longrightarrow>
     targets db1 = targets db \<and> jobs db1 = jobs db \<and> outbox db1 = outbox db"
  by (auto simp: claim_result_def split: option.splits if_splits)

lemma claim_ack_simps:
  "claim_ack m k j t db = Some (db1, x) \<Longrightarrow>
     targets db1 = targets db \<and> jobs db1 = jobs db \<and> outbox db1 = outbox db"
  by (auto simp: claim_ack_def split: option.splits)

lemma mark_processed_simps [simp]:
  "targets (mark_processed now k db) = targets db" "jobs (mark_processed now k db) = jobs db"
  "outbox (mark_processed now k db) = outbox db" "next_id (mark_processed now k db) = next_id db"
  by (simp_all add: mark_processed_def)

lemma refresh_job_simps [simp]:
  "targets (refresh_job now k db) = targets db" "inbox (refresh_job now k db) = inbox db"
  "outbox (refresh_job now k db) = outbox db" "next_id (refresh_job now k db) = next_id db"
  by (simp_all add: refresh_job_def Let_def)

lemma select_target_Some:
  assumes "select_target tg jb ms dv db = Some (t, j)"
  shows "t \<in> set (targets db) \<and> t_id t = tg \<and> t_job_id t = jb \<and> t_device_id t = dv
    \<and> j \<in> set (jobs db) \<and> j_id j = jb \<and> j_msp_id j = ms"
  using assms
  by (auto simp: select_target_def find_Some_iff split: option.splits)

lemma select_target_cong:
  "targets d = targets d' \<Longrightarrow> jobs d = jobs d' \<Longrightarrow> select_target tg jb ms dv d = select_target tg jb ms dv d'"
  by (auto simp: select_target_def split: option.splits)

text \<open>
  The three ways a result transaction ends: nothing changes; the message is marked as processed
  because the target is final already; the result is applied.
\<close>

lemma settle_result_cases:
  obtains (unchanged) "out_db (settle_result fault now res k t db0 db1) = db0"
      "\<not> out_processed (settle_result fault now res k t db0 db1)"
  | (final) "job_terminal (t_status t)" "t_status t = rStatus res \<or> t_status t = ''cancelled''"
      "settle_result fault now res k t db0 db1 = \<lparr>out_db = mark_processed now k db1,
         out_receipts = [publishResultReceipt now res], out_processed = True, out_error = None\<rparr>"
  | (applied) "CanTransition (t_status t) (rStatus res)"
      "settle_result fault now res k t db0 db1 = \<lparr>out_db = refresh_job now (rJobID res)
           (mark_processed now k (update_targets now (\<lambda>t. t_id t = rTargetID res) (apply_result now res) db1)),
         out_receipts = [publishResultReceipt now res], out_processed = True, out_error = None\<rparr>"
proof (cases "List.member terminal_statuses (t_status t) \<and> List.member terminal_statuses (rStatus res)
            \<and> (t_status t = rStatus res \<or> t_status t = ''cancelled'')")
  case True
  then have fin: "job_terminal (t_status t)" by (auto simp: terminal_statuses_def job_terminal_def)
  show ?thesis
  proof (cases "fault MarkProcessed = None \<and> fault CommitTx = None")
    case ok: True
    with True fin show ?thesis by (intro final) (auto simp: settle_result_def commit_def Let_def)
  next
    case False
    with True show ?thesis
      by (intro unchanged) (auto simp: settle_result_def commit_def give_up_def Let_def split: option.splits)
  qed
next
  case False
  show ?thesis
  proof (cases "TransitionJob (t_status t) (rStatus res) = Inr () \<and> fault UpdateTarget = None
      \<and> fault MarkProcessed = None \<and> fault UpdateJob = None \<and> fault CommitTx = None")
    case True
    then have "CanTransition (t_status t) (rStatus res)" by (simp add: TransitionJob_ok)
    with True False show ?thesis by (intro applied) (auto simp: settle_result_def commit_def Let_def)
  next
    case no: False
    with False show ?thesis
      by (intro unchanged) (auto simp: settle_result_def commit_def give_up_def Let_def split: option.splits sum.splits)
  qed
qed

lemma result_transaction_cases:
  obtains (unchanged) "out_db (result_transaction fault now res db) = db"
      "\<not> out_processed (result_transaction fault now res db)"
  | (seen) "claim_result (rMSPID res) (rMessageID res) (rJobID res) (rTargetID res) db = None"
      "out_db (result_transaction fault now res db) = db"
      "out_processed (result_transaction fault now res db) =
         resultProcessedContext (rMSPID res) (rMessageID res) db"
  | (settled) db1 k t j where
      "claim_result (rMSPID res) (rMessageID res) (rJobID res) (rTargetID res) db = Some (db1, k)"
      "select_target (rTargetID res) (rJobID res) (rMSPID res) (rDeviceID res) db1 = Some (t, j)"
      "owns res t j" "result_transaction fault now res db = settle_result fault now res k t db db1"
proof (cases "fault ClaimInbox")
  case (Some e)
  then show ?thesis by (intro unchanged) (simp_all add: result_transaction_def give_up_def)
next
  case nf: None
  show ?thesis
  proof (cases "claim_result (rMSPID res) (rMessageID res) (rJobID res) (rTargetID res) db")
    case None
    show ?thesis
    proof (cases "fault VerifyProcessed")
      case (Some e)
      with nf None show ?thesis by (intro unchanged) (simp_all add: result_transaction_def give_up_def)
    next
      case fv: None
      with nf None show ?thesis by (intro seen) (simp_all add: result_transaction_def Let_def)
    qed
  next
    case (Some p)
    obtain db1 k where p: "p = (db1, k)" by fastforce
    let ?sel = "select_target (rTargetID res) (rJobID res) (rMSPID res) (rDeviceID res) db1"
    show ?thesis
    proof (cases "fault SelectTarget = None \<and> (\<exists>t j. ?sel = Some (t, j) \<and> owns res t j)")
      case True
      then obtain t j where "fault SelectTarget = None" "?sel = Some (t, j)" "owns res t j" by blast
      with nf Some p show ?thesis by (intro settled) (simp_all add: result_transaction_def)
    next
      case False
      with nf Some p show ?thesis
        by (intro unchanged) (auto simp: result_transaction_def give_up_def split: option.splits)
    qed
  qed
qed

text \<open>
  C6. Tenant and ownership safety of results: whatever the database does, processing a result either
  leaves every target as it was, or the subject is the result subject of a tenant and an agent, the
  envelope is valid for them, and exactly one target changes: it belongs to a job of that tenant, is
  assigned to that agent with the attempt, device, client, site and correlation of the envelope, its
  status moves along an allowed transition (so a final status is never overwritten) and it takes the
  reported outcome.
\<close>

theorem result_changes_only_owned_target:
  "targets (out_db (processAgentResultOnce fault now subject data db)) = targets db
   \<or> (\<exists>m a res t j. subject = agent_subject m a ''result'' \<and> ValidateResultEnvelope data m a [] = Inr res
        \<and> t \<in> set (targets db) \<and> t_id t = rTargetID res \<and> t_device_id t = rDeviceID res
        \<and> j \<in> set (jobs db) \<and> j_id j = t_job_id t \<and> j_msp_id j = m \<and> owns res t j
        \<and> coalesce (t_agent_id t) = a \<and> CanTransition (t_status t) (rStatus res)
        \<and> targets (out_db (processAgentResultOnce fault now subject data db)) =
            map (\<lambda>x. if t_id x = t_id t then apply_result now res x else x) (targets db))"
  (is "?same \<or> ?changed")
proof (rule disjCI)
  assume ch: "\<not> ?changed"
  show ?same
  proof (rule ccontr)
    assume ns: "\<not> ?same"
    obtain m a ok where sub: "subjectIdentity subject ''result'' = (m, a, ok)" by (metis prod_cases3)
    from ns sub obtain res where ok and res: "ValidateResultEnvelope data m a [] = Inr res"
      and once: "processAgentResultOnce fault now subject data db = result_transaction fault now res db"
      by (auto simp: processAgentResultOnce_def give_up_def split: sum.splits if_splits option.splits)
    from sub \<open>ok\<close> have id: "subjectIdentity subject ''result'' = (m, a, True)" by simp
    have subj: "subject = agent_subject m a ''result''" "m \<noteq> []" "a \<noteq> []"
      using id subjectIdentity_parts [of subject "''result''" m a] Join_Split [of "CHR ''.''" subject]
      by (auto simp: agent_subject_Join)
    have envl: "rMSPID res = m" "rAgentID res = a"
      using res subj by (auto simp: ValidateResultEnvelope_ok)
    show False
    proof (cases rule: result_transaction_cases [of fault now res db])
      case (settled db1 k t j)
      note sel = select_target_Some [OF settled(2)] and cl = claim_result_simps [OF settled(1)]
      show False
      proof (cases rule: settle_result_cases [of fault now res k t db db1])
        case applied
        have "targets (out_db (processAgentResultOnce fault now subject data db)) =
            map (\<lambda>x. if t_id x = t_id t then apply_result now res x else x) (targets db)"
          using once settled(4) applied(2) sel cl by simp
        moreover have "coalesce (t_agent_id t) = a" using settled(3) envl by (simp add: owns_def)
        moreover have "t \<in> set (targets db)" "t_id t = rTargetID res" "t_device_id t = rDeviceID res"
          "j \<in> set (jobs db)" "j_id j = t_job_id t" "j_msp_id j = m"
          using sel cl envl by auto
        ultimately show False
          using ch subj(1) res settled(3) applied(1) by blast
      qed (use ns once settled cl in simp_all)
    qed (use ns once in simp_all)
  qed
qed


section \<open>A store for the examples\<close>

definition example_job :: job_row where
  "example_job = \<lparr>j_id = ''j'', j_msp_id = ''acme'', j_client_id = [], j_site_id = None, j_type = ''script'',
     j_status = ''running'', j_payload = JObj [], j_max_retries = 3, j_expires_at = None, j_scheduled_for = None,
     j_correlation_id = Some ''c'', j_idempotency_key = None, j_request_hash = None, j_dispatch_count = 1,
     j_completed_count = 0, j_failed_count = 0, j_completed_at = None, j_cancelled_at = None\<rparr>"

definition example_target :: "string \<Rightarrow> target_row" where
  "example_target status = \<lparr>t_id = ''t'', t_job_id = ''j'', t_device_id = ''d'', t_agent_id = Some ''a1'',
     t_status = status, t_attempt = 1, t_retry_count = 0, t_next_retry_at = None, t_lease_owner = None,
     t_lease_expires = None, t_dispatched_at = None, t_acknowledged_at = None, t_completed_at = None,
     t_result = None, t_error_message = None, t_exit_code = None, t_approval_status = ''none'',
     t_offline_at = None, t_reconnect_at = None\<rparr>"

definition example_db :: "string \<Rightarrow> jobdb" where
  "example_db status =
     \<lparr>jobs = [example_job], targets = [example_target status], outbox = [], inbox = [], next_id = 0\<rparr>"

definition example_result :: json where
  "example_result = JObj
     [(''schema_version'', JNum 1), (''message_id'', JStr ''m''), (''event_id'', JStr ''e''), (''job_id'', JStr ''j''),
      (''target_id'', JStr ''t''), (''msp_id'', JStr ''acme''), (''device_id'', JStr ''d''),
      (''agent_id'', JStr ''a1''), (''correlation_id'', JStr ''c''), (''attempt'', JNum 1),
      (''status'', JStr ''succeeded'')]"

definition example_res :: ResultEnvelope where
  "example_res = \<lparr>rSchemaVersion = 1, rMessageID = ''m'', rEventID = ''e'', rJobID = ''j'', rTargetID = ''t'',
     rMSPID = ''acme'', rClientID = [], rSiteID = [], rDeviceID = ''d'', rAgentID = ''a1'',
     rCorrelationID = ''c'', rAttempt = 1, rStatus = ''succeeded'', rExitCode = 0, rResult = None,
     rError = [], rStartedAt = [], rCompletedAt = [], rDurationMs = 0, rTruncated = False\<rparr>"

lemma example_result_ok [simp]:
  "ValidateResultEnvelope (Decoded example_result) ''acme'' ''a1'' [] = Inr example_res"
  by code_simp

lemma example_subject_ok [simp]:
  "subjectIdentity (agent_subject ''acme'' ''a1'' ''result'') ''result'' = (''acme'', ''a1'', True)"
  by code_simp

lemma example_result_applied:
  "fault BeginTx = None \<Longrightarrow>
     processAgentResultOnce fault now (agent_subject ''acme'' ''a1'' ''result'') (Decoded example_result) db
     = result_transaction fault now example_res db"
  by (simp add: processAgentResultOnce_def) (simp add: example_res_def)

lemma example_result_processed:
  "out_processed (processAgentResultOnce (\<lambda>_. None) 7 (agent_subject ''acme'' ''a1'' ''result'')
     (Decoded example_result) (example_db ''running''))
   \<and> map t_status (targets (out_db (processAgentResultOnce (\<lambda>_. None) 7 (agent_subject ''acme'' ''a1'' ''result'')
     (Decoded example_result) (example_db ''running'')))) = [''succeeded'']"
proof -
  note ap = example_result_applied [of "\<lambda>_. None" 7 "example_db ''running''", OF refl]
  show ?thesis unfolding ap by code_simp
qed

section \<open>Redelivery\<close>

lemma find_inbox_mark_processed:
  assumes "find (\<lambda>i. i_msp_id i = m \<and> i_message_id i = k) (inbox db) = Some i" "i_id i = n"
  shows "\<exists>i'. find (\<lambda>i. i_msp_id i = m \<and> i_message_id i = k) (inbox (mark_processed now n db)) = Some i'
    \<and> i_processed_at i' = Some now"
proof -
  have mf: "find (\<lambda>i. i_msp_id i = m \<and> i_message_id i = k) (map (\<lambda>i. if i_id i = n then i\<lparr>i_processed_at := Some now\<rparr> else i) xs)
      = map_option (\<lambda>i. if i_id i = n then i\<lparr>i_processed_at := Some now\<rparr> else i)
          (find (\<lambda>i. i_msp_id i = m \<and> i_message_id i = k) xs)" for xs
    by (induction xs) auto
  show ?thesis
    using assms by (intro exI [of _ "i\<lparr>i_processed_at := Some now\<rparr>"] conjI) (simp_all add: mark_processed_def mf)
qed

lemma find_append_None: "find P xs = None \<Longrightarrow> find P (xs @ ys) = find P ys"
  by (induction xs) (auto split: if_splits)

lemma claim_result_find:
  assumes "claim_result m k jb tg db = Some (db1, n)"
  shows "\<exists>i. find (\<lambda>i. i_msp_id i = m \<and> i_message_id i = k) (inbox db1) = Some i \<and> i_id i = n"
  using assms by (auto simp: claim_result_def find_append_None split: option.splits if_splits)

text \<open>A message whose inbox row is processed.\<close>

definition recorded :: "string \<Rightarrow> string \<Rightarrow> jobdb \<Rightarrow> bool" where
  "recorded m k db =
     (case find (\<lambda>i. i_msp_id i = m \<and> i_message_id i = k) (inbox db) of
        None \<Rightarrow> False
      | Some i \<Rightarrow> i_processed_at i \<noteq> None)"

lemma recorded_claim: "recorded m k db \<longleftrightarrow> claim_result m k jb tg db = None"
  by (auto simp: recorded_def claim_result_def split: option.splits)

lemma recorded_processed: "recorded m k db \<Longrightarrow> resultProcessedContext m k db"
  by (auto simp: recorded_def resultProcessedContext_def list_ex_iff find_Some_iff split: option.splits)

lemma claimed_marked_recorded:
  assumes "claim_result m k jb tg db = Some (db1, n)" "inbox db2 = inbox (mark_processed now n db1)"
  shows "recorded m k db2"
  using claim_result_find [OF assms(1)] find_inbox_mark_processed [of m k db1 _ n now] assms(2)
  by (fastforce simp: recorded_def)

lemma result_transaction_recorded:
  assumes "out_processed (result_transaction fault now res db)"
  shows "recorded (rMSPID res) (rMessageID res) (out_db (result_transaction fault now res db))"
proof (cases rule: result_transaction_cases [of fault now res db])
  case seen
  then show ?thesis by (simp add: recorded_claim [of _ _ _ "rJobID res" "rTargetID res"])
next
  case (settled db1 k t j)
  show ?thesis
  proof (cases rule: settle_result_cases [of fault now res k t db db1])
    case unchanged
    with assms settled show ?thesis by simp
  next
    case final
    with settled show ?thesis by (simp add: claimed_marked_recorded [OF settled(1)])
  next
    case applied
    show ?thesis
      unfolding settled(4) applied(2)
      by (rule claimed_marked_recorded [OF settled(1), of _ now]) (simp add: mark_processed_def)
  qed
qed (use assms in simp)

lemma processed_valid:
  assumes "out_processed (processAgentResultOnce fault now subject data db)"
  obtains m a res where "subjectIdentity subject ''result'' = (m, a, True)"
    "ValidateResultEnvelope data m a [] = Inr res" "rMessageID res \<noteq> []" "rCorrelationID res \<noteq> []"
    "processAgentResultOnce fault now subject data db = result_transaction fault now res db"
    "\<And>fault now db. fault BeginTx = None \<Longrightarrow>
       processAgentResultOnce fault now subject data db = result_transaction fault now res db"
proof -
  obtain m a ok where sub: "subjectIdentity subject ''result'' = (m, a, ok)" by (metis prod_cases3)
  from assms sub obtain res where "ValidateResultEnvelope data m a [] = Inr res"
    by (auto simp: processAgentResultOnce_def give_up_def split: sum.splits if_splits)
  then show thesis
    by (intro that [of m a res])
      (use assms sub in \<open>auto simp: processAgentResultOnce_def give_up_def split: sum.splits if_splits option.splits\<close>)
qed

text \<open>
  Redelivery of a result is idempotent: once a result was processed, whatever faults the database
  had before, processing the same message again changes no table, reports it as processed and
  publishes the receipt again, so an agent that lost the receipt gets it.
\<close>

theorem result_redelivery_idempotent:
  assumes "out_processed (processAgentResultOnce fault now subject data db)"
  shows "\<exists>m a res. ValidateResultEnvelope data m a [] = Inr res
    \<and> processAgentResultOnce (\<lambda>_. None) later subject data (out_db (processAgentResultOnce fault now subject data db))
      = \<lparr>out_db = out_db (processAgentResultOnce fault now subject data db),
         out_receipts = [publishResultReceipt later res], out_processed = True, out_error = None\<rparr>"
  using assms
proof (rule processed_valid)
  fix m a res
  assume v: "ValidateResultEnvelope data m a [] = Inr res"
    and eq: "processAgentResultOnce fault now subject data db = result_transaction fault now res db"
    and again: "\<And>fault now db. fault BeginTx = None \<Longrightarrow>
       processAgentResultOnce fault now subject data db = result_transaction fault now res db"
  have rec: "recorded (rMSPID res) (rMessageID res) (out_db (result_transaction fault now res db))"
    using assms eq by (simp add: result_transaction_recorded)
  note cl = rec [unfolded recorded_claim [of _ _ _ "rJobID res" "rTargetID res"]]
  show ?thesis
    using v again [of "\<lambda>_. None"] eq cl recorded_processed [OF rec]
    by (intro exI [of _ m] exI [of _ a] exI [of _ res]) (simp add: result_transaction_def Let_def)
qed

theorem result_redelivery_idempotent_witness:
  "\<exists>db' receipt. processAgentResultOnce (\<lambda>_. None) 9 (agent_subject ''acme'' ''a1'' ''result'')
      (Decoded example_result) db' =
    \<lparr>out_db = db', out_receipts = [receipt], out_processed = True, out_error = None\<rparr>
    \<and> map t_status (targets db') = [''succeeded'']"
proof -
  note pr = example_result_processed
  obtain res where again: "processAgentResultOnce (\<lambda>_. None) 9 (agent_subject ''acme'' ''a1'' ''result'')
      (Decoded example_result) (out_db (processAgentResultOnce (\<lambda>_. None) 7
        (agent_subject ''acme'' ''a1'' ''result'') (Decoded example_result) (example_db ''running''))) =
    \<lparr>out_db = out_db (processAgentResultOnce (\<lambda>_. None) 7
        (agent_subject ''acme'' ''a1'' ''result'') (Decoded example_result) (example_db ''running'')),
     out_receipts = [publishResultReceipt 9 res], out_processed = True, out_error = None\<rparr>"
    using result_redelivery_idempotent [OF pr [THEN conjunct1], of 9] by (elim exE conjE)
  show ?thesis by (rule exI, rule exI, rule conjI, rule again, rule pr [THEN conjunct2])
qed

section \<open>Retries\<close>

lemma settle_result_error:
  "out_error (settle_result fault now res k t db db1) \<noteq> None \<Longrightarrow>
     settle_result fault now res k t db db1 = give_up db (out_error (settle_result fault now res k t db db1))"
  by (auto simp: settle_result_def commit_def give_up_def Let_def split: option.splits sum.splits if_splits)

lemma processAgentResultOnce_error:
  assumes "out_error (processAgentResultOnce fault now subject data db) = Some e"
  shows "processAgentResultOnce fault now subject data db = give_up db (Some e)"
proof -
  have tr: "result_transaction fault now res db = give_up db (Some e)"
    if "out_error (result_transaction fault now res db) = Some e" for res
    using that settle_result_error
    by (fastforce simp: result_transaction_def give_up_def Let_def split: option.splits if_splits)
  show ?thesis
    using assms tr
    by (auto simp: processAgentResultOnce_def give_up_def split: prod.splits sum.splits if_splits option.splits)
qed

lemma result_attempts_reach:
  assumes "\<And>i. i < n \<Longrightarrow> \<not> ctx_done (a + i) \<and>
      (\<exists>e. out_error (processAgentResultOnce (fault (a + i)) now subject data db) = Some e
           \<and> isRetryableResultTransactionError e)"
    and "n < left"
  shows "result_attempts left a fault ctx_done now subject data db =
    result_attempts (left - n) (a + n) fault ctx_done now subject data db"
  using assms
proof (induction n arbitrary: left a)
  case (Suc n)
  from Suc.prems obtain l where l: "left = Suc l" "n < l" by (metis Suc_lessE)
  obtain e where e: "out_error (processAgentResultOnce (fault a) now subject data db) = Some e"
    "isRetryableResultTransactionError e" "\<not> ctx_done a"
    using Suc.prems(1) [of 0] by auto
  have "result_attempts left a fault ctx_done now subject data db =
      result_attempts l (Suc a) fault ctx_done now subject data db"
    using e l processAgentResultOnce_error [OF e(1)] by (simp add: give_up_def Let_def)
  also have "\<dots> = result_attempts (l - n) (Suc a + n) fault ctx_done now subject data db"
    using Suc.prems(1) [of "Suc _"] l by (intro Suc.IH) simp_all
  finally show ?case using l by simp
qed simp

lemma result_attempts_failed:
  "\<not> out_processed (result_attempts left a fault ctx_done now subject data db) \<Longrightarrow>
     out_db (result_attempts left a fault ctx_done now subject data db) = db"
proof (induction left arbitrary: a)
  case (Suc left)
  let ?r = "processAgentResultOnce (fault a) now subject data db"
  show ?case
  proof (cases "out_error ?r")
    case None
    with Suc.prems have np: "\<not> out_processed ?r" by (simp add: Let_def)
    have "out_db (settle_result f now res k t db db1) = db"
      if "\<not> out_processed (settle_result f now res k t db db1)" for f res k t db1
      by (cases rule: settle_result_cases [of f now res k t db db1]) (use that in simp_all)
    then have "out_db (result_transaction f now res db) = db"
      if "\<not> out_processed (result_transaction f now res db)" for f res
      by (cases rule: result_transaction_cases [of f now res db]) (use that in simp_all)
    with np have "out_db ?r = db"
      by (auto simp: processAgentResultOnce_def give_up_def split: prod.splits sum.splits if_splits option.splits)
    with None show ?thesis by (simp add: Let_def)
  next
    case (Some e)
    from processAgentResultOnce_error [OF this] Some Suc show ?thesis
      by (auto simp: give_up_def Let_def)
  qed
qed (simp add: give_up_def)

text \<open>
  The bounded retry: a result that is not processed leaves the database as it was; and when every
  attempt before attempt \<open>n\<close> fails with a serialization failure or a deadlock, the context lives on and
  attempt \<open>n\<close> (one of the five allowed) ends without an error, the retry returns exactly the outcome of that
  attempt on the unchanged database.
\<close>

theorem result_retry_transparent:
  "(\<not> out_processed (processAgentResultWithRetry fault ctx_done now subject data db) \<longrightarrow>
      out_db (processAgentResultWithRetry fault ctx_done now subject data db) = db)
   \<and> (n < resultTransactionAttempts
      \<and> (\<forall>i<n. \<not> ctx_done i \<and> (\<exists>e. out_error (processAgentResultOnce (fault i) now subject data db) = Some e
                 \<and> isRetryableResultTransactionError e))
      \<and> out_error (processAgentResultOnce (fault n) now subject data db) = None \<longrightarrow>
      processAgentResultWithRetry fault ctx_done now subject data db =
        processAgentResultOnce (fault n) now subject data db)"
proof (intro conjI impI)
  show "out_db (processAgentResultWithRetry fault ctx_done now subject data db) = db"
    if "\<not> out_processed (processAgentResultWithRetry fault ctx_done now subject data db)"
    using that unfolding processAgentResultWithRetry_def by (rule result_attempts_failed)
next
  assume a: "n < resultTransactionAttempts
      \<and> (\<forall>i<n. \<not> ctx_done i \<and> (\<exists>e. out_error (processAgentResultOnce (fault i) now subject data db) = Some e
                 \<and> isRetryableResultTransactionError e))
      \<and> out_error (processAgentResultOnce (fault n) now subject data db) = None"
  then have "processAgentResultWithRetry fault ctx_done now subject data db =
      result_attempts (resultTransactionAttempts - n) n fault ctx_done now subject data db"
    unfolding processAgentResultWithRetry_def using result_attempts_reach [of n ctx_done 0] by simp
  moreover obtain l where "resultTransactionAttempts - n = Suc l"
    using a by (metis Suc_diff_Suc)
  ultimately show "processAgentResultWithRetry fault ctx_done now subject data db =
      processAgentResultOnce (fault n) now subject data db"
    using a by (simp add: Let_def)
qed


theorem result_retry_transparent_witness:
  "processAgentResultWithRetry (\<lambda>i step. if i < 2 \<and> step = CommitTx then Some (PgError ''40001'') else None) (\<lambda>_. False)
     7 (agent_subject ''acme'' ''a1'' ''result'') (Decoded example_result) (example_db ''running'') =
   processAgentResultOnce (\<lambda>_. None) 7 (agent_subject ''acme'' ''a1'' ''result'') (Decoded example_result)
     (example_db ''running'')"
proof -
  let ?f = "\<lambda>i step. if i < (2::nat) \<and> step = CommitTx then Some (PgError ''40001'') else None"
  have ok: "out_error (processAgentResultOnce (?f 2) 7 (agent_subject ''acme'' ''a1'' ''result'')
      (Decoded example_result) (example_db ''running'')) = None"
    by (subst example_result_applied, simp) code_simp
  have bad: "out_error (processAgentResultOnce (?f i) 7 (agent_subject ''acme'' ''a1'' ''result'')
      (Decoded example_result) (example_db ''running'')) = Some (PgError ''40001'')" if "i < 2" for i
  proof -
    have e: "?f i = ?f 0" using that by auto
    show ?thesis unfolding e by (subst example_result_applied, simp) code_simp
  qed
  have "isRetryableResultTransactionError (PgError ''40001'')" by (simp add: isRetryableResultTransactionError_def)
  with bad have retry: "\<exists>e. out_error (processAgentResultOnce (?f i) 7 (agent_subject ''acme'' ''a1'' ''result'')
      (Decoded example_result) (example_db ''running'')) = Some e \<and> isRetryableResultTransactionError e"
    if "i < 2" for i using that by (intro exI conjI)
  have two: "2 < resultTransactionAttempts" by (simp add: resultTransactionAttempts_def)
  have "processAgentResultWithRetry ?f (\<lambda>_. False) 7 (agent_subject ''acme'' ''a1'' ''result'')
      (Decoded example_result) (example_db ''running'') = processAgentResultOnce (?f 2) 7
      (agent_subject ''acme'' ''a1'' ''result'') (Decoded example_result) (example_db ''running'')"
    by (intro result_retry_transparent [THEN conjunct2, THEN mp] conjI allI impI; (rule two ok retry)?) simp_all
  then show ?thesis by simp
qed

section \<open>The job row after a result\<close>

lemma open_targets_0:
  "open_targets k ts = 0 \<Longrightarrow> count_status nonterminal_statuses k ts = 0"
  by (auto simp: open_targets_def count_status_def filter_empty_conv terminal_statuses_def nonterminal_statuses_def)

lemma aggregate_status_cases: "aggregate_status k ts \<in> {''succeeded'', ''failed'', ''cancelled''}"
  by (simp add: aggregate_status_def)

lemma refresh_job_row:
  assumes "j \<in> set (jobs (refresh_job now k db))" "j_id j = k"
  shows "j_completed_count j = count_status [''succeeded''] k (targets db)
    \<and> j_failed_count j = count_status [''failed'', ''expired''] k (targets db)
    \<and> (open_targets k (targets db) = 0 \<longrightarrow>
        j_status j = aggregate_status k (targets db) \<and> j_completed_at j = Some now)"
proof -
  obtain x where x: "j_id x = k" and j: "j = enforce_job_terminal_aggregate now (targets db)
      (x\<lparr>j_completed_count := count_status [''succeeded''] k (targets db),
         j_failed_count := count_status [''failed'', ''expired''] k (targets db),
         j_status := (if open_targets k (targets db) = 0 then aggregate_status k (targets db) else j_status x),
         j_completed_at := (if open_targets k (targets db) = 0 then Some now else None)\<rparr>)"
    using assms by (auto simp: refresh_job_def update_jobs_def Let_def split: if_splits)
  show ?thesis
  proof (cases "open_targets k (targets db) = 0")
    case True
    note z = open_targets_0 [OF this]
    from aggregate_status_cases [of k "targets db"] show ?thesis
      unfolding j using True z x by (elim insertE) (simp_all add: enforce_job_terminal_aggregate_def coalesce_time_def)
  next
    case False
    then show ?thesis unfolding j using x by (simp add: enforce_job_terminal_aggregate_def)
  qed
qed

text \<open>
  C7. The job follows its targets: when a result changed a target, every row of that job counts the
  succeeded and the failed or expired targets as they are now; and when no target is left open the job
  is complete, and its status is the aggregate: failed if any target failed or expired, else cancelled
  if any was cancelled, else succeeded.
\<close>

theorem job_aggregate_after_result:
  assumes "ValidateResultEnvelope data m a [] = Inr res" "subject = agent_subject m a ''result''"
    and "subjectIdentity subject ''result'' = (m, a, True)"
    and "db' = out_db (processAgentResultOnce fault now subject data db)"
    and "targets db' \<noteq> targets db" "j \<in> set (jobs db')" "j_id j = rJobID res"
  shows "j_completed_count j = count_status [''succeeded''] (j_id j) (targets db')
    \<and> j_failed_count j = count_status [''failed'', ''expired''] (j_id j) (targets db')
    \<and> (open_targets (j_id j) (targets db') = 0 \<longrightarrow>
         j_status j = aggregate_status (j_id j) (targets db') \<and> j_completed_at j = Some now)"
proof -
  have once: "db' = out_db (result_transaction fault now res db)"
    using assms(1,3-5)
    by (auto simp: processAgentResultOnce_def give_up_def split: if_splits option.splits)
  show ?thesis
  proof (cases rule: result_transaction_cases [of fault now res db])
    case (settled db1 k t x)
    note cl = claim_result_simps [OF settled(1)]
    show ?thesis
    proof (cases rule: settle_result_cases [of fault now res k t db db1])
      case applied
      with once settled(4) obtain db2 where "db' = refresh_job now (rJobID res) db2" by auto
      with refresh_job_row [of j now "rJobID res" db2] assms(6,7) show ?thesis by simp
    qed (use once settled cl assms(5) in simp_all)
  qed (use once assms(5) in simp_all)
qed

theorem job_aggregate_after_result_witness:
  "list_all (\<lambda>j. j_completed_count j = 1 \<and> j_failed_count j = 0 \<and> j_status j = ''succeeded'')
     (jobs (out_db (processAgentResultOnce (\<lambda>_. None) 7 (agent_subject ''acme'' ''a1'' ''result'')
        (Decoded example_result) (example_db ''running''))))"
proof -
  define db' where db': "db' = out_db (processAgentResultOnce (\<lambda>_. None) 7 (agent_subject ''acme'' ''a1'' ''result'')
        (Decoded example_result) (example_db ''running''))"
  have t: "map t_status (targets db') = [''succeeded'']"
    using example_result_processed by (simp add: db')
  then have ne: "targets db' \<noteq> targets (example_db ''running'')" by (auto simp: example_db_def example_target_def)
  note ap = example_result_applied [of "\<lambda>_. None" 7 "example_db ''running''", OF refl]
  have j: "map j_id (jobs db') = [''j'']" unfolding db' ap by code_simp
  have c: "count_status [''succeeded''] ''j'' (targets db') = 1" "count_status [''failed'', ''expired''] ''j'' (targets db') = 0"
    "open_targets ''j'' (targets db') = 0" "aggregate_status ''j'' (targets db') = ''succeeded''"
    unfolding db' ap by code_simp+
  show ?thesis
    using job_aggregate_after_result [OF example_result_ok refl example_subject_ok db' ne] j c
    unfolding db' [symmetric] by (auto simp: list_all_iff example_res_def Cons_eq_map_conv)
qed

section \<open>A result that can never be applied\<close>

lemma result_attempts_constant:
  assumes "\<And>f. processAgentResultOnce f now subject data db \<noteq> give_up db None \<Longrightarrow>
    \<exists>e. processAgentResultOnce f now subject data db = give_up db (Some e)"
  shows "out_db (result_attempts n a fault ctx_done now subject data db) = db
    \<and> out_receipts (result_attempts n a fault ctx_done now subject data db) = []
    \<and> \<not> out_processed (result_attempts n a fault ctx_done now subject data db)"
proof (induction n arbitrary: a)
  case (Suc n)
  consider "processAgentResultOnce (fault a) now subject data db = give_up db None"
    | e where "processAgentResultOnce (fault a) now subject data db = give_up db (Some e)"
    using assms by blast
  then show ?case by cases (use Suc in \<open>simp_all add: give_up_def Let_def\<close>)
qed (simp add: give_up_def)

text \<open>
  A conflicting late result is never settled: when the target is final with a status other than
  the reported one (and not cancelled), and the message is not recorded, the subscription answers every
  delivery with a negative acknowledgement and changes nothing, so the message comes back for ever; it
  is neither recorded nor terminated.
\<close>

theorem conflicting_result_never_settles:
  assumes "subjectIdentity subject ''result'' = (m, a, True)" "ValidateResultEnvelope data m a [] = Inr res"
    and "rMessageID res \<noteq> []" "\<not> recorded m (rMessageID res) db"
    and "select_target (rTargetID res) (rJobID res) m (rDeviceID res) db = Some (t, j)"
    and "job_terminal (t_status t)" "t_status t \<noteq> rStatus res" "t_status t \<noteq> ''cancelled''"
  shows "onAgentResult gate fault ctx_done now subject data db = (db, [], MsgNak)"
proof -
  have m: "rMSPID res = m" using assms(1,2) by (auto simp: ValidateResultEnvelope_ok subjectIdentity_parts)
  have tr: "TransitionJob (t_status t) (rStatus res) \<noteq> Inr ()"
    using assms(6) by (simp add: TransitionJob_ok CanTransition_terminal)
  have settle: "settle_result f now res k t db db1 = give_up db None" for f k db1
    using assms(7,8) tr by (auto simp: settle_result_def Let_def split: sum.splits)
  have rt: "\<exists>e. result_transaction f now res db = give_up db e" for f
  proof -
    obtain db1 k where cl: "claim_result (rMSPID res) (rMessageID res) (rJobID res) (rTargetID res) db = Some (db1, k)"
      using assms(4) m recorded_claim [of m "rMessageID res" db "rJobID res" "rTargetID res"] by auto
    then have "select_target (rTargetID res) (rJobID res) (rMSPID res) (rDeviceID res) db1 = Some (t, j)"
      using select_target_cong claim_result_simps [OF cl] assms(5) m by metis
    with cl settle show ?thesis by (auto simp: result_transaction_def split: option.splits)
  qed
  then have "\<exists>e. processAgentResultOnce f now subject data db = give_up db e" for f
    using assms(1,2) by (auto simp: processAgentResultOnce_def split: option.splits)
  then have "processAgentResultOnce f now subject data db \<noteq> give_up db None \<Longrightarrow>
      \<exists>e. processAgentResultOnce f now subject data db = give_up db (Some e)" for f
    by (metis not_None_eq)
  from result_attempts_constant [OF this] show ?thesis
    using assms(1-3) by (simp add: onAgentResult_def processAgentResultWithRetry_def Let_def)
qed

theorem conflicting_result_never_settles_witness:
  "onAgentResult True (\<lambda>_ _. None) (\<lambda>_. False) 7 (agent_subject ''acme'' ''a1'' ''result'') (Decoded example_result)
     (example_db ''expired'') = (example_db ''expired'', [], MsgNak)"
  by (rule conflicting_result_never_settles
      [OF example_subject_ok example_result_ok, of _ "example_target ''expired''" example_job])
    (simp_all add: example_res_def recorded_def example_db_def select_target_def example_target_def example_job_def
      job_terminal_def)

section \<open>Sequences of agent reports\<close>

text \<open>The effect of a message from an agent, with any faults, on the tables.\<close>

inductive agent_report :: "jobdb \<Rightarrow> jobdb \<Rightarrow> bool" where
  result: "agent_report db (fst (onAgentResult gate fault ctx_done now subject data db))"
| ack: "agent_report db (handleAgentAck faults now subject data db)"

text \<open>How a target may differ after some reports: its identity stays and its status moved along the machine.\<close>

definition target_evolves :: "target_row \<Rightarrow> target_row \<Rightarrow> bool" where
  "target_evolves t t' \<longleftrightarrow> t_id t' = t_id t \<and> t_job_id t' = t_job_id t \<and> t_device_id t' = t_device_id t
     \<and> t_agent_id t' = t_agent_id t \<and> t_attempt t' = t_attempt t
     \<and> (t' = t \<or> CanTransition\<^sup>+\<^sup>+ (t_status t) (t_status t'))"

lemma target_evolves_refl [simp]: "target_evolves t t"
  by (simp add: target_evolves_def)

lemma target_evolves_trans: "target_evolves t u \<Longrightarrow> target_evolves u v \<Longrightarrow> target_evolves t v"
  by (auto simp: target_evolves_def intro: tranclp_trans)

lemma update_evolves:
  assumes "distinct (map t_id ts)" "t \<in> set ts" "target_evolves t (upd t)"
  shows "list_all2 target_evolves ts (map (\<lambda>x. if t_id x = t_id t then upd x else x) ts)"
proof -
  have "x = t" if "x \<in> set ts" "t_id x = t_id t" for x
    using assms(1,2) that by (simp add: distinct_map inj_on_def)
  then show ?thesis using assms(3) by (auto simp: list_all2_map2 intro!: list_all2_same [THEN iffD2])
qed

lemma once_evolves:
  assumes "distinct (map t_id (targets db))"
  shows "list_all2 target_evolves (targets db) (targets (out_db (processAgentResultOnce fault now subject data db)))"
proof -
  have tr: "list_all2 target_evolves (targets db) (targets (out_db (result_transaction fault now res db)))" for res
  proof (cases rule: result_transaction_cases [of fault now res db])
    case (settled db1 k t j)
    note sel = select_target_Some [OF settled(2)] and cl = claim_result_simps [OF settled(1)]
    show ?thesis
    proof (cases rule: settle_result_cases [of fault now res k t db db1])
      case applied
      then have "target_evolves t (apply_result now res t)"
        by (auto simp: target_evolves_def apply_result_def)
      with assms sel cl settled(4) applied(2) update_evolves [of "targets db" t "apply_result now res"]
      show ?thesis by simp
    qed (use settled cl in \<open>simp_all add: list_all2_same\<close>)
  qed (simp_all add: list_all2_same)
  show ?thesis
    using tr by (auto simp: processAgentResultOnce_def give_up_def list_all2_same
        split: prod.splits sum.splits option.splits)
qed

lemma attempts_evolve:
  "distinct (map t_id (targets db)) \<Longrightarrow>
     list_all2 target_evolves (targets db) (targets (out_db (result_attempts n a fault ctx_done now subject data db)))"
proof (induction n arbitrary: a)
  case (Suc n)
  let ?r = "processAgentResultOnce (fault a) now subject data db"
  show ?case
  proof (cases "out_error ?r")
    case None
    with once_evolves [OF Suc.prems] show ?thesis by (simp add: Let_def)
  next
    case (Some e)
    from processAgentResultOnce_error [OF this] Some Suc show ?thesis
      by (auto simp: give_up_def Let_def list_all2_same)
  qed
qed (simp add: give_up_def list_all2_same)

lemma ack_status_transition:
  "TransitionJob (t_status t) s = Inr () \<Longrightarrow> target_evolves t (apply_ack now s st t)"
  by (auto simp: target_evolves_def apply_ack_def TransitionJob_ok)

lemma ack_evolves:
  assumes "distinct (map t_id (targets db))"
  shows "list_all2 target_evolves (targets db) (targets (handleAgentAck fault now subject data db))"
proof -
  have fin: "targets (finish_ack f now k d0 d1) = targets d0 \<or> targets (finish_ack f now k d0 d1) = targets d1" for f k d0 d1
    by (auto simp: finish_ack_def split: option.splits)
  have upd: "list_all2 target_evolves (targets db) (targets (finish_ack fault now k db
        (update_targets now (\<lambda>t. t_id t = aTargetID ack) (apply_ack now s (aStatus ack)) db1)))"
    if "claim_ack m1 m2 m3 m4 db = Some (db1, k)"
      "select_target (aTargetID ack) (aJobID ack) (aMSPID ack) (aDeviceID ack) db1 = Some (t, j)"
      "TransitionJob (t_status t) s = Inr ()" for ack s k db1 t j m1 m2 m3 m4
  proof -
    note sel = select_target_Some [OF that(2)] and cl = claim_ack_simps [OF that(1)]
    from sel cl assms ack_status_transition [OF that(3)]
      update_evolves [of "targets db" t "apply_ack now s (aStatus ack)"]
    have "list_all2 target_evolves (targets db) (targets
        (update_targets now (\<lambda>t. t_id t = aTargetID ack) (apply_ack now s (aStatus ack)) db1))"
      by simp
    then show ?thesis
      using fin [of fault k db "update_targets now (\<lambda>t. t_id t = aTargetID ack) (apply_ack now s (aStatus ack)) db1"]
      by (metis list_all2_same target_evolves_refl)
  qed
  have dup: "list_all2 target_evolves (targets db) (targets (finish_ack fault now k db db1))"
    if "claim_ack m1 m2 m3 m4 db = Some (db1, k)" for k db1 m1 m2 m3 m4
    using fin [of fault k db db1] claim_ack_simps [OF that] by (metis list_all2_same target_evolves_refl)
  show ?thesis
    using upd dup
    by (auto simp: handleAgentAck_def list_all2_same split: option.splits sum.splits prod.splits)
qed

lemma agent_report_evolves:
  assumes "agent_report db db'" "distinct (map t_id (targets db))"
  shows "list_all2 target_evolves (targets db) (targets db')"
  using assms
proof (cases rule: agent_report.cases)
  case (result gate fault ctx_done now subject data)
  then show ?thesis
    using attempts_evolve [OF assms(2)]
    by (auto simp: onAgentResult_def processAgentResultWithRetry_def list_all2_same Let_def
        split: prod.splits sum.splits)
qed (simp add: ack_evolves)

lemma evolves_ids: "list_all2 target_evolves ts us \<Longrightarrow> map t_id us = map t_id ts"
  by (induction rule: list_all2_induct) (auto simp: target_evolves_def)

lemma terminal_no_path: "job_terminal s \<Longrightarrow> \<not> CanTransition\<^sup>+\<^sup>+ s s'"
  by (metis CanTransition_terminal tranclpD)

text \<open>
  Whatever acknowledgements and results arrive, from whomever, in whatever order, duplicated or
  forged, and whatever statements fail in between: no target is lost or re-assigned, every changed
  target moved along the job state machine, and a target that reached a final status keeps its whole
  row (result, error, exit code and completion time included) for ever.
\<close>

theorem reports_respect_state_machine:
  assumes "agent_report\<^sup>*\<^sup>* db db'" "distinct (map t_id (targets db))"
  shows "length (targets db') = length (targets db)
    \<and> (\<forall>k < length (targets db). target_evolves (targets db ! k) (targets db' ! k)
         \<and> (job_terminal (t_status (targets db ! k)) \<longrightarrow> targets db' ! k = targets db ! k))"
proof -
  have "list_all2 target_evolves (targets db) (targets db')"
    using assms
  proof (induction rule: rtranclp_induct)
    case (step d d')
    then have a: "list_all2 target_evolves (targets db) (targets d)" by simp
    with step have "list_all2 target_evolves (targets d) (targets d')"
      by (metis agent_report_evolves evolves_ids)
    with a show ?case using list_all2_trans [of target_evolves target_evolves target_evolves] target_evolves_trans
      by blast
  qed (simp add: list_all2_same)
  then show ?thesis
    using terminal_no_path
    by (fastforce simp: list_all2_conv_all_nth target_evolves_def)
qed

theorem reports_respect_state_machine_witness:
  "\<exists>db'. agent_report\<^sup>*\<^sup>* (example_db ''running'') db' \<and> map t_status (targets db') = [''succeeded'']
     \<and> target_evolves (example_target ''running'') (targets db' ! 0)"
proof -
  let ?db = "fst (onAgentResult True (\<lambda>_ _. None) (\<lambda>_. False) 7 (agent_subject ''acme'' ''a1'' ''result'')
    (Decoded example_result) (example_db ''running''))"
  have r: "agent_report\<^sup>*\<^sup>* (example_db ''running'') ?db" by (rule r_into_rtranclp) (rule agent_report.result)
  moreover have "map t_status (targets ?db) = [''succeeded'']"
  proof -
    note ap = example_result_applied [of "\<lambda>_. None" 7 "example_db ''running''", OF refl]
    have "out_error (result_transaction (\<lambda>_. None) 7 example_res (example_db ''running'')) = None" by code_simp
    then have "fst (onAgentResult True (\<lambda>_ _. None) (\<lambda>_. False) 7 (agent_subject ''acme'' ''a1'' ''result'')
        (Decoded example_result) (example_db ''running'')) =
        out_db (result_transaction (\<lambda>_. None) 7 example_res (example_db ''running''))"
      using ap by (simp add: onAgentResult_def processAgentResultWithRetry_def resultTransactionAttempts_def
          eval_nat_numeral Let_def) (simp add: example_res_def)
    then show ?thesis using example_result_processed ap by simp
  qed
  ultimately show ?thesis
    using reports_respect_state_machine [OF r] by (auto simp: example_db_def)
qed

end
