(* ===== verification/JobDispatch.thy ===== *)
theory JobDispatch
  imports ResultProcessing
begin

text \<open>
  The sending side of the orchestrator's dispatcher, \<^verbatim>\<open>internal/platform/dispatcher.go\<close>: the outbox
  publisher (\<^verbatim>\<open>ensureQueuedOutbox\<close>, \<^verbatim>\<open>processOutbox\<close>, \<^verbatim>\<open>failOutbox\<close>, \<^verbatim>\<open>backoffDuration\<close>), the expiry
  of jobs and offline work, the reconnection of devices and \<^verbatim>\<open>reconcile\<close>. Rows are kept in the order
  of insertion, which is the order of \<^verbatim>\<open>created_at\<close>; a \<^verbatim>\<open>LIMIT\<close> without an order takes the first rows.
  \<open>ts\<close> is PostgreSQL's rendering of a \<^verbatim>\<open>timestamptz\<close> inside \<^verbatim>\<open>jsonb_build_object\<close>.
\<close>

section \<open>Delays\<close>

definition backoffDuration :: "int \<Rightarrow> int \<Rightarrow> int" where
  "backoffDuration jitter attempt =
     (let base = Second * 30; maxd = Minute * 30;
          d = base * 2 ^ nat (attempt - 1)
      in min (d + jitter) maxd)"

section \<open>Values of a payload\<close>

definition intFromJSON :: "json option \<Rightarrow> int" where
  "intFromJSON value = (case value of Some (JNum v) \<Rightarrow> trunc_rat v | _ \<Rightarrow> 0)"

definition payload_object :: "json \<Rightarrow> (string \<times> json) list option" where
  "payload_object p = (case p of JObj kvs \<Rightarrow> Some kvs | JNull \<Rightarrow> Some [] | _ \<Rightarrow> None)"

definition payload_target :: "json \<Rightarrow> string" where
  "payload_target p = (case payload_object p of None \<Rightarrow> [] | Some kvs \<Rightarrow> obj_str kvs ''target_id'')"

definition payload_attempt :: "json \<Rightarrow> int" where
  "payload_attempt p = (case payload_object p of None \<Rightarrow> 0 | Some kvs \<Rightarrow> intFromJSON (obj_get kvs ''attempt''))"

section \<open>Creating dispatch events\<close>

definition json_opt :: "string option \<Rightarrow> json" where
  "json_opt x = (case x of None \<Rightarrow> JNull | Some s \<Rightarrow> JStr s)"

definition dispatch_event_id :: "string \<Rightarrow> string \<Rightarrow> int \<Rightarrow> string" where
  "dispatch_event_id job target attempt = job @ '':'' @ target @ '':'' @ int_digits attempt"

definition dispatch_payload :: "(instant \<Rightarrow> string) \<Rightarrow> instant \<Rightarrow> target_row \<Rightarrow> job_row \<Rightarrow> json" where
  "dispatch_payload ts now t j = JObj
     [(''schema_version'', JNum 1),
      (''event_id'', JStr (dispatch_event_id (j_id j) (t_id t) (t_attempt t + 1))),
      (''job_id'', JStr (j_id j)), (''target_id'', JStr (t_id t)), (''msp_id'', JStr (j_msp_id j)),
      (''client_id'', JStr (j_client_id j)), (''site_id'', json_opt (j_site_id j)),
      (''device_id'', JStr (t_device_id t)), (''agent_id'', json_opt (t_agent_id t)),
      (''correlation_id'', json_opt (j_correlation_id j)), (''attempt'', JNum (of_int (t_attempt t + 1))),
      (''issued_at'', JStr (ts now)), (''expires_at'', json_opt (map_option ts (j_expires_at j))),
      (''command_type'', JStr (j_type j)), (''payload'', j_payload j)]"

definition has_dispatch :: "string \<Rightarrow> int \<Rightarrow> outbox_row list \<Rightarrow> bool" where
  "has_dispatch target attempt rows =
     list_ex (\<lambda>x. o_event_type x = ''job.dispatch'' \<and> payload_target (o_payload x) = target
                  \<and> payload_attempt (o_payload x) = attempt) rows"

definition due_for_dispatch :: "instant \<Rightarrow> jobdb \<Rightarrow> target_row \<Rightarrow> job_row \<Rightarrow> bool" where
  "due_for_dispatch now db t j =
     (t_status t = ''queued''
      \<and> (case t_next_retry_at t of None \<Rightarrow> True | Some x \<Rightarrow> x \<le> now)
      \<and> (case j_expires_at j of None \<Rightarrow> True | Some x \<Rightarrow> now < x)
      \<and> t_retry_count t \<le> j_max_retries j
      \<and> \<not> has_dispatch (t_id t) (t_attempt t + 1) (outbox db))"

definition dispatch_candidates :: "instant \<Rightarrow> jobdb \<Rightarrow> (target_row \<times> job_row) list" where
  "dispatch_candidates now db =
     filter (\<lambda>(t, j). due_for_dispatch now db t j)
       (concat (map (\<lambda>t. map (Pair t) (filter (\<lambda>j. j_id j = t_job_id t) (jobs db))) (targets db)))"

definition greatest_time :: "instant option \<Rightarrow> instant option \<Rightarrow> instant \<Rightarrow> instant" where
  "greatest_time a b now = max (case a of None \<Rightarrow> now | Some x \<Rightarrow> x) (case b of None \<Rightarrow> now | Some x \<Rightarrow> x)"

definition new_outbox :: "nat \<Rightarrow> string \<Rightarrow> string \<Rightarrow> string \<Rightarrow> json \<Rightarrow> instant \<Rightarrow> outbox_row" where
  "new_outbox k msp aggregate event payload available =
     \<lparr>o_id = k, o_msp_id = msp, o_aggregate_id = aggregate, o_event_type = event, o_payload = payload,
      o_available_at = available, o_published_at = None, o_lease_owner = None, o_lease_expires = None,
      o_attempt_count = 0, o_last_error = None\<rparr>"

text \<open>The \<^verbatim>\<open>INSERT ... SELECT\<close>: one row for every selected pair, or nothing when the statement fails.\<close>

fun insert_dispatches :: "(instant \<Rightarrow> string) \<Rightarrow> instant \<Rightarrow> (target_row \<times> job_row) list \<Rightarrow> jobdb \<Rightarrow> jobdb" where
  "insert_dispatches ts now [] db = db"
| "insert_dispatches ts now ((t, j) # rest) db =
     insert_dispatches ts now rest
       (db\<lparr>outbox := outbox db @ [new_outbox (next_id db) (j_msp_id j) (j_id j) ''job.dispatch''
                                  (dispatch_payload ts now t j)
                                  (greatest_time (t_next_retry_at t) (j_scheduled_for j) now)],
           next_id := Suc (next_id db)\<rparr>)"

definition ensureQueuedOutbox :: "bool \<Rightarrow> (instant \<Rightarrow> string) \<Rightarrow> instant \<Rightarrow> jobdb \<Rightarrow> jobdb" where
  "ensureQueuedOutbox ok ts now db =
     (if \<not> ok then db else insert_dispatches ts now (take 100 (dispatch_candidates now db)) db)"

section \<open>Publishing the outbox\<close>

text \<open>What can go wrong with one claimed row, and the random part of its delay.\<close>

record row_env =
  w_update :: "string option"   \<comment> \<open>error of beginning, updating or committing the dispatch\<close>
  w_publish :: "string option"  \<comment> \<open>error of the publish\<close>
  w_flush :: "string option"    \<comment> \<open>error of the flush after it\<close>
  w_record :: bool              \<comment> \<open>the final statement on the outbox row succeeds\<close>
  w_jitter :: int

datatype outbox_error = InvalidPayload | MissingIdentity | UnsupportedEvent string | MissingAttempt | IoError string

definition outbox_error_text :: "outbox_error \<Rightarrow> string" where
  "outbox_error_text e =
     (case e of
        InvalidPayload \<Rightarrow> ''invalid payload''
      | MissingIdentity \<Rightarrow> ''missing agent_id or target_id''
      | UnsupportedEvent t \<Rightarrow> ''unsupported outbox event type '' @ t
      | MissingAttempt \<Rightarrow> ''missing attempt''
      | IoError s \<Rightarrow> s)"

definition update_outbox :: "(outbox_row \<Rightarrow> bool) \<Rightarrow> (outbox_row \<Rightarrow> outbox_row) \<Rightarrow> jobdb \<Rightarrow> jobdb" where
  "update_outbox sel upd db = db\<lparr>outbox := map (\<lambda>x. if sel x then upd x else x) (outbox db)\<rparr>"

definition failOutbox :: "string \<Rightarrow> instant \<Rightarrow> row_env \<Rightarrow> nat \<Rightarrow> outbox_error \<Rightarrow> int \<Rightarrow> jobdb \<Rightarrow> jobdb" where
  "failOutbox worker now w k e attempt db =
     (let delay = backoffDuration (w_jitter w) attempt
      in if \<not> w_record w then db
         else update_outbox (\<lambda>x. o_id x = k \<and> o_lease_owner x = Some worker)
                (\<lambda>x. x\<lparr>o_last_error := Some (outbox_error_text e), o_lease_owner := None, o_lease_expires := None,
                       o_available_at := now + delay\<rparr>) db)"

definition mark_published :: "string \<Rightarrow> instant \<Rightarrow> row_env \<Rightarrow> nat \<Rightarrow> jobdb \<Rightarrow> jobdb" where
  "mark_published worker now w k db =
     (if \<not> w_record w then db
      else update_outbox (\<lambda>x. o_id x = k \<and> o_lease_owner x = Some worker)
             (\<lambda>x. x\<lparr>o_published_at := Some now, o_lease_owner := None, o_lease_expires := None,
                    o_last_error := None\<rparr>) db)"

definition cmd_subject :: "string \<Rightarrow> string \<Rightarrow> string" where
  "cmd_subject mspID agentID = ''tenant.'' @ mspID @ ''.cmd.'' @ agentID"

type_synonym dispatcher_state = "jobdb \<times> (string \<times> json) list"

text \<open>Publish and flush, then record the outcome of the row.\<close>

definition send_row ::
  "string \<Rightarrow> instant \<Rightarrow> row_env \<Rightarrow> outbox_row \<Rightarrow> string \<Rightarrow> int \<Rightarrow> dispatcher_state \<Rightarrow> dispatcher_state" where
  "send_row worker now w x subject attempt s =
     (case w_publish w of
        Some e \<Rightarrow> (failOutbox worker now w (o_id x) (IoError e) attempt (fst s), snd s)
      | None \<Rightarrow>
          let sent = snd s @ [(subject, o_payload x)]
          in (case w_flush w of
                Some e \<Rightarrow> (failOutbox worker now w (o_id x) (IoError e) attempt (fst s), sent)
              | None \<Rightarrow> (mark_published worker now w (o_id x) (fst s), sent)))"

definition dispatchable :: "string \<Rightarrow> int \<Rightarrow> target_row \<Rightarrow> bool" where
  "dispatchable targetID attempt t =
     (t_id t = targetID \<and> List.member [''queued'', ''dispatched''] (t_status t)
      \<and> (t_status t = ''queued'' \<or> t_attempt t < attempt))"

definition mark_dispatched :: "instant \<Rightarrow> int \<Rightarrow> target_row \<Rightarrow> target_row" where
  "mark_dispatched now attempt t =
     t\<lparr>t_status := ''dispatched'', t_dispatched_at := coalesce_time (t_dispatched_at t) now,
       t_attempt := attempt, t_lease_owner := None, t_lease_expires := Some (now + 2 * Minute)\<rparr>"

text \<open>The transaction that moves the target, and its job when the target moved, to dispatched.\<close>

definition commit_dispatched :: "instant \<Rightarrow> string \<Rightarrow> string \<Rightarrow> int \<Rightarrow> jobdb \<Rightarrow> jobdb" where
  "commit_dispatched now targetID aggregateID attempt db =
     (let affected = length (filter (dispatchable targetID attempt) (targets db));
          db1 = update_targets now (dispatchable targetID attempt) (mark_dispatched now attempt) db
      in if 0 < affected then
           update_jobs now (\<lambda>j. j_id j = aggregateID)
             (\<lambda>j. j\<lparr>j_dispatch_count := j_dispatch_count j + 1,
                    j_status := (if List.member [''pending'', ''queued''] (j_status j) then ''dispatched'' else j_status j)\<rparr>)
             db1
         else db1)"

definition process_row :: "string \<Rightarrow> instant \<Rightarrow> (nat \<Rightarrow> row_env) \<Rightarrow> outbox_row \<Rightarrow> dispatcher_state \<Rightarrow> dispatcher_state" where
  "process_row worker now env x s =
     (let w = env (o_id x);
          fail = (\<lambda>e attempt. (failOutbox worker now w (o_id x) e attempt (fst s), snd s))
      in case payload_object (o_payload x) of
           None \<Rightarrow> fail InvalidPayload 1
         | Some payload \<Rightarrow>
             let agentID = obj_str payload ''agent_id'';
                 targetID = obj_str payload ''target_id'';
                 attempt = intFromJSON (obj_get payload ''attempt'')
             in if agentID = [] \<or> targetID = [] then fail MissingIdentity 1
                else if o_event_type x = ''job.cancel'' then
                  send_row worker now w x (cmd_subject (o_msp_id x) agentID @ ''.cancel'') 1 s
                else if o_event_type x \<noteq> ''job.dispatch'' then fail (UnsupportedEvent (o_event_type x)) 1
                else if attempt < 1 then fail MissingAttempt 1
                else (case w_update w of
                        Some e \<Rightarrow> fail (IoError e) attempt
                      | None \<Rightarrow>
                          send_row worker now w x (cmd_subject (o_msp_id x) agentID) attempt
                            (commit_dispatched now targetID (o_aggregate_id x) attempt (fst s), snd s)))"

definition claimable :: "instant \<Rightarrow> outbox_row \<Rightarrow> bool" where
  "claimable now x =
     (o_published_at x = None \<and> o_available_at x \<le> now
      \<and> (case o_lease_expires x of None \<Rightarrow> True | Some e \<Rightarrow> e < now))"

definition claimed_rows :: "instant \<Rightarrow> jobdb \<Rightarrow> outbox_row list" where
  "claimed_rows now db = take 20 (filter (claimable now) (outbox db))"

definition claim_rows :: "string \<Rightarrow> instant \<Rightarrow> jobdb \<Rightarrow> jobdb" where
  "claim_rows worker now db =
     update_outbox (\<lambda>x. List.member (map o_id (claimed_rows now db)) (o_id x))
       (\<lambda>x. x\<lparr>o_lease_owner := Some worker, o_lease_expires := Some (now + 30 * Second),
              o_attempt_count := o_attempt_count x + 1\<rparr>) db"

definition processOutbox ::
  "bool \<Rightarrow> string \<Rightarrow> instant \<Rightarrow> (nat \<Rightarrow> row_env) \<Rightarrow> dispatcher_state \<Rightarrow> dispatcher_state" where
  "processOutbox ok worker now env s =
     (if \<not> ok then s
      else fold (process_row worker now env) (claimed_rows now (fst s)) (claim_rows worker now (fst s), snd s))"

section \<open>Expiry, reconnection and reconciliation\<close>

text \<open>The job of a target is the row of its foreign key.\<close>

definition job_of :: "jobdb \<Rightarrow> target_row \<Rightarrow> job_row option" where
  "job_of db t = find (\<lambda>j. j_id j = t_job_id t) (jobs db)"

definition job_expired :: "instant \<Rightarrow> jobdb \<Rightarrow> target_row \<Rightarrow> bool" where
  "job_expired now db t =
     (case job_of db t of None \<Rightarrow> False
      | Some j \<Rightarrow> (case j_expires_at j of None \<Rightarrow> False | Some e \<Rightarrow> e < now))"

definition expireJobs :: "bool \<Rightarrow> instant \<Rightarrow> jobdb \<Rightarrow> jobdb" where
  "expireJobs ok now db =
     (if \<not> ok then db
      else let ids = map t_id (take 50 (filter (job_expired now db) (targets db)))
           in update_targets now
                (\<lambda>t. List.member [''pending'', ''queued'', ''dispatched'', ''running''] (t_status t) \<and> List.member ids (t_id t))
                (\<lambda>t. t\<lparr>t_status := ''expired''\<rparr>) db)"

definition handleOfflineReconnect :: "bool \<Rightarrow> (string \<Rightarrow> bool) \<Rightarrow> instant \<Rightarrow> jobdb \<Rightarrow> jobdb" where
  "handleOfflineReconnect ok online now db =
     (if \<not> ok then db
      else update_targets now
             (\<lambda>t. t_status t = ''waiting'' \<and> online (t_device_id t)
                  \<and> List.member [''none'', ''approved''] (t_approval_status t)
                  \<and> (case t_offline_at t of None \<Rightarrow> True | Some x \<Rightarrow> x < now - 30 * Second))
             (\<lambda>t. t\<lparr>t_status := ''queued'', t_reconnect_at := Some now\<rparr>) db)"

definition expireOfflineWork :: "bool \<Rightarrow> instant \<Rightarrow> jobdb \<Rightarrow> jobdb" where
  "expireOfflineWork ok now db =
     (if \<not> ok then db
      else update_targets now (\<lambda>t. t_status t = ''waiting'' \<and> job_expired now db t)
             (\<lambda>t. t\<lparr>t_status := ''expired'', t_error_message := Some ''expired: waited beyond expiry''\<rparr>) db)"

definition lease_expired :: "instant \<Rightarrow> target_row \<Rightarrow> bool" where
  "lease_expired now t = (case t_lease_expires t of None \<Rightarrow> False | Some x \<Rightarrow> x < now)"

definition expired_lease_ids :: "instant \<Rightarrow> jobdb \<Rightarrow> string list" where
  "expired_lease_ids now db = map t_id (take 50 (filter (lease_expired now) (targets db)))"

definition recover_leases :: "instant \<Rightarrow> jobdb \<Rightarrow> jobdb" where
  "recover_leases now db =
     update_targets now
       (\<lambda>t. t_status t = ''dispatched'' \<and> t_lease_owner t \<noteq> None \<and> lease_expired now t
            \<and> List.member (expired_lease_ids now db) (t_id t))
       (\<lambda>t. t\<lparr>t_status := ''queued'', t_lease_owner := None, t_lease_expires := None\<rparr>) db"

definition timed_out :: "instant \<Rightarrow> jobdb \<Rightarrow> target_row \<Rightarrow> bool" where
  "timed_out now db t =
     (case job_of db t of
        None \<Rightarrow> False
      | Some j \<Rightarrow> List.member [''dispatched'', ''running''] (t_status t) \<and> lease_expired now t
                  \<and> (case j_expires_at j of None \<Rightarrow> True | Some x \<Rightarrow> now < x)
                  \<and> List.member (expired_lease_ids now db) (t_id t))"

definition retry_target :: "instant \<Rightarrow> int \<Rightarrow> target_row \<Rightarrow> target_row" where
  "retry_target now max_retries t =
     t\<lparr>t_status := (if t_retry_count t < max_retries then ''queued'' else ''failed''),
       t_retry_count := t_retry_count t + 1,
       t_next_retry_at := (if t_retry_count t < max_retries then Some (now + 30 * Second) else None),
       t_lease_owner := None, t_lease_expires := None,
       t_error_message := Some ''execution acknowledgement timeout''\<rparr>"

definition retry_timed_out :: "instant \<Rightarrow> jobdb \<Rightarrow> jobdb" where
  "retry_timed_out now db =
     update_targets now (timed_out now db)
       (\<lambda>t. case job_of db t of None \<Rightarrow> t | Some j \<Rightarrow> retry_target now (j_max_retries j) t) db"

text \<open>The jobs all of whose targets (at least one) are terminal, in the order of their first target.\<close>

definition finished_jobs :: "jobdb \<Rightarrow> string list" where
  "finished_jobs db =
     take 50 (filter (\<lambda>k. list_all (\<lambda>t. t_job_id t = k \<longrightarrow> List.member terminal_statuses (t_status t)) (targets db))
                (remdups (map t_job_id (targets db))))"

definition reconcile_jobs :: "instant \<Rightarrow> jobdb \<Rightarrow> jobdb" where
  "reconcile_jobs now db =
     update_jobs now (\<lambda>j. List.member (finished_jobs db) (j_id j))
       (\<lambda>j. j\<lparr>j_status := aggregate_status (j_id j) (targets db), j_completed_at := Some now,
              j_completed_count := count_status [''succeeded''] (j_id j) (targets db),
              j_failed_count := count_status [''failed'', ''expired''] (j_id j) (targets db)\<rparr>) db"

text \<open>Three statements, each of which may fail on its own.\<close>

definition reconcile :: "bool \<Rightarrow> bool \<Rightarrow> bool \<Rightarrow> instant \<Rightarrow> jobdb \<Rightarrow> jobdb" where
  "reconcile ok1 ok2 ok3 now db =
     (let db1 = (if ok1 then recover_leases now db else db);
          db2 = (if ok2 then retry_timed_out now db1 else db1)
      in if ok3 then reconcile_jobs now db2 else db2)"

text \<open>Work runs only while the shared recovery lock is held.\<close>

definition withRecoveryReadLock :: "bool \<Rightarrow> ('s \<Rightarrow> 's) \<Rightarrow> 's \<Rightarrow> 's" where
  "withRecoveryReadLock acquired work s = (if \<not> acquired then s else work s)"

section \<open>Frames\<close>

lemma update_outbox_simps [simp]:
  "targets (update_outbox sel upd db) = targets db" "jobs (update_outbox sel upd db) = jobs db"
  "inbox (update_outbox sel upd db) = inbox db" "next_id (update_outbox sel upd db) = next_id db"
  by (simp_all add: update_outbox_def)

lemma failOutbox_simps [simp]:
  "targets (failOutbox wk now w k e a db) = targets db" "jobs (failOutbox wk now w k e a db) = jobs db"
  by (simp_all add: failOutbox_def Let_def)

lemma mark_published_simps [simp]:
  "targets (mark_published wk now w k db) = targets db" "jobs (mark_published wk now w k db) = jobs db"
  by (simp_all add: mark_published_def)

lemma claim_rows_simps [simp]:
  "targets (claim_rows wk now db) = targets db" "jobs (claim_rows wk now db) = jobs db"
  by (simp_all add: claim_rows_def)

lemma insert_dispatches_simps [simp]:
  "targets (insert_dispatches ts now xs db) = targets db" "jobs (insert_dispatches ts now xs db) = jobs db"
  by (induction ts now xs db rule: insert_dispatches.induct) simp_all

lemma send_row_simps [simp]:
  "targets (fst (send_row wk now w x sub a s)) = targets (fst s)"
  "jobs (fst (send_row wk now w x sub a s)) = jobs (fst s)"
  by (simp_all add: send_row_def Let_def split: option.splits)

lemma commit_dispatched_targets [simp]:
  "targets (commit_dispatched now tg ag a db) =
     map (\<lambda>t. if dispatchable tg a t then mark_dispatched now a t else t) (targets db)"
  by (simp add: commit_dispatched_def Let_def)

lemma commit_dispatched_keys [simp]:
  "map job_key (jobs (commit_dispatched now tg ag a db)) = map job_key (jobs db)"
  by (simp add: commit_dispatched_def Let_def update_jobs_keys job_key_def)

lemma process_row_effect:
  obtains (kept) "targets (fst (process_row wk now env x s)) = targets (fst s)"
      "jobs (fst (process_row wk now env x s)) = jobs (fst s)"
  | (dispatched) tg a where
      "targets (fst (process_row wk now env x s)) = targets (commit_dispatched now tg (o_aggregate_id x) a (fst s))"
      "jobs (fst (process_row wk now env x s)) = jobs (commit_dispatched now tg (o_aggregate_id x) a (fst s))"
proof (cases "payload_object (o_payload x)")
  case None
  then show ?thesis by (intro kept) (simp_all add: process_row_def Let_def)
next
  case (Some p)
  show ?thesis
  proof (cases "obj_str p ''agent_id'' = [] \<or> obj_str p ''target_id'' = [] \<or> o_event_type x \<noteq> ''job.dispatch''
      \<or> intFromJSON (obj_get p ''attempt'') < 1 \<or> w_update (env (o_id x)) \<noteq> None")
    case True
    with Some show ?thesis by (intro kept) (auto simp: process_row_def Let_def split: option.splits)
  next
    case False
    with Some show ?thesis
      by (intro dispatched [of "obj_str p ''target_id''" "intFromJSON (obj_get p ''attempt'')"])
        (auto simp: process_row_def Let_def)
  qed
qed

section \<open>How background work moves targets\<close>

text \<open>The moves beyond the state machine that expired leases and reconnections make.\<close>

definition background_move :: "string \<Rightarrow> string \<Rightarrow> bool" where
  "background_move s s' \<longleftrightarrow> CanTransition s s'
     \<or> (s = ''dispatched'' \<or> s = ''running'') \<and> s' = ''queued''
     \<or> s = ''waiting'' \<and> (s' = ''queued'' \<or> s' = ''expired'')"

definition target_moves :: "target_row \<Rightarrow> target_row \<Rightarrow> bool" where
  "target_moves t t' \<longleftrightarrow> t_id t' = t_id t \<and> t_job_id t' = t_job_id t \<and> t_device_id t' = t_device_id t
     \<and> t_agent_id t' = t_agent_id t \<and> background_move\<^sup>*\<^sup>* (t_status t) (t_status t')
     \<and> (job_terminal (t_status t) \<longrightarrow> t' = t)"

lemma target_moves_refl [simp]: "target_moves t t"
  by (simp add: target_moves_def)

lemma target_moves_trans: "target_moves t u \<Longrightarrow> target_moves u v \<Longrightarrow> target_moves t v"
  by (auto simp: target_moves_def)

lemma moves_trans:
  "list_all2 target_moves xs ys \<Longrightarrow> list_all2 target_moves ys zs \<Longrightarrow> list_all2 target_moves xs zs"
  using list_all2_trans [of target_moves target_moves target_moves] target_moves_trans by blast

lemma moves_refl [simp]: "list_all2 target_moves xs xs"
  by (simp add: list_all2_same)

lemma evolves_moves: "target_evolves t t' \<Longrightarrow> target_moves t t'"
proof -
  assume e: "target_evolves t t'"
  have "CanTransition\<^sup>*\<^sup>* (t_status t) (t_status t')"
    using e by (auto simp: target_evolves_def intro: tranclp_into_rtranclp)
  then have "background_move\<^sup>*\<^sup>* (t_status t) (t_status t')"
    by (rule mono_rtranclp [rule_format, rotated]) (simp add: background_move_def)
  with e show ?thesis
    using terminal_no_path by (auto simp: target_moves_def target_evolves_def)
qed

lemma update_moves:
  assumes "\<And>t. t \<in> set (targets db) \<Longrightarrow> sel t \<Longrightarrow> target_moves t (upd t)"
  shows "list_all2 target_moves (targets db) (targets (update_targets now sel upd db))"
  using assms by (auto simp: list_all2_map2 intro!: list_all2_same [THEN iffD2])

lemma allowed_moves:
  "CanTransition ''queued'' ''dispatched''"
  "s \<in> {''pending'', ''queued'', ''dispatched'', ''running''} \<Longrightarrow> CanTransition s ''expired''"
  "s \<in> {''dispatched'', ''running''} \<Longrightarrow> CanTransition s ''failed''"
  by (auto simp: CanTransition_def allowedTransitions_def)

lemma background_moveI: "background_move (t_status t) s \<Longrightarrow> background_move\<^sup>*\<^sup>* (t_status t) s"
  by (rule r_into_rtranclp)

lemma dispatchable_moves: "dispatchable tg a t \<Longrightarrow> target_moves t (mark_dispatched now a t)"
proof -
  assume "dispatchable tg a t"
  then consider "t_status t = ''queued''" | "t_status t = ''dispatched''" by (auto simp: dispatchable_def)
  then show ?thesis
    by cases (auto simp: mark_dispatched_def target_moves_def job_terminal_def background_move_def allowed_moves)
qed

lemma process_rows_moves:
  "list_all2 target_moves (targets (fst s)) (targets (fst (fold (process_row wk now env) xs s)))"
proof (induction xs arbitrary: s)
  case (Cons x xs)
  have "list_all2 target_moves (targets (fst s)) (targets (fst (process_row wk now env x s)))"
    by (cases rule: process_row_effect [of wk now env x s])
      (auto simp: list_all2_map2 dispatchable_moves intro!: list_all2_same [THEN iffD2])
  with Cons.IH [of "process_row wk now env x s"] show ?case using moves_trans by fastforce
qed simp

lemma processOutbox_moves:
  "list_all2 target_moves (targets (fst s)) (targets (fst (processOutbox ok wk now env s)))"
  using process_rows_moves [of "(claim_rows wk now (fst s), snd s)"] by (simp add: processOutbox_def)

lemma expireJobs_moves: "list_all2 target_moves (targets db) (targets (expireJobs ok now db))"
  unfolding expireJobs_def Let_def
  by (cases ok; simp only: if_True if_False not_True_eq_False not_False_eq_True moves_refl; intro update_moves)
    (auto simp: target_moves_def job_terminal_def background_move_def allowed_moves intro!: r_into_rtranclp)

lemma handleOfflineReconnect_moves:
  "list_all2 target_moves (targets db) (targets (handleOfflineReconnect ok online now db))"
  unfolding handleOfflineReconnect_def
  by (cases ok; simp only: if_True if_False not_True_eq_False not_False_eq_True moves_refl; intro update_moves)
    (auto simp: target_moves_def job_terminal_def background_move_def intro!: r_into_rtranclp)

lemma expireOfflineWork_moves: "list_all2 target_moves (targets db) (targets (expireOfflineWork ok now db))"
  unfolding expireOfflineWork_def
  by (cases ok; simp only: if_True if_False not_True_eq_False not_False_eq_True moves_refl; intro update_moves)
    (auto simp: target_moves_def job_terminal_def background_move_def intro!: r_into_rtranclp)

lemma recover_leases_moves: "list_all2 target_moves (targets db) (targets (recover_leases now db))"
  unfolding recover_leases_def
  by (intro update_moves) (auto simp: target_moves_def job_terminal_def background_move_def intro!: r_into_rtranclp)

lemma retry_target_moves:
  "t_status t \<in> {''dispatched'', ''running''} \<Longrightarrow> target_moves t (retry_target now n t)"
  by (auto simp: target_moves_def retry_target_def job_terminal_def background_move_def allowed_moves
      intro!: r_into_rtranclp)

lemma retry_timed_out_moves: "list_all2 target_moves (targets db) (targets (retry_timed_out now db))"
  unfolding retry_timed_out_def
  by (intro update_moves) (auto simp: timed_out_def intro!: retry_target_moves split: option.splits)

lemma reconcile_jobs_targets [simp]: "targets (reconcile_jobs now db) = targets db"
  by (simp add: reconcile_jobs_def)

lemma reconcile_moves: "list_all2 target_moves (targets db) (targets (reconcile a b c now db))"
  unfolding reconcile_def Let_def
  by (auto intro: recover_leases_moves retry_timed_out_moves moves_trans)

text \<open>One step of the orchestrator's background work: a message of an agent or a statement group of its loops.\<close>

inductive orchestrator_step :: "jobdb \<Rightarrow> jobdb \<Rightarrow> bool" where
  report: "agent_report db db' \<Longrightarrow> orchestrator_step db db'"
| queue: "orchestrator_step db (ensureQueuedOutbox ok ts now db)"
| publish: "orchestrator_step db (fst (processOutbox ok worker now env (db, sent)))"
| expire: "orchestrator_step db (expireJobs ok now db)"
| reconnect: "orchestrator_step db (handleOfflineReconnect ok online now db)"
| expire_offline: "orchestrator_step db (expireOfflineWork ok now db)"
| reconciled: "orchestrator_step db (reconcile ok1 ok2 ok3 now db)"

lemma orchestrator_step_moves:
  assumes "orchestrator_step db db'" "distinct (map t_id (targets db))"
  shows "list_all2 target_moves (targets db) (targets db')"
  using assms(1)
proof cases
  case report
  from agent_report_evolves [OF this assms(2)] show ?thesis
    by (rule list_all2_mono) (rule evolves_moves)
next
  case (publish ok worker now env sent)
  with processOutbox_moves [of "(db, sent)"] show ?thesis by simp
qed (simp_all add: ensureQueuedOutbox_def expireJobs_moves handleOfflineReconnect_moves expireOfflineWork_moves
    reconcile_moves)

lemma moves_ids: "list_all2 target_moves ts us \<Longrightarrow> map t_id us = map t_id ts"
  by (induction rule: list_all2_induct) (auto simp: target_moves_def)

text \<open>
  C8. Over any history of agent messages, publishing, expiry, reconnection and reconciliation, with
  any failures: no target is lost or re-assigned to another job, device or agent, its status moves along
  the state machine extended only by the return of dispatched, running or waiting work to the queue and
  the expiry of waiting work, and once final its whole row stays as it is.
\<close>

theorem background_work_keeps_final_targets:
  assumes "orchestrator_step\<^sup>*\<^sup>* db db'" "distinct (map t_id (targets db))"
  shows "length (targets db') = length (targets db)
    \<and> (\<forall>k < length (targets db). target_moves (targets db ! k) (targets db' ! k))"
proof -
  have "list_all2 target_moves (targets db) (targets db')"
    using assms
  proof (induction rule: rtranclp_induct)
    case (step d d')
    then have a: "list_all2 target_moves (targets db) (targets d)" by simp
    with step show ?case by (metis moves_ids orchestrator_step_moves moves_trans)
  qed simp
  then show ?thesis by (simp add: list_all2_conv_all_nth)
qed

theorem background_work_keeps_final_targets_witness:
  "\<exists>db'. orchestrator_step\<^sup>*\<^sup>* (example_db ''succeeded'') db' \<and> db' = expireJobs True 9 (example_db ''succeeded'')
     \<and> targets db' = [example_target ''succeeded'']"
proof -
  let ?db = "expireJobs True 9 (example_db ''succeeded'')"
  have r: "orchestrator_step\<^sup>*\<^sup>* (example_db ''succeeded'') ?db"
    by (rule r_into_rtranclp) (rule orchestrator_step.expire)
  have "job_terminal (t_status (example_target ''succeeded''))" by (simp add: example_target_def job_terminal_def)
  with background_work_keeps_final_targets [OF r] have "length (targets ?db) = 1 \<and> targets ?db ! 0 = example_target ''succeeded''"
    by (simp add: example_db_def target_moves_def)
  then have "targets ?db = [example_target ''succeeded'']" by (auto simp: length_Suc_conv)
  with r show ?thesis by blast
qed

section \<open>Dispatch events\<close>

lemma payload_of_dispatch [simp]:
  "payload_target (dispatch_payload ts now t j) = t_id t"
  "payload_attempt (dispatch_payload ts now t j) = t_attempt t + 1"
  using trunc_rat_of_int [of "t_attempt t + 1"]
  by (simp_all add: payload_target_def payload_attempt_def payload_object_def dispatch_payload_def obj_str_def
      obj_get_def intFromJSON_def)

text \<open>The target and attempt of every dispatch event in the outbox.\<close>

definition dispatch_keys :: "jobdb \<Rightarrow> (string \<times> int) list" where
  "dispatch_keys db =
     map (\<lambda>x. (payload_target (o_payload x), payload_attempt (o_payload x)))
       (filter (\<lambda>x. o_event_type x = ''job.dispatch'') (outbox db))"

lemma has_dispatch_keys: "has_dispatch tg a (outbox db) \<longleftrightarrow> (tg, a) \<in> set (dispatch_keys db)"
  by (auto simp: has_dispatch_def dispatch_keys_def list_ex_iff)

lemma insert_dispatches_keys:
  "dispatch_keys (insert_dispatches ts now xs db) =
     dispatch_keys db @ map (\<lambda>(t, j). (t_id t, t_attempt t + 1)) xs"
  by (induction ts now xs db rule: insert_dispatches.induct) (simp_all add: dispatch_keys_def new_outbox_def)

lemma distinct_joined:
  assumes "distinct (map t_id ts)" "distinct (map j_id js)"
  shows "distinct (map (t_id \<circ> fst) (concat (map (\<lambda>t. map (Pair t) (filter (\<lambda>j. j_id j = t_job_id t) js)) ts)))"
  using assms(1)
proof (induction ts)
  case (Cons t ts)
  have "length (filter (\<lambda>j. j_id j = k) js) \<le> 1" for k
    using assms(2) by (induction js) (auto simp: filter_empty_conv rev_image_eqI)
  then have one: "distinct (map (\<lambda>_. t_id t) (filter (\<lambda>j. j_id j = t_job_id t) js))"
    using le_Suc_eq [of "length (filter (\<lambda>j. j_id j = t_job_id t) js)" 0] by (auto simp: length_Suc_conv)
  have "t_id u \<noteq> t_id t" if "u \<in> set ts" for u using Cons.prems that by (auto simp: rev_image_eqI)
  with Cons one show ?case by (auto simp: comp_def)
qed simp

lemma dispatch_candidates_distinct:
  "distinct (map t_id (targets db)) \<Longrightarrow> distinct (map j_id (jobs db)) \<Longrightarrow>
     distinct (map (t_id \<circ> fst) (dispatch_candidates now db))"
  unfolding dispatch_candidates_def by (rule distinct_map_filter) (rule distinct_joined)

lemma in_dispatch_candidates:
  "(t, j) \<in> set (dispatch_candidates now db) \<longleftrightarrow>
     t \<in> set (targets db) \<and> j \<in> set (jobs db) \<and> j_id j = t_job_id t \<and> due_for_dispatch now db t j"
  by (auto simp: dispatch_candidates_def)

lemma update_outbox_keys:
  assumes "\<And>x. o_event_type (f x) = o_event_type x" "\<And>x. o_payload (f x) = o_payload x"
  shows "dispatch_keys (update_outbox sel f db) = dispatch_keys db"
proof -
  have "filter (\<lambda>x. o_event_type x = e) (map (\<lambda>x. if sel x then f x else x) xs) =
      map (\<lambda>x. if sel x then f x else x) (filter (\<lambda>x. o_event_type x = e) xs)" for e xs
    using assms(1) by (induction xs) auto
  then show ?thesis using assms(2) by (simp add: dispatch_keys_def update_outbox_def)
qed

lemma process_row_keys [simp]: "dispatch_keys (fst (process_row wk now env x s)) = dispatch_keys (fst s)"
proof -
  have "dispatch_keys (commit_dispatched now tg ag a db) = dispatch_keys db" for tg ag a db
    by (simp add: commit_dispatched_def dispatch_keys_def Let_def)
  then show ?thesis
    by (auto simp: process_row_def send_row_def failOutbox_def mark_published_def update_outbox_keys Let_def
        split: option.splits)
qed

lemma processOutbox_keys: "dispatch_keys (fst (processOutbox ok wk now env s)) = dispatch_keys (fst s)"
proof -
  have "dispatch_keys (fst (fold (process_row wk now env) xs s)) = dispatch_keys (fst s)" for xs s
    by (induction xs arbitrary: s) simp_all
  then show ?thesis by (simp add: processOutbox_def claim_rows_def update_outbox_keys)
qed

text \<open>
  The outbox holds at most one dispatch event per target and attempt: queueing never adds an event
  for an attempt that has one, two targets never share an event, publishing neither adds nor removes
  one; and when at most a hundred targets are due, every due target has the event of its next attempt
  afterwards.
\<close>

theorem one_dispatch_event_per_attempt:
  assumes "distinct (map t_id (targets db))" "distinct (map j_id (jobs db))" "distinct (dispatch_keys db)"
  shows "distinct (dispatch_keys (ensureQueuedOutbox ok ts now db))
    \<and> dispatch_keys (fst (processOutbox ok' worker now env (db, sent))) = dispatch_keys db
    \<and> (length (dispatch_candidates now db) \<le> 100 \<longrightarrow>
        (\<forall>t \<in> set (targets db). \<forall>j \<in> set (jobs db). j_id j = t_job_id t \<and> due_for_dispatch now db t j \<longrightarrow>
           has_dispatch (t_id t) (t_attempt t + 1) (outbox (ensureQueuedOutbox True ts now db))))"
proof (intro conjI impI ballI)
  let ?new = "take 100 (dispatch_candidates now db)"
  have d: "distinct (map (t_id \<circ> fst) ?new)"
    using distinct_take [OF dispatch_candidates_distinct [OF assms(1,2), of now], of 100] by (simp add: take_map)
  have "distinct (map (\<lambda>(t, j). (t_id t, t_attempt t + 1)) ?new)"
    using d unfolding distinct_map by (fastforce simp: inj_on_def)
  moreover have "set (dispatch_keys db) \<inter> set (map (\<lambda>(t, j). (t_id t, t_attempt t + 1)) ?new) = {}"
    by (auto simp: has_dispatch_keys due_for_dispatch_def in_dispatch_candidates dest!: in_set_takeD)
  ultimately show "distinct (dispatch_keys (ensureQueuedOutbox ok ts now db))"
    using assms(3) by (simp add: ensureQueuedOutbox_def insert_dispatches_keys)
  show "dispatch_keys (fst (processOutbox ok' worker now env (db, sent))) = dispatch_keys db"
    by (simp add: processOutbox_keys)
next
  fix t j
  assume few: "length (dispatch_candidates now db) \<le> 100" and "t \<in> set (targets db)" "j \<in> set (jobs db)"
    "j_id j = t_job_id t \<and> due_for_dispatch now db t j"
  then have "(t, j) \<in> set (dispatch_candidates now db)" by (simp add: in_dispatch_candidates)
  with few show "has_dispatch (t_id t) (t_attempt t + 1) (outbox (ensureQueuedOutbox True ts now db))"
    by (force simp: has_dispatch_keys ensureQueuedOutbox_def insert_dispatches_keys)
qed

definition example_queued :: jobdb where
  "example_queued = \<lparr>jobs = [example_job], targets = [(example_target ''queued'')\<lparr>t_attempt := 0\<rparr>], outbox = [], inbox = [],
     next_id = 0\<rparr>"

theorem one_dispatch_event_per_attempt_witness:
  "has_dispatch ''t'' 1 (outbox (ensureQueuedOutbox True (\<lambda>_. []) 0 example_queued))
   \<and> distinct (dispatch_keys (ensureQueuedOutbox True (\<lambda>_. []) 0 example_queued))"
proof -
  have ids: "distinct (map t_id (targets example_queued))" "distinct (map j_id (jobs example_queued))"
    "distinct (dispatch_keys example_queued)" "length (dispatch_candidates 0 example_queued) \<le> 100"
    by (simp_all add: example_queued_def dispatch_keys_def dispatch_candidates_def)
  have "due_for_dispatch 0 example_queued ((example_target ''queued'')\<lparr>t_attempt := 0\<rparr>) example_job" by code_simp
  with one_dispatch_event_per_attempt [OF ids(1-3), of True "\<lambda>_. []" 0] ids(4) show ?thesis
    by (simp add: example_queued_def example_target_def example_job_def)
qed

section \<open>What is published\<close>

text \<open>Where a message may come from, and what the tables say by the time it is out.\<close>

definition message_of_row :: "outbox_row \<Rightarrow> string \<times> json \<Rightarrow> bool" where
  "message_of_row x m \<longleftrightarrow>
     (\<exists>kvs. snd m = o_payload x \<and> payload_object (o_payload x) = Some kvs \<and> obj_str kvs ''agent_id'' \<noteq> []
        \<and> (o_event_type x = ''job.cancel'' \<and> fst m = cmd_subject (o_msp_id x) (obj_str kvs ''agent_id'') @ ''.cancel''
           \<or> o_event_type x = ''job.dispatch'' \<and> fst m = cmd_subject (o_msp_id x) (obj_str kvs ''agent_id'')
             \<and> 1 \<le> payload_attempt (snd m)))"

definition not_queued :: "jobdb \<Rightarrow> string \<Rightarrow> bool" where
  "not_queued db k \<longleftrightarrow> (\<forall>t \<in> set (targets db). t_id t = k \<longrightarrow> t_status t \<noteq> ''queued'')"

definition accounted :: "outbox_row list \<Rightarrow> jobdb \<Rightarrow> string \<times> json \<Rightarrow> bool" where
  "accounted rows db m \<longleftrightarrow>
     (\<exists>x \<in> set rows. message_of_row x m
        \<and> (o_event_type x = ''job.dispatch'' \<longrightarrow> not_queued db (payload_target (snd m))))"

lemma commit_dispatched_in:
  assumes "t \<in> set (targets (commit_dispatched now tg ag a db))"
  obtains u where "u \<in> set (targets db)" "t = (if dispatchable tg a u then mark_dispatched now a u else u)"
  using assms unfolding commit_dispatched_targets set_map by (elim imageE) blast

lemma mark_dispatched_simps [simp]:
  "t_id (mark_dispatched now a t) = t_id t" "t_status (mark_dispatched now a t) = ''dispatched''"
  by (simp_all add: mark_dispatched_def)

lemma commit_dispatched_not_queued:
  "t \<in> set (targets (commit_dispatched now tg ag a db)) \<Longrightarrow> t_id t = tg \<Longrightarrow> t_status t \<noteq> ''queued''"
  by (erule commit_dispatched_in) (auto simp: dispatchable_def split: if_splits)

lemma not_queued_cong: "targets d = targets d' \<Longrightarrow> not_queued d k = not_queued d' k"
  by (simp add: not_queued_def)

lemma commit_keeps_not_queued: "not_queued db k \<Longrightarrow> not_queued (commit_dispatched now tg ag a db) k"
  unfolding not_queued_def by (intro ballI impI; erule commit_dispatched_in) (simp split: if_splits)

lemma process_row_not_queued:
  assumes "not_queued (fst s) k"
  shows "not_queued (fst (process_row wk now env x s)) k"
proof (cases rule: process_row_effect [of wk now env x s])
  case kept
  then show ?thesis using assms not_queued_cong by metis
next
  case dispatched
  then show ?thesis using assms not_queued_cong commit_keeps_not_queued by metis
qed

lemma accounted_mono: "accounted rows (fst s) m \<Longrightarrow> accounted rows (fst (process_row wk now env x s)) m"
  unfolding accounted_def using process_row_not_queued by blast

lemma process_row_sent:
  obtains (none) "snd (process_row wk now env x s) = snd s"
  | (one) m where "snd (process_row wk now env x s) = snd s @ [m]"
      "\<And>rows. x \<in> set rows \<Longrightarrow> accounted rows (fst (process_row wk now env x s)) m"
proof (cases "payload_object (o_payload x)")
  case None
  then show ?thesis by (intro none) (simp add: process_row_def Let_def)
next
  case (Some p)
  let ?w = "env (o_id x)" let ?tg = "obj_str p ''target_id''" let ?a = "intFromJSON (obj_get p ''attempt'')"
  have pt: "payload_target (o_payload x) = ?tg" "payload_attempt (o_payload x) = ?a"
    using Some by (simp_all add: payload_target_def payload_attempt_def)
  let ?id = "obj_str p ''agent_id'' \<noteq> [] \<and> ?tg \<noteq> []"
  show ?thesis
  proof (cases "?id \<and> o_event_type x = ''job.cancel'' \<and> w_publish ?w = None")
    case True
    then have "snd (process_row wk now env x s) = snd s @ [(cmd_subject (o_msp_id x) (obj_str p ''agent_id'') @ ''.cancel'', o_payload x)]"
      using Some by (auto simp: process_row_def send_row_def Let_def split: option.splits)
    then show ?thesis by (rule one) (use Some True in \<open>auto simp: accounted_def message_of_row_def\<close>)
  next
    case not_cancel: False
    show ?thesis
    proof (cases "?id \<and> o_event_type x = ''job.dispatch'' \<and> 1 \<le> ?a \<and> w_update ?w = None \<and> w_publish ?w = None")
      case True
      then have row: "process_row wk now env x s = send_row wk now ?w x (cmd_subject (o_msp_id x) (obj_str p ''agent_id'')) ?a
          (commit_dispatched now ?tg (o_aggregate_id x) ?a (fst s), snd s)"
        using Some by (simp add: process_row_def Let_def)
      then have "snd (process_row wk now env x s) = snd s @ [(cmd_subject (o_msp_id x) (obj_str p ''agent_id''), o_payload x)]"
        using True by (simp add: send_row_def Let_def split: option.splits)
      moreover have "not_queued (fst (process_row wk now env x s)) ?tg"
        unfolding not_queued_def row send_row_simps fst_conv using commit_dispatched_not_queued by blast
      ultimately show ?thesis
        by (intro one) (use Some True pt in \<open>auto simp: accounted_def message_of_row_def\<close>)
    next
      case False
      with Some not_cancel have "snd (process_row wk now env x s) = snd s"
        by (auto simp: process_row_def send_row_def Let_def split: option.splits)
      then show ?thesis by (rule none)
    qed
  qed
qed

lemma process_rows_sent:
  assumes "set xs \<subseteq> set rows"
  shows "\<exists>new. snd (fold (process_row wk now env) xs s) = snd s @ new \<and> length new \<le> length xs
    \<and> (\<forall>m \<in> set new. accounted rows (fst (fold (process_row wk now env) xs s)) m)"
  using assms
proof (induction xs arbitrary: s)
  case (Cons x xs)
  have keep: "accounted rows (fst s') m \<Longrightarrow> accounted rows (fst (fold (process_row wk now env) ys s')) m" for ys s' m
    by (induction ys arbitrary: s') (simp, metis accounted_mono fold_simps(2))
  let ?s = "process_row wk now env x s"
  obtain new where new: "snd (fold (process_row wk now env) xs ?s) = snd ?s @ new" "length new \<le> length xs"
    "\<forall>m \<in> set new. accounted rows (fst (fold (process_row wk now env) xs ?s)) m"
    using Cons.IH [of ?s] Cons.prems by auto
  show ?case
  proof (cases rule: process_row_sent [of wk now env x s])
    case none
    with new show ?thesis by (intro exI [of _ new]) simp
  next
    case (one m)
    then have "accounted rows (fst ?s) m" using Cons.prems by simp
    with keep one new show ?thesis by (intro exI [of _ "m # new"]) simp
  qed
qed simp

text \<open>
  C9. Publication follows the commit: a run of the publisher sends at most twenty messages; each is the
  payload of a claimable outbox row, on the command subject (or its cancel subject) of the row's tenant
  and of the agent in the payload; and whenever a command is out, its target is no longer queued in the
  tables, whatever fails around it.
\<close>

theorem dispatched_before_published:
  "\<exists>new. snd (processOutbox ok worker now env (db, sent)) = sent @ new \<and> length new \<le> 20
     \<and> list_all (accounted (filter (claimable now) (outbox db)) (fst (processOutbox ok worker now env (db, sent)))) new"
proof (cases ok)
  case True
  have "set (claimed_rows now db) \<subseteq> set (filter (claimable now) (outbox db))"
    unfolding claimed_rows_def by (rule set_take_subset)
  from process_rows_sent [OF this, of worker now env "(claim_rows worker now db, sent)"] True show ?thesis
    by (force simp: processOutbox_def claimed_rows_def list_all_iff)
qed (simp add: processOutbox_def)

section \<open>The command the agent receives\<close>

lemma unmarshal_dispatch_payload:
  assumes "0 \<le> t_attempt t" "t_attempt t + 1 < 2 ^ 63"
  shows "unmarshal_command (Decoded (dispatch_payload ts now t j)) =
    Some \<lparr>cSchemaVersion = 1, cEventID = dispatch_event_id (j_id j) (t_id t) (t_attempt t + 1), cJobID = j_id j,
      cTargetID = t_id t, cMSPID = j_msp_id j, cClientID = j_client_id j, cSiteID = coalesce (j_site_id j),
      cDeviceID = t_device_id t, cAgentID = coalesce (t_agent_id t), cCorrelationID = coalesce (j_correlation_id j),
      cAttempt = t_attempt t + 1, cIssuedAt = ts now, cExpiresAt = coalesce (map_option ts (j_expires_at j)),
      cCommandType = j_type j, cPayload = Some (j_payload j)\<rparr>"
proof -
  have opt: "assign_str [] [json_opt x] = Some (coalesce x)" for x
    by (simp add: json_opt_def coalesce_def split: option.splits)
  have one: "int_of_rat 1 = Some 1" using int_of_rat_of_int [of 1] by simp
  have att: "int_of_rat (of_int (t_attempt t + 1)) = Some (t_attempt t + 1)"
    unfolding int_of_rat_of_int using assms by simp
  show ?thesis
    by (simp del: of_int_add int_of_rat_of_int add: unmarshal_command_def dispatch_payload_def dec_object_def dec_int_def dec_str_def
        dec_raw_def wire_name_facts opt one att)
qed

text \<open>
  The dispatcher's commands are understood: the event that the outbox gets for a queued target
  passes the agent's validation, under the tenant of the job and the agent of the target, until the job
  expires, whenever the database renders the time of expiry in RFC 3339 notation; the agent reads the job, the target,
  the next attempt, the type and the payload of the job from it.
\<close>

theorem dispatch_payload_accepted:
  assumes "j_id j \<noteq> []" "t_id t \<noteq> []" "t_device_id t \<noteq> []" "j_type j \<noteq> []"
    and "j_correlation_id j = Some c" "c \<noteq> []" "t_agent_id t = Some a" "0 \<le> t_attempt t" "t_attempt t + 1 < 2 ^ 63"
    and expiry: "\<And>x. j_expires_at j = Some x \<Longrightarrow> Parse_RFC3339 (ts x) = Some x \<and> now < x"
  shows "\<exists>cmd. validateCommand now (Decoded (dispatch_payload ts issued t j)) (j_msp_id j) a = Inr cmd
    \<and> cEventID cmd = dispatch_event_id (j_id j) (t_id t) (t_attempt t + 1) \<and> cJobID cmd = j_id j
    \<and> cTargetID cmd = t_id t \<and> cAttempt cmd = t_attempt t + 1 \<and> cCommandType cmd = j_type j
    \<and> cPayload cmd = Some (j_payload j)"
proof -
  note u = unmarshal_dispatch_payload [OF assms(8,9), of ts issued j]
  have "coalesce (map_option ts (j_expires_at j)) = []
      \<or> (\<exists>e. Parse_RFC3339 (coalesce (map_option ts (j_expires_at j))) = Some e \<and> now < e)"
    using expiry by (cases "j_expires_at j") (auto simp: coalesce_def)
  then show ?thesis
    using u assms(1-9) by (auto simp: validateCommand_ok coalesce_def dispatch_event_id_def)
qed

theorem dispatch_payload_accepted_witness:
  "\<exists>cmd. validateCommand 0 (Decoded (dispatch_payload (\<lambda>_. ''2024-02-29T12:30:15Z'') 0 (example_target ''queued'')
      (example_job\<lparr>j_expires_at := Some 1709209815000000000\<rparr>))) ''acme'' ''a1''
    = Inr cmd \<and> cTargetID cmd = ''t'' \<and> cAttempt cmd = 2"
proof -
  have "Parse_RFC3339 ''2024-02-29T12:30:15Z'' = Some 1709209815000000000" by code_simp
  then show ?thesis
    using dispatch_payload_accepted [of "example_job\<lparr>j_expires_at := Some 1709209815000000000\<rparr>"
        "example_target ''queued''" "''c''" "''a1''" "\<lambda>_. ''2024-02-29T12:30:15Z''" 0 0]
    by (auto simp: example_job_def example_target_def)
qed

section \<open>Retries after a lease expired\<close>

text \<open>
  The delay after a failed publication is at least thirty seconds and at most thirty minutes, and
  never shrinks as the attempts grow (for the same random part).
\<close>

theorem backoff_bounds:
  assumes "0 \<le> jitter" "1 \<le> a" "a \<le> b"
  shows "30 * Second \<le> backoffDuration jitter a \<and> backoffDuration jitter a \<le> backoffDuration jitter b
    \<and> backoffDuration jitter b \<le> 30 * Minute"
proof -
  define x y :: int where xy: "x = 2 ^ nat (a - 1)" "y = 2 ^ nat (b - 1)"
  have "1 \<le> x" unfolding xy by simp
  moreover have "x \<le> y" unfolding xy using assms by (intro power_increasing) auto
  ultimately show ?thesis
    using assms(1) by (simp add: backoffDuration_def Let_def Second_def Minute_def min_def flip: xy)
qed

theorem backoff_bounds_witness:
  "30 * Second \<le> backoffDuration 0 1 \<and> backoffDuration 0 1 \<le> backoffDuration 0 4 \<and> backoffDuration 0 4 \<le> 30 * Minute"
  using backoff_bounds [of 0 1 4] by simp

text \<open>A target that is out of automatic retries is final.\<close>

definition retries_ok :: "jobdb \<Rightarrow> bool" where
  "retries_ok db \<longleftrightarrow> (\<forall>t \<in> set (targets db). \<forall>j. job_of db t = Some j \<longrightarrow>
     t_retry_count t \<le> j_max_retries j \<or> job_terminal (t_status t) \<and> t_retry_count t \<le> j_max_retries j + 1)"

lemma retry_target_status:
  "t_retry_count t \<le> n \<Longrightarrow>
     t_retry_count (retry_target now n t) \<le> n
     \<or> job_terminal (t_status (retry_target now n t)) \<and> t_retry_count (retry_target now n t) \<le> n + 1"
  by (auto simp: retry_target_def job_terminal_def)

lemma retry_timed_out_retries:
  assumes "retries_ok db"
  shows "retries_ok (retry_timed_out now db)"
  unfolding retries_ok_def
proof (intro ballI allI impI)
  fix t j
  assume t: "t \<in> set (targets (retry_timed_out now db))" and j: "job_of (retry_timed_out now db) t = Some j"
  then obtain u where u: "u \<in> set (targets db)"
    "t = (if timed_out now db u then case job_of db u of None \<Rightarrow> u | Some j \<Rightarrow> retry_target now (j_max_retries j) u else u)"
    by (auto simp: retry_timed_out_def)
  have id: "t_job_id t = t_job_id u" using u(2) by (auto simp: retry_target_def split: option.splits)
  have "map_option job_key (job_of (retry_timed_out now db) t) = map_option job_key (job_of db u)"
    unfolding job_of_def id by (rule find_map_key) (simp add: retry_timed_out_def)
  with j obtain i where i: "job_of db u = Some i" "j_max_retries i = j_max_retries j"
    by (cases "job_of db u") (auto simp: job_key_def)
  with assms u(1) have ok: "t_retry_count u \<le> j_max_retries j \<or> job_terminal (t_status u) \<and> t_retry_count u \<le> j_max_retries j + 1"
    unfolding retries_ok_def by force
  show "t_retry_count t \<le> j_max_retries j \<or> job_terminal (t_status t) \<and> t_retry_count t \<le> j_max_retries j + 1"
  proof (cases "timed_out now db u")
    case True
    then have "\<not> job_terminal (t_status u)" using i by (auto simp: timed_out_def job_terminal_def)
    with ok True u(2) i retry_target_status [of u "j_max_retries j" now] show ?thesis by simp
  next
    case False
    with ok u(2) show ?thesis by simp
  qed
qed

text \<open>
  Timed-out work is retried a bounded number of times: no target is put back into the queue more
  often than its job's retry limit allows; the timeout after the last retry makes it failed.
\<close>

theorem automatic_retries_bounded:
  assumes "retries_ok db" "t \<in> set (targets db)" "job_of db t = Some j" "timed_out now db t"
  shows "retries_ok (retry_timed_out now db)
    \<and> retry_target now (j_max_retries j) t \<in> set (targets (retry_timed_out now db))
    \<and> (t_status (retry_target now (j_max_retries j) t) = ''queued'' \<longleftrightarrow> t_retry_count t < j_max_retries j)
    \<and> (t_status (retry_target now (j_max_retries j) t) = ''failed'' \<longleftrightarrow> t_retry_count t = j_max_retries j)"
proof (intro conjI)
  show "retries_ok (retry_timed_out now db)" using assms(1) by (rule retry_timed_out_retries)
  show "retry_target now (j_max_retries j) t \<in> set (targets (retry_timed_out now db))"
    using assms(2-4) by (force simp: retry_timed_out_def)
  have "\<not> job_terminal (t_status t)" using assms(3,4) by (auto simp: timed_out_def job_terminal_def)
  with assms(1-3) have "t_retry_count t \<le> j_max_retries j" unfolding retries_ok_def by blast
  then show "(t_status (retry_target now (j_max_retries j) t) = ''failed'') = (t_retry_count t = j_max_retries j)"
    by (auto simp: retry_target_def)
qed (simp add: retry_target_def)


theorem automatic_retries_bounded_witness:
  "map t_status (targets (retry_timed_out 9 ((example_db ''running'')\<lparr>targets :=
      [(example_target ''running'')\<lparr>t_lease_expires := Some 5\<rparr>]\<rparr>))) = [''queued'']"
proof -
  let ?t = "(example_target ''running'')\<lparr>t_lease_expires := Some 5\<rparr>"
  let ?db = "(example_db ''running'')\<lparr>targets := [?t]\<rparr>"
  have j: "job_of ?db ?t = Some example_job" by (simp add: job_of_def example_db_def example_target_def example_job_def)
  have to: "timed_out 9 ?db ?t"
    unfolding timed_out_def j
    by (simp add: lease_expired_def expired_lease_ids_def example_db_def example_target_def example_job_def)
  have "retries_ok ?db"
    by (simp add: retries_ok_def job_of_def example_db_def example_target_def example_job_def)
  from automatic_retries_bounded [OF this _ j to] have
    "t_status (retry_target 9 (j_max_retries example_job) ?t) = ''queued''
     \<and> retry_target 9 (j_max_retries example_job) ?t \<in> set (targets (retry_timed_out 9 ?db))"
    by (simp add: example_target_def example_job_def)
  then show ?thesis by (simp add: retry_timed_out_def to j)
qed

text \<open>
  Acceptance by the agent does not extend the lease of two minutes that the dispatch gave: a target
  that an agent accepted is timed out two minutes after its dispatch while the command is still running,
  goes back to the queue although the state machine has no such transition, and its next command carries an
  event identifier the agent has not seen, so that the agent's record of the first execution does not
  suppress a second one.
\<close>

theorem long_running_work_is_dispatched_again:
  assumes "t2 = apply_ack n1 ''running'' ''accepted'' (mark_dispatched n0 a t)" "t2 \<in> set (targets db)"
    and "job_of db t2 = Some j" "j_expires_at j = None \<or> (\<exists>x. j_expires_at j = Some x \<and> now < x)"
    and "n0 + 2 * Minute < now" "List.member (expired_lease_ids now db) (t_id t)"
    and "t_retry_count t < j_max_retries j" "0 \<le> a"
  shows "\<exists>t3 \<in> set (targets (retry_timed_out now db)). t_id t3 = t_id t \<and> t_status t3 = ''queued'' \<and> t_attempt t3 = a
    \<and> \<not> CanTransition (t_status t2) (t_status t3)
    \<and> dispatch_event_id (j_id j) (t_id t3) (t_attempt t3 + 1) \<noteq> dispatch_event_id (j_id j) (t_id t) a"
proof -
  have row: "t_status t2 = ''running''" "t_lease_expires t2 = Some (n0 + 2 * Minute)" "t_id t2 = t_id t"
    "t_retry_count t2 = t_retry_count t" "t_attempt t2 = a"
    by (simp_all add: assms(1) apply_ack_def mark_dispatched_def)
  have to: "timed_out now db t2"
    using assms(3-6) row by (auto simp: timed_out_def lease_expired_def)
  have "retry_target now (j_max_retries j) t2 \<in> set (targets (retry_timed_out now db))"
    using assms(2,3) to by (force simp: retry_timed_out_def)
  moreover have "\<not> CanTransition ''running'' ''queued''" by (simp add: CanTransition_def allowedTransitions_def)
  ultimately show ?thesis
    using row assms(7,8)
    by (intro bexI [of _ "retry_target now (j_max_retries j) t2"])
      (simp_all add: retry_target_def dispatch_event_id_def int_digits_inject)
qed

theorem long_running_work_is_dispatched_again_witness:
  "\<exists>db t3. t3 \<in> set (targets (retry_timed_out (3 * Minute) db)) \<and> map t_status (targets db) = [''running'']
     \<and> t_id t3 = ''t'' \<and> t_status t3 = ''queued''"
proof -
  define t2 where t2: "t2 = apply_ack 7 ''running'' ''accepted'' (mark_dispatched 0 1 (example_target ''queued''))"
  define db where db: "db = (example_db ''queued'')\<lparr>targets := [t2]\<rparr>"
  have id: "t_id t2 = ''t''" "t_job_id t2 = ''j''" "t_status t2 = ''running''" "t_lease_expires t2 = Some (2 * Minute)"
    by (simp_all add: t2 apply_ack_def mark_dispatched_def example_target_def)
  have j: "job_of db t2 = Some example_job"
    by (simp add: db job_of_def id example_db_def example_job_def)
  have m: "List.member (expired_lease_ids (3 * Minute) db) (t_id (example_target ''queued''))"
    by (simp add: db expired_lease_ids_def lease_expired_def id Minute_def Second_def example_target_def)
  have "\<exists>t3 \<in> set (targets (retry_timed_out (3 * Minute) db)). t_id t3 = t_id (example_target ''queued'')
      \<and> t_status t3 = ''queued''"
    using long_running_work_is_dispatched_again [OF t2 _ j _ _ m]
    by (auto simp: db example_job_def example_target_def Minute_def Second_def)
  then show ?thesis using id by (intro exI [of _ db]) (auto simp: db example_target_def)
qed

end
