(* ===== verification/JobsApi.thy ===== *)
theory JobsApi
  imports JobDispatch "HOL-Library.Char_ord" "HOL-Library.List_Lexorder"
begin

text \<open>
  The job endpoints of the orchestrator's API that change state: \<^verbatim>\<open>handleCreateJob\<close>, \<^verbatim>\<open>handleCancelJob\<close>
  and \<^verbatim>\<open>handleRetryJobTargets\<close> of \<^verbatim>\<open>internal/platform/jobs.go\<close>, under the request transaction of
  \<^verbatim>\<open>internal/platform/db_context.go\<close>. The decisions of the authorization checks, the outcome of each
  statement, the devices that the tenant and client own, fresh identifiers and the hash of a document are
  arguments.
\<close>

section \<open>Responses and the request transaction\<close>

datatype response =
    JobCreated string              \<comment> \<open>201\<close>
  | DuplicateJob string string     \<comment> \<open>200, identifier and status of the earlier job\<close>
  | JobCancelledOk | RetryScheduled
  | BadRequest | Denied | NotFound | Conflict | ServerError

fun http_status :: "response \<Rightarrow> nat" where
  "http_status (JobCreated _) = 201"
| "http_status (DuplicateJob _ _) = 200"
| "http_status JobCancelledOk = 200"
| "http_status RetryScheduled = 200"
| "http_status BadRequest = 400"
| "http_status Denied = 404"
| "http_status NotFound = 404"
| "http_status Conflict = 409"
| "http_status ServerError = 500"

text \<open>
  The handler's changes are kept only when its status is below 400 and the commit succeeds; \<open>failed\<close> is
  the reply when it does not.
\<close>

definition tenantTransaction ::
  "('r \<Rightarrow> nat) \<Rightarrow> 'r \<Rightarrow> bool \<Rightarrow> ('s \<Rightarrow> 's \<times> 'r) \<Rightarrow> 's \<Rightarrow> 's \<times> 'r" where
  "tenantTransaction status failed commit_ok handler s =
     (case handler s of (s', resp) \<Rightarrow>
        if 400 \<le> status resp then (s, resp)
        else if \<not> commit_ok then (s, failed)
        else (s', resp))"

definition withTenantTransaction :: "bool \<Rightarrow> (jobdb \<Rightarrow> jobdb \<times> response) \<Rightarrow> jobdb \<Rightarrow> jobdb \<times> response" where
  "withTenantTransaction = tenantTransaction http_status ServerError"

lemma tenantTransaction_aborts:
  "tenantTransaction status failed commit_ok handler s = (s', resp) \<Longrightarrow> 400 \<le> status resp \<Longrightarrow> s' = s"
  by (auto simp: tenantTransaction_def split: prod.splits if_splits)

lemma tenantTransaction_commits:
  assumes "tenantTransaction status failed commit_ok handler s = (s', resp)" "resp \<noteq> failed" "status resp < 400"
  shows "handler s = (s', resp)"
  using assms by (auto simp: tenantTransaction_def split: prod.splits if_splits)

section \<open>Creating a job\<close>

record jobRequest =
  qType :: string
  qDeviceIDs :: "string list"
  qPayload :: json
  qPriority :: int
  qMaxRetries :: int
  qScheduleAt :: string
  qIdempotencyKey :: string

record api_env =
  v_now :: instant
  v_auth_msp :: bool
  v_auth_client :: bool
  v_fresh :: "nat \<Rightarrow> string"
  v_hash :: "json \<Rightarrow> string"
  v_device_agent :: "string \<Rightarrow> string \<Rightarrow> string \<Rightarrow> string option"
  v_insert_job :: bool
  v_insert_target :: "nat \<Rightarrow> bool"
  v_insert_outbox :: "nat \<Rightarrow> bool"

definition clamp_retries :: "int \<Rightarrow> int" where
  "clamp_retries n = (let m = (if n \<le> 0 then 3 else n) in if 10 < m then 10 else m)"

definition fingerprint :: "jobRequest \<Rightarrow> string \<Rightarrow> json" where
  "fingerprint req clientID = JObj
     [(''type'', JStr (qType req)), (''client_id'', JStr clientID),
      (''device_ids'', JArr (map JStr (sort (qDeviceIDs req)))), (''payload'', qPayload req),
      (''priority'', JNum (of_int (qPriority req))), (''max_retries'', JNum (of_int (qMaxRetries req))),
      (''schedule_at'', JStr (qScheduleAt req))]"

definition scheduled_for :: "instant \<Rightarrow> jobRequest \<Rightarrow> instant" where
  "scheduled_for now req =
     (if qScheduleAt req = [] then now
      else case Parse_RFC3339 (qScheduleAt req) of None \<Rightarrow> now | Some t \<Rightarrow> t)"

definition api_dispatch_payload ::
  "instant \<Rightarrow> string \<Rightarrow> string \<Rightarrow> string \<Rightarrow> string \<Rightarrow> string \<Rightarrow> string \<Rightarrow> instant \<Rightarrow> jobRequest \<Rightarrow> json" where
  "api_dispatch_payload now jobID targetID deviceID agentID mspID correlationID expiresAt req = JObj
     [(''job_id'', JStr jobID), (''target_id'', JStr targetID), (''device_id'', JStr deviceID),
      (''agent_id'', JStr agentID), (''msp_id'', JStr mspID), (''correlation_id'', JStr correlationID),
      (''attempt'', JNum 1), (''issued_at'', JStr (Format_RFC3339 now)),
      (''expires_at'', JStr (Format_RFC3339 expiresAt)), (''type'', JStr (qType req)), (''payload'', qPayload req)]"

definition new_target :: "string \<Rightarrow> string \<Rightarrow> string \<Rightarrow> string \<Rightarrow> target_row" where
  "new_target targetID jobID deviceID agentID =
     \<lparr>t_id = targetID, t_job_id = jobID, t_device_id = deviceID, t_agent_id = Some agentID, t_status = ''queued'',
      t_attempt = 0, t_retry_count = 0, t_next_retry_at = None, t_lease_owner = None, t_lease_expires = None,
      t_dispatched_at = None, t_acknowledged_at = None, t_completed_at = None, t_result = None,
      t_error_message = None, t_exit_code = None, t_approval_status = ''none'', t_offline_at = None,
      t_reconnect_at = None\<rparr>"

definition new_job :: "api_env \<Rightarrow> string \<Rightarrow> string \<Rightarrow> jobRequest \<Rightarrow> string \<Rightarrow> job_row" where
  "new_job env mspID clientID req requestHash =
     \<lparr>j_id = v_fresh env 0, j_msp_id = mspID, j_client_id = clientID, j_site_id = None, j_type = qType req,
      j_status = ''queued'', j_payload = qPayload req, j_max_retries = qMaxRetries req,
      j_expires_at = Some (scheduled_for (v_now env) req + 72 * Hour),
      j_scheduled_for = Some (scheduled_for (v_now env) req), j_correlation_id = Some (v_fresh env 1),
      j_idempotency_key = (if qIdempotencyKey req = [] then None else Some (qIdempotencyKey req)),
      j_request_hash = Some requestHash, j_dispatch_count = 0, j_completed_count = 0, j_failed_count = 0,
      j_completed_at = None, j_cancelled_at = None\<rparr>"

text \<open>The loop over the requested devices; \<open>n\<close> counts the iterations.\<close>

fun create_targets ::
  "api_env \<Rightarrow> string \<Rightarrow> string \<Rightarrow> jobRequest \<Rightarrow> nat \<Rightarrow> string list \<Rightarrow> jobdb \<Rightarrow> jobdb \<times> response option" where
  "create_targets env mspID clientID req n [] db = (db, None)"
| "create_targets env mspID clientID req n (deviceID # rest) db =
     (case v_device_agent env deviceID mspID clientID of
        None \<Rightarrow> (db, Some BadRequest)
      | Some agentID \<Rightarrow>
          if \<not> v_insert_target env n then (db, Some ServerError)
          else
            let targetID = v_fresh env (n + 2);
                db1 = db\<lparr>targets := targets db @ [new_target targetID (v_fresh env 0) deviceID agentID]\<rparr>;
                scheduledFor = scheduled_for (v_now env) req;
                outboxPayload = api_dispatch_payload (v_now env) (v_fresh env 0) targetID deviceID agentID mspID
                                  (v_fresh env 1) (scheduledFor + 72 * Hour) req
            in if \<not> v_insert_outbox env n then (db1, Some ServerError)
               else create_targets env mspID clientID req (Suc n) rest
                      (db1\<lparr>outbox := outbox db1 @ [new_outbox (next_id db1) mspID (v_fresh env 0) ''job.dispatch''
                                                    outboxPayload scheduledFor],
                           next_id := Suc (next_id db1)\<rparr>))"

text \<open>\<open>body\<close> is the decoded request body, or \<open>None\<close> when it does not decode.\<close>

definition handleCreateJob ::
  "api_env \<Rightarrow> string \<Rightarrow> string \<Rightarrow> jobRequest option \<Rightarrow> jobdb \<Rightarrow> jobdb \<times> response" where
  "handleCreateJob env mspID clientID body db =
     (if mspID = [] \<or> clientID = [] then (db, BadRequest)
      else if \<not> v_auth_msp env \<or> \<not> v_auth_client env then (db, Denied)
      else (case body of
              None \<Rightarrow> (db, BadRequest)
            | Some req0 \<Rightarrow>
                if qType req0 = [] \<or> qDeviceIDs req0 = [] then (db, BadRequest)
                else
                  let req = req0\<lparr>qMaxRetries := clamp_retries (qMaxRetries req0)\<rparr>;
                      requestHash = v_hash env (fingerprint req clientID);
                      existing = (if qIdempotencyKey req = [] then None
                                  else find (\<lambda>j. j_msp_id j = mspID \<and> j_idempotency_key j = Some (qIdempotencyKey req)) (jobs db))
                  in (case existing of
                        Some j \<Rightarrow>
                          if coalesce (j_request_hash j) \<noteq> requestHash then (db, Conflict)
                          else (db, DuplicateJob (j_id j) (j_status j))
                      | None \<Rightarrow>
                          if \<not> v_insert_job env then (db, ServerError)
                          else (case create_targets env mspID clientID req 0 (qDeviceIDs req)
                                       (db\<lparr>jobs := jobs db @ [new_job env mspID clientID req requestHash]\<rparr>) of
                                  (db', Some e) \<Rightarrow> (db', e)
                                | (db', None) \<Rightarrow> (db', JobCreated (v_fresh env 0))))))"

section \<open>Cancelling a job\<close>

definition cancellable :: "string list" where
  "cancellable = [''pending'', ''queued'', ''dispatched'', ''running'']"

definition cancel_payload :: "instant \<Rightarrow> string \<Rightarrow> string \<Rightarrow> target_row \<Rightarrow> json" where
  "cancel_payload now jobID mspID t = JObj
     [(''schema_version'', JNum 1), (''event_id'', JStr (jobID @ '':'' @ t_id t @ '':cancel'')),
      (''job_id'', JStr jobID), (''target_id'', JStr (t_id t)), (''msp_id'', JStr mspID),
      (''agent_id'', JStr (coalesce (t_agent_id t))), (''attempt'', JNum 1), (''issued_at'', JStr (Format_RFC3339 now))]"

fun insert_cancels :: "instant \<Rightarrow> string \<Rightarrow> string \<Rightarrow> target_row list \<Rightarrow> jobdb \<Rightarrow> jobdb" where
  "insert_cancels now jobID mspID [] db = db"
| "insert_cancels now jobID mspID (t # ts) db =
     insert_cancels now jobID mspID ts
       (db\<lparr>outbox := outbox db @ [new_outbox (next_id db) mspID jobID ''job.cancel'' (cancel_payload now jobID mspID t) now],
           next_id := Suc (next_id db)\<rparr>)"

text \<open>\<open>ok\<close> says that every statement and the commit succeed.\<close>

definition handleCancelJob :: "bool \<Rightarrow> bool \<Rightarrow> instant \<Rightarrow> string \<Rightarrow> jobdb \<Rightarrow> jobdb \<times> response" where
  "handleCancelJob ok auth now jobID db =
     (case find_job jobID db of
        None \<Rightarrow> (db, NotFound)
      | Some j \<Rightarrow>
          if \<not> auth then (db, Denied)
          else (case TransitionJob (j_status j) ''cancelled'' of
                  Inl _ \<Rightarrow> (db, Conflict)
                | Inr _ \<Rightarrow>
                    if \<not> ok then (db, ServerError)
                    else
                      let affected = filter (\<lambda>j. j_id j = jobID \<and> List.member cancellable (j_status j)) (jobs db);
                          db1 = update_jobs now (\<lambda>j. j_id j = jobID \<and> List.member cancellable (j_status j))
                                  (\<lambda>j. j\<lparr>j_status := ''cancelled'', j_completed_at := Some now, j_cancelled_at := Some now\<rparr>) db
                      in if affected = [] then (db, Conflict)
                         else
                           let sel = (\<lambda>t. t_job_id t = jobID \<and> List.member cancellable (t_status t));
                               cancelled = filter sel (targets db1);
                               db2 = update_targets now sel
                                       (\<lambda>t. t\<lparr>t_status := ''cancelled'', t_completed_at := Some now, t_lease_owner := None,
                                              t_lease_expires := None\<rparr>) db1
                           in if list_ex (\<lambda>t. coalesce (t_agent_id t) = []) cancelled then (db2, ServerError)
                              else (insert_cancels now jobID (j_msp_id j) cancelled db2, JobCancelledOk)))"

section \<open>Retrying targets\<close>

definition retry_row :: "instant \<Rightarrow> target_row \<Rightarrow> target_row" where
  "retry_row now t = t\<lparr>t_status := ''queued'', t_retry_count := t_retry_count t + 1, t_next_retry_at := Some (now + 30 * Second)\<rparr>"

definition handleRetryJobTargets ::
  "bool \<Rightarrow> bool \<Rightarrow> bool \<Rightarrow> instant \<Rightarrow> string \<Rightarrow> string \<Rightarrow> jobdb \<Rightarrow> jobdb \<times> response" where
  "handleRetryJobTargets ok_targets ok_job auth now jobID targetID db =
     (case find_job jobID db of
        None \<Rightarrow> (db, NotFound)
      | Some j \<Rightarrow>
          if \<not> auth then (db, Denied)
          else if \<not> ok_targets then (db, ServerError)
          else
            let sel = (if targetID \<noteq> []
                       then (\<lambda>t. t_id t = targetID \<and> t_job_id t = jobID \<and> List.member [''failed'', ''expired''] (t_status t))
                       else (\<lambda>t. t_job_id t = jobID \<and> List.member [''failed'', ''expired''] (t_status t)
                                 \<and> t_retry_count t < j_max_retries j));
                db1 = update_targets now sel (retry_row now) db
            in if \<not> ok_job then (db1, ServerError)
               else (update_jobs now (\<lambda>j. j_id j = jobID) (\<lambda>j. j\<lparr>j_status := ''queued''\<rparr>) db1, RetryScheduled))"

section \<open>What creation does\<close>

definition fresh_target :: "api_env \<Rightarrow> string \<Rightarrow> string \<Rightarrow> target_row \<Rightarrow> bool" where
  "fresh_target env mspID clientID t \<longleftrightarrow> t_status t = ''queued'' \<and> t_attempt t = 0 \<and> t_job_id t = v_fresh env 0
     \<and> t_agent_id t \<noteq> None \<and> v_device_agent env (t_device_id t) mspID clientID = t_agent_id t"

definition api_event :: "outbox_row \<Rightarrow> bool" where
  "api_event x \<longleftrightarrow> o_event_type x = ''job.dispatch'' \<and> o_published_at x = None
     \<and> (\<exists>now jobID targetID deviceID agentID mspID correlationID expiresAt req.
          o_payload x = api_dispatch_payload now jobID targetID deviceID agentID mspID correlationID expiresAt req)"

lemma payload_of_api_dispatch [simp]:
  "payload_target (api_dispatch_payload now jb tg dv ag ms co ex req) = tg"
  "payload_attempt (api_dispatch_payload now jb tg dv ag ms co ex req) = 1"
  using trunc_rat_of_int [of 1]
  by (simp_all add: payload_target_def payload_attempt_def payload_object_def api_dispatch_payload_def obj_str_def
      obj_get_def intFromJSON_def)

lemma create_targets_ok:
  "create_targets env mspID clientID req n ds db = (db', None) \<Longrightarrow>
     jobs db' = jobs db \<and> inbox db' = inbox db
     \<and> (\<exists>new evs. targets db' = targets db @ new \<and> outbox db' = outbox db @ evs
          \<and> map t_device_id new = ds \<and> list_all (fresh_target env mspID clientID) new
          \<and> map (\<lambda>x. payload_target (o_payload x)) evs = map t_id new \<and> list_all api_event evs)"
proof (induction ds arbitrary: n db)
  case (Cons d ds)
  from Cons.prems obtain ag where ag: "v_device_agent env d mspID clientID = Some ag" "v_insert_target env n"
    "v_insert_outbox env n" by (auto simp: Let_def split: option.splits if_splits)
  define t where t: "t = new_target (v_fresh env (n + 2)) (v_fresh env 0) d ag"
  define x where x: "x = new_outbox (next_id db) mspID (v_fresh env 0) ''job.dispatch''
      (api_dispatch_payload (v_now env) (v_fresh env 0) (v_fresh env (n + 2)) d ag mspID (v_fresh env 1)
         (scheduled_for (v_now env) req + 72 * Hour) req) (scheduled_for (v_now env) req)"
  have row: "fresh_target env mspID clientID t" "t_device_id t = d" "payload_target (o_payload x) = t_id t"
    using ag by (simp_all add: t x fresh_target_def new_target_def new_outbox_def)
  have ev: "api_event x" unfolding api_event_def x new_outbox_def by (intro conjI exI) (rule refl | simp)+
  have "create_targets env mspID clientID req (Suc n) ds
      (db\<lparr>targets := targets db @ [t], outbox := outbox db @ [x], next_id := Suc (next_id db)\<rparr>) = (db', None)"
    using Cons.prems ag by (simp add: Let_def t x)
  from Cons.IH [OF this] obtain new evs where
    "jobs db' = jobs db" "inbox db' = inbox db" "targets db' = targets db @ t # new" "outbox db' = outbox db @ x # evs"
    "map t_device_id new = ds" "list_all (fresh_target env mspID clientID) new"
    "map (\<lambda>x. payload_target (o_payload x)) evs = map t_id new" "list_all api_event evs"
    by auto
  with row ev show ?case by (intro conjI exI [of _ "t # new"] exI [of _ "x # evs"]) simp_all
qed simp

lemma create_targets_error: "create_targets env mspID clientID req n ds db = (db', Some e) \<Longrightarrow> 400 \<le> http_status e"
  by (induction env mspID clientID req n ds db arbitrary: db' rule: create_targets.induct)
    (auto simp: Let_def split: option.splits if_splits)

lemma handler_created:
  assumes "handleCreateJob env mspID clientID (Some req) db = (d, JobCreated k)"
  shows "mspID \<noteq> [] \<and> clientID \<noteq> []
         \<and> (\<exists>j new evs. jobs d = jobs db @ [j] \<and> j_id j = k \<and> j_msp_id j = mspID \<and> j_client_id j = clientID
              \<and> j_status j = ''queued'' \<and> 1 \<le> j_max_retries j \<and> j_max_retries j \<le> 10
              \<and> targets d = targets db @ new \<and> map t_device_id new = qDeviceIDs req
              \<and> list_all (fresh_target env mspID clientID) new \<and> outbox d = outbox db @ evs
              \<and> map (\<lambda>x. payload_target (o_payload x)) evs = map t_id new \<and> list_all api_event evs)"
proof -
  have cl: "1 \<le> clamp_retries n \<and> clamp_retries n \<le> 10" for n by (simp add: clamp_retries_def Let_def)
  let ?req = "req\<lparr>qMaxRetries := clamp_retries (qMaxRetries req)\<rparr>"
  let ?j = "new_job env mspID clientID ?req (v_hash env (fingerprint ?req clientID))"
  from assms have id: "mspID \<noteq> []" "clientID \<noteq> []" "k = v_fresh env 0"
    and c: "create_targets env mspID clientID ?req 0 (qDeviceIDs req) (db\<lparr>jobs := jobs db @ [?j]\<rparr>) = (d, None)"
    by (auto simp: handleCreateJob_def Let_def split: if_splits option.splits prod.splits dest: create_targets_error)
  have "j_id ?j = k" "j_msp_id ?j = mspID" "j_client_id ?j = clientID" "j_status ?j = ''queued''"
    "1 \<le> j_max_retries ?j" "j_max_retries ?j \<le> 10"
    using id(3) cl by (simp_all add: new_job_def)
  with create_targets_ok [OF c] id(1,2) show ?thesis by (intro conjI exI [of _ ?j]) auto
qed


lemma created_rows:
  "withTenantTransaction commit_ok (handleCreateJob env mspID clientID (Some req)) db = (db', JobCreated k) \<Longrightarrow>
     \<exists>new evs. targets db' = targets db @ new \<and> list_all (fresh_target env mspID clientID) new
      \<and> outbox db' = outbox db @ evs \<and> map (\<lambda>x. payload_target (o_payload x)) evs = map t_id new \<and> list_all api_event evs"
  by (cases "handleCreateJob env mspID clientID (Some req) db")
    (auto simp: withTenantTransaction_def tenantTransaction_def split: if_splits dest!: handler_created)

lemma api_payload_rejected:
  "validateCommand now (Decoded (api_dispatch_payload n jb tg dv ag ms co ex req)) tenant agent = Inl InvalidCommand"
proof -
  have one: "int_of_rat 1 = Some 1" using int_of_rat_of_int [of 1] by simp
  have "ToLower ''type'' = ''type''" by code_simp
  then have "\<exists>cmd. unmarshal_command (Decoded (api_dispatch_payload n jb tg dv ag ms co ex req)) = Some cmd
      \<and> cSchemaVersion cmd = 0"
    by (simp add: unmarshal_command_def api_dispatch_payload_def dec_object_def dec_int_def dec_str_def
        dec_raw_def wire_name_facts one)
  then show ?thesis by (auto simp: validateCommand_def)
qed

text \<open>
  The first attempt of a job created through the API is lost: its dispatch event has no schema version,
  no event identifier and no command type, so that every agent at every time rejects it as an invalid
  command; and because the event exists, the dispatcher does not add a well-formed one for that attempt.
\<close>

theorem api_first_attempt_rejected:
  assumes "withTenantTransaction commit_ok (handleCreateJob env mspID clientID (Some req)) db = (db', JobCreated k)"
    and "t \<in> set (targets db')" "t \<notin> set (targets db)"
  shows "\<exists>x \<in> set (outbox db'). o_event_type x = ''job.dispatch'' \<and> payload_target (o_payload x) = t_id t
      \<and> (\<forall>now tenant agent. validateCommand now (Decoded (o_payload x)) tenant agent = Inl InvalidCommand)
      \<and> (\<forall>now j. \<not> due_for_dispatch now db' t j)"
proof -
  from assms(1) have cr: "\<exists>new evs. targets db' = targets db @ new \<and> list_all (fresh_target env mspID clientID) new
      \<and> outbox db' = outbox db @ evs \<and> map (\<lambda>x. payload_target (o_payload x)) evs = map t_id new \<and> list_all api_event evs"
    by (blast dest: created_rows)
  then obtain new evs where new: "targets db' = targets db @ new" "list_all (fresh_target env mspID clientID) new"
    and evs: "outbox db' = outbox db @ evs" "map (\<lambda>x. payload_target (o_payload x)) evs = map t_id new" "list_all api_event evs"
    by blast
  from assms(2,3) new have t: "t \<in> set new" "t_attempt t = 0" by (auto simp: list_all_iff fresh_target_def)
  then have "t_id t \<in> set (map (\<lambda>x. payload_target (o_payload x)) evs)" using evs(2) by simp
  then obtain x where x: "x \<in> set evs" "payload_target (o_payload x) = t_id t" by auto
  with evs(3) have ev: "api_event x" by (simp add: list_all_iff)
  then have "has_dispatch (t_id t) (t_attempt t + 1) (outbox db')"
    using x evs(1) t(2) unfolding api_event_def has_dispatch_def list_ex_iff by (intro bexI [of _ x]) auto
  then have "\<not> due_for_dispatch now db' t j" for now j by (simp add: due_for_dispatch_def)
  moreover have "validateCommand now (Decoded (o_payload x)) tenant agent = Inl InvalidCommand" for now tenant agent
    using ev api_payload_rejected unfolding api_event_def by auto
  ultimately show ?thesis using x ev evs(1) unfolding api_event_def by (intro bexI [of _ x]) auto
qed

section \<open>An example request\<close>

definition example_api :: api_env where
  "example_api = \<lparr>v_now = 0, v_auth_msp = True, v_auth_client = True,
     v_fresh = (\<lambda>n. if n = 0 then ''j'' else if n = 1 then ''c'' else ''t''), v_hash = (\<lambda>_. ''h''),
     v_device_agent = (\<lambda>d m c. if d = ''d'' then Some ''a1'' else None), v_insert_job = True,
     v_insert_target = (\<lambda>_. True), v_insert_outbox = (\<lambda>_. True)\<rparr>"

definition example_request :: jobRequest where
  "example_request = \<lparr>qType = ''script'', qDeviceIDs = [''d''], qPayload = JNull, qPriority = 0, qMaxRetries = 0,
     qScheduleAt = [], qIdempotencyKey = []\<rparr>"

definition empty_db :: jobdb where
  "empty_db = \<lparr>jobs = [], targets = [], outbox = [], inbox = [], next_id = 0\<rparr>"

lemma example_created:
  "\<exists>db'. withTenantTransaction True (handleCreateJob example_api ''acme'' ''cl'' (Some example_request)) empty_db
       = (db', JobCreated ''j'') \<and> targets db' = [new_target ''t'' ''j'' ''d'' ''a1'']"
  by (simp add: withTenantTransaction_def tenantTransaction_def handleCreateJob_def example_api_def example_request_def empty_db_def
      Let_def new_target_def)


theorem api_first_attempt_rejected_witness:
  "\<exists>db'. withTenantTransaction True (handleCreateJob example_api ''acme'' ''cl'' (Some example_request)) empty_db
       = (db', JobCreated ''j'')
     \<and> (\<exists>x \<in> set (outbox db'). validateCommand 1 (Decoded (o_payload x)) ''acme'' ''a1'' = Inl InvalidCommand)"
proof -
  obtain db' where c: "withTenantTransaction True (handleCreateJob example_api ''acme'' ''cl'' (Some example_request)) empty_db
       = (db', JobCreated ''j'')" and t: "targets db' = [new_target ''t'' ''j'' ''d'' ''a1'']" using example_created by blast
  from api_first_attempt_rejected [OF c, of "new_target ''t'' ''j'' ''d'' ''a1''"] t c show ?thesis
    by (auto simp: empty_db_def)
qed

section \<open>What cancellation does\<close>

lemma insert_cancels_simps [simp]:
  "targets (insert_cancels now jb ms ts db) = targets db" "jobs (insert_cancels now jb ms ts db) = jobs db"
  by (induction now jb ms ts db rule: insert_cancels.induct) simp_all

lemma insert_cancels_outbox:
  "\<exists>evs. outbox (insert_cancels now jb ms ts db) = outbox db @ evs
     \<and> list_all2 (\<lambda>t x. o_event_type x = ''job.cancel'' \<and> o_msp_id x = ms \<and> o_payload x = cancel_payload now jb ms t) ts evs"
proof (induction ts arbitrary: db)
  case (Cons t ts)
  obtain evs where "outbox (insert_cancels now jb ms (t # ts) db) =
      (outbox db @ [new_outbox (next_id db) ms jb ''job.cancel'' (cancel_payload now jb ms t) now]) @ evs"
    "list_all2 (\<lambda>t x. o_event_type x = ''job.cancel'' \<and> o_msp_id x = ms \<and> o_payload x = cancel_payload now jb ms t) ts evs"
    using Cons.IH [of "db\<lparr>outbox := outbox db @ [new_outbox (next_id db) ms jb ''job.cancel'' (cancel_payload now jb ms t) now],
           next_id := Suc (next_id db)\<rparr>"] by auto
  then show ?case by (auto simp: new_outbox_def)
qed simp

text \<open>
  Cancelling is all or nothing and covers the job: a request that is refused changes nothing; after an accepted
  one no target of the job is pending, queued, dispatched or running, the targets of other jobs and the
  final targets are as before, and there is one cancel event, for the agent of the target, for every
  target that was cancelled. A job in a final state is refused with a conflict.
\<close>

theorem job_cancellation:
  assumes "withTenantTransaction commit_ok (handleCancelJob ok auth now jobID) db = (db', resp)"
  shows "(400 \<le> http_status resp \<longrightarrow> db' = db)
    \<and> (\<forall>j. find_job jobID db = Some j \<and> auth \<and> job_terminal (j_status j) \<longrightarrow> resp = Conflict)
    \<and> (resp = JobCancelledOk \<longrightarrow>
         targets db' = map (\<lambda>t. if t_job_id t = jobID \<and> List.member cancellable (t_status t)
                                then t\<lparr>t_status := ''cancelled'', t_completed_at := Some now, t_lease_owner := None,
                                       t_lease_expires := None\<rparr> else t) (targets db)
         \<and> (\<exists>evs. outbox db' = outbox db @ evs
              \<and> list_all2 (\<lambda>t x. o_event_type x = ''job.cancel'' \<and> payload_target (o_payload x) = t_id t)
                  (filter (\<lambda>t. t_job_id t = jobID \<and> List.member cancellable (t_status t)) (targets db)) evs))"
proof -
  obtain d r where h: "handleCancelJob ok auth now jobID db = (d, r)" by fastforce
  have final: "r = Conflict" if "find_job jobID db = Some j" auth "job_terminal (j_status j)" for j
    using h that CanTransition_terminal [of "j_status j" "''cancelled''"] TransitionJob_ok [of "j_status j" "''cancelled''"]
    by (auto simp: handleCancelJob_def split: sum.splits)
  have pt: "payload_target (cancel_payload now jb ms t) = t_id t" for jb ms t
    by (simp add: payload_target_def payload_object_def cancel_payload_def obj_str_def obj_get_def)
  have effect: "targets d = map (\<lambda>t. if t_job_id t = jobID \<and> List.member cancellable (t_status t)
                                then t\<lparr>t_status := ''cancelled'', t_completed_at := Some now, t_lease_owner := None,
                                       t_lease_expires := None\<rparr> else t) (targets db)
         \<and> (\<exists>evs. outbox d = outbox db @ evs
              \<and> list_all2 (\<lambda>t x. o_event_type x = ''job.cancel'' \<and> payload_target (o_payload x) = t_id t)
                  (filter (\<lambda>t. t_job_id t = jobID \<and> List.member cancellable (t_status t)) (targets db)) evs)"
    if "r = JobCancelledOk"
  proof -
    let ?sel = "\<lambda>t. t_job_id t = jobID \<and> List.member cancellable (t_status t)"
    from h that obtain ms e where d: "d = insert_cancels now jobID ms (filter ?sel (targets db)) e"
      and e: "outbox e = outbox db" "targets e = map (\<lambda>t. if ?sel t
                                then t\<lparr>t_status := ''cancelled'', t_completed_at := Some now, t_lease_owner := None,
                                       t_lease_expires := None\<rparr> else t) (targets db)"
      by (auto simp: handleCancelJob_def Let_def split: option.splits sum.splits if_splits)
    obtain evs where "outbox d = outbox db @ evs" "list_all2 (\<lambda>t x. o_event_type x = ''job.cancel'' \<and> o_msp_id x = ms
        \<and> o_payload x = cancel_payload now jobID ms t) (filter ?sel (targets db)) evs"
      using insert_cancels_outbox [of now jobID ms "filter ?sel (targets db)" e] d e(1) by auto
    then show ?thesis using d e(2) by (auto simp: pt elim!: list_all2_mono)
  qed
  show ?thesis
    using assms h final effect by (auto simp: withTenantTransaction_def tenantTransaction_def split: if_splits)
qed

theorem job_cancellation_witness:
  "map t_status (targets (fst (withTenantTransaction True (handleCancelJob True True 5 ''j'') (example_db ''running''))))
     = [''cancelled'']"
proof -
  have ok: "withTenantTransaction True (handleCancelJob True True 5 ''j'') (example_db ''running'')
      = (fst (withTenantTransaction True (handleCancelJob True True 5 ''j'') (example_db ''running'')), JobCancelledOk)"
    (is "?lhs = _")
  proof -
    have "(case snd ?lhs of JobCancelledOk \<Rightarrow> True | _ \<Rightarrow> False)" by code_simp
    then have "snd ?lhs = JobCancelledOk" by (auto split: response.splits)
    then show ?thesis by (metis prod.collapse)
  qed
  from job_cancellation [OF this] show ?thesis
    by (simp add: example_db_def example_target_def cancellable_def)
qed

section \<open>Work that outlives its cancellation\<close>

lemma sent_kept: "set (snd s) \<subseteq> set (snd (fold (process_row wk now env) xs s))"
proof (induction xs arbitrary: s)
  case (Cons x xs)
  have "set (snd s) \<subseteq> set (snd (process_row wk now env x s))"
    by (cases rule: process_row_sent [of wk now env x s]) auto
  with Cons.IH [of "process_row wk now env x s"] show ?case by auto
qed simp

lemma claimed_dispatch_sent:
  assumes "x \<in> set xs" "payload_object (o_payload x) = Some kvs" "obj_str kvs ''agent_id'' = a" "a \<noteq> []"
    and "obj_str kvs ''target_id'' \<noteq> []" "o_event_type x = ''job.dispatch''" "1 \<le> payload_attempt (o_payload x)"
    and "w_update (env (o_id x)) = None" "w_publish (env (o_id x)) = None"
  shows "(cmd_subject (o_msp_id x) a, o_payload x) \<in> set (snd (fold (process_row wk now env) xs s))"
  using assms(1)
proof (induction xs arbitrary: s)
  case (Cons y ys)
  show ?case
  proof (cases "y = x")
    case True
    have "1 \<le> intFromJSON (obj_get kvs ''attempt'')" using assms(2,7) by (simp add: payload_attempt_def)
    then have "(cmd_subject (o_msp_id x) a, o_payload x) \<in> set (snd (process_row wk now env x s))"
      using assms by (auto simp: process_row_def send_row_def Let_def split: option.splits)
    with True sent_kept [of "process_row wk now env x s" wk now env ys] show ?thesis by auto
  next
    case False
    with Cons show ?thesis by simp
  qed
qed simp

text \<open>
  Cancelling a job does not withdraw a dispatch event that is still waiting in the outbox: the publisher
  sends the command of a cancelled target to its agent all the same, because it does not look at how
  many rows its update of the target changed.
\<close>

theorem cancelled_work_still_dispatched:
  assumes "withTenantTransaction True (handleCancelJob True True now jobID) db = (db', JobCancelledOk)"
    and "t \<in> set (targets db)" "t_job_id t = jobID" "t_status t = ''queued''"
    and "x \<in> set (claimed_rows later db')" "o_event_type x = ''job.dispatch''"
    and "payload_object (o_payload x) = Some kvs" "obj_str kvs ''agent_id'' = a" "a \<noteq> []"
    and "payload_target (o_payload x) = t_id t" "t_id t \<noteq> []" "1 \<le> payload_attempt (o_payload x)"
    and "w_update (env (o_id x)) = None" "w_publish (env (o_id x)) = None"
  shows "(\<exists>t' \<in> set (targets db'). t_id t' = t_id t \<and> t_status t' = ''cancelled'')
    \<and> (cmd_subject (o_msp_id x) a, o_payload x) \<in> set (snd (processOutbox True worker later env (db', sent)))"
proof
  from assms(1) obtain ms e where d: "db' = insert_cancels now jobID ms
        (filter (\<lambda>t. t_job_id t = jobID \<and> List.member cancellable (t_status t)) (targets db)) e"
      and e: "targets e = map (\<lambda>t. if t_job_id t = jobID \<and> List.member cancellable (t_status t)
                                then t\<lparr>t_status := ''cancelled'', t_completed_at := Some now, t_lease_owner := None,
                                       t_lease_expires := None\<rparr> else t) (targets db)"
    by (auto simp: withTenantTransaction_def tenantTransaction_def handleCancelJob_def Let_def
        split: prod.splits option.splits sum.splits if_splits)
  from assms(2-4) have "t\<lparr>t_status := ''cancelled'', t_completed_at := Some now, t_lease_owner := None,
      t_lease_expires := None\<rparr> \<in> set (targets db')"
    unfolding d insert_cancels_simps e set_map by (intro image_eqI [of _ _ t]) (simp_all add: cancellable_def)
  then show "\<exists>t' \<in> set (targets db'). t_id t' = t_id t \<and> t_status t' = ''cancelled''"
    by (rule rev_bexI) simp
  have "obj_str kvs ''target_id'' \<noteq> []" using assms(7,10,11) by (simp add: payload_target_def)
  with assms show "(cmd_subject (o_msp_id x) a, o_payload x) \<in> set (snd (processOutbox True worker later env (db', sent)))"
    by (simp add: processOutbox_def) (rule claimed_dispatch_sent)
qed

theorem cancelled_work_still_dispatched_witness:
  "\<exists>db' sent. withTenantTransaction True (handleCancelJob True True 5 ''j'')
       ((example_db ''queued'')\<lparr>outbox := [new_outbox 0 ''acme'' ''j'' ''job.dispatch''
          (dispatch_payload (\<lambda>_. []) 0 (example_target ''queued'') example_job) 0]\<rparr>) = (db', JobCancelledOk)
     \<and> (\<exists>t' \<in> set (targets db'). t_id t' = ''t'' \<and> t_status t' = ''cancelled'')
     \<and> (cmd_subject ''acme'' ''a1'', dispatch_payload (\<lambda>_. []) 0 (example_target ''queued'') example_job) \<in> set sent"
proof -
  define p where p: "p = dispatch_payload (\<lambda>_. []) 0 (example_target ''queued'') example_job"
  define x where x: "x = new_outbox 0 ''acme'' ''j'' ''job.dispatch'' p 0"
  define db where db: "db = (example_db ''queued'')\<lparr>outbox := [x]\<rparr>"
  define db' where db': "db' = fst (withTenantTransaction True (handleCancelJob True True 5 ''j'') db)"
  define w where w: "w = \<lparr>w_update = None, w_publish = None, w_flush = None, w_record = True, w_jitter = 0\<rparr>"
  have r: "handleCancelJob True True 5 ''j'' db = (db', JobCancelledOk)"
    by (simp add: db' db withTenantTransaction_def tenantTransaction_def handleCancelJob_def find_job_def example_db_def example_job_def
        example_target_def cancellable_def coalesce_def TransitionJob_def CanTransition_def IsValidState_def validStates_def
        allowedTransitions_def Let_def)
  then have ok: "withTenantTransaction True (handleCancelJob True True 5 ''j'') db = (db', JobCancelledOk)"
    by (simp add: withTenantTransaction_def tenantTransaction_def)
  obtain evs where evs: "outbox db' = x # evs"
    using r insert_cancels_outbox
    by (fastforce simp: db handleCancelJob_def find_job_def example_db_def Let_def split: option.splits sum.splits if_splits)
  have "x \<in> set (claimed_rows 9 db')" by (simp add: claimed_rows_def evs claimable_def x new_outbox_def)
  moreover have "payload_target p = ''t''" "payload_attempt p = 2"
    by (simp_all add: p example_target_def)
  ultimately have "(\<exists>t' \<in> set (targets db'). t_id t' = ''t'' \<and> t_status t' = ''cancelled'')
    \<and> (cmd_subject ''acme'' ''a1'', p) \<in> set (snd (processOutbox True ''w'' 9 (\<lambda>_. w) (db', [])))"
    using cancelled_work_still_dispatched [OF ok, of "example_target ''queued''" x 9 _ "''a1''" "\<lambda>_. w" "''w''" "[]"]
    by (auto simp: db example_db_def example_target_def x new_outbox_def w p dispatch_payload_def payload_object_def
        obj_str_def obj_get_def json_opt_def)
  with ok show ?thesis unfolding db x p by blast
qed

text \<open>
  Retrying a job that has nothing to retry re-opens it: the job row of a finished job becomes queued although
  no target is queued and the state machine has no transition out of its final state.
\<close>

theorem retry_reopens_finished_job:
  assumes "find_job jobID db = Some j" "job_terminal (j_status j)"
    and "\<forall>t \<in> set (targets db). t_job_id t = jobID \<longrightarrow> t_status t = ''succeeded''"
  shows "\<exists>db' j'. withTenantTransaction True (handleRetryJobTargets True True True now jobID []) db = (db', RetryScheduled)
    \<and> targets db' = targets db \<and> find_job jobID db' = Some j' \<and> j_status j' = ''queued''
    \<and> \<not> CanTransition (j_status j) (j_status j')"
proof -
  let ?sel = "\<lambda>t. t_job_id t = jobID \<and> List.member [''failed'', ''expired''] (t_status t) \<and> t_retry_count t < j_max_retries j"
  have none: "filter ?sel (targets db) = []" using assms(3) by (auto simp: filter_empty_conv)
  then have same: "map (\<lambda>t. if ?sel t then retry_row now t else t) (targets db) = targets db"
    by (intro map_idI) (auto simp: filter_empty_conv)
  have nop: "update_targets now ?sel (retry_row now) db = db"
    unfolding update_targets_def Let_def none same by simp
  let ?db = "update_jobs now (\<lambda>j. j_id j = jobID) (\<lambda>j. j\<lparr>j_status := ''queued''\<rparr>) db"
  have r: "handleRetryJobTargets True True True now jobID [] db = (?db, RetryScheduled)"
    using assms(1) nop by (simp add: handleRetryJobTargets_def Let_def)
  have "find (\<lambda>j. j_id j = jobID) (map (\<lambda>j. if j_id j = jobID then j\<lparr>j_status := ''queued''\<rparr> else j) js) =
      map_option (\<lambda>j. j\<lparr>j_status := ''queued''\<rparr>) (find (\<lambda>j. j_id j = jobID) js)"
    for js :: "job_row list"
    by (induction js) auto
  then have "find_job jobID ?db = Some (j\<lparr>j_status := ''queued''\<rparr>)"
    using assms(1) by (simp add: find_job_def update_jobs_def enforce_job_terminal_aggregate_def cong: if_cong)
  with r show ?thesis
    using CanTransition_terminal [OF assms(2)] by (simp add: withTenantTransaction_def tenantTransaction_def)
qed

theorem retry_reopens_finished_job_witness:
  "\<exists>db' j'. withTenantTransaction True (handleRetryJobTargets True True True 9 ''j'' [])
      ((example_db ''succeeded'')\<lparr>jobs := [example_job\<lparr>j_status := ''succeeded''\<rparr>]\<rparr>) = (db', RetryScheduled)
    \<and> find_job ''j'' db' = Some j' \<and> j_status j' = ''queued''"
  using retry_reopens_finished_job [of "''j''" "(example_db ''succeeded'')\<lparr>jobs := [example_job\<lparr>j_status := ''succeeded''\<rparr>]\<rparr>"
      "example_job\<lparr>j_status := ''succeeded''\<rparr>" 9]
  by (auto simp: find_job_def example_db_def example_job_def example_target_def job_terminal_def)

end
