(* ===== verification/EndpointOperations.thy ===== *)
theory EndpointOperations
  imports JobsApi Authorization
begin

text \<open>
  Operations on managed endpoints: \<^verbatim>\<open>internal/platform/device_handlers.go\<close> (the registry of operations,
  \<^verbatim>\<open>handleDeviceAction\<close>, \<^verbatim>\<open>handleBulkDeviceAction\<close>), the capabilities of
  \<^verbatim>\<open>internal/platform/agent_capabilities.go\<close> and the approval policies of
  \<^verbatim>\<open>internal/platform/endpoint_approvals.go\<close>. The tables are those of \<^verbatim>\<open>pkg/postgres/schema.go\<close>, with the
  constraints that decide whether a statement succeeds. Hashes, fresh identifiers, the UUID parser and the
  database's cast of a text to a UUID are arguments, as is the fate of every single statement.
\<close>

section \<open>The registry of operations\<close>

record operationDef =
  opJobType :: string
  opDestructive :: bool
  opRequiresAdmin :: bool
  opRequiresReason :: bool
  opSupportsSchedule :: bool
  opAllowOffline :: bool
  opTimeout :: int

definition operationRegistry :: "(string \<times> operationDef) list" where
  "operationRegistry =
     [(''refresh'', \<lparr>opJobType = ''device.refresh'', opDestructive = False, opRequiresAdmin = False, opRequiresReason = False,
         opSupportsSchedule = True, opAllowOffline = False, opTimeout = 5 * Minute\<rparr>),
      (''reboot'', \<lparr>opJobType = ''device.reboot'', opDestructive = True, opRequiresAdmin = True, opRequiresReason = True,
         opSupportsSchedule = False, opAllowOffline = True, opTimeout = 2 * Minute\<rparr>),
      (''shutdown'', \<lparr>opJobType = ''device.shutdown'', opDestructive = True, opRequiresAdmin = True, opRequiresReason = True,
         opSupportsSchedule = False, opAllowOffline = True, opTimeout = 2 * Minute\<rparr>),
      (''service_start'', \<lparr>opJobType = ''device.service_start'', opDestructive = False, opRequiresAdmin = True,
         opRequiresReason = False, opSupportsSchedule = True, opAllowOffline = False, opTimeout = 30 * Second\<rparr>),
      (''service_stop'', \<lparr>opJobType = ''device.service_stop'', opDestructive = False, opRequiresAdmin = True,
         opRequiresReason = False, opSupportsSchedule = True, opAllowOffline = False, opTimeout = 30 * Second\<rparr>),
      (''service_restart'', \<lparr>opJobType = ''device.service_restart'', opDestructive = False, opRequiresAdmin = True,
         opRequiresReason = False, opSupportsSchedule = True, opAllowOffline = False, opTimeout = 30 * Second\<rparr>),
      (''process_kill'', \<lparr>opJobType = ''device.process_kill'', opDestructive = False, opRequiresAdmin = True,
         opRequiresReason = True, opSupportsSchedule = False, opAllowOffline = False, opTimeout = 10 * Second\<rparr>)]"

section \<open>Tables\<close>

record device_row =
  dv_id :: string
  dv_msp_id :: string
  dv_client_id :: "string option"
  dv_site_id :: "string option"
  dv_tenant_id :: "string option"
  dv_status :: string
  dv_agent_id :: "string option"
  dv_last_capability_update :: "instant option"

record capability_row =
  cp_device_id :: string
  cp_msp_id :: string
  cp_agent_version :: string
  cp_protocol_version :: int
  cp_os :: string
  cp_arch :: string
  cp_supported_job_types :: "string list"
  cp_features :: json
  cp_inventory_schema :: int
  cp_last_updated :: instant

record registration_row =
  ar_agent_id :: string
  ar_device_id :: string
  ar_approved :: bool

record window_row =
  mw_msp_id :: "string option"
  mw_client_id :: "string option"
  mw_site_id :: "string option"
  mw_device_id :: "string option"
  mw_start_time :: instant
  mw_end_time :: instant
  mw_expires_at :: "instant option"

record ApprovalPolicy =
  apID :: string
  apMSPID :: string
  apActionName :: string
  apApprovalRequired :: bool
  apMinApprovers :: int
  apAllowedRoles :: "string list"
  apRequireSeparation :: bool
  apApprovalExpiresSec :: int
  apAllowEmergency :: bool

record approval_row =
  rq_id :: string
  rq_msp_id :: string
  rq_client_id :: "string option"
  rq_site_id :: "string option"
  rq_requester :: string
  rq_action_name :: string
  rq_reason :: string
  rq_device_ids :: "string list"
  rq_device_count :: int
  rq_schedule_at :: "instant option"
  rq_target_hash :: string
  rq_status :: string
  rq_policy_snapshot :: json
  rq_operation_payload :: json
  rq_correlation_id :: "string option"
  rq_request_hash :: "string option"
  rq_idempotency_key :: "string option"
  rq_expires_at :: instant
  rq_emergency_override :: bool
  rq_decided_at :: "instant option"
  rq_decided_by :: "string option"

record decision_row =
  dc_request_id :: string
  dc_msp_id :: string
  dc_approver :: string
  dc_decision :: string
  dc_reason :: string

text \<open>The columns of \<^verbatim>\<open>endpoint_audit_evidence\<close> that the modelled handlers fill, and the rows of \<^verbatim>\<open>audit_log\<close>.\<close>

record EndpointAuditEntry =
  aeMSPID :: string
  aeClientID :: string
  aeSiteID :: string
  aeDeviceID :: string
  aeActorUserID :: string
  aeActorRole :: string
  aeRequestSource :: string
  aeNormalizedIP :: string
  aeAction :: string
  aeTargets :: json
  aeReason :: string
  aeRequestHash :: string
  aeIdempotencyKey :: string
  aePolicySnapshot :: json
  aeApprovalState :: string
  aeJobID :: string
  aeCorrelationID :: string
  aeScheduleAt :: "instant option"
  aeStateTransition :: string
  aeResultSummary :: string

record log_row =
  lg_tenant_id :: string
  lg_user_id :: string
  lg_action :: string
  lg_resource :: string
  lg_details :: json

record endpoint_db =
  e_jobs :: jobdb
  e_job_approvals :: "(string \<times> string) list"   \<comment> \<open>job and \<^verbatim>\<open>approval_request_id\<close>\<close>
  e_devices :: "device_row list"
  e_capabilities :: "capability_row list"
  e_registrations :: "registration_row list"
  e_windows :: "window_row list"
  e_policies :: "ApprovalPolicy list"
  e_requests :: "approval_row list"
  e_decisions :: "decision_row list"
  e_evidence :: "EndpointAuditEntry list"
  e_log :: "log_row list"

section \<open>Requests, replies and the environment\<close>

record endpoint_request =
  er_auth :: auth_request
  er_token_use :: string
  er_msp_id :: string
  er_client_id :: string
  er_site_id :: string
  er_idempotency_header :: string
  er_ip :: string

text \<open>
  The outside world of one request: the clocks, the authorization tables, and for every statement of the
  handlers, named by a tag and the iteration of its loop, whether the database executes it.
\<close>

record endpoint_env =
  ee_now :: instant                    \<comment> \<open>the handler's \<^verbatim>\<open>time.Now()\<close>\<close>
  ee_sql_now :: instant                \<comment> \<open>the transaction's \<^verbatim>\<open>NOW()\<close>\<close>
  ee_ok :: "string \<Rightarrow> nat \<Rightarrow> bool"
  ee_auth_ok :: bool
  ee_auth_now :: int
  ee_auth :: auth_db
  ee_uuid :: "string \<Rightarrow> bool"         \<comment> \<open>\<^verbatim>\<open>uuid.Parse\<close> succeeds\<close>
  ee_cast :: "string \<Rightarrow> string option" \<comment> \<open>the database's cast to \<^verbatim>\<open>uuid\<close>, as canonical text\<close>
  ee_hash :: "json \<Rightarrow> string"
  ee_fresh :: "nat \<Rightarrow> string"
  ee_time :: "instant \<Rightarrow> string"      \<comment> \<open>the JSON text of a \<^verbatim>\<open>time.Time\<close>\<close>

datatype ep_response =
    ActionQueued string string
  | BulkQueued string nat
  | DuplicateRequest string string
  | CapabilitiesRecorded
  | ApprovalCreated string
  | ApprovalPending int
  | ApprovalDispatched string
  | ApprovalRejected
  | ApprovalCancelled
  | Failed nat string

fun ep_status :: "ep_response \<Rightarrow> nat" where
  "ep_status (ActionQueued _ _) = 201"
| "ep_status (BulkQueued _ _) = 201"
| "ep_status (ApprovalCreated _) = 201"
| "ep_status (Failed code _) = code"
| "ep_status _ = 200"

abbreviation access_denied :: ep_response where
  "access_denied \<equiv> Failed 404 ''resource not found or access denied''"

definition endpointTransaction ::
  "bool \<Rightarrow> (endpoint_db \<Rightarrow> endpoint_db \<times> ep_response) \<Rightarrow> endpoint_db \<Rightarrow> endpoint_db \<times> ep_response" where
  "endpointTransaction = tenantTransaction ep_status (Failed 500 ''database transaction failed'')"

text \<open>The reply of the first guard that fires.\<close>

definition first_error :: "(bool \<times> ep_response) list \<Rightarrow> ep_response option" where
  "first_error guards = map_option snd (find fst guards)"

datatype 'a query = QueryError | NoRows | Row 'a

definition query_of :: "bool \<Rightarrow> 'a option \<Rightarrow> 'a query" where
  "query_of ok r = (if \<not> ok then QueryError else case r of None \<Rightarrow> NoRows | Some x \<Rightarrow> Row x)"

text \<open>\<^verbatim>\<open>array_to_string(column, ',')\<close> read back by \<^verbatim>\<open>strings.Split\<close>.\<close>

definition split_column :: "string list \<Rightarrow> string list" where
  "split_column xs = (let text = Join (CHR '','') xs in if text = [] then [] else Split (CHR '','') text)"

section \<open>Lookups\<close>

definition find_device :: "endpoint_env \<Rightarrow> nat \<Rightarrow> string \<Rightarrow> string \<Rightarrow> endpoint_db \<Rightarrow> device_row query" where
  "find_device env n deviceID mspID db =
     query_of (ee_ok env ''device'' n \<and> ee_cast env deviceID \<noteq> None)
       (find (\<lambda>d. Some (dv_id d) = ee_cast env deviceID \<and> dv_msp_id d = mspID) (e_devices db))"

definition find_any_device :: "endpoint_env \<Rightarrow> nat \<Rightarrow> string \<Rightarrow> endpoint_db \<Rightarrow> device_row query" where
  "find_any_device env n deviceID db =
     query_of (ee_ok env ''device'' n \<and> ee_cast env deviceID \<noteq> None)
       (find (\<lambda>d. Some (dv_id d) = ee_cast env deviceID) (e_devices db))"

definition msp_active :: "endpoint_env \<Rightarrow> string \<Rightarrow> bool query" where
  "msp_active env mspID =
     query_of (ee_ok env ''msp'' 0) (map_option m_is_active (find (\<lambda>m. m_id m = mspID) (msps (ee_auth env))))"

definition validateIdempotencyKey :: "endpoint_request \<Rightarrow> string option" where
  "validateIdempotencyKey r =
     (let key = TrimSpace (er_idempotency_header r) in if 128 < length key then None else Some key)"

text \<open>\<^verbatim>\<open>maintenanceWindowAllows\<close>; an empty identifier cannot be cast, so the query fails.\<close>

definition window_applies :: "string \<Rightarrow> string \<Rightarrow> string \<Rightarrow> string \<Rightarrow> window_row \<Rightarrow> bool" where
  "window_applies mspID clientID siteID deviceID w \<longleftrightarrow>
     mw_msp_id w = Some mspID \<or> mw_client_id w = Some clientID \<or> mw_site_id w = Some siteID \<or> mw_device_id w = Some deviceID"

definition window_open :: "instant \<Rightarrow> window_row \<Rightarrow> bool" where
  "window_open t w \<longleftrightarrow> t \<le> mw_end_time w \<and> (case mw_expires_at w of None \<Rightarrow> True | Some x \<Rightarrow> t \<le> x)"

definition maintenanceWindowAllows ::
  "endpoint_env \<Rightarrow> nat \<Rightarrow> string \<Rightarrow> string \<Rightarrow> string \<Rightarrow> string \<Rightarrow> instant \<Rightarrow> endpoint_db \<Rightarrow> bool option" where
  "maintenanceWindowAllows env n mspID clientID siteID deviceID executeAt db =
     (case (ee_cast env clientID, ee_cast env siteID, ee_cast env deviceID) of
        (Some c, Some s, Some d) \<Rightarrow>
          if \<not> ee_ok env ''window'' n then None
          else
            let applicable = filter (window_applies mspID c s d) (e_windows db);
                configured = list_ex (window_open (ee_sql_now env)) applicable;
                covered = list_ex (\<lambda>w. mw_start_time w \<le> executeAt \<and> window_open executeAt w) applicable
            in Some (\<not> configured \<or> covered)
      | _ \<Rightarrow> None)"

definition loadAgentCapabilities :: "endpoint_env \<Rightarrow> nat \<Rightarrow> string \<Rightarrow> endpoint_db \<Rightarrow> string list query" where
  "loadAgentCapabilities env n deviceID db =
     query_of (ee_ok env ''capabilities'' n \<and> ee_cast env deviceID \<noteq> None)
       (map_option (\<lambda>c. split_column (cp_supported_job_types c))
          (find (\<lambda>c. Some (cp_device_id c) = ee_cast env deviceID) (e_capabilities db)))"

text \<open>The capabilities are \<open>None\<close> when the device never reported any.\<close>

definition isActionSupportedByCapabilities :: "string \<Rightarrow> string list option \<Rightarrow> bool" where
  "isActionSupportedByCapabilities action capabilities =
     (case capabilities of None \<Rightarrow> False
      | Some jobTypes \<Rightarrow>
          (case map_of operationRegistry action of None \<Rightarrow> False
           | Some opd \<Rightarrow> list_ex (\<lambda>jobType. jobType = opJobType opd) jobTypes))"

definition loadApprovalPolicy :: "endpoint_env \<Rightarrow> string \<Rightarrow> string \<Rightarrow> endpoint_db \<Rightarrow> ApprovalPolicy query" where
  "loadApprovalPolicy env mspID actionName db =
     query_of (ee_ok env ''policy'' 0)
       (map_option (\<lambda>p. p\<lparr>apAllowedRoles := split_column (apAllowedRoles p)\<rparr>)
          (find (\<lambda>p. apMSPID p = mspID \<and> apActionName p = actionName) (e_policies db)))"

definition defaultApprovalPolicy :: "string \<Rightarrow> ApprovalPolicy" where
  "defaultApprovalPolicy actionName =
     \<lparr>apID = [], apMSPID = [], apActionName = [],
      apApprovalRequired = List.member [''reboot'', ''shutdown'', ''process_kill''] actionName,
      apMinApprovers = 1, apAllowedRoles = [''msp_owner'', ''msp_admin''], apRequireSeparation = True,
      apApprovalExpiresSec = 3600, apAllowEmergency = False\<rparr>"

text \<open>\<open>None\<close> when the policy cannot be read.\<close>

definition approval_policy :: "endpoint_env \<Rightarrow> string \<Rightarrow> string \<Rightarrow> endpoint_db \<Rightarrow> ApprovalPolicy option" where
  "approval_policy env mspID actionName db =
     (case loadApprovalPolicy env mspID actionName db of
        QueryError \<Rightarrow> None
      | NoRows \<Rightarrow> Some (defaultApprovalPolicy actionName)
      | Row p \<Rightarrow> Some p)"

definition checkApprovalRequired ::
  "endpoint_env \<Rightarrow> string \<Rightarrow> string \<Rightarrow> bool \<Rightarrow> endpoint_db \<Rightarrow> (ApprovalPolicy \<times> bool) option" where
  "checkApprovalRequired env mspID actionName isBulk db =
     (case approval_policy env mspID actionName db of
        None \<Rightarrow> None
      | Some p \<Rightarrow>
          let p' = (if isBulk \<and> apApprovalRequired p then p\<lparr>apApprovalRequired := True\<rparr> else p)
          in Some (p', apApprovalRequired p'))"

section \<open>Statements\<close>

text \<open>A nullable text parameter cast to a UUID column.\<close>

definition cast_nullable :: "endpoint_env \<Rightarrow> string option \<Rightarrow> string option option" where
  "cast_nullable env x = (case x of None \<Rightarrow> Some None | Some s \<Rightarrow> map_option Some (ee_cast env s))"

text \<open>
  \<^verbatim>\<open>INSERT INTO jobs\<close>: the client is mandatory, an idempotency key is unique in its tenant and an approval
  request has at most one job. The row is given without its client and site.
\<close>

definition insert_job ::
  "endpoint_env \<Rightarrow> string option \<Rightarrow> string option \<Rightarrow> string option \<Rightarrow> job_row \<Rightarrow> endpoint_db \<Rightarrow> endpoint_db option" where
  "insert_job env client site approval j db =
     (case (cast_nullable env client, cast_nullable env site) of
        (Some (Some c), Some s) \<Rightarrow>
          if \<not> ee_ok env ''insert job'' 0 then None
          else if j_idempotency_key j \<noteq> None
             \<and> list_ex (\<lambda>x. j_msp_id x = j_msp_id j \<and> j_idempotency_key x = j_idempotency_key j) (jobs (e_jobs db)) then None
          else if approval \<noteq> None \<and> list_ex (\<lambda>(_, a). Some a = approval) (e_job_approvals db) then None
          else
            Some (db\<lparr>e_jobs := (e_jobs db)\<lparr>jobs := jobs (e_jobs db) @ [j\<lparr>j_client_id := c, j_site_id := s\<rparr>]\<rparr>,
                     e_job_approvals := (case approval of None \<Rightarrow> e_job_approvals db
                                         | Some a \<Rightarrow> e_job_approvals db @ [(j_id j, a)])\<rparr>)
      | _ \<Rightarrow> None)"

definition insert_target :: "endpoint_env \<Rightarrow> nat \<Rightarrow> target_row \<Rightarrow> endpoint_db \<Rightarrow> endpoint_db option" where
  "insert_target env n t db =
     (if \<not> ee_ok env ''insert target'' n then None
      else Some (db\<lparr>e_jobs := (e_jobs db)\<lparr>targets := targets (e_jobs db) @ [t]\<rparr>\<rparr>))"

definition insert_outbox ::
  "endpoint_env \<Rightarrow> nat \<Rightarrow> string \<Rightarrow> string \<Rightarrow> json \<Rightarrow> instant \<Rightarrow> endpoint_db \<Rightarrow> endpoint_db option" where
  "insert_outbox env n mspID jobID payload availableAt db =
     (if \<not> ee_ok env ''insert outbox'' n then None
      else let jdb = e_jobs db
           in Some (db\<lparr>e_jobs := jdb\<lparr>outbox := outbox jdb @ [new_outbox (next_id jdb) mspID jobID ''job.dispatch'' payload availableAt],
                                      next_id := Suc (next_id jdb)\<rparr>\<rparr>))"

definition writeEndpointAudit ::
  "endpoint_env \<Rightarrow> nat \<Rightarrow> endpoint_request \<Rightarrow> string \<Rightarrow> string \<Rightarrow> string \<Rightarrow> json \<Rightarrow> endpoint_db \<Rightarrow> endpoint_db option" where
  "writeEndpointAudit env n r tenantID action resource details db =
     (if tenantID = [] \<or> rUserID (er_auth r) = [] then None
      else if \<not> ee_ok env ''audit'' n then None
      else Some (db\<lparr>e_log := e_log db @ [\<lparr>lg_tenant_id = tenantID, lg_user_id = rUserID (er_auth r), lg_action = action,
                                        lg_resource = resource, lg_details = details\<rparr>]\<rparr>))"

definition writeEndpointAuditEvidence ::
  "endpoint_env \<Rightarrow> EndpointAuditEntry \<Rightarrow> endpoint_db \<Rightarrow> endpoint_db option" where
  "writeEndpointAuditEvidence env entry db =
     (if aeMSPID entry = [] then None
      else if \<not> ee_ok env ''evidence'' 0 then None
      else Some (db\<lparr>e_evidence := e_evidence db @ [entry]\<rparr>))"

text \<open>The earlier job of an idempotency key: the reply when there is one.\<close>

definition writeIdempotentEndpointResult ::
  "endpoint_env \<Rightarrow> string \<Rightarrow> string \<Rightarrow> string \<Rightarrow> endpoint_db \<Rightarrow> ep_response option" where
  "writeIdempotentEndpointResult env mspID key requestHash db =
     (if key = [] then None
      else if \<not> ee_ok env ''idempotency'' 0 then Some (Failed 500 ''idempotency lookup failed'')
      else case find (\<lambda>j. j_msp_id j = mspID \<and> j_idempotency_key j = Some key) (jobs (e_jobs db)) of
             None \<Rightarrow> None
           | Some j \<Rightarrow>
               if coalesce (j_request_hash j) \<noteq> requestHash
               then Some (Failed 409 ''idempotency key already used for a different request'')
               else Some (DuplicateRequest (j_id j) (j_status j)))"

section \<open>An action on one device\<close>

record device_action =
  daAction :: string
  daReason :: string
  daParam :: string
  daService :: string
  daProcessID :: int
  daSchedule :: string

definition decode_device_action :: "json wire \<Rightarrow> device_action option" where
  "decode_device_action body = do {
     kvs \<leftarrow> dec_object body;
     action \<leftarrow> dec_str kvs ''action''; reason \<leftarrow> dec_str kvs ''reason''; param \<leftarrow> dec_str kvs ''param'';
     service \<leftarrow> dec_str kvs ''service''; pid \<leftarrow> dec_int kvs ''process_id''; schedule \<leftarrow> dec_str kvs ''schedule_at'';
     Some \<lparr>daAction = action, daReason = reason, daParam = param, daService = service, daProcessID = pid, daSchedule = schedule\<rparr>
   }"

definition operation_authorized :: "endpoint_env \<Rightarrow> endpoint_request \<Rightarrow> operationDef \<Rightarrow> bool" where
  "operation_authorized env r opd =
     (if opRequiresAdmin opd then AuthorizeMSPManage (ee_auth_ok env) (ee_auth env) (er_auth r) (er_msp_id r)
      else AuthorizeMSPAccess (ee_auth_ok env) (ee_auth_now env) (ee_auth env) (er_auth r) (er_msp_id r))"

definition outside_scope :: "endpoint_request \<Rightarrow> device_row \<Rightarrow> bool" where
  "outside_scope r d \<longleftrightarrow>
     (er_client_id r \<noteq> [] \<and> er_client_id r \<noteq> coalesce (dv_client_id d))
     \<or> (er_site_id r \<noteq> [] \<and> er_site_id r \<noteq> coalesce (dv_site_id d))"

definition available_at :: "endpoint_env \<Rightarrow> string \<Rightarrow> instant" where
  "available_at env schedule =
     (if schedule = [] then ee_now env else case Parse_RFC3339 schedule of None \<Rightarrow> ee_now env | Some t \<Rightarrow> t)"

definition request_guards :: "endpoint_env \<Rightarrow> endpoint_request \<Rightarrow> operationDef \<Rightarrow> device_action \<Rightarrow> (bool \<times> ep_response) list" where
  "request_guards env r opd q =
     [(daSchedule q \<noteq> [] \<and> \<not> opSupportsSchedule opd, Failed 400 ''action does not support scheduling''),
      (opRequiresReason opd \<and> TrimSpace (daReason q) = [], Failed 400 ''reason required''),
      (\<not> operation_authorized env r opd, access_denied)]"

definition device_guards ::
  "endpoint_env \<Rightarrow> endpoint_request \<Rightarrow> operationDef \<Rightarrow> device_action \<Rightarrow> string \<Rightarrow> device_row \<Rightarrow> endpoint_db
   \<Rightarrow> (bool \<times> ep_response) list" where
  "device_guards env r opd q deviceID d db =
     (let mspID = er_msp_id r;
          window = maintenanceWindowAllows env 0 mspID (coalesce (dv_client_id d)) (coalesce (dv_site_id d)) deviceID
                     (available_at env (daSchedule q)) db;
          caps = loadAgentCapabilities env 0 deviceID db;
          approval = checkApprovalRequired env mspID (daAction q) False db
      in [(dv_status d = ''disabled'', Failed 409 ''device is disabled''),
          (outside_scope r d, access_denied),
          (\<not> opAllowOffline opd \<and> dv_status d \<noteq> ''online'',
             Failed 409 ''device is offline and action does not support offline execution''),
          (List.member [''service_start'', ''service_stop'', ''service_restart''] (daAction q) \<and> daService q = [],
             Failed 400 ''service required''),
          (daAction q = ''process_kill'' \<and> daProcessID q \<le> 0, Failed 400 ''valid process_id required''),
          (msp_active env mspID = QueryError \<or> msp_active env mspID = NoRows, Failed 500 ''msp check failed''),
          (msp_active env mspID = Row False, Failed 403 ''msp is suspended''),
          (daSchedule q \<noteq> [] \<and> Parse_RFC3339 (daSchedule q) = None, Failed 400 ''invalid schedule_at (RFC 3339 required)''),
          (daSchedule q \<noteq> [] \<and> available_at env (daSchedule q) < ee_now env, Failed 400 ''schedule_at must be in the future''),
          (opDestructive opd \<and> window = None, Failed 500 ''maintenance-window check failed''),
          (opDestructive opd \<and> window = Some False, Failed 409 ''action must execute within an applicable maintenance window''),
          (caps = QueryError, Failed 500 ''capability check failed''),
          (case caps of Row types \<Rightarrow> \<not> isActionSupportedByCapabilities (daAction q) (Some types) | _ \<Rightarrow> False,
             Failed 409 ''action unsupported by agent capabilities''),
          (approval = None, Failed 500 ''approval policy check failed''),
          (case approval of Some (_, required) \<Rightarrow> required | None \<Rightarrow> False,
             Failed 409 ''action requires approval; use /api/v2/approvals''),
          (validateIdempotencyKey r = None, Failed 400 ''idempotency key is too long'')])"

definition action_payload :: "device_action \<Rightarrow> json" where
  "action_payload q = JObj
     [(''action'', JStr (daAction q)), (''reason'', JStr (daReason q)), (''service'', JStr (daService q)),
      (''process_id'', JNum (of_int (daProcessID q))), (''schedule_at'', JStr (daSchedule q))]"

definition endpoint_job ::
  "string \<Rightarrow> string \<Rightarrow> string \<Rightarrow> json \<Rightarrow> instant \<Rightarrow> string option \<Rightarrow> string \<Rightarrow> string \<Rightarrow> instant \<Rightarrow> job_row" where
  "endpoint_job jobID mspID jobType payload expiresAt key requestHash correlationID availableAt =
     \<lparr>j_id = jobID, j_msp_id = mspID, j_client_id = [], j_site_id = None, j_type = jobType, j_status = ''queued'',
      j_payload = payload, j_max_retries = 1, j_expires_at = Some expiresAt, j_scheduled_for = Some availableAt,
      j_correlation_id = Some correlationID, j_idempotency_key = key, j_request_hash = Some requestHash,
      j_dispatch_count = 0, j_completed_count = 0, j_failed_count = 0, j_completed_at = None, j_cancelled_at = None\<rparr>"

text \<open>The targets of these two handlers are inserted without an agent.\<close>

definition agentless_target :: "string \<Rightarrow> string \<Rightarrow> string \<Rightarrow> target_row" where
  "agentless_target targetID jobID deviceID = (new_target targetID jobID deviceID [])\<lparr>t_agent_id := None\<rparr>"

definition action_event :: "string \<Rightarrow> string \<Rightarrow> string \<Rightarrow> string \<Rightarrow> json \<Rightarrow> json" where
  "action_event jobID targetID deviceID jobType payload = JObj
     [(''job_id'', JStr jobID), (''target_id'', JStr targetID), (''device_id'', JStr deviceID),
      (''type'', JStr jobType), (''payload'', payload)]"

definition nullif :: "string \<Rightarrow> string option" where
  "nullif s = (if s = [] then None else Some s)"

definition queue_action ::
  "endpoint_env \<Rightarrow> endpoint_request \<Rightarrow> operationDef \<Rightarrow> device_action \<Rightarrow> string \<Rightarrow> device_row \<Rightarrow> string \<Rightarrow> string
   \<Rightarrow> endpoint_db \<Rightarrow> endpoint_db \<times> ep_response" where
  "queue_action env r opd q deviceID d key requestHash db =
     (let jobID = ee_fresh env 0; targetID = ee_fresh env 1; correlationID = ee_fresh env 2;
          availableAt = available_at env (daSchedule q); payload = action_payload q
      in case insert_job env (Some (coalesce (dv_client_id d))) (Some (coalesce (dv_site_id d))) None
                (endpoint_job jobID (er_msp_id r) (opJobType opd) payload (availableAt + 24 * Hour) (nullif key) requestHash
                   correlationID availableAt) db of
           None \<Rightarrow> (db, Failed 500 ''create job failed'')
         | Some db1 \<Rightarrow>
             (case insert_target env 0 (agentless_target targetID jobID deviceID) db1 of
                None \<Rightarrow> (db1, Failed 500 ''create target failed'')
              | Some db2 \<Rightarrow>
                  (case insert_outbox env 0 (er_msp_id r) jobID (action_event jobID targetID deviceID (opJobType opd) payload)
                          availableAt db2 of
                     None \<Rightarrow> (db2, Failed 500 ''create dispatch failed'')
                   | Some db3 \<Rightarrow>
                       (case writeEndpointAudit env 0 r (coalesce (dv_tenant_id d)) ''endpoint.action.queued'' (''job:'' @ jobID)
                               (JObj [(''job_id'', JStr jobID), (''device_id'', JStr deviceID), (''action'', JStr (daAction q)),
                                      (''reason'', JStr (daReason q)), (''scheduled_for'', JStr (ee_time env availableAt)),
                                      (''correlation_id'', JStr correlationID)]) db3 of
                          None \<Rightarrow> (db3, Failed 500 ''write audit evidence failed'')
                        | Some db4 \<Rightarrow> (db4, ActionQueued jobID targetID)))))"

definition handleDeviceAction ::
  "endpoint_env \<Rightarrow> endpoint_request \<Rightarrow> string \<Rightarrow> json wire \<Rightarrow> endpoint_db \<Rightarrow> endpoint_db \<times> ep_response" where
  "handleDeviceAction env r deviceID body db =
     (if er_msp_id r = [] \<or> deviceID = [] then (db, Failed 400 ''invalid request'')
      else case decode_device_action body of
        None \<Rightarrow> (db, Failed 400 ''invalid request body'')
      | Some q \<Rightarrow>
        (case map_of operationRegistry (daAction q) of
           None \<Rightarrow> (db, Failed 400 ''unsupported action'')
         | Some opd \<Rightarrow>
           (case first_error (request_guards env r opd q) of
              Some e \<Rightarrow> (db, e)
            | None \<Rightarrow>
              (case find_device env 0 deviceID (er_msp_id r) db of
                 Row d \<Rightarrow>
                   (case first_error (device_guards env r opd q deviceID d db) of
                      Some e \<Rightarrow> (db, e)
                    | None \<Rightarrow>
                        let key = coalesce (validateIdempotencyKey r);
                            requestHash = ee_hash env (JObj [(''device_id'', JStr deviceID), (''job_type'', JStr (opJobType opd)),
                                                             (''payload'', action_payload q)])
                        in (case writeIdempotentEndpointResult env (er_msp_id r) key requestHash db of
                              Some e \<Rightarrow> (db, e)
                            | None \<Rightarrow> queue_action env r opd q deviceID d key requestHash db))
               | _ \<Rightarrow> (db, Failed 404 ''device not found'')))))"

section \<open>An action on many devices\<close>

record bulkActionReq =
  bkDeviceIDs :: "string list"
  bkAction :: string
  bkReason :: string
  bkSchedule :: string

definition decode_bulk :: "json wire \<Rightarrow> bulkActionReq option" where
  "decode_bulk body = do {
     kvs \<leftarrow> dec_object body;
     ids \<leftarrow> dec_strs kvs ''device_ids''; action \<leftarrow> dec_str kvs ''action''; reason \<leftarrow> dec_str kvs ''reason'';
     schedule \<leftarrow> dec_str kvs ''schedule_at'';
     Some \<lparr>bkDeviceIDs = ids, bkAction = action, bkReason = reason, bkSchedule = schedule\<rparr>
   }"

definition omit_empty :: "string \<Rightarrow> string \<Rightarrow> (string \<times> json) list" where
  "omit_empty k v = (if v = [] then [] else [(k, JStr v)])"

definition bulk_json :: "bulkActionReq \<Rightarrow> json" where
  "bulk_json q = JObj ([(''device_ids'', JArr (map JStr (bkDeviceIDs q))), (''action'', JStr (bkAction q))]
     @ omit_empty ''reason'' (bkReason q) @ omit_empty ''schedule_at'' (bkSchedule q))"

definition bulk_guards :: "endpoint_env \<Rightarrow> endpoint_request \<Rightarrow> operationDef \<Rightarrow> bulkActionReq \<Rightarrow> (bool \<times> ep_response) list" where
  "bulk_guards env r opd q =
     [(\<not> List.member [''refresh'', ''reboot'', ''shutdown''] (bkAction q), Failed 400 ''action does not support bulk execution''),
      (bkSchedule q \<noteq> [] \<and> \<not> opSupportsSchedule opd, Failed 400 ''action does not support scheduling''),
      (opRequiresReason opd \<and> TrimSpace (bkReason q) = [], Failed 400 ''reason required''),
      (\<not> operation_authorized env r opd, access_denied),
      (msp_active env (er_msp_id r) = QueryError \<or> msp_active env (er_msp_id r) = NoRows, Failed 500 ''msp check failed''),
      (msp_active env (er_msp_id r) = Row False, Failed 403 ''msp is suspended''),
      (bkSchedule q \<noteq> [] \<and> (Parse_RFC3339 (bkSchedule q) = None \<or> available_at env (bkSchedule q) \<le> ee_now env),
         Failed 400 ''schedule_at must be a future RFC 3339 timestamp'')]"

text \<open>The loop that trims, checks and deduplicates the identifiers; \<open>None\<close> for an invalid one.\<close>

fun bulk_ids :: "(string \<Rightarrow> bool) \<Rightarrow> string list \<Rightarrow> string list \<Rightarrow> string list option" where
  "bulk_ids valid acc [] = Some acc"
| "bulk_ids valid acc (v # vs) =
     (let x = TrimSpace v
      in if x = [] then bulk_ids valid acc vs
         else if \<not> valid x then None
         else if List.member acc x then bulk_ids valid acc vs
         else bulk_ids valid (acc @ [x]) vs)"

definition bulk_device_guards ::
  "endpoint_env \<Rightarrow> endpoint_request \<Rightarrow> operationDef \<Rightarrow> bulkActionReq \<Rightarrow> nat \<Rightarrow> string \<Rightarrow> device_row \<Rightarrow> endpoint_db
   \<Rightarrow> (bool \<times> ep_response) list" where
  "bulk_device_guards env r opd q n deviceID d db =
     (let window = maintenanceWindowAllows env n (er_msp_id r) (coalesce (dv_client_id d)) (coalesce (dv_site_id d)) deviceID
                     (available_at env (bkSchedule q)) db;
          caps = loadAgentCapabilities env n deviceID db
      in [(dv_status d = ''disabled'' \<or> outside_scope r d, access_denied),
          (\<not> opAllowOffline opd \<and> dv_status d \<noteq> ''online'',
             Failed 409 ''one or more devices are offline and the action does not support offline execution''),
          (opDestructive opd \<and> window = None, Failed 500 ''maintenance-window check failed''),
          (opDestructive opd \<and> window = Some False, Failed 409 ''all targets must be covered by an applicable maintenance window''),
          (caps = QueryError, Failed 500 ''capability check failed''),
          (case caps of Row types \<Rightarrow> \<not> isActionSupportedByCapabilities (bkAction q) (Some types) | _ \<Rightarrow> False,
             Failed 409 ''one or more devices do not support this action''),
          (coalesce (dv_tenant_id d) = [], Failed 500 ''device tenant identity missing'')])"

text \<open>The validation loop: the first error, or the tenants of the devices.\<close>

fun bulk_tenants ::
  "endpoint_env \<Rightarrow> endpoint_request \<Rightarrow> operationDef \<Rightarrow> bulkActionReq \<Rightarrow> nat \<Rightarrow> string list \<Rightarrow> endpoint_db
   \<Rightarrow> ep_response + string list" where
  "bulk_tenants env r opd q n [] db = Inr []"
| "bulk_tenants env r opd q n (deviceID # rest) db =
     (case find_device env n deviceID (er_msp_id r) db of
        NoRows \<Rightarrow> Inl (Failed 404 ''one or more devices were not found'')
      | QueryError \<Rightarrow> Inl (Failed 500 ''device validation failed'')
      | Row d \<Rightarrow>
          (case first_error (bulk_device_guards env r opd q n deviceID d db) of
             Some e \<Rightarrow> Inl e
           | None \<Rightarrow>
               (case bulk_tenants env r opd q (Suc n) rest db of
                  Inl e \<Rightarrow> Inl e
                | Inr ts \<Rightarrow> Inr (List.insert (coalesce (dv_tenant_id d)) ts))))"

fun bulk_targets ::
  "endpoint_env \<Rightarrow> endpoint_request \<Rightarrow> operationDef \<Rightarrow> bulkActionReq \<Rightarrow> string \<Rightarrow> nat \<Rightarrow> string list \<Rightarrow> endpoint_db
   \<Rightarrow> endpoint_db \<times> ep_response option" where
  "bulk_targets env r opd q jobID n [] db = (db, None)"
| "bulk_targets env r opd q jobID n (deviceID # rest) db =
     (let targetID = ee_fresh env (n + 2)
      in case insert_target env n (agentless_target targetID jobID deviceID) db of
           None \<Rightarrow> (db, Some (Failed 500 ''create target failed''))
         | Some db1 \<Rightarrow>
             (case insert_outbox env n (er_msp_id r) jobID
                     (action_event jobID targetID deviceID (opJobType opd) (bulk_json q)) (available_at env (bkSchedule q)) db1 of
                None \<Rightarrow> (db1, Some (Failed 500 ''create dispatch failed''))
              | Some db2 \<Rightarrow> bulk_targets env r opd q jobID (Suc n) rest db2))"

fun bulk_audits ::
  "endpoint_env \<Rightarrow> endpoint_request \<Rightarrow> string \<Rightarrow> json \<Rightarrow> nat \<Rightarrow> string list \<Rightarrow> endpoint_db \<Rightarrow> endpoint_db option" where
  "bulk_audits env r jobID details n [] db = Some db"
| "bulk_audits env r jobID details n (tenantID # rest) db =
     (case writeEndpointAudit env n r tenantID ''endpoint.bulk_action.queued'' (''job:'' @ jobID) details db of
        None \<Rightarrow> None
      | Some db' \<Rightarrow> bulk_audits env r jobID details (Suc n) rest db')"

text \<open>The job of a bulk action is inserted without client and site.\<close>

definition queue_bulk ::
  "endpoint_env \<Rightarrow> endpoint_request \<Rightarrow> operationDef \<Rightarrow> bulkActionReq \<Rightarrow> string list \<Rightarrow> string \<Rightarrow> string
   \<Rightarrow> endpoint_db \<Rightarrow> endpoint_db \<times> ep_response" where
  "queue_bulk env r opd q tenants key requestHash db =
     (let jobID = ee_fresh env 0; correlationID = ee_fresh env 1; availableAt = available_at env (bkSchedule q);
          ids = bkDeviceIDs q;
          details = JObj [(''job_id'', JStr jobID), (''device_ids'', JArr (map JStr ids)), (''action'', JStr (bkAction q)),
                          (''reason'', JStr (bkReason q)), (''scheduled_for'', JStr (ee_time env availableAt)),
                          (''correlation_id'', JStr correlationID)]
      in case insert_job env None None None
                (endpoint_job jobID (er_msp_id r) (opJobType opd) (bulk_json q) (availableAt + 24 * Hour) (nullif key) requestHash
                   correlationID availableAt) db of
           None \<Rightarrow> (db, Failed 500 ''create job failed'')
         | Some db1 \<Rightarrow>
             (case bulk_targets env r opd q jobID 0 ids db1 of
                (db2, Some e) \<Rightarrow> (db2, e)
              | (db2, None) \<Rightarrow>
                  (case bulk_audits env r jobID details 0 tenants db2 of
                     None \<Rightarrow> (db2, Failed 500 ''write audit evidence failed'')
                   | Some db3 \<Rightarrow> (db3, BulkQueued jobID (length ids)))))"

definition handleBulkDeviceAction ::
  "endpoint_env \<Rightarrow> endpoint_request \<Rightarrow> json wire \<Rightarrow> endpoint_db \<Rightarrow> endpoint_db \<times> ep_response" where
  "handleBulkDeviceAction env r body db =
     (if er_msp_id r = [] then (db, Failed 400 ''no msp context'')
      else case decode_bulk body of
        None \<Rightarrow> (db, Failed 400 ''invalid request body'')
      | Some q0 \<Rightarrow>
        if bkDeviceIDs q0 = [] \<or> bkAction q0 = [] then (db, Failed 400 ''device_ids and action required'')
        else if 100 < length (bkDeviceIDs q0) then (db, Failed 400 ''max 100 devices per bulk operation'')
        else (case map_of operationRegistry (bkAction q0) of
                None \<Rightarrow> (db, Failed 400 ''unsupported action'')
              | Some opd \<Rightarrow>
                (case first_error (bulk_guards env r opd q0) of
                   Some e \<Rightarrow> (db, e)
                 | None \<Rightarrow>
                   (case bulk_ids (ee_uuid env) [] (bkDeviceIDs q0) of
                      None \<Rightarrow> (db, Failed 400 ''invalid device id'')
                    | Some [] \<Rightarrow> (db, Failed 400 ''no valid device ids supplied'')
                    | Some ids \<Rightarrow>
                      let q = q0\<lparr>bkDeviceIDs := sort ids\<rparr>
                      in (case bulk_tenants env r opd q 0 (sort ids) db of
                            Inl e \<Rightarrow> (db, e)
                          | Inr tenants \<Rightarrow>
                            let approval = checkApprovalRequired env (er_msp_id r) (bkAction q) True db;
                                key = coalesce (validateIdempotencyKey r);
                                requestHash = ee_hash env (JObj [(''device_ids'', JArr (map JStr (sort ids))),
                                                (''job_type'', JStr (opJobType opd)), (''payload'', bulk_json q)])
                            in (case first_error
                                      [(approval = None, Failed 500 ''approval policy check failed''),
                                       (case approval of Some (_, required) \<Rightarrow> required | None \<Rightarrow> False,
                                          Failed 409 ''bulk action requires approval; use /api/v2/approvals''),
                                       (validateIdempotencyKey r = None, Failed 400 ''idempotency key is too long'')] of
                                  Some e \<Rightarrow> (db, e)
                                | None \<Rightarrow>
                                    (case writeIdempotentEndpointResult env (er_msp_id r) key requestHash db of
                                       Some e \<Rightarrow> (db, e)
                                     | None \<Rightarrow> queue_bulk env r opd q tenants key requestHash db)))))))"

section \<open>Capabilities reported by agents\<close>

record capability_report =
  crAgentVersion :: string
  crProtocolVersion :: int
  crOS :: string
  crArch :: string
  crSupportedJobTypes :: "string list"
  crFeatures :: json
  crInventorySchema :: int

text \<open>\<^verbatim>\<open>Features\<close> is a map: an object or \<^verbatim>\<open>null\<close>.\<close>

definition decode_report :: "json wire \<Rightarrow> capability_report option" where
  "decode_report body = do {
     kvs \<leftarrow> dec_object body;
     (if known_fields [''agent_version'', ''protocol_version'', ''os'', ''arch'', ''supported_job_types'', ''features'',
                       ''inventory_schema''] kvs then Some () else None);
     version \<leftarrow> dec_str kvs ''agent_version''; protocol \<leftarrow> dec_int kvs ''protocol_version''; os \<leftarrow> dec_str kvs ''os'';
     arch \<leftarrow> dec_str kvs ''arch''; types \<leftarrow> dec_strs kvs ''supported_job_types'';
     features \<leftarrow> (case dec_raw kvs ''features'' of None \<Rightarrow> Some JNull | Some JNull \<Rightarrow> Some JNull | Some (JObj m) \<Rightarrow> Some (JObj m)
                  | _ \<Rightarrow> None);
     schema \<leftarrow> dec_int kvs ''inventory_schema'';
     Some \<lparr>crAgentVersion = version, crProtocolVersion = protocol, crOS = os, crArch = arch, crSupportedJobTypes = types,
           crFeatures = features, crInventorySchema = schema\<rparr>
   }"

definition registeredTypes :: "string list" where
  "registeredTypes = map (opJobType \<circ> snd) operationRegistry"

text \<open>The loop over the reported types: \<open>None\<close> when one is not registered, otherwise each type once.\<close>

fun valid_types :: "string list \<Rightarrow> string list \<Rightarrow> string list option" where
  "valid_types acc [] = Some acc"
| "valid_types acc (jt # jts) =
     (if \<not> List.member registeredTypes jt then None
      else valid_types (if List.member acc jt then acc else acc @ [jt]) jts)"

definition report_guards :: "capability_report \<Rightarrow> (bool \<times> ep_response) list" where
  "report_guards q =
     [(TrimSpace (crAgentVersion q) = [] \<or> 64 < length (crAgentVersion q), Failed 400 ''valid agent_version required''),
      (crProtocolVersion q \<noteq> 1 \<or> crInventorySchema q \<noteq> 1, Failed 400 ''unsupported protocol or inventory schema version''),
      (\<not> List.member [''linux'', ''windows'', ''darwin''] (crOS q) \<or> \<not> List.member [''amd64'', ''arm64''] (crArch q),
         Failed 400 ''unsupported os or architecture''),
      (100 < length (crSupportedJobTypes q), Failed 400 ''too many job types'')]"

definition upsert_capability :: "capability_row \<Rightarrow> capability_row list \<Rightarrow> capability_row list" where
  "upsert_capability c cs =
     (if list_ex (\<lambda>x. cp_device_id x = cp_device_id c) cs
      then map (\<lambda>x. if cp_device_id x = cp_device_id c then c\<lparr>cp_msp_id := cp_msp_id x\<rparr> else x) cs
      else cs @ [c])"

definition store_capabilities ::
  "endpoint_env \<Rightarrow> endpoint_request \<Rightarrow> string \<Rightarrow> capability_report \<Rightarrow> string list \<Rightarrow> device_row \<Rightarrow> endpoint_db
   \<Rightarrow> endpoint_db \<times> ep_response" where
  "store_capabilities env r deviceID q types d db =
     (if \<not> ee_ok env ''store capabilities'' 0 then (db, Failed 500 ''store capabilities failed'')
      else
        let now = ee_sql_now env;
            row = \<lparr>cp_device_id = dv_id d, cp_msp_id = dv_msp_id d, cp_agent_version = crAgentVersion q,
                   cp_protocol_version = crProtocolVersion q, cp_os = crOS q, cp_arch = crArch q,
                   cp_supported_job_types = types, cp_features = crFeatures q,
                   cp_inventory_schema = crInventorySchema q, cp_last_updated = now\<rparr>;
            db1 = db\<lparr>e_capabilities := upsert_capability row (e_capabilities db)\<rparr>
        in if \<not> ee_ok env ''capability time'' 0 then (db1, Failed 500 ''update capability timestamp failed'')
           else if length (filter (\<lambda>x. dv_id x = dv_id d) (e_devices db1)) \<noteq> 1
             then (db1, Failed 500 ''device capability update failed'')
           else
             let db2 = db1\<lparr>e_devices := map (\<lambda>x. if dv_id x = dv_id d then x\<lparr>dv_last_capability_update := Some now\<rparr> else x)
                                           (e_devices db1)\<rparr>
             in (case writeEndpointAuditEvidence env
                        \<lparr>aeMSPID = dv_msp_id d, aeClientID = coalesce (dv_client_id d), aeSiteID = coalesce (dv_site_id d),
                         aeDeviceID = dv_id d, aeActorUserID = rUserID (er_auth r), aeActorRole = ''agent'',
                         aeRequestSource = ''agent'', aeNormalizedIP = [], aeAction = ''endpoint.capability.reported'',
                         aeTargets = JArr [JStr deviceID], aeReason = [], aeRequestHash = [], aeIdempotencyKey = [],
                         aePolicySnapshot = JObj [], aeApprovalState = ''none'', aeJobID = [], aeCorrelationID = [],
                         aeScheduleAt = None, aeStateTransition = ''capabilities_updated'',
                         aeResultSummary = ''agent '' @ crAgentVersion q @ '' reported '' @ nat_digits (length types)
                                           @ '' capabilities''\<rparr> db2 of
                   None \<Rightarrow> (db2, Failed 500 ''write audit evidence failed'')
                 | Some db3 \<Rightarrow> (db3, CapabilitiesRecorded)))"

definition handleReportCapabilities ::
  "endpoint_env \<Rightarrow> endpoint_request \<Rightarrow> string \<Rightarrow> json wire \<Rightarrow> endpoint_db \<Rightarrow> endpoint_db \<times> ep_response" where
  "handleReportCapabilities env r deviceID body db =
     (if er_token_use r \<noteq> ''agent'' then (db, Failed 403 ''agent token required'')
      else if deviceID = [] then (db, Failed 400 ''device id required'')
      else if \<not> ee_uuid env deviceID then (db, Failed 400 ''invalid device id'')
      else case find_any_device env 0 deviceID db of
        Row d \<Rightarrow>
          if dv_status d = ''disabled'' then (db, Failed 403 ''device is disabled'')
          else if \<not> (ee_ok env ''registration'' 0
                      \<and> list_ex (\<lambda>a. ar_agent_id a = rUserID (er_auth r) \<and> ar_approved a \<and> ar_device_id a = dv_id d)
                          (e_registrations db))
            then (db, Failed 403 ''agent not registered or approved for this device'')
          else (case msp_active env (dv_msp_id d) of
                  Row True \<Rightarrow>
                    (case decode_report body of
                       None \<Rightarrow> (db, Failed 400 ''invalid request body'')
                     | Some q \<Rightarrow>
                       (case first_error (report_guards q) of
                          Some e \<Rightarrow> (db, e)
                        | None \<Rightarrow>
                          (case valid_types [] (crSupportedJobTypes q) of
                             None \<Rightarrow> (db, Failed 400 ''unsupported job type'')
                           | Some types \<Rightarrow> store_capabilities env r deviceID q types d db)))
                | Row False \<Rightarrow> (db, Failed 403 ''msp is suspended'')
                | _ \<Rightarrow> (db, Failed 500 ''msp check failed''))
      | _ \<Rightarrow> (db, Failed 404 ''device not found''))"

section \<open>Lemmas on guards and statements\<close>

lemma first_error_None: "first_error gs = None \<longleftrightarrow> list_all (\<lambda>(b, _). \<not> b) gs"
  by (auto simp: first_error_def find_None_iff list_all_iff)

lemma first_error_status:
  "first_error gs = Some e \<Longrightarrow> list_all (\<lambda>(_, x). 400 \<le> ep_status x) gs \<Longrightarrow> 400 \<le> ep_status e"
  by (auto simp: first_error_def list_all_iff dest!: find_SomeD)

lemma query_of_Row [simp]: "query_of ok x = Row v \<longleftrightarrow> ok \<and> x = Some v"
  by (auto simp: query_of_def split: option.splits)

lemma find_device_Row:
  "find_device env n deviceID mspID db = Row d \<Longrightarrow>
     d \<in> set (e_devices db) \<and> dv_msp_id d = mspID \<and> ee_cast env deviceID = Some (dv_id d)"
  by (auto simp: find_device_def find_Some_iff)

lemma insert_job_Some:
  assumes "insert_job env client site approval j db = Some db'"
  shows "\<exists>cl c s. client = Some cl \<and> ee_cast env cl = Some c \<and> cast_nullable env site = Some s
    \<and> db' = db\<lparr>e_jobs := (e_jobs db)\<lparr>jobs := jobs (e_jobs db) @ [j\<lparr>j_client_id := c, j_site_id := s\<rparr>]\<rparr>,
               e_job_approvals := (case approval of None \<Rightarrow> e_job_approvals db | Some a \<Rightarrow> e_job_approvals db @ [(j_id j, a)])\<rparr>
    \<and> (\<forall>a. approval = Some a \<longrightarrow> a \<notin> snd ` set (e_job_approvals db))"
proof (cases client)
  case None
  then show ?thesis using assms by (auto simp: insert_job_def cast_nullable_def split: option.splits)
next
  case (Some cl)
  then show ?thesis
    using assms
    by (cases "ee_cast env cl"; cases "cast_nullable env site"; cases approval)
      (force simp: insert_job_def cast_nullable_def [of env "Some cl"] list_ex_iff split: if_splits)+
qed

lemma insert_job_null_client [simp]: "insert_job env None site approval j db = None"
  by (auto simp: insert_job_def cast_nullable_def split: option.splits)

lemma insert_target_Some:
  "insert_target env n t db = Some db' \<Longrightarrow> db' = db\<lparr>e_jobs := (e_jobs db)\<lparr>targets := targets (e_jobs db) @ [t]\<rparr>\<rparr>"
  by (simp add: insert_target_def split: if_splits)

lemma insert_outbox_Some:
  "insert_outbox env n mspID jobID payload av db = Some db' \<Longrightarrow>
     db' = db\<lparr>e_jobs := (e_jobs db)\<lparr>outbox := outbox (e_jobs db) @ [new_outbox (next_id (e_jobs db)) mspID jobID ''job.dispatch'' payload av],
                                   next_id := Suc (next_id (e_jobs db))\<rparr>\<rparr>"
  by (simp add: insert_outbox_def Let_def split: if_splits)

lemma writeEndpointAudit_Some:
  "writeEndpointAudit env n r tenantID action resource details db = Some db' \<Longrightarrow>
     tenantID \<noteq> [] \<and> rUserID (er_auth r) \<noteq> []
     \<and> db' = db\<lparr>e_log := e_log db @ [\<lparr>lg_tenant_id = tenantID, lg_user_id = rUserID (er_auth r), lg_action = action,
                                     lg_resource = resource, lg_details = details\<rparr>]\<rparr>"
  by (simp add: writeEndpointAudit_def split: if_splits)

lemma idempotent_reply:
  "writeIdempotentEndpointResult env mspID key requestHash db = Some e \<Longrightarrow>
     400 \<le> ep_status e \<or> (\<exists>k st. e = DuplicateRequest k st)"
  by (auto simp: writeIdempotentEndpointResult_def split: if_splits option.splits)

text \<open>What a queued action leaves in the tables.\<close>

definition action_recorded ::
  "endpoint_env \<Rightarrow> endpoint_request \<Rightarrow> operationDef \<Rightarrow> device_action \<Rightarrow> string \<Rightarrow> string \<Rightarrow> string \<Rightarrow> endpoint_db \<Rightarrow> endpoint_db \<Rightarrow> bool"
  where
  "action_recorded env r opd q deviceID jobID targetID db db' \<longleftrightarrow>
     (\<exists>j x l. jobs (e_jobs db') = jobs (e_jobs db) @ [j] \<and> j_id j = jobID \<and> j_msp_id j = er_msp_id r
        \<and> j_type j = opJobType opd \<and> j_status j = ''queued'' \<and> j_payload j = action_payload q
        \<and> targets (e_jobs db') = targets (e_jobs db) @ [agentless_target targetID jobID deviceID]
        \<and> outbox (e_jobs db') = outbox (e_jobs db) @ [x] \<and> o_msp_id x = er_msp_id r \<and> o_aggregate_id x = jobID
        \<and> o_event_type x = ''job.dispatch'' \<and> o_available_at x = available_at env (daSchedule q)
        \<and> o_payload x = action_event jobID targetID deviceID (opJobType opd) (action_payload q)
        \<and> e_log db' = e_log db @ [l] \<and> lg_user_id l = rUserID (er_auth r) \<and> lg_resource l = ''job:'' @ jobID
        \<and> e_requests db' = e_requests db \<and> e_decisions db' = e_decisions db)"

lemma queue_action_queued:
  assumes "queue_action env r opd q deviceID d key h db = (db', ActionQueued jobID targetID)"
  shows "action_recorded env r opd q deviceID jobID targetID db db'"
  using assms
  by (auto simp: queue_action_def Let_def action_recorded_def endpoint_job_def new_outbox_def split: option.splits
      dest!: insert_job_Some insert_target_Some insert_outbox_Some writeEndpointAudit_Some)

lemma queue_action_reply:
  "queue_action env r opd q deviceID d key h db = (db', resp) \<Longrightarrow>
     400 \<le> ep_status resp \<or> resp = ActionQueued (ee_fresh env 0) (ee_fresh env 1)"
  by (auto simp: queue_action_def Let_def split: option.splits)

text \<open>The guards of the handler, as what holds when none of them fires.\<close>

definition action_admitted ::
  "endpoint_env \<Rightarrow> endpoint_request \<Rightarrow> operationDef \<Rightarrow> device_action \<Rightarrow> string \<Rightarrow> device_row \<Rightarrow> endpoint_db \<Rightarrow> bool" where
  "action_admitted env r opd q deviceID d db \<longleftrightarrow>
     operation_authorized env r opd \<and> (opRequiresReason opd \<longrightarrow> TrimSpace (daReason q) \<noteq> [])
     \<and> d \<in> set (e_devices db) \<and> dv_msp_id d = er_msp_id r \<and> ee_cast env deviceID = Some (dv_id d)
     \<and> dv_status d \<noteq> ''disabled'' \<and> \<not> outside_scope r d \<and> (opAllowOffline opd \<or> dv_status d = ''online'')
     \<and> (opDestructive opd \<longrightarrow> maintenanceWindowAllows env 0 (er_msp_id r) (coalesce (dv_client_id d)) (coalesce (dv_site_id d))
                               deviceID (available_at env (daSchedule q)) db = Some True)
     \<and> (\<exists>p. approval_policy env (er_msp_id r) (daAction q) db = Some p \<and> \<not> apApprovalRequired p)"

lemma checkApprovalRequired_iff:
  "checkApprovalRequired env mspID action b db = Some (p, required) \<Longrightarrow>
     approval_policy env mspID action db = Some p \<and> required = apApprovalRequired p"
  by (auto simp: checkApprovalRequired_def Let_def split: option.splits if_splits)

lemma guards_admit:
  assumes "first_error (request_guards env r opd q) = None" "find_device env 0 deviceID (er_msp_id r) db = Row d"
    "first_error (device_guards env r opd q deviceID d db) = None"
  shows "action_admitted env r opd q deviceID d db"
proof -
  obtain p required where c: "checkApprovalRequired env (er_msp_id r) (daAction q) False db = Some (p, required)"
    using assms(3) by (auto simp: first_error_None device_guards_def Let_def)
  have "\<not> required" using assms(3) c by (simp add: first_error_None device_guards_def Let_def)
  then have "approval_policy env (er_msp_id r) (daAction q) db = Some p \<and> \<not> apApprovalRequired p"
    using checkApprovalRequired_iff [OF c] by simp
  then show ?thesis
    using assms find_device_Row [OF assms(2)]
    by (simp add: first_error_None action_admitted_def request_guards_def device_guards_def Let_def) (metis (full_types) option.exhaust)
qed

text \<open>A destructive action that no policy of the tenant exempts needs an approval.\<close>

lemma exempted_by_policy:
  assumes "approval_policy env mspID action db = Some p" "\<not> apApprovalRequired p"
    "List.member [''reboot'', ''shutdown'', ''process_kill''] action"
  shows "\<exists>p \<in> set (e_policies db). apMSPID p = mspID \<and> apActionName p = action \<and> \<not> apApprovalRequired p"
proof (cases "loadApprovalPolicy env mspID action db")
  case (Row v)
  then obtain p0 where p0: "find (\<lambda>p. apMSPID p = mspID \<and> apActionName p = action) (e_policies db) = Some p0"
      "v = p0\<lparr>apAllowedRoles := split_column (apAllowedRoles p0)\<rparr>"
    by (auto simp: loadApprovalPolicy_def)
  moreover have "v = p" using assms(1) Row by (simp add: approval_policy_def)
  ultimately show ?thesis using assms(2) find_SomeD [OF p0(1)] by (intro bexI [of _ p0]) simp_all
next
  case NoRows
  then have "p = defaultApprovalPolicy action" using assms(1) by (simp add: approval_policy_def)
  then show ?thesis using assms(2,3) by (simp add: defaultApprovalPolicy_def)
next
  case QueryError
  then show ?thesis using assms(1) by (simp add: approval_policy_def)
qed

lemma handleDeviceAction_cases:
  assumes "handleDeviceAction env r deviceID body db = (db', resp)"
  shows "(db' = db \<and> (400 \<le> ep_status resp \<or> (\<exists>k st. resp = DuplicateRequest k st)))
    \<or> (\<exists>q opd d key h. decode_device_action body = Some q \<and> map_of operationRegistry (daAction q) = Some opd
         \<and> action_admitted env r opd q deviceID d db \<and> queue_action env r opd q deviceID d key h db = (db', resp))"
proof (cases "er_msp_id r = [] \<or> deviceID = []")
  case True
  then show ?thesis using assms by (auto simp: handleDeviceAction_def)
next
  case False
  show ?thesis
  proof (cases "decode_device_action body")
    case None
    then show ?thesis using assms False by (auto simp: handleDeviceAction_def)
  next
    case (Some q)
    note q = Some
    show ?thesis
    proof (cases "map_of operationRegistry (daAction q)")
      case None
      then show ?thesis using assms False q by (auto simp: handleDeviceAction_def)
    next
      case (Some opd)
      note opd = Some
      consider e where "first_error (request_guards env r opd q) = Some e"
        | "first_error (request_guards env r opd q) = None" "\<And>d. find_device env 0 deviceID (er_msp_id r) db \<noteq> Row d"
        | d where "first_error (request_guards env r opd q) = None" "find_device env 0 deviceID (er_msp_id r) db = Row d"
        by (meson option.exhaust)
      then show ?thesis
      proof cases
        case 1
        moreover have "400 \<le> ep_status e" by (rule first_error_status [OF 1]) (simp add: request_guards_def)
        ultimately show ?thesis using assms False q opd by (auto simp: handleDeviceAction_def)
      next
        case 2
        then show ?thesis
          using assms False q opd by (cases "find_device env 0 deviceID (er_msp_id r) db") (auto simp: handleDeviceAction_def)
      next
        case 3
        show ?thesis
        proof (cases "first_error (device_guards env r opd q deviceID d db)")
          case (Some e)
          moreover have "400 \<le> ep_status e" by (rule first_error_status [OF Some]) (simp add: device_guards_def Let_def)
          ultimately show ?thesis using assms False q opd 3 by (auto simp: handleDeviceAction_def)
        next
          case None
          with guards_admit [OF 3 None] assms False q opd 3 show ?thesis
            by (auto simp: handleDeviceAction_def Let_def split: option.splits dest: idempotent_reply)
        qed
      qed
    qed
  qed
qed

section \<open>What a queued action went through\<close>

lemma endpointTransaction_aborts:
  "endpointTransaction commit_ok handler db = (db', resp) \<Longrightarrow> 400 \<le> ep_status resp \<Longrightarrow> db' = db"
  unfolding endpointTransaction_def by (rule tenantTransaction_aborts)

lemma endpointTransaction_commits:
  "endpointTransaction commit_ok handler db = (db', resp) \<Longrightarrow> ep_status resp < 400 \<Longrightarrow> handler db = (db', resp)"
  unfolding endpointTransaction_def by (rule tenantTransaction_commits) auto

text \<open>
  C23. No action on a device escapes its gates: a request answered with an error leaves every table as it was, and
  an action is queued only for a registered operation, by a principal who passes the tenant check of that
  operation (management where the operation asks for it), with a reason where one is required, on a
  device of the tenant inside the selected client and site that is neither disabled nor, unless the operation
  allows it, offline; a destructive operation only inside the maintenance windows; and a reboot, a shutdown or a
  process kill only when a policy of the tenant exempts that action from approval. The tables then have exactly
  one more job, target, dispatch event and audit row.
\<close>

theorem device_action_gated:
  assumes "endpointTransaction commit_ok (handleDeviceAction env r deviceID body) db = (db', resp)"
  shows "(400 \<le> ep_status resp \<longrightarrow> db' = db)
    \<and> (\<forall>jobID targetID. resp = ActionQueued jobID targetID \<longrightarrow>
         (\<exists>q opd d. decode_device_action body = Some q \<and> map_of operationRegistry (daAction q) = Some opd
            \<and> action_admitted env r opd q deviceID d db
            \<and> (List.member [''reboot'', ''shutdown'', ''process_kill''] (daAction q) \<longrightarrow>
                 (\<exists>p \<in> set (e_policies db). apMSPID p = er_msp_id r \<and> apActionName p = daAction q \<and> \<not> apApprovalRequired p))
            \<and> action_recorded env r opd q deviceID jobID targetID db db'))"
proof (intro conjI allI impI)
  show "db' = db" if "400 \<le> ep_status resp" using endpointTransaction_aborts [OF assms that] .
  fix jobID targetID assume "resp = ActionQueued jobID targetID"
  with endpointTransaction_commits [OF assms] have h: "handleDeviceAction env r deviceID body db = (db', ActionQueued jobID targetID)"
    by simp
  from handleDeviceAction_cases [OF h] obtain q opd d key hh where q: "decode_device_action body = Some q"
      "map_of operationRegistry (daAction q) = Some opd" "action_admitted env r opd q deviceID d db"
      "queue_action env r opd q deviceID d key hh db = (db', ActionQueued jobID targetID)" by auto
  from q(3) obtain p where p: "approval_policy env (er_msp_id r) (daAction q) db = Some p" "\<not> apApprovalRequired p"
    by (auto simp: action_admitted_def)
  show "\<exists>q opd d. decode_device_action body = Some q \<and> map_of operationRegistry (daAction q) = Some opd
            \<and> action_admitted env r opd q deviceID d db
            \<and> (List.member [''reboot'', ''shutdown'', ''process_kill''] (daAction q) \<longrightarrow>
                 (\<exists>p \<in> set (e_policies db). apMSPID p = er_msp_id r \<and> apActionName p = daAction q \<and> \<not> apApprovalRequired p))
            \<and> action_recorded env r opd q deviceID jobID targetID db db'"
    using q exempted_by_policy [OF p] queue_action_queued [OF q(4)] by blast
qed

definition example_operator :: auth_request where
  "example_operator =
     \<lparr>rMethod = ''POST'', rUserID = ''ann'', rSupportGrantID = [],
      rAuthorization = \<lparr>aSelected = \<lparr>sType = ScopeMSP, sID = ''m'', sPlatformID = [], sMSPID = ''m'', sClientID = [], sSiteID = []\<rparr>,
        aGrants = [], aRoles = [''msp_admin''], aPermissions = []\<rparr>\<rparr>"

definition example_endpoint_request :: endpoint_request where
  "example_endpoint_request = \<lparr>er_auth = example_operator, er_token_use = ''user'', er_msp_id = ''m'', er_client_id = [], er_site_id = [],
     er_idempotency_header = [], er_ip = ''10.0.0.1''\<rparr>"

definition example_env :: endpoint_env where
  "example_env = \<lparr>ee_now = 0, ee_sql_now = 0, ee_ok = (\<lambda>_ _. True), ee_auth_ok = True, ee_auth_now = 0,
     ee_auth = \<lparr>msps = [\<lparr>m_id = ''m'', m_is_active = True, m_onboarding_status = ''active''\<rparr>], clients = [], sites = [],
                memberships = [], support_grants = [], owned_devices = []\<rparr>,
     ee_uuid = (\<lambda>s. s \<noteq> []), ee_cast = (\<lambda>s. if s = [] then None else Some s), ee_hash = (\<lambda>_. ''hash''),
     ee_fresh = (\<lambda>n. nat_digits n), ee_time = (\<lambda>_. ''t'')\<rparr>"

definition example_device :: device_row where
  "example_device = \<lparr>dv_id = ''d'', dv_msp_id = ''m'', dv_client_id = Some ''c'', dv_site_id = Some ''s'', dv_tenant_id = Some ''t'',
     dv_status = ''online'', dv_agent_id = Some ''a'', dv_last_capability_update = None\<rparr>"

definition example_endpoints :: endpoint_db where
  "example_endpoints = \<lparr>e_jobs = \<lparr>jobs = [], targets = [], outbox = [], inbox = [], next_id = 0\<rparr>, e_job_approvals = [],
     e_devices = [example_device], e_capabilities = [], e_registrations = [\<lparr>ar_agent_id = ''a'', ar_device_id = ''d'', ar_approved = True\<rparr>],
     e_windows = [], e_policies = [], e_requests = [], e_decisions = [], e_evidence = [], e_log = []\<rparr>"

definition example_body :: "json wire" where
  "example_body = Decoded (JObj [(''action'', JStr ''service_stop''), (''service'', JStr ''ssh'')])"

lemma example_action:
  "snd (endpointTransaction True (handleDeviceAction example_env example_endpoint_request ''d'' example_body) example_endpoints)
     = ActionQueued ''0'' ''1''"
  by code_simp

theorem device_action_gated_witness:
  "\<exists>db' q opd d. endpointTransaction True (handleDeviceAction example_env example_endpoint_request ''d'' example_body) example_endpoints
       = (db', ActionQueued ''0'' ''1'')
     \<and> decode_device_action example_body = Some q
     \<and> action_admitted example_env example_endpoint_request opd q ''d'' d example_endpoints
     \<and> action_recorded example_env example_endpoint_request opd q ''d'' ''0'' ''1'' example_endpoints db'"
proof -
  obtain db' where h: "endpointTransaction True (handleDeviceAction example_env example_endpoint_request ''d'' example_body) example_endpoints
      = (db', ActionQueued ''0'' ''1'')"
    using example_action by (metis prod.collapse)
  from device_action_gated [OF h] show ?thesis using h by blast
qed

section \<open>Queued actions do not reach an agent\<close>

text \<open>The publisher sends nothing for the event and leaves the targets alone.\<close>

definition undeliverable :: "outbox_row \<Rightarrow> bool" where
  "undeliverable x \<longleftrightarrow> (\<forall>worker now penv s.
     snd (process_row worker now penv x s) = snd s \<and> targets (fst (process_row worker now penv x s)) = targets (fst s))"

lemma no_agent_undeliverable:
  assumes "o_payload x = JObj kvs" "obj_str kvs ''agent_id'' = []"
  shows "undeliverable x"
  using assms by (simp add: undeliverable_def process_row_def payload_object_def failOutbox_def update_outbox_def Let_def)

lemma action_event_undeliverable:
  "o_payload x = action_event jobID targetID deviceID jobType payload \<Longrightarrow> undeliverable x"
  by (rule no_agent_undeliverable) (auto simp: action_event_def obj_str_def obj_get_def)

lemma redispatch_undeliverable:
  "t_agent_id t = None \<Longrightarrow> undeliverable (new_outbox k msp aggregate event (dispatch_payload ts now t j) available)"
  by (rule no_agent_undeliverable) (auto simp: dispatch_payload_def new_outbox_def obj_str_def obj_get_def json_opt_def)

text \<open>
  A queued device action is never delivered: the publisher rejects its dispatch event, and every event that the
  dispatcher later builds for its target, because neither the event nor the target names an agent.
\<close>

theorem device_action_never_delivered:
  assumes "handleDeviceAction env r deviceID body db = (db', ActionQueued jobID targetID)"
  shows "\<exists>x t. outbox (e_jobs db') = outbox (e_jobs db) @ [x] \<and> targets (e_jobs db') = targets (e_jobs db) @ [t]
    \<and> t_id t = targetID \<and> t_device_id t = deviceID \<and> undeliverable x
    \<and> (\<forall>k msp aggregate event ts now j available.
         undeliverable (new_outbox k msp aggregate event (dispatch_payload ts now t j) available))"
proof -
  from handleDeviceAction_cases [OF assms] obtain q opd d key h
    where "queue_action env r opd q deviceID d key h db = (db', ActionQueued jobID targetID)" by auto
  from queue_action_queued [OF this] obtain x where x: "outbox (e_jobs db') = outbox (e_jobs db) @ [x]"
      "targets (e_jobs db') = targets (e_jobs db) @ [agentless_target targetID jobID deviceID]"
      "o_payload x = action_event jobID targetID deviceID (opJobType opd) (action_payload q)"
    by (auto simp: action_recorded_def)
  show ?thesis
    by (rule exI [of _ x], rule exI [of _ "agentless_target targetID jobID deviceID"])
      (use x action_event_undeliverable [OF x(3)] in
        \<open>simp add: redispatch_undeliverable agentless_target_def new_target_def\<close>)
qed

theorem device_action_never_delivered_witness:
  "\<exists>db' x t. handleDeviceAction example_env example_endpoint_request ''d'' example_body example_endpoints = (db', ActionQueued ''0'' ''1'')
     \<and> outbox (e_jobs db') = [x] \<and> targets (e_jobs db') = [t] \<and> undeliverable x"
proof -
  have "snd (handleDeviceAction example_env example_endpoint_request ''d'' example_body example_endpoints) = ActionQueued ''0'' ''1''"
    by code_simp
  then obtain db' where h: "handleDeviceAction example_env example_endpoint_request ''d'' example_body example_endpoints
      = (db', ActionQueued ''0'' ''1'')" by (metis prod.collapse)
  from device_action_never_delivered [OF h] h show ?thesis by (auto simp: example_endpoints_def)
qed

section \<open>Bulk actions are never queued\<close>

lemma bulk_tenants_error: "bulk_tenants env r opd q n ids db = Inl e \<Longrightarrow> 400 \<le> ep_status e"
proof (induction env r opd q n ids db rule: bulk_tenants.induct)
  case (2 env r opd q n deviceID rest db)
  show ?case
  proof (cases "find_device env n deviceID (er_msp_id r) db")
    case (Row d)
    show ?thesis
    proof (cases "first_error (bulk_device_guards env r opd q n deviceID d db)")
      case None
      with 2 Row show ?thesis by (auto split: sum.splits)
    next
      case (Some e')
      have "400 \<le> ep_status e'" by (rule first_error_status [OF Some]) (simp add: bulk_device_guards_def Let_def)
      with 2 Row Some show ?thesis by simp
    qed
  qed (use 2 in auto)
qed simp

lemma queue_bulk_fails: "queue_bulk env r opd q tenants key h db = (db, Failed 500 ''create job failed'')"
  by (simp add: queue_bulk_def Let_def)

lemma handleBulkDeviceAction_unchanged: "fst (handleBulkDeviceAction env r body db) = db"
  by (simp add: handleBulkDeviceAction_def queue_bulk_fails Let_def split: option.split sum.split list.split)

lemma handleBulkDeviceAction_reply: "snd (handleBulkDeviceAction env r body db) \<noteq> BulkQueued k n"
proof -
  have g: "first_error gs \<noteq> Some (BulkQueued k n)" if "list_all (\<lambda>(_, x). 400 \<le> ep_status x) gs" for gs
    using first_error_status [OF _ that] by fastforce
  have i: "writeIdempotentEndpointResult env m key h db \<noteq> Some (BulkQueued k n)" for m key h
    by (simp add: writeIdempotentEndpointResult_def split: option.split)
  show ?thesis
    by (auto simp: handleBulkDeviceAction_def queue_bulk_fails Let_def bulk_guards_def g i
        split: option.splits sum.splits list.splits dest: bulk_tenants_error)
qed

text \<open>
  A bulk action is never queued: whatever the request, the tables stay as they are and the reply is not a
  success with a new job. The job is inserted without a client, which the table requires, so a request that passes
  every check is answered with an internal error.
\<close>

theorem bulk_action_never_queued:
  "fst (endpointTransaction commit_ok (handleBulkDeviceAction env r body) db) = db
   \<and> snd (endpointTransaction commit_ok (handleBulkDeviceAction env r body) db) \<noteq> BulkQueued jobID n"
  using handleBulkDeviceAction_unchanged [of env r body db] handleBulkDeviceAction_reply [of env r body db jobID n]
  by (auto simp: endpointTransaction_def tenantTransaction_def split: prod.splits)

lemma healthy_bulk_refresh_fails:
  "snd (handleBulkDeviceAction example_env example_endpoint_request
          (Decoded (JObj [(''action'', JStr ''refresh''), (''device_ids'', JArr [JStr ''d''])])) example_endpoints)
     = Failed 500 ''create job failed''"
  by code_simp

section \<open>Reported capabilities\<close>

text \<open>One row per device, whose types are registered and listed once.\<close>

definition capabilities_ok :: "endpoint_db \<Rightarrow> bool" where
  "capabilities_ok db \<longleftrightarrow> distinct (map cp_device_id (e_capabilities db))
     \<and> list_all (\<lambda>c. distinct (cp_supported_job_types c) \<and> set (cp_supported_job_types c) \<subseteq> set registeredTypes) (e_capabilities db)"

lemma valid_types_Some:
  "valid_types acc ts = Some xs \<Longrightarrow> distinct acc \<Longrightarrow> set acc \<subseteq> set registeredTypes \<Longrightarrow>
     distinct xs \<and> set xs \<subseteq> set registeredTypes \<and> set xs = set acc \<union> set ts"
proof (induction acc ts rule: valid_types.induct)
  case (2 acc jt jts)
  then have r: "jt \<in> set registeredTypes" "valid_types (if List.member acc jt then acc else acc @ [jt]) jts = Some xs"
    by (auto split: if_splits)
  show ?case
  proof (cases "jt \<in> set acc")
    case True
    with r(2) have "valid_types acc jts = Some xs" by simp
    with 2 True r show ?thesis by auto
  next
    case False
    with r(2) have "valid_types (acc @ [jt]) jts = Some xs" by simp
    with 2 False r show ?thesis by auto
  qed
qed simp

lemma registered_type_text: "x \<in> set registeredTypes \<Longrightarrow> x \<noteq> [] \<and> CHR '','' \<notin> set x"
  by (auto simp: registeredTypes_def operationRegistry_def)

lemma split_column_words:
  assumes "list_all (\<lambda>x. x \<noteq> [] \<and> CHR '','' \<notin> set x) xs"
  shows "split_column xs = xs"
proof (cases xs)
  case (Cons y ys)
  then have "Join (CHR '','') xs \<noteq> []" using assms by (cases ys) auto
  then show ?thesis using assms Cons Split_Join [of xs "CHR '',''"] by (auto simp: split_column_def Let_def list_all_iff)
qed (simp add: split_column_def)

lemma upsert_capability_ids:
  "distinct (map cp_device_id cs) \<Longrightarrow> distinct (map cp_device_id (upsert_capability c cs))"
proof -
  assume d: "distinct (map cp_device_id cs)"
  have "map cp_device_id (map (\<lambda>x. if cp_device_id x = cp_device_id c then c\<lparr>cp_msp_id := cp_msp_id x\<rparr> else x) cs) = map cp_device_id cs"
    by simp
  with d show ?thesis by (auto simp: upsert_capability_def list_ex_iff simp del: map_map)
qed

lemma find_upsert:
  "map_option cp_supported_job_types (find (\<lambda>x. cp_device_id x = k) (upsert_capability c cs)) =
     (if k = cp_device_id c then Some (cp_supported_job_types c)
      else map_option cp_supported_job_types (find (\<lambda>x. cp_device_id x = k) cs))"
proof -
  have m: "map_option cp_supported_job_types
      (find (\<lambda>x. cp_device_id x = k) (map (\<lambda>x. if cp_device_id x = cp_device_id c then c\<lparr>cp_msp_id := cp_msp_id x\<rparr> else x) cs)) =
      (if k = cp_device_id c \<and> list_ex (\<lambda>x. cp_device_id x = k) cs then Some (cp_supported_job_types c)
       else map_option cp_supported_job_types (find (\<lambda>x. cp_device_id x = k) cs))"
    by (induction cs) auto
  have a: "find (\<lambda>x. cp_device_id x = k) (cs @ [c]) =
      (case find (\<lambda>x. cp_device_id x = k) cs of None \<Rightarrow> if cp_device_id c = k then Some c else None | Some x \<Rightarrow> Some x)"
    by (induction cs) auto
  show ?thesis
  proof (cases "list_ex (\<lambda>x. cp_device_id x = cp_device_id c) cs")
    case True
    then show ?thesis by (simp add: upsert_capability_def m)
  next
    case False
    then have "find (\<lambda>x. cp_device_id x = cp_device_id c) cs = None" by (simp add: find_None_iff list_ex_iff)
    with False show ?thesis by (auto simp: upsert_capability_def a split: option.splits)
  qed
qed

lemma upsert_capability_types:
  "list_all P (map cp_supported_job_types cs) \<Longrightarrow> P (cp_supported_job_types c) \<Longrightarrow>
     list_all P (map cp_supported_job_types (upsert_capability c cs))"
  by (auto simp: upsert_capability_def list_all_iff)

lemma store_capabilities_recorded:
  assumes "store_capabilities env r deviceID q types d db = (db', CapabilitiesRecorded)"
  shows "\<exists>c. e_capabilities db' = upsert_capability c (e_capabilities db) \<and> cp_device_id c = dv_id d
    \<and> cp_supported_job_types c = types \<and> e_jobs db' = e_jobs db \<and> e_requests db' = e_requests db"
  using assms
  by (auto simp: store_capabilities_def writeEndpointAuditEvidence_def Let_def split: if_splits option.splits)

lemma store_capabilities_reply:
  "store_capabilities env r deviceID q types d db = (db', resp) \<Longrightarrow> resp = CapabilitiesRecorded \<or> 400 \<le> ep_status resp"
  by (auto simp: store_capabilities_def writeEndpointAuditEvidence_def Let_def split: if_splits option.splits)

text \<open>An agent's report is accepted for a device of an active tenant that the agent is approved for.\<close>

definition report_admitted :: "endpoint_env \<Rightarrow> endpoint_request \<Rightarrow> string \<Rightarrow> device_row \<Rightarrow> endpoint_db \<Rightarrow> bool" where
  "report_admitted env r deviceID d db \<longleftrightarrow>
     er_token_use r = ''agent'' \<and> d \<in> set (e_devices db) \<and> ee_cast env deviceID = Some (dv_id d) \<and> dv_status d \<noteq> ''disabled''
     \<and> list_ex (\<lambda>a. ar_agent_id a = rUserID (er_auth r) \<and> ar_approved a \<and> ar_device_id a = dv_id d) (e_registrations db)
     \<and> msp_active env (dv_msp_id d) = Row True"

lemma handleReportCapabilities_cases:
  assumes "handleReportCapabilities env r deviceID body db = (db', resp)"
  shows "db' = db \<and> 400 \<le> ep_status resp
    \<or> (\<exists>d q types. report_admitted env r deviceID d db \<and> decode_report body = Some q
         \<and> valid_types [] (crSupportedJobTypes q) = Some types
         \<and> store_capabilities env r deviceID q types d db = (db', resp))"
proof -
  let ?dev = "find_any_device env 0 deviceID db"
  have g: "400 \<le> ep_status e" if "first_error (report_guards q) = Some e" for q e
    by (rule first_error_status [OF that]) (simp add: report_guards_def)
  show ?thesis
  proof (cases "er_token_use r \<noteq> ''agent'' \<or> deviceID = [] \<or> \<not> ee_uuid env deviceID \<or> (\<forall>d. ?dev \<noteq> Row d)")
    case True
    then show ?thesis using assms by (cases ?dev) (auto simp: handleReportCapabilities_def split: if_splits)
  next
    case False
    then obtain d where d: "?dev = Row d" by blast
    then have dev: "d \<in> set (e_devices db)" "ee_cast env deviceID = Some (dv_id d)"
      by (auto simp: find_any_device_def dest!: find_SomeD)
    show ?thesis
    proof (cases "dv_status d \<noteq> ''disabled'' \<and> list_ex (\<lambda>a. ar_agent_id a = rUserID (er_auth r) \<and> ar_approved a \<and> ar_device_id a = dv_id d)
                    (e_registrations db) \<and> ee_ok env ''registration'' 0 \<and> msp_active env (dv_msp_id d) = Row True")
      case True
      then have "report_admitted env r deviceID d db" using False dev by (simp add: report_admitted_def)
      then show ?thesis
        using assms False True d
        by (auto simp: handleReportCapabilities_def split: option.splits dest: g)
    next
      case n: False
      then show ?thesis
        using assms False d
        by (cases "msp_active env (dv_msp_id d)") (auto simp: handleReportCapabilities_def split: if_splits bool.splits)
    qed
  qed
qed

lemma loadAgentCapabilities_alt:
  "loadAgentCapabilities env n dev db =
     (case ee_cast env dev of None \<Rightarrow> QueryError
      | Some k \<Rightarrow> query_of (ee_ok env ''capabilities'' n)
          (map_option split_column (map_option cp_supported_job_types (find (\<lambda>x. cp_device_id x = k) (e_capabilities db)))))"
  by (cases "ee_cast env dev") (simp_all add: loadAgentCapabilities_def query_of_def option.map_comp comp_def)

text \<open>
  What an agent reports is what later checks see: the stored capabilities stay one row per device with distinct
  registered job types; a report is recorded only from an agent that is approved for the device, the device's
  capabilities are then exactly the reported types, so an action is supported iff its job type was reported, and
  the capabilities of every other device are untouched; a refused report changes nothing.
\<close>

theorem reported_capabilities:
  assumes "capabilities_ok db"
    and "endpointTransaction commit_ok (handleReportCapabilities env r deviceID body) db = (db', resp)"
  shows "capabilities_ok db' \<and> (400 \<le> ep_status resp \<longrightarrow> db' = db)
    \<and> (resp = CapabilitiesRecorded \<longrightarrow>
         (\<exists>d q. report_admitted env r deviceID d db \<and> decode_report body = Some q
            \<and> (\<forall>env' n dev types. ee_cast env' dev = Some (dv_id d) \<and> loadAgentCapabilities env' n dev db' = Row types \<longrightarrow>
                 set types = set (crSupportedJobTypes q)
                 \<and> (\<forall>action opd. map_of operationRegistry action = Some opd \<longrightarrow>
                      isActionSupportedByCapabilities action (Some types) = (opJobType opd \<in> set (crSupportedJobTypes q))))
            \<and> (\<forall>env' n dev. ee_cast env' dev \<noteq> Some (dv_id d) \<longrightarrow>
                 loadAgentCapabilities env' n dev db' = loadAgentCapabilities env' n dev db)))"
proof (cases "400 \<le> ep_status resp")
  case True
  then have "db' = db" by (rule endpointTransaction_aborts [OF assms(2)])
  with True assms(1) show ?thesis by auto
next
  case False
  with endpointTransaction_commits [OF assms(2)] have h: "handleReportCapabilities env r deviceID body db = (db', resp)" by simp
  from handleReportCapabilities_cases [OF h] False obtain d q types where q: "report_admitted env r deviceID d db"
      "decode_report body = Some q" "valid_types [] (crSupportedJobTypes q) = Some types"
      "store_capabilities env r deviceID q types d db = (db', resp)" by auto
  with store_capabilities_reply [OF q(4)] False
  have "store_capabilities env r deviceID q types d db = (db', CapabilitiesRecorded)" by simp
  from store_capabilities_recorded [OF this] obtain c where c: "e_capabilities db' = upsert_capability c (e_capabilities db)"
      "cp_device_id c = dv_id d" "cp_supported_job_types c = types" by auto
  have t: "distinct types" "set types \<subseteq> set registeredTypes" "set types = set (crSupportedJobTypes q)"
    using valid_types_Some [OF q(3)] by auto
  have ok: "capabilities_ok db'"
    using assms(1) t upsert_capability_ids [of "e_capabilities db" c]
      upsert_capability_types [of "\<lambda>ts. distinct ts \<and> set ts \<subseteq> set registeredTypes" "e_capabilities db" c]
    by (simp add: capabilities_ok_def c list.pred_map comp_def)
  have sp: "split_column types = types"
    using t(2) registered_type_text by (intro split_column_words) (auto simp: list_all_iff)
  have load: "loadAgentCapabilities env' n dev db' =
      (if ee_cast env' dev = Some (dv_id d) then query_of (ee_ok env' ''capabilities'' n) (Some types)
       else loadAgentCapabilities env' n dev db)" for env' n dev
    by (simp add: loadAgentCapabilities_alt c find_upsert sp split: option.split)
  show ?thesis
    using q ok t load False by (auto simp: isActionSupportedByCapabilities_def list_ex_iff intro!: exI [of _ d] exI [of _ q])
qed

definition example_agent_request :: endpoint_request where
  "example_agent_request = example_endpoint_request\<lparr>er_token_use := ''agent'', er_auth := example_operator\<lparr>rUserID := ''a''\<rparr>\<rparr>"

definition example_report :: "json wire" where
  "example_report = Decoded (JObj [(''agent_version'', JStr ''1.2''), (''protocol_version'', JNum 1), (''os'', JStr ''linux''),
     (''arch'', JStr ''amd64''), (''supported_job_types'', JArr [JStr ''device.reboot'', JStr ''device.reboot'']),
     (''inventory_schema'', JNum 1)])"

theorem reported_capabilities_witness:
  "\<exists>db' d q. endpointTransaction True (handleReportCapabilities example_env example_agent_request ''d'' example_report) example_endpoints
       = (db', CapabilitiesRecorded)
     \<and> capabilities_ok db' \<and> report_admitted example_env example_agent_request ''d'' d example_endpoints"
proof -
  have "snd (endpointTransaction True (handleReportCapabilities example_env example_agent_request ''d'' example_report) example_endpoints)
      = CapabilitiesRecorded" by code_simp
  then obtain db' where h: "endpointTransaction True (handleReportCapabilities example_env example_agent_request ''d'' example_report)
      example_endpoints = (db', CapabilitiesRecorded)" by (metis prod.collapse)
  have "capabilities_ok example_endpoints" by (simp add: capabilities_ok_def example_endpoints_def)
  from reported_capabilities [OF this h] h show ?thesis by blast
qed

end
