(* ===== verification/EndpointApprovals.thy ===== *)
theory EndpointApprovals
  imports EndpointOperations
begin

text \<open>
  Approval of endpoint operations (\<^verbatim>\<open>internal/platform/endpoint_approvals.go\<close>): creating a request with a
  snapshot of its policy, collecting decisions, dispatching the approved operation as a job, and rejecting,
  cancelling and expiring requests. The tables, the environment and the replies are those of
  \<^verbatim>\<open>EndpointOperations\<close>. A statement that fails aborts the request's transaction, so its commit fails too.
\<close>

section \<open>Policy snapshots\<close>

record policySnapshot =
  psApprovalRequired :: bool
  psMinApprovers :: int
  psAllowedRoles :: "string list"
  psRequireSeparation :: bool
  psApprovalExpiresSec :: int
  psAllowEmergency :: bool

text \<open>\<^verbatim>\<open>json.Marshal\<close> of an \<^verbatim>\<open>ApprovalPolicy\<close>.\<close>

definition policy_json :: "ApprovalPolicy \<Rightarrow> json" where
  "policy_json p = JObj
     [(''id'', JStr (apID p)), (''msp_id'', JStr (apMSPID p)), (''action_name'', JStr (apActionName p)),
      (''approval_required'', JBool (apApprovalRequired p)), (''min_approvers'', JNum (of_int (apMinApprovers p))),
      (''allowed_roles'', JArr (map JStr (apAllowedRoles p))), (''require_separation'', JBool (apRequireSeparation p)),
      (''approval_expires_sec'', JNum (of_int (apApprovalExpiresSec p))), (''allow_emergency'', JBool (apAllowEmergency p))]"

definition snapshot_fields :: "string list" where
  "snapshot_fields = [''approval_required'', ''min_approvers'', ''allowed_roles'', ''require_separation'', ''approval_expires_sec'',
                      ''allow_emergency'']"

text \<open>\<open>None\<close> for an empty or malformed snapshot; unknown fields are not allowed.\<close>

definition parsePolicySnapshot :: "json \<Rightarrow> policySnapshot option" where
  "parsePolicySnapshot snap =
     (if snap = JObj [] then None
      else do {
        kvs \<leftarrow> dec_object (Decoded snap);
        (if known_fields snapshot_fields kvs then Some () else None);
        required \<leftarrow> dec_bool kvs ''approval_required''; minApprovers \<leftarrow> dec_int kvs ''min_approvers'';
        roles \<leftarrow> dec_strs kvs ''allowed_roles''; separation \<leftarrow> dec_bool kvs ''require_separation'';
        expires \<leftarrow> dec_int kvs ''approval_expires_sec''; emergency \<leftarrow> dec_bool kvs ''allow_emergency'';
        Some \<lparr>psApprovalRequired = required, psMinApprovers = minApprovers, psAllowedRoles = roles,
              psRequireSeparation = separation, psApprovalExpiresSec = expires, psAllowEmergency = emergency\<rparr>
      })"

section \<open>Creating a request\<close>

record approval_request =
  acActionName :: string
  acReason :: string
  acDeviceIDs :: "string list"
  acScheduleAt :: string
  acEmergency :: bool
  acService :: string
  acProcessID :: int

definition decode_approval_request :: "json wire \<Rightarrow> approval_request option" where
  "decode_approval_request body = do {
     kvs \<leftarrow> dec_object body;
     (if known_fields [''action_name'', ''reason'', ''device_ids'', ''schedule_at'', ''emergency'', ''service'', ''process_id''] kvs
      then Some () else None);
     action \<leftarrow> dec_str kvs ''action_name''; reason \<leftarrow> dec_str kvs ''reason''; ids \<leftarrow> dec_strs kvs ''device_ids'';
     schedule \<leftarrow> dec_str kvs ''schedule_at''; emergency \<leftarrow> dec_bool kvs ''emergency''; service \<leftarrow> dec_str kvs ''service'';
     pid \<leftarrow> dec_int kvs ''process_id'';
     Some \<lparr>acActionName = action, acReason = reason, acDeviceIDs = ids, acScheduleAt = schedule, acEmergency = emergency,
           acService = service, acProcessID = pid\<rparr>
   }"

definition approval_guards :: "operationDef \<Rightarrow> approval_request \<Rightarrow> (bool \<times> ep_response) list" where
  "approval_guards opd q =
     [(opRequiresReason opd \<and> TrimSpace (acReason q) = [], Failed 400 ''reason required''),
      (acScheduleAt q \<noteq> [] \<and> \<not> opSupportsSchedule opd, Failed 400 ''action does not support scheduling''),
      (acActionName q = ''process_kill'' \<and> acProcessID q \<le> 1, Failed 400 ''valid non-system process_id required''),
      (HasPrefix (acActionName q) ''service_'' \<and> TrimSpace (acService q) = [], Failed 400 ''service required'')]"

definition policy_guards ::
  "endpoint_env \<Rightarrow> endpoint_request \<Rightarrow> approval_request \<Rightarrow> ApprovalPolicy \<Rightarrow> (bool \<times> ep_response) list" where
  "policy_guards env r q p =
     [(\<not> apApprovalRequired p, Failed 409 ''approval not required for this action''),
      (acEmergency q \<and> \<not> apAllowEmergency p, Failed 403 ''emergency override is not allowed by policy''),
      (acEmergency q \<and> TrimSpace (acReason q) = [], Failed 400 ''emergency override reason required''),
      (acScheduleAt q \<noteq> [] \<and> (Parse_RFC3339 (acScheduleAt q) = None \<or> available_at env (acScheduleAt q) \<le> ee_now env),
         Failed 400 ''schedule_at must be a future RFC3339 timestamp''),
      (msp_active env (er_msp_id r) \<noteq> Row True, Failed 403 ''msp is suspended or unavailable'')]"

text \<open>The deduplication loop, which looks for repetitions before it parses.\<close>

fun approval_ids :: "(string \<Rightarrow> bool) \<Rightarrow> string list \<Rightarrow> string list \<Rightarrow> string list option" where
  "approval_ids valid acc [] = Some acc"
| "approval_ids valid acc (v # vs) =
     (let x = TrimSpace v
      in if x = [] \<or> List.member acc x then approval_ids valid acc vs
         else if \<not> valid x then None
         else approval_ids valid (acc @ [x]) vs)"

text \<open>The loop over the devices; the scope of the request is that of the first device with a client.\<close>

fun approval_scope ::
  "endpoint_env \<Rightarrow> endpoint_request \<Rightarrow> approval_request \<Rightarrow> nat \<Rightarrow> string \<times> string \<Rightarrow> string list \<Rightarrow> endpoint_db
   \<Rightarrow> ep_response + string \<times> string" where
  "approval_scope env r q n (c, s) [] db = Inr (c, s)"
| "approval_scope env r q n (c, s) (deviceID # rest) db =
     (case find_device env n deviceID (er_msp_id r) db of
        Row d \<Rightarrow>
          let dc = coalesce (dv_client_id d); ds = coalesce (dv_site_id d); caps = loadAgentCapabilities env n deviceID db
          in if dv_status d = ''disabled'' then Inl (Failed 404 ''one or more devices are unavailable'')
             else if outside_scope r d then Inl access_denied
             else if c \<noteq> [] \<and> (c \<noteq> dc \<or> s \<noteq> ds) then Inl (Failed 400 ''approval targets must share one client and site scope'')
             else if caps = QueryError then Inl (Failed 500 ''load capabilities failed'')
             else if \<not> isActionSupportedByCapabilities (acActionName q) (case caps of Row types \<Rightarrow> Some types | _ \<Rightarrow> None)
               then Inl (Failed 409 ''one or more devices do not report support for this action'')
             else approval_scope env r q (Suc n) (if c = [] then (dc, ds) else (c, s)) rest db
      | _ \<Rightarrow> Inl (Failed 404 ''one or more devices are unavailable''))"

definition operation_payload :: "approval_request \<Rightarrow> json" where
  "operation_payload q = JObj
     [(''action'', JStr (acActionName q)), (''reason'', JStr (acReason q)), (''service'', JStr (acService q)),
      (''process_id'', JNum (of_int (acProcessID q))), (''schedule_at'', JStr (acScheduleAt q))]"

text \<open>The earlier request of an idempotency key.\<close>

definition earlier_approval :: "endpoint_env \<Rightarrow> string \<Rightarrow> string \<Rightarrow> string \<Rightarrow> endpoint_db \<Rightarrow> ep_response option" where
  "earlier_approval env mspID key requestHash db =
     (if key = [] then None
      else if \<not> ee_ok env ''idempotency'' 0 then Some (Failed 500 ''idempotency lookup failed'')
      else case find (\<lambda>q. rq_msp_id q = mspID \<and> rq_idempotency_key q = Some key) (e_requests db) of
             None \<Rightarrow> None
           | Some q \<Rightarrow>
               (case rq_request_hash q of
                  None \<Rightarrow> Some (Failed 500 ''idempotency lookup failed'')
                | Some h \<Rightarrow>
                    if h \<noteq> requestHash then Some (Failed 409 ''idempotency key already used for a different approval request'')
                    else Some (DuplicateRequest (rq_id q) (rq_status q))))"

definition approval_evidence :: "endpoint_request \<Rightarrow> string \<Rightarrow> string \<Rightarrow> string \<Rightarrow> string \<Rightarrow> json \<Rightarrow> EndpointAuditEntry" where
  "approval_evidence r action state transition reason snapshot =
     \<lparr>aeMSPID = er_msp_id r, aeClientID = [], aeSiteID = [], aeDeviceID = [], aeActorUserID = rUserID (er_auth r),
      aeActorRole = [], aeRequestSource = [], aeNormalizedIP = [], aeAction = action, aeTargets = JArr [], aeReason = reason,
      aeRequestHash = [], aeIdempotencyKey = [], aePolicySnapshot = snapshot, aeApprovalState = state, aeJobID = [],
      aeCorrelationID = [], aeScheduleAt = None, aeStateTransition = transition, aeResultSummary = []\<rparr>"

definition actor_evidence :: "endpoint_request \<Rightarrow> string \<Rightarrow> string \<Rightarrow> string \<Rightarrow> string \<Rightarrow> EndpointAuditEntry \<Rightarrow> EndpointAuditEntry" where
  "actor_evidence r clientID siteID requestHash correlationID entry =
     entry\<lparr>aeClientID := clientID, aeSiteID := siteID, aeActorRole := Join (CHR '','') (aRoles (rAuthorization (er_auth r))),
           aeRequestSource := ''api'', aeNormalizedIP := er_ip r, aeRequestHash := requestHash, aeCorrelationID := correlationID\<rparr>"

definition insert_request :: "endpoint_env \<Rightarrow> string list \<Rightarrow> string \<times> string \<Rightarrow> approval_row \<Rightarrow> endpoint_db \<Rightarrow> endpoint_db option" where
  "insert_request env ids scope q db =
     (case (those (map (ee_cast env) ids), cast_nullable env (nullif (fst scope)), cast_nullable env (nullif (snd scope))) of
        (Some devs, Some c, Some s) \<Rightarrow>
          if \<not> ee_ok env ''insert request'' 0 then None
          else if list_ex (\<lambda>x. rq_id x = rq_id q) (e_requests db) then None
          else if rq_idempotency_key q \<noteq> None
             \<and> list_ex (\<lambda>x. rq_msp_id x = rq_msp_id q \<and> rq_idempotency_key x = rq_idempotency_key q) (e_requests db) then None
          else Some (db\<lparr>e_requests := e_requests db @ [q\<lparr>rq_device_ids := devs, rq_client_id := c, rq_site_id := s\<rparr>]\<rparr>)
      | _ \<Rightarrow> None)"

definition store_request ::
  "endpoint_env \<Rightarrow> endpoint_request \<Rightarrow> approval_request \<Rightarrow> ApprovalPolicy \<Rightarrow> string list \<Rightarrow> string \<times> string \<Rightarrow> string \<Rightarrow> string
   \<Rightarrow> endpoint_db \<Rightarrow> endpoint_db \<times> ep_response" where
  "store_request env r q p ids scope key requestHash db =
     (let approvalID = ee_fresh env 0; correlationID = ee_fresh env 1;
          scheduleAt = (if acScheduleAt q = [] then None else Some (available_at env (acScheduleAt q)));
          row = \<lparr>rq_id = approvalID, rq_msp_id = er_msp_id r, rq_client_id = None, rq_site_id = None,
                 rq_requester = rUserID (er_auth r), rq_action_name = acActionName q, rq_reason = acReason q, rq_device_ids = [],
                 rq_device_count = int (length ids), rq_schedule_at = scheduleAt, rq_target_hash = requestHash,
                 rq_status = ''pending'', rq_policy_snapshot = policy_json p, rq_operation_payload = operation_payload q,
                 rq_correlation_id = Some correlationID, rq_request_hash = Some requestHash, rq_idempotency_key = nullif key,
                 rq_expires_at = ee_now env + apApprovalExpiresSec p * Second, rq_emergency_override = acEmergency q,
                 rq_decided_at = None, rq_decided_by = None\<rparr>
      in case insert_request env ids scope row db of
           None \<Rightarrow> (db, Failed 500 ''create approval request failed'')
         | Some db1 \<Rightarrow>
             (case writeEndpointAuditEvidence env
                     ((actor_evidence r (fst scope) (snd scope) requestHash correlationID
                        (approval_evidence r ''endpoint.approval.created'' ''pending'' ''created->pending'' (acReason q) (policy_json p)))
                      \<lparr>aeTargets := JArr (map JStr ids), aeIdempotencyKey := key, aeScheduleAt := scheduleAt\<rparr>) db1 of
                None \<Rightarrow> (db1, Failed 500 ''write audit evidence failed'')
              | Some db2 \<Rightarrow> (db2, ApprovalCreated approvalID)))"

definition handleCreateApprovalRequest ::
  "endpoint_env \<Rightarrow> endpoint_request \<Rightarrow> json wire \<Rightarrow> endpoint_db \<Rightarrow> endpoint_db \<times> ep_response" where
  "handleCreateApprovalRequest env r body db =
     (if er_msp_id r = [] \<or> rUserID (er_auth r) = [] then (db, Failed 400 ''no msp or user context'')
      else if \<not> AuthorizeMSPManage (ee_auth_ok env) (ee_auth env) (er_auth r) (er_msp_id r) then (db, access_denied)
      else case decode_approval_request body of
        None \<Rightarrow> (db, Failed 400 ''invalid request body'')
      | Some q \<Rightarrow>
        (case (if acDeviceIDs q = [] \<or> 100 < length (acDeviceIDs q) then None else map_of operationRegistry (acActionName q)) of
           None \<Rightarrow> (db, Failed 400 ''supported action and 1-100 device_ids required'')
         | Some opd \<Rightarrow>
           (case first_error (approval_guards opd q) of
              Some e \<Rightarrow> (db, e)
            | None \<Rightarrow>
              (case approval_policy env (er_msp_id r) (acActionName q) db of
                 None \<Rightarrow> (db, Failed 500 ''load approval policy failed'')
               | Some p \<Rightarrow>
                 (case first_error (policy_guards env r q p) of
                    Some e \<Rightarrow> (db, e)
                  | None \<Rightarrow>
                    (case map_option sort (approval_ids (ee_uuid env) [] (acDeviceIDs q)) of
                       None \<Rightarrow> (db, Failed 400 ''invalid device id'')
                     | Some [] \<Rightarrow> (db, Failed 400 ''no valid device ids supplied'')
                     | Some ids \<Rightarrow>
                       (case approval_scope env r q 0 ([], []) ids db of
                          Inl e \<Rightarrow> (db, e)
                        | Inr scope \<Rightarrow>
                          (case validateIdempotencyKey r of
                             None \<Rightarrow> (db, Failed 400 ''idempotency key is too long'')
                           | Some key \<Rightarrow>
                             let requestHash = ee_hash env (JObj [(''device_ids'', JArr (map JStr ids)),
                                                 (''operation'', operation_payload q), (''policy'', policy_json p)])
                             in (case earlier_approval env (er_msp_id r) key requestHash db of
                                   Some e \<Rightarrow> (db, e)
                                 | None \<Rightarrow> store_request env r q p ids scope key requestHash db)))))))))"

section \<open>Approving\<close>

definition find_request :: "endpoint_env \<Rightarrow> string \<Rightarrow> string \<Rightarrow> endpoint_db \<Rightarrow> approval_row option" where
  "find_request env approvalID mspID db =
     (if ee_ok env ''request'' 0 \<and> ee_cast env approvalID \<noteq> None
      then find (\<lambda>q. Some (rq_id q) = ee_cast env approvalID \<and> rq_msp_id q = mspID) (e_requests db) else None)"

text \<open>The body is optional: \<open>None\<close> is an empty body.\<close>

definition decode_decision :: "json wire option \<Rightarrow> string option" where
  "decode_decision body =
     (case body of None \<Rightarrow> Some []
      | Some b \<Rightarrow> do {
          kvs \<leftarrow> dec_object b;
          (if known_fields [''reason''] kvs then Some () else None);
          dec_str kvs ''reason''
        })"

definition approve_guards ::
  "endpoint_env \<Rightarrow> endpoint_request \<Rightarrow> approval_row \<Rightarrow> (bool \<times> ep_response) list" where
  "approve_guards env r q =
     [(rq_status q \<noteq> ''pending'', Failed 409 (''request is '' @ rq_status q)),
      (rq_expires_at q \<le> ee_now env, Failed 409 ''approval request has expired''),
      (case parsePolicySnapshot (rq_policy_snapshot q) of None \<Rightarrow> True | Some p \<Rightarrow> psMinApprovers p < 1,
         Failed 500 ''invalid stored approval policy'')]"

definition approver_guards :: "endpoint_request \<Rightarrow> approval_row \<Rightarrow> policySnapshot \<Rightarrow> (bool \<times> ep_response) list" where
  "approver_guards r q p =
     [(rq_requester q = rUserID (er_auth r) \<and> psRequireSeparation p, Failed 403 ''requester cannot self-approve''),
      (\<not> list_ex (\<lambda>role. list_ex (\<lambda>permitted. role = permitted) (psAllowedRoles p)) (aRoles (rAuthorization (er_auth r))),
         Failed 403 ''insufficient role to approve'')]"

text \<open>A user decides once on a request.\<close>

definition insert_decision :: "endpoint_env \<Rightarrow> endpoint_request \<Rightarrow> approval_row \<Rightarrow> string \<Rightarrow> endpoint_db \<Rightarrow> endpoint_db option" where
  "insert_decision env r q reason db =
     (if \<not> ee_ok env ''insert decision'' 0 then None
      else if list_ex (\<lambda>x. dc_request_id x = rq_id q \<and> dc_approver x = rUserID (er_auth r)) (e_decisions db) then None
      else Some (db\<lparr>e_decisions := e_decisions db @ [\<lparr>dc_request_id = rq_id q, dc_msp_id = er_msp_id r,
                     dc_approver = rUserID (er_auth r), dc_decision = ''approved'', dc_reason = reason\<rparr>]\<rparr>))"

definition approvals_of :: "string \<Rightarrow> endpoint_db \<Rightarrow> decision_row list" where
  "approvals_of k db = filter (\<lambda>x. dc_request_id x = k \<and> dc_decision x = ''approved'') (e_decisions db)"

definition dispatch_event ::
  "string \<Rightarrow> string \<Rightarrow> string \<Rightarrow> string \<Rightarrow> string \<Rightarrow> string \<Rightarrow> string \<Rightarrow> string \<Rightarrow> instant \<Rightarrow> instant \<Rightarrow> string \<Rightarrow> json \<Rightarrow> json" where
  "dispatch_event jobID targetID mspID clientID siteID deviceID agentID correlationID now expiresAt jobType payload = JObj
     [(''schema_version'', JNum 1), (''event_id'', JStr (jobID @ '':'' @ targetID @ '':1'')), (''job_id'', JStr jobID),
      (''target_id'', JStr targetID), (''msp_id'', JStr mspID), (''client_id'', JStr clientID), (''site_id'', JStr siteID),
      (''device_id'', JStr deviceID), (''agent_id'', JStr agentID), (''correlation_id'', JStr correlationID),
      (''attempt'', JNum 1), (''issued_at'', JStr (Format_RFC3339 now)), (''expires_at'', JStr (Format_RFC3339 expiresAt)),
      (''command_type'', JStr jobType), (''type'', JStr jobType), (''payload'', payload)]"

definition approved_target :: "endpoint_env \<Rightarrow> string \<Rightarrow> string \<Rightarrow> string \<Rightarrow> string \<Rightarrow> string \<Rightarrow> target_row" where
  "approved_target env targetID jobID deviceID agentID status =
     (new_target targetID jobID deviceID agentID)
       \<lparr>t_status := status, t_approval_status := ''approved'',
        t_offline_at := (if status = ''waiting'' then Some (ee_sql_now env) else None)\<rparr>"

text \<open>The guards of one target of the approved operation.\<close>

definition target_guards ::
  "endpoint_env \<Rightarrow> endpoint_request \<Rightarrow> approval_row \<Rightarrow> operationDef \<Rightarrow> instant \<Rightarrow> nat \<Rightarrow> string \<Rightarrow> device_row \<Rightarrow> endpoint_db
   \<Rightarrow> (bool \<times> ep_response) list" where
  "target_guards env r q opd availableAt n deviceID d db =
     (let caps = loadAgentCapabilities env n deviceID db
      in [(coalesce (dv_client_id d) \<noteq> coalesce (rq_client_id q) \<or> coalesce (dv_site_id d) \<noteq> coalesce (rq_site_id q)
             \<or> dv_status d = ''disabled'' \<or> coalesce (dv_agent_id d) = [],
             Failed 409 ''approved target scope or agent state changed''),
          (\<not> isActionSupportedByCapabilities (rq_action_name q) (case caps of Row types \<Rightarrow> Some types | _ \<Rightarrow> None),
             Failed 409 ''approved target no longer supports this action''),
          (opDestructive opd \<and> maintenanceWindowAllows env n (er_msp_id r) (coalesce (dv_client_id d)) (coalesce (dv_site_id d))
             deviceID availableAt db \<noteq> Some True, Failed 409 ''approved target is outside an applicable maintenance window''),
          (dv_status d \<noteq> ''online'' \<and> \<not> opAllowOffline opd, Failed 409 ''approved target is offline'')])"

fun approved_targets ::
  "endpoint_env \<Rightarrow> instant \<Rightarrow> endpoint_request \<Rightarrow> approval_row \<Rightarrow> operationDef \<Rightarrow> instant \<Rightarrow> nat \<Rightarrow> string list \<Rightarrow> endpoint_db
   \<Rightarrow> endpoint_db \<times> ep_response option" where
  "approved_targets env now r q opd availableAt n [] db = (db, None)"
| "approved_targets env now r q opd availableAt n (value # rest) db =
     (let deviceID = TrimSpace value; jobID = ee_fresh env 0; targetID = ee_fresh env (n + 1)
      in case find_device env n deviceID (er_msp_id r) db of
           Row d \<Rightarrow>
             (case first_error (target_guards env r q opd availableAt n deviceID d db) of
                Some e \<Rightarrow> (db, Some e)
              | None \<Rightarrow>
                  let status = (if dv_status d = ''online'' then ''queued'' else ''waiting'');
                      agentID = coalesce (dv_agent_id d)
                  in (case insert_target env n (approved_target env targetID jobID deviceID agentID status) db of
                        None \<Rightarrow> (db, Some (Failed 500 ''create approved target failed''))
                      | Some db1 \<Rightarrow>
                          if status \<noteq> ''queued'' then approved_targets env now r q opd availableAt (Suc n) rest db1
                          else
                            (case insert_outbox env n (er_msp_id r) jobID
                                    (dispatch_event jobID targetID (er_msp_id r) (coalesce (dv_client_id d))
                                       (coalesce (dv_site_id d)) deviceID agentID (coalesce (rq_correlation_id q)) now
                                       (availableAt + 24 * Hour) (opJobType opd) (rq_operation_payload q)) availableAt db1 of
                               None \<Rightarrow> (db1, Some (Failed 500 ''create dispatch failed''))
                             | Some db2 \<Rightarrow> approved_targets env now r q opd availableAt (Suc n) rest db2)))
         | _ \<Rightarrow> (db, Some (Failed 409 ''approved target scope or agent state changed'')))"

definition decide_request :: "endpoint_env \<Rightarrow> string \<Rightarrow> string \<Rightarrow> string \<Rightarrow> endpoint_db \<Rightarrow> endpoint_db" where
  "decide_request env k status userID db =
     db\<lparr>e_requests := map (\<lambda>q. if rq_id q = k \<and> rq_status q = ''pending''
                             then q\<lparr>rq_status := status, rq_decided_at := Some (ee_sql_now env), rq_decided_by := Some userID\<rparr>
                             else q) (e_requests db)\<rparr>"

definition still_pending :: "string \<Rightarrow> endpoint_db \<Rightarrow> nat" where
  "still_pending k db = length (filter (\<lambda>q. rq_id q = k \<and> rq_status q = ''pending'') (e_requests db))"

definition dispatch_approved ::
  "endpoint_env \<Rightarrow> instant \<Rightarrow> endpoint_request \<Rightarrow> approval_row \<Rightarrow> string \<Rightarrow> nat \<Rightarrow> endpoint_db \<Rightarrow> endpoint_db \<times> ep_response" where
  "dispatch_approved env now r q reason approvedCount db =
     (case (map_of operationRegistry (rq_action_name q), payload_object (rq_operation_payload q)) of
        (None, _) \<Rightarrow> (db, Failed 500 ''operation is no longer registered'')
      | (Some opd, None) \<Rightarrow> (db, Failed 500 ''invalid stored operation payload'')
      | (Some opd, Some _) \<Rightarrow>
          let availableAt = (case rq_schedule_at q of Some t \<Rightarrow> if now < t then t else now | None \<Rightarrow> now);
              deviceIDs = Split (CHR '','') (Join (CHR '','') (rq_device_ids q)); jobID = ee_fresh env 0;
              requestHash = coalesce (rq_request_hash q); correlationID = coalesce (rq_correlation_id q)
          in (case insert_job env (rq_client_id q) (rq_site_id q) (Some (rq_id q))
                     (endpoint_job jobID (er_msp_id r) (opJobType opd) (rq_operation_payload q) (availableAt + 24 * Hour) None
                        requestHash correlationID availableAt) db of
                None \<Rightarrow> (db, Failed 409 ''approved operation already dispatched or job creation failed'')
              | Some db1 \<Rightarrow>
                  (case approved_targets env now r q opd availableAt 0 deviceIDs db1 of
                     (db2, Some e) \<Rightarrow> (db2, e)
                   | (db2, None) \<Rightarrow>
                       if \<not> ee_ok env ''finalize'' 0 then (db2, Failed 500 ''finalize approval failed'')
                       else if still_pending (rq_id q) db2 \<noteq> 1 then (db2, Failed 409 ''approval state changed'')
                       else
                         (case writeEndpointAuditEvidence env
                                 ((actor_evidence r (coalesce (rq_client_id q)) (coalesce (rq_site_id q)) requestHash correlationID
                                    (approval_evidence r ''endpoint.approval.dispatched'' ''dispatched'' ''pending->dispatched''
                                       reason (rq_policy_snapshot q)))
                                  \<lparr>aeTargets := JArr (map JStr deviceIDs), aeJobID := jobID, aeScheduleAt := Some availableAt,
                                   aeResultSummary := nat_digits approvedCount @ '' approvals satisfied''\<rparr>)
                                 (decide_request env (rq_id q) ''dispatched'' (rUserID (er_auth r)) db2) of
                            None \<Rightarrow> (decide_request env (rq_id q) ''dispatched'' (rUserID (er_auth r)) db2,
                                     Failed 500 ''write audit evidence failed'')
                          | Some db3 \<Rightarrow> (db3, ApprovalDispatched jobID)))))"

definition record_approval ::
  "endpoint_env \<Rightarrow> instant \<Rightarrow> endpoint_request \<Rightarrow> approval_row \<Rightarrow> policySnapshot \<Rightarrow> string \<Rightarrow> endpoint_db \<Rightarrow> endpoint_db \<times> ep_response" where
  "record_approval env now r q p reason db =
     (case insert_decision env r q reason db of
        None \<Rightarrow> (db, Failed 409 ''approval decision already recorded or invalid'')
      | Some db1 \<Rightarrow>
          let approvedCount = length (approvals_of (rq_id q) db1)
          in if \<not> ee_ok env ''count'' 0 then (db1, Failed 500 ''count approvals failed'')
             else if int approvedCount < psMinApprovers p then
               if \<not> ee_ok env ''touch'' 0 then (db1, Failed 500 ''update approval request failed'')
               else
                 (case writeEndpointAuditEvidence env
                         ((actor_evidence r (coalesce (rq_client_id q)) (coalesce (rq_site_id q)) (coalesce (rq_request_hash q))
                            (coalesce (rq_correlation_id q))
                            (approval_evidence r ''endpoint.approval.decision'' ''pending'' ''pending->pending'' reason
                               (rq_policy_snapshot q)))
                          \<lparr>aeResultSummary := nat_digits approvedCount @ '' of '' @ int_digits (psMinApprovers p)
                                              @ '' approvals recorded''\<rparr>) db1 of
                    None \<Rightarrow> (db1, Failed 500 ''write audit evidence failed'')
                  | Some db2 \<Rightarrow> (db2, ApprovalPending (psMinApprovers p - int approvedCount)))
             else dispatch_approved env now r q reason approvedCount db1)"

text \<open>\<open>now\<close> is the second reading of the clock, taken after the decision was counted.\<close>

definition handleApproveRequest ::
  "endpoint_env \<Rightarrow> instant \<Rightarrow> endpoint_request \<Rightarrow> string \<Rightarrow> json wire option \<Rightarrow> endpoint_db \<Rightarrow> endpoint_db \<times> ep_response" where
  "handleApproveRequest env now r approvalID body db =
     (if er_msp_id r = [] \<or> rUserID (er_auth r) = [] then (db, Failed 400 ''invalid request'')
      else if \<not> ee_uuid env approvalID then (db, Failed 400 ''invalid approval id'')
      else if \<not> AuthorizeMSPManage (ee_auth_ok env) (ee_auth env) (er_auth r) (er_msp_id r) then (db, access_denied)
      else case decode_decision body of
        None \<Rightarrow> (db, Failed 400 ''invalid request body'')
      | Some reason \<Rightarrow>
        (case find_request env approvalID (er_msp_id r) db of
           None \<Rightarrow> (db, Failed 404 ''approval request not found'')
         | Some q \<Rightarrow>
           (case (first_error (approve_guards env r q), parsePolicySnapshot (rq_policy_snapshot q)) of
              (Some e, _) \<Rightarrow> (db, e)
            | (None, None) \<Rightarrow> (db, Failed 500 ''invalid stored approval policy'')
            | (None, Some p) \<Rightarrow>
              (case first_error (approver_guards r q p) of
                 Some e \<Rightarrow> (db, e)
               | None \<Rightarrow> record_approval env now r q p reason db))))"

section \<open>Rejecting, cancelling and expiring\<close>

definition handleRejectRequest ::
  "endpoint_env \<Rightarrow> endpoint_request \<Rightarrow> string \<Rightarrow> endpoint_db \<Rightarrow> endpoint_db \<times> ep_response" where
  "handleRejectRequest env r approvalID db =
     (if er_msp_id r = [] \<or> rUserID (er_auth r) = [] \<or> approvalID = [] then (db, Failed 400 ''invalid request'')
      else if \<not> AuthorizeMSPManage (ee_auth_ok env) (ee_auth env) (er_auth r) (er_msp_id r) then (db, access_denied)
      else case find_request env approvalID (er_msp_id r) db of
        None \<Rightarrow> (db, Failed 404 ''approval request not found'')
      | Some q \<Rightarrow>
          if rq_status q \<noteq> ''pending'' then (db, Failed 409 (''request is '' @ rq_status q))
          else if rq_requester q = rUserID (er_auth r) then (db, Failed 403 ''requester cannot reject own request'')
          else if \<not> ee_ok env ''decide'' 0 then (db, Failed 500 ''reject failed'')
          else if still_pending (rq_id q) db \<noteq> 1 then (db, Failed 409 ''approval state changed'')
          else
            let db1 = decide_request env (rq_id q) ''rejected'' (rUserID (er_auth r)) db
            in (case writeEndpointAuditEvidence env
                       (approval_evidence r ''endpoint.approval.rejected'' ''rejected'' ''pending->rejected'' [] (rq_policy_snapshot q)) db1 of
                  None \<Rightarrow> (db1, Failed 500 ''write audit evidence failed'')
                | Some db2 \<Rightarrow> (db2, ApprovalRejected)))"

text \<open>A failure to write the evidence is only logged here.\<close>

definition handleCancelApprovalRequest ::
  "endpoint_env \<Rightarrow> endpoint_request \<Rightarrow> string \<Rightarrow> endpoint_db \<Rightarrow> endpoint_db \<times> ep_response" where
  "handleCancelApprovalRequest env r approvalID db =
     (if er_msp_id r = [] \<or> approvalID = [] then (db, Failed 400 ''invalid request'')
      else if \<not> AuthorizeMSPManage (ee_auth_ok env) (ee_auth env) (er_auth r) (er_msp_id r) then (db, access_denied)
      else case find_request env approvalID (er_msp_id r) db of
        None \<Rightarrow> (db, Failed 404 ''approval request not found'')
      | Some q \<Rightarrow>
          if rq_status q \<noteq> ''pending'' then (db, Failed 409 (''request is '' @ rq_status q))
          else if rq_requester q \<noteq> rUserID (er_auth r) then (db, Failed 403 ''only the requester can cancel'')
          else if \<not> ee_ok env ''decide'' 0 then (db, Failed 500 ''cancel failed'')
          else
            let db1 = decide_request env (rq_id q) ''cancelled'' (rUserID (er_auth r)) db
            in (case writeEndpointAuditEvidence env
                       (approval_evidence r ''endpoint.approval.cancelled'' ''cancelled'' ''pending->cancelled'' [] (rq_policy_snapshot q)) db1 of
                  None \<Rightarrow> (db1, ApprovalCancelled)
                | Some db2 \<Rightarrow> (db2, ApprovalCancelled)))"

definition expirePendingApprovals :: "bool \<Rightarrow> instant \<Rightarrow> endpoint_db \<Rightarrow> endpoint_db" where
  "expirePendingApprovals ok now db =
     (if \<not> ok then db
      else db\<lparr>e_requests := map (\<lambda>q. if rq_status q = ''pending'' \<and> rq_expires_at q < now then q\<lparr>rq_status := ''expired''\<rparr> else q)
                             (e_requests db)\<rparr>)"

definition approval_transitions :: "(string \<times> string list) list" where
  "approval_transitions =
     [(''pending'', [''approved'', ''rejected'', ''cancelled'', ''expired'']), (''approved'', [''dispatched'', ''expired'']),
      (''rejected'', []), (''cancelled'', []), (''expired'', []), (''dispatched'', [])]"

definition transitionApprovalStatus :: "string \<Rightarrow> string \<Rightarrow> string + unit" where
  "transitionApprovalStatus currentStatus nextStatus =
     (case map_of approval_transitions currentStatus of
        Some nexts \<Rightarrow> if List.member nexts nextStatus then Inr ()
                      else Inl (''invalid approval state transition: '' @ currentStatus @ '' -> '' @ nextStatus)
      | None \<Rightarrow> Inl (''invalid approval state transition: '' @ currentStatus @ '' -> '' @ nextStatus))"

section \<open>Effects of the handlers\<close>

text \<open>The decision of the request's user on a request.\<close>

definition own_decision :: "endpoint_request \<Rightarrow> approval_row \<Rightarrow> string \<Rightarrow> decision_row" where
  "own_decision r q reason = \<lparr>dc_request_id = rq_id q, dc_msp_id = er_msp_id r, dc_approver = rUserID (er_auth r),
     dc_decision = ''approved'', dc_reason = reason\<rparr>"

lemma writeEvidence_Some: "writeEndpointAuditEvidence env entry db = Some db' \<Longrightarrow> db' = db\<lparr>e_evidence := e_evidence db @ [entry]\<rparr>"
  by (simp add: writeEndpointAuditEvidence_def split: if_splits)

lemma insert_decision_Some:
  "insert_decision env r q reason db = Some db' \<Longrightarrow>
     db' = db\<lparr>e_decisions := e_decisions db @ [own_decision r q reason]\<rparr>
     \<and> (\<forall>x \<in> set (e_decisions db). \<not> (dc_request_id x = rq_id q \<and> dc_approver x = rUserID (er_auth r)))"
  by (auto simp: insert_decision_def own_decision_def list_ex_iff split: if_splits)

lemma find_request_Some:
  "find_request env k mspID db = Some q \<Longrightarrow> q \<in> set (e_requests db) \<and> rq_msp_id q = mspID \<and> ee_cast env k = Some (rq_id q)"
  by (auto simp: find_request_def split: if_splits dest!: find_SomeD)

text \<open>A target of the approved operation: bound to the agent of a device inside the scope of the request.\<close>

definition approved_binding :: "endpoint_env \<Rightarrow> endpoint_request \<Rightarrow> approval_row \<Rightarrow> device_row list \<Rightarrow> target_row \<Rightarrow> bool" where
  "approved_binding env r q devices t \<longleftrightarrow> t_job_id t = ee_fresh env 0 \<and> t_approval_status t = ''approved''
     \<and> (t_status t = ''queued'' \<or> t_status t = ''waiting'')
     \<and> list_ex (\<lambda>d. ee_cast env (t_device_id t) = Some (dv_id d) \<and> dv_msp_id d = er_msp_id r \<and> dv_status d \<noteq> ''disabled''
          \<and> coalesce (dv_client_id d) = coalesce (rq_client_id q) \<and> coalesce (dv_site_id d) = coalesce (rq_site_id q)
          \<and> t_agent_id t = Some (coalesce (dv_agent_id d)) \<and> coalesce (dv_agent_id d) \<noteq> []) devices"

definition same_tables :: "endpoint_db \<Rightarrow> endpoint_db \<Rightarrow> bool" where
  "same_tables db db' \<longleftrightarrow> e_requests db' = e_requests db \<and> e_decisions db' = e_decisions db
     \<and> e_job_approvals db' = e_job_approvals db \<and> e_devices db' = e_devices db \<and> jobs (e_jobs db') = jobs (e_jobs db)"

lemma approved_target_binding:
  assumes "find_device env n deviceID (er_msp_id r) db = Row d"
    "first_error (target_guards env r q opd av n deviceID d db) = None"
  shows "approved_binding env r q (e_devices db)
    (approved_target env tid (ee_fresh env 0) deviceID (coalesce (dv_agent_id d)) (if dv_status d = ''online'' then ''queued'' else ''waiting''))"
  using find_device_Row [OF assms(1)] assms(2)
  by (auto simp: approved_binding_def approved_target_def new_target_def first_error_None target_guards_def Let_def list_ex_iff)

lemma approved_targets_ok:
  "approved_targets env now r q opd av n ids db = (db', None) \<Longrightarrow>
     same_tables db db' \<and> (\<exists>new. targets (e_jobs db') = targets (e_jobs db) @ new \<and> map t_device_id new = map TrimSpace ids
       \<and> list_all (approved_binding env r q (e_devices db)) new)"
proof (induction ids arbitrary: n db)
  case Nil
  then show ?case by (simp add: same_tables_def)
next
  case (Cons v rest)
  let ?st = "\<lambda>d. if dv_status d = ''online'' then ''queued'' else ''waiting''"
  let ?t = "\<lambda>d. approved_target env (ee_fresh env (n + 1)) (ee_fresh env 0) (TrimSpace v) (coalesce (dv_agent_id d)) (?st d)"
  obtain d where d: "find_device env n (TrimSpace v) (er_msp_id r) db = Row d"
    using Cons.prems by (cases "find_device env n (TrimSpace v) (er_msp_id r) db") (auto simp: Let_def)
  have g: "first_error (target_guards env r q opd av n (TrimSpace v) d db) = None"
    using Cons.prems d by (cases "first_error (target_guards env r q opd av n (TrimSpace v) d db)") (auto simp: Let_def)
  obtain db1 where db1: "insert_target env n (?t d) db = Some db1"
    using Cons.prems d g by (cases "insert_target env n (?t d) db") (auto simp: Let_def)
  have bind: "approved_binding env r q (e_devices db) (?t d)" by (rule approved_target_binding [OF d g])
  have dev: "t_device_id (?t d) = TrimSpace v" by (simp add: approved_target_def new_target_def)
  have "\<exists>db2. approved_targets env now r q opd av (Suc n) rest db2 = (db', None) \<and> same_tables db db2
      \<and> targets (e_jobs db2) = targets (e_jobs db) @ [?t d]"
  proof (cases "dv_status d = ''online''")
    case False
    with Cons.prems d g db1 insert_target_Some [OF db1] show ?thesis
      by (intro exI [of _ db1]) (simp add: Let_def same_tables_def)
  next
    case True
    with Cons.prems d g db1 obtain payload db2 where o: "insert_outbox env n (er_msp_id r) (ee_fresh env 0) payload av db1 = Some db2"
        "approved_targets env now r q opd av (Suc n) rest db2 = (db', None)"
      by (auto simp: Let_def split: option.splits)
    with insert_target_Some [OF db1] insert_outbox_Some [OF o(1)] show ?thesis
      by (intro exI [of _ db2]) (simp add: same_tables_def)
  qed
  then obtain db2 where db2: "approved_targets env now r q opd av (Suc n) rest db2 = (db', None)" "same_tables db db2"
      "targets (e_jobs db2) = targets (e_jobs db) @ [?t d]" by blast
  have "same_tables db2 db' \<and> (\<exists>new. targets (e_jobs db') = targets (e_jobs db2) @ new \<and> map t_device_id new = map TrimSpace rest
      \<and> list_all (approved_binding env r q (e_devices db2)) new)"
    by (rule Cons.IH [OF db2(1)])
  then obtain new where "same_tables db2 db'" "targets (e_jobs db') = targets (e_jobs db2) @ new"
      "map t_device_id new = map TrimSpace rest" "list_all (approved_binding env r q (e_devices db2)) new" by blast
  with db2 bind dev show ?case
    by (intro conjI exI [of _ "?t d # new"]) (simp_all add: same_tables_def)
qed

lemma approved_targets_error: "approved_targets env now r q opd av n ids db = (db', Some e) \<Longrightarrow> 400 \<le> ep_status e"
proof (induction ids arbitrary: n db)
  case (Cons v rest)
  have g: "400 \<le> ep_status e" if "first_error (target_guards env r q opd av n dev d db) = Some e" for dev d e db
    by (rule first_error_status [OF that]) (simp add: target_guards_def Let_def)
  show ?case
    using Cons by (auto simp: Let_def split: query.splits option.splits if_splits dest: g)
qed simp

lemma decide_request_simps [simp]:
  "e_decisions (decide_request env k st u db) = e_decisions db"
  "e_job_approvals (decide_request env k st u db) = e_job_approvals db"
  "e_devices (decide_request env k st u db) = e_devices db"
  "e_jobs (decide_request env k st u db) = e_jobs db"
  by (simp_all add: decide_request_def)

text \<open>What an approval that completes the quorum does.\<close>

definition dispatched_by ::
  "endpoint_env \<Rightarrow> endpoint_request \<Rightarrow> approval_row \<Rightarrow> string \<Rightarrow> endpoint_db \<Rightarrow> endpoint_db \<Rightarrow> bool" where
  "dispatched_by env r q jobID db db' \<longleftrightarrow>
     (\<exists>j new opd. map_of operationRegistry (rq_action_name q) = Some opd
        \<and> jobs (e_jobs db') = jobs (e_jobs db) @ [j] \<and> j_id j = jobID \<and> j_msp_id j = er_msp_id r \<and> j_type j = opJobType opd
        \<and> j_payload j = rq_operation_payload q \<and> j_status j = ''queued''
        \<and> targets (e_jobs db') = targets (e_jobs db) @ new
        \<and> map t_device_id new = map TrimSpace (Split (CHR '','') (Join (CHR '','') (rq_device_ids q)))
        \<and> list_all (approved_binding env r q (e_devices db)) new)"

lemma dispatch_approved_ok:
  assumes "dispatch_approved env now r q reason cnt db = (db', resp)" "ep_status resp < 400"
  shows "\<exists>jobID. resp = ApprovalDispatched jobID \<and> dispatched_by env r q jobID db db'
    \<and> e_decisions db' = e_decisions db \<and> e_requests db' = e_requests (decide_request env (rq_id q) ''dispatched'' (rUserID (er_auth r)) db)
    \<and> e_job_approvals db' = e_job_approvals db @ [(jobID, rq_id q)] \<and> rq_id q \<notin> snd ` set (e_job_approvals db)
    \<and> still_pending (rq_id q) db = 1"
proof -
  obtain opd po where op: "map_of operationRegistry (rq_action_name q) = Some opd" "payload_object (rq_operation_payload q) = Some po"
    using assms by (cases "map_of operationRegistry (rq_action_name q)"; cases "payload_object (rq_operation_payload q)")
      (auto simp: dispatch_approved_def)
  define av where "av = (case rq_schedule_at q of Some t \<Rightarrow> if now < t then t else now | None \<Rightarrow> now)"
  define ids where "ids = Split (CHR '','') (Join (CHR '','') (rq_device_ids q))"
  define job where "job = endpoint_job (ee_fresh env 0) (er_msp_id r) (opJobType opd) (rq_operation_payload q) (av + 24 * Hour) None
                        (coalesce (rq_request_hash q)) (coalesce (rq_correlation_id q)) av"
  note defs = op dispatch_approved_def Let_def av_def [symmetric] ids_def [symmetric] job_def [symmetric]
  obtain db1 where j: "insert_job env (rq_client_id q) (rq_site_id q) (Some (rq_id q)) job db = Some db1"
    using assms by (cases "insert_job env (rq_client_id q) (rq_site_id q) (Some (rq_id q)) job db") (auto simp: defs)
  obtain db2 where t: "approved_targets env now r q opd av 0 ids db1 = (db2, None)"
  proof (cases "approved_targets env now r q opd av 0 ids db1")
    case (Pair d o')
    then show ?thesis using assms j that by (cases o') (auto simp: defs dest!: approved_targets_error)
  qed
  have fin: "ee_ok env ''finalize'' 0" "still_pending (rq_id q) db2 = 1"
    using assms j t by (auto simp: defs split: if_splits)
  obtain entry where e: "db' = (decide_request env (rq_id q) ''dispatched'' (rUserID (er_auth r)) db2)\<lparr>e_evidence := entry\<rparr>"
      "resp = ApprovalDispatched (ee_fresh env 0)"
    using assms j t fin by (auto simp: defs split: option.splits dest!: writeEvidence_Some)
  from insert_job_Some [OF j] obtain c s where c: "jobs (e_jobs db1) = jobs (e_jobs db) @ [job\<lparr>j_client_id := c, j_site_id := s\<rparr>]"
      "targets (e_jobs db1) = targets (e_jobs db)" "e_devices db1 = e_devices db" "e_requests db1 = e_requests db"
      "e_decisions db1 = e_decisions db" "e_job_approvals db1 = e_job_approvals db @ [(ee_fresh env 0, rq_id q)]"
      "rq_id q \<notin> snd ` set (e_job_approvals db)"
    by (auto simp: job_def endpoint_job_def)
  from approved_targets_ok [OF t] c obtain new where new: "same_tables db1 db2" "targets (e_jobs db2) = targets (e_jobs db) @ new"
      "map t_device_id new = map TrimSpace ids" "list_all (approved_binding env r q (e_devices db)) new" by auto
  have "dispatched_by env r q (ee_fresh env 0) db db'"
    unfolding dispatched_by_def ids_def [symmetric] using op c new e
    by (intro exI [of _ "job\<lparr>j_client_id := c, j_site_id := s\<rparr>"] exI [of _ new] exI [of _ opd])
      (simp add: same_tables_def job_def endpoint_job_def)
  then show ?thesis
    using c new e fin by (simp add: same_tables_def decide_request_def still_pending_def)
qed

text \<open>The conditions under which an approval is recorded.\<close>

definition approver_admitted :: "endpoint_env \<Rightarrow> endpoint_request \<Rightarrow> approval_row \<Rightarrow> policySnapshot \<Rightarrow> endpoint_db \<Rightarrow> bool" where
  "approver_admitted env r q p db \<longleftrightarrow>
     q \<in> set (e_requests db) \<and> rq_msp_id q = er_msp_id r \<and> rq_status q = ''pending'' \<and> ee_now env < rq_expires_at q
     \<and> AuthorizeMSPManage (ee_auth_ok env) (ee_auth env) (er_auth r) (er_msp_id r)
     \<and> parsePolicySnapshot (rq_policy_snapshot q) = Some p \<and> 1 \<le> psMinApprovers p
     \<and> (psRequireSeparation p \<longrightarrow> rUserID (er_auth r) \<noteq> rq_requester q)
     \<and> (\<exists>role \<in> set (aRoles (rAuthorization (er_auth r))). role \<in> set (psAllowedRoles p))
     \<and> (\<forall>x \<in> set (e_decisions db). dc_request_id x = rq_id q \<longrightarrow> dc_approver x \<noteq> rUserID (er_auth r))"

definition decision_effect ::
  "endpoint_env \<Rightarrow> endpoint_request \<Rightarrow> approval_row \<Rightarrow> policySnapshot \<Rightarrow> endpoint_db \<Rightarrow> endpoint_db \<Rightarrow> ep_response \<Rightarrow> bool" where
  "decision_effect env r q p db db' resp \<longleftrightarrow>
     (\<exists>reason. e_decisions db' = e_decisions db @ [own_decision r q reason])
     \<and> (int (length (approvals_of (rq_id q) db')) < psMinApprovers p
          \<and> resp = ApprovalPending (psMinApprovers p - int (length (approvals_of (rq_id q) db')))
          \<and> e_requests db' = e_requests db \<and> e_job_approvals db' = e_job_approvals db \<and> e_jobs db' = e_jobs db
        \<or> psMinApprovers p \<le> int (length (approvals_of (rq_id q) db'))
          \<and> (\<exists>jobID. resp = ApprovalDispatched jobID \<and> dispatched_by env r q jobID db db'
               \<and> e_requests db' = e_requests (decide_request env (rq_id q) ''dispatched'' (rUserID (er_auth r)) db)
               \<and> e_job_approvals db' = e_job_approvals db @ [(jobID, rq_id q)] \<and> rq_id q \<notin> snd ` set (e_job_approvals db)))"

lemma record_approval_ok:
  assumes "record_approval env now r q p reason db = (db', resp)" "ep_status resp < 400"
  shows "decision_effect env r q p db db' resp
    \<and> (\<forall>x \<in> set (e_decisions db). dc_request_id x = rq_id q \<longrightarrow> dc_approver x \<noteq> rUserID (er_auth r))"
proof -
  obtain db1 where d: "insert_decision env r q reason db = Some db1"
    using assms by (cases "insert_decision env r q reason db") (auto simp: record_approval_def)
  note db1 = insert_decision_Some [OF d]
  have cnt: "ee_ok env ''count'' 0" using assms d by (auto simp: record_approval_def Let_def split: if_splits)
  show ?thesis
  proof (cases "int (length (approvals_of (rq_id q) db1)) < psMinApprovers p")
    case True
    then show ?thesis
      using assms d cnt db1
      by (auto simp: record_approval_def Let_def decision_effect_def approvals_of_def split: if_splits option.splits
          dest!: writeEvidence_Some)
  next
    case False
    then have "dispatch_approved env now r q reason (length (approvals_of (rq_id q) db1)) db1 = (db', resp)"
      using assms d cnt by (simp add: record_approval_def Let_def)
    from dispatch_approved_ok [OF this assms(2)] obtain jobID where j: "resp = ApprovalDispatched jobID"
        "dispatched_by env r q jobID db1 db'" "e_decisions db' = e_decisions db1"
        "e_requests db' = e_requests (decide_request env (rq_id q) ''dispatched'' (rUserID (er_auth r)) db1)"
        "e_job_approvals db' = e_job_approvals db1 @ [(jobID, rq_id q)]" "rq_id q \<notin> snd ` set (e_job_approvals db1)" by blast
    have "approvals_of (rq_id q) db' = approvals_of (rq_id q) db1" using j(3) by (simp add: approvals_of_def)
    moreover have "dispatched_by env r q jobID db db'" using j(2) db1 by (simp add: dispatched_by_def)
    moreover have "\<exists>reason. e_decisions db' = e_decisions db @ [own_decision r q reason]" using j(3) db1 by auto
    ultimately show ?thesis
      using j(1,4,5,6) False db1 by (simp add: decision_effect_def decide_request_def)
  qed
qed

lemma handleApproveRequest_ok:
  assumes "handleApproveRequest env now r k body db = (db', resp)" "ep_status resp < 400"
  shows "\<exists>q p. ee_cast env k = Some (rq_id q) \<and> approver_admitted env r q p db \<and> decision_effect env r q p db db' resp"
proof -
  have base: "er_msp_id r \<noteq> []" "rUserID (er_auth r) \<noteq> []" "ee_uuid env k"
      "AuthorizeMSPManage (ee_auth_ok env) (ee_auth env) (er_auth r) (er_msp_id r)"
    using assms by (auto simp: handleApproveRequest_def split: if_splits)
  obtain reason where reason: "decode_decision body = Some reason"
    using assms base by (cases "decode_decision body") (auto simp: handleApproveRequest_def)
  obtain q where q: "find_request env k (er_msp_id r) db = Some q"
    using assms base reason by (cases "find_request env k (er_msp_id r) db") (auto simp: handleApproveRequest_def)
  have g: "first_error (approve_guards env r q) = None"
  proof (cases "first_error (approve_guards env r q)")
    case (Some e)
    have "400 \<le> ep_status e" by (rule first_error_status [OF Some]) (simp add: approve_guards_def)
    then show ?thesis using assms base reason q Some by (simp add: handleApproveRequest_def)
  qed
  then obtain p where p: "parsePolicySnapshot (rq_policy_snapshot q) = Some p" "rq_status q = ''pending''" "ee_now env < rq_expires_at q"
      "1 \<le> psMinApprovers p"
    by (cases "parsePolicySnapshot (rq_policy_snapshot q)") (auto simp: first_error_None approve_guards_def)
  have h: "first_error (approver_guards r q p) = None"
  proof (cases "first_error (approver_guards r q p)")
    case (Some e)
    have "400 \<le> ep_status e" by (rule first_error_status [OF Some]) (simp add: approver_guards_def)
    then show ?thesis using assms base reason q g p Some by (simp add: handleApproveRequest_def)
  qed
  have rec: "record_approval env now r q p reason db = (db', resp)"
    using assms base reason q g p h by (simp add: handleApproveRequest_def)
  have "(psRequireSeparation p \<longrightarrow> rUserID (er_auth r) \<noteq> rq_requester q)
      \<and> (\<exists>role \<in> set (aRoles (rAuthorization (er_auth r))). role \<in> set (psAllowedRoles p))"
    using h by (auto simp: first_error_None approver_guards_def list_ex_iff)
  then show ?thesis
    using find_request_Some [OF q] base p record_approval_ok [OF rec assms(2)]
    by (intro exI [of _ q] exI [of _ p]) (simp add: approver_admitted_def)
qed

lemma handleRejectRequest_ok:
  assumes "handleRejectRequest env r k db = (db', resp)" "ep_status resp < 400"
  shows "\<exists>q. q \<in> set (e_requests db) \<and> rq_msp_id q = er_msp_id r \<and> rq_status q = ''pending'' \<and> rUserID (er_auth r) \<noteq> rq_requester q
    \<and> e_requests db' = e_requests (decide_request env (rq_id q) ''rejected'' (rUserID (er_auth r)) db)
    \<and> e_decisions db' = e_decisions db \<and> e_job_approvals db' = e_job_approvals db"
  using assms
  by (auto simp: handleRejectRequest_def Let_def split: if_splits option.splits dest!: find_request_Some writeEvidence_Some)

lemma handleCancelApprovalRequest_ok:
  assumes "handleCancelApprovalRequest env r k db = (db', resp)" "ep_status resp < 400"
  shows "\<exists>q. q \<in> set (e_requests db) \<and> rq_msp_id q = er_msp_id r \<and> rq_status q = ''pending'' \<and> rUserID (er_auth r) = rq_requester q
    \<and> e_requests db' = e_requests (decide_request env (rq_id q) ''cancelled'' (rUserID (er_auth r)) db)
    \<and> e_decisions db' = e_decisions db \<and> e_job_approvals db' = e_job_approvals db"
  using assms
  by (auto simp: handleCancelApprovalRequest_def Let_def split: if_splits option.splits dest!: find_request_Some writeEvidence_Some)

text \<open>The row that a creation adds.\<close>

definition created_row :: "endpoint_env \<Rightarrow> endpoint_request \<Rightarrow> approval_request \<Rightarrow> ApprovalPolicy \<Rightarrow> approval_row \<Rightarrow> bool" where
  "created_row env r q p row \<longleftrightarrow>
     rq_msp_id row = er_msp_id r \<and> rq_requester row = rUserID (er_auth r) \<and> rq_status row = ''pending''
     \<and> rq_action_name row = acActionName q \<and> rq_policy_snapshot row = policy_json p
     \<and> rq_operation_payload row = operation_payload q \<and> rq_expires_at row = ee_now env + apApprovalExpiresSec p * Second"

lemma insert_request_Some:
  assumes "insert_request env ids scope q db = Some db'"
  shows "\<exists>devs c s. db' = db\<lparr>e_requests := e_requests db @ [q\<lparr>rq_device_ids := devs, rq_client_id := c, rq_site_id := s\<rparr>]\<rparr>
    \<and> those (map (ee_cast env) ids) = Some devs \<and> rq_id q \<notin> rq_id ` set (e_requests db)"
  using assms unfolding insert_request_def list_ex_iff
  by (auto split: option.splits if_splits)

lemma store_request_ok:
  assumes "store_request env r q p ids scope key h db = (db', resp)" "ep_status resp < 400"
  shows "\<exists>row. resp = ApprovalCreated (rq_id row) \<and> e_requests db' = e_requests db @ [row] \<and> created_row env r q p row
    \<and> rq_id row \<notin> rq_id ` set (e_requests db) \<and> e_decisions db' = e_decisions db \<and> e_job_approvals db' = e_job_approvals db
    \<and> e_jobs db' = e_jobs db"
  using assms
  by (auto simp: store_request_def Let_def created_row_def simp del: ep_status.simps split: option.splits
      dest!: writeEvidence_Some insert_request_Some) simp_all

lemma approval_scope_error: "approval_scope env r q n cs ids db = Inl e \<Longrightarrow> 400 \<le> ep_status e"
proof (induction ids arbitrary: n cs)
  case (Cons v rest)
  obtain c s where "cs = (c, s)" by (cases cs)
  with Cons show ?case by (auto simp: Let_def split: query.splits if_splits)
next
  case Nil
  then show ?case by (cases cs) simp
qed

lemma earlier_approval_reply:
  "earlier_approval env m key h db = Some e \<Longrightarrow> 400 \<le> ep_status e \<or> (\<exists>k st. e = DuplicateRequest k st)"
  by (auto simp: earlier_approval_def split: if_splits option.splits)

lemma handleCreateApprovalRequest_ok:
  assumes "handleCreateApprovalRequest env r body db = (db', resp)" "ep_status resp < 400"
  shows "db' = db \<and> (\<exists>k st. resp = DuplicateRequest k st)
    \<or> (\<exists>q p row. decode_approval_request body = Some q \<and> approval_policy env (er_msp_id r) (acActionName q) db = Some p
         \<and> apApprovalRequired p \<and> resp = ApprovalCreated (rq_id row) \<and> e_requests db' = e_requests db @ [row]
         \<and> created_row env r q p row \<and> rq_id row \<notin> rq_id ` set (e_requests db)
         \<and> e_decisions db' = e_decisions db \<and> e_job_approvals db' = e_job_approvals db \<and> e_jobs db' = e_jobs db)"
proof -
  have base: "er_msp_id r \<noteq> []" "rUserID (er_auth r) \<noteq> []"
      "AuthorizeMSPManage (ee_auth_ok env) (ee_auth env) (er_auth r) (er_msp_id r)"
    using assms by (auto simp: handleCreateApprovalRequest_def split: if_splits)
  obtain q where q: "decode_approval_request body = Some q"
    using assms base by (cases "decode_approval_request body") (auto simp: handleCreateApprovalRequest_def)
  obtain opd where opd: "(if acDeviceIDs q = [] \<or> 100 < length (acDeviceIDs q) then None
      else map_of operationRegistry (acActionName q)) = Some opd"
    using assms base q
    by (cases "if acDeviceIDs q = [] \<or> 100 < length (acDeviceIDs q) then None else map_of operationRegistry (acActionName q)")
      (auto simp: handleCreateApprovalRequest_def)
  have g: "first_error (approval_guards opd q) = None"
  proof (cases "first_error (approval_guards opd q)")
    case (Some e)
    have "400 \<le> ep_status e" by (rule first_error_status [OF Some]) (simp add: approval_guards_def)
    then show ?thesis using assms base q opd Some by (simp add: handleCreateApprovalRequest_def)
  qed
  obtain p where p: "approval_policy env (er_msp_id r) (acActionName q) db = Some p"
    using assms base q opd g
    by (cases "approval_policy env (er_msp_id r) (acActionName q) db") (auto simp: handleCreateApprovalRequest_def)
  have h: "first_error (policy_guards env r q p) = None"
  proof (cases "first_error (policy_guards env r q p)")
    case (Some e)
    have "400 \<le> ep_status e" by (rule first_error_status [OF Some]) (simp add: policy_guards_def)
    then show ?thesis using assms base q opd g p Some by (simp add: handleCreateApprovalRequest_def)
  qed
  then have req: "apApprovalRequired p" by (simp add: first_error_None policy_guards_def)
  obtain v vs where ids: "map_option sort (approval_ids (ee_uuid env) [] (acDeviceIDs q)) = Some (v # vs)"
    using assms base q opd g p h
    by (auto simp: handleCreateApprovalRequest_def split: option.splits list.splits)
  obtain scope where scope: "approval_scope env r q 0 ([], []) (v # vs) db = Inr scope"
  proof (cases "approval_scope env r q 0 ([], []) (v # vs) db")
    case (Inl e)
    with approval_scope_error [OF Inl] show ?thesis using assms base q opd g p h ids
      by (simp add: handleCreateApprovalRequest_def)
  qed
  obtain key where key: "validateIdempotencyKey r = Some key"
    using assms base q opd g p h ids scope by (cases "validateIdempotencyKey r") (auto simp: handleCreateApprovalRequest_def)
  define hash where "hash = ee_hash env (JObj [(''device_ids'', JArr (map JStr (v # vs))), (''operation'', operation_payload q),
                             (''policy'', policy_json p)])"
  have body: "(case earlier_approval env (er_msp_id r) key hash db of Some e \<Rightarrow> (db, e)
      | None \<Rightarrow> store_request env r q p (v # vs) scope key hash db) = (db', resp)"
    using assms(1) base q opd g p h ids scope key unfolding hash_def
    by (simp add: handleCreateApprovalRequest_def Let_def del: list.map)
  show ?thesis
  proof (cases "earlier_approval env (er_msp_id r) key hash db")
    case (Some e)
    then show ?thesis using body earlier_approval_reply [OF Some] assms(2) by auto
  next
    case None
    then have "store_request env r q p (v # vs) scope key hash db = (db', resp)" using body by simp
    from store_request_ok [OF this assms(2)] show ?thesis using q p req by blast
  qed
qed

section \<open>Histories\<close>

text \<open>
  One step of the approval tables: a request to one of the four endpoints with any environment, a run of the
  expiry, or any other work of the system, which leaves the three tables alone.
\<close>

inductive approval_step :: "endpoint_db \<Rightarrow> endpoint_db \<Rightarrow> bool" where
  create: "endpointTransaction ok (handleCreateApprovalRequest env r body) db = (db', resp) \<Longrightarrow> approval_step db db'"
| approve: "endpointTransaction ok (handleApproveRequest env now r k dbody) db = (db', resp) \<Longrightarrow> approval_step db db'"
| reject: "endpointTransaction ok (handleRejectRequest env r k) db = (db', resp) \<Longrightarrow> approval_step db db'"
| cancel: "endpointTransaction ok (handleCancelApprovalRequest env r k) db = (db', resp) \<Longrightarrow> approval_step db db'"
| expire: "db' = expirePendingApprovals ok now db \<Longrightarrow> approval_step db db'"
| other: "e_requests db' = e_requests db \<Longrightarrow> e_decisions db' = e_decisions db \<Longrightarrow> e_job_approvals db' = e_job_approvals db
          \<Longrightarrow> approval_step db db'"

text \<open>
  The same step as a change of the tables: nothing; a new pending request with a policy as its snapshot; a new
  approval, which dispatches the request when it completes the quorum; or decisions on pending requests that are
  not dispatches.
\<close>

definition adds_request :: "endpoint_db \<Rightarrow> endpoint_db \<Rightarrow> bool" where
  "adds_request db db' \<longleftrightarrow> (\<exists>row p. e_requests db' = e_requests db @ [row] \<and> rq_status row = ''pending''
     \<and> rq_policy_snapshot row = policy_json p \<and> apApprovalRequired p \<and> rq_id row \<notin> rq_id ` set (e_requests db)
     \<and> e_decisions db' = e_decisions db \<and> e_job_approvals db' = e_job_approvals db)"

definition closes_requests :: "endpoint_db \<Rightarrow> endpoint_db \<Rightarrow> bool" where
  "closes_requests db db' \<longleftrightarrow> e_decisions db' = e_decisions db \<and> e_job_approvals db' = e_job_approvals db
     \<and> list_all2 (\<lambda>q q'. q' = q \<or> rq_status q = ''pending'' \<and> List.member [''rejected'', ''cancelled'', ''expired''] (rq_status q')
          \<and> (\<exists>st at' who. q' = q\<lparr>rq_status := st, rq_decided_at := at', rq_decided_by := who\<rparr>)) (e_requests db) (e_requests db')"

definition adds_approval :: "endpoint_db \<Rightarrow> endpoint_db \<Rightarrow> bool" where
  "adds_approval db db' \<longleftrightarrow> (\<exists>env r q p resp. approver_admitted env r q p db \<and> decision_effect env r q p db db' resp)"

lemma decide_closes:
  assumes "e_requests db' = e_requests (decide_request env k st u db)" "e_decisions db' = e_decisions db"
    "e_job_approvals db' = e_job_approvals db" "st = ''rejected'' \<or> st = ''cancelled''"
  shows "closes_requests db db'"
  using assms(4) unfolding closes_requests_def assms(1-3)
  by (auto simp: decide_request_def list_all2_conv_all_nth intro!: exI)

lemma approval_step_cases:
  assumes "approval_step db db'"
  shows "(e_requests db' = e_requests db \<and> e_decisions db' = e_decisions db \<and> e_job_approvals db' = e_job_approvals db)
    \<or> adds_request db db' \<or> closes_requests db db' \<or> adds_approval db db'"
  using assms
proof cases
  case (create ok env r body resp)
  show ?thesis
  proof (cases "400 \<le> ep_status resp")
    case True
    then show ?thesis using endpointTransaction_aborts [OF create] by simp
  next
    case False
    with endpointTransaction_commits [OF create] have h: "handleCreateApprovalRequest env r body db = (db', resp)" by simp
    from handleCreateApprovalRequest_ok [OF h] False show ?thesis
      unfolding adds_request_def created_row_def by auto
  qed
next
  case (approve ok env now r k dbody resp)
  show ?thesis
  proof (cases "400 \<le> ep_status resp")
    case True
    then show ?thesis using endpointTransaction_aborts [OF approve] by simp
  next
    case False
    with endpointTransaction_commits [OF approve] have h: "handleApproveRequest env now r k dbody db = (db', resp)" by simp
    from handleApproveRequest_ok [OF h] False show ?thesis unfolding adds_approval_def by auto
  qed
next
  case (reject ok env r k resp)
  show ?thesis
  proof (cases "400 \<le> ep_status resp")
    case True
    then show ?thesis using endpointTransaction_aborts [OF reject] by simp
  next
    case False
    with endpointTransaction_commits [OF reject] have h: "handleRejectRequest env r k db = (db', resp)" by simp
    from handleRejectRequest_ok [OF h] False show ?thesis by (auto intro: decide_closes)
  qed
next
  case (cancel ok env r k resp)
  show ?thesis
  proof (cases "400 \<le> ep_status resp")
    case True
    then show ?thesis using endpointTransaction_aborts [OF cancel] by simp
  next
    case False
    with endpointTransaction_commits [OF cancel] have h: "handleCancelApprovalRequest env r k db = (db', resp)" by simp
    from handleCancelApprovalRequest_ok [OF h] False show ?thesis by (auto intro: decide_closes)
  qed
next
  case (expire ok now)
  have same: "q\<lparr>rq_status := ''expired''\<rparr> =
      q\<lparr>rq_status := ''expired'', rq_decided_at := rq_decided_at q, rq_decided_by := rq_decided_by q\<rparr>" for q :: approval_row
    by simp
  have "closes_requests db db'" if ok
    using that unfolding closes_requests_def expire expirePendingApprovals_def
    by (simp add: list.rel_map list_all2_same) (intro ballI impI disjI2 exI, rule same)
  then show ?thesis using expire by (auto simp: expirePendingApprovals_def)
next
  case other
  then show ?thesis by blast
qed

section \<open>The quorum\<close>

definition approvers :: "string \<Rightarrow> endpoint_db \<Rightarrow> string set" where
  "approvers k db = dc_approver ` set (approvals_of k db)"

text \<open>
  A decision belongs to a request and respects its separation of duties; a dispatched request has its quorum of
  different approvers; a request has at most one job, and only when it is dispatched.
\<close>

definition decision_ok :: "approval_row list \<Rightarrow> decision_row \<Rightarrow> bool" where
  "decision_ok qs x \<longleftrightarrow> (\<exists>q \<in> set qs. \<exists>p. rq_id q = dc_request_id x \<and> parsePolicySnapshot (rq_policy_snapshot q) = Some p
     \<and> (psRequireSeparation p \<longrightarrow> dc_approver x \<noteq> rq_requester q))"

definition quorum_ok :: "endpoint_db \<Rightarrow> approval_row \<Rightarrow> bool" where
  "quorum_ok db q \<longleftrightarrow> (rq_status q = ''dispatched'' \<longrightarrow> (\<exists>p. parsePolicySnapshot (rq_policy_snapshot q) = Some p
     \<and> 1 \<le> psMinApprovers p \<and> psMinApprovers p \<le> int (card (approvers (rq_id q) db))))"

definition jobs_backed :: "approval_row list \<Rightarrow> (string \<times> string) list \<Rightarrow> bool" where
  "jobs_backed qs js \<longleftrightarrow> (\<forall>a \<in> snd ` set js. \<exists>q \<in> set qs. rq_id q = a \<and> rq_status q = ''dispatched'')"

definition approvals_ok :: "endpoint_db \<Rightarrow> bool" where
  "approvals_ok db \<longleftrightarrow> distinct (map rq_id (e_requests db))
     \<and> distinct (map (\<lambda>x. (dc_request_id x, dc_approver x)) (e_decisions db))
     \<and> list_all (decision_ok (e_requests db)) (e_decisions db) \<and> list_all (quorum_ok db) (e_requests db)
     \<and> distinct (map snd (e_job_approvals db))
     \<and> jobs_backed (e_requests db) (e_job_approvals db)"

lemma card_approvers:
  assumes "distinct (map (\<lambda>x. (dc_request_id x, dc_approver x)) (e_decisions db))"
  shows "card (approvers k db) = length (approvals_of k db)"
proof -
  have "distinct (map dc_approver (filter (\<lambda>x. dc_request_id x = k \<and> dc_decision x = ''approved'') ds))"
    if "distinct (map (\<lambda>x. (dc_request_id x, dc_approver x)) ds)" for ds
    using that by (induction ds) (auto simp: image_iff)
  from distinct_card [OF this [OF assms]] show ?thesis by (simp add: approvers_def approvals_of_def)
qed

text \<open>Rows may close, but keep what the invariant reads.\<close>

definition row_kept :: "approval_row \<Rightarrow> approval_row \<Rightarrow> bool" where
  "row_kept q q' \<longleftrightarrow> rq_id q' = rq_id q \<and> rq_requester q' = rq_requester q \<and> rq_policy_snapshot q' = rq_policy_snapshot q
     \<and> (rq_status q \<noteq> ''pending'' \<longrightarrow> q' = q)"

lemma kept_ids: "list_all2 row_kept qs qs' \<Longrightarrow> map rq_id qs' = map rq_id qs"
  by (induction rule: list_all2_induct) (auto simp: row_kept_def)

lemma kept_row: "list_all2 row_kept qs qs' \<Longrightarrow> q \<in> set qs \<Longrightarrow> \<exists>q' \<in> set qs'. row_kept q q'"
  by (induction rule: list_all2_induct) auto

lemma kept_row_back: "list_all2 row_kept qs qs' \<Longrightarrow> q' \<in> set qs' \<Longrightarrow> \<exists>q \<in> set qs. row_kept q q'"
  by (induction rule: list_all2_induct) auto

lemma kept_decisions: "list_all2 row_kept qs qs' \<Longrightarrow> decision_ok qs x \<Longrightarrow> decision_ok qs' x"
  unfolding decision_ok_def by (metis kept_row row_kept_def)

lemma kept_jobs:
  assumes "list_all2 row_kept qs qs'" "jobs_backed qs js"
  shows "jobs_backed qs' js"
proof -
  have "q \<in> set qs'" if "q \<in> set qs" "rq_status q = ''dispatched''" for q
  proof -
    from kept_row [OF assms(1) that(1)] obtain q' where "q' \<in> set qs'" "row_kept q q'" by blast
    moreover have "q' = q" using \<open>row_kept q q'\<close> that(2) by (simp add: row_kept_def)
    ultimately show ?thesis by simp
  qed
  then show ?thesis using assms(2) unfolding jobs_backed_def by blast
qed

lemma closes_kept: "closes_requests db db' \<Longrightarrow> list_all2 row_kept (e_requests db) (e_requests db')"
  unfolding closes_requests_def by (auto elim!: list_all2_mono simp: row_kept_def)

lemma decide_kept: "list_all2 row_kept (e_requests db) (e_requests (decide_request env k st u db))"
  by (auto simp: decide_request_def list_all2_conv_all_nth row_kept_def)

lemma adds_request_ok:
  assumes "approvals_ok db" "adds_request db db'"
  shows "approvals_ok db'"
proof -
  from assms(2) obtain row where row: "e_requests db' = e_requests db @ [row]" "rq_status row = ''pending''"
      "rq_id row \<notin> rq_id ` set (e_requests db)" "e_decisions db' = e_decisions db" "e_job_approvals db' = e_job_approvals db"
    unfolding adds_request_def by blast
  have "decision_ok (e_requests db) x \<Longrightarrow> decision_ok (e_requests db') x" for x
    by (auto simp: decision_ok_def row(1))
  moreover have "jobs_backed (e_requests db) js \<Longrightarrow> jobs_backed (e_requests db') js" for js
    unfolding jobs_backed_def row(1) set_append by blast
  moreover have "quorum_ok db' x = quorum_ok db x" for x by (simp add: quorum_ok_def approvers_def approvals_of_def row(4))
  moreover have "quorum_ok db' row" by (simp add: quorum_ok_def row(2))
  ultimately show ?thesis
    using assms(1) row by (simp add: approvals_ok_def list_all_iff)
qed

lemma closes_requests_ok:
  assumes "approvals_ok db" "closes_requests db db'"
  shows "approvals_ok db'"
proof -
  note k = closes_kept [OF assms(2)]
  have e: "e_decisions db' = e_decisions db" "e_job_approvals db' = e_job_approvals db"
    using assms(2) by (auto simp: closes_requests_def)
  then have ap: "approvers i db' = approvers i db" for i by (simp add: approvers_def approvals_of_def)
  have "quorum_ok db' q'" if "q' \<in> set (e_requests db')" for q'
  proof -
    from that obtain n where n: "n < length (e_requests db')" "q' = e_requests db' ! n" by (auto simp: in_set_conv_nth)
    with assms(2) have "q' = e_requests db ! n \<or> List.member [''rejected'', ''cancelled'', ''expired''] (rq_status q')"
      "n < length (e_requests db)" by (auto simp: closes_requests_def list_all2_conv_all_nth)
    with assms(1) show ?thesis by (auto simp: approvals_ok_def quorum_ok_def list_all_iff ap)
  qed
  then show ?thesis
    using assms(1) kept_ids [OF k] kept_decisions [OF k] kept_jobs [OF k]
    unfolding approvals_ok_def e by (simp add: list_all_iff [where P = "decision_ok _"] list_all_iff [where P = "quorum_ok _"])
qed

lemma adds_approval_ok:
  assumes "approvals_ok db" "adds_approval db db'"
  shows "approvals_ok db'"
proof -
  from assms(2) obtain env r q p resp where a: "approver_admitted env r q p db" "decision_effect env r q p db db' resp"
    by (auto simp: adds_approval_def)
  then obtain reason where d: "e_decisions db' = e_decisions db @ [own_decision r q reason]" by (auto simp: decision_effect_def)
  have q: "q \<in> set (e_requests db)" "parsePolicySnapshot (rq_policy_snapshot q) = Some p" "1 \<le> psMinApprovers p"
      "psRequireSeparation p \<longrightarrow> rUserID (er_auth r) \<noteq> rq_requester q" "rq_status q = ''pending''"
    using a(1) by (auto simp: approver_admitted_def)
  have dist: "distinct (map (\<lambda>x. (dc_request_id x, dc_approver x)) (e_decisions db'))"
    using assms(1) a(1) by (auto simp: approvals_ok_def approver_admitted_def d own_decision_def)
  have sub: "approvers i db \<subseteq> approvers i db'" for i by (auto simp: approvers_def approvals_of_def d)
  have fin: "finite (approvers i db')" for i by (simp add: approvers_def)
  have dec: "list_all (decision_ok (e_requests db)) (e_decisions db')"
    using assms(1) q by (auto simp: approvals_ok_def d decision_ok_def own_decision_def)
  have old: "quorum_ok db' x" if "x \<in> set (e_requests db)" for x
    using assms(1) that card_mono [OF fin sub, of "rq_id x"] by (fastforce simp: approvals_ok_def quorum_ok_def list_all_iff)
  consider (pending) "e_requests db' = e_requests db" "e_job_approvals db' = e_job_approvals db"
    | (dispatched) jobID where "psMinApprovers p \<le> int (length (approvals_of (rq_id q) db'))"
        "e_requests db' = e_requests (decide_request env (rq_id q) ''dispatched'' (rUserID (er_auth r)) db)"
        "e_job_approvals db' = e_job_approvals db @ [(jobID, rq_id q)]" "rq_id q \<notin> snd ` set (e_job_approvals db)"
    using a(2) by (auto simp: decision_effect_def)
  then show ?thesis
  proof cases
    case pending
    then show ?thesis using assms(1) dist dec old by (auto simp: approvals_ok_def list_all_iff)
  next
    case dispatched
    note k = decide_kept [of db env "rq_id q" "''dispatched''" "rUserID (er_auth r)", folded dispatched(2)]
    let ?q = "q\<lparr>rq_status := ''dispatched'', rq_decided_at := Some (ee_sql_now env), rq_decided_by := Some (rUserID (er_auth r))\<rparr>"
    have new: "?q \<in> set (e_requests db')" using q(1,5) by (auto simp: dispatched(2) decide_request_def image_iff)
    have "quorum_ok db' x'" if x': "x' \<in> set (e_requests db')" for x'
    proof (cases "rq_id x' = rq_id q")
      case True
      from kept_row_back [OF k x'] obtain x where x: "x \<in> set (e_requests db)" "row_kept x x'" by blast
      then have "x = q" using True q(1) assms(1) by (auto simp: row_kept_def approvals_ok_def distinct_map inj_on_def)
      then have "rq_policy_snapshot x' = rq_policy_snapshot q" using x by (simp add: row_kept_def)
      then show ?thesis using dispatched(1) q card_approvers [OF dist] True by (simp add: quorum_ok_def)
    next
      case False
      with x' have "x' \<in> set (e_requests db)" by (auto simp: dispatched(2) decide_request_def split: if_splits)
      then show ?thesis by (rule old)
    qed
    moreover have "jobs_backed (e_requests db') (e_job_approvals db')"
      using kept_jobs [OF k, of "e_job_approvals db"] assms(1) bexI [OF _ new] by (simp add: dispatched(3) approvals_ok_def jobs_backed_def)
    ultimately show ?thesis
      using assms(1) dist dec dispatched(3,4) kept_ids [OF k] kept_decisions [OF k]
      unfolding approvals_ok_def by (auto simp: list_all_iff [where P = "decision_ok _"] list_all_iff [where P = "quorum_ok _"])
  qed
qed

lemma approvals_ok_cong:
  assumes "e_requests db' = e_requests db" "e_decisions db' = e_decisions db" "e_job_approvals db' = e_job_approvals db"
  shows "approvals_ok db' = approvals_ok db"
proof -
  have "quorum_ok db' = quorum_ok db" by (simp add: fun_eq_iff quorum_ok_def approvers_def approvals_of_def assms)
  then show ?thesis by (simp add: approvals_ok_def assms)
qed

lemma approval_step_ok: "approval_step db db' \<Longrightarrow> approvals_ok db \<Longrightarrow> approvals_ok db'"
  using approval_step_cases [of db db'] approvals_ok_cong [of db' db]
  by (blast intro: adds_request_ok closes_requests_ok adds_approval_ok)

lemma approval_history_ok: "approval_step\<^sup>*\<^sup>* db db' \<Longrightarrow> approvals_ok db \<Longrightarrow> approvals_ok db'"
  by (induction rule: rtranclp_induct) (auto intro: approval_step_ok)

lemma separated_approvers:
  assumes "approvals_ok db" "q \<in> set (e_requests db)" "parsePolicySnapshot (rq_policy_snapshot q) = Some p" "psRequireSeparation p"
  shows "rq_requester q \<notin> approvers (rq_id q) db"
proof
  assume "rq_requester q \<in> approvers (rq_id q) db"
  then obtain x where x: "x \<in> set (e_decisions db)" "dc_request_id x = rq_id q" "dc_approver x = rq_requester q"
    by (auto simp: approvers_def approvals_of_def)
  with assms(1) obtain q' p' where q': "q' \<in> set (e_requests db)" "rq_id q' = rq_id q"
      "parsePolicySnapshot (rq_policy_snapshot q') = Some p'" "psRequireSeparation p' \<longrightarrow> dc_approver x \<noteq> rq_requester q'"
    by (auto simp: approvals_ok_def list_all_iff decision_ok_def)
  have "q' = q" using q'(1,2) assms(1,2) by (auto simp: approvals_ok_def distinct_map inj_on_def)
  with q' x assms show False by simp
qed

text \<open>
  C24. Over any history of the approval endpoints, of the expiry and of other work, a request that is dispatched has
  the quorum of its stored policy: at least one, and at least as many different approvers as the policy asks for,
  none of them the requester when duties are separated; every request has at most one job, and only a
  dispatched one has a job.
\<close>

theorem approval_quorum:
  assumes "approvals_ok db" "approval_step\<^sup>*\<^sup>* db db'" "q \<in> set (e_requests db')"
  shows "(rq_status q = ''dispatched'' \<longrightarrow> (\<exists>p. parsePolicySnapshot (rq_policy_snapshot q) = Some p \<and> 1 \<le> psMinApprovers p
           \<and> psMinApprovers p \<le> int (card (approvers (rq_id q) db'))
           \<and> (psRequireSeparation p \<longrightarrow> rq_requester q \<notin> approvers (rq_id q) db')))
    \<and> length (filter (\<lambda>(_, a). a = rq_id q) (e_job_approvals db')) \<le> (if rq_status q = ''dispatched'' then 1 else 0)"
proof -
  have ok: "approvals_ok db'" by (rule approval_history_ok [OF assms(2,1)])
  have jobs: "length (filter (\<lambda>(_, a). a = k) js) \<le> (if k \<in> snd ` set js then 1 else 0)" if "distinct (map snd js)" for k and js :: "(string \<times> string) list"
    using that by (induction js) (auto simp: filter_empty_conv image_iff split: if_splits)
  have "rq_status q = ''dispatched''" if "rq_id q \<in> snd ` set (e_job_approvals db')"
  proof -
    from ok that obtain q' where "q' \<in> set (e_requests db')" "rq_id q' = rq_id q" "rq_status q' = ''dispatched''"
      by (auto simp: approvals_ok_def jobs_backed_def)
    moreover then have "q' = q" using ok assms(3) by (auto simp: approvals_ok_def distinct_map inj_on_def)
    ultimately show ?thesis by simp
  qed
  then show ?thesis
    using ok assms(3) separated_approvers [OF ok assms(3)] jobs [of "e_job_approvals db'" "rq_id q"]
    by (auto simp: approvals_ok_def quorum_ok_def list_all_iff split: if_splits)
qed

text \<open>
  What one approval does: a request answered with an error changes nothing; otherwise the approver may manage the
  tenant, holds one of the roles of the stored policy, has not decided before, and is not the requester when
  duties are separated; the pending, unexpired request gets this decision, and exactly when the quorum is reached
  a single queued job with the approved payload is created whose targets are the devices of the request, each
  bound to its agent inside the client and site of the request.
\<close>

theorem approval_decision:
  assumes "endpointTransaction ok (handleApproveRequest env now r k body) db = (db', resp)"
  shows "(400 \<le> ep_status resp \<longrightarrow> db' = db)
    \<and> (ep_status resp < 400 \<longrightarrow> (\<exists>q p. ee_cast env k = Some (rq_id q) \<and> approver_admitted env r q p db
         \<and> decision_effect env r q p db db' resp))"
  using endpointTransaction_aborts [OF assms] endpointTransaction_commits [OF assms] handleApproveRequest_ok by blast

text \<open>Every row of a table survives a step, unchanged when it was decided.\<close>

lemma approval_step_keeps:
  assumes "approval_step db db'" "q \<in> set (e_requests db)"
  shows "\<exists>q' \<in> set (e_requests db'). row_kept q q'"
proof -
  have refl: "row_kept q q" by (simp add: row_kept_def)
  have ap: "\<exists>q' \<in> set (e_requests db'). row_kept q q'" if "adds_approval db db'"
  proof -
    from that obtain env r qq p resp where "decision_effect env r qq p db db' resp" by (auto simp: adds_approval_def)
    then have "e_requests db' = e_requests db \<or> (\<exists>k st u. e_requests db' = e_requests (decide_request env k st u db))"
      by (auto simp: decision_effect_def)
    then show ?thesis using assms(2) refl kept_row [OF decide_kept assms(2)] by auto
  qed
  show ?thesis
    using approval_step_cases [OF assms(1)] assms(2) refl ap kept_row [OF closes_kept assms(2)] by (auto simp: adds_request_def)
qed

lemma row_kept_trans: "row_kept a b \<Longrightarrow> row_kept b c \<Longrightarrow> row_kept a c"
  by (auto simp: row_kept_def)

text \<open>
  Decided requests are final: over any history a request that is rejected, cancelled, expired or dispatched keeps
  its row unchanged, and no request ever loses its identity, requester or policy snapshot.
\<close>

theorem decided_requests_final:
  assumes "approval_step\<^sup>*\<^sup>* db db'" "q \<in> set (e_requests db)"
  shows "\<exists>q' \<in> set (e_requests db'). rq_id q' = rq_id q \<and> rq_requester q' = rq_requester q
    \<and> rq_policy_snapshot q' = rq_policy_snapshot q \<and> (rq_status q \<noteq> ''pending'' \<longrightarrow> q' = q)"
proof -
  from assms(1) have "\<exists>q' \<in> set (e_requests db'). row_kept q q'"
  proof (induction rule: rtranclp_induct)
    case base
    then show ?case using assms(2) by (auto simp: row_kept_def)
  next
    case (step y z)
    then show ?case by (blast dest: approval_step_keeps intro: row_kept_trans)
  qed
  then show ?thesis by (auto simp: row_kept_def)
qed

section \<open>Stored snapshots cannot be read back\<close>

lemma stored_policy_unreadable [simp]: "parsePolicySnapshot (policy_json p) = None"
proof -
  have "\<not> list_ex (EqualFold ''id'') snapshot_fields" by code_simp
  then show ?thesis by (simp add: parsePolicySnapshot_def policy_json_def dec_object_def known_fields_def)
qed

definition snapshots_stored :: "endpoint_db \<Rightarrow> bool" where
  "snapshots_stored db \<longleftrightarrow> (\<forall>q \<in> set (e_requests db). \<exists>p. rq_policy_snapshot q = policy_json p)"

lemma stored_not_approved: "snapshots_stored db \<Longrightarrow> \<not> adds_approval db db'"
  by (force simp: snapshots_stored_def adds_approval_def approver_admitted_def)

lemma stored_step:
  assumes "approval_step db db'" "snapshots_stored db"
  shows "snapshots_stored db' \<and> e_decisions db' = e_decisions db \<and> e_job_approvals db' = e_job_approvals db"
proof -
  have c: "snapshots_stored db'" if "closes_requests db db'"
    using assms(2) kept_row_back [OF closes_kept [OF that]] unfolding snapshots_stored_def row_kept_def by metis
  show ?thesis
    using approval_step_cases [OF assms(1)] assms(2) c stored_not_approved [OF assms(2)]
    by (auto simp: adds_request_def closes_requests_def snapshots_stored_def)
qed

lemma stored_history:
  "approval_step\<^sup>*\<^sup>* db db' \<Longrightarrow> snapshots_stored db \<Longrightarrow>
     snapshots_stored db' \<and> e_decisions db' = e_decisions db \<and> e_job_approvals db' = e_job_approvals db"
  by (induction rule: rtranclp_induct) (use stored_step in fastforce)+

text \<open>
  Requests that the API creates can never be approved: the stored snapshot carries fields that the strict parser
  of the approval endpoint does not know. Over any history that starts without requests, every attempt to approve
  is answered with an error and no decision and no approved job ever appears.
\<close>

theorem created_requests_never_approved:
  assumes "e_requests db = []" "e_decisions db = []" "approval_step\<^sup>*\<^sup>* db db'"
  shows "e_decisions db' = [] \<and> e_job_approvals db' = e_job_approvals db
    \<and> 400 \<le> ep_status (snd (handleApproveRequest env now r k body db'))"
proof -
  have s: "snapshots_stored db'" "e_decisions db' = []" "e_job_approvals db' = e_job_approvals db"
    using stored_history [OF assms(3)] assms(1,2) by (auto simp: snapshots_stored_def)
  have "False" if "ep_status (snd (handleApproveRequest env now r k body db')) < 400"
  proof -
    obtain d resp where h: "handleApproveRequest env now r k body db' = (d, resp)" by fastforce
    with that handleApproveRequest_ok [OF h] stored_not_approved [OF s(1), of d] show ?thesis
      by (auto simp: adds_approval_def)
  qed
  with s show ?thesis by fastforce
qed

section \<open>Examples\<close>

definition example_reboots :: endpoint_db where
  "example_reboots = example_endpoints\<lparr>e_capabilities := [\<lparr>cp_device_id = ''d'', cp_msp_id = ''m'', cp_agent_version = ''1'',
     cp_protocol_version = 1, cp_os = ''linux'', cp_arch = ''amd64'', cp_supported_job_types = [''device.reboot''], cp_features = JNull,
     cp_inventory_schema = 1, cp_last_updated = 0\<rparr>]\<rparr>"

definition example_reboot_body :: "json wire" where
  "example_reboot_body = Decoded (JObj [(''action_name'', JStr ''reboot''), (''reason'', JStr ''x''), (''device_ids'', JArr [JStr ''d''])])"

definition example_created :: endpoint_db where
  "example_created = fst (endpointTransaction True (handleCreateApprovalRequest example_env example_endpoint_request example_reboot_body)
                            example_reboots)"

lemma example_created_request:
  "map rq_status (e_requests example_created) = [''pending'']" "map rq_requester (e_requests example_created) = [''ann'']"
  by code_simp+

lemma example_created_step: "approval_step example_reboots example_created"
  unfolding example_created_def by (rule approval_step.create [OF prod.collapse [symmetric]])

theorem created_requests_never_approved_witness:
  "approval_step\<^sup>*\<^sup>* example_reboots example_created \<and> length (e_requests example_created) = 1 \<and> e_decisions example_created = []
   \<and> 400 \<le> ep_status (snd (handleApproveRequest example_env 0 example_endpoint_request ''0'' None example_created))"
proof -
  have e: "e_requests example_reboots = []" "e_decisions example_reboots = []"
    by (simp_all add: example_reboots_def example_endpoints_def)
  note s = r_into_rtranclp [of approval_step, OF example_created_step]
  have "length (e_requests example_created) = 1" using example_created_request(1) by (metis length_map length_Cons list.size(3) One_nat_def)
  with s created_requests_never_approved [OF e s, of example_env 0 example_endpoint_request "''0''" None] show ?thesis by blast
qed

text \<open>A request whose snapshot the parser accepts, by another user.\<close>

definition example_snapshot :: json where
  "example_snapshot = JObj [(''approval_required'', JBool True), (''min_approvers'', JNum 1), (''allowed_roles'', JArr [JStr ''msp_admin'']),
     (''require_separation'', JBool True), (''approval_expires_sec'', JNum 3600), (''allow_emergency'', JBool False)]"

definition example_pending :: endpoint_db where
  "example_pending = example_created\<lparr>e_requests := map (\<lambda>q. q\<lparr>rq_policy_snapshot := example_snapshot, rq_requester := ''bob''\<rparr>)
                                                   (e_requests example_created)\<rparr>"

definition example_approved :: "endpoint_db \<times> ep_response" where
  "example_approved = endpointTransaction True (handleApproveRequest example_env 0 example_endpoint_request ''0'' None) example_pending"

lemma example_approved_state:
  "snd example_approved = ApprovalDispatched ''0''" "map rq_status (e_requests (fst example_approved)) = [''dispatched'']"
  by code_simp+

lemma example_pending_ok: "approvals_ok example_pending"
proof -
  have "map rq_status (e_requests example_pending) = [''pending'']" "e_decisions example_pending = []" "e_job_approvals example_pending = []"
    by code_simp+
  then show ?thesis by (auto simp: approvals_ok_def jobs_backed_def quorum_ok_def list_all_iff Cons_eq_map_conv map_eq_Cons_conv)
qed

lemma example_approved_step: "approval_step\<^sup>*\<^sup>* example_pending (fst example_approved)"
  unfolding example_approved_def by (rule r_into_rtranclp, rule approval_step.approve [OF prod.collapse [symmetric]])

theorem approval_quorum_witness:
  "\<exists>q p. q \<in> set (e_requests (fst example_approved)) \<and> rq_status q = ''dispatched''
     \<and> parsePolicySnapshot (rq_policy_snapshot q) = Some p \<and> rq_requester q \<notin> approvers (rq_id q) (fst example_approved)"
proof -
  obtain q where q: "q \<in> set (e_requests (fst example_approved))" "rq_status q = ''dispatched''"
    using example_approved_state(2) by (auto simp: map_eq_Cons_conv)
  have "rq_policy_snapshot q = example_snapshot"
  proof -
    have "map rq_policy_snapshot (e_requests (fst example_approved)) = [example_snapshot]" by code_simp
    with q show ?thesis by (auto simp: map_eq_Cons_conv)
  qed
  moreover have "map_option psRequireSeparation (parsePolicySnapshot example_snapshot) = Some True" by code_simp
  ultimately show ?thesis
    using approval_quorum [OF example_pending_ok example_approved_step q(1)] q by auto
qed

theorem approval_decision_witness:
  "\<exists>q p. approver_admitted example_env example_endpoint_request q p example_pending
     \<and> decision_effect example_env example_endpoint_request q p example_pending (fst example_approved) (ApprovalDispatched ''0'')"
proof -
  have h: "endpointTransaction True (handleApproveRequest example_env 0 example_endpoint_request ''0'' None) example_pending
      = (fst example_approved, ApprovalDispatched ''0'')"
    using example_approved_state(1) by (metis example_approved_def prod.collapse)
  from approval_decision [OF h] show ?thesis by auto
qed

theorem decided_requests_final_witness:
  "\<exists>q q'. q \<in> set (e_requests example_pending) \<and> q' \<in> set (e_requests (fst example_approved))
     \<and> rq_id q' = rq_id q \<and> rq_requester q' = ''bob''"
proof -
  have "map rq_requester (e_requests example_pending) = [''bob'']" by code_simp
  then obtain q where q: "q \<in> set (e_requests example_pending)" "rq_requester q = ''bob''" by (auto simp: map_eq_Cons_conv)
  from decided_requests_final [OF example_approved_step q(1)] q show ?thesis by metis
qed

text \<open>The status table of \<^verbatim>\<open>transitionApprovalStatus\<close> does not contain the move the approval endpoint makes.\<close>

lemma dispatch_not_a_transition: "\<exists>e. transitionApprovalStatus ''pending'' ''dispatched'' = Inl e"
  by (simp add: transitionApprovalStatus_def approval_transitions_def)

text \<open>Both deduplication loops compute the same list.\<close>

lemma approval_ids_bulk: "list_all valid acc \<Longrightarrow> approval_ids valid acc vs = bulk_ids valid acc vs"
  by (induction vs arbitrary: acc) (auto simp: Let_def list_all_iff)

end
