(* ===== verification/Releases.thy ===== *)
theory Releases
  imports GoTime Json "HOL-Library.Product_Lexorder" "HOL-Library.List_Lexorder" "HOL-Library.Char_ord"
begin

text \<open>
  Description of releases (\<^verbatim>\<open>internal/update\<close>): semantic versions (\<^verbatim>\<open>version.go\<close>), the signed
  release manifest with its decoding and validation (\<^verbatim>\<open>manifest.go\<close>), and the selection of the container image
  (\<^verbatim>\<open>oci.go\<close>). The host platform and the JSON text parser are arguments.
\<close>

section \<open>Semantic versions\<close>

record semanticVersion =
  svCore :: "nat list"
  svPrerelease :: "string list"

datatype version_error = VersionEmpty | EmptyPrerelease | NotThreeParts | InvalidNumber | EmptyIdentifier | InvalidIdentifier | LeadingZero

definition TrimPrefix :: "string \<Rightarrow> string \<Rightarrow> string" where
  "TrimPrefix s p = (if HasPrefix s p then drop (length p) s else s)"

definition isNumericIdentifier :: "string \<Rightarrow> bool" where
  "isNumericIdentifier s \<longleftrightarrow> s \<noteq> [] \<and> list_all digit_char s"

definition identifier_char :: "char \<Rightarrow> bool" where
  "identifier_char c =
     (let n = (of_char c :: nat) in (48 \<le> n \<and> n \<le> 57) \<or> (65 \<le> n \<and> n \<le> 90) \<or> (97 \<le> n \<and> n \<le> 122) \<or> c = CHR ''-'')"

text \<open>\<^verbatim>\<open>strconv.ParseUint(s, 10, 64)\<close>: \<open>None\<close> for a syntax or a range error.\<close>

definition ParseUint :: "string \<Rightarrow> nat option" where
  "ParseUint s = (if isNumericIdentifier s \<and> int (digits_value s) < 2 ^ 64 then Some (digits_value s) else None)"

text \<open>The value \<^verbatim>\<open>ParseUint\<close> returns beside an ignored error: the largest number when out of range.\<close>

definition ParseUint_value :: "string \<Rightarrow> nat" where
  "ParseUint_value s = (if isNumericIdentifier s then nat (min (int (digits_value s)) (2 ^ 64 - 1)) else 0)"

fun parse_core :: "string list \<Rightarrow> version_error + nat list" where
  "parse_core [] = Inr []"
| "parse_core (part # parts) =
     (if part = [] \<or> (1 < length part \<and> hd part = CHR ''0'') then Inl InvalidNumber
      else case ParseUint part of
             None \<Rightarrow> Inl InvalidNumber
           | Some n \<Rightarrow> (case parse_core parts of Inl e \<Rightarrow> Inl e | Inr ns \<Rightarrow> Inr (n # ns)))"

fun check_identifiers :: "string list \<Rightarrow> version_error option" where
  "check_identifiers [] = None"
| "check_identifiers (identifier # rest) =
     (if identifier = [] then Some EmptyIdentifier
      else if \<not> list_all identifier_char identifier then Some InvalidIdentifier
      else if isNumericIdentifier identifier \<and> 1 < length identifier \<and> hd identifier = CHR ''0'' then Some LeadingZero
      else check_identifiers rest)"

text \<open>The checks of the parts of a version, once the string is cut at its separators.\<close>

definition version_of_parts :: "string list \<Rightarrow> string list \<Rightarrow> version_error + semanticVersion" where
  "version_of_parts parts prerelease =
     (if length parts \<noteq> 3 then Inl NotThreeParts
      else (case parse_core parts of
              Inl e \<Rightarrow> Inl e
            | Inr core \<Rightarrow>
                (case check_identifiers prerelease of
                   Some e \<Rightarrow> Inl e
                 | None \<Rightarrow> Inr \<lparr>svCore = core, svPrerelease = prerelease\<rparr>)))"

definition parseSemanticVersion :: "string \<Rightarrow> version_error + semanticVersion" where
  "parseSemanticVersion raw =
     (let trimmed = TrimPrefix (TrimSpace raw) ''v''
      in if trimmed = [] then Inl VersionEmpty
         else
           let version = takeWhile (\<lambda>c. c \<noteq> CHR ''+'') trimmed;
               base = takeWhile (\<lambda>c. c \<noteq> CHR ''-'') version;
               rest = dropWhile (\<lambda>c. c \<noteq> CHR ''-'') version
           in if length rest = 1 then Inl EmptyPrerelease
              else version_of_parts (Split (CHR ''.'') base) (if rest = [] then [] else Split (CHR ''.'') (tl rest)))"

text \<open>The loops of \<^verbatim>\<open>compareSemanticVersions\<close>.\<close>

fun compare_core :: "nat list \<Rightarrow> nat list \<Rightarrow> int" where
  "compare_core (a # as) (b # bs) = (if a < b then -1 else if b < a then 1 else compare_core as bs)"
| "compare_core _ _ = 0"

definition compare_identifier :: "string \<Rightarrow> string \<Rightarrow> int" where
  "compare_identifier leftID rightID =
     (if isNumericIdentifier leftID \<and> isNumericIdentifier rightID then
        (if ParseUint_value leftID < ParseUint_value rightID then -1
         else if ParseUint_value rightID < ParseUint_value leftID then 1 else 0)
      else if isNumericIdentifier leftID then -1
      else if isNumericIdentifier rightID then 1
      else if str_less leftID rightID then -1
      else if str_less rightID leftID then 1 else 0)"

fun compare_prerelease :: "string list \<Rightarrow> string list \<Rightarrow> int" where
  "compare_prerelease [] [] = 0"
| "compare_prerelease [] (_ # _) = -1"
| "compare_prerelease (_ # _) [] = 1"
| "compare_prerelease (a # as) (b # bs) =
     (let c = compare_identifier a b in if c \<noteq> 0 then c else compare_prerelease as bs)"

definition compare_versions :: "semanticVersion \<Rightarrow> semanticVersion \<Rightarrow> int" where
  "compare_versions l r =
     (let c = compare_core (svCore l) (svCore r)
      in if c \<noteq> 0 then c
         else if svPrerelease l = [] \<and> svPrerelease r = [] then 0
         else if svPrerelease l = [] then 1
         else if svPrerelease r = [] then -1
         else compare_prerelease (svPrerelease l) (svPrerelease r))"

definition compareSemanticVersions :: "string \<Rightarrow> string \<Rightarrow> version_error + int" where
  "compareSemanticVersions leftRaw rightRaw =
     (case parseSemanticVersion leftRaw of
        Inl e \<Rightarrow> Inl e
      | Inr l \<Rightarrow> (case parseSemanticVersion rightRaw of Inl e \<Rightarrow> Inl e | Inr r \<Rightarrow> Inr (compare_versions l r)))"

section \<open>The release manifest\<close>

record ReleaseArtifact =
  raName :: string
  raKind :: string
  raOS :: string
  raArch :: string
  raSize :: int
  raSHA256 :: string
  raSigstoreBundle :: string

record ReleaseOCIImage =
  oiReference :: string
  oiDigest :: string
  oiPlatforms :: "string list"
  oiSignature :: string

record ReleaseManifest =
  rmSchemaVersion :: int
  rmVersion :: string
  rmSourceSHA :: string
  rmBuildTimestamp :: string
  rmSchemaCompatibility :: string
  rmMinimumUpgradeVersion :: string
  rmChannel :: string
  rmArtifacts :: "ReleaseArtifact list"
  rmOCIImages :: "ReleaseOCIImage list"

datatype manifest_error =
    UnsupportedSchema | InvalidVersion version_error | InvalidMinimum version_error | InvalidSourceSHA | InvalidTimestamp
  | MissingSchemaCompatibility | UnsupportedChannel | NoArtifacts | NotOneImage
  | ArtifactUnnamed nat | ArtifactDuplicate string | ArtifactNoKind string | ArtifactSize string | ArtifactChecksum string
  | ArtifactBundle string | ImageReference | ImageDigest | ImagePlatforms | ImageSignature | CompareError version_error

definition hex_char :: "char \<Rightarrow> bool" where
  "hex_char c = (let n = (of_char c :: nat) in (48 \<le> n \<and> n \<le> 57) \<or> (65 \<le> n \<and> n \<le> 70) \<or> (97 \<le> n \<and> n \<le> 102))"

definition isHex :: "string \<Rightarrow> bool" where
  "isHex s \<longleftrightarrow> even (length s) \<and> list_all hex_char s"

fun validate_artifacts :: "nat \<Rightarrow> string list \<Rightarrow> ReleaseArtifact list \<Rightarrow> manifest_error option" where
  "validate_artifacts index seen [] = None"
| "validate_artifacts index seen (a # as) =
     (if TrimSpace (raName a) = [] then Some (ArtifactUnnamed index)
      else if List.member seen (raName a) then Some (ArtifactDuplicate (raName a))
      else if TrimSpace (raKind a) = [] then Some (ArtifactNoKind (raName a))
      else if raSize a \<le> 0 then Some (ArtifactSize (raName a))
      else if length (raSHA256 a) \<noteq> 64 \<or> \<not> isHex (raSHA256 a) then Some (ArtifactChecksum (raName a))
      else if raSigstoreBundle a \<noteq> raName a @ ''.sigstore.json'' then Some (ArtifactBundle (raName a))
      else validate_artifacts (Suc index) (raName a # seen) as)"

definition immutable_digest :: "string \<Rightarrow> bool" where
  "immutable_digest digest \<longleftrightarrow> HasPrefix digest ''sha256:'' \<and> length digest = 71 \<and> isHex (TrimPrefix digest ''sha256:'')"

definition validate_image :: "ReleaseOCIImage \<Rightarrow> manifest_error option" where
  "validate_image img =
     (if TrimSpace (oiReference img) = [] \<or> Contains (oiReference img) ''://'' \<or> Contains (oiReference img) ''@'' then Some ImageReference
      else if \<not> immutable_digest (oiDigest img) then Some ImageDigest
      else if oiPlatforms img \<noteq> [''linux/amd64'', ''linux/arm64''] then Some ImagePlatforms
      else if oiSignature img \<noteq> ''sigstore-keyless'' then Some ImageSignature
      else None)"

definition Validate_manifest :: "ReleaseManifest \<Rightarrow> manifest_error option" where
  "Validate_manifest m =
     (if rmSchemaVersion m \<noteq> 1 then Some UnsupportedSchema
      else case parseSemanticVersion (rmVersion m) of Inl e \<Rightarrow> Some (InvalidVersion e)
      | Inr _ \<Rightarrow>
        (case parseSemanticVersion (rmMinimumUpgradeVersion m) of Inl e \<Rightarrow> Some (InvalidMinimum e)
         | Inr _ \<Rightarrow>
             if length (rmSourceSHA m) \<noteq> 40 \<or> \<not> isHex (rmSourceSHA m) then Some InvalidSourceSHA
             else if Parse_RFC3339 (rmBuildTimestamp m) = None then Some InvalidTimestamp
             else if TrimSpace (rmSchemaCompatibility m) = [] then Some MissingSchemaCompatibility
             else if rmChannel m \<noteq> ''stable'' \<and> rmChannel m \<noteq> ''prerelease'' then Some UnsupportedChannel
             else if rmArtifacts m = [] then Some NoArtifacts
             else (case rmOCIImages m of
                     [img] \<Rightarrow>
                       (case validate_artifacts 0 [] (rmArtifacts m) of
                          Some e \<Rightarrow> Some e
                        | None \<Rightarrow> validate_image img)
                   | _ \<Rightarrow> Some NotOneImage)))"

definition AllowsUpgradeFrom :: "ReleaseManifest \<Rightarrow> string \<Rightarrow> manifest_error + bool" where
  "AllowsUpgradeFrom m currentVersion =
     (case Validate_manifest m of
        Some e \<Rightarrow> Inl e
      | None \<Rightarrow>
        (case compareSemanticVersions currentVersion (rmMinimumUpgradeVersion m) of
           Inl e \<Rightarrow> Inl (CompareError e)
         | Inr c \<Rightarrow>
             if c < 0 then Inr False
             else (case compareSemanticVersions (rmVersion m) currentVersion of
                     Inl e \<Rightarrow> Inl (CompareError e)
                   | Inr c' \<Rightarrow> Inr (0 < c'))))"

definition Artifact :: "ReleaseManifest \<Rightarrow> string \<Rightarrow> ReleaseArtifact option" where
  "Artifact m name = find (\<lambda>a. raName a = name) (rmArtifacts m)"

text \<open>
  The decoding of the manifest document. The elements of an array start from the zero record; a repeated array
  key decodes over the elements of the earlier one.
\<close>

fun dec_items :: "('a \<Rightarrow> json \<Rightarrow> 'a option) \<Rightarrow> 'a \<Rightarrow> 'a list \<Rightarrow> json list \<Rightarrow> 'a list option" where
  "dec_items dec zero acc [] = Some []"
| "dec_items dec zero acc (v # vs) =
     (case dec (case acc of [] \<Rightarrow> zero | a # _ \<Rightarrow> a) v of
        None \<Rightarrow> None
      | Some x \<Rightarrow> (case dec_items dec zero (tl acc) vs of None \<Rightarrow> None | Some xs \<Rightarrow> Some (x # xs)))"

fun assign_items :: "('a \<Rightarrow> json \<Rightarrow> 'a option) \<Rightarrow> 'a \<Rightarrow> 'a list \<Rightarrow> json list \<Rightarrow> 'a list option" where
  "assign_items dec zero acc [] = Some acc"
| "assign_items dec zero acc (JNull # vs) = assign_items dec zero [] vs"
| "assign_items dec zero acc (JArr xs # vs) =
     (case dec_items dec zero acc xs of None \<Rightarrow> None | Some acc' \<Rightarrow> assign_items dec zero acc' vs)"
| "assign_items dec zero acc (_ # vs) = None"

definition zero_artifact :: ReleaseArtifact where
  "zero_artifact = \<lparr>raName = [], raKind = [], raOS = [], raArch = [], raSize = 0, raSHA256 = [], raSigstoreBundle = []\<rparr>"

fun dec_artifact :: "ReleaseArtifact \<Rightarrow> json \<Rightarrow> ReleaseArtifact option" where
  "dec_artifact a JNull = Some a"
| "dec_artifact a (JObj kvs) =
     do {
       name \<leftarrow> assign_str (raName a) (json_fields ''name'' kvs); kind \<leftarrow> assign_str (raKind a) (json_fields ''kind'' kvs);
       os \<leftarrow> assign_str (raOS a) (json_fields ''os'' kvs); arch \<leftarrow> assign_str (raArch a) (json_fields ''arch'' kvs);
       size \<leftarrow> assign_int (raSize a) (json_fields ''size'' kvs); sha \<leftarrow> assign_str (raSHA256 a) (json_fields ''sha256'' kvs);
       bundle \<leftarrow> assign_str (raSigstoreBundle a) (json_fields ''sigstore_bundle'' kvs);
       Some \<lparr>raName = name, raKind = kind, raOS = os, raArch = arch, raSize = size, raSHA256 = sha, raSigstoreBundle = bundle\<rparr>
     }"
| "dec_artifact a _ = None"

fun dec_image :: "ReleaseOCIImage \<Rightarrow> json \<Rightarrow> ReleaseOCIImage option" where
  "dec_image i JNull = Some i"
| "dec_image i (JObj kvs) =
     do {
       reference \<leftarrow> assign_str (oiReference i) (json_fields ''reference'' kvs);
       digest \<leftarrow> assign_str (oiDigest i) (json_fields ''digest'' kvs);
       platforms \<leftarrow> assign_strs (oiPlatforms i) (json_fields ''platforms'' kvs);
       signature \<leftarrow> assign_str (oiSignature i) (json_fields ''signature'' kvs);
       Some \<lparr>oiReference = reference, oiDigest = digest, oiPlatforms = platforms, oiSignature = signature\<rparr>
     }"
| "dec_image i _ = None"

definition decode_manifest :: "json wire \<Rightarrow> ReleaseManifest option" where
  "decode_manifest w =
     do {
       kvs \<leftarrow> dec_object w;
       schema \<leftarrow> dec_int kvs ''schema_version''; version \<leftarrow> dec_str kvs ''version''; sha \<leftarrow> dec_str kvs ''source_sha'';
       built \<leftarrow> dec_str kvs ''build_timestamp''; compat \<leftarrow> dec_str kvs ''schema_compatibility'';
       minimum \<leftarrow> dec_str kvs ''minimum_upgrade_version''; channel \<leftarrow> dec_str kvs ''channel'';
       artifacts \<leftarrow> assign_items dec_artifact zero_artifact [] (json_fields ''artifacts'' kvs);
       images \<leftarrow> assign_items dec_image \<lparr>oiReference = [], oiDigest = [], oiPlatforms = [], oiSignature = []\<rparr> [] (json_fields ''oci_images'' kvs);
       Some \<lparr>rmSchemaVersion = schema, rmVersion = version, rmSourceSHA = sha, rmBuildTimestamp = built,
             rmSchemaCompatibility = compat, rmMinimumUpgradeVersion = minimum, rmChannel = channel,
             rmArtifacts = artifacts, rmOCIImages = images\<rparr>
     }"

section \<open>The container candidate\<close>

record OCIReleaseCandidate =
  ocVersion :: string
  ocSourceSHA :: string
  ocSchemaCompatibility :: string
  ocReference :: string
  ocDigest :: string
  ocImage :: string
  ocReleaseTag :: string

datatype oci_error =
    OciManifest manifest_error | OciNotOneImage | OciNotLinux | OciPlatform | OciSignature | OciReference
  | OciExpected | OciRepository

text \<open>\<open>Inr None\<close> stands for the result without a candidate and without an error.\<close>

definition OCICandidate ::
  "string \<Rightarrow> string \<Rightarrow> ReleaseManifest \<Rightarrow> string \<Rightarrow> string \<Rightarrow> oci_error + OCIReleaseCandidate option" where
  "OCICandidate GOOS GOARCH m currentVersion expectedRepository =
     (case AllowsUpgradeFrom m currentVersion of
        Inl e \<Rightarrow> Inl (OciManifest e)
      | Inr allowed \<Rightarrow>
          if \<not> allowed then Inr None
          else (case rmOCIImages m of
                  [img] \<Rightarrow>
                    (let platform = ''linux/'' @ GOARCH;
                         expected = TrimSpace (ToLower expectedRepository)
                     in if GOOS \<noteq> ''linux'' then Inl OciNotLinux
                        else if \<not> List.member (oiPlatforms img) platform then Inl OciPlatform
                        else if oiSignature img \<noteq> ''sigstore-keyless'' then Inl OciSignature
                        else if Contains (oiReference img) ''@'' \<or> Contains (oiReference img) ''://'' then Inl OciReference
                        else if expected = [] \<or> Contains expected ''@'' \<or> Contains expected ''://'' then Inl OciExpected
                        else if ToLower (oiReference img) \<noteq> expected then Inl OciRepository
                        else Inr (Some \<lparr>ocVersion = rmVersion m, ocSourceSHA = rmSourceSHA m,
                                        ocSchemaCompatibility = rmSchemaCompatibility m, ocReference = oiReference img,
                                        ocDigest = oiDigest img, ocImage = oiReference img @ ''@'' @ oiDigest img,
                                        ocReleaseTag = ''v'' @ TrimPrefix (rmVersion m) ''v''\<rparr>))
                | _ \<Rightarrow> Inl OciNotOneImage))"

definition isImmutableOCIReference :: "string \<Rightarrow> bool" where
  "isImmutableOCIReference reference =
     (case Split (CHR ''@'') reference of
        [repository, digest] \<Rightarrow> repository \<noteq> [] \<and> \<not> Contains repository ''://'' \<and> immutable_digest digest
      | _ \<Rightarrow> False)"

section \<open>Precedence of versions\<close>

text \<open>
  The reference order of semantic versions: numeric triples first; a release comes after its prereleases;
  prerelease identifiers are compared in order, numbers before words, and fewer identifiers come first.
\<close>

definition id_key :: "string \<Rightarrow> nat \<times> nat \<times> string" where
  "id_key s = (if isNumericIdentifier s then (0, ParseUint_value s, []) else (1, 0, s))"

definition version_key :: "semanticVersion \<Rightarrow> nat list \<times> nat \<times> (nat \<times> nat \<times> string) list" where
  "version_key v = (svCore v, if svPrerelease v = [] then 1 else 0, map id_key (svPrerelease v))"

definition order_sign :: "'a::linorder \<Rightarrow> 'a \<Rightarrow> int" where
  "order_sign a b = (if a < b then -1 else if b < a then 1 else 0)"

lemma order_sign_refl [simp]: "order_sign a a = 0"
  by (simp add: order_sign_def)

lemma order_sign_0: "order_sign a b = 0 \<longleftrightarrow> a = b"
  by (auto simp: order_sign_def)

lemma order_sign_pair: "order_sign (a, x) (b, y) = (if order_sign a b \<noteq> 0 then order_sign a b else order_sign x y)"
  by (auto simp: order_sign_def less_prod_simp)

lemma order_sign_Cons: "order_sign (a # x) (b # y) = (if order_sign a b \<noteq> 0 then order_sign a b else order_sign x y)"
  by (auto simp: order_sign_def)

lemma str_less_lexorder: "str_less a b \<longleftrightarrow> a < b"
proof (induction a b rule: str_less.induct)
  case (4 a as b bs)
  then show ?case by (simp add: less_char_def)
qed simp_all

lemma compare_core_order: "length as = length bs \<Longrightarrow> compare_core as bs = order_sign as bs"
  by (induction as bs rule: compare_core.induct) (auto simp: order_sign_def)

lemma order_sign_tags [simp]: "order_sign (0::nat) 1 = -1" "order_sign (1::nat) 0 = 1" "order_sign (0::nat) (Suc 0) = -1"
  "order_sign (Suc 0) (0::nat) = 1"
  by (simp_all add: order_sign_def)

lemma compare_identifier_order: "compare_identifier a b = order_sign (id_key a) (id_key b)"
proof (cases "isNumericIdentifier a")
  case True
  note a = this
  show ?thesis
  proof (cases "isNumericIdentifier b")
    case True
    have "order_sign (id_key a) (id_key b) = order_sign (ParseUint_value a) (ParseUint_value b)"
      by (simp add: id_key_def a True order_sign_pair)
    then show ?thesis by (simp add: compare_identifier_def a True order_sign_def)
  next
    case False
    then show ?thesis by (simp add: compare_identifier_def id_key_def a order_sign_pair)
  qed
next
  case False
  note a = this
  show ?thesis
  proof (cases "isNumericIdentifier b")
    case True
    then show ?thesis by (simp add: compare_identifier_def id_key_def a order_sign_pair)
  next
    case False
    have "order_sign (id_key a) (id_key b) = order_sign a b" by (simp add: id_key_def a False order_sign_pair)
    then show ?thesis by (simp add: compare_identifier_def a False order_sign_def str_less_lexorder)
  qed
qed

lemma compare_prerelease_order: "compare_prerelease as bs = order_sign (map id_key as) (map id_key bs)"
proof (induction as bs rule: compare_prerelease.induct)
  case (4 a as b bs)
  then show ?case by (simp add: order_sign_Cons compare_identifier_order Let_def)
qed (simp_all add: order_sign_def)

lemma compare_versions_order:
  assumes "length (svCore l) = length (svCore r)"
  shows "compare_versions l r = order_sign (version_key l) (version_key r)"
proof (cases "order_sign (svCore l) (svCore r) = 0")
  case False
  then show ?thesis by (simp add: compare_versions_def version_key_def compare_core_order [OF assms] order_sign_pair)
next
  case True
  then show ?thesis
    by (cases "svPrerelease l = []"; cases "svPrerelease r = []")
      (simp_all add: compare_versions_def version_key_def compare_core_order [OF assms] order_sign_pair compare_prerelease_order)
qed

lemma parse_core_length: "parse_core ps = Inr ns \<Longrightarrow> length ns = length ps"
  by (induction ps arbitrary: ns) (auto split: if_splits option.splits sum.splits)

lemma version_of_parts_length: "version_of_parts parts pre = Inr v \<Longrightarrow> length (svCore v) = 3"
  by (auto simp: version_of_parts_def dest: parse_core_length split: if_splits sum.splits option.splits)

lemma guard_InrD: "(if c then Inl e else x) = Inr v \<Longrightarrow> x = Inr v"
  by (simp split: if_splits)

lemma parsed_core_length: "parseSemanticVersion raw = Inr v \<Longrightarrow> length (svCore v) = 3"
  unfolding parseSemanticVersion_def Let_def by (drule guard_InrD)+ (rule version_of_parts_length)

text \<open>
  C26. The comparison of version strings is the precedence of semantic versions: two strings compare exactly when
  both parse, and the result is the sign of their order, which is total and transitive.
\<close>

theorem version_precedence:
  "compareSemanticVersions l r =
     (case parseSemanticVersion l of
        Inl e \<Rightarrow> Inl e
      | Inr a \<Rightarrow> (case parseSemanticVersion r of
                   Inl e \<Rightarrow> Inl e
                 | Inr b \<Rightarrow> Inr (order_sign (version_key a) (version_key b))))"
  by (auto simp: compareSemanticVersions_def compare_versions_order parsed_core_length split: sum.splits)

lemma order_sign_pos: "0 < order_sign a b \<longleftrightarrow> b < a"
  by (auto simp: order_sign_def)

lemma order_sign_neg: "order_sign a b < 0 \<longleftrightarrow> a < b"
  by (auto simp: order_sign_def)

lemmas version_eval = parseSemanticVersion_def version_of_parts_def TrimPrefix_def TrimSpace_def space_char_def isNumericIdentifier_def digit_char_def
  digits_value_def ParseUint_def ParseUint_value_def compare_versions_def compare_identifier_def identifier_char_def Let_def

text \<open>Numeric identifiers beyond 64 bits are not told apart, because the range error is ignored.\<close>

lemma huge_prereleases_equal:
  "compareSemanticVersions ''1.0.0-99999999999999999998'' ''1.0.0-99999999999999999999'' = Inr 0"
  by (simp add: compareSemanticVersions_def version_eval)

section \<open>What a validated manifest says\<close>

lemma Validate_manifest_None:
  assumes "Validate_manifest m = None"
  obtains v mv img where "parseSemanticVersion (rmVersion m) = Inr v" "parseSemanticVersion (rmMinimumUpgradeVersion m) = Inr mv"
    "rmOCIImages m = [img]" "validate_image img = None" "validate_artifacts 0 [] (rmArtifacts m) = None"
    "length (rmSourceSHA m) = 40" "isHex (rmSourceSHA m)"
  using assms
  by (auto simp: Validate_manifest_def split: if_splits sum.splits list.splits option.splits)

text \<open>An artifact that a validated manifest describes.\<close>

definition artifact_ok :: "ReleaseArtifact \<Rightarrow> bool" where
  "artifact_ok a \<longleftrightarrow> TrimSpace (raName a) \<noteq> [] \<and> 0 < raSize a \<and> length (raSHA256 a) = 64 \<and> isHex (raSHA256 a)
     \<and> raSigstoreBundle a = raName a @ ''.sigstore.json''"

lemma validated_artifacts:
  "validate_artifacts n seen as = None \<Longrightarrow> list_all artifact_ok as \<and> distinct (map raName as) \<and> set (map raName as) \<inter> set seen = {}"
  by (induction n seen as rule: validate_artifacts.induct) (auto simp: artifact_ok_def split: if_splits)

lemma allowed_upgrade:
  assumes "AllowsUpgradeFrom m current = Inr True"
  obtains cur v mv where "Validate_manifest m = None" "parseSemanticVersion current = Inr cur"
    "parseSemanticVersion (rmVersion m) = Inr v" "parseSemanticVersion (rmMinimumUpgradeVersion m) = Inr mv"
    "version_key mv \<le> version_key cur" "version_key cur < version_key v"
  using assms
  by (auto simp: AllowsUpgradeFrom_def compareSemanticVersions_def compare_versions_order parsed_core_length order_sign_pos
      order_sign_neg not_less [symmetric] split: option.splits sum.splits if_splits)

text \<open>
  One upgrade of an installation from one version string to another, with some manifest.
\<close>

definition upgrades :: "string \<Rightarrow> string \<Rightarrow> bool" where
  "upgrades current next \<longleftrightarrow> (\<exists>m. rmVersion m = next \<and> AllowsUpgradeFrom m current = Inr True)"

lemma upgrades_increase:
  "upgrades a b \<Longrightarrow> \<exists>x y. parseSemanticVersion a = Inr x \<and> parseSemanticVersion b = Inr y \<and> version_key x < version_key y"
  by (auto simp: upgrades_def elim!: allowed_upgrade)

lemma chain_increase:
  "upgrades\<^sup>+\<^sup>+ a b \<Longrightarrow> \<exists>x y. parseSemanticVersion a = Inr x \<and> parseSemanticVersion b = Inr y \<and> version_key x < version_key y"
proof (induction rule: tranclp_induct)
  case (base y)
  then show ?case by (rule upgrades_increase)
next
  case (step y z)
  from step.IH obtain x w where "parseSemanticVersion a = Inr x" "parseSemanticVersion y = Inr w" "version_key x < version_key w" by blast
  moreover from upgrades_increase [OF step.hyps(2)] obtain w' v where
    "parseSemanticVersion y = Inr w'" "parseSemanticVersion z = Inr v" "version_key w' < version_key v" by blast
  ultimately show ?case by (auto intro: less_trans)
qed

section \<open>The candidate image\<close>

lemma immutable_digest_no_at: "immutable_digest d \<Longrightarrow> CHR ''@'' \<notin> set d"
  by (auto simp: immutable_digest_def TrimPrefix_def HasPrefix_iff isHex_def list_all_iff hex_char_def Let_def dest!: bspec)

lemma Contains_char: "Contains s [c] \<longleftrightarrow> c \<in> set s"
  by (auto simp: Contains_iff in_set_conv_decomp)

lemma immutable_reference:
  assumes "CHR ''@'' \<notin> set r" "r \<noteq> []" "\<not> Contains r ''://''" "immutable_digest d"
  shows "isImmutableOCIReference (r @ ''@'' @ d)"
  using assms Split_append [of "CHR ''@''" r d] Split_no_sep [OF immutable_digest_no_at [OF assms(4)]]
  by (simp add: isImmutableOCIReference_def)

lemma OCICandidate_Some:
  assumes "OCICandidate os arch m current expected = Inr (Some c)"
  obtains img where "AllowsUpgradeFrom m current = Inr True" "rmOCIImages m = [img]" "ocVersion c = rmVersion m"
    "ToLower (ocReference c) = TrimSpace (ToLower expected)" "ocReference c = oiReference img" "ocDigest c = oiDigest img"
    "ocImage c = oiReference img @ ''@'' @ oiDigest img" "ocReleaseTag c = ''v'' @ TrimPrefix (rmVersion m) ''v''"
    "os = ''linux''" "''linux/'' @ arch \<in> set (oiPlatforms img)" "ocSourceSHA c = rmSourceSHA m"
proof (cases "rmOCIImages m")
  case (Cons img rest)
  then show ?thesis
    using assms that by (cases rest) (auto simp: OCICandidate_def Let_def split: sum.splits if_split_asm)
qed (use assms in \<open>simp add: OCICandidate_def split: sum.splits if_split_asm\<close>)

lemma allowed_valid: "AllowsUpgradeFrom m current = Inr True \<Longrightarrow> Validate_manifest m = None"
  by (simp add: AllowsUpgradeFrom_def split: option.splits)

lemma candidate_image_immutable:
  assumes "OCICandidate os arch m current expected = Inr (Some c)"
  shows "isImmutableOCIReference (ocImage c)"
proof -
  from OCICandidate_Some [OF assms] obtain img where m: "AllowsUpgradeFrom m current = Inr True" "rmOCIImages m = [img]"
    "ocImage c = oiReference img @ ''@'' @ oiDigest img" by metis
  from Validate_manifest_None [OF allowed_valid [OF m(1)]] m(2) have v: "validate_image img = None" by (metis list.inject)
  then have "TrimSpace (oiReference img) \<noteq> []" "\<not> Contains (oiReference img) ''://''" "\<not> Contains (oiReference img) ''@''"
    "immutable_digest (oiDigest img)"
    by (simp_all add: validate_image_def split: if_split_asm)
  moreover from this(1) have "oiReference img \<noteq> []" by (auto simp: TrimSpace_def)
  ultimately show ?thesis unfolding m(3) by (intro immutable_reference) (simp_all add: Contains_char)
qed

end
