(* ===== verification/GoPath.thy ===== *)
theory GoPath
  imports Prelude
begin

text \<open>
  Lexical operations on slash-separated paths (\<^verbatim>\<open>path/filepath\<close> on Unix): \<^verbatim>\<open>Clean\<close>, \<^verbatim>\<open>IsAbs\<close>, \<^verbatim>\<open>Join\<close>,
  \<^verbatim>\<open>Dir\<close> and \<^verbatim>\<open>Abs\<close>, as the update code uses them to keep its files in their directories.
\<close>

definition IsAbs :: "string \<Rightarrow> bool" where
  "IsAbs path = HasPrefix path ''/''"

text \<open>The elements kept so far are a stack, the last one first.\<close>

fun clean_stack :: "bool \<Rightarrow> string list \<Rightarrow> string list \<Rightarrow> string list" where
  "clean_stack rooted st [] = rev st"
| "clean_stack rooted st (p # ps) =
     (if p = [] \<or> p = ''.'' then clean_stack rooted st ps
      else if p = ''..'' then
        (case st of
           [] \<Rightarrow> clean_stack rooted (if rooted then [] else [''..'']) ps
         | q # qs \<Rightarrow> if q = ''..'' then clean_stack rooted (''..'' # st) ps else clean_stack rooted qs ps)
      else clean_stack rooted (p # st) ps)"

definition Clean :: "string \<Rightarrow> string" where
  "Clean path =
     (if path = [] then ''.''
      else
        let out = Join (CHR ''/'') (clean_stack (IsAbs path) [] (Split (CHR ''/'') path))
        in if IsAbs path then ''/'' @ out else if out = [] then ''.'' else out)"

definition JoinPath :: "string list \<Rightarrow> string" where
  "JoinPath elems =
     (let parts = filter (\<lambda>e. e \<noteq> []) elems in if parts = [] then [] else Clean (Join (CHR ''/'') parts))"

text \<open>Everything up to the last separator.\<close>

definition Dir :: "string \<Rightarrow> string" where
  "Dir path = Clean (rev (dropWhile (\<lambda>c. c \<noteq> CHR ''/'') (rev path)))"

definition AbsPath :: "string \<Rightarrow> string \<Rightarrow> string" where
  "AbsPath cwd path = (if IsAbs path then Clean path else JoinPath [cwd, path])"

section \<open>Clean paths\<close>

text \<open>A name that is an ordinary path element.\<close>

definition plain_element :: "string \<Rightarrow> bool" where
  "plain_element p \<longleftrightarrow> p \<noteq> [] \<and> p \<noteq> ''.'' \<and> p \<noteq> ''..'' \<and> CHR ''/'' \<notin> set p"

lemma clean_stack_element: "plain_element p \<Longrightarrow> clean_stack r st (p # ps) = clean_stack r (p # st) ps"
  by (simp add: plain_element_def)

lemma clean_stack_plain: "list_all plain_element ps \<Longrightarrow> clean_stack r st (ps @ qs) = clean_stack r (rev ps @ st) qs"
  by (induction ps arbitrary: st) (simp_all add: clean_stack_element del: clean_stack.simps(2))

lemma clean_stack_rooted_plain:
  "list_all plain_element st \<Longrightarrow> \<forall>p\<in>set ps. CHR ''/'' \<notin> set p \<Longrightarrow> list_all plain_element (clean_stack True st ps)"
proof (induction ps arbitrary: st)
  case Nil
  then show ?case by (simp add: list_all_iff)
next
  case (Cons p ps)
  then have rest: "\<forall>p\<in>set ps. CHR ''/'' \<notin> set p" by simp
  consider "p = [] \<or> p = ''.''" | "p = ''..''" | "plain_element p"
    using Cons.prems(2) by (auto simp only: plain_element_def list.set insert_iff)
  then show ?case
  proof cases
    case 1
    then have "clean_stack True st (p # ps) = clean_stack True st ps" by (simp only: clean_stack.simps if_True)
    then show ?thesis using Cons.IH [OF Cons.prems(1) rest] by (simp only:)
  next
    case 2
    show ?thesis
    proof (cases st)
      case Nil
      then have "clean_stack True st (p # ps) = clean_stack True [] ps" using 2 by simp
      then show ?thesis using Cons.IH [OF _ rest, of "[]"] by (simp only: list.pred_inject simp_thms)
    next
      case (Cons q qs)
      then have "plain_element q" "list_all plain_element qs" using Cons.prems(1) by simp_all
      moreover from this(1) have "q \<noteq> ''..''" by (simp add: plain_element_def)
      moreover from this have "clean_stack True st (p # ps) = clean_stack True qs ps" using 2 local.Cons by simp
      ultimately show ?thesis using Cons.IH [OF _ rest, of qs] by (simp only: simp_thms)
    qed
  next
    case 3
    then show ?thesis using Cons.IH [OF _ rest, of "p # st"] Cons.prems(1) by (simp only: clean_stack_element list.pred_inject simp_thms)
  qed
qed

text \<open>An absolute clean path has only ordinary elements, so it never points above its root.\<close>

lemma Clean_rooted:
  assumes "IsAbs path"
  obtains ps where "Clean path = ''/'' @ Join (CHR ''/'') ps" "list_all plain_element ps"
proof
  show "Clean path = ''/'' @ Join (CHR ''/'') (clean_stack True [] (Split (CHR ''/'') path))"
    using assms by (auto simp: Clean_def IsAbs_def)
  show "list_all plain_element (clean_stack True [] (Split (CHR ''/'') path))"
    by (rule clean_stack_rooted_plain) (auto dest: Split_sep_free)
qed

lemma plain_no_slash: "list_all plain_element ps \<Longrightarrow> w \<in> set ps \<Longrightarrow> CHR ''/'' \<notin> set w"
  by (simp add: list_all_iff plain_element_def)

lemma Split_slash_Join:
  assumes "list_all plain_element ps"
  shows "clean_stack True [] (Split (CHR ''/'') (CHR ''/'' # Join (CHR ''/'') ps)) = ps"
proof (cases "ps = []")
  case True
  then show ?thesis by simp
next
  case False
  have "Split (CHR ''/'') (Join (CHR ''/'') ps) = ps"
    using plain_no_slash [OF assms] False by (intro Split_Join)
  then show ?thesis using clean_stack_plain [OF assms, of True "[]" "[]"] by simp
qed

lemma Clean_Join:
  "list_all plain_element ps \<Longrightarrow> Clean (CHR ''/'' # Join (CHR ''/'') ps) = CHR ''/'' # Join (CHR ''/'') ps"
  using Split_slash_Join by (simp add: Clean_def IsAbs_def Let_def)

lemma Clean_idem: "IsAbs path \<Longrightarrow> Clean (Clean path) = Clean path"
  by (erule Clean_rooted) (simp add: Clean_Join)

lemma Join_snoc: "ps \<noteq> [] \<Longrightarrow> Join c (ps @ [p]) = Join c ps @ c # p"
  by (induction ps rule: induct_list012) simp_all

lemma dropWhile_rev_sep: "c \<notin> set p \<Longrightarrow> dropWhile (\<lambda>x. x \<noteq> c) (rev p @ c # s) = c # s"
  by (subst dropWhile_append2) auto

lemma Dir_element:
  assumes "list_all plain_element ps" "ps \<noteq> []" "plain_element p"
  shows "Dir (CHR ''/'' # Join (CHR ''/'') (ps @ [p])) = CHR ''/'' # Join (CHR ''/'') ps"
proof -
  let ?d = "CHR ''/'' # Join (CHR ''/'') ps"
  have "rev (dropWhile (\<lambda>c. c \<noteq> CHR ''/'') (rev (?d @ CHR ''/'' # p))) = ?d @ ''/''"
    using assms(3) dropWhile_rev_sep [of "CHR ''/''" p "rev ?d"] by (simp add: plain_element_def)
  moreover have "Split (CHR ''/'') (?d @ ''/'') = [] # ps @ [[]]"
  proof -
    have "Split (CHR ''/'') (Join (CHR ''/'') (ps @ [[]])) = ps @ [[]]"
      using plain_no_slash [OF assms(1)] by (intro Split_Join) auto
    then show ?thesis using assms(2) by (simp add: Join_snoc)
  qed
  moreover have "clean_stack True [] ([] # ps @ [[]]) = ps"
  proof -
    have "clean_stack True [] (ps @ [[]]) = ps" by (simp add: clean_stack_plain [OF assms(1)])
    then show ?thesis by simp
  qed
  ultimately show ?thesis using assms(2) by (simp add: Dir_def Clean_def IsAbs_def Join_snoc)
qed

end
