(* ===== verification/ReleaseUpdater.thy ===== *)
theory ReleaseUpdater
  imports Releases GoPath
begin

text \<open>
  The updater of the orchestrator (\<^verbatim>\<open>internal/update\<close>): discovery of a signed release (\<^verbatim>\<open>orchestrator.go\<close>,
  \<^verbatim>\<open>docker_service.go\<close>, \<^verbatim>\<open>provenance.go\<close>), download of the artifact, the staged update and its restart
  (\<^verbatim>\<open>schema_restart.go\<close>), the runtime preflight and the database backup (\<^verbatim>\<open>runtime_preflight.go\<close>,
  \<^verbatim>\<open>database_backup.go\<close>), the service shared by the entry points (\<^verbatim>\<open>service.go\<close>), and the handlers of the API
  (\<^verbatim>\<open>internal/platform/update_handlers.go\<close>, \<^verbatim>\<open>deployment.go\<close>).

  The network, the signature verifier \<^verbatim>\<open>cosign\<close>, the hash function, the JSON text parsers, the URL parser, the
  resolver, the PostgreSQL dump and the host platform are arguments; every file operation may fail.
\<close>

section \<open>Discovery\<close>

text \<open>A reply of the HTTP client. A broken body ends in a read error after the bytes delivered.\<close>

record http_reply =
  hrStatus :: int
  hrContentLength :: int
  hrBody :: string
  hrBroken :: bool

record release_env =
  reGet :: "string \<Rightarrow> http_reply option"
  reDecode :: "http_reply \<Rightarrow> json wire"
  reUnmarshal :: "string \<Rightarrow> json wire"
  reVerifyBlob :: "string \<Rightarrow> string \<Rightarrow> string \<Rightarrow> bool"
  reVerifyImage :: "string \<Rightarrow> string \<Rightarrow> bool"
  reSHA256 :: "string \<Rightarrow> string"
  reGOOS :: string
  reGOARCH :: string

record GitHubAsset =
  gaName :: string
  gaBrowserDownloadURL :: string
  gaSize :: int

record GitHubRelease =
  grTagName :: string
  grAssets :: "GitHubAsset list"
  grBody :: string

record OrchestratorRelease =
  orVersion :: string
  orSourceSHA :: string
  orSchemaCompatibility :: string
  orURL :: string
  orChecksum :: string
  orSize :: int
  orSigstoreBundleURL :: string
  orReleaseTag :: string
  orChangelog :: string

record PreflightCheck =
  pcName :: string
  pcPass :: bool

record PreflightResult =
  prPass :: bool
  prChecks :: "PreflightCheck list"
  prTimestamp :: "instant option"
  prSourceSchemaVersion :: int
  prTargetSchemaVersion :: int

record OrchestratorUpdater =
  ouCurrentVersion :: string
  ouOwner :: string
  ouRepo :: string
  ouCurrentExe :: string
  ouDataDir :: string
  ouLegacyCLIApply :: bool
  ouStagedBinary :: string
  ouStagedRelease :: "OrchestratorRelease option"
  ouStagedPreflight :: "PreflightResult option"

datatype update_error =
    AssetURLEmpty | AssetUnavailable | AssetStatus int | AssetRead | AssetTooLarge
  | GitHubUnavailable | GitHubStatus int | GitHubDecode | TagMissing | ManifestMissing
  | ManifestUnverified | ManifestDecode | ManifestInvalid manifest_error | TagMismatch | Incompatible manifest_error
  | ArtifactMissing | ArtifactPlatform | ArtifactAsset | BundleAsset | Selection oci_error
  | ProvenanceRequired | UpdatesDirectory | DownloadFailed | DownloadStatus int | DownloadTooLarge | OpenFailed
  | WriteFailed | CloseFailed | SizeMismatch | ChecksumMismatch | ChecksumMismatchKept | ArtifactUnverified | ChmodFailed
  | NotStaged | OutsideUpdates | NotExecutable | StagedIncomplete | ConfigUnavailable | DatabaseUnavailable
  | PreflightFailed | PreflightNotPassed | PreflightMissing | ReleaseRequired | Unhealthy | NoBackup | RenameFailed | RestoreFailed
  | WrongMode | SchemaBoundary | BinaryRequired | FinalizerUnavailable | LaunchFailed | CandidateUnbound | ImageUnverified

text \<open>The first guard that fires.\<close>

definition first_guard :: "(bool \<times> 'e) list \<Rightarrow> 'e option" where
  "first_guard guards = map_option snd (find fst guards)"

lemma first_guard_simps [simp]:
  "first_guard [] = None"
  "first_guard ((b, e) # gs) = (if b then Some e else first_guard gs)"
  by (simp_all add: first_guard_def)

lemma first_guard_None: "first_guard gs = None \<longleftrightarrow> list_all (\<lambda>g. \<not> fst g) gs"
  by (induction gs) (auto split: if_splits)

definition maxReleaseMetadataBytes :: int where
  "maxReleaseMetadataBytes = 4194304"

definition releaseAssetURL :: "GitHubRelease \<Rightarrow> string \<Rightarrow> string" where
  "releaseAssetURL release name =
     (case find (\<lambda>a. gaName a = name) (grAssets release) of None \<Rightarrow> [] | Some a \<Rightarrow> gaBrowserDownloadURL a)"

text \<open>The body is read up to one byte past the limit: an error beyond that is not seen, and that byte is refused.\<close>

definition fetchReleaseAsset :: "release_env \<Rightarrow> string \<Rightarrow> int \<Rightarrow> update_error + string" where
  "fetchReleaseAsset env url maxBytes =
     (if url = [] then Inl AssetURLEmpty
      else case reGet env url of
             None \<Rightarrow> Inl AssetUnavailable
           | Some resp \<Rightarrow>
               if hrStatus resp \<noteq> 200 then Inl (AssetStatus (hrStatus resp))
               else if hrBroken resp \<and> int (length (hrBody resp)) \<le> maxBytes then Inl AssetRead
               else if maxBytes < int (length (hrBody resp)) then Inl AssetTooLarge
               else Inr (hrBody resp))"

text \<open>The identity that \<^verbatim>\<open>cosign\<close> must find in the certificate: the release workflow at the tag.\<close>

definition release_identity :: "OrchestratorUpdater \<Rightarrow> string \<Rightarrow> string" where
  "release_identity u tag =
     ''https://github.com/'' @ ouOwner u @ ''/'' @ ouRepo u @ ''/.github/workflows/publish-release.yml@refs/tags/'' @ tag"

definition verifySigstoreBytes :: "release_env \<Rightarrow> OrchestratorUpdater \<Rightarrow> string \<Rightarrow> string \<Rightarrow> string \<Rightarrow> bool" where
  "verifySigstoreBytes env u payload bundle tag = reVerifyBlob env payload bundle (release_identity u tag)"

definition verifySigstoreFile :: "release_env \<Rightarrow> OrchestratorUpdater \<Rightarrow> string \<Rightarrow> string \<Rightarrow> string \<Rightarrow> bool" where
  "verifySigstoreFile env u payload bundleURL tag =
     (case fetchReleaseAsset env bundleURL maxReleaseMetadataBytes of
        Inl _ \<Rightarrow> False
      | Inr bundle \<Rightarrow> verifySigstoreBytes env u payload bundle tag)"

fun dec_asset :: "GitHubAsset \<Rightarrow> json \<Rightarrow> GitHubAsset option" where
  "dec_asset a JNull = Some a"
| "dec_asset a (JObj kvs) =
     do {
       name \<leftarrow> assign_str (gaName a) (json_fields ''name'' kvs);
       url \<leftarrow> assign_str (gaBrowserDownloadURL a) (json_fields ''browser_download_url'' kvs);
       size \<leftarrow> assign_int (gaSize a) (json_fields ''size'' kvs);
       Some \<lparr>gaName = name, gaBrowserDownloadURL = url, gaSize = size\<rparr>
     }"
| "dec_asset a _ = None"

definition decode_release :: "json wire \<Rightarrow> GitHubRelease option" where
  "decode_release w =
     do {
       kvs \<leftarrow> dec_object w;
       tag \<leftarrow> dec_str kvs ''tag_name'';
       assets \<leftarrow> assign_items dec_asset \<lparr>gaName = [], gaBrowserDownloadURL = [], gaSize = 0\<rparr> [] (json_fields ''assets'' kvs);
       body \<leftarrow> dec_str kvs ''body'';
       Some \<lparr>grTagName = tag, grAssets = assets, grBody = body\<rparr>
     }"

text \<open>
  The common beginning of \<^verbatim>\<open>Check\<close> and \<^verbatim>\<open>checkOCI\<close>: the latest release and the bytes of its manifest, verified
  against the release workflow before they are decoded.
\<close>

definition latest_release :: "release_env \<Rightarrow> OrchestratorUpdater \<Rightarrow> update_error + GitHubRelease" where
  "latest_release env u =
     (case reGet env (''https://api.github.com/repos/'' @ ouOwner u @ ''/'' @ ouRepo u @ ''/releases/latest'') of
        None \<Rightarrow> Inl GitHubUnavailable
      | Some resp \<Rightarrow>
          if hrStatus resp \<noteq> 200 then Inl (GitHubStatus (hrStatus resp))
          else (case decode_release (reDecode env resp) of
                  None \<Rightarrow> Inl GitHubDecode
                | Some release \<Rightarrow> if grTagName release = [] then Inl TagMissing else Inr release))"

definition signed_manifest :: "release_env \<Rightarrow> OrchestratorUpdater \<Rightarrow> GitHubRelease \<Rightarrow> update_error + string \<times> ReleaseManifest" where
  "signed_manifest env u release =
     (let manifestURL = releaseAssetURL release ''release-manifest.json'';
          bundleURL = releaseAssetURL release ''release-manifest.json.sigstore.json''
      in if manifestURL = [] \<or> bundleURL = [] then Inl ManifestMissing
         else case fetchReleaseAsset env manifestURL maxReleaseMetadataBytes of Inl e \<Rightarrow> Inl e
         | Inr bytes \<Rightarrow>
           (case fetchReleaseAsset env bundleURL maxReleaseMetadataBytes of Inl e \<Rightarrow> Inl e
            | Inr bundle \<Rightarrow>
                if \<not> verifySigstoreBytes env u bytes bundle (grTagName release) then Inl ManifestUnverified
                else (case decode_manifest (reUnmarshal env bytes) of
                        None \<Rightarrow> Inl ManifestDecode
                      | Some manifest \<Rightarrow> Inr (bytes, manifest))))"

definition artifact_name :: "release_env \<Rightarrow> ReleaseManifest \<Rightarrow> string" where
  "artifact_name env m = ''strata-rmm-orchestrator-'' @ rmVersion m @ ''-'' @ reGOOS env @ ''-'' @ reGOARCH env"

text \<open>The rest of \<^verbatim>\<open>Check\<close>: the decision on a verified manifest.\<close>

definition select_artifact ::
  "release_env \<Rightarrow> OrchestratorUpdater \<Rightarrow> GitHubRelease \<Rightarrow> ReleaseManifest \<Rightarrow> update_error + OrchestratorRelease option" where
  "select_artifact env u release m =
     (case Validate_manifest m of Some e \<Rightarrow> Inl (ManifestInvalid e)
      | None \<Rightarrow>
        if TrimPrefix (grTagName release) ''v'' \<noteq> rmVersion m then Inl TagMismatch
        else (case AllowsUpgradeFrom m (ouCurrentVersion u) of Inl e \<Rightarrow> Inl (Incompatible e)
          | Inr allowed \<Rightarrow>
            if \<not> allowed then Inr None
            else (case Artifact m (artifact_name env m) of None \<Rightarrow> Inl ArtifactMissing
              | Some a \<Rightarrow>
                (let downloadURL = releaseAssetURL release (raName a);
                     artifactBundleURL = releaseAssetURL release (raSigstoreBundle a)
                 in if raKind a \<noteq> ''orchestrator'' \<or> raOS a \<noteq> reGOOS env \<or> raArch a \<noteq> reGOARCH env then Inl ArtifactPlatform
                    else if downloadURL = [] then Inl ArtifactAsset
                    else if artifactBundleURL = [] then Inl BundleAsset
                    else Inr (Some \<lparr>orVersion = rmVersion m, orSourceSHA = rmSourceSHA m,
                                    orSchemaCompatibility = rmSchemaCompatibility m, orURL = downloadURL,
                                    orChecksum = raSHA256 a, orSize = raSize a, orSigstoreBundleURL = artifactBundleURL,
                                    orReleaseTag = grTagName release, orChangelog = grBody release\<rparr>)))))"

definition Check_update :: "release_env \<Rightarrow> OrchestratorUpdater \<Rightarrow> update_error + OrchestratorRelease option" where
  "Check_update env u =
     (case latest_release env u of Inl e \<Rightarrow> Inl e
      | Inr release \<Rightarrow>
        (case signed_manifest env u release of Inl e \<Rightarrow> Inl e
         | Inr (_, m) \<Rightarrow> select_artifact env u release m))"

definition checkOCI :: "release_env \<Rightarrow> OrchestratorUpdater \<Rightarrow> string \<Rightarrow> update_error + (OCIReleaseCandidate \<times> string) option" where
  "checkOCI env u expectedRepository =
     (case latest_release env u of Inl e \<Rightarrow> Inl e
      | Inr release \<Rightarrow>
        (case signed_manifest env u release of Inl e \<Rightarrow> Inl e
         | Inr (bytes, m) \<Rightarrow>
             if TrimPrefix (grTagName release) ''v'' \<noteq> rmVersion m then Inl TagMismatch
             else (case OCICandidate (reGOOS env) (reGOARCH env) m (ouCurrentVersion u) expectedRepository of
                     Inl e \<Rightarrow> Inl (Selection e)
                   | Inr None \<Rightarrow> Inr None
                   | Inr (Some c) \<Rightarrow> Inr (Some (c, reSHA256 env bytes)))))"

definition VerifyOCICandidate :: "release_env \<Rightarrow> OrchestratorUpdater \<Rightarrow> OCIReleaseCandidate \<Rightarrow> update_error option" where
  "VerifyOCICandidate env u c =
     (if ocImage c = [] \<or> ocReleaseTag c = [] \<or> \<not> Contains (ocImage c) ''@sha256:'' then Some CandidateUnbound
      else if reVerifyImage env (ocImage c) (release_identity u (ocReleaseTag c)) then None
      else Some ImageUnverified)"

text \<open>Checksum files of older releases: the line that names the file.\<close>

fun checksum_lines :: "string list \<Rightarrow> string \<Rightarrow> string" where
  "checksum_lines [] filename = []"
| "checksum_lines (line # lines) filename =
     (case fields_from [] line of
        [hex, name] \<Rightarrow>
          if TrimPrefix name ''*'' \<noteq> filename then checksum_lines lines filename
          else if length (ToLower hex) \<noteq> 64 \<or> \<not> isHex (ToLower hex) then []
          else ToLower hex
      | _ \<Rightarrow> checksum_lines lines filename)"

definition checksumForFile :: "string \<Rightarrow> string \<Rightarrow> string" where
  "checksumForFile manifest filename = checksum_lines (Split (CHR ''\<newline>'') manifest) filename"

definition fetchChecksum :: "release_env \<Rightarrow> string \<Rightarrow> string \<Rightarrow> string" where
  "fetchChecksum env checksumURL filename =
     (case reGet env checksumURL of
        None \<Rightarrow> []
      | Some resp \<Rightarrow> if hrBroken resp \<or> hrStatus resp \<noteq> 200 then [] else checksumForFile (hrBody resp) filename)"

section \<open>The staged update\<close>

record disk_file =
  dfData :: string
  dfExecutable :: bool

type_synonym files = "string \<Rightarrow> disk_file option"

datatype download_io = MkUpdates | OpenBinary | WriteBinary | CloseBinary | RemoveBinary | ChmodBinary

definition updates_dir :: "OrchestratorUpdater \<Rightarrow> string" where
  "updates_dir u = JoinPath [ouDataDir u, ''updates'']"

definition binary_path :: "OrchestratorUpdater \<Rightarrow> OrchestratorRelease \<Rightarrow> string" where
  "binary_path u r = JoinPath [updates_dir u, ''strata-rmm-'' @ orVersion r]"

text \<open>\<open>written\<close> is how much of the body reaches the file when writing fails.\<close>

definition Download_file ::
  "release_env \<Rightarrow> (download_io \<Rightarrow> bool) \<Rightarrow> nat \<Rightarrow> OrchestratorUpdater \<Rightarrow> OrchestratorRelease \<Rightarrow> http_reply \<Rightarrow> files
     \<Rightarrow> (update_error + string) \<times> OrchestratorUpdater \<times> files" where
  "Download_file env fails written u r resp files =
     (let path = binary_path u r;
          received = take (nat (orSize r + 1)) (hrBody resp);
          exec = (case files path of None \<Rightarrow> True | Some f \<Rightarrow> dfExecutable f);
          files1 = files(path \<mapsto> \<lparr>dfData = (if fails WriteBinary then take written received else received), dfExecutable = exec\<rparr>);
          removed = (if fails RemoveBinary then files1 else files1(path := None))
      in if (hrBroken resp \<and> int (length (hrBody resp)) \<le> orSize r) \<or> fails WriteBinary then (Inl WriteFailed, u, removed)
         else if fails CloseBinary then (Inl CloseFailed, u, removed)
         else if int (length received) \<noteq> orSize r then (Inl SizeMismatch, u, removed)
         else if \<not> EqualFold (reSHA256 env received) (orChecksum r) then
           (Inl (if fails RemoveBinary then ChecksumMismatchKept else ChecksumMismatch), u, removed)
         else if \<not> verifySigstoreFile env u received (orSigstoreBundleURL r) (orReleaseTag r) then (Inl ArtifactUnverified, u, removed)
         else if fails ChmodBinary then (Inl ChmodFailed, u, removed)
         else (Inr path,
               u\<lparr>ouStagedBinary := path, ouStagedRelease := Some r, ouStagedPreflight := None, ouLegacyCLIApply := False\<rparr>,
               files(path \<mapsto> \<lparr>dfData = received, dfExecutable = True\<rparr>)))"

definition Download ::
  "release_env \<Rightarrow> (download_io \<Rightarrow> bool) \<Rightarrow> nat \<Rightarrow> OrchestratorUpdater \<Rightarrow> OrchestratorRelease option \<Rightarrow> files
     \<Rightarrow> (update_error + string) \<times> OrchestratorUpdater \<times> files" where
  "Download env fails written u rel files =
     (case rel of None \<Rightarrow> (Inl ProvenanceRequired, u, files)
      | Some r \<Rightarrow>
        if orChecksum r = [] \<or> orSigstoreBundleURL r = [] \<or> orReleaseTag r = [] \<or> orSize r \<le> 0
        then (Inl ProvenanceRequired, u, files)
        else if fails MkUpdates then (Inl UpdatesDirectory, u, files)
        else (case reGet env (orURL r) of None \<Rightarrow> (Inl DownloadFailed, u, files)
          | Some resp \<Rightarrow>
            if hrStatus resp \<noteq> 200 then (Inl (DownloadStatus (hrStatus resp)), u, files)
            else if orSize r < hrContentLength resp \<and> 0 \<le> hrContentLength resp then (Inl DownloadTooLarge, u, files)
            else if fails OpenBinary then (Inl OpenFailed, u, files)
            else Download_file env fails written u r resp files))"

definition executable_file :: "files \<Rightarrow> string \<Rightarrow> bool" where
  "executable_file files path = (case files path of None \<Rightarrow> False | Some f \<Rightarrow> dfExecutable f)"

definition Apply_staged :: "string \<Rightarrow> OrchestratorUpdater \<Rightarrow> string \<Rightarrow> files \<Rightarrow> update_error option \<times> OrchestratorUpdater" where
  "Apply_staged cwd u binaryPath files =
     (if ouStagedRelease u = None \<or> ouStagedBinary u = [] \<or> binaryPath \<noteq> ouStagedBinary u then (Some NotStaged, u)
      else if Dir (AbsPath cwd binaryPath) \<noteq> AbsPath cwd (updates_dir u) then (Some OutsideUpdates, u)
      else if \<not> executable_file files (AbsPath cwd binaryPath) then (Some NotExecutable, u)
      else (None, u\<lparr>ouLegacyCLIApply := True\<rparr>))"

text \<open>The attempts of the health check outside the staged path; each is the status of the reply, if any.\<close>

fun health_attempts :: "nat \<Rightarrow> (nat \<Rightarrow> int option) \<Rightarrow> nat \<Rightarrow> bool" where
  "health_attempts 0 probe i = False"
| "health_attempts (Suc n) probe i = (if probe i = Some 200 then True else health_attempts n probe (Suc i))"

text \<open>A preflight function: its result, whether it returned an error, and its effect on the files.\<close>

type_synonym preflight_func = "OrchestratorRelease \<Rightarrow> files \<Rightarrow> PreflightResult \<times> bool \<times> files"

definition Verify_staged ::
  "bool \<Rightarrow> bool \<Rightarrow> preflight_func \<Rightarrow> (nat \<Rightarrow> int option) \<Rightarrow> OrchestratorUpdater \<Rightarrow> files
     \<Rightarrow> update_error option \<times> OrchestratorUpdater \<times> files" where
  "Verify_staged configOk dbOk preflight probe u files =
     (if ouLegacyCLIApply u then
        (case ouStagedRelease u of None \<Rightarrow> (Some StagedIncomplete, u, files)
         | Some r \<Rightarrow>
           if ouStagedBinary u = [] then (Some StagedIncomplete, u, files)
           else if \<not> configOk then (Some ConfigUnavailable, u, files)
           else if \<not> dbOk then (Some DatabaseUnavailable, u, files)
           else (case preflight r files of
                   (result, failed, files') \<Rightarrow>
                     if failed then (Some PreflightFailed, u, files')
                     else if \<not> prPass result then (Some PreflightNotPassed, u, files')
                     else (None, u\<lparr>ouStagedPreflight := Some result\<rparr>, files')))
      else (if health_attempts 5 probe 0 then (None, u, files) else (Some Unhealthy, u, files)))"

definition Rollback_binary :: "bool \<Rightarrow> bool \<Rightarrow> OrchestratorUpdater \<Rightarrow> files \<Rightarrow> update_error option \<times> files" where
  "Rollback_binary renameOk restoreOk u files =
     (let backupPath = ouCurrentExe u @ ''.bak''; failed = ouCurrentExe u @ ''.failed''
      in if files backupPath = None then (Some NoBackup, files)
         else if \<not> renameOk \<or> files (ouCurrentExe u) = None then (Some RenameFailed, files)
         else
           let files1 = files(failed := files (ouCurrentExe u), ouCurrentExe u := None)
           in if \<not> restoreOk then (Some RestoreFailed, files1)
              else (None, files1(ouCurrentExe u := files backupPath, backupPath := None)))"

definition DetectMode :: "bool \<Rightarrow> string \<Rightarrow> string" where
  "DetectMode dockerenv kubernetesHost =
     (if dockerenv then ''docker'' else if kubernetesHost \<noteq> [] then ''kubernetes'' else ''baremetal'')"

text \<open>Paths below a directory, which \<^verbatim>\<open>os.RemoveAll\<close> removes with it.\<close>

definition Cleanup :: "OrchestratorUpdater \<Rightarrow> files \<Rightarrow> files" where
  "Cleanup u files =
     (if ouLegacyCLIApply u then files
      else (\<lambda>path. if path = ouCurrentExe u @ ''.failed'' \<or> path = ouCurrentExe u @ ''.bak'' \<or> path = updates_dir u
                      \<or> HasPrefix path (updates_dir u @ ''/'') then None else files path))"

text \<open>The command line given to the external finalizer, which then owns the swap; the process exits.\<close>

definition finalizer_path :: string where
  "finalizer_path = ''/usr/lib/strata-rmm/finalize-orchestrator-upgrade.sh''"

definition TriggerRestartWithSchema ::
  "string \<Rightarrow> string \<Rightarrow> bool \<Rightarrow> OrchestratorUpdater \<Rightarrow> string \<Rightarrow> int \<Rightarrow> int \<Rightarrow> files \<Rightarrow> update_error + string list" where
  "TriggerRestartWithSchema cwd mode launched u stagedBinary sourceSchema targetSchema files =
     (let stagedAbs = AbsPath cwd stagedBinary
      in case first_guard
                [(mode \<noteq> ''baremetal'', WrongMode),
                 (sourceSchema < 0 \<or> targetSchema < 0 \<or> targetSchema < sourceSchema, SchemaBoundary),
                 (stagedBinary = [], BinaryRequired),
                 (Dir stagedAbs \<noteq> AbsPath cwd (updates_dir u), OutsideUpdates),
                 (\<not> executable_file files stagedAbs, NotExecutable),
                 (\<not> executable_file files finalizer_path, FinalizerUnavailable),
                 (\<not> launched, LaunchFailed)] of
           Some e \<Rightarrow> Inl e
         | None \<Rightarrow> Inr [finalizer_path, ouCurrentExe u, stagedAbs, int_digits sourceSchema, int_digits targetSchema])"

definition TriggerRestart ::
  "string \<Rightarrow> string \<Rightarrow> bool \<Rightarrow> OrchestratorUpdater \<Rightarrow> files \<Rightarrow> update_error + string list" where
  "TriggerRestart cwd mode launched u files =
     (case ouStagedPreflight u of None \<Rightarrow> Inl NotStaged
      | Some p \<Rightarrow>
        if \<not> ouLegacyCLIApply u \<or> ouStagedRelease u = None \<or> ouStagedBinary u = [] \<or> \<not> prPass p then Inl NotStaged
        else TriggerRestartWithSchema cwd mode launched u (ouStagedBinary u) (prSourceSchemaVersion p) (prTargetSchemaVersion p) files)"

section \<open>The database recovery point\<close>

text \<open>The parts of a DSN that \<^verbatim>\<open>net/url\<close> finds, and the identity the server reports of itself.\<close>

record dsn_url =
  duScheme :: string
  duUser :: string
  duPassword :: string
  duHost :: string
  duPort :: string
  duPath :: string
  duSslmode :: string

record live_identity =
  liDatabase :: string
  liUser :: string
  liAddress :: "string option"
  liPort :: "int option"

record upgradeConnection =
  cnHost :: string
  cnPort :: string
  cnUser :: string
  cnPassword :: string
  cnDatabase :: string
  cnSslmode :: string

datatype backup_io =
    StatHandoff | MkBackupDir | MkHandoffDir | CreateDump | ChmodDump | ConfigureBackup | RunBackup | SyncDump | CloseDump
  | WriteHandoff | RenameHandoff | RemoveFiles

datatype backup_error =
    BackupNoDatabase | BackupNoDSN | HandoffExists | BackupIo backup_io | NotPostgresURL | DSNIncomplete | IdentityUnavailable
  | IdentityMismatch | PortMismatch | HostUnresolved | HostMismatch | BackupIntegrity

record backup_env =
  beURL :: "string \<Rightarrow> dsn_url option"
  beLive :: "live_identity option"
  beLookup :: "string \<Rightarrow> string list option"
  beFails :: "backup_io \<Rightarrow> bool"
  beDumpPath :: string
  beDump :: string
  beSize :: int
  beDigest :: string

definition verifiedUpgradeConnection :: "backup_env \<Rightarrow> string \<Rightarrow> backup_error + upgradeConnection" where
  "verifiedUpgradeConnection env dsn =
     (case beURL env dsn of None \<Rightarrow> Inl NotPostgresURL
      | Some p \<Rightarrow>
        if duScheme p \<noteq> ''postgres'' \<and> duScheme p \<noteq> ''postgresql'' then Inl NotPostgresURL
        else
          let c = \<lparr>cnHost = duHost p, cnPort = (if duPort p = [] then ''5432'' else duPort p), cnUser = duUser p,
                   cnPassword = duPassword p, cnDatabase = TrimPrefix (duPath p) ''/'',
                   cnSslmode = (if duSslmode p = [] then ''prefer'' else duSslmode p)\<rparr>
          in if cnHost c = [] \<or> cnUser c = [] \<or> cnDatabase c = [] then Inl DSNIncomplete
             else (case beLive env of None \<Rightarrow> Inl IdentityUnavailable
               | Some l \<Rightarrow>
                 if liDatabase l \<noteq> cnDatabase c \<or> liUser l \<noteq> cnUser c then Inl IdentityMismatch
                 else if (case liPort l of None \<Rightarrow> False | Some n \<Rightarrow> 0 < n \<and> int_digits n \<noteq> cnPort c) then Inl PortMismatch
                 else (case liAddress l of
                         None \<Rightarrow> Inr c
                       | Some addr \<Rightarrow>
                           if addr = [] then Inr c
                           else (case beLookup env (cnHost c) of
                                   None \<Rightarrow> Inl HostUnresolved
                                 | Some ips \<Rightarrow> if List.member ips addr then Inr c else Inl HostMismatch))))"

fun quote_chars :: "string \<Rightarrow> string" where
  "quote_chars [] = []"
| "quote_chars (c # cs) = (if c = CHR 0x27 then [CHR 0x27, CHR 0x5C, CHR 0x27, CHR 0x27] else [c]) @ quote_chars cs"

definition shellQuote :: "string \<Rightarrow> string" where
  "shellQuote s = CHR 0x27 # quote_chars s @ [CHR 0x27]"

definition writeEnv :: "string \<times> string \<Rightarrow> string" where
  "writeEnv nv = fst nv @ ''='' @ shellQuote (snd nv) @ ''\<newline>''"

definition handoff_values :: "string \<Rightarrow> string \<Rightarrow> upgradeConnection \<Rightarrow> (string \<times> string) list" where
  "handoff_values path digest c =
     [(''DB_BACKUP_PATH'', path), (''DB_BACKUP_SHA256'', digest), (''PGHOST'', cnHost c), (''PGPORT'', cnPort c),
      (''PGUSER'', cnUser c), (''PGPASSWORD'', cnPassword c), (''PGDATABASE'', cnDatabase c), (''PGSSLMODE'', cnSslmode c)]"

definition DefaultUpgradeHandoffPath :: string where
  "DefaultUpgradeHandoffPath = ''/var/lib/strata-rmm/updates/database-backup.env''"

text \<open>
  The dump goes to a fresh file; once that file exists, every failure removes it and the handoff. The handoff
  appears last, by a rename.
\<close>

definition backup_failed :: "backup_env \<Rightarrow> string \<Rightarrow> files \<Rightarrow> files" where
  "backup_failed env handoff files = (if beFails env RemoveFiles then files else files(beDumpPath env := None, handoff := None))"

definition private_file :: "string \<Rightarrow> disk_file" where
  "private_file s = \<lparr>dfData = s, dfExecutable = False\<rparr>"

definition createUpgradeDatabaseBackup ::
  "backup_env \<Rightarrow> bool \<Rightarrow> string \<Rightarrow> string \<Rightarrow> files \<Rightarrow> (backup_error + string \<times> string \<times> int) \<times> files" where
  "createUpgradeDatabaseBackup env db dsn handoffPath files =
     (let handoff = (if handoffPath = [] then DefaultUpgradeHandoffPath else handoffPath)
      in case first_guard
                [(\<not> db, BackupNoDatabase), (TrimSpace dsn = [], BackupNoDSN), (files handoff \<noteq> None, HandoffExists),
                 (beFails env StatHandoff, BackupIo StatHandoff)] of
           Some e \<Rightarrow> (Inl e, files)
         | None \<Rightarrow>
           (case verifiedUpgradeConnection env dsn of Inl e \<Rightarrow> (Inl e, files)
            | Inr c \<Rightarrow>
              (case first_guard
                      [(beFails env MkBackupDir, BackupIo MkBackupDir), (beFails env MkHandoffDir, BackupIo MkHandoffDir),
                       (beFails env CreateDump, BackupIo CreateDump)] of
                 Some e \<Rightarrow> (Inl e, files)
               | None \<Rightarrow>
                 (let dumped = files(beDumpPath env \<mapsto> private_file (beDump env));
                      temp = handoff @ ''.tmp'';
                      text = concat (map writeEnv (handoff_values (beDumpPath env) (beDigest env) c));
                      written = dumped(temp \<mapsto> private_file text)
                  in case first_guard
                            [(beFails env ChmodDump, BackupIo ChmodDump), (beFails env ConfigureBackup, BackupIo ConfigureBackup),
                             (beFails env RunBackup, BackupIo RunBackup),
                             (beSize env \<le> 0 \<or> length (beDigest env) \<noteq> 64, BackupIntegrity),
                             (beFails env SyncDump, BackupIo SyncDump), (beFails env CloseDump, BackupIo CloseDump),
                             (beFails env WriteHandoff, BackupIo WriteHandoff)] of
                       Some e \<Rightarrow> (Inl e, backup_failed env handoff dumped)
                     | None \<Rightarrow>
                       if beFails env RenameHandoff
                       then (Inl (BackupIo RenameHandoff), backup_failed env handoff (written(temp := None)))
                       else (Inr (beDumpPath env, beDigest env, beSize env), written(temp := None, handoff \<mapsto> private_file text))))))"

section \<open>The runtime preflight\<close>

text \<open>\<^verbatim>\<open>strconv.Atoi\<close>.\<close>

definition Atoi :: "string \<Rightarrow> int option" where
  "Atoi s =
     (let negative = HasPrefix s ''-'';
          ds = (if negative \<or> HasPrefix s ''+'' then tl s else s);
          n = (if negative then - int (digits_value ds) else int (digits_value ds))
      in if isNumericIdentifier ds \<and> - (2 ^ 63) \<le> n \<and> n < 2 ^ 63 then Some n else None)"

record preflight_env =
  pvDatabase :: bool
  pvConnectivity :: bool
  pvDiskSpace :: bool
  pvLiveSchema :: "int option"
  pvDSN :: "string option"
  pvNow :: instant
  pvBackup :: backup_env

definition appendCheck :: "string \<Rightarrow> bool \<Rightarrow> PreflightResult \<Rightarrow> PreflightResult" where
  "appendCheck name pass r =
     r\<lparr>prChecks := prChecks r @ [\<lparr>pcName = name, pcPass = pass\<rparr>], prPass := (prPass r \<and> pass)\<rparr>"

definition schema_check :: "preflight_env \<Rightarrow> string \<Rightarrow> PreflightResult \<Rightarrow> PreflightResult" where
  "schema_check env compatibility r =
     (case Atoi compatibility of
        None \<Rightarrow> appendCheck ''schema'' False r
      | Some target \<Rightarrow>
          if target < 0 then appendCheck ''schema'' False r
          else
            let live = (case pvLiveSchema env of None \<Rightarrow> 0 | Some n \<Rightarrow> n);
                r' = r\<lparr>prSourceSchemaVersion := live, prTargetSchemaVersion := target\<rparr>
            in appendCheck ''schema'' (pvLiveSchema env \<noteq> None \<and> 0 \<le> live \<and> live \<le> target) r')"

definition NewRuntimePreflight :: "preflight_env \<Rightarrow> preflight_func" where
  "NewRuntimePreflight env release files =
     (let r0 = \<lparr>prPass = True, prChecks = [], prTimestamp = Some (pvNow env), prSourceSchemaVersion = 0, prTargetSchemaVersion = 0\<rparr>
      in if \<not> pvDatabase env then (appendCheck ''backup'' False (appendCheck ''database'' False r0), False, files)
         else
           let r = schema_check env (orSchemaCompatibility release)
                     (appendCheck ''temporary_disk'' (pvDiskSpace env) (appendCheck ''database'' (pvConnectivity env) r0))
           in if \<not> prPass r then (appendCheck ''backup'' False r, False, files)
              else (case pvDSN env of None \<Rightarrow> (appendCheck ''backup'' False r, False, files)
                | Some dsn \<Rightarrow>
                  (case createUpgradeDatabaseBackup (pvBackup env) True dsn DefaultUpgradeHandoffPath files of
                     (Inl _, files') \<Rightarrow> (appendCheck ''backup'' False r, False, files')
                   | (Inr _, files') \<Rightarrow> (appendCheck ''backup'' True r, False, files'))))"

section \<open>The update service\<close>

record Plan_update =
  plCurrentVersion :: string
  plMode :: string
  plAvailable :: bool
  plRelease :: "OrchestratorRelease option"
  plPreflight :: "PreflightResult option"

record DockerPlan =
  dpCurrentVersion :: string
  dpAvailable :: bool
  dpCandidate :: "OCIReleaseCandidate option"
  dpManifestSHA256 :: string
  dpPreflight :: "PreflightResult option"

definition RunPreflight ::
  "preflight_func option \<Rightarrow> instant \<Rightarrow> OrchestratorRelease option \<Rightarrow> files \<Rightarrow> (update_error + PreflightResult) \<times> files" where
  "RunPreflight preflight now release files =
     (case release of None \<Rightarrow> (Inl ReleaseRequired, files)
      | Some rel \<Rightarrow>
        (case preflight of None \<Rightarrow> (Inl PreflightMissing, files)
         | Some run \<Rightarrow>
           (case run rel files of
              (result, failed, files') \<Rightarrow>
                let result' = (if prTimestamp result = None then result\<lparr>prTimestamp := Some now\<rparr> else result)
                in if failed then (Inl PreflightFailed, files')
                   else if \<not> prPass result' then (Inl PreflightNotPassed, files') else (Inr result', files'))))"

definition Plan_service ::
  "release_env \<Rightarrow> string \<Rightarrow> preflight_func option \<Rightarrow> instant \<Rightarrow> OrchestratorUpdater \<Rightarrow> bool \<Rightarrow> files
     \<Rightarrow> (update_error + Plan_update) \<times> files" where
  "Plan_service env mode preflight now u includePreflight files =
     (case Check_update env u of Inl e \<Rightarrow> (Inl e, files)
      | Inr release \<Rightarrow>
        (let plan = \<lparr>plCurrentVersion = ouCurrentVersion u, plMode = mode, plAvailable = (release \<noteq> None), plRelease = release,
                     plPreflight = None\<rparr>
         in if release = None \<or> \<not> includePreflight then (Inr plan, files)
            else (case RunPreflight preflight now release files of
                    (Inl e, files') \<Rightarrow> (Inl e, files')
                  | (Inr result, files') \<Rightarrow> (Inr (plan\<lparr>plPreflight := Some result\<rparr>), files'))))"

definition Stage ::
  "release_env \<Rightarrow> (download_io \<Rightarrow> bool) \<Rightarrow> nat \<Rightarrow> preflight_func option \<Rightarrow> instant \<Rightarrow> OrchestratorUpdater
     \<Rightarrow> OrchestratorRelease option \<Rightarrow> files \<Rightarrow> (update_error + string \<times> PreflightResult) \<times> OrchestratorUpdater \<times> files" where
  "Stage env fails written preflight now u release files =
     (case RunPreflight preflight now release files of
        (Inl e, files') \<Rightarrow> (Inl e, u, files')
      | (Inr result, files') \<Rightarrow>
          (case Download env fails written u release files' of
             (Inl e, u', files'') \<Rightarrow> (Inl e, u', files'')
           | (Inr path, u', files'') \<Rightarrow> (Inr (path, result), u', files'')))"

definition PlanDocker ::
  "release_env \<Rightarrow> preflight_func option \<Rightarrow> instant \<Rightarrow> OrchestratorUpdater \<Rightarrow> string \<Rightarrow> bool \<Rightarrow> files
     \<Rightarrow> (update_error + DockerPlan) \<times> files" where
  "PlanDocker env preflight now u expectedRepository includePreflight files =
     (case checkOCI env u expectedRepository of Inl e \<Rightarrow> (Inl e, files)
      | Inr found \<Rightarrow>
        (let plan = \<lparr>dpCurrentVersion = ouCurrentVersion u, dpAvailable = (found \<noteq> None), dpCandidate = map_option fst found,
                     dpManifestSHA256 = (case found of None \<Rightarrow> [] | Some (_, digest) \<Rightarrow> digest), dpPreflight = None\<rparr>
         in case found of None \<Rightarrow> (Inr plan, files)
            | Some (c, _) \<Rightarrow>
              if \<not> includePreflight then (Inr plan, files)
              else
                let release = \<lparr>orVersion = ocVersion c, orSourceSHA = ocSourceSHA c, orSchemaCompatibility = ocSchemaCompatibility c,
                               orURL = [], orChecksum = [], orSize = 0, orSigstoreBundleURL = [], orReleaseTag = ocReleaseTag c,
                               orChangelog = []\<rparr>
                in (case RunPreflight preflight now (Some release) files of
                      (Inl e, files') \<Rightarrow> (Inl e, files')
                    | (Inr result, files') \<Rightarrow> (Inr (plan\<lparr>dpPreflight := Some result\<rparr>), files'))))"

section \<open>The update handlers\<close>

datatype DeploymentState =
    DeploymentStatePending | DeploymentStateInProgress | DeploymentStateCompleted | DeploymentStateFailed
  | DeploymentStateRollingBack | DeploymentStateRolledBack

record DeploymentEvent =
  deID :: string
  deVersion :: string
  dePreviousVersion :: string
  deState :: DeploymentState
  deTimestamp :: "instant option"
  deFailed :: bool

record DeploymentController =
  dcEvents :: "DeploymentEvent list"
  dcCurrent :: DeploymentState
  dcLastEvent :: "DeploymentEvent option"

definition NewDeploymentController :: DeploymentController where
  "NewDeploymentController = \<lparr>dcEvents = [], dcCurrent = DeploymentStatePending, dcLastEvent = None\<rparr>"

definition RecordEvent :: "instant \<Rightarrow> DeploymentEvent \<Rightarrow> DeploymentController \<Rightarrow> DeploymentController" where
  "RecordEvent now event c =
     (let e = event\<lparr>deTimestamp := Some now\<rparr>
      in \<lparr>dcEvents = dcEvents c @ [e], dcCurrent = deState e, dcLastEvent = Some e\<rparr>)"

definition TransitionTo :: "instant \<Rightarrow> DeploymentState \<Rightarrow> bool \<Rightarrow> DeploymentController \<Rightarrow> DeploymentController" where
  "TransitionTo now newState failed c =
     (let e = \<lparr>deID = [], deVersion = [], dePreviousVersion = [], deState = newState, deTimestamp = Some now, deFailed = failed\<rparr>
      in \<lparr>dcEvents = dcEvents c @ [e], dcCurrent = newState, dcLastEvent = Some e\<rparr>)"

record UpdateManager =
  umStatus :: string
  umVersion :: string
  umController :: "DeploymentController option"

definition with_controller :: "(DeploymentController \<Rightarrow> DeploymentController) \<Rightarrow> UpdateManager \<Rightarrow> UpdateManager" where
  "with_controller f m = m\<lparr>umController := map_option f (umController m)\<rparr>"

definition deploy_event :: "instant \<Rightarrow> OrchestratorRelease \<Rightarrow> UpdateManager \<Rightarrow> DeploymentEvent" where
  "deploy_event now r m =
     \<lparr>deID = ''deploy-'' @ int_digits (now div Second), deVersion = orVersion r, dePreviousVersion = umVersion m,
      deState = DeploymentStateInProgress, deTimestamp = None, deFailed = False\<rparr>"

text \<open>
  \<^verbatim>\<open>applyUpdate\<close>, with the result of staging and of the launch of the finalizer as arguments: \<open>None\<close> for a
  launch after which the process exits.
\<close>

definition applyUpdate ::
  "instant \<Rightarrow> OrchestratorRelease option \<Rightarrow> update_error + string \<times> PreflightResult
     \<Rightarrow> (string \<Rightarrow> int \<Rightarrow> int \<Rightarrow> update_error + string list) \<Rightarrow> UpdateManager \<Rightarrow> UpdateManager" where
  "applyUpdate now release staged restart m =
     (case release of None \<Rightarrow> m\<lparr>umStatus := ''failed''\<rparr>
      | Some r \<Rightarrow>
        (let m1 = with_controller (RecordEvent now (deploy_event now r m) \<circ> TransitionTo now DeploymentStateInProgress False) m
         in case staged of
              Inl _ \<Rightarrow> (with_controller (TransitionTo now DeploymentStateFailed True) m1)\<lparr>umStatus := ''failed''\<rparr>
            | Inr (binaryPath, preflight) \<Rightarrow>
                (let m2 = (with_controller (RecordEvent now (deploy_event now r m)) m1)\<lparr>umStatus := ''restart_pending''\<rparr>
                 in case restart binaryPath (prSourceSchemaVersion preflight) (prTargetSchemaVersion preflight) of
                      Inr _ \<Rightarrow> m2
                    | Inl _ \<Rightarrow> (with_controller (TransitionTo now DeploymentStateFailed True) m2)\<lparr>umStatus := ''handoff_failed''\<rparr>)))"

text \<open>The deferred end of the staging goroutine.\<close>

definition apply_finished :: "UpdateManager \<Rightarrow> UpdateManager" where
  "apply_finished m = (if umStatus m = ''applying'' then m\<lparr>umStatus := ''idle''\<rparr> else m)"

text \<open>
  \<^verbatim>\<open>handleUpdateApply\<close> takes the lock twice: once to look at the status, once to set it. Between the two it asks
  for a plan. \<open>Inr\<close> is the release whose staging starts.
\<close>

definition apply_admit :: "UpdateManager \<Rightarrow> int option" where
  "apply_admit m = (if umStatus m = ''applying'' then Some 429 else None)"

definition apply_plan :: "(update_error + Plan_update) \<Rightarrow> bool \<Rightarrow> int + OrchestratorRelease" where
  "apply_plan plan db =
     (case plan of Inl _ \<Rightarrow> Inl 500
      | Inr p \<Rightarrow>
        (case plRelease p of None \<Rightarrow> Inl 409
         | Some r \<Rightarrow>
           if \<not> plAvailable p then Inl 409
           else if plMode p \<noteq> ''baremetal'' then Inl 409
           else if \<not> db then Inl 503
           else Inr r))"

definition apply_start :: "UpdateManager \<Rightarrow> UpdateManager" where
  "apply_start m = m\<lparr>umStatus := ''applying''\<rparr>"

definition handleUpdateApply ::
  "UpdateManager option \<Rightarrow> (update_error + Plan_update) \<Rightarrow> bool \<Rightarrow> (int \<times> OrchestratorRelease option) \<times> UpdateManager option" where
  "handleUpdateApply mgr plan db =
     (case mgr of None \<Rightarrow> ((500, None), None)
      | Some m \<Rightarrow>
        (case apply_admit m of Some status \<Rightarrow> ((status, None), Some m)
         | None \<Rightarrow>
           (case apply_plan plan db of
              Inl status \<Rightarrow> ((status, None), Some m)
            | Inr r \<Rightarrow> ((202, Some r), Some (apply_start m)))))"

text \<open>The requests in flight, each between the two critical sections, and what becomes of them.\<close>

datatype apply_phase = Arrived | Admitted | Staging | Answered int

inductive apply_step :: "UpdateManager \<times> apply_phase list \<Rightarrow> UpdateManager \<times> apply_phase list \<Rightarrow> bool" where
  admit: "i < length ps \<Longrightarrow> ps ! i = Arrived \<Longrightarrow> apply_admit m = None \<Longrightarrow> apply_step (m, ps) (m, ps[i := Admitted])"
| refuse: "i < length ps \<Longrightarrow> ps ! i = Arrived \<Longrightarrow> apply_admit m = Some c \<Longrightarrow> apply_step (m, ps) (m, ps[i := Answered c])"
| reject: "i < length ps \<Longrightarrow> ps ! i = Admitted \<Longrightarrow> apply_plan plan db = Inl c \<Longrightarrow> apply_step (m, ps) (m, ps[i := Answered c])"
| start: "i < length ps \<Longrightarrow> ps ! i = Admitted \<Longrightarrow> apply_plan plan db = Inr r \<Longrightarrow> apply_step (m, ps) (apply_start m, ps[i := Staging])"

end
