(* ===== verification/UpdateSafety.thy ===== *)
theory UpdateSafety
  imports ReleaseUpdater
begin

text \<open>
  What the updater guarantees: the provenance of a staged binary, what a failed download leaves, the recovery point
  behind a passed preflight, the reading of the handoff by the shell, and the admission of concurrent requests.
\<close>

section \<open>What is staged\<close>

lemma Check_update_Some:
  assumes "Check_update env u = Inr (Some r)"
  obtains release bytes m where "latest_release env u = Inr release" "signed_manifest env u release = Inr (bytes, m)"
    "select_artifact env u release m = Inr (Some r)"
  using assms by (auto simp: Check_update_def split: sum.splits)

lemma signed_manifest_Inr:
  assumes "signed_manifest env u release = Inr (bytes, m)"
  obtains sig where "verifySigstoreBytes env u bytes sig (grTagName release)" "decode_manifest (reUnmarshal env bytes) = Some m"
  using assms by (auto simp: signed_manifest_def Let_def split: if_split_asm sum.splits option.splits)

lemma select_artifact_Some:
  assumes "select_artifact env u release m = Inr (Some r)"
  obtains a where "AllowsUpgradeFrom m (ouCurrentVersion u) = Inr True" "Artifact m (artifact_name env m) = Some a"
    "raOS a = reGOOS env" "raArch a = reGOARCH env" "orVersion r = rmVersion m" "orChecksum r = raSHA256 a" "orSize r = raSize a"
    "orReleaseTag r = grTagName release" "orSchemaCompatibility r = rmSchemaCompatibility m"
proof (cases "Artifact m (artifact_name env m)")
  case None
  then show ?thesis using assms by (simp add: select_artifact_def split: option.splits if_split_asm sum.splits)
next
  case (Some a)
  have "AllowsUpgradeFrom m (ouCurrentVersion u) = Inr True"
    using assms by (simp add: select_artifact_def Some split: option.splits if_split_asm sum.splits)
  moreover have "raOS a = reGOOS env \<and> raArch a = reGOARCH env \<and> orVersion r = rmVersion m \<and> orChecksum r = raSHA256 a
      \<and> orSize r = raSize a \<and> orReleaseTag r = grTagName release \<and> orSchemaCompatibility r = rmSchemaCompatibility m"
    using assms by (simp add: select_artifact_def Some Let_def split: option.splits if_split_asm sum.splits) auto
  ultimately show ?thesis using that Some by blast
qed

lemma guard_pair: "(if c then (Inl e, x) else y) = (Inr p, z) \<longleftrightarrow> \<not> c \<and> y = (Inr p, z)"
  by simp

lemma Download_file_Inr:
  assumes "Download_file env fails written u r resp files = (Inr path, u', files')"
  obtains data where "files' = files(path \<mapsto> \<lparr>dfData = data, dfExecutable = True\<rparr>)" "int (length data) = orSize r"
    "EqualFold (reSHA256 env data) (orChecksum r)" "verifySigstoreFile env u data (orSigstoreBundleURL r) (orReleaseTag r)"
    "path = binary_path u r" "u' = u\<lparr>ouStagedBinary := path, ouStagedRelease := Some r, ouStagedPreflight := None, ouLegacyCLIApply := False\<rparr>"
proof -
  let ?d = "take (nat (orSize r + 1)) (hrBody resp)"
  note d = assms [unfolded Download_file_def Let_def guard_pair prod.inject sum.inject not_not]
  have "path = binary_path u r" using d by blast
  moreover have "files' = files(path \<mapsto> \<lparr>dfData = ?d, dfExecutable = True\<rparr>)" using d by blast
  moreover have "u' = u\<lparr>ouStagedBinary := path, ouStagedRelease := Some r, ouStagedPreflight := None, ouLegacyCLIApply := False\<rparr>"
    using d by blast
  ultimately show ?thesis using that [of ?d] d by blast
qed

lemma Download_Inr:
  assumes "Download env fails written u rel files = (Inr path, u', files')"
  obtains r resp where "rel = Some r" "Download_file env fails written u r resp files = (Inr path, u', files')" "0 < orSize r"
  using assms by (auto simp: Download_def split: option.splits if_split_asm)

lemma Stage_Inr:
  assumes "Stage env fails written pre now u rel files = (Inr (path, p), u', files')"
  obtains mid where "RunPreflight pre now rel files = (Inr p, mid)" "Download env fails written u rel mid = (Inr path, u', files')"
  using assms by (auto simp: Stage_def split: prod.splits sum.splits)

lemma appendCheck_simps [simp]:
  "prPass (appendCheck n b r) = (prPass r \<and> b)"
  "prSourceSchemaVersion (appendCheck n b r) = prSourceSchemaVersion r"
  "prTargetSchemaVersion (appendCheck n b r) = prTargetSchemaVersion r"
  "prTimestamp (appendCheck n b r) = prTimestamp r"
  by (simp_all add: appendCheck_def)

lemma schema_check_pass:
  "prPass (schema_check env sc r) \<Longrightarrow>
     prPass r \<and> pvLiveSchema env = Some (prSourceSchemaVersion (schema_check env sc r)) \<and>
     Atoi sc = Some (prTargetSchemaVersion (schema_check env sc r)) \<and>
     0 \<le> prSourceSchemaVersion (schema_check env sc r) \<and>
     prSourceSchemaVersion (schema_check env sc r) \<le> prTargetSchemaVersion (schema_check env sc r)"
  by (auto simp: schema_check_def Let_def split: option.splits if_split_asm)

lemma NewRuntimePreflight_pass:
  assumes "NewRuntimePreflight env rel files = (p, failed, files')" "prPass p"
  obtains dsn b where "pvDSN env = Some dsn" "pvLiveSchema env = Some (prSourceSchemaVersion p)"
    "Atoi (orSchemaCompatibility rel) = Some (prTargetSchemaVersion p)"
    "0 \<le> prSourceSchemaVersion p" "prSourceSchemaVersion p \<le> prTargetSchemaVersion p"
    "createUpgradeDatabaseBackup (pvBackup env) True dsn DefaultUpgradeHandoffPath files = (Inr b, files')"
proof -
  let ?r = "schema_check env (orSchemaCompatibility rel)
    (appendCheck ''temporary_disk'' (pvDiskSpace env) (appendCheck ''database'' (pvConnectivity env)
      \<lparr>prPass = True, prChecks = [], prTimestamp = Some (pvNow env), prSourceSchemaVersion = 0, prTargetSchemaVersion = 0\<rparr>))"
  have db: "pvDatabase env" and r: "prPass ?r" and p: "p = appendCheck ''backup'' True ?r"
    and ex: "\<exists>dsn b. pvDSN env = Some dsn \<and> createUpgradeDatabaseBackup (pvBackup env) True dsn DefaultUpgradeHandoffPath files = (Inr b, files')"
    using assms by (auto simp: NewRuntimePreflight_def Let_def split: if_split_asm option.splits prod.splits sum.splits)
  from ex obtain dsn b where "pvDSN env = Some dsn" "createUpgradeDatabaseBackup (pvBackup env) True dsn DefaultUpgradeHandoffPath files = (Inr b, files')"
    by blast
  then show ?thesis using that schema_check_pass [OF r] p by simp
qed

lemma RunPreflight_Inr:
  assumes "RunPreflight (Some run) now (Some rel) files = (Inr p, files')"
  obtains q where "run rel files = (q, False, files')" "prPass q" "prSourceSchemaVersion p = prSourceSchemaVersion q"
    "prTargetSchemaVersion p = prTargetSchemaVersion q"
  using assms by (auto simp: RunPreflight_def Let_def split: prod.splits if_split_asm)

text \<open>The recovery point that a passed preflight leaves: the dump and the handoff that names it.\<close>

lemma backup_created:
  assumes "createUpgradeDatabaseBackup env True dsn DefaultUpgradeHandoffPath files = (Inr b, files')"
  shows "files DefaultUpgradeHandoffPath = None \<and> b = (beDumpPath env, beDigest env, beSize env) \<and> 0 < beSize env \<and>
    (\<exists>c. verifiedUpgradeConnection env dsn = Inr c \<and>
       files' DefaultUpgradeHandoffPath =
         Some (private_file (concat (map writeEnv (handoff_values (beDumpPath env) (beDigest env) c)))))"
  using assms
  by (auto simp: createUpgradeDatabaseBackup_def Let_def DefaultUpgradeHandoffPath_def split: option.splits sum.splits if_split_asm)

section \<open>The provenance of a staged binary\<close>

text \<open>
  C25. A binary that is staged for the release that discovery returned has the size and the checksum that a manifest gives
  for this platform, the manifest and the binary are signed by the release workflow for the release's tag, the
  manifest's version is newer than the running one, the schema only moves forward, and a recovery point exists.
\<close>

theorem staged_provenance:
  assumes "Check_update env u = Inr (Some r)"
    and "Stage env fails written (Some (NewRuntimePreflight pv)) now u (Some r) files = (Inr (path, p), u', files')"
  shows "\<exists>bytes sig m a data cur new.
    verifySigstoreBytes env u bytes sig (orReleaseTag r) \<and> decode_manifest (reUnmarshal env bytes) = Some m \<and>
    Validate_manifest m = None \<and> a \<in> set (rmArtifacts m) \<and> raOS a = reGOOS env \<and> raArch a = reGOARCH env \<and>
    files' path = Some \<lparr>dfData = data, dfExecutable = True\<rparr> \<and> int (length data) = raSize a \<and>
    EqualFold (reSHA256 env data) (raSHA256 a) \<and> verifySigstoreFile env u data (orSigstoreBundleURL r) (orReleaseTag r) \<and>
    parseSemanticVersion (ouCurrentVersion u) = Inr cur \<and> parseSemanticVersion (rmVersion m) = Inr new \<and>
    version_key cur < version_key new \<and>
    0 \<le> prSourceSchemaVersion p \<and> prSourceSchemaVersion p \<le> prTargetSchemaVersion p \<and>
    files' DefaultUpgradeHandoffPath \<noteq> None"
proof -
  obtain release bytes m where c: "signed_manifest env u release = Inr (bytes, m)" "select_artifact env u release m = Inr (Some r)"
    using assms(1) by (rule Check_update_Some)
  obtain sig where sig: "verifySigstoreBytes env u bytes sig (grTagName release)" "decode_manifest (reUnmarshal env bytes) = Some m"
    using c(1) by (rule signed_manifest_Inr)
  obtain a where a: "AllowsUpgradeFrom m (ouCurrentVersion u) = Inr True" "Artifact m (artifact_name env m) = Some a"
    "raOS a = reGOOS env" "raArch a = reGOARCH env" "orChecksum r = raSHA256 a" "orSize r = raSize a" "orReleaseTag r = grTagName release"
    using c(2) by (rule select_artifact_Some)
  obtain cur v where v: "Validate_manifest m = None" "parseSemanticVersion (ouCurrentVersion u) = Inr cur"
    "parseSemanticVersion (rmVersion m) = Inr v" "version_key cur < version_key v"
    using a(1) by (rule allowed_upgrade)
  obtain mid where st: "RunPreflight (Some (NewRuntimePreflight pv)) now (Some r) files = (Inr p, mid)"
    "Download env fails written u (Some r) mid = (Inr path, u', files')"
    using assms(2) by (rule Stage_Inr)
  obtain q where q: "NewRuntimePreflight pv r files = (q, False, mid)" "prPass q" "prSourceSchemaVersion p = prSourceSchemaVersion q"
    "prTargetSchemaVersion p = prTargetSchemaVersion q"
    using st(1) by (rule RunPreflight_Inr)
  obtain dsn b where b: "0 \<le> prSourceSchemaVersion q" "prSourceSchemaVersion q \<le> prTargetSchemaVersion q"
    "createUpgradeDatabaseBackup (pvBackup pv) True dsn DefaultUpgradeHandoffPath files = (Inr b, mid)"
    using q(1,2) by (rule NewRuntimePreflight_pass)
  obtain resp where "Download_file env fails written u r resp mid = (Inr path, u', files')"
    using st(2) by (rule Download_Inr) simp
  then obtain data where d: "files' = mid(path \<mapsto> \<lparr>dfData = data, dfExecutable = True\<rparr>)" "int (length data) = orSize r"
    "EqualFold (reSHA256 env data) (orChecksum r)" "verifySigstoreFile env u data (orSigstoreBundleURL r) (orReleaseTag r)"
    by (rule Download_file_Inr)
  have "files' DefaultUpgradeHandoffPath \<noteq> None" using backup_created [OF b(3)] by (auto simp: d(1))
  moreover have "a \<in> set (rmArtifacts m)" using a(2) by (auto simp: Artifact_def dest: find_SomeD)
  ultimately show ?thesis using sig a(3-) v d b q(3,4) by (intro exI conjI) (simp_all only: fun_upd_same, simp_all)
qed

text \<open>A release published with one artifact, for an installation that runs an earlier prerelease.\<close>

definition sample_hex :: string where
  "sample_hex = replicate 64 (CHR ''a'')"

definition sample_manifest :: json where
  "sample_manifest = JObj
     [(''schema_version'', JNum 1), (''version'', JStr ''1.2.0''), (''source_sha'', JStr (replicate 40 (CHR ''b''))),
      (''build_timestamp'', JStr ''2025-01-02T03:04:05Z''), (''schema_compatibility'', JStr ''7''),
      (''minimum_upgrade_version'', JStr ''1.0.0''), (''channel'', JStr ''stable''),
      (''artifacts'', JArr [JObj [(''name'', JStr ''strata-rmm-orchestrator-1.2.0-linux-amd64''), (''kind'', JStr ''orchestrator''),
         (''os'', JStr ''linux''), (''arch'', JStr ''amd64''), (''size'', JNum 3), (''sha256'', JStr sample_hex),
         (''sigstore_bundle'', JStr ''strata-rmm-orchestrator-1.2.0-linux-amd64.sigstore.json'')]]),
      (''oci_images'', JArr [JObj [(''reference'', JStr ''ghcr.io/strata/orchestrator''), (''digest'', JStr (''sha256:'' @ sample_hex)),
         (''platforms'', JArr [JStr ''linux/amd64'', JStr ''linux/arm64'']), (''signature'', JStr ''sigstore-keyless'')]])]"

definition sample_github :: json where
  "sample_github = JObj [(''tag_name'', JStr ''v1.2.0''), (''assets'', JArr (map (\<lambda>(n, url).
       JObj [(''name'', JStr n), (''browser_download_url'', JStr url)])
     [(''release-manifest.json'', ''m''), (''release-manifest.json.sigstore.json'', ''s''),
      (''strata-rmm-orchestrator-1.2.0-linux-amd64'', ''b''), (''strata-rmm-orchestrator-1.2.0-linux-amd64.sigstore.json'', ''t'')]))]"

definition sample_env :: release_env where
  "sample_env =
     \<lparr>reGet = (\<lambda>url. Some \<lparr>hrStatus = 200, hrContentLength = 3, hrBody = (if url = ''b'' then ''BIN'' else url), hrBroken = False\<rparr>),
      reDecode = (\<lambda>_. Decoded sample_github), reUnmarshal = (\<lambda>_. Decoded sample_manifest),
      reVerifyBlob = (\<lambda>payload sig _. payload = ''m'' \<and> sig = ''s'' \<or> payload = ''BIN'' \<and> sig = ''t''), reVerifyImage = (\<lambda>_ _. True),
      reSHA256 = (\<lambda>_. sample_hex), reGOOS = ''linux'', reGOARCH = ''amd64''\<rparr>"

definition sample_updater :: OrchestratorUpdater where
  "sample_updater =
     \<lparr>ouCurrentVersion = ''v1.2.0-rc.1'', ouOwner = ''strata'', ouRepo = ''orchestrator'', ouCurrentExe = ''/usr/bin/strata-rmm'',
      ouDataDir = ''/var/lib/strata-rmm'', ouLegacyCLIApply = False, ouStagedBinary = [], ouStagedRelease = None,
      ouStagedPreflight = None\<rparr>"

definition sample_release :: OrchestratorRelease where
  "sample_release =
     \<lparr>orVersion = ''1.2.0'', orSourceSHA = replicate 40 (CHR ''b''), orSchemaCompatibility = ''7'', orURL = ''b'',
      orChecksum = sample_hex, orSize = 3, orSigstoreBundleURL = ''t'', orReleaseTag = ''v1.2.0'', orChangelog = []\<rparr>"

definition sample_preflight :: preflight_env where
  "sample_preflight =
     \<lparr>pvDatabase = True, pvConnectivity = True, pvDiskSpace = True, pvLiveSchema = Some 5, pvDSN = Some ''postgres'', pvNow = 9,
      pvBackup =
        \<lparr>beURL = (\<lambda>_. Some \<lparr>duScheme = ''postgres'', duUser = ''strata'', duPassword = ''secret'', duHost = ''db'', duPort = ''80'',
            duPath = ''/rmm'', duSslmode = []\<rparr>),
         beLive = Some \<lparr>liDatabase = ''rmm'', liUser = ''strata'', liAddress = None, liPort = Some 80\<rparr>,
         beLookup = (\<lambda>_. None), beFails = (\<lambda>_. False), beDumpPath = ''/backups/d'', beDump = ''DUMP'', beSize = 4,
         beDigest = sample_hex\<rparr>\<rparr>"

definition sample_result :: PreflightResult where
  "sample_result =
     \<lparr>prPass = True,
      prChecks = map (\<lambda>n. \<lparr>pcName = n, pcPass = True\<rparr>) [''database'', ''temporary_disk'', ''schema'', ''backup''],
      prTimestamp = Some 9, prSourceSchemaVersion = 5, prTargetSchemaVersion = 7\<rparr>"

definition sample_staging :: "(update_error + string \<times> PreflightResult) \<times> OrchestratorUpdater \<times> files" where
  "sample_staging =
     Stage sample_env (\<lambda>_. False) 0 (Some (NewRuntimePreflight sample_preflight)) 9 sample_updater (Some sample_release) (\<lambda>_. None)"

definition sample_published :: GitHubRelease where
  "sample_published =
     \<lparr>grTagName = ''v1.2.0'',
      grAssets = map (\<lambda>(n, url). \<lparr>gaName = n, gaBrowserDownloadURL = url, gaSize = 0\<rparr>)
        [(''release-manifest.json'', ''m''), (''release-manifest.json.sigstore.json'', ''s''),
         (''strata-rmm-orchestrator-1.2.0-linux-amd64'', ''b''), (''strata-rmm-orchestrator-1.2.0-linux-amd64.sigstore.json'', ''t'')],
      grBody = []\<rparr>"

definition sample_decoded :: ReleaseManifest where
  "sample_decoded =
     \<lparr>rmSchemaVersion = 1, rmVersion = ''1.2.0'', rmSourceSHA = replicate 40 (CHR ''b''), rmBuildTimestamp = ''2025-01-02T03:04:05Z'',
      rmSchemaCompatibility = ''7'', rmMinimumUpgradeVersion = ''1.0.0'', rmChannel = ''stable'',
      rmArtifacts =
        [\<lparr>raName = ''strata-rmm-orchestrator-1.2.0-linux-amd64'', raKind = ''orchestrator'', raOS = ''linux'', raArch = ''amd64'',
          raSize = 3, raSHA256 = sample_hex,
          raSigstoreBundle = ''strata-rmm-orchestrator-1.2.0-linux-amd64.sigstore.json''\<rparr>],
      rmOCIImages =
        [\<lparr>oiReference = ''ghcr.io/strata/orchestrator'', oiDigest = ''sha256:'' @ sample_hex,
          oiPlatforms = [''linux/amd64'', ''linux/arm64''], oiSignature = ''sigstore-keyless''\<rparr>]\<rparr>"

lemma sample_latest: "latest_release sample_env sample_updater = Inr sample_published"
  by code_simp

lemma sample_signed: "signed_manifest sample_env sample_updater sample_published = Inr (''m'', sample_decoded)"
  by code_simp

lemma sample_selected: "select_artifact sample_env sample_updater sample_published sample_decoded = Inr (Some sample_release)"
  by code_simp

lemma sample_checked: "Check_update sample_env sample_updater = Inr (Some sample_release)"
  by (simp add: Check_update_def sample_latest sample_signed sample_selected)

lemma sample_staged:
  "Stage sample_env (\<lambda>_. False) 0 (Some (NewRuntimePreflight sample_preflight)) 9 sample_updater (Some sample_release) (\<lambda>_. None) =
     (Inr (''/var/lib/strata-rmm/updates/strata-rmm-1.2.0'', sample_result), fst (snd sample_staging), snd (snd sample_staging))"
proof -
  have "fst sample_staging = Inr (''/var/lib/strata-rmm/updates/strata-rmm-1.2.0'', sample_result)" by code_simp
  then show ?thesis unfolding sample_staging_def by (metis prod.collapse)
qed

theorem staged_provenance_witness:
  "\<exists>bytes sig m a data cur new.
    verifySigstoreBytes sample_env sample_updater bytes sig ''v1.2.0'' \<and> decode_manifest (reUnmarshal sample_env bytes) = Some m \<and>
    Validate_manifest m = None \<and> a \<in> set (rmArtifacts m) \<and> raOS a = reGOOS sample_env \<and> raArch a = reGOARCH sample_env \<and>
    snd (snd sample_staging) ''/var/lib/strata-rmm/updates/strata-rmm-1.2.0'' = Some \<lparr>dfData = data, dfExecutable = True\<rparr> \<and>
    int (length data) = raSize a \<and> EqualFold (reSHA256 sample_env data) (raSHA256 a) \<and>
    verifySigstoreFile sample_env sample_updater data ''t'' ''v1.2.0'' \<and>
    parseSemanticVersion (ouCurrentVersion sample_updater) = Inr cur \<and> parseSemanticVersion (rmVersion m) = Inr new \<and>
    version_key cur < version_key new \<and>
    0 \<le> prSourceSchemaVersion sample_result \<and> prSourceSchemaVersion sample_result \<le> prTargetSchemaVersion sample_result \<and>
    snd (snd sample_staging) DefaultUpgradeHandoffPath \<noteq> None"
proof -
  have "orReleaseTag sample_release = ''v1.2.0''" "orSigstoreBundleURL sample_release = ''t''" by (simp_all add: sample_release_def)
  then show ?thesis using staged_provenance [OF sample_checked sample_staged] by (simp only:)
qed

section \<open>Chains of upgrades\<close>

text \<open>
  Along any chain of upgrades that manifests allow, the version strictly increases in the precedence order: no
  sequence of releases, however signed, leads an installation back to a version it had.
\<close>

theorem upgrade_chain_increases:
  assumes "upgrades\<^sup>+\<^sup>+ a b"
  shows "(\<exists>x y. parseSemanticVersion a = Inr x \<and> parseSemanticVersion b = Inr y \<and> version_key x < version_key y)
    \<and> \<not> upgrades\<^sup>+\<^sup>+ b a"
proof
  show "\<exists>x y. parseSemanticVersion a = Inr x \<and> parseSemanticVersion b = Inr y \<and> version_key x < version_key y"
    by (rule chain_increase [OF assms])
  show "\<not> upgrades\<^sup>+\<^sup>+ b a"
  proof
    assume "upgrades\<^sup>+\<^sup>+ b a"
    then have "upgrades\<^sup>+\<^sup>+ a a" using assms by (rule tranclp_trans [rotated])
    from chain_increase [OF this] show False by auto
  qed
qed

theorem upgrade_chain_increases_witness:
  "(\<exists>x y. parseSemanticVersion ''v1.2.0-rc.1'' = Inr x \<and> parseSemanticVersion ''1.2.0'' = Inr y \<and> version_key x < version_key y)
    \<and> \<not> upgrades\<^sup>+\<^sup>+ ''1.2.0'' ''v1.2.0-rc.1''"
proof (rule upgrade_chain_increases)
  have "rmVersion sample_decoded = ''1.2.0'' \<and> AllowsUpgradeFrom sample_decoded ''v1.2.0-rc.1'' = Inr True" by code_simp
  then show "upgrades\<^sup>+\<^sup>+ ''v1.2.0-rc.1'' ''1.2.0''" by (intro tranclp.r_into_trancl) (unfold upgrades_def, blast)
qed

section \<open>Failed downloads\<close>

lemma guard_pair_Inl: "(if c then (Inl e, x) else y) = (Inl e', z) \<longleftrightarrow> c \<and> e = e' \<and> x = z \<or> \<not> c \<and> y = (Inl e', z)"
  by simp

lemma Download_file_Inl:
  assumes "Download_file env fails written u r resp files = (Inl e, u', files')"
  shows "u' = u \<and> (\<exists>f. files' = (if fails RemoveBinary then files(binary_path u r \<mapsto> f) else files(binary_path u r := None)))"
proof -
  have *: "\<exists>f. (if c then g(k \<mapsto> h) else (g(k \<mapsto> h))(k := None)) = (if c then g(k \<mapsto> f) else g(k := None))"
    for c and g :: files and k h by auto
  show ?thesis
    using assms unfolding Download_file_def Let_def guard_pair_Inl prod.inject sum.inject
    by (elim disjE conjE) (use * in \<open>blast+\<close>)
qed

lemma Download_Inl:
  assumes "Download env fails written u (Some r) files = (Inl e, u', files')"
  shows "u' = u \<and> (files' = files \<or> (\<exists>f. files' = (if fails RemoveBinary then files(binary_path u r \<mapsto> f) else files(binary_path u r := None))))"
proof -
  consider "u' = u" "files' = files" | resp where "Download_file env fails written u r resp files = (Inl e, u', files')"
    using assms by (auto simp: Download_def split: option.splits if_split_asm)
  then show ?thesis by cases (blast, metis Download_file_Inl)
qed

text \<open>
  A failed download stages nothing and touches no other file; the partial artifact is gone, unless removing it
  failed too.
\<close>

theorem failed_download:
  assumes "Download env fails written u (Some r) files = (Inl e, u', files')"
  shows "u' = u \<and> (\<forall>q. q = binary_path u r \<or> files' q = files q)
    \<and> (fails RemoveBinary \<or> files' = files \<or> files' (binary_path u r) = None)"
  using Download_Inl [OF assms] by (cases "fails RemoveBinary") (auto simp: fun_upd_apply split: if_split_asm)

definition sample_broken :: "(update_error + string) \<times> OrchestratorUpdater \<times> files" where
  "sample_broken = Download (sample_env\<lparr>reSHA256 := (\<lambda>_. [])\<rparr>) (\<lambda>_. False) 0 sample_updater (Some sample_release) (\<lambda>_. None)"

theorem failed_download_witness:
  "fst (snd sample_broken) = sample_updater
    \<and> (\<forall>q. q = binary_path sample_updater sample_release \<or> snd (snd sample_broken) q = None)
    \<and> (False \<or> snd (snd sample_broken) = (\<lambda>_. None) \<or> snd (snd sample_broken) (binary_path sample_updater sample_release) = None)"
proof -
  have "fst sample_broken = Inl ChecksumMismatch" by code_simp
  then have "Download (sample_env\<lparr>reSHA256 := (\<lambda>_. [])\<rparr>) (\<lambda>_. False) 0 sample_updater (Some sample_release) (\<lambda>_. None) =
    (Inl ChecksumMismatch, fst (snd sample_broken), snd (snd sample_broken))"
    unfolding sample_broken_def by (metis prod.collapse)
  from failed_download [OF this] show ?thesis .
qed

section \<open>The handoff\<close>

text \<open>
  The shell's reading of a word made of plain characters, single quotes and backslashes, up to the end of the line,
  and of a file of assignments.
\<close>

fun sh_word :: "bool \<Rightarrow> string \<Rightarrow> (string \<times> string) option" where
  "sh_word quoted [] = (if quoted then None else Some ([], []))"
| "sh_word True (c # cs) =
     (if c = CHR 0x27 then sh_word False cs else map_option (\<lambda>(w, r). (c # w, r)) (sh_word True cs))"
| "sh_word False (c # cs) =
     (if c = CHR 0x27 then sh_word True cs
      else if c = CHR ''\<newline>'' then Some ([], cs)
      else if c = CHR 0x5C then
        (case cs of [] \<Rightarrow> None | d # ds \<Rightarrow> map_option (\<lambda>(w, r). (d # w, r)) (sh_word False ds))
      else map_option (\<lambda>(w, r). (c # w, r)) (sh_word False cs))"

fun sh_assignments :: "nat \<Rightarrow> string \<Rightarrow> (string \<times> string) list option" where
  "sh_assignments n [] = Some []"
| "sh_assignments 0 (c # cs) = None"
| "sh_assignments (Suc n) (c # cs) =
     (case dropWhile (\<lambda>x. x \<noteq> CHR ''='') (c # cs) of
        [] \<Rightarrow> None
      | _ # rest \<Rightarrow>
          (case sh_word False rest of
             None \<Rightarrow> None
           | Some (w, rest') \<Rightarrow> map_option (\<lambda>as. (takeWhile (\<lambda>x. x \<noteq> CHR ''='') (c # cs), w) # as) (sh_assignments n rest')))"

lemma sh_word_quoted: "sh_word True (quote_chars s @ CHR 0x27 # r) = map_option (\<lambda>(w, r). (s @ w, r)) (sh_word False r)"
proof (induction s)
  case Nil
  then show ?case by (cases "sh_word False r") auto
next
  case (Cons c s)
  then show ?case by (cases "sh_word False r") auto
qed

lemma sh_word_shellQuote: "sh_word False (shellQuote s @ CHR ''\<newline>'' # rest) = Some (s, rest)"
  by (simp add: shellQuote_def sh_word_quoted)

lemma sh_assignments_step:
  assumes "CHR ''='' \<notin> set name"
  shows "sh_assignments (Suc n) (writeEnv (name, v) @ rest) = map_option (\<lambda>as. (name, v) # as) (sh_assignments n rest)"
proof -
  let ?t = "writeEnv (name, v) @ rest"
  have t: "?t = name @ CHR ''='' # shellQuote v @ CHR ''\<newline>'' # rest" by (simp add: writeEnv_def)
  have "dropWhile (\<lambda>x. x \<noteq> CHR ''='') ?t = CHR ''='' # shellQuote v @ CHR ''\<newline>'' # rest"
    "takeWhile (\<lambda>x. x \<noteq> CHR ''='') ?t = name"
    unfolding t using assms by (subst dropWhile_append2 takeWhile_append2; auto)+
  moreover obtain c cs where "?t = c # cs" by (cases ?t) (simp_all add: t)
  ultimately show ?thesis using sh_word_shellQuote by (simp split: option.splits)
qed

lemma sh_assignments_lines:
  "\<forall>nv\<in>set nvs. CHR ''='' \<notin> set (fst nv) \<Longrightarrow> sh_assignments (length nvs) (concat (map writeEnv nvs)) = Some nvs"
proof (induction nvs)
  case (Cons nv nvs)
  then show ?case using sh_assignments_step [of "fst nv" "length nvs" "snd nv" "concat (map writeEnv nvs)"] by simp
qed simp

text \<open>
  Sourced by the shell, the handoff assigns the path and the digest of the backup and the parameters of the
  connection, whatever characters they hold.
\<close>

theorem handoff_roundtrip:
  "sh_assignments 8 (concat (map writeEnv (handoff_values path digest c))) = Some (handoff_values path digest c)"
proof -
  have "length (handoff_values path digest c) = 8" "\<forall>nv\<in>set (handoff_values path digest c). CHR ''='' \<notin> set (fst nv)"
    by (simp_all add: handoff_values_def)
  then show ?thesis using sh_assignments_lines [of "handoff_values path digest c"] by (simp only:)
qed

section \<open>One recovery point at a time\<close>

lemma preflight_blocked:
  assumes "files DefaultUpgradeHandoffPath \<noteq> None"
  shows "\<not> prPass (fst (NewRuntimePreflight env rel files))"
proof
  assume pass: "prPass (fst (NewRuntimePreflight env rel files))"
  obtain p failed files' where n: "NewRuntimePreflight env rel files = (p, failed, files')" by (metis prod_cases3)
  obtain dsn b where "createUpgradeDatabaseBackup (pvBackup env) True dsn DefaultUpgradeHandoffPath files = (Inr b, files')"
    using NewRuntimePreflight_pass [OF n] pass n by (metis fst_conv)
  from backup_created [OF this] assms show False by blast
qed

text \<open>
  A preflight passes only from a forward schema transition and a verified database identity, and leaves a
  recovery point behind: until it is removed, no further preflight passes.
\<close>

theorem one_recovery_point:
  assumes "NewRuntimePreflight env rel files = (p, failed, files')" and "prPass p"
  shows "files DefaultUpgradeHandoffPath = None \<and> files' DefaultUpgradeHandoffPath \<noteq> None \<and>
    0 \<le> prSourceSchemaVersion p \<and> prSourceSchemaVersion p \<le> prTargetSchemaVersion p \<and>
    (\<exists>dsn c. pvDSN env = Some dsn \<and> verifiedUpgradeConnection (pvBackup env) dsn = Inr c) \<and>
    (\<forall>env' rel'. \<not> prPass (fst (NewRuntimePreflight env' rel' files')))"
proof -
  obtain dsn b where b: "pvDSN env = Some dsn" "0 \<le> prSourceSchemaVersion p" "prSourceSchemaVersion p \<le> prTargetSchemaVersion p"
    "createUpgradeDatabaseBackup (pvBackup env) True dsn DefaultUpgradeHandoffPath files = (Inr b, files')"
    using assms by (rule NewRuntimePreflight_pass)
  note created = backup_created [OF b(4)]
  have "\<not> prPass (fst (NewRuntimePreflight env' rel' files'))" for env' rel'
    using preflight_blocked created by blast
  then show ?thesis using b created by auto
qed

theorem one_recovery_point_witness:
  "\<exists>files'. files' DefaultUpgradeHandoffPath \<noteq> None \<and>
     (\<forall>env' rel'. \<not> prPass (fst (NewRuntimePreflight env' rel' files')))"
proof -
  let ?r = "NewRuntimePreflight sample_preflight sample_release (\<lambda>_. None)"
  have "fst ?r = sample_result \<and> fst (snd ?r) = False" by code_simp
  then have "?r = (sample_result, False, snd (snd ?r))" by (metis prod.collapse)
  moreover have "prPass sample_result" by (simp add: sample_result_def)
  ultimately show ?thesis using one_recovery_point [of sample_preflight sample_release "\<lambda>_. None" sample_result False] by blast
qed

section \<open>Concurrent requests\<close>

text \<open>
  The status is looked at and set in two separate critical sections: two requests that arrive together can both be
  admitted, and both start staging, although the second is meant to be answered with 429.
\<close>

theorem concurrent_applies_both_stage:
  assumes "umStatus m \<noteq> ''applying''" and "apply_plan plan db = Inr r"
  shows "apply_step\<^sup>*\<^sup>* (m, [Arrived, Arrived]) (apply_start (apply_start m), [Staging, Staging])
    \<and> handleUpdateApply (Some (apply_start m)) plan db = ((429, None), Some (apply_start m))"
proof
  have admit: "apply_admit m = None" using assms(1) by (simp add: apply_admit_def)
  have "apply_step (m, [Arrived, Arrived]) (m, [Admitted, Arrived])"
    using apply_step.admit [of 0 "[Arrived, Arrived]" m] admit by simp
  moreover have "apply_step (m, [Admitted, Arrived]) (m, [Admitted, Admitted])"
    using apply_step.admit [of 1 "[Admitted, Arrived]" m] admit by simp
  moreover have "apply_step (m, [Admitted, Admitted]) (apply_start m, [Staging, Admitted])"
    using apply_step.start [of 0 "[Admitted, Admitted]", OF _ _ assms(2)] by simp
  moreover have "apply_step (apply_start m, [Staging, Admitted]) (apply_start (apply_start m), [Staging, Staging])"
    using apply_step.start [of 1 "[Staging, Admitted]", OF _ _ assms(2)] by simp
  ultimately show "apply_step\<^sup>*\<^sup>* (m, [Arrived, Arrived]) (apply_start (apply_start m), [Staging, Staging])"
    by (meson converse_rtranclp_into_rtranclp rtranclp.rtrancl_refl)
  show "handleUpdateApply (Some (apply_start m)) plan db = ((429, None), Some (apply_start m))"
    by (simp add: handleUpdateApply_def apply_admit_def apply_start_def)
qed

definition sample_plan :: "update_error + Plan_update" where
  "sample_plan = fst (Plan_service sample_env (DetectMode False []) None 9 sample_updater False (\<lambda>_. None))"

definition sample_manager :: UpdateManager where
  "sample_manager = \<lparr>umStatus = ''idle'', umVersion = ''1.2.0-rc.1'', umController = None\<rparr>"

theorem concurrent_applies_both_stage_witness:
  "apply_step\<^sup>*\<^sup>* (sample_manager, [Arrived, Arrived]) (apply_start (apply_start sample_manager), [Staging, Staging])
    \<and> handleUpdateApply (Some (apply_start sample_manager)) sample_plan True = ((429, None), Some (apply_start sample_manager))"
proof (rule concurrent_applies_both_stage)
  show "umStatus sample_manager \<noteq> ''applying''" by (simp add: sample_manager_def)
  show "apply_plan sample_plan True = Inr sample_release"
    by (simp add: sample_plan_def Plan_service_def sample_checked apply_plan_def DetectMode_def)
qed

end
