(* ===== verification/DockerUpgrade.thy ===== *)
theory DockerUpgrade
  imports UpdateSafety
begin

text \<open>
  The upgrade of a container deployment as a transaction with a journal (\<^verbatim>\<open>internal/update/docker_transaction.go\<close>,
  \<^verbatim>\<open>docker_executor.go\<close>, \<^verbatim>\<open>docker_reconcile.go\<close>) and the host command that runs it
  (\<^verbatim>\<open>cmd/orchestrator/docker_update_host.go\<close>).

  The persistent state is the protected environment file, the image of the running container and the journal. Every
  effect on it may succeed, fail, or take place and still be reported as failed; the states it goes through are kept
  in a trace, so that a crash at any point is one of them. Docker, the clock and the health probes are arguments.
\<close>

section \<open>The journal\<close>

datatype DockerUpgradeState =
    DockerUpgradePrepared | DockerUpgradePulled | DockerUpgradeApplying | DockerUpgradeVerifying | DockerUpgradeRollback
  | DockerUpgradeRolledBack | DockerUpgradeComplete | DockerUpgradeRecoveryNeeded

record DockerUpgradeJournal =
  djSchema :: int
  djTransactionID :: string
  djState :: DockerUpgradeState
  djCurrentVersion :: string
  djCandidateVersion :: string
  djCurrentSourceSHA :: string
  djCandidateSourceSHA :: string
  djCurrentImage :: string
  djCandidateImage :: string
  djManifestSHA256 :: string
  djSourceSchemaVersion :: int
  djTargetSchemaVersion :: int
  djComposeProject :: string
  djComposeFile :: string
  djAttempt :: int
  djCreatedAt :: instant
  djUpdatedAt :: instant

datatype journal_error =
    JournalSchema | JournalTransaction | JournalImages | JournalSameImage | JournalSourceSHA | JournalManifest
  | JournalCompose | JournalComposePath | JournalAttempt | JournalTimes

definition Validate_journal :: "DockerUpgradeJournal \<Rightarrow> journal_error option" where
  "Validate_journal j = first_guard
     [(djSchema j \<noteq> 1, JournalSchema),
      (TrimSpace (djTransactionID j) = [], JournalTransaction),
      (\<not> isImmutableOCIReference (djCurrentImage j) \<or> \<not> isImmutableOCIReference (djCandidateImage j), JournalImages),
      (djCurrentImage j = djCandidateImage j, JournalSameImage),
      (length (djCandidateSourceSHA j) \<noteq> 40 \<or> \<not> isHex (djCandidateSourceSHA j), JournalSourceSHA),
      (length (djManifestSHA256 j) \<noteq> 64 \<or> \<not> isHex (djManifestSHA256 j), JournalManifest),
      (TrimSpace (djComposeProject j) = [] \<or> TrimSpace (djComposeFile j) = [], JournalCompose),
      (\<not> IsAbs (djComposeFile j), JournalComposePath),
      (djAttempt j < 0 \<or> 10 < djAttempt j, JournalAttempt),
      (djCreatedAt j = zero_time \<or> djUpdatedAt j = zero_time \<or> djUpdatedAt j < djCreatedAt j, JournalTimes)]"

section \<open>The environment file\<close>

definition image_prefix :: string where
  "image_prefix = ''STRATA_ORCHESTRATOR_IMAGE=''"

definition TrimSuffix :: "string \<Rightarrow> string \<Rightarrow> string" where
  "TrimSuffix s p = rev (TrimPrefix (rev s) (rev p))"

datatype config_error = ConfigMissing | ConfigMutable | ConfigUnreadable

text \<open>
  The lines of \<^verbatim>\<open>bufio.Scanner\<close>: without their ends, and with an error for a line that does not fit its buffer.
\<close>

fun configured_in :: "string list \<Rightarrow> config_error + string" where
  "configured_in [] = Inl ConfigMissing"
| "configured_in (raw # rest) =
     (let line = TrimSuffix raw [CHR 0x0D]
      in if 65536 \<le> int (length raw) then Inl ConfigUnreadable
         else if HasPrefix line image_prefix then
           (let reference = TrimSpace (TrimPrefix line image_prefix)
            in if isImmutableOCIReference reference then Inr reference else Inl ConfigMutable)
         else configured_in rest)"

definition currentConfiguredImage :: "string \<Rightarrow> config_error + string" where
  "currentConfiguredImage payload = configured_in (Split (CHR ''\<newline>'') (TrimSuffix payload ''\<newline>''))"

fun replace_lines :: "string \<Rightarrow> string list \<Rightarrow> string list" where
  "replace_lines image_ref [] = []"
| "replace_lines image_ref (line # rest) =
     (if HasPrefix line image_prefix then image_prefix @ image_ref else line) # replace_lines image_ref rest"

definition replaced_env :: "string \<Rightarrow> string \<Rightarrow> string" where
  "replaced_env payload image_ref =
     (let old = Split (CHR ''\<newline>'') (TrimSuffix payload ''\<newline>'');
          new = replace_lines image_ref old;
          found = list_ex (\<lambda>line. HasPrefix line image_prefix) old
      in Join (CHR ''\<newline>'') (if found then new else new @ [image_prefix @ image_ref]) @ ''\<newline>'')"

section \<open>The health check\<close>

text \<open>One probe: whether it passed, how long it took, and whether the context was cancelled while waiting.\<close>

record probe =
  pbReady :: bool
  pbTook :: nat
  pbCancelled :: bool

datatype health = Healthy | HealthCancelled | HealthTimeout

definition health_timeout :: "int \<Rightarrow> int" where
  "health_timeout timeout = (if timeout \<le> 0 then 2 * Minute else timeout)"

text \<open>
  The loop of \<^verbatim>\<open>healthy\<close> from time \<open>now\<close> and probe \<open>i\<close>. The result comes with the number of the next probe and the
  time.
\<close>

function health_loop :: "(nat \<Rightarrow> probe) \<Rightarrow> int \<Rightarrow> int \<Rightarrow> nat \<Rightarrow> health \<times> nat \<times> int" where
  "health_loop probes deadline now i =
     (if \<not> now < deadline then (HealthTimeout, i, now)
      else if pbReady (probes i) then (Healthy, Suc i, now + int (pbTook (probes i)))
      else if pbCancelled (probes i) then (HealthCancelled, Suc i, now + int (pbTook (probes i)))
      else health_loop probes deadline (now + int (pbTook (probes i)) + 2 * Second) (Suc i))"
  by pat_completeness auto

termination health_loop
  by (relation "measure (\<lambda>(probes, deadline, now, i). nat (deadline - now))") (auto simp: Second_def)

declare health_loop.simps [simp del]

definition healthy_result :: "int \<Rightarrow> (nat \<Rightarrow> probe) \<Rightarrow> int \<Rightarrow> health \<times> nat \<times> int" where
  "healthy_result timeout probes now = health_loop probes (now + health_timeout timeout) now 0"

section \<open>The host\<close>

record DockerUpgradeExecutor =
  exComposeFile :: string
  exEnvFile :: string
  exProject :: string
  exJournalFile :: string
  exHealthTimeout :: int

record docker_world =
  dwEnv :: string
  dwLive :: "string option"
  dwJournal :: "DockerUpgradeJournal option"

record host =
  hWorld :: docker_world
  hTrace :: "docker_world list"
  hStep :: nat

datatype io = IoOk | IoFailed | IoLate

datatype up = UpDone | UpRefused | UpStopped | UpLate

record docker_env =
  deIo :: "nat \<Rightarrow> io"
  deCommand :: "nat \<Rightarrow> bool"
  deUp :: "nat \<Rightarrow> up"
  deProbes :: "nat \<Rightarrow> docker_world \<Rightarrow> nat \<Rightarrow> probe"
  deNow :: "nat \<Rightarrow> instant"

definition tick :: "host \<Rightarrow> host" where
  "tick h = h\<lparr>hStep := Suc (hStep h)\<rparr>"

definition commit :: "(docker_world \<Rightarrow> docker_world) \<Rightarrow> host \<Rightarrow> host" where
  "commit f h = tick (h\<lparr>hWorld := f (hWorld h), hTrace := f (hWorld h) # hTrace h\<rparr>)"

text \<open>One effect on the persistent state: whether it is reported as done, and the state after it.\<close>

definition mutate :: "docker_env \<Rightarrow> (docker_world \<Rightarrow> docker_world) \<Rightarrow> host \<Rightarrow> bool \<times> host" where
  "mutate env f h =
     (case deIo env (hStep h) of
        IoOk \<Rightarrow> (True, commit f h)
      | IoFailed \<Rightarrow> (False, tick h)
      | IoLate \<Rightarrow> (False, commit f h))"

definition WriteDockerUpgradeJournal :: "docker_env \<Rightarrow> DockerUpgradeExecutor \<Rightarrow> DockerUpgradeJournal \<Rightarrow> host \<Rightarrow> bool \<times> host" where
  "WriteDockerUpgradeJournal env e j h =
     (if Validate_journal j \<noteq> None \<or> Clean (exJournalFile e) \<noteq> exJournalFile e \<or> \<not> IsAbs (exJournalFile e) then (False, h)
      else mutate env (\<lambda>w. w\<lparr>dwJournal := Some j\<rparr>) h)"

definition ReadDockerUpgradeJournal :: "docker_env \<Rightarrow> host \<Rightarrow> DockerUpgradeJournal option \<times> host" where
  "ReadDockerUpgradeJournal env h =
     (case dwJournal (hWorld h) of
        None \<Rightarrow> (None, tick h)
      | Some j \<Rightarrow> if \<not> deCommand env (hStep h) \<or> Validate_journal j \<noteq> None then (None, tick h) else (Some j, tick h))"

definition removeJournal :: "docker_env \<Rightarrow> host \<Rightarrow> bool \<times> host" where
  "removeJournal env h =
     (if dwJournal (hWorld h) = None then (False, tick h) else mutate env (\<lambda>w. w\<lparr>dwJournal := None\<rparr>) h)"

definition replaceEnvImage :: "docker_env \<Rightarrow> string \<Rightarrow> host \<Rightarrow> bool \<times> host" where
  "replaceEnvImage env image_ref h =
     (if \<not> isImmutableOCIReference image_ref then (False, h)
      else mutate env (\<lambda>w. w\<lparr>dwEnv := replaced_env (dwEnv w) image_ref\<rparr>) h)"

text \<open>A Docker command without effect on the state modelled here: \<^verbatim>\<open>pull\<close> and \<^verbatim>\<open>compose config\<close>.\<close>

definition runDocker :: "docker_env \<Rightarrow> host \<Rightarrow> bool \<times> host" where
  "runDocker env h = (deCommand env (hStep h), tick h)"

text \<open>
  \<^verbatim>\<open>compose up\<close> starts the service with the image of the environment file; when it fails, the old container, no
  container or the new one runs.
\<close>

definition composed :: "docker_world \<Rightarrow> docker_world" where
  "composed w = (case currentConfiguredImage (dwEnv w) of Inl _ \<Rightarrow> w | Inr i \<Rightarrow> w\<lparr>dwLive := Some i\<rparr>)"

definition composeUp :: "docker_env \<Rightarrow> host \<Rightarrow> bool \<times> host" where
  "composeUp env h =
     (case deUp env (hStep h) of
        UpDone \<Rightarrow> (True, commit composed h)
      | UpRefused \<Rightarrow> (False, tick h)
      | UpStopped \<Rightarrow> (False, commit (\<lambda>w. w\<lparr>dwLive := None\<rparr>) h)
      | UpLate \<Rightarrow> (False, commit composed h))"

text \<open>The configured image; the file may fail to open.\<close>

definition readConfigured :: "docker_env \<Rightarrow> host \<Rightarrow> (config_error + string) \<times> host" where
  "readConfigured env h =
     (if deCommand env (hStep h) then currentConfiguredImage (dwEnv (hWorld h)) else Inl ConfigUnreadable, tick h)"

definition liveImage :: "docker_env \<Rightarrow> host \<Rightarrow> string option \<times> host" where
  "liveImage env h =
     (case dwLive (hWorld h) of
        None \<Rightarrow> (None, tick h)
      | Some raw \<Rightarrow>
          if \<not> deCommand env (hStep h) \<or> \<not> isImmutableOCIReference (TrimSpace raw) then (None, tick h)
          else (Some (TrimSpace raw), tick h))"

definition healthy :: "docker_env \<Rightarrow> DockerUpgradeExecutor \<Rightarrow> host \<Rightarrow> bool \<times> host" where
  "healthy env e h =
     (fst (healthy_result (exHealthTimeout e) (deProbes env (hStep h) (hWorld h)) (deNow env (hStep h))) = Healthy, tick h)"

section \<open>Apply\<close>

datatype docker_failure =
    ExecutorInvalid | PreflightRequired | JournalUninspected | JournalBlocks | ConfiguredUnusable config_error | LiveUnavailable | LiveMismatch
  | AdoptionFailed | AlreadyDeployed | JournalUnwritten | PullFailed | EnvUnwritten | ComposeInvalid | RestoreUnwritten
  | CleanupFailed | RemoveFailed | RollbackUnwritten | RollbackNotStarted | RollbackUnhealthy | CandidateFailed
  | JournalUnreadable | OtherDeployment | AttemptsExhausted | PreviousUnhealthy | NoRollbackIntent | ImagesUnknown
  | NotPlanned update_error | NotVerified update_error | Reconciled

datatype docker_result = Upgraded | Failed docker_failure

definition validate_executor :: "DockerUpgradeExecutor \<Rightarrow> bool" where
  "validate_executor e \<longleftrightarrow>
     exProject e \<noteq> [] \<and> IsAbs (exComposeFile e) \<and> IsAbs (exEnvFile e) \<and> IsAbs (exJournalFile e)"

definition setState ::
  "docker_env \<Rightarrow> DockerUpgradeExecutor \<Rightarrow> DockerUpgradeJournal \<Rightarrow> DockerUpgradeState \<Rightarrow> host \<Rightarrow> bool \<times> host" where
  "setState env e j state h =
     WriteDockerUpgradeJournal env e (j\<lparr>djState := state, djUpdatedAt := deNow env (hStep h)\<rparr>) h"

definition finishResolvedRollback ::
  "docker_env \<Rightarrow> DockerUpgradeExecutor \<Rightarrow> DockerUpgradeJournal \<Rightarrow> host \<Rightarrow> bool \<times> host" where
  "finishResolvedRollback env e j h =
     (case setState env e j DockerUpgradeRolledBack h of
        (False, h1) \<Rightarrow> (False, h1)
      | (True, h1) \<Rightarrow> removeJournal env h1)"

text \<open>A failure recorded as needing recovery; whether the record could be written is ignored.\<close>

definition recovery_needed ::
  "docker_env \<Rightarrow> DockerUpgradeExecutor \<Rightarrow> DockerUpgradeJournal \<Rightarrow> docker_failure \<Rightarrow> host \<Rightarrow> docker_result \<times> host" where
  "recovery_needed env e j failure h = (Failed failure, snd (setState env e j DockerUpgradeRecoveryNeeded h))"

text \<open>
  The way back to the previous image, which ends \<^verbatim>\<open>Apply\<close> and is \<^verbatim>\<open>rollbackRetainedDockerUpgrade\<close>; \<open>outcome\<close> is the
  result once the rollback is resolved.
\<close>

definition rollback_upgrade ::
  "docker_env \<Rightarrow> DockerUpgradeExecutor \<Rightarrow> DockerUpgradeJournal \<Rightarrow> docker_result \<Rightarrow> host \<Rightarrow> docker_result \<times> host" where
  "rollback_upgrade env e j outcome h =
     (case setState env e j DockerUpgradeRollback h of
        (False, h1) \<Rightarrow> (Failed JournalUnwritten, h1)
      | (True, h1) \<Rightarrow>
        (case replaceEnvImage env (djCurrentImage j) h1 of
           (False, h2) \<Rightarrow> recovery_needed env e j RollbackUnwritten h2
         | (True, h2) \<Rightarrow>
           (case composeUp env h2 of
              (False, h3) \<Rightarrow> recovery_needed env e j RollbackNotStarted h3
            | (True, h3) \<Rightarrow>
              (case healthy env e h3 of
                 (False, h4) \<Rightarrow> recovery_needed env e j RollbackUnhealthy h4
               | (True, h4) \<Rightarrow>
                 (case finishResolvedRollback env e j h4 of
                    (False, h5) \<Rightarrow> (Failed CleanupFailed, h5)
                  | (True, h5) \<Rightarrow> (outcome, h5))))))"

definition complete_upgrade ::
  "docker_env \<Rightarrow> DockerUpgradeExecutor \<Rightarrow> DockerUpgradeJournal \<Rightarrow> host \<Rightarrow> docker_result \<times> host" where
  "complete_upgrade env e j h =
     (case setState env e j DockerUpgradeComplete h of
        (False, h1) \<Rightarrow> (Failed JournalUnwritten, h1)
      | (True, h1) \<Rightarrow> (case removeJournal env h1 of (False, h2) \<Rightarrow> (Failed RemoveFailed, h2) | (True, h2) \<Rightarrow> (Upgraded, h2)))"

text \<open>The candidate is started and checked, and either completed or rolled back.\<close>

definition start_candidate ::
  "docker_env \<Rightarrow> DockerUpgradeExecutor \<Rightarrow> DockerUpgradeJournal \<Rightarrow> host \<Rightarrow> docker_result \<times> host" where
  "start_candidate env e j h =
     (case setState env e j DockerUpgradeApplying h of
        (False, h1) \<Rightarrow> (Failed JournalUnwritten, h1)
      | (True, h1) \<Rightarrow>
        (case composeUp env h1 of
           (False, h2) \<Rightarrow> rollback_upgrade env e j (Failed CandidateFailed) h2
         | (True, h2) \<Rightarrow>
           (case setState env e j DockerUpgradeVerifying h2 of
              (False, h3) \<Rightarrow> (Failed JournalUnwritten, h3)
            | (True, h3) \<Rightarrow>
              (case healthy env e h3 of
                 (False, h4) \<Rightarrow> rollback_upgrade env e j (Failed CandidateFailed) h4
               | (True, h4) \<Rightarrow> complete_upgrade env e j h4))))"

definition abandon_upgrade ::
  "docker_env \<Rightarrow> DockerUpgradeExecutor \<Rightarrow> DockerUpgradeJournal \<Rightarrow> docker_failure \<Rightarrow> host \<Rightarrow> docker_result \<times> host" where
  "abandon_upgrade env e j failure h =
     (case finishResolvedRollback env e j h of
        (False, h1) \<Rightarrow> (Failed CleanupFailed, h1)
      | (True, h1) \<Rightarrow> (Failed failure, h1))"

definition run_upgrade ::
  "docker_env \<Rightarrow> DockerUpgradeExecutor \<Rightarrow> DockerUpgradeJournal \<Rightarrow> host \<Rightarrow> docker_result \<times> host" where
  "run_upgrade env e j h =
     (case WriteDockerUpgradeJournal env e j h of
        (False, h1) \<Rightarrow> (Failed JournalUnwritten, h1)
      | (True, h1) \<Rightarrow>
        (case runDocker env h1 of
           (False, h2) \<Rightarrow> abandon_upgrade env e j PullFailed h2
         | (True, h2) \<Rightarrow>
           (case setState env e j DockerUpgradePulled h2 of
              (False, h3) \<Rightarrow> (Failed JournalUnwritten, h3)
            | (True, h3) \<Rightarrow>
              (case replaceEnvImage env (djCandidateImage j) h3 of
                 (False, h4) \<Rightarrow> (Failed EnvUnwritten, h4)
               | (True, h4) \<Rightarrow>
                 (case runDocker env h4 of
                    (False, h5) \<Rightarrow>
                      (case replaceEnvImage env (djCurrentImage j) h5 of
                         (False, h6) \<Rightarrow> recovery_needed env e j RestoreUnwritten h6
                       | (True, h6) \<Rightarrow> abandon_upgrade env e j ComposeInvalid h6)
                  | (True, h5) \<Rightarrow> start_candidate env e j h5)))))"

record apply_args =
  aaCandidate :: OCIReleaseCandidate
  aaPreflight :: PreflightResult
  aaVersion :: string
  aaCommit :: string
  aaManifest :: string

definition new_journal :: "DockerUpgradeExecutor \<Rightarrow> apply_args \<Rightarrow> string \<Rightarrow> instant \<Rightarrow> DockerUpgradeJournal" where
  "new_journal e a configured now =
     \<lparr>djSchema = 1, djTransactionID = ''docker-'' @ int_digits now, djState = DockerUpgradePrepared,
      djCurrentVersion = aaVersion a, djCandidateVersion = ocVersion (aaCandidate a),
      djCurrentSourceSHA = aaCommit a, djCandidateSourceSHA = ocSourceSHA (aaCandidate a),
      djCurrentImage = configured, djCandidateImage = ocImage (aaCandidate a), djManifestSHA256 = aaManifest a,
      djSourceSchemaVersion = prSourceSchemaVersion (aaPreflight a), djTargetSchemaVersion = prTargetSchemaVersion (aaPreflight a),
      djComposeProject = exProject e, djComposeFile = exComposeFile e, djAttempt = 0, djCreatedAt = now, djUpdatedAt = now\<rparr>"

text \<open>The start of the transaction from the image found live and configured.\<close>

definition begin_upgrade ::
  "docker_env \<Rightarrow> DockerUpgradeExecutor \<Rightarrow> apply_args \<Rightarrow> string \<Rightarrow> host \<Rightarrow> docker_result \<times> host" where
  "begin_upgrade env e a configured h =
     (if ocImage (aaCandidate a) = configured then (Failed AlreadyDeployed, h)
      else run_upgrade env e (new_journal e a configured (deNow env (hStep h))) h)"

definition Apply_docker ::
  "docker_env \<Rightarrow> DockerUpgradeExecutor \<Rightarrow> apply_args \<Rightarrow> host \<Rightarrow> docker_result \<times> host" where
  "Apply_docker env e a h =
     (if \<not> validate_executor e then (Failed ExecutorInvalid, h)
      else if \<not> prPass (aaPreflight a) then (Failed PreflightRequired, h)
      else if \<not> deCommand env (hStep h) then (Failed JournalUninspected, tick h)
      else if dwJournal (hWorld h) \<noteq> None then (Failed JournalBlocks, tick h)
      else
        (case readConfigured env (tick h) of
           (Inl ConfigMutable, h1) \<Rightarrow> (Failed (ConfiguredUnusable ConfigMutable), h1)
         | (Inl ConfigUnreadable, h1) \<Rightarrow> (Failed (ConfiguredUnusable ConfigUnreadable), h1)
         | (Inl ConfigMissing, h1) \<Rightarrow>
             (case liveImage env h1 of
                (None, h2) \<Rightarrow> (Failed LiveUnavailable, h2)
              | (Some live, h2) \<Rightarrow>
                (case replaceEnvImage env live h2 of
                   (False, h3) \<Rightarrow> (Failed AdoptionFailed, h3)
                 | (True, h3) \<Rightarrow> begin_upgrade env e a live h3))
         | (Inr image_ref, h1) \<Rightarrow>
             (case liveImage env h1 of
                (None, h2) \<Rightarrow> (Failed LiveUnavailable, h2)
              | (Some live, h2) \<Rightarrow>
                  if image_ref \<noteq> live then (Failed LiveMismatch, h2) else begin_upgrade env e a live h2)))"

section \<open>Reconcile\<close>

definition resolve_previous ::
  "docker_env \<Rightarrow> DockerUpgradeExecutor \<Rightarrow> DockerUpgradeJournal \<Rightarrow> host \<Rightarrow> docker_result \<times> host" where
  "resolve_previous env e j h =
     (case healthy env e h of
        (False, h1) \<Rightarrow> recovery_needed env e j PreviousUnhealthy h1
      | (True, h1) \<Rightarrow>
        (case finishResolvedRollback env e j h1 of (False, h2) \<Rightarrow> (Failed CleanupFailed, h2) | (True, h2) \<Rightarrow> (Upgraded, h2)))"

text \<open>The decision on the configured and the live image. \<open>Upgraded\<close> is a return without an error.\<close>

definition reconcile_images ::
  "docker_env \<Rightarrow> DockerUpgradeExecutor \<Rightarrow> DockerUpgradeJournal \<Rightarrow> string \<Rightarrow> string \<Rightarrow> host \<Rightarrow> docker_result \<times> host" where
  "reconcile_images env e j configured live h =
     (if configured = djCandidateImage j \<and> live = djCandidateImage j then
        (case healthy env e h of
           (False, h1) \<Rightarrow> rollback_upgrade env e j Upgraded h1
         | (True, h1) \<Rightarrow> complete_upgrade env e j h1)
      else if configured = djCurrentImage j \<and> live = djCurrentImage j then resolve_previous env e j h
      else if configured = djCandidateImage j \<and> live = djCurrentImage j then
        (case replaceEnvImage env (djCurrentImage j) h of
           (False, h1) \<Rightarrow> recovery_needed env e j RestoreUnwritten h1
         | (True, h1) \<Rightarrow> resolve_previous env e j h1)
      else if configured = djCurrentImage j \<and> live = djCandidateImage j then
        (if djState j \<noteq> DockerUpgradeRollback \<and> djState j \<noteq> DockerUpgradeRecoveryNeeded
         then recovery_needed env e j NoRollbackIntent h
         else rollback_upgrade env e j Upgraded h)
      else recovery_needed env e j ImagesUnknown h)"

definition Reconcile :: "docker_env \<Rightarrow> DockerUpgradeExecutor \<Rightarrow> host \<Rightarrow> docker_result \<times> host" where
  "Reconcile env e h =
     (if \<not> validate_executor e then (Failed ExecutorInvalid, h)
      else case ReadDockerUpgradeJournal env h of
             (None, h1) \<Rightarrow> (Failed JournalUnreadable, h1)
           | (Some j0, h1) \<Rightarrow>
               if djComposeProject j0 \<noteq> exProject e \<or> djComposeFile j0 \<noteq> exComposeFile e then (Failed OtherDeployment, h1)
               else
                 (let j = j0\<lparr>djAttempt := djAttempt j0 + 1, djUpdatedAt := deNow env (hStep h1)\<rparr>
                  in if Validate_journal j \<noteq> None then (Failed AttemptsExhausted, h1)
                     else case WriteDockerUpgradeJournal env e j h1 of
                            (False, h2) \<Rightarrow> (Failed JournalUnwritten, h2)
                          | (True, h2) \<Rightarrow>
                            (case readConfigured env h2 of
                               (Inl err, h3) \<Rightarrow> (Failed (ConfiguredUnusable err), h3)
                             | (Inr configured, h3) \<Rightarrow>
                               (case liveImage env h3 of
                                  (None, h4) \<Rightarrow> (Failed LiveUnavailable, h4)
                                | (Some live, h4) \<Rightarrow> reconcile_images env e j configured live h4))))"

section \<open>The host command\<close>

text \<open>
  \<^verbatim>\<open>docker-update-host\<close> after its checks of the host: a retained journal is reconciled and nothing else is done;
  otherwise the plan, the preflight and the signature come before the upgrade.
\<close>

definition canonical_repository :: "string \<Rightarrow> bool" where
  "canonical_repository r \<longleftrightarrow> r \<noteq> [] \<and> \<not> Contains r ''@'' \<and> \<not> Contains r ''://''"

datatype command_result = CommandDone | UpToDate | CommandFailed docker_failure | HostRefused

definition docker_update_host ::
  "bool \<Rightarrow> release_env \<Rightarrow> preflight_env \<Rightarrow> docker_env \<Rightarrow> OrchestratorUpdater \<Rightarrow> string \<Rightarrow> DockerUpgradeExecutor \<Rightarrow> string
     \<Rightarrow> files \<times> host \<Rightarrow> command_result \<times> files \<times> host" where
  "docker_update_host hostOk renv penv env u commit_sha e repository s =
     (let repo = ToLower (TrimSpace repository); files = fst s; h = snd s
      in if \<not> hostOk \<or> TrimSpace (exProject e) = [] \<or> \<not> canonical_repository repo then (HostRefused, s)
         else if dwJournal (hWorld h) \<noteq> None then
           (case Reconcile env e h of
              (Failed f, h') \<Rightarrow> (CommandFailed f, files, h')
            | (Upgraded, h') \<Rightarrow> (CommandFailed Reconciled, files, h'))
         else (case PlanDocker renv (Some (NewRuntimePreflight penv)) (pvNow penv) u repo True files of
                 (Inl err, files') \<Rightarrow> (CommandFailed (NotPlanned err), files', h)
               | (Inr plan, files') \<Rightarrow>
                   (case (dpCandidate plan, dpPreflight plan) of
                      (None, _) \<Rightarrow> (UpToDate, files', h)
                    | (Some c, None) \<Rightarrow> (CommandFailed PreflightRequired, files', h)
                    | (Some c, Some p) \<Rightarrow>
                        if \<not> prPass p then (CommandFailed PreflightRequired, files', h)
                        else (case VerifyOCICandidate renv u c of
                                Some err \<Rightarrow> (CommandFailed (NotVerified err), files', h)
                              | None \<Rightarrow>
                                (case Apply_docker env e \<lparr>aaCandidate = c, aaPreflight = p, aaVersion = ouCurrentVersion u,
                                        aaCommit = commit_sha, aaManifest = dpManifestSHA256 plan\<rparr> h of
                                   (Failed f, h') \<Rightarrow> (CommandFailed f, files', h')
                                 | (Upgraded, h') \<Rightarrow> (CommandDone, files', h'))))))"

end
