(* ===== verification/DockerSafety.thy ===== *)
theory DockerSafety
  imports DockerUpgrade
begin

text \<open>
  Correctness of the container upgrade: the rewriting of the environment file, the termination and the bound of the
  health check, the invariant of the transaction at every point of every run, its outcomes, and recovery.
\<close>

section \<open>Replacing the image in the environment file\<close>

text \<open>A reference as OCI defines them: a digest reference without white space, of bounded length.\<close>

definition good_image :: "string \<Rightarrow> bool" where
  "good_image i \<longleftrightarrow> isImmutableOCIReference i \<and> list_all (\<lambda>c. \<not> space_char c) i \<and> int (length i) < 4096"

lemma TrimSpace_plain: "list_all (\<lambda>c. \<not> space_char c) s \<Longrightarrow> TrimSpace s = s"
proof -
  assume "list_all (\<lambda>c. \<not> space_char c) s"
  then have "s = [] \<or> \<not> space_char (hd s)" "rev s = [] \<or> \<not> space_char (hd (rev s))"
    by (auto simp: list_all_iff hd_rev)
  then have "dropWhile space_char s = s" "dropWhile space_char (rev s) = rev s" by (simp_all add: dropWhile_eq_self_iff)
  then show ?thesis by (simp add: TrimSpace_def)
qed

lemma good_image_trim [simp]: "good_image i \<Longrightarrow> TrimSpace i = i"
  by (simp add: good_image_def TrimSpace_plain)

lemma good_image_chars: "good_image i \<Longrightarrow> space_char c \<Longrightarrow> c \<notin> set i"
  by (auto simp: good_image_def list_all_iff)

lemma TrimSuffix_append: "TrimSuffix (s @ p) p = s"
proof -
  have "HasPrefix (rev p @ rev s) (rev p)" using HasPrefix_iff by blast
  then show ?thesis by (simp add: TrimSuffix_def TrimPrefix_def)
qed

lemma TrimSuffix_char: "TrimSuffix s [c] = (if s \<noteq> [] \<and> last s = c then butlast s else s)"
  by (cases s rule: rev_cases) (simp_all add: TrimSuffix_def TrimPrefix_def)

lemma HasPrefix_snoc: "p \<noteq> [] \<Longrightarrow> last p \<noteq> c \<Longrightarrow> HasPrefix (s @ [c]) p \<longleftrightarrow> HasPrefix s p"
proof -
  assume p: "p \<noteq> []" "last p \<noteq> c"
  have "(\<exists>t. s @ [c] = p @ t) \<longleftrightarrow> (\<exists>t. s = p @ t)"
  proof
    assume "\<exists>t. s @ [c] = p @ t"
    then obtain t where t: "s @ [c] = p @ t" ..
    with p have "t \<noteq> []" by (metis append_Nil2 last_snoc)
    then have "s = p @ butlast t" using t by (metis butlast_append butlast_snoc)
    then show "\<exists>t. s = p @ t" ..
  qed auto
  then show ?thesis by (simp add: HasPrefix_iff)
qed

lemma image_prefix_last: "image_prefix \<noteq> []" "last image_prefix \<noteq> CHR 0x0D"
  by (simp_all add: image_prefix_def)

lemma prefix_line_cr: "HasPrefix (TrimSuffix raw [CHR 0x0D]) image_prefix \<longleftrightarrow> HasPrefix raw image_prefix"
proof (cases "raw \<noteq> [] \<and> last raw = CHR 0x0D")
  case True
  then have "raw = butlast raw @ [CHR 0x0D]" using append_butlast_last_id by metis
  then show ?thesis using True HasPrefix_snoc [OF image_prefix_last] by (metis TrimSuffix_char)
next
  case False
  then show ?thesis by (simp only: TrimSuffix_char if_False)
qed

text \<open>The line that is written names the image it was written for.\<close>

lemma written_line:
  assumes "good_image i"
  shows "configured_in ((image_prefix @ i) # rest) = Inr i"
proof -
  have i: "i \<noteq> []" using assms by (auto simp: good_image_def isImmutableOCIReference_def)
  have "space_char (CHR 0x0D)" by (simp add: space_char_def)
  then have "last (image_prefix @ i) \<noteq> CHR 0x0D" using i good_image_chars [OF assms] by (metis last_appendR last_in_set)
  then have "TrimSuffix (image_prefix @ i) [CHR 0x0D] = image_prefix @ i" by (simp add: TrimSuffix_char)
  moreover have "HasPrefix (image_prefix @ i) image_prefix" using HasPrefix_iff by blast
  moreover have "int (length (image_prefix @ i)) < 65536" using assms by (simp add: good_image_def image_prefix_def)
  ultimately show ?thesis using assms by (simp add: TrimPrefix_def good_image_def TrimSpace_plain)
qed

lemma configured_replaced:
  assumes "good_image i" "configured_in ls \<noteq> Inl ConfigUnreadable" "list_ex (\<lambda>l. HasPrefix l image_prefix) ls"
  shows "configured_in (replace_lines i ls) = Inr i"
  using assms(2,3)
proof (induction ls)
  case (Cons l ls)
  show ?case
  proof (cases "HasPrefix l image_prefix")
    case True
    then show ?thesis by (simp add: written_line [OF assms(1)] del: configured_in.simps)
  next
    case False
    then have "\<not> 65536 \<le> int (length l)" using Cons.prems(1) by (auto simp: prefix_line_cr Let_def)
    then show ?thesis using Cons False by (simp add: prefix_line_cr Let_def)
  qed
qed simp

lemma configured_appended:
  assumes "good_image i" "configured_in ls \<noteq> Inl ConfigUnreadable" "\<not> list_ex (\<lambda>l. HasPrefix l image_prefix) ls"
  shows "configured_in (replace_lines i ls @ [image_prefix @ i]) = Inr i"
  using assms(2,3)
proof (induction ls)
  case Nil
  then show ?case using written_line [OF assms(1)] by simp
next
  case (Cons l ls)
  then have "\<not> 65536 \<le> int (length l)" by (auto simp: prefix_line_cr Let_def)
  then show ?case using Cons by (simp add: prefix_line_cr Let_def)
qed

lemma replace_lines_no_newline:
  assumes "good_image i" "\<forall>l\<in>set ls. CHR ''\<newline>'' \<notin> set l" "l \<in> set (replace_lines i ls)"
  shows "CHR ''\<newline>'' \<notin> set l"
proof -
  have "space_char (CHR ''\<newline>'')" by (simp add: space_char_def)
  then have "CHR ''\<newline>'' \<notin> set (image_prefix @ i)" using good_image_chars [OF assms(1)] by (simp add: image_prefix_def)
  then show ?thesis using assms(2,3) by (induction ls) (auto split: if_splits)
qed

lemma replace_lines_Nil [simp]: "replace_lines i ls = [] \<longleftrightarrow> ls = []"
  by (cases ls) simp_all

lemma configured_after_replace:
  assumes "good_image i" "currentConfiguredImage payload \<noteq> Inl ConfigUnreadable"
  shows "currentConfiguredImage (replaced_env payload i) = Inr i"
proof -
  let ?old = "Split (CHR ''\<newline>'') (TrimSuffix payload ''\<newline>'')"
  let ?found = "list_ex (\<lambda>l. HasPrefix l image_prefix) ?old"
  let ?new = "if ?found then replace_lines i ?old else replace_lines i ?old @ [image_prefix @ i]"
  have "space_char (CHR ''\<newline>'')" by (simp add: space_char_def)
  then have nl: "CHR ''\<newline>'' \<notin> set (image_prefix @ i)" using good_image_chars [OF assms(1)] by (simp add: image_prefix_def)
  have "\<forall>l\<in>set ?old. CHR ''\<newline>'' \<notin> set l" using Split_sep_free by metis
  then have "CHR ''\<newline>'' \<notin> set l" if "l \<in> set ?new" for l
    using that nl replace_lines_no_newline [OF assms(1)] by (auto split: if_splits)
  then have "Split (CHR ''\<newline>'') (Join (CHR ''\<newline>'') ?new) = ?new" by (intro Split_Join) auto
  then have "currentConfiguredImage (replaced_env payload i) = configured_in ?new"
    by (simp only: currentConfiguredImage_def replaced_env_def Let_def TrimSuffix_append)
  moreover have "configured_in ?old \<noteq> Inl ConfigUnreadable" using assms(2) by (simp add: currentConfiguredImage_def)
  ultimately show ?thesis using configured_replaced [OF assms(1)] configured_appended [OF assms(1)] by auto
qed

text \<open>
  Writing an image into the environment file and reading it back gives that image, whatever the file held, as long
  as it could be read; the other lines stay as they are.
\<close>

theorem env_image_roundtrip:
  assumes "good_image i" and "currentConfiguredImage payload \<noteq> Inl ConfigUnreadable"
  shows "currentConfiguredImage (replaced_env payload i) = Inr i
    \<and> (\<exists>extra. extra \<in> {[], [image_prefix @ i]} \<and>
         replaced_env payload i =
           Join (CHR ''\<newline>'') (map (\<lambda>l. if HasPrefix l image_prefix then image_prefix @ i else l)
             (Split (CHR ''\<newline>'') (TrimSuffix payload ''\<newline>'')) @ extra) @ ''\<newline>'')"
proof -
  have "replace_lines i ls = map (\<lambda>l. if HasPrefix l image_prefix then image_prefix @ i else l) ls" for ls
    by (induction ls) simp_all
  then show ?thesis using configured_after_replace [OF assms] by (auto simp: replaced_env_def Let_def)
qed

section \<open>The health check returns\<close>

lemma health_loop_facts:
  "health_loop probes deadline now i = (r, n, t) \<Longrightarrow>
     i \<le> n \<and> (n = i \<longrightarrow> \<not> now < deadline) \<and> (i < n \<longrightarrow> (int n - int i - 1) * (2 * Second) < deadline - now) \<and>
     (\<forall>k. i \<le> k \<and> Suc k < n \<longrightarrow> \<not> pbReady (probes k)) \<and> (r = Healthy \<longleftrightarrow> i < n \<and> pbReady (probes (n - 1))) \<and>
     (r = HealthTimeout \<longrightarrow> deadline \<le> t)"
proof (induction probes deadline now i arbitrary: r n t rule: health_loop.induct)
  case (1 probes deadline now i)
  show ?case
  proof (cases "now < deadline \<and> \<not> pbReady (probes i) \<and> \<not> pbCancelled (probes i)")
    case False
    then show ?thesis using 1(2) by (auto simp: health_loop.simps [of probes deadline now i] split: if_splits)
  next
    case True
    let ?now = "now + int (pbTook (probes i)) + 2 * Second"
    have rec: "health_loop probes deadline ?now (Suc i) = (r, n, t)"
      using 1(2) True by (simp add: health_loop.simps [of probes deadline now i])
    have ih: "Suc i \<le> n" "n = Suc i \<longrightarrow> \<not> ?now < deadline" "Suc i < n \<longrightarrow> (int n - int (Suc i) - 1) * (2 * Second) < deadline - ?now"
      "\<forall>k. Suc i \<le> k \<and> Suc k < n \<longrightarrow> \<not> pbReady (probes k)" "r = Healthy \<longleftrightarrow> Suc i < n \<and> pbReady (probes (n - 1))"
      "r = HealthTimeout \<longrightarrow> deadline \<le> t"
      using 1(1) [OF _ _ _ rec] True by blast+
    have "(int n - int i - 1) * (2 * Second) < deadline - now"
    proof (cases "n = Suc i")
      case True
      then show ?thesis using \<open>now < deadline \<and> _\<close> by simp
    next
      case False
      then have "(int n - int (Suc i) - 1) * (2 * Second) < deadline - ?now" using ih(1,3) by simp
      then show ?thesis by (simp add: algebra_simps)
    qed
    moreover have "\<forall>k. i \<le> k \<and> Suc k < n \<longrightarrow> \<not> pbReady (probes k)"
      using ih(4) True by (metis le_eq_less_or_eq Suc_leI)
    moreover have "r = Healthy \<longleftrightarrow> i < n \<and> pbReady (probes (n - 1))"
      using ih(1,5) True by (cases "n = Suc i") auto
    ultimately show ?thesis using ih(1,6) by auto
  qed
qed

text \<open>
  C29. The health check always returns: it makes at most one probe for every two seconds of its timeout and one more,
  it reports health exactly when its last probe passed and none before did, and it gives up only after the timeout.
\<close>

theorem health_check_returns:
  "case healthy_result timeout probes now of
     (r, n, t) \<Rightarrow>
       0 < n \<and> (int n - 1) * (2 * Second) < health_timeout timeout \<and>
       (r = Healthy \<longleftrightarrow> (\<exists>k<n. pbReady (probes k))) \<and> (r \<noteq> HealthTimeout \<or> now + health_timeout timeout \<le> t)"
proof -
  obtain r n t where res: "healthy_result timeout probes now = (r, n, t)" by (cases "healthy_result timeout probes now") auto
  have pos: "0 < health_timeout timeout" by (simp add: health_timeout_def Minute_def Second_def)
  from health_loop_facts [OF res [unfolded healthy_result_def]]
  have f: "n = 0 \<longrightarrow> \<not> now < now + health_timeout timeout" "0 < n \<longrightarrow> (int n - 1) * (2 * Second) < health_timeout timeout"
    "\<forall>k. Suc k < n \<longrightarrow> \<not> pbReady (probes k)" "r = Healthy \<longleftrightarrow> 0 < n \<and> pbReady (probes (n - 1))"
    "r = HealthTimeout \<longrightarrow> now + health_timeout timeout \<le> t"
    by auto
  have n: "0 < n" using f(1) pos by auto
  have "(\<exists>k<n. pbReady (probes k)) \<longleftrightarrow> pbReady (probes (n - 1))"
  proof
    assume "\<exists>k<n. pbReady (probes k)"
    then obtain k where k: "k < n" "pbReady (probes k)" by blast
    then have "k = n - 1" using f(3) by (metis Suc_lessI diff_Suc_1)
    then show "pbReady (probes (n - 1))" using k by simp
  qed (use n in \<open>auto intro: exI [of _ "n - 1"]\<close>)
  then show ?thesis using f n by (simp add: res)
qed

theorem health_check_returns_witness:
  "case healthy_result 0 (\<lambda>k. \<lparr>pbReady = (k = 3), pbTook = 1, pbCancelled = False\<rparr>) 0 of
     (r, n, t) \<Rightarrow>
       0 < n \<and> (int n - 1) * (2 * Second) < health_timeout 0 \<and>
       (r = Healthy \<longleftrightarrow> (\<exists>k<n. k = 3)) \<and> (r \<noteq> HealthTimeout \<or> health_timeout 0 \<le> t)"
  using health_check_returns [of 0 "\<lambda>k. \<lparr>pbReady = (k = 3), pbTook = 1, pbCancelled = False\<rparr>" 0] by simp

section \<open>The invariant of a transaction\<close>

text \<open>
  Which configured image, live image and journal state go together while the upgrade from \<open>cur\<close> to \<open>cand\<close> is
  under way: without a journal, the service that runs is the configured one; with one, the previous image is configured
  over a live candidate only after the intent to roll back was recorded.
\<close>

definition allowed :: "string \<Rightarrow> string \<Rightarrow> string \<Rightarrow> string option \<Rightarrow> DockerUpgradeState option \<Rightarrow> bool" where
  "allowed cur cand c l js \<longleftrightarrow>
     c \<in> {cur, cand} \<and> l \<in> {None, Some cur, Some cand} \<and>
     (case js of
        None \<Rightarrow> l \<in> {None, Some c}
      | Some state \<Rightarrow> c = cur \<and> l = Some cand \<longrightarrow> state \<in> {DockerUpgradeRollback, DockerUpgradeRecoveryNeeded})"

definition images_of :: "string \<Rightarrow> string \<Rightarrow> DockerUpgradeJournal \<Rightarrow> bool" where
  "images_of cur cand j \<longleftrightarrow> djCurrentImage j = cur \<and> djCandidateImage j = cand"

definition world_at :: "string \<Rightarrow> string \<Rightarrow> string \<Rightarrow> string option \<Rightarrow> DockerUpgradeState option \<Rightarrow> docker_world \<Rightarrow> bool" where
  "world_at cur cand c l js w \<longleftrightarrow>
     currentConfiguredImage (dwEnv w) = Inr c \<and> dwLive w = l \<and>
     (case js of
        None \<Rightarrow> dwJournal w = None
      | Some state \<Rightarrow> \<exists>j. dwJournal w = Some j \<and> Validate_journal j = None \<and> images_of cur cand j \<and> djState j = state)"

definition transaction_ok :: "string \<Rightarrow> string \<Rightarrow> docker_world \<Rightarrow> bool" where
  "transaction_ok cur cand w \<longleftrightarrow> (\<exists>c l js. world_at cur cand c l js w \<and> allowed cur cand c l js)"

definition safe :: "string \<Rightarrow> string \<Rightarrow> host \<Rightarrow> bool" where
  "safe cur cand h \<longleftrightarrow> transaction_ok cur cand (hWorld h) \<and> list_all (transaction_ok cur cand) (hTrace h)"

definition sits :: "string \<Rightarrow> string \<Rightarrow> string \<Rightarrow> string option \<Rightarrow> DockerUpgradeState option \<Rightarrow> host \<Rightarrow> bool" where
  "sits cur cand c l js h \<longleftrightarrow>
     world_at cur cand c l js (hWorld h) \<and> allowed cur cand c l js \<and> list_all (transaction_ok cur cand) (hTrace h)"

text \<open>The two images of an upgrade.\<close>

definition upgrade_pair :: "string \<Rightarrow> string \<Rightarrow> bool" where
  "upgrade_pair cur cand \<longleftrightarrow> good_image cur \<and> good_image cand \<and> cur \<noteq> cand"

lemma sits_safe: "sits cur cand c l js h \<Longrightarrow> safe cur cand h"
  by (auto simp: sits_def safe_def transaction_ok_def)

lemma safe_sits: "safe cur cand h \<longleftrightarrow> (\<exists>c l js. sits cur cand c l js h)"
  by (auto simp: sits_def safe_def transaction_ok_def)

lemma tick_simps [simp]: "hWorld (tick h) = hWorld h" "hTrace (tick h) = hTrace h"
  by (simp_all add: tick_def)

lemma sits_tick [simp]: "sits cur cand c l js (tick h) = sits cur cand c l js h"
  by (simp add: sits_def)

lemma safe_tick [simp]: "safe cur cand (tick h) = safe cur cand h"
  by (simp add: safe_def)

lemma sits_commit:
  assumes "sits cur cand c l js h" "world_at cur cand c' l' js' (f (hWorld h))" "allowed cur cand c' l' js'"
  shows "sits cur cand c' l' js' (commit f h)"
  using assms by (auto simp: sits_def commit_def transaction_ok_def)

text \<open>An effect that leads from one allowed situation to another is safe, whether or not it is reported as done.\<close>

lemma mutate_sits:
  assumes "mutate env f h = (b, h')" "sits cur cand c l js h"
    "world_at cur cand c' l' js' (f (hWorld h))" "allowed cur cand c' l' js'"
  shows "(b \<longrightarrow> sits cur cand c' l' js' h') \<and> safe cur cand h'"
proof -
  have "sits cur cand c' l' js' (commit f h)" using assms(2-4) by (rule sits_commit)
  then show ?thesis using assms(1,2) by (auto simp: mutate_def sits_safe split: io.splits)
qed

lemma write_sits:
  assumes "WriteDockerUpgradeJournal env e j h = (b, h')" "images_of cur cand j" "sits cur cand c l js h"
    "allowed cur cand c l (Some (djState j))"
  shows "(b \<longrightarrow> sits cur cand c l (Some (djState j)) h') \<and> safe cur cand h'"
proof (cases "Validate_journal j = None \<and> Clean (exJournalFile e) = exJournalFile e \<and> IsAbs (exJournalFile e)")
  case True
  have "world_at cur cand c l (Some (djState j)) ((hWorld h)\<lparr>dwJournal := Some j\<rparr>)"
    using assms(2,3) True by (auto simp: sits_def world_at_def)
  then show ?thesis using mutate_sits [OF _ assms(3) _ assms(4)] assms(1) True by (simp add: WriteDockerUpgradeJournal_def)
next
  case False
  then show ?thesis using assms(1,3) by (auto simp: WriteDockerUpgradeJournal_def sits_safe)
qed

lemma setState_sits:
  assumes "setState env e j state h = (b, h')" "images_of cur cand j" "sits cur cand c l js h" "allowed cur cand c l (Some state)"
  shows "(b \<longrightarrow> sits cur cand c l (Some state) h') \<and> safe cur cand h'"
  using write_sits [OF assms(1) [unfolded setState_def]] assms(2-4) by (simp add: images_of_def)

lemma replace_sits:
  assumes "replaceEnvImage env i h = (b, h')" "sits cur cand c l js h" "allowed cur cand i l js" "good_image i"
  shows "(b \<longrightarrow> sits cur cand i l js h') \<and> safe cur cand h'"
proof -
  have "world_at cur cand i l js ((hWorld h)\<lparr>dwEnv := replaced_env (dwEnv (hWorld h)) i\<rparr>)"
    using assms(2) configured_after_replace [OF assms(4)] by (auto simp: sits_def world_at_def split: option.splits)
  then show ?thesis
    using mutate_sits [OF _ assms(2) _ assms(3)] assms(1,4) by (simp add: replaceEnvImage_def good_image_def)
qed

lemma remove_sits:
  assumes "removeJournal env h = (b, h')" "sits cur cand c l (Some state) h" "l \<in> {None, Some c}"
  shows "(b \<longrightarrow> sits cur cand c l None h') \<and> safe cur cand h'"
proof -
  have "world_at cur cand c l None ((hWorld h)\<lparr>dwJournal := None\<rparr>)" "allowed cur cand c l None" "dwJournal (hWorld h) \<noteq> None"
    using assms(2,3) by (auto simp: sits_def world_at_def allowed_def)
  moreover from this have "mutate env (\<lambda>w. w\<lparr>dwJournal := None\<rparr>) h = (b, h')" using assms(1) by (auto simp: removeJournal_def)
  ultimately show ?thesis using mutate_sits [OF _ assms(2)] by blast
qed

lemma composed_world: "world_at cur cand c l js w \<Longrightarrow> world_at cur cand c (Some c) js (composed w)"
  by (auto simp: world_at_def composed_def split: option.splits)

lemma up_sits:
  assumes "composeUp env h = (b, h')" "sits cur cand c l (Some state) h" "cur \<noteq> cand"
  shows "(b \<longrightarrow> sits cur cand c (Some c) (Some state) h') \<and>
    (\<not> b \<longrightarrow> sits cur cand c l (Some state) h' \<or> sits cur cand c None (Some state) h' \<or> sits cur cand c (Some c) (Some state) h')"
proof -
  have w: "world_at cur cand c l (Some state) (hWorld h)" and c: "c \<in> {cur, cand}"
    using assms(2) by (auto simp: sits_def allowed_def)
  have "allowed cur cand c (Some c) (Some state)" "allowed cur cand c None (Some state)"
    using c assms(3) by (auto simp: allowed_def)
  moreover have "world_at cur cand c None (Some state) ((hWorld h)\<lparr>dwLive := None\<rparr>)" using w by (simp add: world_at_def)
  ultimately have "sits cur cand c (Some c) (Some state) (commit composed h)"
    "sits cur cand c None (Some state) (commit (\<lambda>w. w\<lparr>dwLive := None\<rparr>) h)"
    using composed_world [OF w] sits_commit [OF assms(2), of c "Some c" "Some state" composed] sits_commit [OF assms(2), of c None "Some state" "\<lambda>w. w\<lparr>dwLive := None\<rparr>"]
    by blast+
  then show ?thesis using assms(1,2) by (auto simp: composeUp_def split: up.splits)
qed

lemma healthy_sits: "healthy env e h = (b, h') \<Longrightarrow> h' = tick h"
  by (auto simp: healthy_def)

lemma runDocker_tick: "runDocker env h = (b, h') \<Longrightarrow> h' = tick h"
  by (auto simp: runDocker_def)

section \<open>The programs of the transaction\<close>

text \<open>
  How a program ends: in a safe state after safe ones; a return without an error leaves one of the images in \<open>U\<close>
  configured and live and no journal, and the reports of an abandoned or rolled back upgrade leave the previous one.
\<close>

definition ends :: "string \<Rightarrow> string \<Rightarrow> string set \<Rightarrow> docker_result \<times> host \<Rightarrow> bool" where
  "ends cur cand U m \<longleftrightarrow>
     safe cur cand (snd m) \<and> (fst m = Upgraded \<longrightarrow> (\<exists>c\<in>U. sits cur cand c (Some c) None (snd m))) \<and>
     (fst m \<in> Failed ` {PullFailed, ComposeInvalid, CandidateFailed} \<longrightarrow> sits cur cand cur (Some cur) None (snd m))"

lemma ends_failed: "safe cur cand h \<Longrightarrow> f \<notin> {PullFailed, ComposeInvalid, CandidateFailed} \<Longrightarrow> ends cur cand U (Failed f, h)"
  by (auto simp: ends_def)

lemma ends_previous: "sits cur cand cur (Some cur) None h \<Longrightarrow> ends cur cand U (Failed f, h)"
  by (auto simp: ends_def sits_safe)

lemma ends_upgraded: "sits cur cand c (Some c) None h \<Longrightarrow> c \<in> U \<Longrightarrow> ends cur cand U (Upgraded, h)"
  by (auto simp: ends_def sits_safe)

lemma ends_case:
  assumes "\<And>h1. m = (False, h1) \<Longrightarrow> ends cur cand U (F h1)" "\<And>h1. m = (True, h1) \<Longrightarrow> ends cur cand U (T h1)"
  shows "ends cur cand U (case m of (False, h1) \<Rightarrow> F h1 | (True, h1) \<Rightarrow> T h1)"
  using assms by (cases m; cases "fst m") auto

lemma allowed_pending [simp]:
  "c \<in> {cur, cand} \<Longrightarrow> l \<in> {None, Some c} \<Longrightarrow> cur \<noteq> cand \<Longrightarrow> allowed cur cand c l (Some state)"
  "sits cur cand c l js h \<Longrightarrow> allowed cur cand c l (Some DockerUpgradeRollback)"
  "sits cur cand c l js h \<Longrightarrow> allowed cur cand c l (Some DockerUpgradeRecoveryNeeded)"
  by (auto simp: allowed_def sits_def)

lemma recovery_ends:
  assumes "sits cur cand c l js h" "images_of cur cand j" "f \<notin> {PullFailed, ComposeInvalid, CandidateFailed}"
  shows "ends cur cand U (recovery_needed env e j f h)"
proof -
  have "safe cur cand (snd (setState env e j DockerUpgradeRecoveryNeeded h))"
    using setState_sits [OF _ assms(2,1)] assms(1) by (metis allowed_pending(3) prod.collapse)
  then show ?thesis using assms(3) by (simp add: recovery_needed_def ends_failed)
qed

lemma recovery_safe:
  assumes "safe cur cand h" "images_of cur cand j" "f \<notin> {PullFailed, ComposeInvalid, CandidateFailed}"
  shows "ends cur cand U (recovery_needed env e j f h)"
  using assms recovery_ends by (metis safe_sits)

lemma finish_sits:
  assumes "finishResolvedRollback env e j h = (b, h')" "sits cur cand c (Some c) js h" "images_of cur cand j" "cur \<noteq> cand"
  shows "(b \<longrightarrow> sits cur cand c (Some c) None h') \<and> safe cur cand h'"
proof -
  have c: "c \<in> {cur, cand}" using assms(2) by (auto simp: sits_def allowed_def)
  obtain b1 h1 where s: "setState env e j DockerUpgradeRolledBack h = (b1, h1)" by fastforce
  from setState_sits [OF s assms(3,2)] c assms(4)
  have "(b1 \<longrightarrow> sits cur cand c (Some c) (Some DockerUpgradeRolledBack) h1) \<and> safe cur cand h1" by simp
  then show ?thesis using assms(1) s remove_sits [of env h1 b h'] by (cases b1) (auto simp: finishResolvedRollback_def)
qed

lemma rollback_ends:
  assumes "sits cur cand c l (Some state) h" "images_of cur cand j" "upgrade_pair cur cand"
    "outcome = Failed CandidateFailed \<or> outcome = Upgraded \<and> cur \<in> U"
  shows "ends cur cand U (rollback_upgrade env e j outcome h)"
proof -
  have pair: "cur \<noteq> cand" "good_image cur" and j: "djCurrentImage j = cur"
    using assms(2,3) by (simp_all add: upgrade_pair_def images_of_def)
  show ?thesis
    unfolding rollback_upgrade_def j
  proof (rule ends_case)
    fix h1 assume "setState env e j DockerUpgradeRollback h = (False, h1)"
    then show "ends cur cand U (Failed JournalUnwritten, h1)"
      using setState_sits [OF _ assms(2,1)] assms(1) by (auto intro: ends_failed)
  next
    fix h1 assume "setState env e j DockerUpgradeRollback h = (True, h1)"
    then have h1: "sits cur cand c l (Some DockerUpgradeRollback) h1" using setState_sits [OF _ assms(2,1)] assms(1) by auto
    then have "allowed cur cand cur l (Some DockerUpgradeRollback)" by (auto simp: sits_def allowed_def)
    note replaced = replace_sits [OF _ h1 this pair(2)]
    show "ends cur cand U (case replaceEnvImage env cur h1 of (False, h2) \<Rightarrow> recovery_needed env e j RollbackUnwritten h2
      | (True, h2) \<Rightarrow> (case composeUp env h2 of (False, h3) \<Rightarrow> recovery_needed env e j RollbackNotStarted h3
         | (True, h3) \<Rightarrow> (case healthy env e h3 of (False, h4) \<Rightarrow> recovery_needed env e j RollbackUnhealthy h4
            | (True, h4) \<Rightarrow> (case finishResolvedRollback env e j h4 of (False, h5) \<Rightarrow> (Failed CleanupFailed, h5)
               | (True, h5) \<Rightarrow> (outcome, h5)))))"
    proof (intro ends_case)
      fix h2 assume "replaceEnvImage env cur h1 = (False, h2)"
      then show "ends cur cand U (recovery_needed env e j RollbackUnwritten h2)"
        using replaced assms(2) by (auto intro: recovery_safe)
    next
      fix h2 h3 assume r: "replaceEnvImage env cur h1 = (True, h2)" and u: "composeUp env h2 = (False, h3)"
      then have "safe cur cand h3" using replaced up_sits [OF u _ pair(1)] sits_safe by blast
      then show "ends cur cand U (recovery_needed env e j RollbackNotStarted h3)" using assms(2) by (auto intro: recovery_safe)
    next
      fix h2 h3 h4
      assume r: "replaceEnvImage env cur h1 = (True, h2)" and u: "composeUp env h2 = (True, h3)" and "healthy env e h3 = (False, h4)"
      then have "safe cur cand h4" using replaced up_sits [OF u _ pair(1)] sits_safe healthy_sits safe_tick by metis
      then show "ends cur cand U (recovery_needed env e j RollbackUnhealthy h4)" using assms(2) by (auto intro: recovery_safe)
    next
      fix h2 h3 h4 h5 b
      assume r: "replaceEnvImage env cur h1 = (True, h2)" and u: "composeUp env h2 = (True, h3)" and "healthy env e h3 = (True, h4)"
      then have h4: "sits cur cand cur (Some cur) (Some DockerUpgradeRollback) h4"
        using replaced up_sits [OF u _ pair(1)] healthy_sits sits_tick by metis
      note fin = finish_sits [OF _ h4 assms(2) pair(1)]
      {
        assume "finishResolvedRollback env e j h4 = (False, h5)"
        then show "ends cur cand U (Failed CleanupFailed, h5)" using fin by (auto intro: ends_failed)
      next
        assume "finishResolvedRollback env e j h4 = (True, h5)"
        then have "sits cur cand cur (Some cur) None h5" using fin by blast
        then show "ends cur cand U (outcome, h5)" using assms(4) by (auto intro: ends_previous ends_upgraded)
      }
    qed
  qed
qed

lemma complete_ends:
  assumes "sits cur cand cand (Some cand) js h" "images_of cur cand j" "upgrade_pair cur cand" "cand \<in> U"
  shows "ends cur cand U (complete_upgrade env e j h)"
proof -
  have "allowed cur cand cand (Some cand) (Some DockerUpgradeComplete)" using assms(3) by (simp add: upgrade_pair_def)
  note st = setState_sits [OF _ assms(2,1) this]
  show ?thesis
    unfolding complete_upgrade_def
  proof (intro ends_case)
    fix h1 assume "setState env e j DockerUpgradeComplete h = (False, h1)"
    then show "ends cur cand U (Failed JournalUnwritten, h1)" using st by (auto intro: ends_failed)
  next
    fix h1 h2 assume "setState env e j DockerUpgradeComplete h = (True, h1)" and "removeJournal env h1 = (False, h2)"
    then show "ends cur cand U (Failed RemoveFailed, h2)" using st remove_sits by (blast intro: ends_failed)
  next
    fix h1 h2 assume "setState env e j DockerUpgradeComplete h = (True, h1)" and "removeJournal env h1 = (True, h2)"
    then show "ends cur cand U (Upgraded, h2)" using st remove_sits assms(4) by (blast intro: ends_upgraded)
  qed
qed

lemma abandon_ends:
  assumes "sits cur cand cur (Some cur) js h" "images_of cur cand j" "cur \<noteq> cand"
  shows "ends cur cand U (abandon_upgrade env e j f h)"
  unfolding abandon_upgrade_def
  using finish_sits [OF _ assms] by (intro ends_case) (blast intro: ends_failed ends_previous)+

lemma start_ends:
  assumes "sits cur cand cand (Some cur) (Some state) h" "images_of cur cand j" "upgrade_pair cur cand" "cand \<in> U"
  shows "ends cur cand U (start_candidate env e j h)"
proof -
  have pair: "cur \<noteq> cand" using assms(3) by (simp add: upgrade_pair_def)
  have "allowed cur cand cand (Some cur) (Some DockerUpgradeApplying)" using pair by (auto simp: allowed_def)
  note applying = setState_sits [OF _ assms(2,1) this]
  show ?thesis
    unfolding start_candidate_def
  proof (intro ends_case)
    fix h1 assume "setState env e j DockerUpgradeApplying h = (False, h1)"
    then show "ends cur cand U (Failed JournalUnwritten, h1)" using applying by (auto intro: ends_failed)
  next
    fix h1 h2 assume a: "setState env e j DockerUpgradeApplying h = (True, h1)" and u: "composeUp env h1 = (False, h2)"
    then have "\<exists>l. sits cur cand cand l (Some DockerUpgradeApplying) h2" using applying up_sits [OF u _ pair] by blast
    then show "ends cur cand U (rollback_upgrade env e j (Failed CandidateFailed) h2)" using rollback_ends assms(2,3) by blast
  next
    fix h1 h2 assume a: "setState env e j DockerUpgradeApplying h = (True, h1)" and u: "composeUp env h1 = (True, h2)"
    then have h2: "sits cur cand cand (Some cand) (Some DockerUpgradeApplying) h2" using applying up_sits [OF u _ pair] by blast
    have "allowed cur cand cand (Some cand) (Some DockerUpgradeVerifying)" using pair by simp
    note verifying = setState_sits [OF _ assms(2) h2 this]
    {
      fix h3 assume "setState env e j DockerUpgradeVerifying h2 = (False, h3)"
      then show "ends cur cand U (Failed JournalUnwritten, h3)" using verifying by (auto intro: ends_failed)
    next
      fix h3 h4 assume "setState env e j DockerUpgradeVerifying h2 = (True, h3)" and "healthy env e h3 = (False, h4)"
      then have "sits cur cand cand (Some cand) (Some DockerUpgradeVerifying) h4" using verifying healthy_sits sits_tick by metis
      then show "ends cur cand U (rollback_upgrade env e j (Failed CandidateFailed) h4)" using rollback_ends assms(2,3) by blast
    next
      fix h3 h4 assume "setState env e j DockerUpgradeVerifying h2 = (True, h3)" and "healthy env e h3 = (True, h4)"
      then have "sits cur cand cand (Some cand) (Some DockerUpgradeVerifying) h4" using verifying healthy_sits sits_tick by metis
      then show "ends cur cand U (complete_upgrade env e j h4)" using complete_ends assms(2-4) by blast
    }
  qed
qed

lemma configured_ends:
  assumes "sits cur cand cand (Some cur) (Some DockerUpgradePulled) h" "images_of cur cand j" "upgrade_pair cur cand"
  shows "ends cur cand {cand}
    (case runDocker env h of
       (False, h5) \<Rightarrow>
         (case replaceEnvImage env cur h5 of
            (False, h6) \<Rightarrow> recovery_needed env e j RestoreUnwritten h6
          | (True, h6) \<Rightarrow> abandon_upgrade env e j ComposeInvalid h6)
     | (True, h5) \<Rightarrow> start_candidate env e j h5)"
proof -
  have pair: "cur \<noteq> cand" "good_image cur" using assms(3) by (simp_all add: upgrade_pair_def)
  have h5: "sits cur cand cand (Some cur) (Some DockerUpgradePulled) h5" if "runDocker env h = (b, h5)" for b h5
    using runDocker_tick [OF that] assms(1) by simp
  have "allowed cur cand cur (Some cur) (Some DockerUpgradePulled)" using pair(1) by simp
  note restored = replace_sits [OF _ h5 this pair(2)]
  show ?thesis
  proof (intro ends_case)
    fix h5 h6 assume "runDocker env h = (False, h5)" and "replaceEnvImage env cur h5 = (False, h6)"
    then show "ends cur cand {cand} (recovery_needed env e j RestoreUnwritten h6)"
      using restored assms(2) by (blast intro: recovery_safe)
  next
    fix h5 h6 assume "runDocker env h = (False, h5)" and "replaceEnvImage env cur h5 = (True, h6)"
    then show "ends cur cand {cand} (abandon_upgrade env e j ComposeInvalid h6)" using restored assms(2) pair(1) abandon_ends by blast
  next
    fix h5 assume "runDocker env h = (True, h5)"
    then show "ends cur cand {cand} (start_candidate env e j h5)" using h5 assms(2,3) start_ends by blast
  qed
qed

lemma run_ends:
  assumes "sits cur cand cur (Some cur) None h" "images_of cur cand j" "djState j = DockerUpgradePrepared" "upgrade_pair cur cand"
  shows "ends cur cand {cand} (run_upgrade env e j h)"
proof -
  have pair: "cur \<noteq> cand" "good_image cand" and img: "djCurrentImage j = cur" "djCandidateImage j = cand"
    using assms(2,4) by (simp_all add: upgrade_pair_def images_of_def)
  have ok: "allowed cur cand cur (Some cur) (Some state)" "allowed cur cand cand (Some cur) (Some state)" for state
    using pair(1) by (auto simp: allowed_def)
  note prepared = write_sits [OF _ assms(2,1) ok(1), unfolded assms(3)]
  have h2: "sits cur cand cur (Some cur) (Some DockerUpgradePrepared) h2"
    if "WriteDockerUpgradeJournal env e j h = (True, h1)" "runDocker env h1 = (b, h2)" for h1 h2 b
    using prepared [OF that(1)] runDocker_tick [OF that(2)] by simp
  note pulled = setState_sits [OF _ assms(2) h2 ok(1)]
  note replaced = replace_sits [OF _ _ ok(2) pair(2)]
  show ?thesis
    unfolding run_upgrade_def img
  proof (intro ends_case)
    fix h1 assume "WriteDockerUpgradeJournal env e j h = (False, h1)"
    then show "ends cur cand {cand} (Failed JournalUnwritten, h1)" using prepared by (auto intro: ends_failed)
  next
    fix h1 h2 assume "WriteDockerUpgradeJournal env e j h = (True, h1)" and "runDocker env h1 = (False, h2)"
    then show "ends cur cand {cand} (abandon_upgrade env e j PullFailed h2)" using h2 abandon_ends assms(2) pair(1) by blast
  next
    fix h1 h2 h3 assume "WriteDockerUpgradeJournal env e j h = (True, h1)" and "runDocker env h1 = (True, h2)"
      and "setState env e j DockerUpgradePulled h2 = (False, h3)"
    then show "ends cur cand {cand} (Failed JournalUnwritten, h3)" using pulled by (blast intro: ends_failed)
  next
    fix h1 h2 h3 h4 assume "WriteDockerUpgradeJournal env e j h = (True, h1)" and "runDocker env h1 = (True, h2)"
      and "setState env e j DockerUpgradePulled h2 = (True, h3)" and "replaceEnvImage env cand h3 = (False, h4)"
    then show "ends cur cand {cand} (Failed EnvUnwritten, h4)" using pulled replaced by (blast intro: ends_failed)
  next
    fix h1 h2 h3 h4 assume "WriteDockerUpgradeJournal env e j h = (True, h1)" and "runDocker env h1 = (True, h2)"
      and "setState env e j DockerUpgradePulled h2 = (True, h3)" and "replaceEnvImage env cand h3 = (True, h4)"
    then have h4: "sits cur cand cand (Some cur) (Some DockerUpgradePulled) h4" using pulled replaced by blast
    {
      fix h5 assume "runDocker env h4 = (True, h5)"
      then show "ends cur cand {cand} (start_candidate env e j h5)"
        using configured_ends [OF h4 assms(2,4), of env e] by simp
    next
      fix h5 h6 assume "runDocker env h4 = (False, h5)" "replaceEnvImage env cur h5 = (False, h6)"
      then show "ends cur cand {cand} (recovery_needed env e j RestoreUnwritten h6)"
        using configured_ends [OF h4 assms(2,4), of env e] by simp
    next
      fix h5 h6 assume "runDocker env h4 = (False, h5)" "replaceEnvImage env cur h5 = (True, h6)"
      then show "ends cur cand {cand} (abandon_upgrade env e j ComposeInvalid h6)"
        using configured_ends [OF h4 assms(2,4), of env e] by simp
    }
  qed
qed

lemma resolve_ends:
  assumes "sits cur cand cur (Some cur) js h" "images_of cur cand j" "cur \<noteq> cand"
  shows "ends cur cand {cur, cand} (resolve_previous env e j h)"
proof -
  have h1: "sits cur cand cur (Some cur) js h1" if "healthy env e h = (b, h1)" for b h1
    using healthy_sits [OF that] assms(1) by simp
  note fin = finish_sits [OF _ h1 assms(2,3)]
  show ?thesis
    unfolding resolve_previous_def
  proof (intro ends_case)
    fix h1' assume "healthy env e h = (False, h1')"
    then show "ends cur cand {cur, cand} (recovery_needed env e j PreviousUnhealthy h1')"
      using h1 assms(2) recovery_ends by blast
  next
    fix h1' h2 assume "healthy env e h = (True, h1')" "finishResolvedRollback env e j h1' = (False, h2)"
    then show "ends cur cand {cur, cand} (Failed CleanupFailed, h2)" using fin by (blast intro: ends_failed)
  next
    fix h1' h2 assume "healthy env e h = (True, h1')" "finishResolvedRollback env e j h1' = (True, h2)"
    then show "ends cur cand {cur, cand} (Upgraded, h2)" using fin by (blast intro: ends_upgraded)
  qed
qed

lemma images_ends:
  assumes "sits cur cand c (Some l) (Some state) h" "images_of cur cand j" "upgrade_pair cur cand"
  shows "ends cur cand {cur, cand} (reconcile_images env e j c l h)"
proof -
  have pair: "cur \<noteq> cand" "good_image cur" and img: "djCurrentImage j = cur" "djCandidateImage j = cand"
    using assms(2,3) by (simp_all add: upgrade_pair_def images_of_def)
  have cl: "c \<in> {cur, cand}" "l \<in> {cur, cand}" using assms(1) by (auto simp: sits_def allowed_def)
  note rec = recovery_ends [OF assms(1,2)]
  have roll: "ends cur cand {cur, cand} (rollback_upgrade env e j Upgraded h1)" if "sits cur cand c' l' (Some s') h1" for c' l' s' h1
    using rollback_ends [OF that assms(2,3)] by simp
  consider "c = cand" "l = cand" | "c = cur" "l = cur" | "c = cand" "l = cur" | "c = cur" "l = cand" using cl by auto
  then show ?thesis
  proof cases
    case 1
    then have h1: "sits cur cand cand (Some cand) (Some state) h1" if "healthy env e h = (b, h1)" for b h1
      using healthy_sits [OF that] assms(1) by simp
    have "ends cur cand {cur, cand}
      (case healthy env e h of (False, h1) \<Rightarrow> rollback_upgrade env e j Upgraded h1 | (True, h1) \<Rightarrow> complete_upgrade env e j h1)"
      using h1 roll complete_ends [OF _ assms(2,3)] by (intro ends_case) blast+
    then show ?thesis using 1 by (simp add: reconcile_images_def img)
  next
    case 2
    then show ?thesis using resolve_ends [OF _ assms(2) pair(1)] assms(1) pair(1) by (simp add: reconcile_images_def img)
  next
    case 3
    have "allowed cur cand cur (Some cur) (Some state)" using pair(1) by simp
    note restored = replace_sits [OF _ assms(1) [unfolded 3] this pair(2)]
    have "ends cur cand {cur, cand}
      (case replaceEnvImage env cur h of (False, h1) \<Rightarrow> recovery_needed env e j RestoreUnwritten h1
       | (True, h1) \<Rightarrow> resolve_previous env e j h1)"
    proof (intro ends_case)
      fix h1 assume "replaceEnvImage env cur h = (False, h1)"
      then show "ends cur cand {cur, cand} (recovery_needed env e j RestoreUnwritten h1)"
        using restored assms(2) by (blast intro: recovery_safe)
    next
      fix h1 assume "replaceEnvImage env cur h = (True, h1)"
      then show "ends cur cand {cur, cand} (resolve_previous env e j h1)" using restored resolve_ends assms(2) pair(1) by blast
    qed
    then show ?thesis using 3 pair(1) by (simp add: reconcile_images_def img)
  next
    case 4
    then show ?thesis using rec roll [OF assms(1)] pair(1) by (simp add: reconcile_images_def img)
  qed
qed

section \<open>Every state a deployment can be left in\<close>

text \<open>
  A deployment is in order when there is no journal and the service, if it runs, runs the configured image or the image
  is not configured yet; or when a journal records the upgrade that explains its state.
\<close>

definition deployment_ok :: "docker_world \<Rightarrow> bool" where
  "deployment_ok w \<longleftrightarrow>
     (case dwJournal w of
        None \<Rightarrow> (\<exists>i. good_image i \<and> dwLive w \<in> {None, Some i} \<and> currentConfiguredImage (dwEnv w) \<in> {Inr i, Inl ConfigMissing})
      | Some _ \<Rightarrow> (\<exists>cur cand. upgrade_pair cur cand \<and> transaction_ok cur cand w))"

definition fresh_host :: "docker_world \<Rightarrow> nat \<Rightarrow> host" where
  "fresh_host w n = \<lparr>hWorld = w, hTrace = [], hStep = n\<rparr>"

text \<open>
  What can happen to a deployment: an upgrade or a reconciliation with any failures, left at any of its states as by a
  crash, or the container stops.
\<close>

inductive docker_step :: "docker_world \<Rightarrow> docker_world \<Rightarrow> bool" where
  applied: "good_image (ocImage (aaCandidate a)) \<Longrightarrow> Apply_docker env e a (fresh_host w n) = (r, h') \<Longrightarrow>
    w' \<in> set (hWorld h' # hTrace h') \<Longrightarrow> docker_step w w'"
| reconciled: "Reconcile env e (fresh_host w n) = (r, h') \<Longrightarrow> w' \<in> set (hWorld h' # hTrace h') \<Longrightarrow> docker_step w w'"
| stopped: "docker_step w (w\<lparr>dwLive := None\<rparr>)"

lemma transaction_deployment:
  assumes "upgrade_pair cur cand" "transaction_ok cur cand w"
  shows "deployment_ok w"
proof (cases "dwJournal w")
  case None
  with assms obtain c where "currentConfiguredImage (dwEnv w) = Inr c" "dwLive w \<in> {None, Some c}" "good_image c"
    by (auto simp: transaction_ok_def world_at_def allowed_def upgrade_pair_def split: option.splits)
  then show ?thesis using None by (auto simp: deployment_ok_def)
next
  case (Some j)
  then show ?thesis using assms by (auto simp: deployment_ok_def)
qed

lemma safe_deployment:
  "safe cur cand h \<Longrightarrow> upgrade_pair cur cand \<Longrightarrow> list_all deployment_ok (hWorld h # hTrace h)"
  by (auto simp: safe_def list_all_iff intro: transaction_deployment)

lemma liveImage_Some:
  assumes "liveImage env h = (Some l, h')"
  obtains raw where "dwLive (hWorld h) = Some raw" "l = TrimSpace raw" "h' = tick h"
  using assms by (auto simp: liveImage_def split: option.splits if_split_asm)

text \<open>How \<^verbatim>\<open>Apply\<close> goes from a deployment in order: refused, stopped after adopting the live image, or into the transaction.\<close>

definition apply_refused :: "docker_world \<Rightarrow> docker_result \<times> host \<Rightarrow> bool" where
  "apply_refused w m \<longleftrightarrow> hWorld (snd m) = w \<and> hTrace (snd m) = [] \<and>
     (\<exists>f. fst m = Failed f \<and> f \<notin> {PullFailed, ComposeInvalid, CandidateFailed})"

definition apply_adopted :: "docker_world \<Rightarrow> string \<Rightarrow> docker_result \<times> host \<Rightarrow> bool" where
  "apply_adopted w i m \<longleftrightarrow>
     (let w' = w\<lparr>dwEnv := replaced_env (dwEnv w) i\<rparr>
      in currentConfiguredImage (dwEnv w') = Inr i \<and> hWorld (snd m) = w' \<and> hTrace (snd m) = [w'] \<and>
         (\<exists>f. fst m = Failed f \<and> f \<notin> {PullFailed, ComposeInvalid, CandidateFailed}))"

definition apply_runs :: "docker_env \<Rightarrow> DockerUpgradeExecutor \<Rightarrow> apply_args \<Rightarrow> string \<Rightarrow> docker_result \<times> host \<Rightarrow> bool" where
  "apply_runs env e a i m \<longleftrightarrow>
     i \<noteq> ocImage (aaCandidate a) \<and>
     (\<exists>h. currentConfiguredImage (dwEnv (hWorld h)) = Inr i \<and> dwLive (hWorld h) = Some i \<and> dwJournal (hWorld h) = None \<and>
          hTrace h \<in> {[], [hWorld h]} \<and> m = run_upgrade env e (new_journal e a i (deNow env (hStep h))) h)"

lemma begin_runs:
  assumes "currentConfiguredImage (dwEnv (hWorld h)) = Inr i" "dwLive (hWorld h) = Some i" "dwJournal (hWorld h) = None"
    "hTrace h \<in> {[], [hWorld h]}"
  shows "apply_runs env e a i (begin_upgrade env e a i h) \<or> begin_upgrade env e a i h = (Failed AlreadyDeployed, h)"
  using assms by (auto simp: apply_runs_def begin_upgrade_def)

lemma adoption_cases:
  assumes "good_image i" "dwLive w = Some i" "dwJournal w = None" "currentConfiguredImage (dwEnv w) = Inl ConfigMissing"
    "hWorld h = w" "hTrace h = []"
    and that: "m = (case replaceEnvImage env i h of (False, h3) \<Rightarrow> (Failed AdoptionFailed, h3) | (True, h3) \<Rightarrow> begin_upgrade env e a i h3)"
  shows "apply_refused w m \<or> apply_adopted w i m \<or> apply_runs env e a i m"
proof -
  let ?h = "commit (\<lambda>w. w\<lparr>dwEnv := replaced_env (dwEnv w) i\<rparr>) h"
  have h: "hWorld ?h = w\<lparr>dwEnv := replaced_env (dwEnv w) i\<rparr>" "hTrace ?h = [w\<lparr>dwEnv := replaced_env (dwEnv w) i\<rparr>]"
    using assms(5,6) by (simp_all add: commit_def)
  have conf: "currentConfiguredImage (replaced_env (dwEnv w) i) = Inr i" using configured_after_replace [OF assms(1)] assms(4) by simp
  have imm: "isImmutableOCIReference i" using assms(1) by (simp add: good_image_def)
  show ?thesis
  proof (cases "deIo env (hStep h)")
    case IoOk
    then have m: "m = begin_upgrade env e a i ?h" using that imm by (simp add: replaceEnvImage_def mutate_def)
    have "apply_runs env e a i m \<or> m = (Failed AlreadyDeployed, ?h)"
      unfolding m by (rule begin_runs) (simp_all add: h conf assms(2,3))
    then show ?thesis using h conf by (auto simp: apply_adopted_def)
  next
    case IoFailed
    then show ?thesis using that imm assms(5,6) by (simp add: replaceEnvImage_def mutate_def apply_refused_def)
  next
    case IoLate
    then show ?thesis using that imm h conf by (simp add: replaceEnvImage_def mutate_def apply_adopted_def)
  qed
qed

lemma refused_result:
  "f \<notin> {PullFailed, ComposeInvalid, CandidateFailed} \<Longrightarrow> hWorld h = w \<Longrightarrow> hTrace h = [] \<Longrightarrow> apply_refused w (Failed f, h)"
  by (auto simp: apply_refused_def)

lemma Apply_cases:
  assumes "deployment_ok w"
  shows "apply_refused w (Apply_docker env e a (fresh_host w n)) \<or>
    (\<exists>i. good_image i \<and> dwLive w = Some i \<and> dwJournal w = None \<and>
       (apply_adopted w i (Apply_docker env e a (fresh_host w n)) \<or> apply_runs env e a i (Apply_docker env e a (fresh_host w n))))"
    (is "?refused \<or> ?other")
proof -
  let ?h = "fresh_host w n" and ?A = "Apply_docker env e a (fresh_host w n)"
  have f: "hWorld ?h = w" "hTrace ?h = []" by (simp_all add: fresh_host_def)
  show ?thesis
  proof (cases "validate_executor e \<and> prPass (aaPreflight a) \<and> deCommand env (hStep ?h) \<and> dwJournal w = None")
    case False
    then have ?refused by (auto simp: Apply_docker_def f intro!: refused_result)
    then show ?thesis ..
  next
    case True
    with assms obtain i where i: "good_image i" "dwLive w \<in> {None, Some i}" "currentConfiguredImage (dwEnv w) \<in> {Inr i, Inl ConfigMissing}"
      by (auto simp: deployment_ok_def)
    define h1 where "h1 = tick (tick ?h)"
    have h1: "hWorld h1 = w" "hTrace h1 = []" by (simp_all add: h1_def f)
    obtain l h2 where l: "liveImage env h1 = (l, h2)" by fastforce
    have h2: "hWorld h2 = w" "hTrace h2 = []" using l h1 by (auto simp: liveImage_def split: option.splits if_splits)
    have li: "l = None \<or> l = Some i \<and> dwLive w = Some i" using l i h1 by (auto simp: liveImage_def split: option.splits if_splits)
    have A: "?A = (case (if deCommand env (hStep (tick ?h)) then currentConfiguredImage (dwEnv w) else Inl ConfigUnreadable) of
        Inl ConfigMissing \<Rightarrow>
          (case l of None \<Rightarrow> (Failed LiveUnavailable, h2)
           | Some live \<Rightarrow> (case replaceEnvImage env live h2 of (False, h3) \<Rightarrow> (Failed AdoptionFailed, h3) | (True, h3) \<Rightarrow> begin_upgrade env e a live h3))
      | Inl err \<Rightarrow> (Failed (ConfiguredUnusable err), h1)
      | Inr image_ref \<Rightarrow>
          (case l of None \<Rightarrow> (Failed LiveUnavailable, h2)
           | Some live \<Rightarrow> if image_ref \<noteq> live then (Failed LiveMismatch, h2) else begin_upgrade env e a live h2))"
      using True l f by (simp add: Apply_docker_def readConfigured_def h1_def split: sum.splits config_error.splits option.splits)
    consider "l = None \<or> \<not> deCommand env (hStep (tick ?h))" | "l = Some i" "dwLive w = Some i" "deCommand env (hStep (tick ?h))" using li by auto
    then show ?thesis
    proof cases
      case 1
      then have ?refused using i(3) by (auto simp: A h1 h2 intro!: refused_result)
      then show ?thesis ..
    next
      case 2
      show ?thesis
      proof (cases "currentConfiguredImage (dwEnv w) = Inr i")
        case conf: True
        then have "?A = begin_upgrade env e a i h2" using 2 by (simp add: A)
        then have "apply_runs env e a i ?A \<or> ?A = (Failed AlreadyDeployed, h2)" using begin_runs [of h2 i env e a] conf 2 True h2 by simp
        moreover have "apply_refused w (Failed AlreadyDeployed, h2)" using h2 by (auto intro: refused_result)
        ultimately show ?thesis using i(1) 2(2) True by metis
      next
        case False
        then have c: "currentConfiguredImage (dwEnv w) = Inl ConfigMissing" using i(3) by simp
        then have "?A = (case replaceEnvImage env i h2 of (False, h3) \<Rightarrow> (Failed AdoptionFailed, h3) | (True, h3) \<Rightarrow> begin_upgrade env e a i h3)"
          using 2 by (simp add: A)
        from adoption_cases [OF i(1) 2(2) _ c h2 this] True
        have "?refused \<or> apply_adopted w i ?A \<or> apply_runs env e a i ?A" by (simp only: simp_thms)
        then show ?thesis using i(1) 2(2) True by blast
      qed
    qed
  qed
qed

lemma journal_images [simp]:
  "djCurrentImage (new_journal e a i t) = i" "djCandidateImage (new_journal e a i t) = ocImage (aaCandidate a)"
  "djState (new_journal e a i t) = DockerUpgradePrepared"
  by (simp_all add: new_journal_def)

lemma apply_runs_ends:
  assumes "apply_runs env e a i m" "good_image i" "good_image (ocImage (aaCandidate a))"
  shows "upgrade_pair i (ocImage (aaCandidate a)) \<and> ends i (ocImage (aaCandidate a)) {ocImage (aaCandidate a)} m"
proof -
  let ?cand = "ocImage (aaCandidate a)"
  from assms(1) obtain h where h: "currentConfiguredImage (dwEnv (hWorld h)) = Inr i" "dwLive (hWorld h) = Some i"
    "dwJournal (hWorld h) = None" "hTrace h \<in> {[], [hWorld h]}" "m = run_upgrade env e (new_journal e a i (deNow env (hStep h))) h"
    and ne: "i \<noteq> ?cand" by (auto simp: apply_runs_def)
  have pair: "upgrade_pair i ?cand" using assms(2,3) ne by (simp add: upgrade_pair_def)
  have w: "world_at i ?cand i (Some i) None (hWorld h)" "allowed i ?cand i (Some i) None"
    using h by (auto simp: world_at_def allowed_def)
  then have "transaction_ok i ?cand (hWorld h)" by (auto simp: transaction_ok_def)
  then have "sits i ?cand i (Some i) None h" using w h(4) by (auto simp: sits_def)
  then have "ends i ?cand {?cand} m" unfolding h(5) by (rule run_ends) (simp_all add: images_of_def pair)
  then show ?thesis using pair by blast
qed

lemma Reconcile_ends:
  assumes "upgrade_pair cur cand" "transaction_ok cur cand w"
  shows "ends cur cand {cur, cand} (Reconcile env e (fresh_host w n))"
proof -
  let ?h = "fresh_host w n"
  have safe: "safe cur cand h" if "hWorld h = w" "hTrace h = []" for h using that assms(2) by (simp add: safe_def)
  have f: "hWorld ?h = w" "hTrace ?h = []" by (simp_all add: fresh_host_def)
  show ?thesis
  proof (cases "validate_executor e")
    case False
    then show ?thesis using safe [OF f] by (auto simp: Reconcile_def intro: ends_failed)
  next
    case True
    obtain rj h1 where rd: "ReadDockerUpgradeJournal env ?h = (rj, h1)" by fastforce
    have h1: "hWorld h1 = w" "hTrace h1 = []" using rd f by (auto simp: ReadDockerUpgradeJournal_def split: option.splits if_splits)
    show ?thesis
    proof (cases rj)
      case None
      then show ?thesis using safe [OF h1] True rd by (auto simp: Reconcile_def intro: ends_failed)
    next
      case (Some j0)
      let ?j = "j0\<lparr>djAttempt := djAttempt j0 + 1, djUpdatedAt := deNow env (hStep h1)\<rparr>"
      have j0: "dwJournal w = Some j0" using rd Some f by (auto simp: ReadDockerUpgradeJournal_def split: option.splits if_splits)
      then obtain c l state where at_j: "world_at cur cand c l (Some state) w" "allowed cur cand c l (Some state)"
        and imgs: "images_of cur cand ?j" and st: "djState ?j = state"
        using assms(2) by (auto simp: transaction_ok_def world_at_def images_of_def split: option.splits)
      then have s1: "sits cur cand c l (Some state) h1" using h1 by (simp add: sits_def)
      obtain b h2 where wr: "WriteDockerUpgradeJournal env e ?j h1 = (b, h2)" by fastforce
      have s2: "(b \<longrightarrow> sits cur cand c l (Some state) h2) \<and> safe cur cand h2"
        using write_sits [OF wr imgs s1] at_j(2) st by simp
      have R: "Reconcile env e ?h =
        (if djComposeProject j0 \<noteq> exProject e \<or> djComposeFile j0 \<noteq> exComposeFile e then (Failed OtherDeployment, h1)
         else if Validate_journal ?j \<noteq> None then (Failed AttemptsExhausted, h1)
         else if \<not> b then (Failed JournalUnwritten, h2)
         else (case readConfigured env h2 of
                 (Inl err, h3) \<Rightarrow> (Failed (ConfiguredUnusable err), h3)
               | (Inr configured, h3) \<Rightarrow>
                   (case liveImage env h3 of
                      (None, h4) \<Rightarrow> (Failed LiveUnavailable, h4)
                    | (Some live, h4) \<Rightarrow> reconcile_images env e ?j configured live h4)))"
        using True rd Some wr by (simp add: Reconcile_def Let_def split: bool.splits)
      have "ends cur cand {cur, cand} (case readConfigured env h2 of
                 (Inl err, h3) \<Rightarrow> (Failed (ConfiguredUnusable err), h3)
               | (Inr configured, h3) \<Rightarrow>
                   (case liveImage env h3 of
                      (None, h4) \<Rightarrow> (Failed LiveUnavailable, h4)
                    | (Some live, h4) \<Rightarrow> reconcile_images env e ?j configured live h4))" if b
      proof -
        have s3: "sits cur cand c l (Some state) (tick h2)" using s2 that by simp
        then have conf: "currentConfiguredImage (dwEnv (hWorld h2)) = Inr c" "dwLive (hWorld h2) = l" and cl: "l \<in> {None, Some cur, Some cand}"
          by (auto simp: sits_def world_at_def allowed_def)
        have trim: "TrimSpace cur = cur" "TrimSpace cand = cand" using assms(1) by (simp_all add: upgrade_pair_def)
        obtain lv h4 where lv: "liveImage env (tick h2) = (lv, h4)" by fastforce
        have h4: "sits cur cand c l (Some state) h4" using lv s3 by (auto simp: liveImage_def split: option.splits if_splits)
        have lvl: "lv = None \<or> lv = l" using lv conf(2) cl trim by (auto simp: liveImage_def split: option.splits if_splits)
        show ?thesis
        proof (cases "deCommand env (hStep h2)")
          case False
          then show ?thesis using sits_safe [OF s3] by (auto simp: readConfigured_def intro: ends_failed)
        next
          case True
          show ?thesis
          proof (cases lv)
            case None
            then show ?thesis using True conf lv sits_safe [OF h4] by (auto simp: readConfigured_def intro: ends_failed)
          next
            case (Some live)
            then have "sits cur cand c (Some live) (Some state) h4" using lvl h4 by simp
            from images_ends [OF this imgs assms(1)] show ?thesis using True conf lv Some by (simp add: readConfigured_def)
          qed
        qed
      qed
      then show ?thesis unfolding R using safe [OF h1] s2 by (auto intro: ends_failed)
    qed
  qed
qed

text \<open>
  C27. Whatever fails, and wherever a crash interrupts an upgrade or a reconciliation, a deployment stays in order:
  without a journal the running service is the configured one, and with a journal its images and its state explain what is
  configured and live.
\<close>

theorem docker_deployment_consistent:
  assumes "docker_step\<^sup>*\<^sup>* w w'" and "deployment_ok w"
  shows "deployment_ok w'"
  using assms
proof (induction rule: rtranclp_induct)
  case (step v w')
  then have ok: "deployment_ok v" by blast
  from step.hyps(2) show ?case
  proof cases
    case (applied a env e n r h')
    have A: "Apply_docker env e a (fresh_host v n) = (r, h')" by fact
    consider "apply_refused v (r, h')" | i where "good_image i" "dwLive v = Some i" "dwJournal v = None" "apply_adopted v i (r, h')"
      | i where "good_image i" "apply_runs env e a i (r, h')"
      using Apply_cases [OF ok, of env e a n] unfolding A by blast
    then have "list_all deployment_ok (hWorld h' # hTrace h')"
    proof cases
      case 1
      then show ?thesis using ok by (simp add: apply_refused_def)
    next
      case 2
      then have "deployment_ok (v\<lparr>dwEnv := replaced_env (dwEnv v) i\<rparr>)" by (auto simp: apply_adopted_def deployment_ok_def Let_def)
      then show ?thesis using 2 by (simp add: apply_adopted_def Let_def)
    next
      case 3
      from apply_runs_ends [OF 3(2,1)] applied(1) show ?thesis using safe_deployment by (metis ends_def snd_conv)
    qed
    then show ?thesis using applied(3) by (auto simp: list_all_iff)
  next
    case (reconciled env e n r h')
    show ?thesis
    proof (cases "dwJournal v")
      case None
      then have "hWorld h' = v" "hTrace h' = []"
        using reconciled(1) by (auto simp: Reconcile_def ReadDockerUpgradeJournal_def fresh_host_def split: if_splits)
      then show ?thesis using reconciled(2) ok by simp
    next
      case (Some j)
      then obtain cur cand where "upgrade_pair cur cand" "transaction_ok cur cand v" using ok by (auto simp: deployment_ok_def)
      then have "list_all deployment_ok (hWorld h' # hTrace h')"
        using Reconcile_ends [of cur cand v env e n] reconciled(1) safe_deployment by (metis ends_def snd_conv)
      then show ?thesis using reconciled(2) by (auto simp: list_all_iff)
    qed
  next
    case stopped
    then show ?thesis using ok
      by (auto simp: deployment_ok_def transaction_ok_def world_at_def allowed_def split: option.splits)
  qed
qed

text \<open>
  An upgrade that is reported as done leaves the candidate configured and running and no journal. One that is reported
  as failed in the pull, in the validation or in its health leaves the previous image configured and running and no
  journal.
\<close>

theorem docker_apply_outcome:
  assumes "deployment_ok w" and "good_image (ocImage (aaCandidate a))" and "Apply_docker env e a (fresh_host w n) = (r, h')"
  shows "(r = Upgraded \<longrightarrow> currentConfiguredImage (dwEnv (hWorld h')) = Inr (ocImage (aaCandidate a)) \<and>
            dwLive (hWorld h') = Some (ocImage (aaCandidate a)) \<and> dwJournal (hWorld h') = None) \<and>
         (r \<in> {Failed PullFailed, Failed ComposeInvalid, Failed CandidateFailed} \<longrightarrow>
            (\<exists>i. dwLive w = Some i \<and> currentConfiguredImage (dwEnv (hWorld h')) = Inr i \<and>
                 dwLive (hWorld h') = Some i \<and> dwJournal (hWorld h') = None))"
proof -
  consider "apply_refused w (r, h')" | i where "apply_adopted w i (r, h')"
    | i where "good_image i" "dwLive w = Some i" "apply_runs env e a i (r, h')"
    using Apply_cases [OF assms(1), of env e a n] unfolding assms(3) by blast
  then show ?thesis
  proof cases
    case 3
    from apply_runs_ends [OF 3(3,1) assms(2)] 3(2) show ?thesis by (auto simp: ends_def sits_def world_at_def)
  qed (auto simp: apply_refused_def apply_adopted_def Let_def)
qed

section \<open>Recovery\<close>

text \<open>
  A host where everything works again: files can be written, Docker answers, the clock is not behind the journal, and the
  previous image becomes ready. Nothing is said of the candidate's health.
\<close>

definition working :: "docker_env \<Rightarrow> DockerUpgradeExecutor \<Rightarrow> DockerUpgradeJournal \<Rightarrow> bool" where
  "working env e j \<longleftrightarrow>
     (\<forall>n. deIo env n = IoOk \<and> deCommand env n \<and> deUp env n = UpDone \<and> deNow env n \<noteq> zero_time \<and> djCreatedAt j \<le> deNow env n) \<and>
     (\<forall>n w i. dwLive w = Some (djCurrentImage j) \<longrightarrow> pbReady (deProbes env n w i)) \<and>
     validate_executor e \<and> Clean (exJournalFile e) = exJournalFile e \<and>
     djComposeProject j = exProject e \<and> djComposeFile j = exComposeFile e"

lemma Validate_journal_update:
  "Validate_journal j = None \<Longrightarrow> t \<noteq> zero_time \<Longrightarrow> djCreatedAt j \<le> t \<Longrightarrow>
     Validate_journal (j\<lparr>djState := state, djUpdatedAt := t\<rparr>) = None"
  by (simp add: Validate_journal_def split: if_split_asm)

lemma working_mutate: "working env e j \<Longrightarrow> mutate env f h = (True, commit f h)"
  by (simp add: working_def mutate_def)

lemma working_setState:
  "working env e j \<Longrightarrow> Validate_journal j = None \<Longrightarrow> fst (setState env e j state h)"
  using Validate_journal_update [of j "deNow env (hStep h)" state]
  by (simp add: setState_def WriteDockerUpgradeJournal_def working_mutate) (auto simp: working_def validate_executor_def)

lemma health_ready: "pbReady (probes 0) \<Longrightarrow> fst (healthy_result timeout probes now) = Healthy"
proof -
  assume "pbReady (probes 0)"
  moreover have "0 < health_timeout timeout" by (simp add: health_timeout_def Minute_def Second_def)
  ultimately show ?thesis by (simp add: healthy_result_def health_loop.simps)
qed

lemma working_healthy: "working env e j \<Longrightarrow> dwLive (hWorld h) = Some (djCurrentImage j) \<Longrightarrow> fst (healthy env e h)"
  by (auto simp: healthy_def working_def intro: health_ready)

lemma working_remove: "working env e j \<Longrightarrow> dwJournal (hWorld h) \<noteq> None \<Longrightarrow> fst (removeJournal env h)"
  by (simp add: removeJournal_def working_mutate)

lemma case_True: "fst m \<Longrightarrow> (case m of (False, h1) \<Rightarrow> F h1 | (True, h1) \<Rightarrow> T h1) = T (snd m)"
  by (cases m) simp

lemma setState_pair: "fst (setState env e j state h) \<Longrightarrow> setState env e j state h = (True, snd (setState env e j state h))"
  by (metis prod.collapse)

lemma working_finish:
  assumes "working env e j" "Validate_journal j = None" "images_of cur cand j" "sits cur cand c l js h"
    "allowed cur cand c l (Some DockerUpgradeRolledBack)"
  shows "fst (finishResolvedRollback env e j h)"
proof -
  note st = working_setState [OF assms(1,2), of DockerUpgradeRolledBack h]
  have "sits cur cand c l (Some DockerUpgradeRolledBack) (snd (setState env e j DockerUpgradeRolledBack h))"
    using setState_sits [OF setState_pair [OF st] assms(3,4,5)] by blast
  then have "dwJournal (hWorld (snd (setState env e j DockerUpgradeRolledBack h))) \<noteq> None" by (auto simp: sits_def world_at_def)
  then show ?thesis using working_remove [OF assms(1)] by (simp add: finishResolvedRollback_def case_True [OF st])
qed

lemma working_rollback:
  assumes "working env e j" "Validate_journal j = None" "images_of cur cand j" "upgrade_pair cur cand" "sits cur cand c l (Some state) h"
  shows "fst (rollback_upgrade env e j outcome h) = outcome"
proof -
  have pair: "cur \<noteq> cand" "good_image cur" and img: "djCurrentImage j = cur" using assms(3,4) by (simp_all add: upgrade_pair_def images_of_def)
  obtain h1 where s: "setState env e j DockerUpgradeRollback h = (True, h1)"
    using setState_pair [OF working_setState [OF assms(1,2)]] by blast
  have h1: "sits cur cand c l (Some DockerUpgradeRollback) h1" using setState_sits [OF s assms(3,5)] assms(5) by simp
  obtain h2 where r: "replaceEnvImage env cur h1 = (True, h2)"
    using working_mutate [OF assms(1)] pair(2) by (simp add: replaceEnvImage_def good_image_def)
  have "allowed cur cand cur l (Some DockerUpgradeRollback)" using h1 by (auto simp: sits_def allowed_def)
  then have h2: "sits cur cand cur l (Some DockerUpgradeRollback) h2" using replace_sits [OF r h1 _ pair(2)] by blast
  obtain h3 where u: "composeUp env h2 = (True, h3)" using assms(1) by (simp add: composeUp_def working_def)
  have h3: "sits cur cand cur (Some cur) (Some DockerUpgradeRollback) h3" using up_sits [OF u h2 pair(1)] by blast
  have "fst (healthy env e h3)" using working_healthy [OF assms(1)] h3 img by (simp add: sits_def world_at_def)
  then obtain h4 where y: "healthy env e h3 = (True, h4)" by (metis prod.collapse)
  have "sits cur cand cur (Some cur) (Some DockerUpgradeRollback) h4" using h3 healthy_sits [OF y] by simp
  then have "fst (finishResolvedRollback env e j h4)" using working_finish [OF assms(1-3)] pair(1) by simp
  then show ?thesis using s r u y by (simp add: rollback_upgrade_def img case_True)
qed

lemma working_complete:
  assumes "working env e j" "Validate_journal j = None" "images_of cur cand j" "upgrade_pair cur cand" "sits cur cand cand (Some cand) js h"
  shows "fst (complete_upgrade env e j h) = Upgraded"
proof -
  note st = working_setState [OF assms(1,2), of DockerUpgradeComplete h]
  have "allowed cur cand cand (Some cand) (Some DockerUpgradeComplete)" using assms(4) by (simp add: upgrade_pair_def)
  then have "sits cur cand cand (Some cand) (Some DockerUpgradeComplete) (snd (setState env e j DockerUpgradeComplete h))"
    using setState_sits [OF setState_pair [OF st] assms(3,5)] by blast
  then have "dwJournal (hWorld (snd (setState env e j DockerUpgradeComplete h))) \<noteq> None" by (auto simp: sits_def world_at_def)
  from working_remove [OF assms(1) this] show ?thesis by (simp add: complete_upgrade_def case_True [OF st] case_True)
qed

lemma working_resolve:
  assumes "working env e j" "Validate_journal j = None" "images_of cur cand j" "cur \<noteq> cand" "sits cur cand cur (Some cur) js h"
  shows "fst (resolve_previous env e j h) = Upgraded"
proof -
  have "fst (healthy env e h)" using working_healthy [OF assms(1)] assms(3,5) by (simp add: sits_def world_at_def images_of_def)
  then obtain h1 where y: "healthy env e h = (True, h1)" by (metis prod.collapse)
  have "sits cur cand cur (Some cur) js h1" using assms(5) healthy_sits [OF y] by simp
  from working_finish [OF assms(1-3) this] show ?thesis using assms(4) by (simp add: resolve_previous_def y case_True)
qed

lemma working_images:
  assumes "working env e j" "Validate_journal j = None" "images_of cur cand j" "upgrade_pair cur cand"
    "sits cur cand c (Some l) (Some (djState j)) h"
  shows "fst (reconcile_images env e j c l h) = Upgraded"
proof -
  have pair: "cur \<noteq> cand" "good_image cur" and img: "djCurrentImage j = cur" "djCandidateImage j = cand"
    using assms(3,4) by (simp_all add: upgrade_pair_def images_of_def)
  have cl: "c \<in> {cur, cand}" "l \<in> {cur, cand}" and al: "allowed cur cand c (Some l) (Some (djState j))"
    using assms(5) by (auto simp: sits_def allowed_def)
  consider "c = cand" "l = cand" | "c = cur" "l = cur" | "c = cand" "l = cur" | "c = cur" "l = cand" using cl by auto
  then show ?thesis
  proof cases
    case 1
    obtain b h1 where y: "healthy env e h = (b, h1)" by fastforce
    have "sits cur cand cand (Some cand) (Some (djState j)) h1" using assms(5) 1 healthy_sits [OF y] by simp
    then show ?thesis
      using 1 y working_rollback [OF assms(1-4)] working_complete [OF assms(1-4)] by (cases b) (simp_all add: reconcile_images_def img)
  next
    case 2
    then show ?thesis using working_resolve [OF assms(1-3) pair(1)] assms(5) pair(1) by (simp add: reconcile_images_def img)
  next
    case 3
    obtain h1 where r: "replaceEnvImage env cur h = (True, h1)"
      using working_mutate [OF assms(1)] pair(2) by (simp add: replaceEnvImage_def good_image_def)
    have "allowed cur cand cur (Some cur) (Some (djState j))" using pair(1) by simp
    then have "sits cur cand cur (Some cur) (Some (djState j)) h1" using replace_sits [OF r assms(5) [unfolded 3] _ pair(2)] by blast
    then show ?thesis using 3 r pair(1) working_resolve [OF assms(1-3) pair(1)] by (simp add: reconcile_images_def img)
  next
    case 4
    then have "djState j \<in> {DockerUpgradeRollback, DockerUpgradeRecoveryNeeded}" using al by (simp add: allowed_def)
    then show ?thesis using 4 pair(1) working_rollback [OF assms(1-5)] by (auto simp: reconcile_images_def img)
  qed
qed

text \<open>
  C28. From every state in which an upgrade can have been left with a running container, one reconciliation on a working
  host, before the tenth attempt, settles it: no journal, and one of the two images both configured and running, whether
  or not the candidate is healthy.
\<close>

theorem docker_reconcile_recovers:
  assumes "deployment_ok w" and "dwJournal w = Some j" and "dwLive w = Some l" and "djAttempt j < 10" and "working env e j"
    and "Reconcile env e (fresh_host w n) = (r, h')"
  shows "r = Upgraded \<and> dwJournal (hWorld h') = None \<and>
    (\<exists>i\<in>{djCurrentImage j, djCandidateImage j}. currentConfiguredImage (dwEnv (hWorld h')) = Inr i \<and> dwLive (hWorld h') = Some i)"
proof -
  obtain cur cand where pair: "upgrade_pair cur cand" and ok: "transaction_ok cur cand w"
    using assms(1,2) by (auto simp: deployment_ok_def)
  then obtain c where c: "world_at cur cand c (Some l) (Some (djState j)) w" "allowed cur cand c (Some l) (Some (djState j))"
    and j: "Validate_journal j = None" "images_of cur cand j"
    using assms(2,3) by (auto simp: transaction_ok_def world_at_def split: option.splits)
  have trim: "TrimSpace l = l" "isImmutableOCIReference l" using c(2) pair by (auto simp: allowed_def upgrade_pair_def good_image_def TrimSpace_plain)
  define h1 where "h1 = tick (fresh_host w n)"
  have s1: "sits cur cand c (Some l) (Some (djState j)) h1" using c by (simp add: sits_def h1_def fresh_host_def)
  let ?j = "j\<lparr>djAttempt := djAttempt j + 1, djUpdatedAt := deNow env (hStep h1)\<rparr>"
  have wk: "working env e ?j" using assms(5) by (simp add: working_def)
  have j': "Validate_journal ?j = None" "images_of cur cand ?j" "djState ?j = djState j"
    using j assms(4,5) by (simp_all add: Validate_journal_def working_def images_of_def not_less split: if_split_asm)
  obtain h2 where wr: "WriteDockerUpgradeJournal env e ?j h1 = (True, h2)"
    using working_mutate [OF wk] j' wk by (simp add: WriteDockerUpgradeJournal_def working_def validate_executor_def)
  have s2: "sits cur cand c (Some l) (Some (djState j)) (tick (tick h2))" using write_sits [OF wr j'(2) s1] c(2) j'(3) by simp
  then have conf: "currentConfiguredImage (dwEnv (hWorld h2)) = Inr c" "dwLive (hWorld h2) = Some l" by (auto simp: sits_def world_at_def)
  have read: "ReadDockerUpgradeJournal env (fresh_host w n) = (Some j, h1)"
    using assms(2,5) j(1) by (simp add: ReadDockerUpgradeJournal_def fresh_host_def h1_def working_def)
  have "Reconcile env e (fresh_host w n) = reconcile_images env e ?j c l (tick (tick h2))"
    using assms(5) read wr conf j'(1) trim
    by (simp add: Reconcile_def working_def readConfigured_def liveImage_def Let_def)
  moreover have "fst (reconcile_images env e ?j c l (tick (tick h2))) = Upgraded"
    using working_images [OF wk j'(1,2) pair] s2 j'(3) by simp
  ultimately have "r = Upgraded" using assms(6) by (metis fst_conv)
  moreover from Reconcile_ends [OF pair ok, of env e n] this assms(6)
  obtain i where "i \<in> {cur, cand}" "sits cur cand i (Some i) None h'" by (auto simp: ends_def)
  ultimately show ?thesis using j(2) by (auto simp: sits_def world_at_def images_of_def)
qed

text \<open>
  A deployment whose container does not run is never reconciled: each attempt fails, starts nothing and keeps the
  journal, which in turn blocks every upgrade.
\<close>

theorem stopped_container_not_reconciled:
  assumes "dwLive w = None" and "dwJournal w \<noteq> None"
  shows "(\<exists>f h'. Reconcile env e (fresh_host w n) = (Failed f, h') \<and> dwLive (hWorld h') = None \<and> dwJournal (hWorld h') \<noteq> None)
    \<and> (\<exists>f h'. Apply_docker env e a (fresh_host w n) = (Failed f, h') \<and> hWorld h' = w)"
proof
  obtain r h1 where rd: "ReadDockerUpgradeJournal env (fresh_host w n) = (r, h1)" by fastforce
  have h1: "hWorld h1 = w" using rd by (auto simp: ReadDockerUpgradeJournal_def fresh_host_def split: option.splits if_splits)
  show "\<exists>f h'. Reconcile env e (fresh_host w n) = (Failed f, h') \<and> dwLive (hWorld h') = None \<and> dwJournal (hWorld h') \<noteq> None"
  proof (cases r)
    case None
    then show ?thesis using rd h1 assms by (simp add: Reconcile_def fresh_host_def)
  next
    case (Some j0)
    obtain b h2 where wr: "WriteDockerUpgradeJournal env e (j0\<lparr>djAttempt := djAttempt j0 + 1, djUpdatedAt := deNow env (hStep h1)\<rparr>) h1 = (b, h2)"
      by fastforce
    have h2: "dwLive (hWorld h2) = None" "dwJournal (hWorld h2) \<noteq> None"
      using wr h1 assms by (auto simp: WriteDockerUpgradeJournal_def mutate_def commit_def split: if_splits io.splits)
    then show ?thesis
      using Some rd wr h1 assms
      by (cases b) (auto simp: Reconcile_def Let_def readConfigured_def liveImage_def fresh_host_def split: sum.splits)
  qed
  show "\<exists>f h'. Apply_docker env e a (fresh_host w n) = (Failed f, h') \<and> hWorld h' = w"
    using assms by (auto simp: Apply_docker_def fresh_host_def)
qed

section \<open>The recovery point of a container upgrade\<close>

lemma PlanDocker_candidate:
  assumes "PlanDocker renv (Some (NewRuntimePreflight penv)) now u repo True files = (Inr plan, files')" "dpCandidate plan = Some c"
  shows "files DefaultUpgradeHandoffPath = None \<and> files' DefaultUpgradeHandoffPath \<noteq> None"
proof -
  from assms obtain rel p where "RunPreflight (Some (NewRuntimePreflight penv)) now (Some rel) files = (Inr p, files')"
    by (auto simp: PlanDocker_def Let_def split: sum.splits option.splits prod.splits if_splits)
  then obtain q where q: "NewRuntimePreflight penv rel files = (q, False, files')" "prPass q" by (rule RunPreflight_Inr)
  obtain dsn b where "createUpgradeDatabaseBackup (pvBackup penv) True dsn DefaultUpgradeHandoffPath files = (Inr b, files')"
    using q by (rule NewRuntimePreflight_pass)
  from backup_created [OF this] show ?thesis by auto
qed

lemma docker_update_done:
  assumes "docker_update_host ok renv penv env u sha e repo (files, h) = (CommandDone, files', h')"
  shows "files DefaultUpgradeHandoffPath = None \<and> files' DefaultUpgradeHandoffPath \<noteq> None"
proof -
  from assms obtain plan c where "PlanDocker renv (Some (NewRuntimePreflight penv)) (pvNow penv) u (ToLower (TrimSpace repo)) True files = (Inr plan, files')"
    "dpCandidate plan = Some c"
    by (auto simp: docker_update_host_def Let_def split: if_splits prod.splits sum.splits option.splits docker_result.splits)
  then show ?thesis by (rule PlanDocker_candidate)
qed

text \<open>
  The host command leaves its database recovery point behind when it succeeds, and nothing of it removes it: as long as
  that file exists, no later run of the command upgrades anything.
\<close>

theorem docker_update_blocks_the_next:
  assumes "docker_update_host ok renv penv env u sha e repo (files, h) = (CommandDone, files', h')"
  shows "files' DefaultUpgradeHandoffPath \<noteq> None \<and>
    (\<forall>ok2 renv2 penv2 env2 u2 sha2 e2 repo2 h2.
       fst (docker_update_host ok2 renv2 penv2 env2 u2 sha2 e2 repo2 (files', h2)) \<noteq> CommandDone)"
proof -
  have left: "files' DefaultUpgradeHandoffPath \<noteq> None" using docker_update_done [OF assms] by blast
  have "fst (docker_update_host ok2 renv2 penv2 env2 u2 sha2 e2 repo2 (files', h2)) \<noteq> CommandDone"
    for ok2 renv2 penv2 env2 u2 sha2 e2 repo2 h2
    using docker_update_done left by (metis prod.collapse)
  with left show ?thesis by blast
qed

section \<open>Upgrades that succeed\<close>

lemma working_start:
  assumes "working env e j" "Validate_journal j = None" "images_of cur cand j" "upgrade_pair cur cand"
    "sits cur cand cand (Some cur) (Some state) h" "\<And>n w i. pbReady (deProbes env n w i)"
  shows "fst (start_candidate env e j h) = Upgraded"
proof -
  have pair: "cur \<noteq> cand" using assms(4) by (simp add: upgrade_pair_def)
  obtain h1 where s1: "setState env e j DockerUpgradeApplying h = (True, h1)"
    using setState_pair [OF working_setState [OF assms(1,2)]] by blast
  have "allowed cur cand cand (Some cur) (Some DockerUpgradeApplying)" using pair by (auto simp: allowed_def)
  then have h1: "sits cur cand cand (Some cur) (Some DockerUpgradeApplying) h1" using setState_sits [OF s1 assms(3,5)] by blast
  obtain h2 where u: "composeUp env h1 = (True, h2)" using assms(1) by (simp add: composeUp_def working_def)
  have h2: "sits cur cand cand (Some cand) (Some DockerUpgradeApplying) h2" using up_sits [OF u h1 pair] by blast
  obtain h3 where s3: "setState env e j DockerUpgradeVerifying h2 = (True, h3)"
    using setState_pair [OF working_setState [OF assms(1,2)]] by blast
  have h3: "sits cur cand cand (Some cand) (Some DockerUpgradeVerifying) h3" using setState_sits [OF s3 assms(3) h2] pair by simp
  have "healthy env e h3 = (True, tick h3)" using assms(6) by (simp add: healthy_def health_ready)
  then show ?thesis using s1 u s3 working_complete [OF assms(1-4)] h3 by (simp add: start_candidate_def)
qed

lemma working_run:
  assumes "working env e j" "Validate_journal j = None" "images_of cur cand j" "upgrade_pair cur cand" "djState j = DockerUpgradePrepared"
    "sits cur cand cur (Some cur) None h" "\<And>n w i. pbReady (deProbes env n w i)"
  shows "fst (run_upgrade env e j h) = Upgraded"
proof -
  have pair: "cur \<noteq> cand" "good_image cand" and img: "djCandidateImage j = cand" using assms(3,4) by (simp_all add: upgrade_pair_def images_of_def)
  have ok: "allowed cur cand c (Some cur) (Some state)" if "c \<in> {cur, cand}" for c state using pair(1) that by (auto simp: allowed_def)
  obtain h1 where w: "WriteDockerUpgradeJournal env e j h = (True, h1)"
    using working_mutate [OF assms(1)] assms(1,2) by (simp add: WriteDockerUpgradeJournal_def working_def validate_executor_def)
  have h1: "sits cur cand cur (Some cur) (Some DockerUpgradePrepared) (tick h1)" using write_sits [OF w assms(3,6)] ok assms(5) by simp
  have d: "runDocker env h' = (True, tick h')" for h' using assms(1) by (simp add: runDocker_def working_def)
  obtain h2 where s2: "setState env e j DockerUpgradePulled (tick h1) = (True, h2)"
    using setState_pair [OF working_setState [OF assms(1,2)]] by blast
  have h2: "sits cur cand cur (Some cur) (Some DockerUpgradePulled) h2" using setState_sits [OF s2 assms(3) h1] ok by simp
  obtain h3 where r: "replaceEnvImage env cand h2 = (True, h3)"
    using working_mutate [OF assms(1)] pair(2) by (simp add: replaceEnvImage_def good_image_def)
  have "sits cur cand cand (Some cur) (Some DockerUpgradePulled) (tick h3)" using replace_sits [OF r h2 ok pair(2)] by simp
  from working_start [OF assms(1-4) this assms(7)] show ?thesis using w d s2 r by (simp add: run_upgrade_def img)
qed

section \<open>A sample deployment\<close>

definition sample_image :: "char \<Rightarrow> string" where
  "sample_image c = ''ghcr.io/strata@sha256:'' @ replicate 64 c"

definition sample_world :: docker_world where
  "sample_world =
     \<lparr>dwEnv = ''A=1'' @ ''\<newline>'' @ image_prefix @ sample_image (CHR ''a'') @ ''\<newline>'', dwLive = Some (sample_image (CHR ''a'')),
      dwJournal = None\<rparr>"

definition sample_executor :: DockerUpgradeExecutor where
  "sample_executor =
     \<lparr>exComposeFile = ''/o/c'', exEnvFile = ''/o/e'', exProject = ''p'', exJournalFile = ''/o/j'', exHealthTimeout = 0\<rparr>"

definition sample_args :: apply_args where
  "sample_args =
     \<lparr>aaCandidate = \<lparr>ocVersion = ''2.0.0'', ocSourceSHA = replicate 40 (CHR ''c''), ocSchemaCompatibility = ''7'',
        ocReference = ''ghcr.io/strata'', ocDigest = ''sha256:'' @ replicate 64 (CHR ''b''), ocImage = sample_image (CHR ''b''),
        ocReleaseTag = ''v2.0.0''\<rparr>,
      aaPreflight = sample_result, aaVersion = ''1.0.0'', aaCommit = replicate 40 (CHR ''d''), aaManifest = replicate 64 (CHR ''e'')\<rparr>"

text \<open>A host on which everything works, and one on which every start of a container leaves none running.\<close>

definition sample_docker :: docker_env where
  "sample_docker =
     \<lparr>deIo = (\<lambda>_. IoOk), deCommand = (\<lambda>_. True), deUp = (\<lambda>_. UpDone),
      deProbes = (\<lambda>_ _ _. \<lparr>pbReady = True, pbTook = 1, pbCancelled = False\<rparr>), deNow = (\<lambda>n. 5)\<rparr>"

definition sample_docker_failing :: docker_env where
  "sample_docker_failing = sample_docker\<lparr>deUp := (\<lambda>_. UpStopped)\<rparr>"

lemma sample_images: "good_image (sample_image (CHR ''a''))" "good_image (sample_image (CHR ''b''))"
  by code_simp+

lemma sample_deployment: "deployment_ok sample_world"
proof -
  have "currentConfiguredImage (dwEnv sample_world) = Inr (sample_image (CHR ''a''))" by code_simp
  then show ?thesis using sample_images by (auto simp: deployment_ok_def sample_world_def)
qed

lemma sample_journal:
  "Validate_journal (new_journal sample_executor sample_args (sample_image (CHR ''a'')) 5) = None"
  by code_simp

lemma sample_working: "working sample_docker sample_executor (new_journal sample_executor a (sample_image (CHR ''a'')) 5)"
proof -
  have "validate_executor sample_executor \<and> Clean (exJournalFile sample_executor) = exJournalFile sample_executor" by code_simp
  moreover have "zero_time \<noteq> 5" by code_simp
  ultimately show ?thesis by (auto simp: working_def sample_docker_def new_journal_def)
qed

lemma sample_pair: "upgrade_pair (sample_image (CHR ''a'')) (sample_image (CHR ''b''))"
  using sample_images by (auto simp: upgrade_pair_def sample_image_def)

lemma sample_conf: "currentConfiguredImage (dwEnv sample_world) = Inr (sample_image (CHR ''a''))"
  by code_simp

lemma sample_facts:
  "dwLive sample_world = Some (sample_image (CHR ''a''))" "dwJournal sample_world = None"
  "deCommand sample_docker n" "deNow sample_docker n = 5" "pbReady (deProbes sample_docker n w i)"
  "hWorld (fresh_host v n) = v" "hTrace (fresh_host v n) = []"
  by (simp_all add: sample_world_def sample_docker_def fresh_host_def)

lemma sample_upgrade_of:
  assumes "upgrade_pair (sample_image (CHR ''a'')) (ocImage (aaCandidate a))" "prPass (aaPreflight a)"
    "Validate_journal (new_journal sample_executor a (sample_image (CHR ''a'')) 5) = None"
  shows "fst (Apply_docker sample_docker sample_executor a (fresh_host sample_world 0)) = Upgraded"
proof -
  let ?a = "sample_image (CHR ''a'')" and ?b = "ocImage (aaCandidate a)"
  let ?h = "tick (tick (tick (fresh_host sample_world 0)))"
  have w: "validate_executor sample_executor" "?a \<noteq> ?b" "?b \<noteq> ?a" "TrimSpace ?a = ?a" "isImmutableOCIReference ?a"
    using sample_working assms(1) by (auto simp: working_def upgrade_pair_def good_image_def TrimSpace_plain)
  have "Apply_docker sample_docker sample_executor a (fresh_host sample_world 0) =
    run_upgrade sample_docker sample_executor (new_journal sample_executor a ?a 5) ?h"
    using w assms(2) sample_conf by (simp add: Apply_docker_def readConfigured_def liveImage_def begin_upgrade_def sample_facts)
  moreover have "sits ?a ?b ?a (Some ?a) None ?h"
    using sample_conf by (simp add: sits_def world_at_def allowed_def sample_facts)
  moreover have "images_of ?a ?b (new_journal sample_executor a ?a 5)" by (simp add: images_of_def)
  ultimately show ?thesis
    using working_run [OF sample_working assms(3) _ assms(1), of ?h] by (simp add: sample_facts)
qed

lemma sample_args_image: "ocImage (aaCandidate sample_args) = sample_image (CHR ''b'')" "prPass (aaPreflight sample_args)"
  by (simp_all add: sample_args_def sample_result_def)

lemma sample_upgrade: "fst (Apply_docker sample_docker sample_executor sample_args (fresh_host sample_world 0)) = Upgraded"
  by (rule sample_upgrade_of) (simp_all add: sample_args_image sample_pair sample_journal)

theorem env_image_roundtrip_witness:
  "currentConfiguredImage (replaced_env ''A=1'' (sample_image (CHR ''b''))) = Inr (sample_image (CHR ''b''))"
proof -
  have "currentConfiguredImage ''A=1'' \<noteq> Inl ConfigUnreadable" by code_simp
  from env_image_roundtrip [OF sample_images(2) this] show ?thesis by blast
qed

theorem docker_deployment_consistent_witness:
  "deployment_ok (hWorld (snd (Apply_docker sample_docker_failing sample_executor sample_args (fresh_host sample_world 0))))"
proof (rule docker_deployment_consistent [OF _ sample_deployment], rule r_into_rtranclp)
  let ?m = "Apply_docker sample_docker_failing sample_executor sample_args (fresh_host sample_world 0)"
  show "docker_step sample_world (hWorld (snd ?m))"
    by (rule docker_step.applied [of sample_args _ _ _ 0 "fst ?m" "snd ?m"]) (simp_all add: sample_args_image sample_images)
qed

theorem docker_apply_outcome_witness:
  "\<exists>h'. Apply_docker sample_docker sample_executor sample_args (fresh_host sample_world 0) = (Upgraded, h') \<and>
     currentConfiguredImage (dwEnv (hWorld h')) = Inr (sample_image (CHR ''b'')) \<and>
     dwLive (hWorld h') = Some (sample_image (CHR ''b'')) \<and> dwJournal (hWorld h') = None"
proof -
  obtain h' where a: "Apply_docker sample_docker sample_executor sample_args (fresh_host sample_world 0) = (Upgraded, h')"
    using sample_upgrade by (metis prod.collapse)
  have "good_image (ocImage (aaCandidate sample_args))" by (simp add: sample_args_image sample_images)
  from docker_apply_outcome [OF sample_deployment this a] a show ?thesis by (simp add: sample_args_image)
qed

definition sample_retained :: docker_world where
  "sample_retained = sample_world\<lparr>dwJournal := Some (new_journal sample_executor sample_args (sample_image (CHR ''a'')) 5)\<rparr>"

lemma sample_retained_ok: "deployment_ok sample_retained"
proof -
  let ?a = "sample_image (CHR ''a'')" and ?b = "sample_image (CHR ''b'')"
  have "world_at ?a ?b ?a (Some ?a) (Some DockerUpgradePrepared) sample_retained"
    using sample_conf sample_journal by (simp add: world_at_def sample_retained_def sample_facts images_of_def sample_args_image)
  moreover have "allowed ?a ?b ?a (Some ?a) (Some DockerUpgradePrepared)" using sample_pair by (simp add: upgrade_pair_def)
  ultimately have "transaction_ok ?a ?b sample_retained" by (auto simp: transaction_ok_def)
  then show ?thesis by (rule transaction_deployment [OF sample_pair])
qed

theorem docker_reconcile_recovers_witness:
  "\<exists>h'. Reconcile sample_docker sample_executor (fresh_host sample_retained 0) = (Upgraded, h') \<and> dwJournal (hWorld h') = None"
proof -
  let ?j = "new_journal sample_executor sample_args (sample_image (CHR ''a'')) 5"
  have "dwJournal sample_retained = Some ?j" "dwLive sample_retained = Some (sample_image (CHR ''a''))" "djAttempt ?j < 10"
    by (simp_all add: sample_retained_def sample_facts new_journal_def)
  from docker_reconcile_recovers [OF sample_retained_ok this sample_working] show ?thesis by (metis prod.collapse)
qed

theorem stopped_container_not_reconciled_witness:
  "\<exists>f h'. Reconcile sample_docker sample_executor (fresh_host (sample_retained\<lparr>dwLive := None\<rparr>) 0) = (Failed f, h') \<and>
     dwLive (hWorld h') = None \<and> dwJournal (hWorld h') \<noteq> None"
proof -
  have "dwLive (sample_retained\<lparr>dwLive := None\<rparr>) = None" "dwJournal (sample_retained\<lparr>dwLive := None\<rparr>) \<noteq> None"
    by (simp_all add: sample_retained_def)
  from stopped_container_not_reconciled [OF this] show ?thesis by blast
qed

definition sample_candidate :: OCIReleaseCandidate where
  "sample_candidate =
     \<lparr>ocVersion = ''1.2.0'', ocSourceSHA = replicate 40 (CHR ''b''), ocSchemaCompatibility = ''7'',
      ocReference = ''ghcr.io/strata/orchestrator'', ocDigest = ''sha256:'' @ sample_hex,
      ocImage = ''ghcr.io/strata/orchestrator@sha256:'' @ sample_hex, ocReleaseTag = ''v1.2.0''\<rparr>"

definition sample_candidate_args :: apply_args where
  "sample_candidate_args =
     \<lparr>aaCandidate = sample_candidate, aaPreflight = sample_result, aaVersion = ouCurrentVersion sample_updater, aaCommit = [],
      aaManifest = sample_hex\<rparr>"

lemma sample_candidate_selected:
  "OCICandidate (reGOOS sample_env) (reGOARCH sample_env) sample_decoded (ouCurrentVersion sample_updater) ''ghcr.io/strata/orchestrator'' =
     Inr (Some sample_candidate)"
  by code_simp

lemma sample_found: "checkOCI sample_env sample_updater ''ghcr.io/strata/orchestrator'' = Inr (Some (sample_candidate, sample_hex))"
proof -
  have "TrimPrefix (grTagName sample_published) ''v'' = rmVersion sample_decoded" "reSHA256 sample_env ''m'' = sample_hex"
    by (simp_all add: sample_published_def sample_decoded_def sample_env_def TrimPrefix_def)
  then show ?thesis by (simp add: checkOCI_def sample_latest sample_signed sample_candidate_selected)
qed

text \<open>A run of the host command that upgrades the sample deployment.\<close>

definition sample_run :: "command_result \<times> files \<times> host" where
  "sample_run = docker_update_host True sample_env sample_preflight sample_docker sample_updater [] sample_executor
     ''ghcr.io/strata/orchestrator'' (\<lambda>_. None, fresh_host sample_world 0)"

lemma preflight_schema_only:
  "orSchemaCompatibility a = orSchemaCompatibility b \<Longrightarrow> NewRuntimePreflight env a files = NewRuntimePreflight env b files"
  unfolding NewRuntimePreflight_def by (simp only:)

lemma sample_preflight_passes:
  assumes "orSchemaCompatibility rel = ''7''"
  shows "\<exists>files. RunPreflight (Some (NewRuntimePreflight sample_preflight)) 9 (Some rel) (\<lambda>_. None) = (Inr sample_result, files)"
proof -
  let ?r = "NewRuntimePreflight sample_preflight sample_release (\<lambda>_. None)"
  have eq: "NewRuntimePreflight sample_preflight rel (\<lambda>_. None) = ?r"
    using assms by (intro preflight_schema_only) (simp add: sample_release_def)
  have "fst ?r = sample_result \<and> fst (snd ?r) = False" by code_simp
  then obtain files where "?r = (sample_result, False, files)" by (metis prod.collapse)
  moreover have "prPass sample_result" "prTimestamp sample_result = Some 9" by (simp_all add: sample_result_def)
  ultimately show ?thesis using eq by (simp add: RunPreflight_def)
qed

lemma sample_run_done: "fst sample_run = CommandDone"
proof -
  let ?repo = "''ghcr.io/strata/orchestrator''"
  have repo: "ToLower (TrimSpace ?repo) = ?repo \<and> canonical_repository ?repo \<and> TrimSpace (exProject sample_executor) \<noteq> []" by code_simp
  have now: "pvNow sample_preflight = 9" by (simp add: sample_preflight_def)
  have ver: "VerifyOCICandidate sample_env sample_updater sample_candidate = None" by code_simp
  have pair: "upgrade_pair (sample_image (CHR ''a'')) (ocImage (aaCandidate sample_candidate_args))"
    "prPass (aaPreflight sample_candidate_args)"
    "Validate_journal (new_journal sample_executor sample_candidate_args (sample_image (CHR ''a'')) 5) = None"
    unfolding upgrade_pair_def by code_simp+
  obtain files where pf: "RunPreflight (Some (NewRuntimePreflight sample_preflight)) 9
      (Some \<lparr>orVersion = ocVersion sample_candidate, orSourceSHA = ocSourceSHA sample_candidate,
         orSchemaCompatibility = ocSchemaCompatibility sample_candidate, orURL = [], orChecksum = [], orSize = 0, orSigstoreBundleURL = [],
         orReleaseTag = ocReleaseTag sample_candidate, orChangelog = []\<rparr>) (\<lambda>_. None) = (Inr sample_result, files)"
    using sample_preflight_passes by (fastforce simp: sample_candidate_def)
  have plan: "PlanDocker sample_env (Some (NewRuntimePreflight sample_preflight)) 9 sample_updater ?repo True (\<lambda>_. None) =
    (Inr \<lparr>dpCurrentVersion = ouCurrentVersion sample_updater, dpAvailable = True, dpCandidate = Some sample_candidate,
          dpManifestSHA256 = sample_hex, dpPreflight = Some sample_result\<rparr>, files)"
    using pf by (simp add: PlanDocker_def sample_found)
  obtain h' where up: "Apply_docker sample_docker sample_executor sample_candidate_args (fresh_host sample_world 0) = (Upgraded, h')"
    using sample_upgrade_of [OF pair] by (metis prod.collapse)
  have "prPass sample_result" by (simp add: sample_result_def)
  then show ?thesis
    using repo plan ver now up [unfolded sample_candidate_args_def]
    by (simp add: sample_run_def docker_update_host_def Let_def sample_facts)
qed

theorem docker_update_blocks_the_next_witness:
  "fst (snd sample_run) DefaultUpgradeHandoffPath \<noteq> None \<and>
    fst (docker_update_host True sample_env sample_preflight sample_docker sample_updater [] sample_executor
      ''ghcr.io/strata/orchestrator'' (fst (snd sample_run), fresh_host sample_world 0)) \<noteq> CommandDone"
proof -
  have "docker_update_host True sample_env sample_preflight sample_docker sample_updater [] sample_executor
     ''ghcr.io/strata/orchestrator'' (\<lambda>_. None, fresh_host sample_world 0) = (CommandDone, fst (snd sample_run), snd (snd sample_run))"
    using sample_run_done unfolding sample_run_def by (metis prod.collapse)
  from docker_update_blocks_the_next [OF this] show ?thesis by blast
qed

end
