(* ===== verification/Alerting.thy ===== *)
theory Alerting
  imports GoTime Complex_Main "HOL-Library.AList"
begin

text \<open>
  The alerting engine (\<^verbatim>\<open>internal/alerting\<close>): rules (\<^verbatim>\<open>rules.go\<close>), maintenance windows (\<^verbatim>\<open>maintenance.go\<close>),
  alert groups (\<^verbatim>\<open>grouping.go\<close>), the alerts table (\<^verbatim>\<open>store.go\<close>) and the engine itself (\<^verbatim>\<open>engine.go\<close>).

  Go maps that are iterated are association lists, whose order stands for the unspecified order of the iteration.
  Sample values and thresholds are rationals. The clock, the generated identifiers, the outcome of database writes,
  the UUID syntax and the printing of numbers are arguments. Notifications are the list of alerts handed to the
  notifier.
\<close>

section \<open>Rules\<close>

record Rule =
  rlID :: string
  rlTenantID :: string
  rlName :: string
  rlType :: string
  rlEnabled :: bool
  rlSeverity :: string
  rlMetricName :: string
  rlCondition :: string
  rlThreshold :: rat
  rlTimeout :: int
  rlDeviceID :: string
  rlCooldown :: int
  rlChannels :: "string list"
  rlTemplate :: string

datatype rule_problem =
    BadID | BadTenant | BadName | NoMetric | BadCondition | NoTimeout | BadDevice | BadType | BadSeverity | NegativeCooldown
  | BadChannel string | DuplicateChannel string | LongTemplate

fun channel_problems :: "string list \<Rightarrow> string list \<Rightarrow> rule_problem list" where
  "channel_problems seen [] = []"
| "channel_problems seen (c # cs) =
     (if List.member [''slack'', ''webhook'', ''email'', ''teams'', ''pagerduty''] c then [] else [BadChannel c]) @
     (if List.member seen c then [DuplicateChannel c] else []) @ channel_problems (c # seen) cs"

definition Validate_rule :: "(string \<Rightarrow> bool) \<Rightarrow> Rule \<Rightarrow> rule_problem list" where
  "Validate_rule uuid r =
     (if rlID r \<noteq> [] \<and> \<not> uuid (rlID r) then [BadID] else []) @
     (if \<not> uuid (rlTenantID r) then [BadTenant] else []) @
     (if TrimSpace (rlName r) = [] \<or> 200 < length (rlName r) then [BadName] else []) @
     (if rlType r = ''threshold'' then
        (if TrimSpace (rlMetricName r) = [] then [NoMetric] else []) @
        (if List.member [''gt'', ''gte'', ''lt'', ''lte'', ''eq'', ''neq''] (rlCondition r) then [] else [BadCondition])
      else if rlType r = ''heartbeat'' then
        (if rlTimeout r \<le> 0 then [NoTimeout] else []) @
        (if rlDeviceID r \<noteq> [] \<and> \<not> uuid (rlDeviceID r) then [BadDevice] else [])
      else [BadType]) @
     (if List.member [''critical'', ''warning'', ''info''] (rlSeverity r) then [] else [BadSeverity]) @
     (if rlCooldown r < 0 then [NegativeCooldown] else []) @
     channel_problems [] (rlChannels r) @
     (if 4000 < length (rlTemplate r) then [LongTemplate] else [])"

definition MatchesMetric :: "Rule \<Rightarrow> string \<Rightarrow> bool" where
  "MatchesMetric r name =
     (if rlMetricName r = [] then False
      else if last (rlMetricName r) = CHR ''*'' then HasPrefix name (butlast (rlMetricName r))
      else rlMetricName r = name)"

text \<open>\<^verbatim>\<open>strings.ReplaceAll\<close> for a pattern that is not empty.\<close>

function ReplaceAll :: "string \<Rightarrow> string \<Rightarrow> string \<Rightarrow> string" where
  "ReplaceAll [] old new = []"
| "ReplaceAll (c # cs) old new =
     (if old \<noteq> [] \<and> HasPrefix (c # cs) old then new @ ReplaceAll (drop (length old) (c # cs)) old new
      else c # ReplaceAll cs old new)"
  by pat_completeness auto

termination ReplaceAll
  by (relation "measure (\<lambda>(s, old, new). length s)") (auto simp: Suc_diff_le neq_Nil_conv)

definition FormatMessage :: "(rat \<Rightarrow> string) \<Rightarrow> Rule \<Rightarrow> string \<Rightarrow> string \<Rightarrow> rat \<Rightarrow> string" where
  "FormatMessage fmt r deviceID metricName v =
     (if rlTemplate r \<noteq> [] then
        let m1 = ReplaceAll (rlTemplate r) ''{device_id}'' deviceID;
            m2 = ReplaceAll m1 ''{metric_name}'' metricName;
            m3 = ReplaceAll m2 ''{threshold}'' (fmt (rlThreshold r));
            m4 = ReplaceAll m3 ''{value}'' (fmt v);
            m5 = ReplaceAll m4 ''{severity}'' (rlSeverity r)
        in ReplaceAll m5 ''{condition}'' (rlCondition r)
      else ''['' @ ToUpper (rlSeverity r) @ ''] '' @ metricName @ '' = '' @ fmt v @ '' ('' @ rlCondition r @ '' '' @
           fmt (rlThreshold r) @ '') on '' @ deviceID)"

definition should_fire :: "string \<Rightarrow> rat \<Rightarrow> rat \<Rightarrow> bool" where
  "should_fire c v t =
     (if c = ''gte'' then v \<ge> t else if c = ''gt'' then v > t else if c = ''lte'' then v \<le> t
      else if c = ''lt'' then v < t else if c = ''eq'' then v = t else if c = ''neq'' then v \<noteq> t else False)"

section \<open>Maintenance windows\<close>

record MaintenanceWindow =
  mwID :: string
  mwTenantID :: string
  mwName :: string
  mwStartTime :: instant
  mwEndTime :: instant
  mwDeviceIDs :: "string list"

definition window_covers :: "string \<Rightarrow> string \<Rightarrow> instant \<Rightarrow> MaintenanceWindow \<Rightarrow> bool" where
  "window_covers tenantID deviceID t w \<longleftrightarrow>
     mwTenantID w = tenantID \<and> (mwDeviceIDs w = [] \<or> List.member (mwDeviceIDs w) deviceID) \<and> mwStartTime w \<le> t \<and> t \<le> mwEndTime w"

definition IsInMaintenance :: "(string \<times> MaintenanceWindow) list \<Rightarrow> string \<Rightarrow> string \<Rightarrow> instant \<Rightarrow> bool" where
  "IsInMaintenance windows tenantID deviceID t = list_ex (\<lambda>(_, w). window_covers tenantID deviceID t w) windows"

definition GetActiveWindows :: "(string \<times> MaintenanceWindow) list \<Rightarrow> string \<Rightarrow> string \<Rightarrow> instant \<Rightarrow> MaintenanceWindow list" where
  "GetActiveWindows windows tenantID deviceID now = filter (window_covers tenantID deviceID now) (map snd windows)"

definition LoadWindows :: "MaintenanceWindow list \<Rightarrow> (string \<times> MaintenanceWindow) list \<Rightarrow> (string \<times> MaintenanceWindow) list" where
  "LoadWindows loaded windows = fold (\<lambda>w. AList.update (mwID w) w) loaded windows"

definition CreateWindow ::
  "bool \<Rightarrow> string \<Rightarrow> string \<Rightarrow> string \<Rightarrow> instant \<Rightarrow> instant \<Rightarrow> string list \<Rightarrow> (string \<times> MaintenanceWindow) list \<Rightarrow>
     MaintenanceWindow option \<times> (string \<times> MaintenanceWindow) list" where
  "CreateWindow saved newID tenantID name startTime endTime deviceIDs windows =
     (let w = \<lparr>mwID = newID, mwTenantID = tenantID, mwName = name, mwStartTime = startTime, mwEndTime = endTime, mwDeviceIDs = deviceIDs\<rparr>
      in if saved then (Some w, AList.update newID w windows) else (None, windows))"

text \<open>The window is dropped from memory before the database is asked.\<close>

definition DeleteWindow :: "bool \<Rightarrow> string \<Rightarrow> (string \<times> MaintenanceWindow) list \<Rightarrow> bool \<times> (string \<times> MaintenanceWindow) list" where
  "DeleteWindow deleted windowID windows = (deleted, AList.delete windowID windows)"

definition ListWindows :: "string \<Rightarrow> (string \<times> MaintenanceWindow) list \<Rightarrow> MaintenanceWindow list" where
  "ListWindows tenantID windows = filter (\<lambda>w. tenantID = [] \<or> mwTenantID w = tenantID) (map snd windows)"

section \<open>Groups\<close>

datatype GroupStatus = GroupActive | GroupSilenced | GroupResolved

record AlertGroup =
  agTenantID :: string
  agSeverity :: string
  agStatus :: GroupStatus
  agAlertID :: string
  agCount :: int
  agFiredAt :: instant
  agLastFired :: instant
  agMetricNames :: "string list"

type_synonym groups = "((string \<times> string) \<times> AlertGroup) list"

definition GetOrCreateGroup :: "string \<Rightarrow> string \<Rightarrow> string \<Rightarrow> string \<Rightarrow> string \<Rightarrow> instant \<Rightarrow> groups \<Rightarrow> groups" where
  "GetOrCreateGroup ruleID tenantID deviceID metricName severity firedAt gs =
     (let g = (case map_of gs (ruleID, deviceID) of
                 None \<Rightarrow> \<lparr>agTenantID = tenantID, agSeverity = severity, agStatus = GroupActive, agAlertID = [], agCount = 0,
                          agFiredAt = firedAt, agLastFired = firedAt, agMetricNames = []\<rparr>
               | Some g \<Rightarrow> g);
          g' = g\<lparr>agCount := agCount g + 1, agLastFired := firedAt,
                 agSeverity := (if severity \<noteq> [] \<and> agSeverity g = [] then severity else agSeverity g),
                 agMetricNames := (if List.member (agMetricNames g) metricName then agMetricNames g else agMetricNames g @ [metricName])\<rparr>
      in AList.update (ruleID, deviceID) g' gs)"

definition UpdateGroupStatus :: "string \<Rightarrow> string \<Rightarrow> GroupStatus \<Rightarrow> string \<Rightarrow> groups \<Rightarrow> groups" where
  "UpdateGroupStatus ruleID deviceID status alertID gs =
     (case map_of gs (ruleID, deviceID) of
        None \<Rightarrow> gs
      | Some g \<Rightarrow> AList.update (ruleID, deviceID)
          (g\<lparr>agStatus := status, agAlertID := (if alertID \<noteq> [] then alertID else agAlertID g)\<rparr>) gs)"

definition ResolveGroup :: "string \<Rightarrow> string \<Rightarrow> instant \<Rightarrow> groups \<Rightarrow> groups" where
  "ResolveGroup ruleID deviceID resolvedAt gs =
     (case map_of gs (ruleID, deviceID) of
        None \<Rightarrow> gs
      | Some g \<Rightarrow> AList.update (ruleID, deviceID) (g\<lparr>agStatus := GroupResolved, agLastFired := resolvedAt\<rparr>) gs)"

definition GetGroupsByTenant :: "string \<Rightarrow> groups \<Rightarrow> AlertGroup list" where
  "GetGroupsByTenant tenantID gs =
     map snd (filter (\<lambda>((ruleID, deviceID), _). tenantID = [] \<or> ruleID = tenantID \<or> deviceID = tenantID) gs)"

definition GetGroupsBySeverity :: "string \<Rightarrow> groups \<Rightarrow> AlertGroup list" where
  "GetGroupsBySeverity severity gs = filter (\<lambda>g. agSeverity g = severity \<and> agStatus g = GroupActive) (map snd gs)"

definition GetActiveGroupsBySeverity :: "string \<Rightarrow> groups \<Rightarrow> nat" where
  "GetActiveGroupsBySeverity severity gs = length (GetGroupsBySeverity severity gs)"

definition GetGroupsByDevice :: "string \<Rightarrow> groups \<Rightarrow> AlertGroup list" where
  "GetGroupsByDevice deviceID gs = map snd (filter (\<lambda>((_, d), _). d = deviceID) gs)"

definition GetDeviceAlertCount :: "string \<Rightarrow> groups \<Rightarrow> int" where
  "GetDeviceAlertCount deviceID gs = sum_list (map agCount (filter (\<lambda>g. agStatus g = GroupActive) (GetGroupsByDevice deviceID gs)))"

text \<open>Resolves the active groups of a device, and drops every resolved group it meets, of whatever device.\<close>

fun ResolveGroupsByDevice :: "string \<Rightarrow> groups \<Rightarrow> nat \<times> groups" where
  "ResolveGroupsByDevice deviceID [] = (0, [])"
| "ResolveGroupsByDevice deviceID (((r, d), g) # gs) =
     (case ResolveGroupsByDevice deviceID gs of
        (count, rest) \<Rightarrow>
          if d = deviceID \<and> agStatus g = GroupActive then (Suc count, rest)
          else if agStatus g = GroupResolved then (count, rest)
          else (count, ((r, d), g) # rest))"

definition ResolveAll :: "groups \<Rightarrow> nat \<times> groups" where
  "ResolveAll gs =
     (length (filter (\<lambda>(_, g). agStatus g = GroupActive) gs),
      map (\<lambda>(k, g). (k, if agStatus g = GroupActive then g\<lparr>agStatus := GroupResolved\<rparr> else g)) gs)"

definition ResolveCascadeGroup :: "string \<Rightarrow> groups \<Rightarrow> nat \<times> groups" where
  "ResolveCascadeGroup deviceID gs =
     (length (filter (\<lambda>((_, d), _). d = deviceID) gs), filter (\<lambda>((_, d), _). d \<noteq> deviceID) gs)"

definition DeleteGroup :: "string \<Rightarrow> string \<Rightarrow> groups \<Rightarrow> groups" where
  "DeleteGroup ruleID deviceID gs = AList.delete (ruleID, deviceID) gs"

definition ResolveGroupWithID :: "string \<Rightarrow> string \<Rightarrow> string \<Rightarrow> groups \<Rightarrow> groups" where
  "ResolveGroupWithID groupID ruleID deviceID gs =
     (case map_of gs (ruleID, deviceID) of
        None \<Rightarrow> gs
      | Some g \<Rightarrow> AList.update (ruleID, deviceID) (g\<lparr>agAlertID := groupID, agStatus := GroupResolved\<rparr>) gs)"

record CascadeGroup =
  cgTenantID :: string
  cgDeviceID :: string
  cgGroups :: "AlertGroup list"
  cgStatus :: GroupStatus
  cgCreatedAt :: instant
  cgLastUpdated :: instant

text \<open>The groups of each device, for the devices whose first group is active.\<close>

definition GetCascadeGroups :: "string \<Rightarrow> groups \<Rightarrow> CascadeGroup list" where
  "GetCascadeGroups tenantID gs =
     (let mine = filter (\<lambda>(_, g). tenantID = [] \<or> agTenantID g = tenantID) gs
      in List.map_filter
           (\<lambda>d. case GetGroupsByDevice d mine of
                  [] \<Rightarrow> None
                | g # rest \<Rightarrow>
                    if agStatus g = GroupActive then
                      Some \<lparr>cgTenantID = agTenantID g, cgDeviceID = d, cgGroups = g # rest, cgStatus = GroupActive,
                            cgCreatedAt = agFiredAt g, cgLastUpdated = agLastFired g\<rparr>
                    else None)
           (remdups (map (\<lambda>((_, d), _). d) mine)))"

definition GetTimeWindowGroups :: "instant \<Rightarrow> int \<Rightarrow> groups \<Rightarrow> AlertGroup list" where
  "GetTimeWindowGroups now window gs = filter (\<lambda>g. agStatus g = GroupActive \<and> Sub_time now (agLastFired g) \<le> window) (map snd gs)"

section \<open>The alerts table\<close>

datatype AlertStatus = AlertFiring | AlertResolved | AlertAcknowledged

record Alert =
  alID :: string
  alRuleID :: string
  alTenantID :: string
  alDeviceID :: string
  alMetricName :: string
  alValue :: rat
  alSeverity :: string
  alMessage :: string
  alStatus :: AlertStatus
  alFiredAt :: instant
  alResolvedAt :: "instant option"
  alAcknowledgedAt :: "instant option"
  alCorrelationKey :: string
  alChannels :: "string list"

definition active_status :: "AlertStatus \<Rightarrow> bool" where
  "active_status s \<longleftrightarrow> s = AlertFiring \<or> s = AlertAcknowledged"

text \<open>The partial unique index: one active alert for a tenant and a correlation key.\<close>

definition index_violated :: "Alert \<Rightarrow> Alert list \<Rightarrow> bool" where
  "index_violated a rows \<longleftrightarrow>
     active_status (alStatus a) \<and> alCorrelationKey a \<noteq> [] \<and>
     list_ex (\<lambda>r. alID r \<noteq> alID a \<and> alTenantID r = alTenantID a \<and> alCorrelationKey r = alCorrelationKey a
        \<and> active_status (alStatus r)) rows"

definition SaveAlert :: "bool \<Rightarrow> Alert \<Rightarrow> Alert list \<Rightarrow> (Alert list) option" where
  "SaveAlert dbOk a rows =
     (if \<not> dbOk then None
      else case find (\<lambda>r. alID r = alID a) rows of
             None \<Rightarrow> if index_violated a rows then None else Some (rows @ [a])
           | Some r \<Rightarrow>
               (let r' = r\<lparr>alStatus := alStatus a, alResolvedAt := alResolvedAt a, alAcknowledgedAt := alAcknowledgedAt a\<rparr>
                in if index_violated r' rows then None else Some (map (\<lambda>x. if alID x = alID a then r' else x) rows)))"

definition UpdateAlertStatus :: "bool \<Rightarrow> instant \<Rightarrow> string \<Rightarrow> string \<Rightarrow> AlertStatus \<Rightarrow> Alert list \<Rightarrow> (Alert list) option" where
  "UpdateAlertStatus dbOk now tenantID alertID status rows =
     (if \<not> dbOk then None
      else case find (\<lambda>r. alTenantID r = tenantID \<and> alID r = alertID) rows of
             None \<Rightarrow> None
           | Some r \<Rightarrow>
               (let r' = (if status = AlertAcknowledged then r\<lparr>alStatus := status, alAcknowledgedAt := Some now\<rparr> else r\<lparr>alStatus := status\<rparr>)
                in if index_violated r' rows then None else Some (map (\<lambda>x. if alID x = alertID then r' else x) rows)))"

definition SaveCVEAlert :: "bool \<Rightarrow> Alert \<Rightarrow> string \<Rightarrow> Alert list \<Rightarrow> ((Alert \<times> bool) \<times> Alert list) option" where
  "SaveCVEAlert dbOk alert correlationKey rows =
     (let a = alert\<lparr>alCorrelationKey := correlationKey, alStatus := AlertFiring, alRuleID := []\<rparr>
      in if \<not> dbOk \<or> list_ex (\<lambda>r. alID r = alID a) rows then None
         else case find (\<lambda>r. alTenantID r = alTenantID a \<and> alCorrelationKey r = correlationKey \<and> active_status (alStatus r)) rows of
                None \<Rightarrow> Some ((a, True), rows @ [a])
              | Some r \<Rightarrow>
                  (let r' = r\<lparr>alValue := alValue a\<rparr>
                   in Some ((r', False), map (\<lambda>x. if alID x = alID r then r' else x) rows)))"

definition ResolveCVE_row :: "bool \<Rightarrow> string \<Rightarrow> string \<Rightarrow> string \<Rightarrow> instant \<Rightarrow> Alert list \<Rightarrow> (Alert \<times> Alert list) option" where
  "ResolveCVE_row dbOk tenantID deviceID correlationKey now rows =
     (let hit = (\<lambda>r. alTenantID r = tenantID \<and> alDeviceID r = deviceID \<and> alCorrelationKey r = correlationKey \<and> active_status (alStatus r));
          resolve = (\<lambda>r. r\<lparr>alStatus := AlertResolved, alResolvedAt := Some now, alMessage := ''Resolved: '' @ alMessage r\<rparr>)
      in if \<not> dbOk then None
         else case find hit rows of None \<Rightarrow> None | Some r \<Rightarrow> Some (resolve r, map (\<lambda>x. if hit x then resolve x else x) rows))"

section \<open>The engine\<close>

record AlertState =
  asRuleID :: string
  asTenantID :: string
  asDeviceID :: string
  asFiring :: bool
  asLastFired :: instant
  asLastHeard :: instant
  asConsecutiveFires :: int
  asAlertID :: string
  asMetricName :: string

text \<open>
  The engine with its tables. \<open>enSeq\<close> counts the uses of the environment, which gives for each the time, a new
  identifier and whether the database write succeeds; \<open>enSaved\<close> is the history of alerts saved.
\<close>

record Engine =
  enRules :: "(string \<times> Rule) list"
  enStates :: "(string \<times> AlertState) list"
  enGroups :: groups
  enWindows :: "(string \<times> MaintenanceWindow) list option"
  enAlerts :: "Alert list"
  enSaved :: "Alert list"
  enSent :: "Alert list"
  enSeq :: nat

record alert_env =
  aeNow :: "nat \<Rightarrow> instant"
  aeUUID :: "nat \<Rightarrow> string"
  aeDbOk :: "nat \<Rightarrow> bool"
  aeFmt :: "rat \<Rightarrow> string"

definition in_maintenance :: "Engine \<Rightarrow> string \<Rightarrow> string \<Rightarrow> instant \<Rightarrow> bool" where
  "in_maintenance e tenantID deviceID now =
     (case enWindows e of None \<Rightarrow> False | Some ws \<Rightarrow> IsInMaintenance ws tenantID deviceID now)"

text \<open>\<^verbatim>\<open>fireAlert\<close> and \<^verbatim>\<open>resolveAlert\<close>: the alert is saved, then handed to the notifier; a failed notification is only logged.\<close>

definition save_and_send :: "bool \<Rightarrow> Alert \<Rightarrow> Engine \<Rightarrow> bool \<times> Engine" where
  "save_and_send dbOk a e =
     (case SaveAlert dbOk a (enAlerts e) of
        None \<Rightarrow> (False, e)
      | Some rows \<Rightarrow> (True, e\<lparr>enAlerts := rows, enSaved := enSaved e @ [a], enSent := enSent e @ [a]\<rparr>))"

definition set_state :: "string \<Rightarrow> AlertState \<Rightarrow> Engine \<Rightarrow> Engine" where
  "set_state key st e = e\<lparr>enStates := AList.update key st (enStates e)\<rparr>"

definition rollbackFiringTransition :: "string \<Rightarrow> string \<Rightarrow> Engine \<Rightarrow> Engine" where
  "rollbackFiringTransition key alertID e =
     (case map_of (enStates e) key of
        None \<Rightarrow> e
      | Some st \<Rightarrow>
          if asAlertID st = alertID then set_state key (st\<lparr>asFiring := False, asAlertID := [], asConsecutiveFires := 0\<rparr>) e else e)"

definition restoreFiringTransition :: "string \<Rightarrow> string \<Rightarrow> string \<Rightarrow> Engine \<Rightarrow> Engine" where
  "restoreFiringTransition key alertID metricName e =
     (case map_of (enStates e) key of
        None \<Rightarrow> e
      | Some st \<Rightarrow>
          if \<not> asFiring st \<and> asAlertID st = [] then set_state key (st\<lparr>asFiring := True, asAlertID := alertID, asMetricName := metricName\<rparr>) e
          else e)"

text \<open>The correlation key of an alert of a rule.\<close>

definition rule_key :: "string \<Rightarrow> string" where
  "rule_key key = ''rule:'' @ key"

text \<open>
  A transition of a state and the alert for it: the state is set under the lock and put back when the alert
  cannot be saved.
\<close>

definition fire_transition :: "bool \<Rightarrow> string \<Rightarrow> AlertState \<Rightarrow> Alert \<Rightarrow> Engine \<Rightarrow> Engine" where
  "fire_transition dbOk key st a e =
     (case save_and_send dbOk a (set_state key st e) of
        (True, e1) \<Rightarrow> e1
      | (False, e1) \<Rightarrow> rollbackFiringTransition key (alID a) e1)"

definition resolve_transition :: "bool \<Rightarrow> string \<Rightarrow> AlertState \<Rightarrow> string \<Rightarrow> Alert \<Rightarrow> Engine \<Rightarrow> bool \<times> Engine" where
  "resolve_transition dbOk key st metricName a e =
     (case save_and_send dbOk a (set_state key st e) of
        (True, e1) \<Rightarrow> (True, e1)
      | (False, e1) \<Rightarrow> (False, restoreFiringTransition key (alID a) metricName e1))"

definition threshold_alert ::
  "alert_env \<Rightarrow> Rule \<Rightarrow> string \<Rightarrow> string \<Rightarrow> string \<Rightarrow> rat \<Rightarrow> string \<Rightarrow> string \<Rightarrow> AlertStatus \<Rightarrow> instant \<Rightarrow> instant option \<Rightarrow> Alert" where
  "threshold_alert env rule key tenantID deviceID v metricName alertID status firedAt resolvedAt =
     (let msg = FormatMessage (aeFmt env) rule deviceID metricName v
      in \<lparr>alID = alertID, alRuleID = rlID rule, alTenantID = tenantID, alDeviceID = deviceID, alMetricName = metricName, alValue = v,
          alSeverity = rlSeverity rule, alMessage = (if status = AlertResolved then ''Resolved: '' @ msg else msg), alStatus = status,
          alFiredAt = firedAt, alResolvedAt = resolvedAt, alAcknowledgedAt = None, alCorrelationKey = rule_key key,
          alChannels = rlChannels rule\<rparr>)"

definition evaluateThreshold ::
  "alert_env \<Rightarrow> Rule \<Rightarrow> string \<Rightarrow> string \<Rightarrow> string \<Rightarrow> rat \<Rightarrow> Engine \<Rightarrow> Engine" where
  "evaluateThreshold env rule tenantID deviceID metricName v e =
     (let key = rlID rule @ '':'' @ deviceID @ '':'' @ metricName;
          n = enSeq e;
          now = aeNow env n;
          fire = should_fire (rlCondition rule) v (rlThreshold rule);
          st = (case map_of (enStates e) key of
                  None \<Rightarrow> \<lparr>asRuleID = rlID rule, asTenantID = tenantID, asDeviceID = deviceID, asFiring = False, asLastFired = zero_time,
                           asLastHeard = zero_time, asConsecutiveFires = 0, asAlertID = [], asMetricName = metricName\<rparr>
                | Some st \<Rightarrow> st);
          e1 = (set_state key st e)\<lparr>enSeq := Suc n,
                 enGroups := GetOrCreateGroup (rlID rule) tenantID deviceID metricName (rlSeverity rule) now (enGroups e)\<rparr>
      in if fire \<and> \<not> asFiring st then
           (if Sub_time now (asLastFired st) < rlCooldown rule then e1
            else if in_maintenance e tenantID deviceID now then
              e1\<lparr>enGroups := UpdateGroupStatus (rlID rule) deviceID GroupSilenced [] (enGroups e1)\<rparr>
            else
              fire_transition (aeDbOk env n) key
                (st\<lparr>asFiring := True, asLastFired := now, asConsecutiveFires := 1, asAlertID := aeUUID env n\<rparr>)
                (threshold_alert env rule key tenantID deviceID v metricName (aeUUID env n) AlertFiring now None) e1)
         else if \<not> fire \<and> asFiring st then
           (case resolve_transition (aeDbOk env n) key (st\<lparr>asFiring := False, asConsecutiveFires := 0, asAlertID := []\<rparr>) metricName
                   (threshold_alert env rule key tenantID deviceID v metricName (asAlertID st) AlertResolved (asLastFired st) (Some now)) e1 of
              (True, e2) \<Rightarrow> e2\<lparr>enGroups := ResolveGroup (rlID rule) deviceID now (enGroups e2)\<rparr>
            | (False, e2) \<Rightarrow> e2)
         else if fire \<and> asFiring st then set_state key (st\<lparr>asConsecutiveFires := asConsecutiveFires st + 1\<rparr>) e1
         else e1)"

definition heartbeat_alert ::
  "Rule \<Rightarrow> string \<Rightarrow> string \<Rightarrow> string \<Rightarrow> string \<Rightarrow> string \<Rightarrow> AlertStatus \<Rightarrow> instant \<Rightarrow> instant option \<Rightarrow> Alert" where
  "heartbeat_alert rule key tenantID deviceID msg alertID status firedAt resolvedAt =
     \<lparr>alID = alertID, alRuleID = rlID rule, alTenantID = tenantID, alDeviceID = deviceID, alMetricName = [], alValue = 0,
      alSeverity = rlSeverity rule, alMessage = msg, alStatus = status, alFiredAt = firedAt, alResolvedAt = resolvedAt,
      alAcknowledgedAt = None, alCorrelationKey = rule_key key, alChannels = rlChannels rule\<rparr>"

definition evaluateHeartbeat :: "alert_env \<Rightarrow> Rule \<Rightarrow> string \<Rightarrow> string \<Rightarrow> instant \<Rightarrow> Engine \<Rightarrow> Engine" where
  "evaluateHeartbeat env rule tenantID deviceID lastTime e =
     (let key = rlID rule @ '':'' @ deviceID;
          n = enSeq e;
          st = (case map_of (enStates e) key of
                  None \<Rightarrow> \<lparr>asRuleID = rlID rule, asTenantID = tenantID, asDeviceID = deviceID, asFiring = False, asLastFired = zero_time,
                           asLastHeard = lastTime, asConsecutiveFires = 0, asAlertID = [], asMetricName = []\<rparr>
                | Some st \<Rightarrow> if asLastHeard st < lastTime then st\<lparr>asLastHeard := lastTime\<rparr> else st);
          e1 = (set_state key st e)\<lparr>enSeq := Suc n\<rparr>
      in if asFiring st then
           (let now = aeNow env n;
                e2 = snd (resolve_transition (aeDbOk env n) key (st\<lparr>asFiring := False, asAlertID := [], asConsecutiveFires := 0\<rparr>) []
                       (heartbeat_alert rule key tenantID deviceID (''Heartbeat restored for device '' @ deviceID) (asAlertID st) AlertResolved
                          (asLastFired st) (Some now)) e1)
            in e2\<lparr>enGroups := ResolveGroup (rlID rule) deviceID now (enGroups e2)\<rparr>)
         else e1)"

record metric_sample =
  msName :: string
  msValue :: rat

definition handleMetrics :: "alert_env \<Rightarrow> string \<Rightarrow> string \<Rightarrow> metric_sample list \<Rightarrow> Engine \<Rightarrow> Engine" where
  "handleMetrics env tenantID deviceID samples e =
     (if tenantID = [] \<or> deviceID = [] then e
      else
        let rules = filter (\<lambda>r. rlEnabled r \<and> rlTenantID r = tenantID \<and> rlType r = ''threshold'') (map snd (enRules e))
        in fold (\<lambda>r. fold (\<lambda>s e. if MatchesMetric r (msName s) then evaluateThreshold env r tenantID deviceID (msName s) (msValue s) e else e)
                   samples) rules e)"

definition handleHeartbeat :: "alert_env \<Rightarrow> string \<Rightarrow> string \<Rightarrow> instant \<Rightarrow> Engine \<Rightarrow> Engine" where
  "handleHeartbeat env tenantID deviceID t e =
     (if tenantID = [] \<or> deviceID = [] then e
      else
        let rules = filter (\<lambda>r. rlEnabled r \<and> rlTenantID r = tenantID \<and> rlType r = ''heartbeat'' \<and> (rlDeviceID r = [] \<or> rlDeviceID r = deviceID))
                      (map snd (enRules e))
        in fold (\<lambda>r. evaluateHeartbeat env r tenantID deviceID t) rules e)"

text \<open>The check for silent devices: the states that are due are marked in one pass, then their alerts are saved.\<close>

definition heartbeat_due :: "Engine \<Rightarrow> instant \<Rightarrow> AlertState \<Rightarrow> bool" where
  "heartbeat_due e now st =
     (case map_of (enRules e) (asRuleID st) of
        None \<Rightarrow> False
      | Some rule \<Rightarrow>
          \<not> asFiring st \<and> rlEnabled rule \<and> rlType rule = ''heartbeat'' \<and> asLastHeard st \<noteq> zero_time \<and>
          rlTimeout rule < Sub_time now (asLastHeard st) \<and> \<not> Sub_time now (asLastFired st) < rlCooldown rule \<and>
          \<not> in_maintenance e (asTenantID st) (asDeviceID st) now)"

definition fire_heartbeat :: "alert_env \<Rightarrow> (AlertState \<Rightarrow> string) \<Rightarrow> instant \<Rightarrow> string \<times> AlertState \<Rightarrow> Engine \<Rightarrow> Engine" where
  "fire_heartbeat env msg now ks e =
     (case ks of
        (key, st) \<Rightarrow>
          (case map_of (enRules e) (asRuleID st) of
             None \<Rightarrow> e
           | Some rule \<Rightarrow>
               (let n = enSeq e
                in case save_and_send (aeDbOk env n)
                          (heartbeat_alert rule key (asTenantID st) (asDeviceID st) (msg st) (asAlertID st) AlertFiring now None)
                          (e\<lparr>enSeq := Suc n\<rparr>) of
                     (True, e1) \<Rightarrow> e1
                   | (False, e1) \<Rightarrow> rollbackFiringTransition key (asAlertID st) e1)))"

fun mark_due :: "alert_env \<Rightarrow> Engine \<Rightarrow> instant \<Rightarrow> nat \<Rightarrow> (string \<times> AlertState) list \<Rightarrow> (string \<times> AlertState) list \<times> (string \<times> AlertState) list" where
  "mark_due env e now n [] = ([], [])"
| "mark_due env e now n ((key, st) # rest) =
     (if heartbeat_due e now st then
        (let st' = st\<lparr>asFiring := True, asLastFired := now, asAlertID := aeUUID env n, asConsecutiveFires := 1\<rparr>
         in case mark_due env e now (Suc n) rest of (states, pending) \<Rightarrow> ((key, st') # states, (key, st') # pending))
      else (case mark_due env e now n rest of (states, pending) \<Rightarrow> ((key, st) # states, pending)))"

definition checkStaleHeartbeats :: "alert_env \<Rightarrow> (AlertState \<Rightarrow> string) \<Rightarrow> Engine \<Rightarrow> Engine" where
  "checkStaleHeartbeats env msg e =
     (let n = enSeq e; now = aeNow env n
      in case mark_due env e now n (enStates e) of
           (states, pending) \<Rightarrow> fold (fire_heartbeat env msg now) pending (e\<lparr>enStates := states, enSeq := Suc (n + length pending)\<rparr>))"

text \<open>One tick of \<^verbatim>\<open>cleanupLoop\<close>.\<close>

definition cleanup_states :: "alert_env \<Rightarrow> Engine \<Rightarrow> Engine" where
  "cleanup_states env e =
     e\<lparr>enStates := filter (\<lambda>(_, st). \<not> (\<not> asFiring st \<and> 24 * Hour < Sub_time (aeNow env (enSeq e)) (asLastFired st))) (enStates e),
       enSeq := Suc (enSeq e)\<rparr>"

definition restoreActiveAlerts :: "Alert list \<Rightarrow> Engine \<Rightarrow> Engine" where
  "restoreActiveAlerts alerts e =
     fold (\<lambda>a e. if alRuleID a = [] \<or> \<not> HasPrefix (alCorrelationKey a) ''rule:'' then e
                 else set_state (drop 5 (alCorrelationKey a))
                        \<lparr>asRuleID = alRuleID a, asTenantID = alTenantID a, asDeviceID = alDeviceID a, asFiring = True,
                         asLastFired = alFiredAt a, asLastHeard = zero_time, asConsecutiveFires = 0, asAlertID = alID a,
                         asMetricName = alMetricName a\<rparr> e) alerts e"

definition AddRule :: "(string \<Rightarrow> bool) \<Rightarrow> bool \<Rightarrow> string \<Rightarrow> Rule \<Rightarrow> Engine \<Rightarrow> bool \<times> Engine" where
  "AddRule uuid saved newID rule e =
     (let r = (if rlID rule = [] then rule\<lparr>rlID := newID\<rparr> else rule)
      in if Validate_rule uuid r \<noteq> [] \<or> \<not> saved then (False, e) else (True, e\<lparr>enRules := AList.update (rlID r) r (enRules e)\<rparr>))"

definition RemoveRule :: "bool \<Rightarrow> string \<Rightarrow> Engine \<Rightarrow> bool \<times> Engine" where
  "RemoveRule deleted ruleID e =
     (if \<not> deleted then (False, e)
      else (True, e\<lparr>enRules := AList.delete ruleID (enRules e), enStates := filter (\<lambda>(_, st). asRuleID st \<noteq> ruleID) (enStates e)\<rparr>))"

definition AcknowledgeAlert :: "bool \<Rightarrow> instant \<Rightarrow> string \<Rightarrow> string \<Rightarrow> Engine \<Rightarrow> bool \<times> Engine" where
  "AcknowledgeAlert dbOk now tenantID alertID e =
     (case UpdateAlertStatus dbOk now tenantID alertID AlertAcknowledged (enAlerts e) of
        None \<Rightarrow> (False, e)
      | Some rows \<Rightarrow> (True, e\<lparr>enAlerts := rows\<rparr>))"

text \<open>The correlation key of a vulnerability alert.\<close>

definition cve_key :: "string \<Rightarrow> string \<Rightarrow> string \<Rightarrow> string" where
  "cve_key deviceID cveID packageName = ''cve:'' @ deviceID @ '':'' @ cveID @ '':'' @ packageName"

definition cve_alert :: "string \<Rightarrow> string \<Rightarrow> string \<Rightarrow> string \<Rightarrow> string \<Rightarrow> string \<Rightarrow> string \<Rightarrow> string \<Rightarrow> instant \<Rightarrow> Alert" where
  "cve_alert alertID tenantID deviceID cveID packageName severity currentVersion fixedVersion now =
     \<lparr>alID = alertID, alRuleID = [], alTenantID = tenantID, alDeviceID = deviceID, alMetricName = ''cve_count'', alValue = 0,
      alSeverity = severity,
      alMessage = ''['' @ ToUpper severity @ ''] '' @ cveID @ '' in '' @ packageName @ '' '' @ currentVersion @
        '' '' @ [CHR 0xE2, CHR 0x80, CHR 0x94] @ '' upgrade to '' @ fixedVersion @ '' on device '' @ deviceID,
      alStatus = AlertFiring, alFiredAt = now, alResolvedAt = None, alAcknowledgedAt = None, alCorrelationKey = [], alChannels = []\<rparr>"

definition FireCVEAlert ::
  "alert_env \<Rightarrow> string \<Rightarrow> string \<Rightarrow> string \<Rightarrow> string \<Rightarrow> string \<Rightarrow> string \<Rightarrow> string \<Rightarrow> Engine \<Rightarrow> Engine" where
  "FireCVEAlert env tenantID deviceID cveID packageName severity currentVersion fixedVersion e =
     (let n = enSeq e; now = aeNow env n; e1 = e\<lparr>enSeq := Suc n\<rparr>;
          a = cve_alert (aeUUID env n) tenantID deviceID cveID packageName severity currentVersion fixedVersion now
      in if tenantID = [] \<or> deviceID = [] \<or> cveID = [] \<or> packageName = [] then e
         else if in_maintenance e tenantID deviceID now then e1
         else case SaveCVEAlert (aeDbOk env n) a (cve_key deviceID cveID packageName) (enAlerts e) of
                None \<Rightarrow> e1
              | Some ((persisted, created), rows) \<Rightarrow>
                  if created then e1\<lparr>enAlerts := rows, enSaved := enSaved e @ [persisted], enSent := enSent e @ [persisted]\<rparr>
                  else e1\<lparr>enAlerts := rows\<rparr>)"

definition ResolveCVEAlert :: "alert_env \<Rightarrow> string \<Rightarrow> string \<Rightarrow> string \<Rightarrow> string \<Rightarrow> Engine \<Rightarrow> Engine" where
  "ResolveCVEAlert env tenantID deviceID cveID packageName e =
     (let n = enSeq e; e1 = e\<lparr>enSeq := Suc n\<rparr>
      in if tenantID = [] \<or> deviceID = [] \<or> cveID = [] \<or> packageName = [] then e
         else case ResolveCVE_row (aeDbOk env n) tenantID deviceID (cve_key deviceID cveID packageName) (aeNow env n) (enAlerts e) of
                None \<Rightarrow> e1
              | Some (a, rows) \<Rightarrow> e1\<lparr>enAlerts := rows, enSaved := enSaved e @ [a], enSent := enSent e @ [a]\<rparr>)"

text \<open>Maintenance windows through the engine; without a maintenance engine each of these fails.\<close>

definition CreateMaintenanceWindow ::
  "bool \<Rightarrow> string \<Rightarrow> string \<Rightarrow> string \<Rightarrow> instant \<Rightarrow> instant \<Rightarrow> string list \<Rightarrow> Engine \<Rightarrow> MaintenanceWindow option \<times> Engine" where
  "CreateMaintenanceWindow saved newID tenantID name startTime endTime deviceIDs e =
     (case enWindows e of
        None \<Rightarrow> (None, e)
      | Some ws \<Rightarrow> (case CreateWindow saved newID tenantID name startTime endTime deviceIDs ws of (r, ws') \<Rightarrow> (r, e\<lparr>enWindows := Some ws'\<rparr>)))"

definition DeleteMaintenanceWindow :: "bool \<Rightarrow> string \<Rightarrow> Engine \<Rightarrow> bool \<times> Engine" where
  "DeleteMaintenanceWindow deleted windowID e =
     (case enWindows e of
        None \<Rightarrow> (False, e)
      | Some ws \<Rightarrow> (case DeleteWindow deleted windowID ws of (r, ws') \<Rightarrow> (r, e\<lparr>enWindows := Some ws'\<rparr>)))"

definition ListMaintenanceWindows :: "string \<Rightarrow> Engine \<Rightarrow> (MaintenanceWindow list) option" where
  "ListMaintenanceWindows tenantID e = map_option (ListWindows tenantID) (enWindows e)"

definition IsDeviceInMaintenance :: "string \<Rightarrow> string \<Rightarrow> instant \<Rightarrow> Engine \<Rightarrow> bool option" where
  "IsDeviceInMaintenance tenantID deviceID now e = map_option (\<lambda>ws. GetActiveWindows ws tenantID deviceID now \<noteq> []) (enWindows e)"

definition GetMaintenanceWindowsForDevice :: "string \<Rightarrow> string \<Rightarrow> instant \<Rightarrow> Engine \<Rightarrow> (MaintenanceWindow list) option" where
  "GetMaintenanceWindowsForDevice tenantID deviceID now e = map_option (\<lambda>ws. GetActiveWindows ws tenantID deviceID now) (enWindows e)"

definition GetActiveAlerts :: "string \<Rightarrow> Alert list \<Rightarrow> Alert list" where
  "GetActiveAlerts tenantID rows =
     sort_key (\<lambda>a. - alFiredAt a) (filter (\<lambda>a. alTenantID a = tenantID \<and> active_status (alStatus a)) rows)"

definition GetAlertHistory :: "string \<Rightarrow> int \<Rightarrow> int \<Rightarrow> Alert list \<Rightarrow> (Alert list) option" where
  "GetAlertHistory tenantID limit offset rows =
     (let n = (if limit \<le> 0 \<or> 100 < limit then 50 else limit)
      in if offset < 0 then None
         else Some (take (nat n) (drop (nat offset) (sort_key (\<lambda>a. - alFiredAt a) (filter (\<lambda>a. alTenantID a = tenantID) rows)))))"

definition LoadActiveAlertStates :: "Alert list \<Rightarrow> Alert list" where
  "LoadActiveAlertStates rows = filter (\<lambda>a. active_status (alStatus a) \<and> HasPrefix (alCorrelationKey a) ''rule:'') rows"

text \<open>Starting the engine: rules, active alerts and windows are read back; a failure to read the windows is only logged.\<close>

definition Start_engine ::
  "(Rule list) option \<Rightarrow> bool \<Rightarrow> (MaintenanceWindow list) option \<Rightarrow> bool \<Rightarrow> Engine \<Rightarrow> Engine option" where
  "Start_engine rules activeOk windows subscribed e =
     (case rules of
        None \<Rightarrow> None
      | Some rs \<Rightarrow>
          if \<not> activeOk then None
          else
            (let e1 = restoreActiveAlerts (LoadActiveAlertStates (enAlerts e)) (e\<lparr>enRules := fold (\<lambda>r. AList.update (rlID r) r) rs (enRules e)\<rparr>);
                 e2 = (case (enWindows e1, windows) of (Some ws, Some loaded) \<Rightarrow> e1\<lparr>enWindows := Some (LoadWindows loaded ws)\<rparr> | _ \<Rightarrow> e1)
             in if subscribed then Some e2 else None))"

section \<open>Sequences of operations\<close>

text \<open>What reaches the engine from agents, timers, the vulnerability scanner and administrators, one operation at a time.\<close>

datatype alert_op =
    OpMetrics string string "metric_sample list"
  | OpHeartbeat string string instant
  | OpStale
  | OpCleanup
  | OpFireCVE string string string string string string string
  | OpResolveCVE string string string string
  | OpAcknowledge string string
  | OpAddRule bool string Rule
  | OpRemoveRule bool string
  | OpCreateWindow bool string string string instant instant "string list"
  | OpDeleteWindow bool string

fun apply_op :: "alert_env \<Rightarrow> (string \<Rightarrow> bool) \<Rightarrow> (AlertState \<Rightarrow> string) \<Rightarrow> alert_op \<Rightarrow> Engine \<Rightarrow> Engine" where
  "apply_op env uuid msg (OpMetrics tn d samples) e = handleMetrics env tn d samples e"
| "apply_op env uuid msg (OpHeartbeat tn d t) e = handleHeartbeat env tn d t e"
| "apply_op env uuid msg OpStale e = checkStaleHeartbeats env msg e"
| "apply_op env uuid msg OpCleanup e = cleanup_states env e"
| "apply_op env uuid msg (OpFireCVE tn d c p sv cv fv) e = FireCVEAlert env tn d c p sv cv fv e"
| "apply_op env uuid msg (OpResolveCVE tn d c p) e = ResolveCVEAlert env tn d c p e"
| "apply_op env uuid msg (OpAcknowledge tn i) e = snd (AcknowledgeAlert (aeDbOk env (enSeq e)) (aeNow env (enSeq e)) tn i e)"
| "apply_op env uuid msg (OpAddRule saved i r) e = snd (AddRule uuid saved i r e)"
| "apply_op env uuid msg (OpRemoveRule deleted i) e = snd (RemoveRule deleted i e)"
| "apply_op env uuid msg (OpCreateWindow saved i tn name t1 t2 ds) e = snd (CreateMaintenanceWindow saved i tn name t1 t2 ds e)"
| "apply_op env uuid msg (OpDeleteWindow deleted i) e = snd (DeleteMaintenanceWindow deleted i e)"

definition run_ops :: "alert_env \<Rightarrow> (string \<Rightarrow> bool) \<Rightarrow> (AlertState \<Rightarrow> string) \<Rightarrow> alert_op list \<Rightarrow> Engine \<Rightarrow> Engine" where
  "run_ops env uuid msg ops e = fold (apply_op env uuid msg) ops e"

text \<open>An engine before its first sample: rules, windows and stored alerts as the database has them, no state.\<close>

definition fresh_engine :: "(string \<times> Rule) list \<Rightarrow> (string \<times> MaintenanceWindow) list option \<Rightarrow> Alert list \<Rightarrow> Engine" where
  "fresh_engine rules windows rows =
     \<lparr>enRules = rules, enStates = [], enGroups = [], enWindows = windows, enAlerts = rows, enSaved = [], enSent = [], enSeq = 0\<rparr>"

end
