(* ===== verification/AlertSafety.thy ===== *)
theory AlertSafety
  imports Alerting
begin

text \<open>
  What the alerting engine guarantees over any sequence of its operations: alerts fire and resolve in turn, cooldowns and
  maintenance windows are kept, and where it falls short of this.
\<close>

section \<open>Histories of a key\<close>

definition key_events :: "string \<Rightarrow> Engine \<Rightarrow> Alert list" where
  "key_events k e = filter (\<lambda>a. alCorrelationKey a = rule_key k) (enSaved e)"

text \<open>Firing and resolved alerts in turn, each resolution with the identifier of the alert it ends.\<close>

fun alternating :: "Alert list \<Rightarrow> bool" where
  "alternating [] = True"
| "alternating [a] = (alStatus a = AlertFiring)"
| "alternating (a # b # rest) = (alStatus a = AlertFiring \<and> alStatus b = AlertResolved \<and> alID b = alID a \<and> alternating rest)"

definition quiet :: "Alert list \<Rightarrow> bool" where
  "quiet as \<longleftrightarrow> as = [] \<or> alStatus (last as) = AlertResolved"

definition burning :: "string \<Rightarrow> Alert list \<Rightarrow> bool" where
  "burning i as \<longleftrightarrow> as \<noteq> [] \<and> alStatus (last as) = AlertFiring \<and> alID (last as) = i"

definition state_matches :: "AlertState option \<Rightarrow> Alert list \<Rightarrow> bool" where
  "state_matches s as \<longleftrightarrow> (case s of Some st \<Rightarrow> if asFiring st then burning (asAlertID st) as else quiet as | None \<Rightarrow> quiet as)"

definition key_ok :: "string \<Rightarrow> Engine \<Rightarrow> bool" where
  "key_ok k e \<longleftrightarrow> alternating (key_events k e) \<and> state_matches (map_of (enStates e) k) (key_events k e)"

lemma rule_key_inject [simp]: "rule_key a = rule_key b \<longleftrightarrow> a = b"
  by (simp add: rule_key_def)

lemma alternating_fire:
  "alternating as \<Longrightarrow> quiet as \<Longrightarrow> alStatus a = AlertFiring \<Longrightarrow> alternating (as @ [a])"
  by (induction as rule: alternating.induct) (auto simp: quiet_def split: if_splits)

lemma alternating_resolve:
  "alternating as \<Longrightarrow> burning (alID b) as \<Longrightarrow> alStatus b = AlertResolved \<Longrightarrow> alternating (as @ [b])"
  by (induction as rule: alternating.induct) (auto simp: burning_def split: if_splits)

lemma state_lookup [simp]: "map_of (enStates (set_state k st e)) = (map_of (enStates e))(k \<mapsto> st)"
  by (simp add: set_state_def update_conv')

lemma set_state_simps [simp]:
  "enSaved (set_state k st e) = enSaved e" "enAlerts (set_state k st e) = enAlerts e" "enRules (set_state k st e) = enRules e"
  "enWindows (set_state k st e) = enWindows e" "enSeq (set_state k st e) = enSeq e" "enGroups (set_state k st e) = enGroups e"
  "enSent (set_state k st e) = enSent e"
  by (simp_all add: set_state_def)

lemma key_ok_cong: "enSaved e = enSaved e' \<Longrightarrow> map_of (enStates e) k = map_of (enStates e') k \<Longrightarrow> key_ok k e = key_ok k e'"
  by (simp add: key_ok_def key_events_def)

text \<open>What saving an alert does.\<close>

lemma save_cases:
  obtains (saved) rows where "save_and_send ok a e = (True, e\<lparr>enAlerts := rows, enSaved := enSaved e @ [a], enSent := enSent e @ [a]\<rparr>)"
  | (failed) "save_and_send ok a e = (False, e)"
  by (cases "SaveAlert ok a (enAlerts e)") (simp_all add: save_and_send_def)

lemma key_events_saved:
  "key_events k (e\<lparr>enAlerts := rows, enSaved := enSaved e @ [a], enSent := s\<rparr>) =
     key_events k e @ (if alCorrelationKey a = rule_key k then [a] else [])"
  by (simp add: key_events_def)

lemma fire_transition_ok:
  assumes "key_ok k e" "alCorrelationKey a = rule_key key" "alStatus a = AlertFiring" "asFiring st" "asAlertID st = alID a"
    "state_matches (map_of (enStates e) key) (key_events key e) \<longrightarrow> quiet (key_events key e)"
  shows "key_ok k (fire_transition ok key st a e)"
proof (cases "k = key")
  case True
  have q: "quiet (key_events key e)" "alternating (key_events key e)" using assms(1,6) True by (simp_all add: key_ok_def)
  show ?thesis
  proof (cases rule: save_cases [of ok a "set_state key st e"])
    case (saved rows)
    then show ?thesis
      using q True assms(2-5) alternating_fire [OF q(2,1) assms(3)]
      by (simp add: fire_transition_def key_ok_def key_events_saved state_matches_def burning_def) (simp add: key_events_def)
  next
    case failed
    then show ?thesis using q True assms(5)
      by (simp add: fire_transition_def rollbackFiringTransition_def key_ok_def state_matches_def) (simp add: key_events_def)
  qed
next
  case False
  then have "alCorrelationKey a \<noteq> rule_key k" using assms(2) by simp
  show ?thesis
    using assms(1) False assms(5)
    by (cases rule: save_cases [of ok a "set_state key st e"])
      (simp_all add: fire_transition_def rollbackFiringTransition_def key_ok_def key_events_def \<open>alCorrelationKey a \<noteq> _\<close>)
qed

lemma resolve_transition_ok:
  assumes "key_ok k e" "alCorrelationKey a = rule_key key" "alStatus a = AlertResolved" "\<not> asFiring st" "asAlertID st = []"
    "k = key \<longrightarrow> burning (alID a) (key_events key e)"
  shows "key_ok k (snd (resolve_transition ok key st name a e))"
proof (cases "k = key")
  case True
  have q: "burning (alID a) (key_events key e)" "alternating (key_events key e)" using assms(1,6) True by (simp_all add: key_ok_def)
  show ?thesis
  proof (cases rule: save_cases [of ok a "set_state key st e"])
    case (saved rows)
    then show ?thesis
      using q True assms(2-5) alternating_resolve [OF q(2,1) assms(3)]
      by (simp add: resolve_transition_def key_ok_def key_events_saved state_matches_def quiet_def) (simp add: key_events_def)
  next
    case failed
    then show ?thesis using q True assms(4,5)
      by (simp add: resolve_transition_def restoreFiringTransition_def key_ok_def state_matches_def) (simp add: key_events_def)
  qed
next
  case False
  then have "alCorrelationKey a \<noteq> rule_key k" using assms(2) by simp
  show ?thesis
    using assms(1,4,5) False
    by (cases rule: save_cases [of ok a "set_state key st e"])
      (simp_all add: resolve_transition_def restoreFiringTransition_def key_ok_def key_events_def \<open>alCorrelationKey a \<noteq> _\<close>)
qed

text \<open>Changes that touch neither the saved alerts nor the state of the key.\<close>

lemma key_ok_updates [simp]:
  "key_ok k (e\<lparr>enGroups := g\<rparr>) = key_ok k e" "key_ok k (e\<lparr>enSeq := n\<rparr>) = key_ok k e" "key_ok k (e\<lparr>enRules := r\<rparr>) = key_ok k e"
  "key_ok k (e\<lparr>enWindows := w\<rparr>) = key_ok k e" "key_ok k (e\<lparr>enAlerts := a\<rparr>) = key_ok k e"
  by (simp_all add: key_ok_def key_events_def)

lemma key_events_updates [simp]:
  "key_events k (e\<lparr>enGroups := g\<rparr>) = key_events k e" "key_events k (e\<lparr>enSeq := n\<rparr>) = key_events k e"
  "key_events k (set_state key st e) = key_events k e"
  by (simp_all add: key_events_def)

section \<open>Transitions of the engine\<close>

text \<open>
  Every operation is made of four moves: a state is kept up to date, an alert fires, an alert resolves, a vulnerability
  alert is saved. What holds when each is made is collected here, for the current time \<open>t\<close>.
\<close>

definition may_keep :: "string \<Rightarrow> AlertState \<Rightarrow> Engine \<Rightarrow> bool" where
  "may_keep key st e \<longleftrightarrow>
     (case map_of (enStates e) key of
        None \<Rightarrow> \<not> asFiring st
      | Some s \<Rightarrow> asFiring st = asFiring s \<and> asAlertID st = asAlertID s \<and> asLastFired st = asLastFired s)"

definition may_fire :: "instant \<Rightarrow> string \<Rightarrow> AlertState \<Rightarrow> Alert \<Rightarrow> Engine \<Rightarrow> bool" where
  "may_fire t key st a e \<longleftrightarrow>
     alCorrelationKey a = rule_key key \<and> alStatus a = AlertFiring \<and> alFiredAt a = t \<and>
     asFiring st \<and> asAlertID st = alID a \<and> asLastFired st = t \<and>
     (\<exists>old r. map_of (enStates e) key = Some old \<and> \<not> asFiring old \<and> r \<in> snd ` set (enRules e) \<and> rlID r = alRuleID a \<and>
        rlCooldown r \<le> Sub_time t (asLastFired old)) \<and>
     \<not> in_maintenance e (alTenantID a) (alDeviceID a) t"

definition may_resolve :: "string \<Rightarrow> AlertState \<Rightarrow> Alert \<Rightarrow> Engine \<Rightarrow> bool" where
  "may_resolve key st a e \<longleftrightarrow>
     alCorrelationKey a = rule_key key \<and> alStatus a = AlertResolved \<and> \<not> asFiring st \<and> asAlertID st = [] \<and>
     (\<exists>old. map_of (enStates e) key = Some old \<and> asFiring old \<and> asAlertID old = alID a \<and> asLastFired st = asLastFired old)"

definition may_save_cve :: "instant \<Rightarrow> Alert \<Rightarrow> Engine \<Rightarrow> bool" where
  "may_save_cve t a e \<longleftrightarrow>
     HasPrefix (alCorrelationKey a) ''cve:'' \<and>
     (alStatus a = AlertFiring \<longrightarrow> alFiredAt a = t \<and> \<not> in_maintenance e (alTenantID a) (alDeviceID a) t)"

section \<open>The check for silent devices, state by state\<close>

text \<open>The same check with each state marked when its alert is saved, not all of them first.\<close>

definition stale_alert :: "(AlertState \<Rightarrow> string) \<Rightarrow> instant \<Rightarrow> Rule \<Rightarrow> string \<Rightarrow> AlertState \<Rightarrow> Alert" where
  "stale_alert msg now rule key st = heartbeat_alert rule key (asTenantID st) (asDeviceID st) (msg st) (asAlertID st) AlertFiring now None"

definition fire_marked :: "alert_env \<Rightarrow> (AlertState \<Rightarrow> string) \<Rightarrow> instant \<Rightarrow> string \<times> AlertState \<Rightarrow> Engine \<Rightarrow> Engine" where
  "fire_marked env msg now ks e =
     (case map_of (enRules e) (asRuleID (snd ks)) of
        None \<Rightarrow> set_state (fst ks) (snd ks) e
      | Some rule \<Rightarrow>
          fire_transition (aeDbOk env (enSeq e)) (fst ks) (snd ks) (stale_alert msg now rule (fst ks) (snd ks)) (e\<lparr>enSeq := Suc (enSeq e)\<rparr>))"

lemma update_inside: "k \<notin> fst ` set pre \<Longrightarrow> AList.update k v (pre @ (k, w) # rest) = pre @ (k, v) # rest"
  by (induction pre) auto

lemma lookup_inside: "k \<notin> fst ` set pre \<Longrightarrow> ((map_of rest)(k \<mapsto> w) ++ map_of pre) k = Some w"
  by (simp add: map_add_def map_of_eq_None_iff [THEN iffD2])

lemma states_last:
  "e\<lparr>enStates := s, enSeq := n\<rparr> = e\<lparr>enSeq := n, enStates := s\<rparr>"
  "e\<lparr>enStates := s, enAlerts := rs, enSaved := v, enSent := u\<rparr> = e\<lparr>enAlerts := rs, enSaved := v, enSent := u, enStates := s\<rparr>"
  by simp_all

lemma fire_both:
  assumes "k \<notin> fst ` set pre"
  shows "\<exists>s x. fire_heartbeat env msg now (k, st') (x0\<lparr>enStates := pre @ (k, st') # rest\<rparr>) = x\<lparr>enStates := pre @ (k, s) # rest\<rparr> \<and>
      fire_marked env msg now (k, st') (x0\<lparr>enStates := pre @ (k, st) # rest'\<rparr>) = x\<lparr>enStates := pre @ (k, s) # rest'\<rparr> \<and> enRules x = enRules x0"
proof (cases "map_of (enRules x0) (asRuleID st')")
  case None
  then show ?thesis
    by (intro exI [of _ st'] exI [of _ x0]) (simp add: fire_heartbeat_def fire_marked_def set_state_def update_inside [OF assms])
next
  case (Some rule)
  define a where "a = stale_alert msg now rule k st'"
  define x1 where "x1 = x0\<lparr>enSeq := Suc (enSeq x0)\<rparr>"
  have ida: "alID a = asAlertID st'" by (simp add: a_def stale_alert_def heartbeat_alert_def)
  show ?thesis
  proof (cases "SaveAlert (aeDbOk env (enSeq x0)) a (enAlerts x0)")
    case None
    then show ?thesis using Some ida
      by (intro exI [of _ "st'\<lparr>asFiring := False, asAlertID := [], asConsecutiveFires := 0\<rparr>"] exI [of _ x1])
        (simp add: fire_heartbeat_def fire_marked_def fire_transition_def save_and_send_def rollbackFiringTransition_def set_state_def
          update_inside [OF assms] lookup_inside [OF assms] x1_def a_def stale_alert_def [symmetric] Let_def states_last)
  next
    case (Some rows)
    then show ?thesis using \<open>map_of _ _ = Some rule\<close>
      by (intro exI [of _ st'] exI [of _ "x1\<lparr>enAlerts := rows, enSaved := enSaved x0 @ [a], enSent := enSent x0 @ [a]\<rparr>"])
        (simp add: fire_heartbeat_def fire_marked_def fire_transition_def save_and_send_def set_state_def
          update_inside [OF assms] x1_def a_def stale_alert_def [symmetric] Let_def states_last)
  qed
qed

lemma mark_then_fire:
  assumes "mark_due env e0 now n xs = (marked, pending)" "distinct (map fst (pre @ xs))"
  shows "fold (fire_heartbeat env msg now) pending (x\<lparr>enStates := pre @ marked\<rparr>) = fold (fire_marked env msg now) pending (x\<lparr>enStates := pre @ xs\<rparr>)"
  using assms
proof (induction xs arbitrary: n marked pending pre x)
  case (Cons y ys)
  obtain k st where y: "y = (k, st)" by (cases y)
  have new: "k \<notin> fst ` set pre" using Cons.prems(2) y by auto
  show ?case
  proof (cases "heartbeat_due e0 now st")
    case False
    then obtain ms where ms: "mark_due env e0 now n ys = (ms, pending)" "marked = (k, st) # ms"
      using Cons.prems(1) y by (auto split: prod.splits)
    show ?thesis using Cons.IH [OF ms(1), of "pre @ [(k, st)]"] Cons.prems(2) y ms(2) by simp
  next
    case True
    define st' where "st' = st\<lparr>asFiring := True, asLastFired := now, asAlertID := aeUUID env n, asConsecutiveFires := 1\<rparr>"
    obtain ms ps where ms: "mark_due env e0 now (Suc n) ys = (ms, ps)" "marked = (k, st') # ms" "pending = (k, st') # ps"
      using Cons.prems(1) True y by (auto simp: st'_def Let_def split: prod.splits)
    obtain s z where z: "fire_heartbeat env msg now (k, st') (x\<lparr>enStates := pre @ (k, st') # ms\<rparr>) = z\<lparr>enStates := pre @ (k, s) # ms\<rparr>"
        "fire_marked env msg now (k, st') (x\<lparr>enStates := pre @ (k, st) # ys\<rparr>) = z\<lparr>enStates := pre @ (k, s) # ys\<rparr>"
      using fire_both [OF new] by blast
    show ?thesis using Cons.IH [OF ms(1), of "pre @ [(k, s)]" z] Cons.prems(2) y ms(2,3) z by simp
  qed
qed simp

lemma stale_by_state:
  assumes "distinct (map fst (enStates e))"
  shows "checkStaleHeartbeats env msg e =
    (let now = aeNow env (enSeq e); pending = snd (mark_due env e now (enSeq e) (enStates e))
     in fold (fire_marked env msg now) pending (e\<lparr>enSeq := Suc (enSeq e + length pending)\<rparr>))"
proof -
  obtain ms ps where m: "mark_due env e (aeNow env (enSeq e)) (enSeq e) (enStates e) = (ms, ps)" by force
  show ?thesis
    using mark_then_fire [OF m, of "[]" msg "e\<lparr>enSeq := Suc (enSeq e + length ps)\<rparr>"] assms m
    by (simp add: checkStaleHeartbeats_def Let_def states_last)
qed

lemma pending_due:
  assumes "mark_due env e now n xs = (ms, ps)" "distinct (map fst xs)"
  shows "distinct (map fst ps) \<and> (\<forall>(k, st') \<in> set ps. \<exists>st i. (k, st) \<in> set xs \<and> heartbeat_due e now st \<and>
    st' = st\<lparr>asFiring := True, asLastFired := now, asAlertID := i, asConsecutiveFires := 1\<rparr>)"
  using assms
proof (induction xs arbitrary: n ms ps)
  case (Cons y ys)
  obtain k st where y: "y = (k, st)" by (cases y)
  obtain m qs b where q: "mark_due env e now m ys = (b, qs)"
      "ps = qs \<or> heartbeat_due e now st \<and> (\<exists>i. ps = (k, st\<lparr>asFiring := True, asLastFired := now, asAlertID := i, asConsecutiveFires := 1\<rparr>) # qs)"
    using Cons.prems(1) y by (auto simp: Let_def split: prod.splits if_splits)
  have ih: "distinct (map fst qs)" "\<forall>(k, st') \<in> set qs. \<exists>st i. (k, st) \<in> set ys \<and> heartbeat_due e now st \<and>
    st' = st\<lparr>asFiring := True, asLastFired := now, asAlertID := i, asConsecutiveFires := 1\<rparr>"
    using Cons.IH [OF q(1)] Cons.prems(2) by simp_all
  have sub: "fst ` set qs \<subseteq> fst ` set ys" using ih(2) by force
  then have "k \<notin> fst ` set qs" using Cons.prems(2) y by auto
  then show ?case using q(2) ih y by fastforce
qed simp

definition due_mark :: "Engine \<Rightarrow> instant \<Rightarrow> Engine \<Rightarrow> string \<times> AlertState \<Rightarrow> bool" where
  "due_mark e t x ks \<longleftrightarrow>
     (\<exists>st i. map_of (enStates x) (fst ks) = Some st \<and> heartbeat_due e t st \<and>
        snd ks = st\<lparr>asFiring := True, asLastFired := t, asAlertID := i, asConsecutiveFires := 1\<rparr>)"

lemma pending_marked:
  assumes "mark_due env e now n (enStates e) = (ms, ps)" "distinct (map fst (enStates e))"
  shows "distinct (map fst ps)" "\<forall>ks \<in> set ps. due_mark e now e ks"
  using pending_due [OF assms] assms(2) by (fastforce simp: due_mark_def intro: map_of_is_SomeI)+

lemma fire_transition_frame:
  "enRules (fire_transition ok key st a e) = enRules e" "enWindows (fire_transition ok key st a e) = enWindows e"
  "enSeq (fire_transition ok key st a e) = enSeq e"
  "k \<noteq> key \<Longrightarrow> map_of (enStates (fire_transition ok key st a e)) k = map_of (enStates e) k"
  by (cases rule: save_cases [of ok a "set_state key st e"];
      simp add: fire_transition_def rollbackFiringTransition_def)+

lemma resolve_transition_frame:
  "enRules (snd (resolve_transition ok key st m a e)) = enRules e" "enWindows (snd (resolve_transition ok key st m a e)) = enWindows e"
  "enSeq (snd (resolve_transition ok key st m a e)) = enSeq e"
  by (cases rule: save_cases [of ok a "set_state key st e"];
      simp add: resolve_transition_def restoreFiringTransition_def)+

lemma fire_marked_frame:
  "enRules (fire_marked env msg now ks e) = enRules e" "enWindows (fire_marked env msg now ks e) = enWindows e"
  "k \<noteq> fst ks \<Longrightarrow> map_of (enStates (fire_marked env msg now ks e)) k = map_of (enStates e) k"
  "enSeq e \<le> enSeq (fire_marked env msg now ks e)"
  by (simp_all add: fire_marked_def fire_transition_frame split: option.splits)

lemma evaluateThreshold_frame:
  "enRules (evaluateThreshold env rule t d m v e) = enRules e \<and> enWindows (evaluateThreshold env rule t d m v e) = enWindows e \<and>
   enSeq e \<le> enSeq (evaluateThreshold env rule t d m v e)"
  unfolding evaluateThreshold_def Let_def
  by (auto simp: fire_transition_frame resolve_transition_frame dest: arg_cong [where f = "\<lambda>x. enRules (snd x)"]
      arg_cong [where f = "\<lambda>x. enWindows (snd x)"] arg_cong [where f = "\<lambda>x. enSeq (snd x)"] split: prod.splits bool.splits)

lemma evaluateHeartbeat_frame:
  "enRules (evaluateHeartbeat env rule t d lt e) = enRules e \<and> enWindows (evaluateHeartbeat env rule t d lt e) = enWindows e \<and>
   enSeq e \<le> enSeq (evaluateHeartbeat env rule t d lt e)"
  unfolding evaluateHeartbeat_def Let_def by (simp add: resolve_transition_frame)

text \<open>What the vulnerability alerts do.\<close>

lemma HasPrefix_cve: "HasPrefix (cve_key d c p) ''cve:''"
  unfolding HasPrefix_iff cve_key_def by blast

lemma SaveCVE_created:
  assumes "SaveCVEAlert ok a k rows = Some ((p, True), rows')"
  shows "p = a\<lparr>alCorrelationKey := k, alStatus := AlertFiring, alRuleID := []\<rparr>"
  using assms by (auto simp: SaveCVEAlert_def Let_def split: if_splits option.splits)

lemma FireCVE_cases:
  obtains (saved) a rows where
    "FireCVEAlert env tn d c p sv cv fv e = e\<lparr>enAlerts := rows, enSaved := enSaved e @ [a], enSent := enSent e @ [a], enSeq := Suc (enSeq e)\<rparr>"
    "may_save_cve (aeNow env (enSeq e)) a e"
  | (other) rows n where "FireCVEAlert env tn d c p sv cv fv e = e\<lparr>enAlerts := rows, enSeq := n\<rparr>" "enSeq e \<le> n"
proof -
  define now where "now = aeNow env (enSeq e)"
  define a where "a = cve_alert (aeUUID env (enSeq e)) tn d c p sv cv fv now"
  note unf = FireCVEAlert_def [of env tn d c p sv cv fv e, unfolded Let_def, folded now_def, folded a_def]
  consider (skip) "tn = [] \<or> d = [] \<or> c = [] \<or> p = []"
    | (quiet) "\<not> (tn = [] \<or> d = [] \<or> c = [] \<or> p = [])" "in_maintenance e tn d now"
    | (save) "\<not> (tn = [] \<or> d = [] \<or> c = [] \<or> p = [])" "\<not> in_maintenance e tn d now" by blast
  then show ?thesis
  proof cases
    case skip
    then show ?thesis by (intro other [where rows = "enAlerts e" and n = "enSeq e"]) (simp_all add: unf)
  next
    case quiet
    then show ?thesis by (intro other [where rows = "enAlerts e" and n = "Suc (enSeq e)"]) (simp_all add: unf)
  next
    case save
    show ?thesis
    proof (cases "SaveCVEAlert (aeDbOk env (enSeq e)) a (cve_key d c p) (enAlerts e)")
      case None
      with save show ?thesis by (intro other [where rows = "enAlerts e" and n = "Suc (enSeq e)"]) (simp_all add: unf)
    next
      case (Some x)
      obtain q cr rows where x: "x = ((q, cr), rows)" by (metis prod.collapse)
      show ?thesis
      proof (cases cr)
        case True
        then have q: "q = a\<lparr>alCorrelationKey := cve_key d c p, alStatus := AlertFiring, alRuleID := []\<rparr>"
          using SaveCVE_created [of _ a _ _ q rows] Some x by simp
        then have "may_save_cve now q e" using save(2) by (simp add: may_save_cve_def HasPrefix_cve a_def cve_alert_def)
        with True Some x save show ?thesis by (intro saved [where rows = rows and a = q]) (simp_all add: unf now_def)
      next
        case False
        with Some x save show ?thesis by (intro other [where rows = rows and n = "Suc (enSeq e)"]) (simp_all add: unf)
      qed
    qed
  qed
qed

lemma ResolveCVE_found:
  assumes "ResolveCVE_row ok tn d k now rows = Some (a, rows')"
  shows "alCorrelationKey a = k" "alStatus a = AlertResolved"
  using assms by (auto simp: ResolveCVE_row_def Let_def find_Some_iff split: if_splits option.splits)

lemma ResolveCVE_cases:
  obtains (saved) a rows where
    "ResolveCVEAlert env tn d c p e = e\<lparr>enAlerts := rows, enSaved := enSaved e @ [a], enSent := enSent e @ [a], enSeq := Suc (enSeq e)\<rparr>"
    "may_save_cve (aeNow env (enSeq e)) a e"
  | (other) rows n where "ResolveCVEAlert env tn d c p e = e\<lparr>enAlerts := rows, enSeq := n\<rparr>" "enSeq e \<le> n"
proof (cases "tn = [] \<or> d = [] \<or> c = [] \<or> p = []")
  case True
  then show ?thesis by (intro other [where rows = "enAlerts e" and n = "enSeq e"]) (simp_all add: ResolveCVEAlert_def)
next
  case False
  show ?thesis
  proof (cases "ResolveCVE_row (aeDbOk env (enSeq e)) tn d (cve_key d c p) (aeNow env (enSeq e)) (enAlerts e)")
    case None
    with False show ?thesis by (intro other [where rows = "enAlerts e" and n = "Suc (enSeq e)"]) (simp_all add: ResolveCVEAlert_def Let_def)
  next
    case (Some x)
    obtain a rows where x: "x = (a, rows)" by (cases x)
    have "may_save_cve (aeNow env (enSeq e)) a e"
      using ResolveCVE_found [OF Some [unfolded x]] by (simp add: may_save_cve_def HasPrefix_cve)
    with False Some x show ?thesis by (intro saved [where rows = rows and a = a]) (simp_all add: ResolveCVEAlert_def Let_def)
  qed
qed

section \<open>Invariants of the engine\<close>

text \<open>An assertion about the engine, at a time, that every move keeps.\<close>

locale alert_invariant =
  fixes env :: alert_env and I :: "instant \<Rightarrow> Engine \<Rightarrow> bool"
  assumes keys: "I t e \<Longrightarrow> distinct (map fst (enStates e))"
    and later: "I (aeNow env n) e \<Longrightarrow> n \<le> m \<Longrightarrow> I (aeNow env m) e"
    and keep: "I t e \<Longrightarrow> may_keep key st e \<Longrightarrow> I t (set_state key st e)"
    and fire: "I t e \<Longrightarrow> may_fire t key st a e \<Longrightarrow> I t (fire_transition ok key st a e)"
    and resolve: "I t e \<Longrightarrow> may_resolve key st a e \<Longrightarrow> I t (snd (resolve_transition ok key st name a e))"
    and cve: "I t e \<Longrightarrow> may_save_cve t a e \<Longrightarrow>
      I t (e\<lparr>enAlerts := rows, enSaved := enSaved e @ [a], enSent := enSent e @ [a]\<rparr>)"
    and books: "I t e \<Longrightarrow> I t (e\<lparr>enSeq := n\<rparr>)" "I t e \<Longrightarrow> I t (e\<lparr>enGroups := g\<rparr>)" "I t e \<Longrightarrow> I t (e\<lparr>enAlerts := rows\<rparr>)"
begin

lemma threshold:
  assumes "I (aeNow env (enSeq e)) e" "rule \<in> snd ` set (enRules e)"
  shows "I (aeNow env (enSeq e)) (evaluateThreshold env rule tn d m v e)"
proof -
  define key where "key = rlID rule @ '':'' @ d @ '':'' @ m"
  define t where "t = aeNow env (enSeq e)"
  define st where "st = (case map_of (enStates e) key of
                  None \<Rightarrow> \<lparr>asRuleID = rlID rule, asTenantID = tn, asDeviceID = d, asFiring = False, asLastFired = zero_time,
                           asLastHeard = zero_time, asConsecutiveFires = 0, asAlertID = [], asMetricName = m\<rparr>
                | Some st \<Rightarrow> st)"
  define e1 where "e1 = (set_state key st e)\<lparr>enSeq := Suc (enSeq e),
      enGroups := GetOrCreateGroup (rlID rule) tn d m (rlSeverity rule) t (enGroups e)\<rparr>"
  have I1: "I t e1"
    unfolding e1_def using assms(1) by (intro books keep) (auto simp: t_def st_def may_keep_def split: option.splits)
  have look: "map_of (enStates e1) key = Some st" "enRules e1 = enRules e" "in_maintenance e1 = in_maintenance e"
    by (simp_all add: e1_def in_maintenance_def fun_eq_iff)
  note f = t_def [symmetric] key_def [symmetric] st_def [symmetric] e1_def [symmetric]
  have fires: "I t (fire_transition ok key (st\<lparr>asFiring := True, asLastFired := t, asConsecutiveFires := 1, asAlertID := i\<rparr>)
      (threshold_alert env rule key tn d v m i AlertFiring t None) e1)"
    if "\<not> asFiring st" "\<not> Sub_time t (asLastFired st) < rlCooldown rule" "\<not> in_maintenance e tn d t" for ok i
    using that look assms(2) by (intro fire I1) (auto simp: may_fire_def threshold_alert_def Let_def)
  have ends: "I t (snd (resolve_transition ok key (st\<lparr>asFiring := False, asConsecutiveFires := 0, asAlertID := []\<rparr>) m
      (threshold_alert env rule key tn d v m (asAlertID st) AlertResolved (asLastFired st) (Some t)) e1))"
    if "asFiring st" for ok
    using that look by (intro resolve I1) (auto simp: may_resolve_def threshold_alert_def Let_def)
  have counts: "I t (set_state key (st\<lparr>asConsecutiveFires := c\<rparr>) e1)" for c
    using look by (intro keep I1) (simp add: may_keep_def)
  show ?thesis
    unfolding evaluateThreshold_def Let_def f
    using I1 fires counts ends [of "aeDbOk env (enSeq e)"] by (auto intro!: books split: prod.splits bool.splits)
qed

lemma heartbeat:
  assumes "I (aeNow env (enSeq e)) e"
  shows "I (aeNow env (enSeq e)) (evaluateHeartbeat env rule tn d lt e)"
proof -
  define key where "key = rlID rule @ '':'' @ d"
  define t where "t = aeNow env (enSeq e)"
  define st where "st = (case map_of (enStates e) key of
                  None \<Rightarrow> \<lparr>asRuleID = rlID rule, asTenantID = tn, asDeviceID = d, asFiring = False, asLastFired = zero_time,
                           asLastHeard = lt, asConsecutiveFires = 0, asAlertID = [], asMetricName = []\<rparr>
                | Some st \<Rightarrow> if asLastHeard st < lt then st\<lparr>asLastHeard := lt\<rparr> else st)"
  define e1 where "e1 = (set_state key st e)\<lparr>enSeq := Suc (enSeq e)\<rparr>"
  have I1: "I t e1"
    unfolding e1_def using assms(1) by (intro books keep) (auto simp: t_def st_def may_keep_def split: option.splits)
  have look: "map_of (enStates e1) key = Some st" by (simp add: e1_def)
  note f = t_def [symmetric] key_def [symmetric] st_def [symmetric] e1_def [symmetric]
  have ends: "I t (snd (resolve_transition ok key (st\<lparr>asFiring := False, asAlertID := [], asConsecutiveFires := 0\<rparr>) []
      (heartbeat_alert rule key tn d msg (asAlertID st) AlertResolved (asLastFired st) (Some t)) e1))"
    if "asFiring st" for ok msg
    using that look by (intro resolve I1) (auto simp: may_resolve_def heartbeat_alert_def)
  show ?thesis
    unfolding evaluateHeartbeat_def Let_def f using I1 ends by (auto intro!: books)
qed

text \<open>The assertion at the next reading of the clock, and the operations that keep it.\<close>

definition holds :: "Engine \<Rightarrow> bool" where
  "holds e \<longleftrightarrow> I (aeNow env (enSeq e)) e"

lemma holds_later: "I (aeNow env n) e \<Longrightarrow> n \<le> enSeq e \<Longrightarrow> holds e"
  unfolding holds_def by (rule later)

lemma threshold_holds: "holds e \<Longrightarrow> rule \<in> snd ` set (enRules e) \<Longrightarrow> holds (evaluateThreshold env rule tn d m v e)"
  by (rule holds_later [OF threshold]) (simp_all add: holds_def evaluateThreshold_frame)

lemma heartbeat_holds: "holds e \<Longrightarrow> holds (evaluateHeartbeat env rule tn d lt e)"
  by (rule holds_later [OF heartbeat]) (simp_all add: holds_def evaluateHeartbeat_frame)

lemma metrics_holds:
  assumes "holds e"
  shows "holds (handleMetrics env tn d samples e)"
proof -
  define one where "one r s e = (if MatchesMetric r (msName s) then evaluateThreshold env r tn d (msName s) (msValue s) e else e)" 
    for r and s :: metric_sample and e
  have samples: "holds x \<and> enRules x = enRules e \<Longrightarrow> r \<in> snd ` set (enRules e) \<Longrightarrow>
      holds (fold (one r) ss x) \<and> enRules (fold (one r) ss x) = enRules e" for r ss x
    by (induction ss arbitrary: x) (auto simp: one_def threshold_holds evaluateThreshold_frame)
  have rules: "holds x \<and> enRules x = enRules e \<Longrightarrow> set rs \<subseteq> snd ` set (enRules e) \<Longrightarrow>
      holds (fold (\<lambda>r. fold (one r) samples) rs x) \<and> enRules (fold (\<lambda>r. fold (one r) samples) rs x) = enRules e" for rs x
    by (induction rs arbitrary: x) (auto simp: samples)
  show ?thesis
    unfolding handleMetrics_def Let_def one_def [symmetric]
    using assms rules [of e "filter P (map snd (enRules e))" for P] by (auto simp: image_iff)
qed

lemma heartbeats_holds: "holds e \<Longrightarrow> holds (handleHeartbeat env tn d lt e)"
proof -
  have "holds x \<Longrightarrow> holds (fold (\<lambda>r. evaluateHeartbeat env r tn d lt) rs x)" for rs x
    by (induction rs arbitrary: x) (simp_all add: heartbeat_holds)
  then show "holds e \<Longrightarrow> ?thesis" by (simp add: handleHeartbeat_def Let_def)
qed

lemma marked:
  assumes "I t x" "map_of (enStates x) k = Some st" "heartbeat_due x t st"
    "st' = st\<lparr>asFiring := True, asLastFired := t, asAlertID := i, asConsecutiveFires := 1\<rparr>"
  shows "I t (fire_marked env msg t (k, st') x)"
proof -
  obtain rule where r: "map_of (enRules x) (asRuleID st) = Some rule" "\<not> asFiring st" "\<not> Sub_time t (asLastFired st) < rlCooldown rule"
      "\<not> in_maintenance x (asTenantID st) (asDeviceID st) t"
    using assms(3) by (auto simp: heartbeat_due_def split: option.splits)
  then have "rule \<in> snd ` set (enRules x)" by (force dest: map_of_SomeD)
  then have "may_fire t k st' (stale_alert msg t rule k st') (x\<lparr>enSeq := Suc (enSeq x)\<rparr>)"
    using r assms(2,4) by (auto simp: may_fire_def stale_alert_def heartbeat_alert_def in_maintenance_def)
  then show ?thesis
    using r(1) assms(1,4) by (simp add: fire_marked_def fire books)
qed

lemma marked_all:
  "I t x \<Longrightarrow> enRules x = enRules e \<Longrightarrow> enWindows x = enWindows e \<Longrightarrow> distinct (map fst qs) \<Longrightarrow> \<forall>q \<in> set qs. due_mark e t x q \<Longrightarrow>
   I t (fold (fire_marked env msg t) qs x) \<and> enSeq x \<le> enSeq (fold (fire_marked env msg t) qs x)"
proof (induction qs arbitrary: x)
  case (Cons q qs)
  obtain st i where st: "map_of (enStates x) (fst q) = Some st" "heartbeat_due e t st"
      "snd q = st\<lparr>asFiring := True, asLastFired := t, asAlertID := i, asConsecutiveFires := 1\<rparr>"
    using Cons.prems(5) by (auto simp: due_mark_def)
  have "heartbeat_due x t st" using st(2) Cons.prems(2,3) by (simp add: heartbeat_due_def in_maintenance_def cong: option.case_cong)
  then have I1: "I t (fire_marked env msg t q x)" using marked [OF Cons.prems(1) st(1) _ st(3)] by simp
  have "due_mark e t (fire_marked env msg t q x) q'" if "q' \<in> set qs" for q'
  proof -
    have "fst q' \<in> fst ` set qs" "fst q \<notin> fst ` set qs" using that Cons.prems(4) by simp_all
    then have "fst q' \<noteq> fst q" by metis
    then show ?thesis using that Cons.prems(5) by (simp add: due_mark_def fire_marked_frame)
  qed
  then have "I t (fold (fire_marked env msg t) qs (fire_marked env msg t q x)) \<and>
      enSeq (fire_marked env msg t q x) \<le> enSeq (fold (fire_marked env msg t) qs (fire_marked env msg t q x))"
    using Cons.IH [OF I1] Cons.prems(2-4) by (simp add: fire_marked_frame)
  with fire_marked_frame(4) [of x env msg t q] show ?case by (auto intro: le_trans)
qed simp

lemma stale_holds:
  assumes "holds e"
  shows "holds (checkStaleHeartbeats env msg e)"
proof -
  define t where "t = aeNow env (enSeq e)"
  obtain ms ps where m: "mark_due env e t (enSeq e) (enStates e) = (ms, ps)" by force
  have I0: "I t e" using assms by (simp add: holds_def t_def)
  define n where "n = Suc (enSeq e + length ps)"
  have "\<forall>q \<in> set ps. due_mark e t (e\<lparr>enSeq := n\<rparr>) q" "distinct (map fst ps)"
    using pending_marked [OF m keys [OF I0]] by (simp_all add: due_mark_def)
  then have "I t (fold (fire_marked env msg t) ps (e\<lparr>enSeq := n\<rparr>)) \<and> n \<le> enSeq (fold (fire_marked env msg t) ps (e\<lparr>enSeq := n\<rparr>))"
    using marked_all [OF books(1) [OF I0], where e = e and qs = ps] by simp
  then show ?thesis
    unfolding stale_by_state [OF keys [OF I0]] Let_def t_def [symmetric] m snd_conv n_def [symmetric]
    using holds_later [of "enSeq e"] by (simp add: t_def n_def)
qed

lemma fire_cve_holds:
  assumes "holds e"
  shows "holds (FireCVEAlert env tn d c p sv cv fv e)"
proof (cases rule: FireCVE_cases [of env tn d c p sv cv fv e])
  case (saved a rows)
  have "I (aeNow env (enSeq e)) (e\<lparr>enAlerts := rows, enSaved := enSaved e @ [a], enSent := enSent e @ [a]\<rparr>)"
    using assms saved(2) by (intro cve) (simp_all add: holds_def)
  from books(1) [OF this] show ?thesis unfolding saved(1) by (rule holds_later) simp
next
  case (other rows n)
  have "I (aeNow env (enSeq e)) (e\<lparr>enAlerts := rows, enSeq := n\<rparr>)"
    using assms by (intro books) (simp add: holds_def)
  then show ?thesis unfolding other(1) by (rule holds_later) (simp add: other(2))
qed

lemma resolve_cve_holds:
  assumes "holds e"
  shows "holds (ResolveCVEAlert env tn d c p e)"
proof (cases rule: ResolveCVE_cases [of env tn d c p e])
  case (saved a rows)
  have "I (aeNow env (enSeq e)) (e\<lparr>enAlerts := rows, enSaved := enSaved e @ [a], enSent := enSent e @ [a]\<rparr>)"
    using assms saved(2) by (intro cve) (simp_all add: holds_def)
  from books(1) [OF this] show ?thesis unfolding saved(1) by (rule holds_later) simp
next
  case (other rows n)
  have "I (aeNow env (enSeq e)) (e\<lparr>enAlerts := rows, enSeq := n\<rparr>)"
    using assms by (intro books) (simp add: holds_def)
  then show ?thesis unfolding other(1) by (rule holds_later) (simp add: other(2))
qed

end

text \<open>With what administration and the hourly cleanup do.\<close>

locale alert_admin = alert_invariant +
  fixes allowed :: "alert_op \<Rightarrow> bool"
  assumes cleanup: "I (aeNow env (enSeq e)) e \<Longrightarrow> I (aeNow env (enSeq e)) (cleanup_states env e)"
    and add_rule: "I t e \<Longrightarrow> allowed (OpAddRule saved i r) \<Longrightarrow> r' = (if rlID r = [] then r\<lparr>rlID := i\<rparr> else r) \<Longrightarrow>
      I t (e\<lparr>enRules := AList.update (rlID r') r' (enRules e)\<rparr>)"
    and windows: "I t e \<Longrightarrow> I t (e\<lparr>enWindows := ws\<rparr>)"
    and no_removal: "\<not> allowed (OpRemoveRule deleted i)"
begin

lemma op_holds:
  assumes "holds e" "allowed op"
  shows "holds (apply_op env uuid msg op e)"
proof (cases op)
  case OpCleanup
  have "I (aeNow env (enSeq e)) (cleanup_states env e)" using assms(1) by (intro cleanup) (simp add: holds_def)
  then show ?thesis unfolding OpCleanup apply_op.simps by (rule holds_later) (simp add: cleanup_states_def)
next
  case (OpAcknowledge tn i)
  then show ?thesis using assms(1) by (auto simp: holds_def AcknowledgeAlert_def books split: option.splits)
next
  case (OpAddRule saved i r)
  have I0: "I (aeNow env (enSeq e)) e" using assms(1) by (simp add: holds_def)
  define r' where "r' = (if rlID r = [] then r\<lparr>rlID := i\<rparr> else r)"
  have "I (aeNow env (enSeq e)) (e\<lparr>enRules := AList.update (rlID r') r' (enRules e)\<rparr>)"
    using add_rule [OF I0 _ r'_def] assms(2) OpAddRule by simp
  then show ?thesis using assms(1) unfolding OpAddRule apply_op.simps AddRule_def Let_def r'_def [symmetric] by (simp add: holds_def)
next
  case (OpCreateWindow saved i tn name t1 t2 ds)
  then show ?thesis using assms(1) by (auto simp: holds_def CreateMaintenanceWindow_def windows split: option.splits prod.splits)
next
  case (OpDeleteWindow deleted i)
  then show ?thesis using assms(1) by (auto simp: holds_def DeleteMaintenanceWindow_def windows split: option.splits prod.splits)
qed (use assms no_removal in \<open>simp_all add: metrics_holds heartbeats_holds stale_holds fire_cve_holds resolve_cve_holds\<close>)

lemma run_holds: "holds e \<Longrightarrow> list_all allowed ops \<Longrightarrow> holds (run_ops env uuid msg ops e)"
  unfolding run_ops_def by (induction ops arbitrary: e) (simp_all add: op_holds)

end

section \<open>Alerts fire and resolve in turn\<close>

definition no_removal_op :: "alert_op \<Rightarrow> bool" where
  "no_removal_op op = (case op of OpRemoveRule _ _ \<Rightarrow> False | _ \<Rightarrow> True)"

definition alternation :: "Engine \<Rightarrow> bool" where
  "alternation e \<longleftrightarrow> distinct (map fst (enStates e)) \<and> (\<forall>k. key_ok k e)"

lemma distinct_set_state: "distinct (map fst (enStates e)) \<Longrightarrow> distinct (map fst (enStates (set_state k st e)))"
  by (simp add: set_state_def distinct_update)

lemma distinct_fire: "distinct (map fst (enStates e)) \<Longrightarrow> distinct (map fst (enStates (fire_transition ok key st a e)))"
  by (cases rule: save_cases [of ok a "set_state key st e"])
    (simp_all add: fire_transition_def rollbackFiringTransition_def distinct_set_state)

lemma distinct_resolve:
  "distinct (map fst (enStates e)) \<Longrightarrow> distinct (map fst (enStates (snd (resolve_transition ok key st m a e))))"
  by (cases rule: save_cases [of ok a "set_state key st e"])
    (simp_all add: resolve_transition_def restoreFiringTransition_def distinct_set_state)

lemma cve_key_not_rule: "HasPrefix k ''cve:'' \<Longrightarrow> k \<noteq> rule_key x"
  by (auto simp: HasPrefix_iff rule_key_def)

lemma lookup_filter:
  "distinct (map fst xs) \<Longrightarrow>
   map_of (filter (\<lambda>(k, v). P v) xs) k = (case map_of xs k of None \<Rightarrow> None | Some v \<Rightarrow> if P v then Some v else None)"
  by (induction xs) (auto split: option.splits dest: map_of_SomeD simp: map_of_eq_None_iff image_iff)

lemma key_ok_burning: "key_ok k e \<Longrightarrow> map_of (enStates e) k = Some st \<Longrightarrow> asFiring st \<Longrightarrow> burning (asAlertID st) (key_events k e)"
  by (simp add: key_ok_def state_matches_def)

lemma key_ok_keep: "key_ok k e \<Longrightarrow> may_keep key st e \<Longrightarrow> key_ok k (set_state key st e)"
  by (auto simp: key_ok_def state_matches_def key_events_def may_keep_def split: option.splits if_splits)

lemma cleanup_lookup:
  "distinct (map fst (enStates e)) \<Longrightarrow> map_of (enStates (cleanup_states env e)) k =
     (case map_of (enStates e) k of None \<Rightarrow> None
      | Some st \<Rightarrow> if \<not> asFiring st \<and> 24 * Hour < Sub_time (aeNow env (enSeq e)) (asLastFired st) then None else Some st)"
  unfolding cleanup_states_def by (auto simp: lookup_filter split: option.splits)

lemma distinct_cleanup: "distinct (map fst (enStates e)) \<Longrightarrow> distinct (map fst (enStates (cleanup_states env e)))"
  by (simp add: cleanup_states_def distinct_map_filter)

lemma key_ok_cleanup: "distinct (map fst (enStates e)) \<Longrightarrow> key_ok k e \<Longrightarrow> key_ok k (cleanup_states env e)"
proof -
  assume *: "distinct (map fst (enStates e))" "key_ok k e"
  have ev: "key_events k (cleanup_states env e) = key_events k e" by (simp add: key_events_def cleanup_states_def)
  have "state_matches (map_of (enStates (cleanup_states env e)) k) (key_events k e)"
    using *(2) unfolding cleanup_lookup [OF *(1)] key_ok_def state_matches_def by (cases "map_of (enStates e) k") auto
  with *(2) show ?thesis unfolding key_ok_def ev by simp
qed

interpretation turns: alert_admin env "\<lambda>t e. alternation e" no_removal_op for env
proof unfold_locales
  fix e key st a ok t
  assume "alternation e" "may_fire t key st a e"
  then show "alternation (fire_transition ok key st a e)"
    unfolding alternation_def may_fire_def
    by (auto intro!: distinct_fire fire_transition_ok simp: state_matches_def)
next
  fix e key st a ok name
  assume *: "alternation e" "may_resolve key st a e"
  then have "burning (alID a) (key_events key e)" by (metis alternation_def key_ok_burning may_resolve_def)
  with * show "alternation (snd (resolve_transition ok key st name a e))"
    unfolding alternation_def may_resolve_def by (blast intro: distinct_resolve resolve_transition_ok)
next
  fix e a t rows
  assume "alternation e" "may_save_cve t a e"
  then show "alternation (e\<lparr>enAlerts := rows, enSaved := enSaved e @ [a], enSent := enSent e @ [a]\<rparr>)"
    by (simp add: alternation_def key_ok_def key_events_saved cve_key_not_rule may_save_cve_def)
qed (auto simp: alternation_def distinct_set_state key_ok_keep no_removal_op_def distinct_cleanup key_ok_cleanup)


section \<open>Cooldowns\<close>

text \<open>The firing alerts of a key; those of a rule come at least \<open>c\<close> after every earlier one.\<close>

definition firings :: "string \<Rightarrow> Engine \<Rightarrow> Alert list" where
  "firings k e = filter (\<lambda>a. alStatus a = AlertFiring) (key_events k e)"

definition spaced :: "int \<Rightarrow> string \<Rightarrow> Alert list \<Rightarrow> bool" where
  "spaced c rid as = sorted_wrt (\<lambda>a b. alRuleID b = rid \<longrightarrow> alFiredAt a + c \<le> alFiredAt b) as"

definition cooldown_at_least :: "int \<Rightarrow> string \<Rightarrow> Rule \<Rightarrow> bool" where
  "cooldown_at_least c rid r \<longleftrightarrow> rlID r = rid \<longrightarrow> c \<le> rlCooldown r"

definition rules_cooled :: "int \<Rightarrow> string \<Rightarrow> (string \<times> Rule) list \<Rightarrow> bool" where
  "rules_cooled c rid rs \<longleftrightarrow> (\<forall>r \<in> snd ` set rs. cooldown_at_least c rid r)"

definition forgotten :: "instant \<Rightarrow> Alert \<Rightarrow> bool" where
  "forgotten t a \<longleftrightarrow> alFiredAt a + 24 * Hour \<le> t"

definition key_cooled :: "int \<Rightarrow> string \<Rightarrow> instant \<Rightarrow> string \<Rightarrow> Engine \<Rightarrow> bool" where
  "key_cooled c rid t k e \<longleftrightarrow>
     spaced c rid (firings k e) \<and>
     (\<forall>a \<in> set (firings k e). alFiredAt a \<le> t \<and>
        (forgotten t a \<or> (\<exists>st. map_of (enStates e) k = Some st \<and> alFiredAt a \<le> asLastFired st)))"

definition cooling :: "alert_env \<Rightarrow> int \<Rightarrow> string \<Rightarrow> instant \<Rightarrow> Engine \<Rightarrow> bool" where
  "cooling env c rid t e \<longleftrightarrow>
     distinct (map fst (enStates e)) \<and>
     (mono (aeNow env) \<and> 0 \<le> c \<and> c \<le> 24 * Hour \<longrightarrow>
        rules_cooled c rid (enRules e) \<and> (\<forall>k. key_cooled c rid t k e))"

lemma Sub_time_ge: "0 \<le> c \<Longrightarrow> c \<le> Sub_time a b \<Longrightarrow> b + c \<le> a"
  by (simp add: Sub_time_def max_def min_def split: if_splits)

lemma firings_saved:
  "firings k (e\<lparr>enAlerts := rows, enSaved := enSaved e @ [a], enSent := s\<rparr>) =
     firings k e @ (if alCorrelationKey a = rule_key k \<and> alStatus a = AlertFiring then [a] else [])"
  by (simp add: firings_def key_events_saved)

lemma firings_set_state [simp]: "firings k (set_state key st e) = firings k e"
  by (simp add: firings_def)

lemma firings_fire:
  "firings k (fire_transition ok key st a e) = firings k e \<or>
   alCorrelationKey a = rule_key k \<and> alStatus a = AlertFiring \<and> firings k (fire_transition ok key st a e) = firings k e @ [a]"
  by (cases rule: save_cases [of ok a "set_state key st e"])
    (auto simp: fire_transition_def rollbackFiringTransition_def firings_def key_events_def)

lemma fire_lookup:
  "\<exists>st'. map_of (enStates (fire_transition ok key st a e)) key = Some st' \<and> asLastFired st' = asLastFired st"
  by (cases rule: save_cases [of ok a "set_state key st e"]) (simp_all add: fire_transition_def rollbackFiringTransition_def)

lemma firings_resolve: "alStatus a \<noteq> AlertFiring \<Longrightarrow> firings k (snd (resolve_transition ok key st m a e)) = firings k e"
  by (cases rule: save_cases [of ok a "set_state key st e"])
    (auto simp: resolve_transition_def restoreFiringTransition_def firings_def key_events_def)

lemma resolve_lookup:
  "\<exists>st'. map_of (enStates (snd (resolve_transition ok key st m a e))) key = Some st' \<and> asLastFired st' = asLastFired st"
  "k \<noteq> key \<Longrightarrow> map_of (enStates (snd (resolve_transition ok key st m a e))) k = map_of (enStates e) k"
  by (cases rule: save_cases [of ok a "set_state key st e"]; simp add: resolve_transition_def restoreFiringTransition_def)+

lemma key_cooled_fire:
  assumes "key_cooled c rid t k e" "may_fire t key st a e" "rules_cooled c rid (enRules e)"
    "0 \<le> c" "c \<le> 24 * Hour"
  shows "key_cooled c rid t k (fire_transition ok key st a e)"
proof (cases "k = key")
  case False
  then have "firings k (fire_transition ok key st a e) = firings k e"
    using firings_fire [of k ok key st a e] assms(2) by (auto simp: may_fire_def)
  then show ?thesis using assms(1) False by (simp add: key_cooled_def fire_transition_frame)
next
  case True
  obtain old r where old: "map_of (enStates e) key = Some old" "r \<in> snd ` set (enRules e)" "rlID r = alRuleID a"
      "rlCooldown r \<le> Sub_time t (asLastFired old)" and a: "alFiredAt a = t" "asLastFired st = t"
    using assms(2) by (auto simp: may_fire_def)
  have far: "alFiredAt b + c \<le> t" if "b \<in> set (firings k e)" "alRuleID a = rid" for b
  proof -
    have "c \<le> rlCooldown r" using assms(3) old(2,3) that(2) by (auto simp: rules_cooled_def cooldown_at_least_def)
    then have "asLastFired old + c \<le> t" using Sub_time_ge [OF assms(4)] old(4) by simp
    moreover have "forgotten t b \<or> alFiredAt b \<le> asLastFired old" using assms(1) that(1) old(1) True by (auto simp: key_cooled_def)
    ultimately show ?thesis using assms(5) by (auto simp: forgotten_def)
  qed
  obtain st' where st': "map_of (enStates (fire_transition ok key st a e)) key = Some st'" "asLastFired st' = t"
    using fire_lookup a(2) by metis
  have "spaced c rid (firings k (fire_transition ok key st a e)) \<and> set (firings k (fire_transition ok key st a e)) \<subseteq> insert a (set (firings k e))"
    using firings_fire [of k ok key st a e] assms(1) far a(1) by (auto simp: key_cooled_def spaced_def sorted_wrt_append)
  then show ?thesis using assms(1) st' a(1) True by (fastforce simp: key_cooled_def)
qed

lemma key_cooled_resolve:
  assumes "key_cooled c rid t k e" "may_resolve key st a e"
  shows "key_cooled c rid t k (snd (resolve_transition ok key st m a e))"
proof (cases "k = key")
  case False
  then show ?thesis using assms by (simp add: key_cooled_def firings_resolve resolve_lookup(2) may_resolve_def)
next
  case True
  obtain old where old: "map_of (enStates e) key = Some old" "asLastFired st = asLastFired old" "alStatus a = AlertResolved"
    using assms(2) by (auto simp: may_resolve_def)
  obtain st' where "map_of (enStates (snd (resolve_transition ok key st m a e))) key = Some st'" "asLastFired st' = asLastFired old"
    using resolve_lookup(1) old(2) by metis
  then show ?thesis using assms(1) old(1,3) True by (simp add: key_cooled_def firings_resolve)
qed

lemma key_cooled_keep: "key_cooled c rid t k e \<Longrightarrow> may_keep key st e \<Longrightarrow> key_cooled c rid t k (set_state key st e)"
  by (fastforce simp: key_cooled_def may_keep_def split: option.splits)

lemma key_cooled_later: "key_cooled c rid t k e \<Longrightarrow> t \<le> t' \<Longrightarrow> key_cooled c rid t' k e"
  by (fastforce simp: key_cooled_def forgotten_def)

lemma key_cooled_cong:
  "enSaved e' = enSaved e \<Longrightarrow> map_of (enStates e') k = map_of (enStates e) k \<Longrightarrow> key_cooled c rid t k e' = key_cooled c rid t k e"
  by (simp add: key_cooled_def firings_def key_events_def)

lemma key_cooled_cve:
  "HasPrefix (alCorrelationKey a) ''cve:'' \<Longrightarrow>
   key_cooled c rid t k (e\<lparr>enAlerts := rows, enSaved := enSaved e @ [a], enSent := s\<rparr>) = key_cooled c rid t k e"
  by (simp add: key_cooled_def firings_saved cve_key_not_rule)

lemma key_cooled_cleanup:
  assumes "distinct (map fst (enStates e))" "key_cooled c rid (aeNow env (enSeq e)) k e"
  shows "key_cooled c rid (aeNow env (enSeq e)) k (cleanup_states env e)"
proof -
  define t where "t = aeNow env (enSeq e)"
  have same: "firings k (cleanup_states env e) = firings k e" by (simp add: firings_def key_events_def cleanup_states_def)
  have "forgotten t a \<or> (\<exists>st. map_of (enStates (cleanup_states env e)) k = Some st \<and> alFiredAt a \<le> asLastFired st)"
    if "a \<in> set (firings k e)" for a
  proof -
    have "forgotten t a \<or> (\<exists>st. map_of (enStates e) k = Some st \<and> alFiredAt a \<le> asLastFired st)"
      using assms(2) that by (simp add: key_cooled_def t_def)
    then consider "forgotten t a" | st where "map_of (enStates e) k = Some st" "alFiredAt a \<le> asLastFired st" by metis
    then show ?thesis
    proof cases
      case 2
      have "asLastFired st + 24 * Hour \<le> t" if "24 * Hour < Sub_time t (asLastFired st)"
        using Sub_time_ge [of "24 * Hour" t "asLastFired st"] that by (simp add: Hour_def Minute_def Second_def)
      then show ?thesis using 2 unfolding cleanup_lookup [OF assms(1)] t_def [symmetric] by (auto simp: forgotten_def)
    qed simp
  qed
  with assms(2) show ?thesis unfolding key_cooled_def same t_def by blast
qed

definition keeps_cooldown :: "int \<Rightarrow> string \<Rightarrow> alert_op \<Rightarrow> bool" where
  "keeps_cooldown c rid op =
     (case op of
        OpRemoveRule _ _ \<Rightarrow> False
      | OpAddRule _ i r \<Rightarrow> (rlID r = rid \<or> rlID r = [] \<and> i = rid) \<longrightarrow> c \<le> rlCooldown r
      | _ \<Rightarrow> True)"


lemma cooling_add_rule:
  assumes "rules_cooled c rid rs" "keeps_cooldown c rid (OpAddRule saved i r)"
    "r' = (if rlID r = [] then r\<lparr>rlID := i\<rparr> else r)"
  shows "rules_cooled c rid (AList.update (rlID r') r' rs)"
proof -
  have "cooldown_at_least c rid r'" using assms(2,3) by (auto simp: keeps_cooldown_def cooldown_at_least_def split: if_splits)
  moreover have "snd ` set (AList.update (rlID r') r' xs) \<subseteq> insert r' (snd ` set xs)" for xs
    by (induction xs) auto
  ultimately show ?thesis using assms(1) unfolding rules_cooled_def by blast
qed

interpretation cool: alert_admin env "cooling env c rid" "keeps_cooldown c rid" for env c rid
proof unfold_locales
  fix e key st a ok t
  assume *: "cooling env c rid t e" "may_fire t key st a e"
  then show "cooling env c rid t (fire_transition ok key st a e)"
    unfolding cooling_def fire_transition_frame by (blast intro: distinct_fire key_cooled_fire)
next
  fix e key st a ok name t
  assume "cooling env c rid t e" "may_resolve key st a e"
  then show "cooling env c rid t (snd (resolve_transition ok key st name a e))"
    unfolding cooling_def resolve_transition_frame by (blast intro: distinct_resolve key_cooled_resolve)
next
  fix e n m
  assume "cooling env c rid (aeNow env n) e" "n \<le> (m :: nat)"
  then show "cooling env c rid (aeNow env m) e"
    unfolding cooling_def by (blast dest: monoD intro: key_cooled_later)
next
  fix e t key st
  assume "cooling env c rid t e" "may_keep key st e"
  then show "cooling env c rid t (set_state key st e)"
    unfolding cooling_def set_state_simps by (blast intro: distinct_set_state key_cooled_keep)
next
  fix e
  assume "cooling env c rid (aeNow env (enSeq e)) e"
  then show "cooling env c rid (aeNow env (enSeq e)) (cleanup_states env e)"
    unfolding cooling_def by (simp add: distinct_cleanup key_cooled_cleanup) (simp add: cleanup_states_def)
next
  fix e t saved i r r'
  assume *: "cooling env c rid t e" "keeps_cooldown c rid (OpAddRule saved i r)" "r' = (if rlID r = [] then r\<lparr>rlID := i\<rparr> else r)"
  have "key_cooled c rid t k (e\<lparr>enRules := q\<rparr>) = key_cooled c rid t k e" for k q by (rule key_cooled_cong) simp_all
  then show "cooling env c rid t (e\<lparr>enRules := AList.update (rlID r') r' (enRules e)\<rparr>)"
    using *(1) cooling_add_rule [OF _ *(2,3), of "enRules e"] by (simp add: cooling_def)
next
  fix e t a rows
  assume "cooling env c rid t e" "may_save_cve t a e"
  then show "cooling env c rid t (e\<lparr>enAlerts := rows, enSaved := enSaved e @ [a], enSent := enSent e @ [a]\<rparr>)"
    by (simp add: cooling_def may_save_cve_def key_cooled_cve)
next
  fix e t n
  show "cooling env c rid t e \<Longrightarrow> cooling env c rid t (e\<lparr>enSeq := n\<rparr>)"
    using key_cooled_cong [of "e\<lparr>enSeq := n\<rparr>" e] by (simp add: cooling_def)
next
  fix e t g
  show "cooling env c rid t e \<Longrightarrow> cooling env c rid t (e\<lparr>enGroups := g\<rparr>)"
    using key_cooled_cong [of "e\<lparr>enGroups := g\<rparr>" e] by (simp add: cooling_def)
next
  fix e t rows
  show "cooling env c rid t e \<Longrightarrow> cooling env c rid t (e\<lparr>enAlerts := rows\<rparr>)"
    using key_cooled_cong [of "e\<lparr>enAlerts := rows\<rparr>" e] by (simp add: cooling_def)
next
  fix e t ws
  show "cooling env c rid t e \<Longrightarrow> cooling env c rid t (e\<lparr>enWindows := ws\<rparr>)"
    using key_cooled_cong [of "e\<lparr>enWindows := ws\<rparr>" e] by (simp add: cooling_def)
qed (simp_all add: cooling_def keeps_cooldown_def)


section \<open>Maintenance windows\<close>

definition calm :: "Engine \<Rightarrow> Engine \<Rightarrow> bool" where
  "calm e0 e \<longleftrightarrow>
     distinct (map fst (enStates e)) \<and> enWindows e = enWindows e0 \<and>
     (\<exists>new. enSaved e = enSaved e0 @ new \<and>
        (\<forall>a \<in> set new. alStatus a = AlertFiring \<longrightarrow> \<not> in_maintenance e0 (alTenantID a) (alDeviceID a) (alFiredAt a)))"

lemma calm_same: "calm e0 e \<Longrightarrow> enSaved e' = enSaved e \<Longrightarrow> enWindows e' = enWindows e \<Longrightarrow> distinct (map fst (enStates e')) \<Longrightarrow> calm e0 e'"
  by (simp add: calm_def)

lemma calm_snoc:
  assumes "calm e0 e" "enSaved e' = enSaved e @ [a]" "enWindows e' = enWindows e" "distinct (map fst (enStates e'))"
    "alStatus a = AlertFiring \<longrightarrow> \<not> in_maintenance e (alTenantID a) (alDeviceID a) (alFiredAt a)"
  shows "calm e0 e'"
proof -
  obtain new where "enSaved e = enSaved e0 @ new"
      "\<forall>a \<in> set new. alStatus a = AlertFiring \<longrightarrow> \<not> in_maintenance e0 (alTenantID a) (alDeviceID a) (alFiredAt a)"
    using assms(1) by (auto simp: calm_def)
  then show ?thesis
    using assms unfolding calm_def by (intro conjI exI [of _ "new @ [a]"]) (auto simp: in_maintenance_def)
qed

lemma transition_saved:
  "enSaved (fire_transition ok key st a e) = enSaved e \<or> enSaved (fire_transition ok key st a e) = enSaved e @ [a]"
  "enSaved (snd (resolve_transition ok key st m a e)) = enSaved e \<or> enSaved (snd (resolve_transition ok key st m a e)) = enSaved e @ [a]"
  by (cases rule: save_cases [of ok a "set_state key st e"];
      simp add: fire_transition_def rollbackFiringTransition_def resolve_transition_def restoreFiringTransition_def)+

interpretation calm: alert_invariant env "\<lambda>t. calm e0" for env e0
proof unfold_locales
  fix e key st a ok t
  assume *: "calm e0 e" "may_fire t key st a e"
  then have "distinct (map fst (enStates e))" by (simp add: calm_def)
  then show "calm e0 (fire_transition ok key st a e)"
    using * transition_saved(1) [of ok key st a e]
    by (auto intro: calm_same calm_snoc simp: fire_transition_frame distinct_fire may_fire_def)
next
  fix e key st a ok name
  assume *: "calm e0 e" "may_resolve key st a e"
  then have "distinct (map fst (enStates e))" by (simp add: calm_def)
  then show "calm e0 (snd (resolve_transition ok key st name a e))"
    using * transition_saved(2) [of ok key st name a e]
    by (auto intro: calm_same calm_snoc simp: resolve_transition_frame distinct_resolve may_resolve_def)
next
  fix e a t rows
  assume *: "calm e0 e" "may_save_cve t a e"
  then have "distinct (map fst (enStates e))" by (simp add: calm_def)
  with *(2) show "calm e0 (e\<lparr>enAlerts := rows, enSaved := enSaved e @ [a], enSent := enSent e @ [a]\<rparr>)"
    by (intro calm_snoc [OF *(1), where a = a]) (auto simp: may_save_cve_def)
qed (auto simp: calm_def distinct_set_state)

lemma op_calm:
  assumes "distinct (map fst (enStates e))"
  shows "\<exists>new. enSaved (apply_op env uuid msg op e) = enSaved e @ new \<and>
     (\<forall>a \<in> set new. alStatus a = AlertFiring \<longrightarrow> \<not> in_maintenance e (alTenantID a) (alDeviceID a) (alFiredAt a))"
proof -
  have start: "calm.holds env e e" using assms by (simp add: calm.holds_def calm_def)
  have evaluated: "?thesis" if "calm.holds env e (apply_op env uuid msg op e)" using that by (simp add: calm.holds_def calm_def)
  have unsaved: "?thesis" if "enSaved (apply_op env uuid msg op e) = enSaved e" using that by simp
  show ?thesis
  proof (cases op)
    case OpCleanup
    then show ?thesis by (intro unsaved) (simp add: cleanup_states_def)
  next
    case OpAcknowledge
    then show ?thesis by (intro unsaved) (simp add: AcknowledgeAlert_def split: option.split)
  next
    case OpAddRule
    then show ?thesis by (intro unsaved) (simp add: AddRule_def Let_def)
  next
    case OpRemoveRule
    then show ?thesis by (intro unsaved) (simp add: RemoveRule_def)
  next
    case OpCreateWindow
    then show ?thesis by (intro unsaved) (simp add: CreateMaintenanceWindow_def split: option.split prod.split)
  next
    case OpDeleteWindow
    then show ?thesis by (intro unsaved) (simp add: DeleteMaintenanceWindow_def split: option.split prod.split)
  qed (rule evaluated, simp add: start calm.metrics_holds calm.heartbeats_holds calm.stale_holds calm.fire_cve_holds calm.resolve_cve_holds)+
qed

interpretation keyed: alert_admin env "\<lambda>t e. distinct (map fst (enStates e))" no_removal_op for env
  by unfold_locales (simp_all add: distinct_fire distinct_resolve distinct_set_state distinct_cleanup no_removal_op_def)

lemma run_distinct: "distinct (map fst (enStates (run_ops env uuid msg ops (fresh_engine rules windows rows))))"
proof -
  have one: "distinct (map fst (enStates (apply_op env uuid msg op e)))" if "distinct (map fst (enStates e))" for op e
  proof (cases "no_removal_op op")
    case True
    then show ?thesis using keyed.op_holds [of env e op uuid msg] that by (simp add: keyed.holds_def)
  next
    case False
    then obtain b i where "op = OpRemoveRule b i" by (cases op) (simp_all add: no_removal_op_def)
    then show ?thesis using that by (simp add: RemoveRule_def distinct_map_filter)
  qed
  have "distinct (map fst (enStates (run_ops env uuid msg ops e)))" if "distinct (map fst (enStates e))" for e
    using that unfolding run_ops_def by (induction ops arbitrary: e) (simp_all add: one)
  then show ?thesis by (simp add: fresh_engine_def)
qed

text \<open>
  C32. Whatever happened before, an operation saves no firing alert, of a threshold, a silent device or a vulnerability,
  for a device that is in a maintenance window of its tenant at the time the alert carries.
\<close>

theorem no_alert_in_maintenance:
  assumes "e = run_ops env uuid msg ops (fresh_engine rules windows rows)"
  shows "\<exists>new. enSaved (apply_op env uuid msg op e) = enSaved e @ new \<and>
     (\<forall>a \<in> set new. alStatus a = AlertFiring \<longrightarrow> \<not> in_maintenance e (alTenantID a) (alDeviceID a) (alFiredAt a))"
  using op_calm [of e] run_distinct assms by metis

section \<open>Where alerts are lost\<close>

lemma marked_keys: "fst ` set (snd (mark_due env e now n xs)) \<subseteq> fst ` set xs"
  by (induction env e now n xs rule: mark_due.induct) (simp_all add: Let_def case_prod_beta, blast)

lemma fire_marked_key_events: "k \<noteq> fst ks \<Longrightarrow> key_events k (fire_marked env msg now ks e) = key_events k e"
proof -
  have "k \<noteq> key \<Longrightarrow> alCorrelationKey a = rule_key key \<Longrightarrow> key_events k (fire_transition ok key st a e) = key_events k e" for ok key st a e
    using transition_saved(1) [of ok key st a e] by (auto simp: key_events_def)
  then show "k \<noteq> fst ks \<Longrightarrow> ?thesis"
    by (simp add: fire_marked_def stale_alert_def heartbeat_alert_def split: option.split)
qed

definition forgets :: "string \<Rightarrow> Engine \<Rightarrow> Engine \<Rightarrow> bool" where
  "forgets k e0 e \<longleftrightarrow> distinct (map fst (enStates e)) \<and> map_of (enStates e) k = None \<and> key_events k e = key_events k e0"

lemma fire_marked_forgets: "forgets k e0 e \<Longrightarrow> k \<noteq> fst ks \<Longrightarrow> forgets k e0 (fire_marked env msg now ks e)"
  unfolding forgets_def
  by (auto simp: fire_marked_frame fire_marked_key_events, simp add: fire_marked_def distinct_fire distinct_set_state split: option.split)

lemma stale_forgets:
  assumes "forgets k e0 e"
  shows "forgets k e0 (checkStaleHeartbeats env msg e)"
proof -
  define now where "now = aeNow env (enSeq e)"
  define ps where "ps = snd (mark_due env e now (enSeq e) (enStates e))"
  have "k \<notin> fst ` set (enStates e)" using assms by (simp add: forgets_def map_of_eq_None_iff)
  then have "k \<notin> fst ` set ps" using marked_keys unfolding ps_def by blast
  moreover have "forgets k e0 x \<Longrightarrow> k \<notin> fst ` set qs \<Longrightarrow> forgets k e0 (fold (fire_marked env msg now) qs x)" for qs x
    by (induction qs arbitrary: x) (auto intro: fire_marked_forgets)
  moreover have "forgets k e0 (e\<lparr>enSeq := n\<rparr>)" for n using assms by (simp add: forgets_def)
  moreover have "distinct (map fst (enStates e))" using assms by (simp add: forgets_def)
  ultimately show ?thesis by (simp add: stale_by_state Let_def now_def ps_def)
qed

lemma cleanup_forgets: "forgets k e0 e \<Longrightarrow> forgets k e0 (cleanup_states env e)"
  by (simp add: forgets_def distinct_cleanup cleanup_lookup) (simp add: key_events_def cleanup_states_def)

text \<open>
  The hourly cleanup forgets every device that reports and has never been alerted for: once it has run, a device
  that does not report again is never reported as silent, however many checks follow.
\<close>

theorem silent_device_forgotten:
  assumes "distinct (map fst (enStates e))" "map_of (enStates e) k = Some st" "\<not> asFiring st" "asLastFired st = zero_time"
    "0 \<le> aeNow env (enSeq e)" "set ops \<subseteq> {OpStale, OpCleanup}"
  shows "key_events k (run_ops env uuid msg (OpCleanup # ops) e) = key_events k e"
proof -
  have "24 * Hour < Sub_time (aeNow env (enSeq e)) (asLastFired st)"
    using assms(4,5) by (simp add: Sub_time_def zero_time_def Hour_def Minute_def Second_def)
  then have "forgets k e (cleanup_states env e)"
    using assms(1-3) by (simp add: forgets_def distinct_cleanup cleanup_lookup) (simp add: key_events_def cleanup_states_def)
  moreover have "set os \<subseteq> {OpStale, OpCleanup} \<Longrightarrow> forgets k e x \<Longrightarrow> forgets k e (fold (apply_op env uuid msg) os x)" for os x
    by (induction os arbitrary: x) (auto simp: stale_forgets cleanup_forgets)
  ultimately show ?thesis using assms(6) by (simp add: run_ops_def forgets_def)
qed

text \<open>
  Acknowledging an alert that was already resolved makes it active again, and the unique index then refuses every new
  alert for the same tenant and key.
\<close>

lemma acknowledged_blocks:
  assumes "AcknowledgeAlert True now tn i e = (True, e')" "r \<in> set (enAlerts e)" "alID r = i" "alTenantID r = tn"
    "distinct (map alID (enAlerts e))" "alCorrelationKey r \<noteq> []"
    "alTenantID a = tn" "alCorrelationKey a = alCorrelationKey r" "alID a \<notin> alID ` set (enAlerts e)" "alStatus a = AlertFiring"
  shows "SaveAlert True a (enAlerts e') = None"
proof -
  define r' where "r' = r\<lparr>alStatus := AlertAcknowledged, alAcknowledgedAt := Some now\<rparr>"
  have same: "x = r" if "x \<in> set (enAlerts e)" "alID x = i" for x
    using that assms(2,3,5) by (metis distinct_map inj_on_eq_iff)
  have found: "find (\<lambda>x. alTenantID x = tn \<and> alID x = i) (enAlerts e) = Some r"
  proof (cases "find (\<lambda>x. alTenantID x = tn \<and> alID x = i) (enAlerts e)")
    case None
    then show ?thesis using assms(2-4) by (auto simp: find_None_iff)
  next
    case (Some x)
    then show ?thesis using same find_SomeD [OF Some] by simp
  qed
  have rows: "enAlerts e' = map (\<lambda>x. if alID x = i then r' else x) (enAlerts e)"
    using assms(1) found by (auto simp: AcknowledgeAlert_def UpdateAlertStatus_def r'_def Let_def split: if_splits)
  have old: "r' \<in> set (enAlerts e')" using assms(2,3) rows by (auto simp: image_iff intro!: bexI [of _ r])
  have "alID ` set (enAlerts e') \<subseteq> alID ` set (enAlerts e)" using assms(2,3) by (auto simp: rows r'_def)
  then have new: "find (\<lambda>x. alID x = alID a) (enAlerts e') = None" using assms(9) unfolding find_None_iff by (metis image_eqI subsetD)
  have "alID r \<noteq> alID a" using assms(2,9) by (metis image_eqI)
  then have "alID r' \<noteq> alID a" by (simp add: r'_def)
  then have "index_violated a (enAlerts e')"
    using old assms(4,6-8,10) by (auto simp: index_violated_def active_status_def list_ex_iff r'_def intro!: bexI [of _ r'])
  with new show ?thesis by (simp add: SaveAlert_def)
qed

section \<open>Examples\<close>

text \<open>A threshold rule and a heartbeat rule, a reading every hour, and a window that starts after ten readings.\<close>

definition sample_rule :: Rule where
  "sample_rule = \<lparr>rlID = ''r'', rlTenantID = ''t'', rlName = ''cpu'', rlType = ''threshold'', rlEnabled = True, rlSeverity = ''warning'',
     rlMetricName = ''cpu'', rlCondition = ''gt'', rlThreshold = 90, rlTimeout = 0, rlDeviceID = [], rlCooldown = 2 * Hour, rlChannels = [],
     rlTemplate = ''high''\<rparr>"

definition sample_beat :: Rule where
  "sample_beat = sample_rule\<lparr>rlID := ''h'', rlType := ''heartbeat'', rlTimeout := Hour\<rparr>"

definition sample_alert_env :: alert_env where
  "sample_alert_env = \<lparr>aeNow = (\<lambda>n. 1000 * Hour + int n * Hour), aeUUID = (\<lambda>n. replicate (Suc n) CHR ''a''), aeDbOk = (\<lambda>n. True), aeFmt = (\<lambda>v. ''v'')\<rparr>"

definition sample_windows :: "(string \<times> MaintenanceWindow) list" where
  "sample_windows = [(''w'', \<lparr>mwID = ''w'', mwTenantID = ''t'', mwName = ''night'', mwStartTime = 1010 * Hour, mwEndTime = 1020 * Hour, mwDeviceIDs = []\<rparr>)]"

definition sample_engine :: Engine where
  "sample_engine = fresh_engine [(''r'', sample_rule), (''h'', sample_beat)] (Some sample_windows) []"

definition cpu :: "rat \<Rightarrow> alert_op" where
  "cpu v = OpMetrics ''t'' ''d'' [\<lparr>msName = ''cpu'', msValue = v\<rparr>]"

definition sample_alert_ops :: "alert_op list" where
  "sample_alert_ops = [cpu 95, cpu 50, cpu 97, cpu 20]"

lemma sample_firings: "length (key_events ''r:d:cpu'' (run_ops sample_alert_env (\<lambda>s. True) (\<lambda>st. []) sample_alert_ops sample_engine)) = 4"
  by code_simp



theorem no_alert_in_maintenance_witness:
  "\<exists>new. enSaved (apply_op sample_alert_env (\<lambda>s. True) (\<lambda>st. []) (cpu 97)
       (run_ops sample_alert_env (\<lambda>s. True) (\<lambda>st. []) [cpu 95, cpu 50] sample_engine)) =
     enSaved (run_ops sample_alert_env (\<lambda>s. True) (\<lambda>st. []) [cpu 95, cpu 50] sample_engine) @ new \<and>
     (\<forall>a \<in> set new. alStatus a = AlertFiring \<longrightarrow>
        \<not> in_maintenance (run_ops sample_alert_env (\<lambda>s. True) (\<lambda>st. []) [cpu 95, cpu 50] sample_engine) (alTenantID a) (alDeviceID a) (alFiredAt a))"
  unfolding sample_engine_def by (rule no_alert_in_maintenance) (rule refl)

text \<open>The device reports once, five minutes before a cleanup, and then never again.\<close>

definition sample_reported :: Engine where
  "sample_reported = run_ops sample_alert_env (\<lambda>s. True) (\<lambda>st. []) [OpHeartbeat ''t'' ''d'' (1000 * Hour)] (sample_engine\<lparr>enWindows := None\<rparr>)"

lemma sample_silent_without_cleanup:
  "length (key_events ''h:d'' (run_ops sample_alert_env (\<lambda>s. True) (\<lambda>st. []) [OpStale, OpStale, OpStale] sample_reported)) = 1"
  by code_simp

theorem silent_device_forgotten_witness:
  "key_events ''h:d'' (run_ops sample_alert_env (\<lambda>s. True) (\<lambda>st. []) [OpCleanup, OpStale, OpStale, OpStale] sample_reported) =
     key_events ''h:d'' sample_reported"
proof -
  have reported: "distinct (map fst (enStates sample_reported))" by code_simp
  have quiet: "map_of (enStates sample_reported) ''h:d'' =
      Some \<lparr>asRuleID = ''h'', asTenantID = ''t'', asDeviceID = ''d'', asFiring = False, asLastFired = zero_time,
            asLastHeard = 1000 * Hour, asConsecutiveFires = 0, asAlertID = [], asMetricName = []\<rparr>"
    by code_simp
  have "0 \<le> aeNow sample_alert_env (enSeq sample_reported)"
    by (simp add: sample_alert_env_def Hour_def Minute_def Second_def)
  then show ?thesis by (intro silent_device_forgotten [OF reported quiet]) simp_all
qed

end
