(* ===== verification/PatchRollout.thy ===== *)
theory PatchRollout
  imports JobStore GoTime "HOL-Library.Char_ord" "HOL-Library.List_Lexorder"
begin

text \<open>
  Patch deployments (\<^verbatim>\<open>internal/patch\<close>): maintenance windows (\<^verbatim>\<open>canary_control.go\<close>, \<^verbatim>\<open>maintenance_window.go\<close>), the
  creation of a deployment (\<^verbatim>\<open>deployment_create.go\<close>), the canary rollout on top of the job tables
  (\<^verbatim>\<open>canary_control.go\<close>, \<^verbatim>\<open>durable_jobs.go\<close>), the results of patches (\<^verbatim>\<open>result_ingest.go\<close>) and the manager that advances
  deployments every minute (\<^verbatim>\<open>manager.go\<close>).

  Times of day are read from an instant plus the offset of the zone. The jobs of a rollout live in the tables of \<open>JobStore\<close>.
  The environment gives, for each use, the time, a new identifier and whether the database accepts the statement or
  transaction; \<open>psSeq\<close> counts the uses. \<open>psEvents\<close> is the history of gates opened and jobs queued.
\<close>

section \<open>Maintenance windows\<close>

definition Day :: int where
  "Day = 24 * Hour"

definition digit_value :: "char \<Rightarrow> int" where
  "digit_value c = int (of_char c) - 48"

fun validMaintenanceClock :: "string \<Rightarrow> bool" where
  "validMaintenanceClock [h1, h2, c, m1, m2] \<longleftrightarrow>
     c = CHR '':'' \<and> digit_char h1 \<and> digit_char h2 \<and> digit_char m1 \<and> digit_char m2 \<and>
     digit_value h1 * 10 + digit_value h2 \<le> 23 \<and> digit_value m1 * 10 + digit_value m2 \<le> 59"
| "validMaintenanceClock _ \<longleftrightarrow> False"

text \<open>The minute of the day that a valid clock denotes: the hour and minute of \<^verbatim>\<open>time.Parse("15:04", value)\<close>.\<close>

fun clock_minute :: "string \<Rightarrow> int" where
  "clock_minute [h1, h2, c, m1, m2] = (digit_value h1 * 10 + digit_value h2) * 60 + (digit_value m1 * 10 + digit_value m2)"
| "clock_minute _ = 0"

definition window_bounds :: "string \<Rightarrow> (int \<times> int) option" where
  "window_bounds window =
     (case Split CHR ''-'' window of
        [a, b] \<Rightarrow>
          (let startValue = TrimSpace a; endValue = TrimSpace b
           in if validMaintenanceClock startValue \<and> validMaintenanceClock endValue then Some (clock_minute startValue, clock_minute endValue)
              else None)
      | _ \<Rightarrow> None)"

definition minute_of_day :: "instant \<Rightarrow> int" where
  "minute_of_day now = (now div Minute) mod (24 * 60)"

definition in_bounds :: "int \<Rightarrow> int \<Rightarrow> int \<Rightarrow> bool" where
  "in_bounds startMinute endMinute minute =
     (if startMinute = endMinute then True
      else if startMinute < endMinute then startMinute \<le> minute \<and> minute < endMinute
      else startMinute \<le> minute \<or> minute < endMinute)"

definition maintenanceWindowAllows :: "instant \<Rightarrow> string \<Rightarrow> bool" where
  "maintenanceWindowAllows now window =
     (let w = TrimSpace window
      in if w = [] then True
         else case window_bounds w of None \<Rightarrow> False | Some (s, e) \<Rightarrow> in_bounds s e (minute_of_day now))"

datatype patch_error =
    NoDatabase | IncompleteIdentity | NoDevices | NoDeploymentPatches | InvalidCanaryPercent | NoCanaryDevices | InvalidGroup
  | PatchResultScope | MappingIncomplete | PatchRetriesExhausted | InvalidMaintenanceWindow | OutsideMaintenanceWindow
  | PatchInventoryUnavailable string | PatchInventoryInvalid string | PatchSelectionNotMissing string string | InvalidResultStatus
  | DatabaseError

definition maintenanceWindowDeadline :: "instant \<Rightarrow> string \<Rightarrow> patch_error + instant" where
  "maintenanceWindowDeadline now window =
     (let w = TrimSpace window
      in if w = [] then Inr (now + 72 * Hour)
         else case window_bounds w of
                None \<Rightarrow> Inl InvalidMaintenanceWindow
              | Some (s, e) \<Rightarrow>
                  if s = e then Inr (now + 72 * Hour)
                  else if \<not> maintenanceWindowAllows now w then Inl OutsideMaintenanceWindow
                  else
                    (let end0 = now - now mod Day + e * Minute;
                         end1 = (if e < s \<and> s \<le> minute_of_day now then end0 + 24 * Hour else end0)
                     in if now < end1 then Inr end1 else Inl OutsideMaintenanceWindow))"

section \<open>Tables\<close>

datatype PatchStatus =
    StatusPending | StatusApproved | StatusCanary | StatusDeploying | StatusInstalled | StatusCompleted | StatusFailed
  | StatusRebootReq | StatusCancelled

record PatchPolicy =
  ppID :: string
  ppTenantID :: string
  ppName :: string
  ppEnabled :: bool
  ppMaintenanceWin :: string
  ppMaxRetries :: int

record Deployment =
  dpID :: string
  dpPolicyID :: string
  dpTenantID :: string
  dpStatus :: PatchStatus
  dpDeviceCount :: int
  dpInstalled :: int
  dpFailed :: int
  dpPending :: int
  dpScheduledFor :: instant
  dpStartedAt :: "instant option"
  dpCompletedAt :: "instant option"
  dpCreatedAt :: instant

datatype RolloutGroup = Canary | Broad

record rollout_row =
  rwDeployment :: string
  rwDevice :: string
  rwGroup :: RolloutGroup
  rwDispatchedAt :: "instant option"
  rwAttempts :: int
  rwJob :: "string option"
  rwTarget :: "string option"

record patch_device =
  pvID :: string
  pvTenantID :: string
  pvMspID :: "string option"
  pvClientID :: "string option"
  pvSiteID :: "string option"
  pvAgentID :: "string option"
  pvDisabled :: bool

record DevicePatchState =
  dsDeployment :: string
  dsDevice :: string
  dsPatch :: string
  dsStatus :: PatchStatus
  dsAttempts :: int
  dsError :: string

record CanaryGate =
  cgTotal :: int
  cgCompleted :: int
  cgSucceeded :: int
  cgFailed :: int

datatype patch_event =
    GateOpened string CanaryGate
  | WorkQueued string string RolloutGroup int int int instant instant

record patch_state =
  psCache :: "(string \<times> PatchPolicy) list"
  psPolicies :: "PatchPolicy list"
  psDeployments :: "Deployment list"
  psRows :: "rollout_row list"
  psPatches :: "(string \<times> string) list"
  psDevices :: "patch_device list"
  psInventory :: "(string \<times> string \<times> json) list"
  psStates :: "DevicePatchState list"
  psJobs :: jobdb
  psEvents :: "patch_event list"
  psSeq :: nat

record patch_env =
  peNow :: "nat \<Rightarrow> instant"
  peZone :: int
  peUUID :: "nat \<Rightarrow> nat \<Rightarrow> string"
  peOk :: "nat \<Rightarrow> bool"

definition bump :: "patch_state \<Rightarrow> patch_state" where
  "bump s = s\<lparr>psSeq := Suc (psSeq s)\<rparr>"

section \<open>Canary selection\<close>

definition Ready :: "CanaryGate \<Rightarrow> bool" where
  "Ready g \<longleftrightarrow> 0 < cgTotal g \<and> cgCompleted g = cgTotal g"

definition Passes :: "CanaryGate \<Rightarrow> int \<Rightarrow> bool" where
  "Passes g thresholdPercent =
     (if \<not> Ready g \<or> thresholdPercent < 0 \<or> 100 < thresholdPercent then False
      else cgTotal g * thresholdPercent \<le> cgSucceeded g * 100)"

definition selectCanarySubset :: "string list \<Rightarrow> int \<Rightarrow> string list" where
  "selectCanarySubset deviceIDs canaryPercent =
     (if deviceIDs = [] \<or> canaryPercent < 1 \<or> 100 < canaryPercent then []
      else
        let n = int (length deviceIDs);
            count = (n * canaryPercent + 99) div 100;
            count1 = (if count < 1 then 1 else count);
            count2 = (if n < count1 then n else count1)
        in take (nat count2) deviceIDs)"

definition find_deployment :: "string \<Rightarrow> patch_state \<Rightarrow> Deployment option" where
  "find_deployment d s = find (\<lambda>x. dpID x = d) (psDeployments s)"

text \<open>The devices of a deployment that belong to its tenant.\<close>

definition tenant_valid :: "patch_state \<Rightarrow> Deployment \<Rightarrow> string \<Rightarrow> bool" where
  "tenant_valid s dep device = list_ex (\<lambda>d. pvID d = device \<and> pvTenantID d = dpTenantID dep) (psDevices s)"

definition getTenantValidDeploymentDevices :: "bool \<Rightarrow> string \<Rightarrow> patch_state \<Rightarrow> patch_error + string list" where
  "getTenantValidDeploymentDevices ok deploymentID s =
     (if deploymentID = [] then Inl IncompleteIdentity
      else if \<not> ok then Inl DatabaseError
      else case find_deployment deploymentID s of
             None \<Rightarrow> Inr []
           | Some dep \<Rightarrow> Inr (sort (map rwDevice (filter (\<lambda>r. rwDeployment r = deploymentID \<and> tenant_valid s dep (rwDevice r)) (psRows s)))))"

definition GetCanaryDeploymentDevices :: "bool \<Rightarrow> string \<Rightarrow> int \<Rightarrow> patch_state \<Rightarrow> patch_error + string list" where
  "GetCanaryDeploymentDevices ok deploymentID canaryPercent s =
     (case getTenantValidDeploymentDevices ok deploymentID s of
        Inl err \<Rightarrow> Inl err
      | Inr eligible \<Rightarrow>
          if canaryPercent < 1 \<or> 100 < canaryPercent then Inl InvalidCanaryPercent
          else if eligible = [] then Inl NoCanaryDevices
          else Inr (selectCanarySubset eligible canaryPercent))"

definition GetRemainingDeploymentDevices :: "bool \<Rightarrow> string \<Rightarrow> int \<Rightarrow> patch_state \<Rightarrow> patch_error + string list" where
  "GetRemainingDeploymentDevices ok deploymentID canaryPercent s =
     (case getTenantValidDeploymentDevices ok deploymentID s of
        Inl err \<Rightarrow> Inl err
      | Inr eligible \<Rightarrow>
          if canaryPercent < 1 \<or> 100 < canaryPercent then Inl InvalidCanaryPercent
          else if eligible = [] then Inl NoCanaryDevices
          else Inr (drop (length (selectCanarySubset eligible canaryPercent)) eligible))"

definition PrepareCanaryRollout :: "bool \<Rightarrow> string \<Rightarrow> int \<Rightarrow> patch_state \<Rightarrow> (patch_error + string list) \<times> patch_state" where
  "PrepareCanaryRollout ok deploymentID canaryPercent s =
     (case GetCanaryDeploymentDevices ok deploymentID canaryPercent s of
        Inl err \<Rightarrow> (Inl err, s)
      | Inr canary \<Rightarrow>
          (Inr canary,
           s\<lparr>psRows := map (\<lambda>r. if rwDeployment r = deploymentID
                                 then r\<lparr>rwGroup := (if List.member canary (rwDevice r) then Canary else Broad),
                                        rwDispatchedAt := None, rwAttempts := 0\<rparr>
                                 else r) (psRows s)\<rparr>))"

section \<open>Jobs of a rollout\<close>

definition maxPatchAttempts :: "int \<Rightarrow> int" where
  "maxPatchAttempts maxRetries = (if maxRetries < 0 then 1 else maxRetries + 1)"

text \<open>The policy of a deployment, of the same tenant.\<close>

definition policy_of :: "Deployment \<Rightarrow> patch_state \<Rightarrow> PatchPolicy option" where
  "policy_of dep s = find (\<lambda>p. ppID p = dpPolicyID dep \<and> ppTenantID p = dpTenantID dep) (psPolicies s)"

definition row_target :: "jobdb \<Rightarrow> rollout_row \<Rightarrow> target_row option" where
  "row_target db r =
     (case (rwJob r, rwTarget r) of
        (Some j, Some t) \<Rightarrow> find (\<lambda>x. t_id x = t \<and> t_job_id x = j) (targets db)
      | _ \<Rightarrow> None)"

definition sql_cap :: "int \<Rightarrow> int" where
  "sql_cap maxRetries = min (max maxRetries 0) 10 + 1"

definition retry_count :: "target_row option \<Rightarrow> int" where
  "retry_count t = (case t of None \<Rightarrow> 0 | Some x \<Rightarrow> t_retry_count x)"

definition rollout_rows :: "Deployment \<Rightarrow> patch_state \<Rightarrow> rollout_row list" where
  "rollout_rows dep s = filter (\<lambda>r. rwDeployment r = dpID dep \<and> tenant_valid s dep (rwDevice r)) (psRows s)"

definition GetUndispatchedRolloutDevices :: "bool \<Rightarrow> string \<Rightarrow> RolloutGroup \<Rightarrow> patch_state \<Rightarrow> patch_error + string list" where
  "GetUndispatchedRolloutDevices ok deploymentID grp s =
     (if \<not> ok then Inl DatabaseError
      else case find_deployment deploymentID s of
             None \<Rightarrow> Inr []
           | Some dep \<Rightarrow>
               (case policy_of dep s of
                  None \<Rightarrow> Inr []
                | Some pol \<Rightarrow>
                    Inr (sort (map rwDevice (filter
                      (\<lambda>r. rwGroup r = grp \<and>
                           (rwDispatchedAt r = None \<or>
                            (case row_target (psJobs s) r of None \<Rightarrow> False | Some t \<Rightarrow> t_status t = ''expired'') \<and>
                            rwAttempts r + retry_count (row_target (psJobs s) r) < sql_cap (ppMaxRetries pol)))
                      (rollout_rows dep s))))))"

definition GetDeploymentPatchIDs :: "bool \<Rightarrow> string \<Rightarrow> patch_state \<Rightarrow> patch_error + string list" where
  "GetDeploymentPatchIDs ok deploymentID s =
     (if \<not> ok then Inl DatabaseError
      else let ids = sort (map snd (filter (\<lambda>(d, _). d = deploymentID) (psPatches s)))
           in if ids = [] then Inl NoDeploymentPatches else Inr ids)"

definition patch_payload :: "string list \<Rightarrow> string \<Rightarrow> string \<Rightarrow> json" where
  "patch_payload patchIDs deploymentID policyID =
     JObj [(''deployment_id'', JStr deploymentID), (''patch_ids'', JArr (map JStr patchIDs)), (''policy_id'', JStr policyID)]"

definition patch_job ::
  "string \<Rightarrow> string \<Rightarrow> string \<Rightarrow> string \<Rightarrow> string option \<Rightarrow> json \<Rightarrow> string \<Rightarrow> int \<Rightarrow> instant \<Rightarrow> instant \<Rightarrow> job_row" where
  "patch_job jobID correlationID mspID clientID siteID payload idempotencyKey remainingRetries expiresAt now =
     \<lparr>j_id = jobID, j_msp_id = mspID, j_client_id = clientID, j_site_id = siteID, j_type = ''patch_install'', j_status = ''queued'',
      j_payload = payload, j_max_retries = remainingRetries, j_expires_at = Some expiresAt, j_scheduled_for = Some now,
      j_correlation_id = Some correlationID, j_idempotency_key = Some idempotencyKey, j_request_hash = Some idempotencyKey,
      j_dispatch_count = 0, j_completed_count = 0, j_failed_count = 0, j_completed_at = None, j_cancelled_at = None\<rparr>"

definition patch_target :: "string \<Rightarrow> string \<Rightarrow> string \<Rightarrow> string \<Rightarrow> target_row" where
  "patch_target targetID jobID deviceID agentID =
     \<lparr>t_id = targetID, t_job_id = jobID, t_device_id = deviceID, t_agent_id = Some agentID, t_status = ''queued'', t_attempt = 0,
      t_retry_count = 0, t_next_retry_at = None, t_lease_owner = None, t_lease_expires = None, t_dispatched_at = None,
      t_acknowledged_at = None, t_completed_at = None, t_result = None, t_error_message = None, t_exit_code = None,
      t_approval_status = ''none'', t_offline_at = None, t_reconnect_at = None\<rparr>"

definition idempotency_key :: "string \<Rightarrow> string \<Rightarrow> int \<Rightarrow> string" where
  "idempotency_key deploymentID deviceID cycle = ''patch:'' @ deploymentID @ '':'' @ deviceID @ '':'' @ int_digits cycle"

text \<open>The row of a deployment's device with everything the queue transaction needs.\<close>

definition resolve_target :: "string \<Rightarrow> string \<Rightarrow> patch_state \<Rightarrow> (Deployment \<times> PatchPolicy \<times> rollout_row \<times> patch_device) option" where
  "resolve_target deploymentID deviceID s =
     (case find_deployment deploymentID s of
        None \<Rightarrow> None
      | Some dep \<Rightarrow>
          (case (policy_of dep s, find (\<lambda>r. rwDeployment r = deploymentID \<and> rwDevice r = deviceID) (psRows s),
                 find (\<lambda>d. pvID d = deviceID \<and> pvTenantID d = dpTenantID dep \<and> pvMspID d \<noteq> None \<and> pvClientID d \<noteq> None
                           \<and> pvAgentID d \<noteq> None \<and> \<not> pvDisabled d) (psDevices s)) of
             (Some pol, Some r, Some d) \<Rightarrow> Some (dep, pol, r, d)
           | _ \<Rightarrow> None))"

text \<open>
  How many attempts the earlier jobs of the row have used; \<open>Inl None\<close> when nothing is to be done because the current job is not
  expired.
\<close>

definition consumed_attempts :: "jobdb \<Rightarrow> int \<Rightarrow> rollout_row \<Rightarrow> patch_error option + int" where
  "consumed_attempts db attemptCap r =
     (let t = row_target db r
      in if rwJob r \<noteq> None \<or> rwTarget r \<noteq> None then
           (if rwJob r = None \<or> rwTarget r = None then Inl (Some MappingIncomplete)
            else case t of
                   None \<Rightarrow> Inl None
                 | Some x \<Rightarrow>
                     if t_status x \<noteq> ''expired'' then Inl None
                     else if attemptCap \<le> rwAttempts r + t_retry_count x then Inl (Some PatchRetriesExhausted)
                     else Inr (rwAttempts r + t_retry_count x))
         else if attemptCap \<le> rwAttempts r then Inl (Some PatchRetriesExhausted)
         else Inr (rwAttempts r))"

definition queue_job ::
  "patch_env \<Rightarrow> Deployment \<Rightarrow> rollout_row \<Rightarrow> patch_device \<Rightarrow> int \<Rightarrow> int \<Rightarrow> instant \<Rightarrow> string list \<Rightarrow> patch_state \<Rightarrow> patch_error option \<times> patch_state" where
  "queue_job env dep r d attemptCap consumed expiresAt patchIDs s =
     (let n = psSeq s; now = peNow env n; db = psJobs s;
          remaining = (if attemptCap - consumed - 1 < 0 then 0 else attemptCap - consumed - 1);
          jobID = peUUID env n 0; targetID = peUUID env n 1;
          key = idempotency_key (dpID dep) (rwDevice r) (consumed + 1);
          j = patch_job jobID (peUUID env n 2) (coalesce (pvMspID d)) (coalesce (pvClientID d)) (pvSiteID d)
                (patch_payload patchIDs (dpID dep) (dpPolicyID dep)) key remaining expiresAt now
      in if list_ex (\<lambda>x. j_msp_id x = j_msp_id j \<and> j_idempotency_key x = j_idempotency_key j) (jobs db) then (Some DatabaseError, s)
         else
           (None,
            s\<lparr>psJobs := db\<lparr>jobs := jobs db @ [j], targets := targets db @ [patch_target targetID jobID (rwDevice r) (coalesce (pvAgentID d))]\<rparr>,
              psRows := map (\<lambda>x. if rwDeployment x = dpID dep \<and> rwDevice x = rwDevice r
                                  then x\<lparr>rwJob := Some jobID, rwTarget := Some targetID, rwDispatchedAt := Some now, rwAttempts := consumed + 1\<rparr>
                                  else x) (psRows s),
              psEvents := psEvents s @ [WorkQueued (dpID dep) (rwDevice r) (rwGroup r) (consumed + 1) remaining attemptCap now expiresAt]\<rparr>))"

definition policy_cap :: "PatchPolicy \<Rightarrow> int" where
  "policy_cap pol = maxPatchAttempts (if ppMaxRetries pol < 0 then 0 else if 10 < ppMaxRetries pol then 10 else ppMaxRetries pol)"

definition QueuePatchRolloutDevice :: "patch_env \<Rightarrow> string \<Rightarrow> string \<Rightarrow> patch_state \<Rightarrow> patch_error option \<times> patch_state" where
  "QueuePatchRolloutDevice env deploymentID deviceID s =
     (let n = psSeq s
      in if deploymentID = [] \<or> deviceID = [] then (Some IncompleteIdentity, s)
         else if \<not> peOk env n then (Some DatabaseError, s)
         else case resolve_target deploymentID deviceID s of
                None \<Rightarrow> (Some PatchResultScope, s)
              | Some (dep, pol, r, d) \<Rightarrow>
                  (let attemptCap = policy_cap pol
                   in case consumed_attempts (psJobs s) attemptCap r of
                        Inl err \<Rightarrow> (err, s)
                      | Inr consumed \<Rightarrow>
                          (case maintenanceWindowDeadline (peNow env n) (ppMaintenanceWin pol) of
                             Inl err \<Rightarrow> (Some err, s)
                           | Inr expiresAt \<Rightarrow>
                               (case GetDeploymentPatchIDs True deploymentID s of
                                  Inl err \<Rightarrow> (Some err, s)
                                | Inr patchIDs \<Rightarrow> queue_job env dep r d attemptCap consumed expiresAt patchIDs s))))"

section \<open>Gates\<close>

definition retry_exhausted :: "jobdb \<Rightarrow> PatchPolicy \<Rightarrow> rollout_row \<Rightarrow> bool" where
  "retry_exhausted db pol r \<longleftrightarrow> sql_cap (ppMaxRetries pol) \<le> rwAttempts r + retry_count (row_target db r)"

definition count_row :: "jobdb \<Rightarrow> PatchPolicy \<Rightarrow> rollout_row \<Rightarrow> CanaryGate \<Rightarrow> CanaryGate" where
  "count_row db pol r g =
     (let g1 = g\<lparr>cgTotal := cgTotal g + 1\<rparr>;
          st = (case row_target db r of None \<Rightarrow> [] | Some t \<Rightarrow> t_status t);
          failed = g1\<lparr>cgCompleted := cgCompleted g1 + 1, cgFailed := cgFailed g1 + 1\<rparr>
      in if st = ''succeeded'' then g1\<lparr>cgCompleted := cgCompleted g1 + 1, cgSucceeded := cgSucceeded g1 + 1\<rparr>
         else if st = ''failed'' \<or> st = ''cancelled'' then failed
         else if st = ''expired'' then (if retry_exhausted db pol r then failed else g1)
         else g1)"

definition empty_gate :: CanaryGate where
  "empty_gate = \<lparr>cgTotal = 0, cgCompleted = 0, cgSucceeded = 0, cgFailed = 0\<rparr>"

definition job_gate :: "bool \<Rightarrow> string \<Rightarrow> (rollout_row \<Rightarrow> bool) \<Rightarrow> patch_state \<Rightarrow> patch_error + CanaryGate" where
  "job_gate ok deploymentID sel s =
     (if \<not> ok then Inl DatabaseError
      else case find_deployment deploymentID s of
             None \<Rightarrow> Inr empty_gate
           | Some dep \<Rightarrow>
               (case policy_of dep s of
                  None \<Rightarrow> Inr empty_gate
                | Some pol \<Rightarrow> Inr (fold (count_row (psJobs s) pol) (filter sel (rollout_rows dep s)) empty_gate)))"

definition GetRolloutJobGate :: "bool \<Rightarrow> string \<Rightarrow> RolloutGroup \<Rightarrow> patch_state \<Rightarrow> patch_error + CanaryGate" where
  "GetRolloutJobGate ok deploymentID grp s = job_gate ok deploymentID (\<lambda>r. rwGroup r = grp) s"

definition GetDeploymentJobGate :: "bool \<Rightarrow> string \<Rightarrow> patch_state \<Rightarrow> patch_error + CanaryGate" where
  "GetDeploymentJobGate ok deploymentID s = job_gate ok deploymentID (\<lambda>r. True) s"

section \<open>The manager\<close>

text \<open>\<^verbatim>\<open>UpdateDeployment\<close>: the row is overwritten from the copy in memory.\<close>

definition UpdateDeployment :: "bool \<Rightarrow> Deployment \<Rightarrow> patch_state \<Rightarrow> bool \<times> patch_state" where
  "UpdateDeployment ok dep s =
     (if \<not> ok then (False, s)
      else (True, s\<lparr>psDeployments := map (\<lambda>x. if dpID x = dpID dep
                       then x\<lparr>dpStatus := dpStatus dep, dpInstalled := dpInstalled dep, dpFailed := dpFailed dep, dpPending := dpPending dep,
                              dpStartedAt := dpStartedAt dep, dpCompletedAt := dpCompletedAt dep\<rparr>
                       else x) (psDeployments s)\<rparr>))"

definition dispatchRolloutGroup :: "patch_env \<Rightarrow> Deployment \<Rightarrow> RolloutGroup \<Rightarrow> patch_state \<Rightarrow> patch_state" where
  "dispatchRolloutGroup env dep grp s =
     (case GetUndispatchedRolloutDevices (peOk env (psSeq s)) (dpID dep) grp s of
        Inl err \<Rightarrow> bump s
      | Inr devices \<Rightarrow> fold (\<lambda>d x. bump (snd (QueuePatchRolloutDevice env (dpID dep) d x))) devices (bump s))"

definition local_now :: "patch_env \<Rightarrow> nat \<Rightarrow> instant" where
  "local_now env n = peNow env n + peZone env"

definition executeDeployment :: "patch_env \<Rightarrow> Deployment \<Rightarrow> patch_state \<Rightarrow> patch_state" where
  "executeDeployment env dep s =
     (case map_of (psCache s) (dpPolicyID dep) of
        None \<Rightarrow> s
      | Some policy \<Rightarrow>
          if \<not> maintenanceWindowAllows (local_now env (psSeq s)) (ppMaintenanceWin policy) then s
          else
            (case GetDeploymentPatchIDs (peOk env (psSeq s)) (dpID dep) s of
               Inl err \<Rightarrow> bump s
             | Inr _ \<Rightarrow>
                 (let s1 = bump s
                  in case PrepareCanaryRollout (peOk env (psSeq s1)) (dpID dep) 10 s1 of
                       (Inl err, s2) \<Rightarrow> bump s2
                     | (Inr canary, s2) \<Rightarrow>
                         (let s3 = bump s2; n = psSeq s3; dep1 = dep\<lparr>dpStartedAt := Some (peNow env n), dpStatus := StatusCanary\<rparr>
                          in case UpdateDeployment (peOk env n) dep1 s3 of
                               (False, s4) \<Rightarrow> bump s4
                             | (True, s4) \<Rightarrow> dispatchRolloutGroup env dep1 Canary (bump s4)))))"

definition advanceCanaryDeployment :: "patch_env \<Rightarrow> Deployment \<Rightarrow> patch_state \<Rightarrow> patch_state" where
  "advanceCanaryDeployment env dep s =
     (case map_of (psCache s) (dpPolicyID dep) of
        None \<Rightarrow> s
      | Some policy \<Rightarrow>
          (let s1 = (if maintenanceWindowAllows (local_now env (psSeq s)) (ppMaintenanceWin policy) then dispatchRolloutGroup env dep Canary s else s)
           in case GetRolloutJobGate (peOk env (psSeq s1)) (dpID dep) Canary s1 of
                Inl err \<Rightarrow> bump s1
              | Inr gate \<Rightarrow>
                  (let s2 = bump s1; n = psSeq s2;
                       dep1 = dep\<lparr>dpInstalled := cgSucceeded gate, dpFailed := cgFailed gate, dpPending := dpDeviceCount dep - cgCompleted gate\<rparr>
                   in if \<not> Ready gate then s2
                      else if \<not> Passes gate 90 then
                        bump (snd (UpdateDeployment (peOk env n) (dep1\<lparr>dpStatus := StatusFailed, dpCompletedAt := Some (peNow env n)\<rparr>) s2))
                      else
                        (case UpdateDeployment (peOk env n) (dep1\<lparr>dpStatus := StatusDeploying\<rparr>) s2 of
                           (False, s3) \<Rightarrow> bump s3
                         | (True, s3) \<Rightarrow>
                             (let s4 = bump (s3\<lparr>psEvents := psEvents s3 @ [GateOpened (dpID dep) gate]\<rparr>)
                              in if maintenanceWindowAllows (local_now env (psSeq s4)) (ppMaintenanceWin policy)
                                 then dispatchRolloutGroup env (dep1\<lparr>dpStatus := StatusDeploying\<rparr>) Broad s4 else s4)))))"

definition advanceDeployingDeployment :: "patch_env \<Rightarrow> Deployment \<Rightarrow> patch_state \<Rightarrow> patch_state" where
  "advanceDeployingDeployment env dep s =
     (case map_of (psCache s) (dpPolicyID dep) of
        None \<Rightarrow> s
      | Some policy \<Rightarrow>
          (let s1 = (if maintenanceWindowAllows (local_now env (psSeq s)) (ppMaintenanceWin policy) then dispatchRolloutGroup env dep Broad s else s)
           in case GetDeploymentJobGate (peOk env (psSeq s1)) (dpID dep) s1 of
                Inl err \<Rightarrow> bump s1
              | Inr gate \<Rightarrow>
                  (let s2 = bump s1; n = psSeq s2;
                       dep1 = dep\<lparr>dpInstalled := cgSucceeded gate, dpFailed := cgFailed gate, dpPending := cgTotal gate - cgCompleted gate\<rparr>;
                       dep2 = (if Ready gate
                               then dep1\<lparr>dpCompletedAt := Some (peNow env n), dpStatus := (if 0 < cgFailed gate then StatusFailed else StatusCompleted)\<rparr>
                               else dep1)
                   in bump (snd (UpdateDeployment (peOk env n) dep2 s2)))))"

definition GetPendingDeployments :: "bool \<Rightarrow> instant \<Rightarrow> patch_state \<Rightarrow> (Deployment list) option" where
  "GetPendingDeployments ok now s =
     (if ok then Some (sort_key dpScheduledFor (filter (\<lambda>d. dpStatus d = StatusPending \<and> dpScheduledFor d \<le> now) (psDeployments s))) else None)"

text \<open>Deployments without a start come first.\<close>

definition getDeploymentsByStatus :: "bool \<Rightarrow> PatchStatus \<Rightarrow> patch_state \<Rightarrow> (Deployment list) option" where
  "getDeploymentsByStatus ok status s =
     (if ok then
        (let ds = sort_key dpScheduledFor (filter (\<lambda>d. dpStatus d = status) (psDeployments s))
         in Some (filter (\<lambda>d. dpStartedAt d = None) ds @
                  sort_key (\<lambda>d. case dpStartedAt d of None \<Rightarrow> 0 | Some t \<Rightarrow> t) (filter (\<lambda>d. dpStartedAt d \<noteq> None) ds)))
      else None)"

definition processScheduledDeployments :: "patch_env \<Rightarrow> patch_state \<Rightarrow> patch_state" where
  "processScheduledDeployments env s =
     (case GetPendingDeployments (peOk env (psSeq s)) (peNow env (psSeq s)) s of
        None \<Rightarrow> bump s
      | Some pending \<Rightarrow>
          (let s1 = fold (\<lambda>d x. if peNow env (psSeq x) < dpScheduledFor d then x else executeDeployment env d x) pending (bump s)
           in case getDeploymentsByStatus (peOk env (psSeq s1)) StatusCanary s1 of
                None \<Rightarrow> bump s1
              | Some canaries \<Rightarrow>
                  (let s2 = fold (advanceCanaryDeployment env) canaries (bump s1)
                   in case getDeploymentsByStatus (peOk env (psSeq s2)) StatusDeploying s2 of
                        None \<Rightarrow> bump s2
                      | Some deploying \<Rightarrow> fold (advanceDeployingDeployment env) deploying (bump s2))))"

section \<open>Policies, deployments and results\<close>

definition CreatePolicy :: "bool \<Rightarrow> PatchPolicy \<Rightarrow> patch_state \<Rightarrow> bool \<times> patch_state" where
  "CreatePolicy ok p s =
     (if \<not> ok then (False, s)
      else
        (True, s\<lparr>psPolicies := (if list_ex (\<lambda>x. ppID x = ppID p) (psPolicies s)
                   then map (\<lambda>x. if ppID x = ppID p then p\<lparr>ppTenantID := ppTenantID x\<rparr> else x) (psPolicies s)
                   else psPolicies s @ [p]),
                 psCache := (ppID p, p) # filter (\<lambda>(k, _). k \<noteq> ppID p) (psCache s)\<rparr>))"

text \<open>Deleting a policy deletes its deployments, their devices and their patches.\<close>

definition DeletePolicy :: "bool \<Rightarrow> string \<Rightarrow> patch_state \<Rightarrow> bool \<times> patch_state" where
  "DeletePolicy ok policyID s =
     (if \<not> ok then (False, s)
      else
        (let gone = map dpID (filter (\<lambda>d. dpPolicyID d = policyID) (psDeployments s))
         in (True, s\<lparr>psPolicies := filter (\<lambda>x. ppID x \<noteq> policyID) (psPolicies s),
                     psDeployments := filter (\<lambda>d. dpPolicyID d \<noteq> policyID) (psDeployments s),
                     psRows := filter (\<lambda>r. \<not> List.member gone (rwDeployment r)) (psRows s),
                     psPatches := filter (\<lambda>(d, _). \<not> List.member gone d) (psPatches s),
                     psCache := filter (\<lambda>(k, _). k \<noteq> policyID) (psCache s)\<rparr>)))"

fun normalizeDeploymentIDs :: "string list \<Rightarrow> string list \<Rightarrow> string list" where
  "normalizeDeploymentIDs seen [] = []"
| "normalizeDeploymentIDs seen (x # xs) =
     (let v = TrimSpace x
      in if v = [] \<or> List.member seen v then normalizeDeploymentIDs seen xs else v # normalizeDeploymentIDs (v # seen) xs)"

definition dec_time :: "(string \<times> json) list \<Rightarrow> string \<Rightarrow> bool" where
  "dec_time kvs name =
     list_all (\<lambda>v. case v of JNull \<Rightarrow> True | JStr t \<Rightarrow> Parse_RFC3339 t \<noteq> None | _ \<Rightarrow> False) (json_fields name kvs)"

text \<open>The identifiers in a JSON array of patches; \<^verbatim>\<open>null\<close> elements are skipped, a badly typed field fails the decoding.\<close>

definition patch_id_of :: "(string \<times> json) list \<Rightarrow> string option" where
  "patch_id_of kvs =
     (if list_all (\<lambda>f. dec_str kvs f \<noteq> None) [''tenant_id'', ''kb'', ''title'', ''platform'', ''severity'', ''description''] \<and>
         dec_strs kvs ''cve'' \<noteq> None \<and> dec_time kvs ''published'' \<and> dec_time kvs ''created_at''
      then dec_str kvs ''id'' else None)"

fun missing_ids :: "json list \<Rightarrow> (string list) option" where
  "missing_ids [] = Some []"
| "missing_ids (JNull # vs) = missing_ids vs"
| "missing_ids (JObj kvs # vs) =
     (case (patch_id_of kvs, missing_ids vs) of (Some i, Some is) \<Rightarrow> Some (TrimSpace i # is) | _ \<Rightarrow> None)"
| "missing_ids (_ # vs) = None"

definition validatePatchSelectionSnapshot :: "json \<Rightarrow> string list \<Rightarrow> string \<Rightarrow> patch_error option" where
  "validatePatchSelectionSnapshot snapshot patchIDs deviceID =
     (case snapshot of
        JObj kvs \<Rightarrow>
          (case dec_raw kvs ''missing'' of
             None \<Rightarrow> Some (PatchInventoryInvalid deviceID)
           | Some v \<Rightarrow>
               (case (case v of JNull \<Rightarrow> Some [] | JArr xs \<Rightarrow> missing_ids xs | _ \<Rightarrow> None) of
                  None \<Rightarrow> Some (PatchInventoryInvalid deviceID)
                | Some ids \<Rightarrow>
                    (case find (\<lambda>p. \<not> List.member ids p) patchIDs of
                       None \<Rightarrow> None
                     | Some p \<Rightarrow> Some (PatchSelectionNotMissing deviceID p))))
      | _ \<Rightarrow> Some (PatchInventoryInvalid deviceID))"

text \<open>The latest snapshot of a device: the inventory has the newest first.\<close>

definition latest_snapshot :: "patch_state \<Rightarrow> string \<Rightarrow> string \<Rightarrow> json option" where
  "latest_snapshot s tenantID deviceID =
     (if list_ex (\<lambda>d. pvID d = deviceID \<and> pvTenantID d = tenantID \<and> \<not> pvDisabled d) (psDevices s)
      then map_option (\<lambda>(_, _, v). v) (find (\<lambda>(t, d, _). t = tenantID \<and> d = deviceID) (psInventory s)) else None)"

fun check_devices :: "patch_state \<Rightarrow> string \<Rightarrow> string list \<Rightarrow> string list \<Rightarrow> patch_error option" where
  "check_devices s tenantID patchIDs [] = None"
| "check_devices s tenantID patchIDs (d # ds) =
     (case latest_snapshot s tenantID d of
        None \<Rightarrow> Some (PatchInventoryUnavailable d)
      | Some snapshot \<Rightarrow>
          (case validatePatchSelectionSnapshot snapshot patchIDs d of
             Some err \<Rightarrow> Some err
           | None \<Rightarrow> check_devices s tenantID patchIDs ds))"

definition CreateDeploymentWithPatches :: "bool \<Rightarrow> instant \<Rightarrow> Deployment \<Rightarrow> string list \<Rightarrow> string list \<Rightarrow> patch_state \<Rightarrow> patch_error option \<times> patch_state" where
  "CreateDeploymentWithPatches ok now dep deviceIDs patchIDs s =
     (let ds = normalizeDeploymentIDs [] deviceIDs; ps = normalizeDeploymentIDs [] patchIDs;
          created = (if dpCreatedAt dep = zero_time then now else dpCreatedAt dep);
          scheduled = (if dpScheduledFor dep = zero_time then now else dpScheduledFor dep)
      in if dpID dep = [] \<or> dpPolicyID dep = [] \<or> dpTenantID dep = [] then (Some IncompleteIdentity, s)
         else if ds = [] then (Some NoDevices, s)
         else if ps = [] then (Some NoDeploymentPatches, s)
         else if \<not> ok then (Some DatabaseError, s)
         else case check_devices s (dpTenantID dep) ps ds of
                Some err \<Rightarrow> (Some err, s)
              | None \<Rightarrow>
                  if list_ex (\<lambda>x. dpID x = dpID dep) (psDeployments s) \<or> \<not> list_ex (\<lambda>p. ppID p = dpPolicyID dep) (psPolicies s)
                  then (Some DatabaseError, s)
                  else
                    (None,
                     s\<lparr>psDeployments := psDeployments s @
                         [dep\<lparr>dpStatus := StatusPending, dpDeviceCount := int (length ds), dpInstalled := 0, dpFailed := 0, dpPending := 0,
                              dpScheduledFor := scheduled, dpStartedAt := None, dpCompletedAt := None, dpCreatedAt := created\<rparr>],
                       psRows := psRows s @ map (\<lambda>d. \<lparr>rwDeployment = dpID dep, rwDevice = d, rwGroup = Broad, rwDispatchedAt = None,
                                                       rwAttempts = 0, rwJob = None, rwTarget = None\<rparr>) ds,
                       psPatches := psPatches s @ map (\<lambda>p. (dpID dep, p)) ps\<rparr>))"

definition handlePatchInventory :: "bool \<Rightarrow> string \<Rightarrow> string \<Rightarrow> json \<Rightarrow> json \<Rightarrow> patch_state \<Rightarrow> patch_state" where
  "handlePatchInventory ok tenantID deviceID installed missing s =
     (if ok then s\<lparr>psInventory := (tenantID, deviceID, JObj [(''installed'', installed), (''missing'', missing)]) # psInventory s\<rparr> else s)"

definition patchAgentTransportIdentity :: "string \<Rightarrow> string \<Rightarrow> (string \<times> string) option" where
  "patchAgentTransportIdentity subject terminal =
     (case Split CHR ''.'' subject of
        [a, tenantID, b, deviceID, c, d] \<Rightarrow>
          if a = ''tenant'' \<and> b = ''agent'' \<and> c = ''patch'' \<and> d = terminal \<and> tenantID \<noteq> [] \<and> deviceID \<noteq> [] \<and>
             \<not> list_ex (\<lambda>x. x = CHR ''*'' \<or> x = CHR ''>'' \<or> x = CHR '' '') (tenantID @ deviceID)
          then Some (tenantID, deviceID) else None
      | _ \<Rightarrow> None)"

definition normalizePatchResultError :: "string \<Rightarrow> string" where
  "normalizePatchResultError v = take 4096 v"

definition validPatchResultStatus :: "PatchStatus \<Rightarrow> bool" where
  "validPatchResultStatus st \<longleftrightarrow> st = StatusInstalled \<or> st = StatusFailed \<or> st = StatusRebootReq"

definition terminal_result :: "PatchStatus \<Rightarrow> bool" where
  "terminal_result st \<longleftrightarrow> st = StatusInstalled \<or> st = StatusRebootReq"

definition ApplyDevicePatchResult ::
  "bool \<Rightarrow> string \<Rightarrow> string \<Rightarrow> string \<Rightarrow> string \<Rightarrow> PatchStatus \<Rightarrow> string \<Rightarrow> patch_state \<Rightarrow> patch_error option \<times> patch_state" where
  "ApplyDevicePatchResult ok tenantID deviceID deploymentID patchID status resultError s =
     (if tenantID = [] \<or> deviceID = [] \<or> deploymentID = [] \<or> patchID = [] then (Some IncompleteIdentity, s)
      else if \<not> validPatchResultStatus status then (Some InvalidResultStatus, s)
      else if \<not> ok then (Some DatabaseError, s)
      else case find (\<lambda>d. dpID d = deploymentID \<and> dpTenantID d = tenantID) (psDeployments s) of
             None \<Rightarrow> (Some PatchResultScope, s)
           | Some dep \<Rightarrow>
               (case policy_of dep s of
                  None \<Rightarrow> (Some PatchResultScope, s)
                | Some pol \<Rightarrow>
                    if \<not> list_ex (\<lambda>r. rwDeployment r = deploymentID \<and> rwDevice r = deviceID) (psRows s) \<or> \<not> tenant_valid s dep deviceID
                    then (Some PatchResultScope, s)
                    else
                      (let err = normalizePatchResultError resultError;
                           hit = (\<lambda>x. dsDeployment x = deploymentID \<and> dsDevice x = deviceID \<and> dsPatch x = patchID)
                       in if list_ex hit (psStates s) then
                            (None, s\<lparr>psStates := map (\<lambda>x. if hit x \<and> (dsStatus x \<noteq> status \<or> dsError x \<noteq> err) \<and>
                                         \<not> (terminal_result (dsStatus x) \<and> dsStatus x \<noteq> status)
                                       then x\<lparr>dsStatus := status, dsAttempts := min (dsAttempts x + 1) (maxPatchAttempts (ppMaxRetries pol)), dsError := err\<rparr>
                                       else x) (psStates s)\<rparr>)
                          else
                            (None, s\<lparr>psStates := psStates s @ [\<lparr>dsDeployment = deploymentID, dsDevice = deviceID, dsPatch = patchID, dsStatus = status,
                                       dsAttempts = 1, dsError = err\<rparr>]\<rparr>))))"

section \<open>Runs\<close>

text \<open>
  One operation at a time: a tick of the scheduler, administration, inventory and results, and whatever the job pipeline and device
  management do to their tables in between.
\<close>

datatype patch_op =
    PatchTick
  | PatchCreatePolicy bool PatchPolicy
  | PatchCreate bool instant Deployment "string list" "string list"
  | PatchInventory bool string string json json
  | PatchResult bool string string string string PatchStatus string
  | JobPipeline jobdb
  | DeviceManagement "patch_device list"

fun apply_patch_op :: "patch_env \<Rightarrow> patch_op \<Rightarrow> patch_state \<Rightarrow> patch_state" where
  "apply_patch_op env PatchTick s = processScheduledDeployments env s"
| "apply_patch_op env (PatchCreatePolicy ok p) s = snd (CreatePolicy ok p s)"
| "apply_patch_op env (PatchCreate ok now dep ds ps) s = snd (CreateDeploymentWithPatches ok now dep ds ps s)"
| "apply_patch_op env (PatchInventory ok t d i m) s = handlePatchInventory ok t d i m s"
| "apply_patch_op env (PatchResult ok t d dep p st err) s = snd (ApplyDevicePatchResult ok t d dep p st err s)"
| "apply_patch_op env (JobPipeline db) s = s\<lparr>psJobs := db\<rparr>"
| "apply_patch_op env (DeviceManagement ds) s = s\<lparr>psDevices := ds\<rparr>"

definition run_patch_ops :: "patch_env \<Rightarrow> patch_op list \<Rightarrow> patch_state \<Rightarrow> patch_state" where
  "run_patch_ops env ops s = fold (apply_patch_op env) ops s"

end
