(* ===== verification/PatchSafety.thy ===== *)
theory PatchSafety
  imports PatchRollout
begin

text \<open>
  What patch deployments guarantee: work queued in a maintenance window ends with it, no device outside the canary group is
  patched before the canary gate has passed, and the attempts on a device are bounded whatever the job pipeline does.
\<close>

section \<open>Maintenance windows\<close>

lemma div_less_bound:
  assumes "0 < m" "y < e * m"
  shows "y div m < (e :: int)"
proof (rule ccontr)
  assume "\<not> y div m < e"
  then have "e * m \<le> y div m * m" using assms(1) by (simp add: mult_right_mono)
  also have "\<dots> \<le> y" using assms(1) by (metis add.commute div_mult_mod_eq le_add_same_cancel1 pos_mod_sign)
  finally show False using assms(2) by simp
qed

lemma TrimSpace_idem: "TrimSpace (TrimSpace s) = TrimSpace s"
proof -
  define t where "t = dropWhile space_char s"
  define u where "u = rev (dropWhile space_char (rev t))"
  have eq: "TrimSpace s = u" by (simp add: TrimSpace_def t_def u_def)
  have pre: "\<exists>v. t = u @ v"
    by (metis rev_append rev_rev_ident takeWhile_dropWhile_id u_def)
  have "dropWhile space_char u = u"
  proof (cases u)
    case (Cons c cs)
    then have "hd t = c" "t \<noteq> []" using pre by auto
    then have "\<not> space_char c" using hd_dropWhile [of space_char s] unfolding t_def by metis
    then show ?thesis using Cons by simp
  qed simp
  moreover have "dropWhile space_char (rev u) = rev u" by (simp add: u_def dropWhile_idem)
  ultimately show ?thesis unfolding eq by (simp add: TrimSpace_def)
qed

lemma minute_split: "0 \<le> x \<Longrightarrow> x < Day \<Longrightarrow> minute_of_day (k * Day + x) = x div Minute"
proof -
  assume x: "0 \<le> x" "x < Day"
  have d: "Day = 1440 * Minute" "0 < Minute" by (simp_all add: Day_def Hour_def Minute_def Second_def)
  have "k * Day + x = x + (k * 1440) * Minute" using d(1) by simp
  then have "(k * Day + x) div Minute = k * 1440 + x div Minute" using d(2) by (simp only: div_mult_self1)
  moreover have "0 \<le> x div Minute" using x d(2) by (simp add: pos_imp_zdiv_nonneg_iff)
  moreover have "x div Minute < 1440" using x d by (intro div_less_bound) simp_all
  ultimately show ?thesis by (simp add: minute_of_day_def)
qed

lemma clock_range:
  assumes "validMaintenanceClock c"
  shows "0 \<le> clock_minute c \<and> clock_minute c < 1440"
proof -
  obtain h1 h2 x m1 m2 where c: "c = [h1, h2, x, m1, m2]"
    using assms by (cases c rule: validMaintenanceClock.cases) auto
  have d: "digit_char y \<Longrightarrow> 0 \<le> digit_value y" for y by (simp add: digit_char_def digit_value_def Let_def)
  show ?thesis using assms d unfolding c by fastforce
qed

lemma window_range: "window_bounds w = Some (s, e) \<Longrightarrow> 0 \<le> s \<and> s < 1440 \<and> 0 \<le> e \<and> e < 1440"
  using clock_range by (auto simp: window_bounds_def Let_def split: list.splits if_splits)

lemma day_parts:
  obtains k x where "now = k * Day + x" "0 \<le> x" "x < Day" "now mod Day = x" "minute_of_day now = x div Minute"
proof -
  have pos: "0 < Day" by (simp add: Day_def Hour_def Minute_def Second_def)
  have "now = now div Day * Day + now mod Day" by simp
  moreover have "0 \<le> now mod Day" "now mod Day < Day" using pos by simp_all
  ultimately show ?thesis using that minute_split by metis
qed

text \<open>A time with its minute inside the bounds, and how far the bounds reach.\<close>

lemma bounds_until_end:
  assumes b: "0 \<le> s" "s < 1440" "0 \<le> e" "e < 1440" "s \<noteq> e" and now: "in_bounds s e (minute_of_day now)"
    and end1: "deadline = (if e < s \<and> s \<le> minute_of_day now then now - now mod Day + e * Minute + 24 * Hour else now - now mod Day + e * Minute)"
    and t: "now \<le> t" "t < deadline"
  shows "in_bounds s e (minute_of_day t)" "deadline \<le> now + Day"
proof -
  obtain k x where x: "now = k * Day + x" "0 \<le> x" "x < Day" "now mod Day = x" "minute_of_day now = x div Minute" by (rule day_parts)
  have u: "Day = 1440 * Minute" "24 * Hour = Day" "0 < Minute" by (simp_all add: Day_def Hour_def Minute_def Second_def)
  have le_div: "y div Minute \<le> z div Minute" if "y \<le> z" for y z using that u(3) by (simp add: zdiv_mono1)
  have less_end: "y div Minute < e" if "y < e * Minute" for y using that u(3) by (intro div_less_bound)
  consider (forward) "s < e" "s \<le> x div Minute" | (evening) "e < s" "s \<le> x div Minute" | (morning) "e < s" "x div Minute < e" "x div Minute < s"
    using now b(5) unfolding in_bounds_def x(5) by (cases "s < e"; cases "s \<le> x div Minute") auto
  then have both: "in_bounds s e (minute_of_day t) \<and> deadline \<le> now + Day"
  proof cases
    case forward
    have dl: "deadline = k * Day + e * Minute" using end1 forward x by simp
    define y where "y = t - k * Day"
    have y: "t = k * Day + y" "x \<le> y" "y < e * Minute" using t dl x(1) by (simp_all add: y_def)
    have "e * Minute < Day" using mult_strict_right_mono [OF b(4) u(3)] u(1) by simp
    then have "minute_of_day t = y div Minute" using y x(2) by (simp add: minute_split)
    then show ?thesis using forward le_div [OF y(2)] less_end [OF y(3)] dl x(1,2) \<open>e * Minute < Day\<close> by (auto simp: in_bounds_def)
  next
    case evening
    have dl: "deadline = k * Day + Day + e * Minute" using end1 evening x u(2) by simp
    have xe: "e * Minute \<le> x" using evening u(3) less_end [of x] by (meson not_less order.strict_trans2 order_less_imp_le)
    show ?thesis
    proof (cases "t < k * Day + Day")
      case True
      define y where "y = t - k * Day"
      have y: "t = k * Day + y" "x \<le> y" "y < Day" using t True x(1) by (simp_all add: y_def)
      then have "minute_of_day t = y div Minute" using x(2) by (simp add: minute_split)
      then show ?thesis using evening le_div [OF y(2)] dl x(1) xe by (auto simp: in_bounds_def)
    next
      case False
      define y where "y = t - (k + 1) * Day"
      have y: "t = (k + 1) * Day + y" "0 \<le> y" "y < e * Minute" using t False dl by (simp_all add: y_def algebra_simps)
      have "e * Minute < Day" using mult_strict_right_mono [OF b(4) u(3)] u(1) by simp
      then have "minute_of_day t = y div Minute" using y by (simp add: minute_split)
      then show ?thesis using evening less_end [OF y(3)] dl x(1) xe by (auto simp: in_bounds_def)
    qed
  next
    case morning
    have dl: "deadline = k * Day + e * Minute" using end1 morning x by simp
    define y where "y = t - k * Day"
    have y: "t = k * Day + y" "0 \<le> y" "y < e * Minute" using t dl x(1,2) by (simp_all add: y_def)
    have "e * Minute < Day" using mult_strict_right_mono [OF b(4) u(3)] u(1) by simp
    then have "minute_of_day t = y div Minute" using y by (simp add: minute_split)
    then show ?thesis using morning less_end [OF y(3)] dl x(1,2) \<open>e * Minute < Day\<close> by (auto simp: in_bounds_def)
  qed
  then show "in_bounds s e (minute_of_day t)" "deadline \<le> now + Day" by simp_all
qed

text \<open>
  Work queued for a maintenance window expires with the window: the deadline lies in the future, at most a day ahead for a
  configured window and three days for an unrestricted one, and the window admits every moment until then.
\<close>

theorem window_deadline:
  assumes "maintenanceWindowDeadline now window = Inr deadline"
  shows "now < deadline \<and> deadline \<le> now + 72 * Hour \<and>
    (\<forall>t. now \<le> t \<longrightarrow> t < deadline \<longrightarrow> maintenanceWindowAllows t window)"
proof -
  define w where "w = TrimSpace window"
  have allows: "maintenanceWindowAllows t window = (if w = [] then True else case window_bounds w of None \<Rightarrow> False | Some (s, e) \<Rightarrow> in_bounds s e (minute_of_day t))" for t
    by (simp add: maintenanceWindowAllows_def w_def)
  have hours: "0 < 72 * Hour" "Day \<le> 72 * Hour" by (simp_all add: Day_def Hour_def Minute_def Second_def)
  show ?thesis
  proof (cases "w = []")
    case True
    then show ?thesis using assms hours by (simp add: maintenanceWindowDeadline_def w_def [symmetric] allows)
  next
    case False
    then obtain s e where se: "window_bounds w = Some (s, e)"
      using assms by (auto simp: maintenanceWindowDeadline_def w_def [symmetric] split: option.splits)
    show ?thesis
    proof (cases "s = e")
      case True
      then show ?thesis using assms False se hours by (simp add: maintenanceWindowDeadline_def w_def [symmetric] allows in_bounds_def)
    next
      case ne: False
      have trim: "TrimSpace w = w" by (simp add: w_def TrimSpace_idem)
      have inb: "in_bounds s e (minute_of_day now)" and dl: "now < deadline"
        "deadline = (if e < s \<and> s \<le> minute_of_day now then now - now mod Day + e * Minute + 24 * Hour else now - now mod Day + e * Minute)"
        using assms False se ne trim
        by (auto simp: maintenanceWindowDeadline_def w_def [symmetric] maintenanceWindowAllows_def [of now w] Let_def split: if_splits)
      have "in_bounds s e (minute_of_day t)" "deadline \<le> now + Day" if "now \<le> t" "t < deadline" for t
        using bounds_until_end [OF _ _ _ _ ne inb dl(2) that] window_range [OF se] by simp_all
      then show ?thesis using dl(1) hours False se by (fastforce simp: allows)
    qed
  qed
qed

section \<open>Histories\<close>

definition attempts :: "string \<Rightarrow> string \<Rightarrow> patch_event list \<Rightarrow> int list" where
  "attempts d dev evs =
     List.map_filter (\<lambda>e. case e of WorkQueued a b _ n _ _ _ _ \<Rightarrow> if a = d \<and> b = dev then Some n else None | GateOpened _ _ \<Rightarrow> None) evs"

definition opened :: "string \<Rightarrow> patch_event list \<Rightarrow> bool" where
  "opened d evs = list_ex (\<lambda>e. case e of GateOpened x _ \<Rightarrow> x = d | WorkQueued _ _ _ _ _ _ _ _ \<Rightarrow> False) evs"

text \<open>Every gate that opens passes, and a job outside the canary group comes after the gate of its deployment.\<close>

fun gated :: "string list \<Rightarrow> patch_event list \<Rightarrow> bool" where
  "gated passed [] = True"
| "gated passed (GateOpened d g # evs) = (Passes g 90 \<and> gated (d # passed) evs)"
| "gated passed (WorkQueued d dev grp n retries cap t expires # evs) = ((grp = Broad \<longrightarrow> List.member passed d) \<and> gated passed evs)"

fun event_deployment :: "patch_event \<Rightarrow> string" where
  "event_deployment (GateOpened d g) = d"
| "event_deployment (WorkQueued d dev grp n retries cap t expires) = d"

text \<open>The attempts an event grants stay within the budget of the policy and the eleven the code allows at most.\<close>

fun within_budget :: "patch_event \<Rightarrow> bool" where
  "within_budget (GateOpened d g) = True"
| "within_budget (WorkQueued d dev grp n retries cap t expires) = (1 \<le> n \<and> 0 \<le> retries \<and> n + retries \<le> cap \<and> cap \<le> 11)"

lemma attempts_simps [simp]:
  "attempts d dev [] = []"
  "attempts d dev (evs @ [GateOpened x g]) = attempts d dev evs"
  "attempts d dev (evs @ [WorkQueued a b grp n retries cap t expires]) = attempts d dev evs @ (if a = d \<and> b = dev then [n] else [])"
  by (simp_all add: attempts_def List.map_filter_def)

lemma attempts_event:
  assumes "a \<in> set (attempts d dev evs)"
  shows "\<exists>grp retries cap t expires. WorkQueued d dev grp a retries cap t expires \<in> set evs"
  using assms
proof (induction evs rule: rev_induct)
  case (snoc e evs)
  show ?case
  proof (cases e)
    case (GateOpened x g)
    then show ?thesis using snoc by auto
  next
    case (WorkQueued x y grp n retries cap t expires)
    then consider "a \<in> set (attempts d dev evs)" | "x = d" "y = dev" "n = a" using snoc.prems by (auto split: if_splits)
    then show ?thesis
    proof cases
      case 1
      then show ?thesis using snoc.IH by (metis UnI1 set_append)
    next
      case 2
      then have "WorkQueued d dev grp a retries cap t expires \<in> set (evs @ [e])" using WorkQueued by simp
      then show ?thesis by blast
    qed
  qed
qed simp

lemma opened_simps [simp]:
  "opened d [] = False"
  "opened d (evs @ [GateOpened x g]) \<longleftrightarrow> opened d evs \<or> x = d"
  "opened d (evs @ [WorkQueued a b grp n retries cap t expires]) = opened d evs"
  by (auto simp: opened_def)

lemma gated_snoc [simp]:
  "gated passed (evs @ [GateOpened d g]) \<longleftrightarrow> gated passed evs \<and> Passes g 90"
  "gated passed (evs @ [WorkQueued d dev grp n retries cap t expires]) \<longleftrightarrow>
     gated passed evs \<and> (grp = Broad \<longrightarrow> List.member passed d \<or> opened d evs)"
  by (induction passed evs rule: gated.induct) (auto simp: opened_def)

section \<open>The invariant\<close>

definition keys_ok :: "patch_state \<Rightarrow> bool" where
  "keys_ok s \<longleftrightarrow>
     distinct (map dpID (psDeployments s)) \<and> distinct (map (\<lambda>r. (rwDeployment r, rwDevice r)) (psRows s)) \<and>
     rwDeployment ` set (psRows s) \<subseteq> dpID ` set (psDeployments s) \<and> event_deployment ` set (psEvents s) \<subseteq> dpID ` set (psDeployments s)"

definition gates_ok :: "patch_state \<Rightarrow> bool" where
  "gates_ok s \<longleftrightarrow>
     gated [] (psEvents s) \<and> (\<forall>d \<in> set (psDeployments s). dpStatus d = StatusDeploying \<longrightarrow> opened (dpID d) (psEvents s))"

definition row_attempts_ok :: "patch_event list \<Rightarrow> rollout_row \<Rightarrow> bool" where
  "row_attempts_ok evs r \<longleftrightarrow> 0 \<le> rwAttempts r \<and> (\<forall>a \<in> set (attempts (rwDeployment r) (rwDevice r) evs). a \<le> rwAttempts r)"

definition attempts_ok :: "patch_state \<Rightarrow> bool" where
  "attempts_ok s \<longleftrightarrow>
     (\<forall>d dev. sorted_wrt (<) (attempts d dev (psEvents s))) \<and> list_all within_budget (psEvents s) \<and>
     list_all (row_attempts_ok (psEvents s)) (psRows s) \<and>
     (\<forall>d \<in> set (psDeployments s). dpStatus d = StatusPending \<longrightarrow> (\<forall>dev. attempts (dpID d) dev (psEvents s) = []))"

definition jobs_ok :: "jobdb \<Rightarrow> bool" where
  "jobs_ok db = list_all (\<lambda>t. 0 \<le> t_retry_count t) (targets db)"

definition rollout_inv :: "patch_state \<Rightarrow> bool" where
  "rollout_inv s \<longleftrightarrow> keys_ok s \<and> gates_ok s \<and> attempts_ok s \<and> jobs_ok (psJobs s)"

lemmas inv_parts = rollout_inv_def keys_ok_def gates_ok_def attempts_ok_def

lemma rollout_inv_updates [simp]:
  "rollout_inv (bump s) = rollout_inv s" "rollout_inv (s\<lparr>psCache := c\<rparr>) = rollout_inv s" "rollout_inv (s\<lparr>psPolicies := p\<rparr>) = rollout_inv s"
  "rollout_inv (s\<lparr>psDevices := ds\<rparr>) = rollout_inv s" "rollout_inv (s\<lparr>psInventory := i\<rparr>) = rollout_inv s"
  "rollout_inv (s\<lparr>psStates := x\<rparr>) = rollout_inv s" "rollout_inv (s\<lparr>psPatches := y\<rparr>) = rollout_inv s"
  by (simp_all add: inv_parts bump_def)

lemma bump_simps [simp]:
  "psDeployments (bump s) = psDeployments s" "psRows (bump s) = psRows s" "psEvents (bump s) = psEvents s" "psJobs (bump s) = psJobs s"
  "psPolicies (bump s) = psPolicies s" "psDevices (bump s) = psDevices s" "psCache (bump s) = psCache s" "psPatches (bump s) = psPatches s"
  by (simp_all add: bump_def)

section \<open>Queueing a job\<close>

definition queued_row :: "string \<Rightarrow> string \<Rightarrow> string \<Rightarrow> string \<Rightarrow> instant \<Rightarrow> int \<Rightarrow> rollout_row \<Rightarrow> rollout_row" where
  "queued_row d dev job tgt now n x =
     (if rwDeployment x = d \<and> rwDevice x = dev
      then x\<lparr>rwJob := Some job, rwTarget := Some tgt, rwDispatchedAt := Some now, rwAttempts := n\<rparr> else x)"

lemma queued_row_simps [simp]:
  "rwDeployment (queued_row d dev job tgt now n x) = rwDeployment x" "rwDevice (queued_row d dev job tgt now n x) = rwDevice x"
  "rwGroup (queued_row d dev job tgt now n x) = rwGroup x"
  "rwAttempts (queued_row d dev job tgt now n x) = (if rwDeployment x = d \<and> rwDevice x = dev then n else rwAttempts x)"
  by (simp_all add: queued_row_def)

lemma consumed_bounds:
  assumes "consumed_attempts db cap r = Inr n" "jobs_ok db"
  shows "rwAttempts r \<le> n" "n < cap"
proof -
  have nonneg: "0 \<le> t_retry_count x" if "row_target db r = Some x" for x
    using that assms(2) find_SomeD unfolding row_target_def jobs_ok_def by (fastforce simp: list_all_iff split: option.splits)
  show "rwAttempts r \<le> n" "n < cap"
    using assms(1) nonneg by (auto simp: consumed_attempts_def Let_def split: if_splits option.splits)
qed

lemma Queue_full:
  assumes "snd (QueuePatchRolloutDevice env d dev s) \<noteq> s"
  obtains dep pol r dv n expires ids where "resolve_target d dev s = Some (dep, pol, r, dv)"
    "consumed_attempts (psJobs s) (policy_cap pol) r = Inr n"
    "maintenanceWindowDeadline (peNow env (psSeq s)) (ppMaintenanceWin pol) = Inr expires"
    "QueuePatchRolloutDevice env d dev s = queue_job env dep r dv (policy_cap pol) n expires ids s"
proof -
  have guards: "\<not> (d = [] \<or> dev = [])" "peOk env (psSeq s)"
    using assms by (auto simp: QueuePatchRolloutDevice_def Let_def split: if_splits)
  obtain dep pol r dv where t: "resolve_target d dev s = Some (dep, pol, r, dv)"
    using assms guards by (cases "resolve_target d dev s") (auto simp: QueuePatchRolloutDevice_def)
  obtain n where n: "consumed_attempts (psJobs s) (policy_cap pol) r = Inr n"
    using assms guards t by (cases "consumed_attempts (psJobs s) (policy_cap pol) r") (auto simp: QueuePatchRolloutDevice_def Let_def)
  obtain expires where e: "maintenanceWindowDeadline (peNow env (psSeq s)) (ppMaintenanceWin pol) = Inr expires"
    using assms guards t n by (cases "maintenanceWindowDeadline (peNow env (psSeq s)) (ppMaintenanceWin pol)")
      (auto simp: QueuePatchRolloutDevice_def Let_def)
  obtain ids where i: "GetDeploymentPatchIDs True d s = Inr ids"
    using assms guards t n e by (cases "GetDeploymentPatchIDs True d s") (auto simp: QueuePatchRolloutDevice_def Let_def)
  show ?thesis using that [OF t n e] guards t n e i by (simp add: QueuePatchRolloutDevice_def Let_def)
qed

lemma Queue_cases [consumes 1, case_names same queued]:
  assumes "jobs_ok (psJobs s)"
  obtains (same) "snd (QueuePatchRolloutDevice env d dev s) = s"
  | (queued) r n cap job tgt now expires db where
    "snd (QueuePatchRolloutDevice env d dev s) =
       s\<lparr>psJobs := db, psRows := map (queued_row d dev job tgt now (n + 1)) (psRows s),
         psEvents := psEvents s @ [WorkQueued d dev (rwGroup r) (n + 1) (cap - n - 1) cap now expires]\<rparr>"
    "r \<in> set (psRows s)" "rwDeployment r = d" "rwDevice r = dev" "rwAttempts r \<le> n" "n < cap" "cap \<le> 11" "jobs_ok db"
    "d \<in> dpID ` set (psDeployments s)"
proof (cases "snd (QueuePatchRolloutDevice env d dev s) = s")
  case False
  then obtain dep pol r dv n expires ids where full: "resolve_target d dev s = Some (dep, pol, r, dv)"
      "consumed_attempts (psJobs s) (policy_cap pol) r = Inr n"
      "QueuePatchRolloutDevice env d dev s = queue_job env dep r dv (policy_cap pol) n expires ids s"
    by (rule Queue_full)
  define cap where "cap = policy_cap pol"
  have dep: "find_deployment d s = Some dep" "find (\<lambda>r. rwDeployment r = d \<and> rwDevice r = dev) (psRows s) = Some r"
    using full(1) by (auto simp: resolve_target_def split: option.splits)
  have r: "r \<in> set (psRows s)" "rwDeployment r = d" "rwDevice r = dev" and d: "dep \<in> set (psDeployments s)" "dpID dep = d"
    using find_SomeD [OF dep(2)] find_SomeD [OF dep(1) [unfolded find_deployment_def]] by simp_all
  have n: "rwAttempts r \<le> n" "n < cap" using consumed_bounds [OF full(2) assms] by (simp_all add: cap_def)
  have cap: "cap \<le> 11" by (simp add: cap_def policy_cap_def maxPatchAttempts_def)
  have eq: "snd (QueuePatchRolloutDevice env d dev s) =
     s\<lparr>psJobs := psJobs (snd (QueuePatchRolloutDevice env d dev s)),
       psRows := map (queued_row d dev (peUUID env (psSeq s) 0) (peUUID env (psSeq s) 1) (peNow env (psSeq s)) (n + 1)) (psRows s),
       psEvents := psEvents s @ [WorkQueued d dev (rwGroup r) (n + 1) (cap - n - 1) cap (peNow env (psSeq s)) expires]\<rparr>"
    using False n(2) r(2,3) d(2) unfolding full(3) cap_def [symmetric] queue_job_def Let_def
    by (auto simp: queued_row_def fun_eq_iff)
  have "jobs_ok (psJobs (snd (QueuePatchRolloutDevice env d dev s)))"
    using False assms unfolding full(3) queue_job_def Let_def by (auto simp: jobs_ok_def patch_target_def)
  then show ?thesis using d by (intro queued [OF eq r n cap]) auto
qed (rule same)

lemma sorted_attempts_snoc:
  "sorted_wrt (<) as \<Longrightarrow> \<forall>a \<in> set as. a \<le> (m :: int) \<Longrightarrow> m < n \<Longrightarrow> sorted_wrt (<) (as @ [n])"
  by (force simp: sorted_wrt_append)

lemma inv_jobs: "rollout_inv s \<Longrightarrow> jobs_ok (psJobs s)"
  by (simp add: rollout_inv_def)

text \<open>A job may be queued for a deployment that has started and, outside the canary group, has passed its gate.\<close>

definition may_queue :: "string \<Rightarrow> string \<Rightarrow> patch_state \<Rightarrow> bool" where
  "may_queue d dev s \<longleftrightarrow>
     (\<forall>r \<in> set (psRows s). rwDeployment r = d \<and> rwDevice r = dev \<and> rwGroup r = Broad \<longrightarrow> opened d (psEvents s)) \<and>
     (\<forall>x \<in> set (psDeployments s). dpID x = d \<longrightarrow> dpStatus x \<noteq> StatusPending)"

lemma queue_inv:
  assumes inv: "rollout_inv s" and may: "may_queue d dev s"
  shows "rollout_inv (snd (QueuePatchRolloutDevice env d dev s))"
  using inv_jobs [OF inv]
proof (cases rule: Queue_cases [where env = env and d = d and dev = dev])
  case same
  then show ?thesis using inv by simp
next
  case (queued r n cap job tgt now expires db)
  define e where "e = WorkQueued d dev (rwGroup r) (n + 1) (cap - n - 1) cap now expires"
  define s' where "s' = s\<lparr>psJobs := db, psRows := map (queued_row d dev job tgt now (n + 1)) (psRows s), psEvents := psEvents s @ [e]\<rparr>"
  have old: "0 \<le> rwAttempts r" "\<forall>a \<in> set (attempts d dev (psEvents s)). a \<le> rwAttempts r"
    using inv queued(2-4) by (auto simp: inv_parts list_all_iff row_attempts_ok_def)
  have keys: "keys_ok s'"
    using inv queued(9) by (auto simp: rollout_inv_def keys_ok_def s'_def e_def comp_def)
  have gates: "gates_ok s'"
    using inv may queued(2-4) by (auto simp: rollout_inv_def gates_ok_def s'_def e_def may_queue_def)
  have "sorted_wrt (<) (attempts d dev (psEvents s) @ [n + 1])"
    using sorted_attempts_snoc [OF _ old(2), of "n + 1"] inv queued(5) by (simp add: inv_parts)
  then have sorted: "sorted_wrt (<) (attempts x y (psEvents s'))" for x y
    using inv by (auto simp: inv_parts s'_def e_def)
  have rows: "list_all (row_attempts_ok (psEvents s')) (psRows s')"
    using inv old queued(5) by (fastforce simp: inv_parts s'_def e_def list_all_iff row_attempts_ok_def)
  have "attempts_ok s'"
    using sorted rows inv may old(1) queued(5-7)
    by (auto simp: rollout_inv_def attempts_ok_def s'_def e_def may_queue_def)
  then show ?thesis
    using keys gates queued(8) unfolding queued(1) e_def [symmetric] s'_def [symmetric] by (simp add: rollout_inv_def s'_def)
qed

lemma queue_frame:
  assumes "jobs_ok (psJobs s)"
  shows "psDeployments (snd (QueuePatchRolloutDevice env d dev s)) = psDeployments s"
    "map (\<lambda>r. (rwDeployment r, rwDevice r, rwGroup r)) (psRows (snd (QueuePatchRolloutDevice env d dev s))) =
       map (\<lambda>r. (rwDeployment r, rwDevice r, rwGroup r)) (psRows s)"
    "opened x (psEvents s) \<Longrightarrow> opened x (psEvents (snd (QueuePatchRolloutDevice env d dev s)))"
  by (cases rule: Queue_cases [of s env d dev, OF assms]; simp add: comp_def)+

lemma same_groups:
  assumes "map (\<lambda>r. (rwDeployment r, rwDevice r, rwGroup r)) rows' = map (\<lambda>r. (rwDeployment r, rwDevice r, rwGroup r)) rows"
    "r' \<in> set rows'"
  shows "\<exists>r \<in> set rows. rwDeployment r = rwDeployment r' \<and> rwDevice r = rwDevice r' \<and> rwGroup r = rwGroup r'"
proof -
  have "(rwDeployment r', rwDevice r', rwGroup r') \<in> set (map (\<lambda>r. (rwDeployment r, rwDevice r, rwGroup r)) rows)"
    using assms(2) unfolding assms(1) [symmetric] by (auto intro: image_eqI)
  then show ?thesis by force
qed

lemma may_queue_mono:
  assumes "may_queue d y s" "psDeployments s' = psDeployments s" "\<And>x. opened x (psEvents s) \<Longrightarrow> opened x (psEvents s')"
    "map (\<lambda>r. (rwDeployment r, rwDevice r, rwGroup r)) (psRows s') = map (\<lambda>r. (rwDeployment r, rwDevice r, rwGroup r)) (psRows s)"
  shows "may_queue d y s'"
  unfolding may_queue_def
proof (intro conjI ballI impI)
  fix r' assume "r' \<in> set (psRows s')" "rwDeployment r' = d \<and> rwDevice r' = y \<and> rwGroup r' = Broad"
  then show "opened d (psEvents s')" using same_groups [OF assms(4)] assms(1,3) unfolding may_queue_def by metis
next
  fix x assume "x \<in> set (psDeployments s')" "dpID x = d"
  then show "dpStatus x \<noteq> StatusPending" using assms(1,2) by (simp add: may_queue_def)
qed

lemma queue_all_inv:
  "rollout_inv s \<Longrightarrow> \<forall>y \<in> set devs. may_queue d y s \<Longrightarrow>
   rollout_inv (fold (\<lambda>y x. bump (snd (QueuePatchRolloutDevice env d y x))) devs s) \<and>
   psDeployments (fold (\<lambda>y x. bump (snd (QueuePatchRolloutDevice env d y x))) devs s) = psDeployments s"
proof (induction devs arbitrary: s)
  case (Cons y devs)
  define s' where "s' = bump (snd (QueuePatchRolloutDevice env d y s))"
  have j: "jobs_ok (psJobs s)" using Cons.prems(1) by (simp add: rollout_inv_def)
  have "rollout_inv s'" using Cons.prems by (simp add: s'_def queue_inv)
  moreover have "\<forall>z \<in> set devs. may_queue d z s'"
    using Cons.prems(2) may_queue_mono [of d _ s s'] queue_frame [OF j, where env = env and d = d and dev = y] by (simp add: s'_def)
  ultimately show ?case using Cons.IH [of s'] queue_frame(1) [OF j, where env = env and d = d and dev = y] by (simp add: s'_def)
qed simp

lemma row_unique:
  assumes "keys_ok s" "r \<in> set (psRows s)" "q \<in> set (psRows s)" "rwDeployment r = rwDeployment q" "rwDevice r = rwDevice q"
  shows "r = q"
proof -
  have "inj_on (\<lambda>r. (rwDeployment r, rwDevice r)) (set (psRows s))" using assms(1) by (simp add: keys_ok_def distinct_map)
  then show ?thesis using assms(2-5) unfolding inj_on_def by blast
qed

text \<open>A deployment with this identifier has started.\<close>

definition started :: "string \<Rightarrow> patch_state \<Rightarrow> bool" where
  "started d s \<longleftrightarrow> (\<forall>x \<in> set (psDeployments s). dpID x = d \<longrightarrow> dpStatus x \<noteq> StatusPending)"

lemma dispatch_inv:
  assumes inv: "rollout_inv s" and st: "started (dpID dep) s" and grp: "grp = Canary \<or> opened (dpID dep) (psEvents s)"
  shows "rollout_inv (dispatchRolloutGroup env dep grp s) \<and> psDeployments (dispatchRolloutGroup env dep grp s) = psDeployments s"
proof (cases "GetUndispatchedRolloutDevices (peOk env (psSeq s)) (dpID dep) grp s")
  case (Inl err)
  then show ?thesis using inv by (simp add: dispatchRolloutGroup_def)
next
  case (Inr devs)
  have "may_queue (dpID dep) y (bump s)" if y: "y \<in> set devs" for y
  proof -
    obtain r where r: "r \<in> set (psRows s)" "rwDeployment r = dpID dep" "rwDevice r = y" "rwGroup r = grp"
      using Inr y find_SomeD
      by (fastforce simp: GetUndispatchedRolloutDevices_def rollout_rows_def find_deployment_def split: if_splits option.splits)
    have "keys_ok s" using inv by (simp add: rollout_inv_def)
    then have "rwGroup q = grp" if "q \<in> set (psRows s)" "rwDeployment q = dpID dep" "rwDevice q = y" for q
      using row_unique [OF _ r(1) that(1)] r that by simp
    then show ?thesis using grp st by (auto simp: may_queue_def started_def)
  qed
  then show ?thesis using queue_all_inv [of "bump s" devs "dpID dep" env] inv Inr by (simp add: dispatchRolloutGroup_def)
qed

section \<open>Phases\<close>

definition status_at :: "patch_state \<Rightarrow> string \<Rightarrow> PatchStatus \<Rightarrow> bool" where
  "status_at s d st \<longleftrightarrow> (\<forall>x \<in> set (psDeployments s). dpID x = d \<longrightarrow> dpStatus x = st)"

definition others_same :: "string \<Rightarrow> patch_state \<Rightarrow> patch_state \<Rightarrow> bool" where
  "others_same d s s' \<longleftrightarrow>
     map dpID (psDeployments s') = map dpID (psDeployments s) \<and> (\<forall>x st. x \<noteq> d \<longrightarrow> status_at s x st \<longrightarrow> status_at s' x st)"

lemma others_refl [simp]: "others_same d s s"
  by (simp add: others_same_def)

lemma others_trans: "others_same d s s' \<Longrightarrow> others_same d s' s'' \<Longrightarrow> others_same d s s''"
  by (simp add: others_same_def)

lemma others_deployments: "psDeployments s' = psDeployments s \<Longrightarrow> others_same d s s'"
  by (simp add: others_same_def status_at_def)

lemma update_status:
  "others_same (dpID dep) s (snd (UpdateDeployment ok dep s))"
  "fst (UpdateDeployment ok dep s) \<Longrightarrow> status_at (snd (UpdateDeployment ok dep s)) (dpID dep) (dpStatus dep)"
  by (auto simp: others_same_def status_at_def UpdateDeployment_def comp_def split: if_splits)

lemma update_frame [simp]:
  "psRows (snd (UpdateDeployment ok dep s)) = psRows s" "psEvents (snd (UpdateDeployment ok dep s)) = psEvents s"
  "psJobs (snd (UpdateDeployment ok dep s)) = psJobs s" "map dpID (psDeployments (snd (UpdateDeployment ok dep s))) = map dpID (psDeployments s)"
  by (auto simp: UpdateDeployment_def comp_def)

lemma keys_ok_ids:
  "keys_ok s \<longleftrightarrow>
     distinct (map dpID (psDeployments s)) \<and> distinct (map (\<lambda>r. (rwDeployment r, rwDevice r)) (psRows s)) \<and>
     rwDeployment ` set (psRows s) \<subseteq> set (map dpID (psDeployments s)) \<and> event_deployment ` set (psEvents s) \<subseteq> set (map dpID (psDeployments s))"
  by (simp add: keys_ok_def)

lemma update_deployments:
  "x \<in> set (psDeployments (snd (UpdateDeployment ok dep s))) \<Longrightarrow>
     x \<in> set (psDeployments s) \<or> dpID x = dpID dep \<and> dpStatus x = dpStatus dep"
  by (auto simp: UpdateDeployment_def split: if_splits)

lemma update_inv:
  assumes "rollout_inv s" "dpStatus dep \<noteq> StatusPending" "dpStatus dep = StatusDeploying \<longrightarrow> opened (dpID dep) (psEvents s)"
  shows "rollout_inv (snd (UpdateDeployment ok dep s))"
proof -
  have "keys_ok (snd (UpdateDeployment ok dep s))" using assms(1) by (simp only: rollout_inv_def keys_ok_ids update_frame)
  moreover have "gates_ok (snd (UpdateDeployment ok dep s))"
    using assms update_deployments [of _ ok dep s] unfolding rollout_inv_def gates_ok_def update_frame by metis
  moreover have "attempts_ok (snd (UpdateDeployment ok dep s))"
    using assms update_deployments [of _ ok dep s] unfolding rollout_inv_def attempts_ok_def update_frame by metis
  ultimately show ?thesis using assms(1) by (simp add: rollout_inv_def)
qed

text \<open>Opening the gate: the phase and the event together.\<close>

lemma open_gate_inv:
  assumes "rollout_inv s" "Passes gate 90" "dpStatus dep = StatusDeploying" "UpdateDeployment ok dep s = (True, s')" "dpID dep \<in> dpID ` set (psDeployments s)"
  shows "rollout_inv (s'\<lparr>psEvents := psEvents s' @ [GateOpened (dpID dep) gate]\<rparr>)"
proof -
  define s0 where "s0 = s\<lparr>psEvents := psEvents s @ [GateOpened (dpID dep) gate]\<rparr>"
  have "rollout_inv s0" using assms(1,2,5) by (auto simp: inv_parts s0_def list_all_iff row_attempts_ok_def)
  then have "rollout_inv (snd (UpdateDeployment ok dep s0))" using assms(3) by (intro update_inv) (simp_all add: s0_def)
  moreover have "snd (UpdateDeployment ok dep s0) = s'\<lparr>psEvents := psEvents s' @ [GateOpened (dpID dep) gate]\<rparr>"
    using assms(4) by (auto simp: UpdateDeployment_def s0_def split: if_splits)
  ultimately show ?thesis by simp
qed

lemma prepare_inv:
  assumes "rollout_inv s" "status_at s d StatusPending"
  shows "rollout_inv (snd (PrepareCanaryRollout ok d p s)) \<and> psDeployments (snd (PrepareCanaryRollout ok d p s)) = psDeployments s"
proof (cases "GetCanaryDeploymentDevices ok d p s")
  case (Inl err)
  then show ?thesis using assms(1) by (simp add: PrepareCanaryRollout_def)
next
  case (Inr canary)
  define f where "f r = (if rwDeployment r = d then r\<lparr>rwGroup := (if List.member canary (rwDevice r) then Canary else Broad),
      rwDispatchedAt := None, rwAttempts := 0\<rparr> else r)" for r :: rollout_row
  have f: "rwDeployment (f r) = rwDeployment r" "rwDevice (f r) = rwDevice r" for r by (simp_all add: f_def)
  have eq: "snd (PrepareCanaryRollout ok d p s) = s\<lparr>psRows := map f (psRows s)\<rparr>"
    using Inr by (simp add: PrepareCanaryRollout_def f_def)
  have none: "attempts d dev (psEvents s) = []" if r: "r \<in> set (psRows s)" "rwDeployment r = d" for r dev
  proof -
    have "rwDeployment r \<in> dpID ` set (psDeployments s)" using r(1) assms(1) unfolding rollout_inv_def keys_ok_def by blast
    then obtain x where "x \<in> set (psDeployments s)" "dpID x = d" using r(2) by auto
    then show ?thesis using assms unfolding rollout_inv_def attempts_ok_def status_at_def by metis
  qed
  have "row_attempts_ok (psEvents s) (f r)" if "r \<in> set (psRows s)" for r
  proof (cases "rwDeployment r = d")
    case True
    then show ?thesis using none [OF that True] by (simp add: row_attempts_ok_def f_def)
  next
    case False
    then show ?thesis using that assms(1) by (simp add: f_def inv_parts list_all_iff)
  qed
  then have "attempts_ok (s\<lparr>psRows := map f (psRows s)\<rparr>)"
    using assms(1) by (simp add: rollout_inv_def attempts_ok_def list_all_iff)
  moreover have "keys_ok (s\<lparr>psRows := map f (psRows s)\<rparr>)"
    using assms(1) by (simp add: rollout_inv_def keys_ok_def comp_def f image_image)
  moreover have "gates_ok (s\<lparr>psRows := map f (psRows s)\<rparr>)" using assms(1) by (simp add: rollout_inv_def gates_ok_def)
  ultimately have "rollout_inv (s\<lparr>psRows := map f (psRows s)\<rparr>)"
    using assms(1) by (simp add: rollout_inv_def)
  then show ?thesis unfolding eq by simp
qed

lemma started_status: "status_at s d st \<Longrightarrow> st \<noteq> StatusPending \<Longrightarrow> started d s"
  by (auto simp: status_at_def started_def)

lemma status_cong: "psDeployments s' = psDeployments s \<Longrightarrow> status_at s' = status_at s"
  by (simp add: status_at_def fun_eq_iff)

lemma execute_inv:
  assumes "rollout_inv s" "status_at s (dpID dep) StatusPending"
  shows "rollout_inv (executeDeployment env dep s) \<and> others_same (dpID dep) s (executeDeployment env dep s)"
proof (cases "map_of (psCache s) (dpPolicyID dep)")
  case None
  then show ?thesis using assms by (simp add: executeDeployment_def)
next
  case (Some policy)
  define s1 where "s1 = bump s"
  obtain res s2 where p: "PrepareCanaryRollout (peOk env (psSeq s1)) (dpID dep) 10 s1 = (res, s2)" by force
  have s2: "rollout_inv s2" "psDeployments s2 = psDeployments s"
    using prepare_inv [of s1 "dpID dep" "peOk env (psSeq s1)" 10] assms p by (simp_all add: s1_def status_at_def)
  define s3 where "s3 = bump s2"
  define n where "n = psSeq s3"
  define dep1 where "dep1 = dep\<lparr>dpStartedAt := Some (peNow env n), dpStatus := StatusCanary\<rparr>"
  obtain b s4 where u: "UpdateDeployment (peOk env n) dep1 s3 = (b, s4)" by force
  have s4: "rollout_inv s4" "others_same (dpID dep) s3 s4"
    using update_inv [of s3 dep1 "peOk env n"] update_status(1) [of dep1 s3 "peOk env n"] s2(1) u by (simp_all add: s3_def dep1_def)
  have o3: "others_same (dpID dep) s s3" using s2(2) by (intro others_deployments) (simp add: s3_def)
  have dispatched: "rollout_inv (dispatchRolloutGroup env dep1 Canary (bump s4)) \<and>
      others_same (dpID dep) s (dispatchRolloutGroup env dep1 Canary (bump s4))" if b
  proof -
    have "status_at s4 (dpID dep) StatusCanary" using update_status(2) [of "peOk env n" dep1 s3] u that by (simp add: dep1_def)
    then have "started (dpID dep1) (bump s4)" by (auto simp: started_def status_at_def dep1_def)
    from dispatch_inv [OF _ this, of Canary env] show ?thesis
      using s4 others_trans [OF others_trans [OF o3 s4(2)] others_deployments] by simp
  qed
  have "others_same (dpID dep) s s4" using others_trans [OF o3 s4(2)] .
  then have "others_same (dpID dep) s (bump s4)" using others_trans others_deployments by (metis bump_simps(1))
  moreover have "others_same (dpID dep) s (bump s2)" using o3 by (simp add: s3_def)
  moreover have "others_same (dpID dep) s (bump s)" by (rule others_deployments) simp
  moreover have "rollout_inv s1" "rollout_inv s3" "rollout_inv (bump s4)" using assms(1) s2(1) s4(1) by (simp_all add: s1_def s3_def)
  ultimately show ?thesis
    using Some assms(1) s2(1) s4(1) dispatched p u
    unfolding executeDeployment_def Let_def
    by (auto simp: s1_def [symmetric] s3_def [symmetric] n_def [symmetric] dep1_def [symmetric] simp del: bump_simps split: sum.splits bool.splits)
qed

lemma advance_canary_inv:
  assumes "rollout_inv s" "status_at s (dpID dep) StatusCanary" "dpID dep \<in> dpID ` set (psDeployments s)"
  shows "rollout_inv (advanceCanaryDeployment env dep s) \<and> others_same (dpID dep) s (advanceCanaryDeployment env dep s)"
proof (cases "map_of (psCache s) (dpPolicyID dep)")
  case None
  then show ?thesis using assms by (simp add: advanceCanaryDeployment_def)
next
  case (Some policy)
  define s1 where "s1 = (if maintenanceWindowAllows (local_now env (psSeq s)) (ppMaintenanceWin policy) then dispatchRolloutGroup env dep Canary s else s)"
  have s1: "rollout_inv s1" "psDeployments s1 = psDeployments s"
    using dispatch_inv [OF assms(1) started_status [OF assms(2)], of Canary env] assms(1) by (simp_all add: s1_def)
  have o1: "others_same (dpID dep) s (bump s1)" using s1(2) by (intro others_deployments) simp
  note adv = advanceCanaryDeployment_def [of env dep s, unfolded Some option.case Let_def s1_def [symmetric]]
  show ?thesis
  proof (cases "GetRolloutJobGate (peOk env (psSeq s1)) (dpID dep) Canary s1")
    case (Inl err)
    then show ?thesis using s1 o1 by (simp add: adv)
  next
    case (Inr gate)
    define s2 where "s2 = bump s1"
    define n where "n = psSeq s2"
    define dep1 where "dep1 = dep\<lparr>dpInstalled := cgSucceeded gate, dpFailed := cgFailed gate, dpPending := dpDeviceCount dep - cgCompleted gate\<rparr>"
    have s2: "rollout_inv s2" "others_same (dpID dep) s s2" "dpID dep \<in> dpID ` set (psDeployments s2)"
      using s1 o1 assms(3) by (simp_all add: s2_def)
    note adv2 = adv [unfolded Inr sum.case, folded s2_def, folded n_def, folded dep1_def]
    consider (wait) "\<not> Ready gate" | (fail) "Ready gate" "\<not> Passes gate 90" | (pass) "Ready gate" "Passes gate 90" by blast
    then show ?thesis
    proof cases
      case wait
      then show ?thesis using s2 by (simp add: adv2)
    next
      case fail
      define dep2 where "dep2 = dep1\<lparr>dpStatus := StatusFailed, dpCompletedAt := Some (peNow env n)\<rparr>"
      have "rollout_inv (snd (UpdateDeployment (peOk env n) dep2 s2))" using s2(1) by (intro update_inv) (simp_all add: dep2_def)
      moreover have "others_same (dpID dep) s (snd (UpdateDeployment (peOk env n) dep2 s2))"
        using others_trans [OF s2(2)] update_status(1) [of dep2 s2 "peOk env n"] by (simp add: dep2_def dep1_def)
      ultimately show ?thesis using fail others_trans [OF _ others_deployments] by (simp add: adv2 dep2_def [symmetric])
    next
      case pass
      define dep2 where "dep2 = dep1\<lparr>dpStatus := StatusDeploying\<rparr>"
      have id2: "dpID dep2 = dpID dep" "dpStatus dep2 = StatusDeploying" by (simp_all add: dep2_def dep1_def)
      obtain b s3 where u: "UpdateDeployment (peOk env n) dep2 s2 = (b, s3)" by force
      have o3: "others_same (dpID dep) s s3"
        using others_trans [OF s2(2)] update_status(1) [of dep2 s2 "peOk env n"] u id2 by simp
      show ?thesis
      proof (cases b)
        case False
        then have "s3 = s2" using u by (auto simp: UpdateDeployment_def split: if_splits)
        then show ?thesis using pass False u s2 o3 others_trans [OF _ others_deployments] by (simp add: adv2 dep2_def [symmetric])
      next
        case True
        define s4 where "s4 = bump (s3\<lparr>psEvents := psEvents s3 @ [GateOpened (dpID dep) gate]\<rparr>)"
        have s4: "rollout_inv s4" using open_gate_inv [OF s2(1) pass(2) id2(2)] u True s2(3) id2 by (simp add: s4_def)
        have o4: "others_same (dpID dep) s s4" using others_trans [OF o3 others_deployments] by (simp add: s4_def)
        have "status_at s3 (dpID dep) StatusDeploying" using update_status(2) [of "peOk env n" dep2 s2] u True id2 by simp
        then have st: "started (dpID dep2) s4" using id2 by (auto simp: started_def status_at_def s4_def)
        have "opened (dpID dep2) (psEvents s4)" using id2 by (simp add: s4_def)
        then have "rollout_inv (dispatchRolloutGroup env dep2 Broad s4)" "psDeployments (dispatchRolloutGroup env dep2 Broad s4) = psDeployments s4"
          using dispatch_inv [OF s4 st, of Broad env] by simp_all
        then show ?thesis
          using pass True u s4 o4 others_trans [OF o4 others_deployments] by (simp add: adv2 dep2_def [symmetric] s4_def [symmetric])
      qed
    qed
  qed
qed

lemma advance_deploying_inv:
  assumes "rollout_inv s" "status_at s (dpID dep) StatusDeploying" "dpID dep \<in> dpID ` set (psDeployments s)" "dpStatus dep = StatusDeploying"
  shows "rollout_inv (advanceDeployingDeployment env dep s) \<and> others_same (dpID dep) s (advanceDeployingDeployment env dep s)"
proof (cases "map_of (psCache s) (dpPolicyID dep)")
  case None
  then show ?thesis using assms by (simp add: advanceDeployingDeployment_def)
next
  case (Some policy)
  define s1 where "s1 = (if maintenanceWindowAllows (local_now env (psSeq s)) (ppMaintenanceWin policy) then dispatchRolloutGroup env dep Broad s else s)"
  have open0: "opened (dpID dep) (psEvents s)"
    using assms(1-3) unfolding rollout_inv_def gates_ok_def status_at_def by (metis imageE)
  have s1: "rollout_inv s1" "psDeployments s1 = psDeployments s"
    using dispatch_inv [OF assms(1) started_status [OF assms(2)], of Broad env] open0 assms(1) by (simp_all add: s1_def)
  have open1: "opened (dpID dep) (psEvents s1)"
    using s1 assms(2,3) unfolding rollout_inv_def gates_ok_def status_at_def by (metis imageE)
  have o1: "others_same (dpID dep) s (bump s1)" using s1(2) by (intro others_deployments) simp
  note adv = advanceDeployingDeployment_def [of env dep s, unfolded Some option.case Let_def s1_def [symmetric]]
  show ?thesis
  proof (cases "GetDeploymentJobGate (peOk env (psSeq s1)) (dpID dep) s1")
    case (Inl err)
    then show ?thesis using s1 o1 by (simp add: adv)
  next
    case (Inr gate)
    have upd: "rollout_inv (bump (snd (UpdateDeployment ok dep2 (bump s1)))) \<and> others_same (dpID dep) s (bump (snd (UpdateDeployment ok dep2 (bump s1))))"
      if "dpID dep2 = dpID dep" "dpStatus dep2 \<noteq> StatusPending" for dep2 ok
      using update_inv [of "bump s1" dep2 ok] s1(1) open1 that others_trans [OF o1] update_status(1) [of dep2 "bump s1" ok]
        others_trans [OF _ others_deployments] by simp
    show ?thesis unfolding adv Inr sum.case by (rule upd) (simp_all add: assms(4))
  qed
qed

text \<open>A pass over deployments of one phase.\<close>

lemma phase_fold:
  assumes "\<And>d s. d \<in> set deps \<Longrightarrow> rollout_inv s \<Longrightarrow> status_at s (dpID d) st \<Longrightarrow> dpID d \<in> dpID ` set (psDeployments s) \<Longrightarrow>
      rollout_inv (f d s) \<and> others_same (dpID d) s (f d s)"
  shows "distinct (map dpID deps) \<Longrightarrow> rollout_inv s \<Longrightarrow> dpID ` set deps \<subseteq> dpID ` set (psDeployments s) \<Longrightarrow>
     \<forall>d \<in> set deps. status_at s (dpID d) st \<Longrightarrow> rollout_inv (fold f deps s)"
  using assms
proof (induction deps arbitrary: s)
  case (Cons d deps)
  have one: "rollout_inv (f d s)" "others_same (dpID d) s (f d s)"
    using Cons.prems(2-4) Cons.prems(5) [of d s] by simp_all
  have ids: "dpID ` set (psDeployments (f d s)) = dpID ` set (psDeployments s)"
    using one(2) by (metis others_same_def list.set_map)
  have "status_at (f d s) (dpID x) st" if "x \<in> set deps" for x
  proof -
    have "dpID x \<in> dpID ` set deps" "dpID d \<notin> dpID ` set deps" using Cons.prems(1) that by simp_all
    then have "dpID x \<noteq> dpID d" by metis
    then show ?thesis using one that Cons.prems(4) by (simp add: others_same_def)
  qed
  then show ?case using Cons.IH [of "f d s"] one ids Cons.prems by simp
qed simp

lemma listed_status:
  assumes "keys_ok s" "set deps \<subseteq> {d \<in> set (psDeployments s). dpStatus d = st}" "d \<in> set deps"
  shows "status_at s (dpID d) st"
proof -
  have "inj_on dpID (set (psDeployments s))" using assms(1) by (simp add: keys_ok_def distinct_map)
  then show ?thesis using assms(2,3) unfolding status_at_def inj_on_def by blast
qed

lemma distinct_by_status:
  assumes "keys_ok s" "getDeploymentsByStatus ok st s = Some deps"
  shows "distinct (map dpID deps)" "set deps \<subseteq> {d \<in> set (psDeployments s). dpStatus d = st}"
proof -
  define ds where "ds = sort_key dpScheduledFor (filter (\<lambda>d. dpStatus d = st) (psDeployments s))"
  have eq: "deps = filter (\<lambda>d. dpStartedAt d = None) ds @
      sort_key (\<lambda>d. case dpStartedAt d of None \<Rightarrow> 0 | Some t \<Rightarrow> t) (filter (\<lambda>d. dpStartedAt d \<noteq> None) ds)"
    using assms(2) unfolding getDeploymentsByStatus_def Let_def ds_def [symmetric] by (simp split: if_splits)
  have inj: "inj_on dpID (set (psDeployments s))" "distinct (psDeployments s)" using assms(1) by (simp_all add: keys_ok_def distinct_map)
  show sub: "set deps \<subseteq> {d \<in> set (psDeployments s). dpStatus d = st}" by (auto simp: eq ds_def)
  have "distinct deps" using inj(2) by (auto simp: eq ds_def)
  moreover have "inj_on dpID (set deps)" using inj(1) sub by (auto intro: inj_on_subset)
  ultimately show "distinct (map dpID deps)" by (simp add: distinct_map)
qed

lemma distinct_pending:
  assumes "keys_ok s" "GetPendingDeployments ok now s = Some deps"
  shows "distinct (map dpID deps)" "set deps \<subseteq> {d \<in> set (psDeployments s). dpStatus d = StatusPending}"
proof -
  have eq: "deps = sort_key dpScheduledFor (filter (\<lambda>d. dpStatus d = StatusPending \<and> dpScheduledFor d \<le> now) (psDeployments s))"
    using assms(2) by (simp add: GetPendingDeployments_def split: if_splits)
  have inj: "inj_on dpID (set (psDeployments s))" "distinct (psDeployments s)" using assms(1) by (simp_all add: keys_ok_def distinct_map)
  show sub: "set deps \<subseteq> {d \<in> set (psDeployments s). dpStatus d = StatusPending}" by (auto simp: eq)
  have "distinct deps" using inj(2) by (simp add: eq)
  moreover have "inj_on dpID (set deps)" using inj(1) sub by (auto intro: inj_on_subset)
  ultimately show "distinct (map dpID deps)" by (simp add: distinct_map)
qed

lemma tick_inv:
  assumes "rollout_inv s"
  shows "rollout_inv (processScheduledDeployments env s)"
proof (cases "GetPendingDeployments (peOk env (psSeq s)) (peNow env (psSeq s)) s")
  case None
  then show ?thesis using assms by (simp add: processScheduledDeployments_def)
next
  case (Some pending)
  have k: "keys_ok x" if "rollout_inv x" for x using that by (simp add: rollout_inv_def)
  define s1 where "s1 = fold (\<lambda>d x. if peNow env (psSeq x) < dpScheduledFor d then x else executeDeployment env d x) pending (bump s)"
  have s1: "rollout_inv s1"
    unfolding s1_def
    by (rule phase_fold [where st = StatusPending])
      (use assms distinct_pending [OF k [OF assms] Some] listed_status [OF k [OF assms] distinct_pending(2) [OF k [OF assms] Some]] execute_inv
        in \<open>auto simp: status_at_def\<close>)
  note t1 = processScheduledDeployments_def [of env s, unfolded Some option.case Let_def, folded s1_def]
  show ?thesis
  proof (cases "getDeploymentsByStatus (peOk env (psSeq s1)) StatusCanary s1")
    case None
    then show ?thesis using s1 by (simp add: t1)
  next
    case (Some canaries)
    note c = distinct_by_status [OF k [OF s1] Some]
    define s2 where "s2 = fold (advanceCanaryDeployment env) canaries (bump s1)"
    have s2: "rollout_inv s2"
      unfolding s2_def
      by (rule phase_fold [where st = StatusCanary])
        (use s1 c listed_status [OF k [OF s1] c(2)] advance_canary_inv in \<open>auto simp: status_at_def\<close>)
    note t2 = t1 [unfolded Some option.case, folded s2_def]
    show ?thesis
    proof (cases "getDeploymentsByStatus (peOk env (psSeq s2)) StatusDeploying s2")
      case None
      then show ?thesis using s2 by (simp add: t2)
    next
      case (Some deploying)
      note d = distinct_by_status [OF k [OF s2] Some]
      have "rollout_inv (fold (advanceDeployingDeployment env) deploying (bump s2))"
      proof (rule phase_fold [where st = StatusDeploying])
        fix dep x assume "dep \<in> set deploying" "rollout_inv x" "status_at x (dpID dep) StatusDeploying" "dpID dep \<in> dpID ` set (psDeployments x)"
        then show "rollout_inv (advanceDeployingDeployment env dep x) \<and> others_same (dpID dep) x (advanceDeployingDeployment env dep x)"
          using d(2) by (intro advance_deploying_inv) auto
      qed (use s2 d listed_status [OF k [OF s2] d(2)] in \<open>auto simp: status_at_def\<close>)
      then show ?thesis by (simp add: t2 Some)
    qed
  qed
qed

section \<open>Runs\<close>

lemma normalize_distinct: "distinct (normalizeDeploymentIDs seen xs) \<and> set (normalizeDeploymentIDs seen xs) \<inter> set seen = {}"
  by (induction seen xs rule: normalizeDeploymentIDs.induct) (auto simp: Let_def)

lemma create_inv:
  assumes "rollout_inv s"
  shows "rollout_inv (snd (CreateDeploymentWithPatches ok now dep ds ps s))"
proof (cases "snd (CreateDeploymentWithPatches ok now dep ds ps s) = s")
  case True
  then show ?thesis using assms by simp
next
  case False
  define xs where "xs = normalizeDeploymentIDs [] ds"
  have xs: "distinct xs" using normalize_distinct [of "[]" ds] by (simp add: xs_def)
  define row where "row d = \<lparr>rwDeployment = dpID dep, rwDevice = d, rwGroup = Broad, rwDispatchedAt = None, rwAttempts = 0, rwJob = None, rwTarget = None\<rparr>" for d
  obtain dep' ps' where eq: "snd (CreateDeploymentWithPatches ok now dep ds ps s) =
      s\<lparr>psDeployments := psDeployments s @ [dep'], psRows := psRows s @ map row xs, psPatches := ps'\<rparr>"
    and dep': "dpID dep' = dpID dep" "dpStatus dep' = StatusPending" and new: "dpID dep \<notin> dpID ` set (psDeployments s)"
  proof -
    have fresh: "dpID dep \<notin> dpID ` set (psDeployments s)"
      using False by (auto simp: CreateDeploymentWithPatches_def Let_def list_ex_iff split: if_splits option.splits)
    show ?thesis
      using False fresh that
      by (simp add: CreateDeploymentWithPatches_def Let_def xs_def [symmetric] row_def [abs_def] split: if_splits option.splits)
  qed
  have none: "attempts (dpID dep) dev (psEvents s) = []" for dev
  proof -
    have "event_deployment e \<noteq> dpID dep" if "e \<in> set (psEvents s)" for e
      using that assms new unfolding rollout_inv_def keys_ok_def by (metis image_eqI subsetD)
    then have "a \<notin> set (attempts (dpID dep) dev (psEvents s))" for a
      using attempts_event [of a "dpID dep" dev "psEvents s"] event_deployment.simps(2) by metis
    then show ?thesis by (metis list.set_intros(1) neq_Nil_conv)
  qed
  define s' where "s' = s\<lparr>psDeployments := psDeployments s @ [dep'], psRows := psRows s @ map row xs, psPatches := ps'\<rparr>"
  have old: "rwDeployment ` set (psRows s) \<subseteq> dpID ` set (psDeployments s)" using assms by (simp add: rollout_inv_def keys_ok_def)
  have elsewhere: "rwDeployment r \<noteq> dpID dep" if "r \<in> set (psRows s)" for r using that old new by (metis image_eqI subsetD)
  have "distinct (map (\<lambda>r. (rwDeployment r, rwDevice r)) (map row xs))"
    using xs by (simp add: row_def comp_def distinct_map inj_on_def)
  moreover have "(\<lambda>r. (rwDeployment r, rwDevice r)) ` set (psRows s) \<inter> (\<lambda>r. (rwDeployment r, rwDevice r)) ` set (map row xs) = {}"
    using elsewhere by (auto simp: row_def)
  moreover have "distinct (map (\<lambda>r. (rwDeployment r, rwDevice r)) (psRows s))"
    using assms by (simp only: rollout_inv_def keys_ok_def)
  moreover have "psRows s' = psRows s @ map row xs" by (simp add: s'_def)
  ultimately have "distinct (map (\<lambda>r. (rwDeployment r, rwDevice r)) (psRows s'))"
    by (simp only: map_append distinct_append set_map simp_thms)
  moreover have "rwDeployment ` set (psRows s') \<subseteq> dpID ` set (psDeployments s')" using old dep'(1) by (auto simp: s'_def row_def)
  ultimately have "keys_ok s'" using assms new dep'(1) by (auto simp: rollout_inv_def keys_ok_def s'_def)
  moreover have "gates_ok s'" using assms dep'(2) by (auto simp: rollout_inv_def gates_ok_def s'_def)
  moreover have "attempts_ok s'"
    using assms dep' none by (auto simp: rollout_inv_def attempts_ok_def s'_def row_def row_attempts_ok_def list_all_iff)
  ultimately show ?thesis unfolding eq s'_def [symmetric] using assms by (simp add: rollout_inv_def s'_def)
qed

definition pipeline_ok :: "patch_op \<Rightarrow> bool" where
  "pipeline_ok op = (case op of JobPipeline db \<Rightarrow> jobs_ok db | _ \<Rightarrow> True)"

lemma patch_op_inv:
  assumes "rollout_inv s" "pipeline_ok op"
  shows "rollout_inv (apply_patch_op env op s)"
proof (cases op)
  case (PatchCreatePolicy ok p)
  then show ?thesis using assms(1) by (simp add: CreatePolicy_def)
next
  case (PatchResult ok t d dep p st err)
  then show ?thesis using assms(1) by (simp add: ApplyDevicePatchResult_def Let_def split: option.split)
next
  case (JobPipeline db)
  then show ?thesis using assms by (simp add: inv_parts pipeline_ok_def)
next
  case (PatchInventory ok t d i m)
  then show ?thesis using assms(1) by (simp add: handlePatchInventory_def)
qed (use assms in \<open>simp_all add: tick_inv create_inv\<close>)

definition fresh_patch_state :: "PatchPolicy list \<Rightarrow> patch_device list \<Rightarrow> jobdb \<Rightarrow> patch_state" where
  "fresh_patch_state policies devices db =
     \<lparr>psCache = map (\<lambda>p. (ppID p, p)) policies, psPolicies = policies, psDeployments = [], psRows = [], psPatches = [], psDevices = devices,
      psInventory = [], psStates = [], psJobs = db, psEvents = [], psSeq = 0\<rparr>"

lemma run_inv:
  assumes "jobs_ok db" "list_all pipeline_ok ops"
  shows "rollout_inv (run_patch_ops env ops (fresh_patch_state policies devices db))"
proof -
  have "rollout_inv s \<Longrightarrow> list_all pipeline_ok ops \<Longrightarrow> rollout_inv (fold (apply_patch_op env) ops s)" for s
    by (induction ops arbitrary: s) (simp_all add: patch_op_inv)
  moreover have "rollout_inv (fresh_patch_state policies devices db)"
    using assms(1) by (simp add: inv_parts fresh_patch_state_def)
  ultimately show ?thesis using assms(2) by (simp add: run_patch_ops_def)
qed


lemma increasing_length:
  assumes "sorted_wrt (<) (as :: int list)" "\<forall>a \<in> set as. 1 \<le> a \<and> a \<le> n"
  shows "int (length as) \<le> max n 0"
proof -
  have "distinct as" using assms(1) by (simp add: strict_sorted_iff)
  then have "length as = card (set as)" by (simp add: distinct_card)
  also have "\<dots> \<le> card {1..n}" using assms(2) by (intro card_mono) auto
  finally show ?thesis by simp
qed


section \<open>Where rollouts stall\<close>

text \<open>
  The scheduler looks at the window in local time, the transaction in UTC: twelve hours east of Greenwich, a window of an hour
  at night is never open for both, and nothing is queued.
\<close>

lemma shifted_window:
  assumes "maintenanceWindowAllows (now + 12 * Hour) ''01:00-02:00''"
  shows "maintenanceWindowDeadline now ''01:00-02:00'' = Inl OutsideMaintenanceWindow"
proof -
  have w: "window_bounds ''01:00-02:00'' = Some (60, 120)" "TrimSpace ''01:00-02:00'' = ''01:00-02:00''" by code_simp+
  obtain k x where x: "now = k * Day + x" "0 \<le> x" "x < Day" "minute_of_day now = x div Minute" by (rule day_parts)
  have u: "Day = 1440 * Minute" "12 * Hour = 720 * Minute" "0 < Minute" by (simp_all add: Day_def Hour_def Minute_def Second_def)
  have shift: "(x + 720 * Minute) div Minute = x div Minute + 720" using u(3) by simp
  have "\<not> (60 \<le> x div Minute \<and> x div Minute < 120)"
  proof
    assume m: "60 \<le> x div Minute \<and> x div Minute < 120"
    have "x < 120 * Minute" using m u(3) zdiv_mono1 [of "120 * Minute" x Minute] by (auto simp: not_less [symmetric])
    then have "minute_of_day (k * Day + (x + 720 * Minute)) = (x + 720 * Minute) div Minute" using x(2) u by (intro minute_split) simp_all
    moreover have "now + 12 * Hour = k * Day + (x + 720 * Minute)" using x(1) u(2) by linarith
    ultimately have "minute_of_day (now + 12 * Hour) = x div Minute + 720" using shift by (simp only:)
    then show False using assms m by (simp add: maintenanceWindowAllows_def w in_bounds_def)
  qed
  then show ?thesis using x(4) by (simp add: maintenanceWindowDeadline_def maintenanceWindowAllows_def w in_bounds_def)
qed

text \<open>A device of the canary group without a job counts in the gate and never finishes, so that the gate does not open.\<close>

lemma gate_counts:
  "cgTotal (fold (count_row db pol) rs g) = cgTotal g + int (length rs)"
  "cgCompleted (fold (count_row db pol) rs g) \<le> cgCompleted g + int (length (filter (\<lambda>r. row_target db r \<noteq> None) rs))"
proof -
  have one: "cgTotal (count_row db pol r g) = cgTotal g + 1"
    "cgCompleted (count_row db pol r g) \<le> cgCompleted g + (if row_target db r \<noteq> None then 1 else 0)" for r g
    by (simp_all add: count_row_def Let_def split: option.split)
  show "cgTotal (fold (count_row db pol) rs g) = cgTotal g + int (length rs)"
    by (induction rs arbitrary: g) (simp_all add: one)
  show "cgCompleted (fold (count_row db pol) rs g) \<le> cgCompleted g + int (length (filter (\<lambda>r. row_target db r \<noteq> None) rs))"
  proof (induction rs arbitrary: g)
    case (Cons r rs)
    show ?case using Cons [of "count_row db pol r g"] one(2) [of r g] by (simp split: if_splits)
  qed simp
qed

lemma unqueued_device_blocks:
  assumes "GetRolloutJobGate ok d grp s = Inr gate" "find_deployment d s = Some dep" "r \<in> set (rollout_rows dep s)"
    "rwGroup r = grp" "row_target (psJobs s) r = None"
  shows "\<not> Ready gate"
proof (cases "policy_of dep s")
  case None
  then show ?thesis using assms(1,2) by (auto simp: GetRolloutJobGate_def job_gate_def Ready_def empty_gate_def split: if_splits)
next
  case (Some pol)
  define rs where "rs = filter (\<lambda>r. rwGroup r = grp) (rollout_rows dep s)"
  have gate: "gate = fold (count_row (psJobs s) pol) rs empty_gate"
    using assms(1,2) Some by (simp add: GetRolloutJobGate_def job_gate_def rs_def split: if_splits)
  have "r \<in> set rs" using assms(3,4) by (simp add: rs_def)
  then have "length (filter (\<lambda>r. row_target (psJobs s) r \<noteq> None) rs) < length rs" using assms(5) by (intro length_filter_less) auto
  then show ?thesis
    using gate_counts [where db = "psJobs s" and pol = pol and rs = rs and g = empty_gate] unfolding gate Ready_def by (simp add: empty_gate_def)
qed

section \<open>Examples\<close>

definition sample_patch_env :: patch_env where
  "sample_patch_env = \<lparr>peNow = (\<lambda>n. 1000 * Hour + int n * Minute), peZone = 0, peUUID = (\<lambda>n k. if k = 0 then ''j'' else ''t''), peOk = (\<lambda>n. True)\<rparr>"

definition sample_patch_policy :: PatchPolicy where
  "sample_patch_policy = \<lparr>ppID = ''p'', ppTenantID = ''t'', ppName = ''nightly'', ppEnabled = True, ppMaintenanceWin = [], ppMaxRetries = 2\<rparr>"

definition sample_patch_device :: "string \<Rightarrow> patch_device" where
  "sample_patch_device d =
     \<lparr>pvID = d, pvTenantID = ''t'', pvMspID = Some ''m'', pvClientID = Some ''c'', pvSiteID = None, pvAgentID = Some ''a'', pvDisabled = False\<rparr>"

definition empty_jobs :: jobdb where
  "empty_jobs = \<lparr>jobs = [], targets = [], outbox = [], inbox = [], next_id = 0\<rparr>"

definition sample_deployment_request :: Deployment where
  "sample_deployment_request = \<lparr>dpID = ''d'', dpPolicyID = ''p'', dpTenantID = ''t'', dpStatus = StatusPending, dpDeviceCount = 2, dpInstalled = 0, dpFailed = 0,
     dpPending = 2, dpScheduledFor = 0, dpStartedAt = None, dpCompletedAt = None, dpCreatedAt = 0\<rparr>"

text \<open>Two devices: the first is the canary, its job succeeds, then the other gets its job.\<close>

definition sample_patch_ops :: "patch_op list" where
  "sample_patch_ops =
     [PatchInventory True ''t'' ''x'' JNull (JArr [JObj [(''id'', JStr ''kb'')]]), PatchInventory True ''t'' ''y'' JNull (JArr [JObj [(''id'', JStr ''kb'')]]),
      PatchCreate True 0 sample_deployment_request [''x'', ''y''] [''kb''], PatchTick,
      JobPipeline (empty_jobs\<lparr>targets := [(patch_target ''t'' ''j'' ''x'' ''a'')\<lparr>t_status := ''succeeded''\<rparr>]\<rparr>), PatchTick]"

definition sample_patch_run :: patch_state where
  "sample_patch_run = run_patch_ops sample_patch_env sample_patch_ops
     (fresh_patch_state [sample_patch_policy] [sample_patch_device ''x'', sample_patch_device ''y''] empty_jobs)"

lemma sample_patch_conditions: "jobs_ok empty_jobs" "list_all pipeline_ok sample_patch_ops"
  by code_simp+

lemma sample_patch_events:
  "map event_deployment (psEvents sample_patch_run) = [''d'', ''d'', ''d'']" "opened ''d'' (psEvents sample_patch_run)"
  "attempts ''d'' ''y'' (psEvents sample_patch_run) = [1]"
  by code_simp+



text \<open>At half past one in the morning a window from one to two closes half an hour later.\<close>

lemma sample_window: "maintenanceWindowDeadline (90 * Minute) ''01:00-02:00'' = Inr (120 * Minute)"
  by code_simp

theorem window_deadline_witness:
  "90 * Minute < 120 * Minute \<and> 120 * Minute \<le> 90 * Minute + 72 * Hour \<and> maintenanceWindowAllows (100 * Minute) ''01:00-02:00''"
proof -
  have "90 * Minute \<le> 100 * Minute" "100 * Minute < 120 * Minute" by (simp_all add: Minute_def Second_def)
  then show ?thesis using window_deadline [OF sample_window] by blast
qed

end
