(* ===== verification/ModuleRegistry.thy ===== *)
theory ModuleRegistry
  imports GoTime GoPath
begin

text \<open>
  Add-on modules in the orchestrator (\<^verbatim>\<open>internal/modules\<close>): manifests and their validation (\<^verbatim>\<open>manifest.go\<close>), the registry
  of installed modules (\<^verbatim>\<open>registry.go\<close>), its tables with their audit (\<^verbatim>\<open>persistence.go\<close> and the migration that creates
  them) and the supervisor that lets a module be invoked (\<^verbatim>\<open>runtime.go\<close>, \<^verbatim>\<open>runtime_declared.go\<close>).

  The registry is a bucket by module identifier. A manifest in the database is kept as the value its JSON denotes. The
  log of the supervisor has one entry per call of the runtime and per registration of a module.
\<close>

section \<open>Manifests\<close>

record ModuleRoute =
  mrPath :: string
  mrMethods :: "string list"
  mrPermission :: string

record RuntimeSpec =
  rsKind :: string
  rsEntrypoint :: string
  rsMemoryMB :: int
  rsTimeoutSeconds :: int
  rsMaxConcurrency :: int
  rsNetwork :: string

record ModuleManifest =
  mmID :: string
  mmName :: string
  mmVersion :: string
  mmAPIVersion :: string
  mmPublisher :: string
  mmDescription :: string
  mmPermissions :: "string list"
  mmSubscribe :: "string list"
  mmPublish :: "string list"
  mmRoutes :: "ModuleRoute list"
  mmNavigation :: "(string \<times> string) list"
  mmRuntime :: "RuntimeSpec option"

definition CurrentAPIVersion :: string where
  "CurrentAPIVersion = ''v1''"

definition knownPermissions :: "string list" where
  "knownPermissions = [''devices.read'', ''devices.write'', ''alerts.read'', ''alerts.write'', ''automation.execute'', ''reports.read'',
     ''reports.write'', ''webhooks.receive'', ''notifications.send'', ''inventory.read'', ''inventory.write'']"

text \<open>
  The pattern \<^verbatim>\<open>^[a-z0-9]+(?:[.-][a-z0-9]+)*$\<close>: the flag says whether the last character was a letter or digit.
\<close>

definition id_char :: "char \<Rightarrow> bool" where
  "id_char c = (let n = (of_char c :: int) in (97 \<le> n \<and> n \<le> 122) \<or> (48 \<le> n \<and> n \<le> 57))"

fun id_from :: "bool \<Rightarrow> string \<Rightarrow> bool" where
  "id_from after [] = after"
| "id_from after (c # s) =
     (if id_char c then id_from True s else if c = CHR ''.'' \<or> c = CHR ''-'' then after \<and> id_from False s else False)"

definition moduleIDPattern :: "string \<Rightarrow> bool" where
  "moduleIDPattern s = id_from False s"

datatype manifest_error =
    BadModuleID | NameRequired | VersionRequired | UnsupportedAPI string | PublisherRequired | BadRuntime
  | UnknownPermission string | DuplicatePermission string
  | RouteNotNamespaced string | RouteWithoutMethods string | RouteUndeclaredPermission string string

definition HasSuffix :: "string \<Rightarrow> string \<Rightarrow> bool" where
  "HasSuffix s p = HasPrefix (rev s) (rev p)"

definition Validate_runtime :: "RuntimeSpec \<Rightarrow> bool" where
  "Validate_runtime r =
     (let entrypoint = TrimSpace (rsEntrypoint r); clean = Clean entrypoint
      in rsKind r = ''wasi'' \<and> entrypoint \<noteq> [] \<and> \<not> Contains entrypoint [CHR 0x5C] \<and> \<not> HasPrefix entrypoint ''/'' \<and>
         clean = entrypoint \<and> clean \<noteq> ''.'' \<and> clean \<noteq> ''..'' \<and> \<not> HasPrefix clean ''../'' \<and>
         HasSuffix (ToLower entrypoint) ''.wasm'' \<and>
         16 \<le> rsMemoryMB r \<and> rsMemoryMB r \<le> 512 \<and> 1 \<le> rsTimeoutSeconds r \<and> rsTimeoutSeconds r \<le> 120 \<and>
         1 \<le> rsMaxConcurrency r \<and> rsMaxConcurrency r \<le> 32 \<and> (rsNetwork r = ''none'' \<or> rsNetwork r = ''brokered''))"

fun permission_problem :: "string list \<Rightarrow> string list \<Rightarrow> manifest_error option" where
  "permission_problem seen [] = None"
| "permission_problem seen (p # ps) =
     (if p \<notin> set knownPermissions then Some (UnknownPermission p)
      else if p \<in> set seen then Some (DuplicatePermission p)
      else permission_problem (p # seen) ps)"

fun route_problem :: "string \<Rightarrow> string list \<Rightarrow> ModuleRoute list \<Rightarrow> manifest_error option" where
  "route_problem mid perms [] = None"
| "route_problem mid perms (r # rs) =
     (if \<not> HasPrefix (mrPath r) (''/api/modules/'' @ mid @ ''/'') then Some (RouteNotNamespaced (mrPath r))
      else if mrMethods r = [] then Some (RouteWithoutMethods (mrPath r))
      else if mrPermission r \<noteq> [] \<and> mrPermission r \<notin> set perms then Some (RouteUndeclaredPermission (mrPath r) (mrPermission r))
      else route_problem mid perms rs)"

definition ValidateManifest :: "ModuleManifest \<Rightarrow> manifest_error option" where
  "ValidateManifest m =
     (if \<not> moduleIDPattern (mmID m) then Some BadModuleID
      else if TrimSpace (mmName m) = [] then Some NameRequired
      else if TrimSpace (mmVersion m) = [] then Some VersionRequired
      else if mmAPIVersion m \<noteq> CurrentAPIVersion then Some (UnsupportedAPI (mmAPIVersion m))
      else if TrimSpace (mmPublisher m) = [] then Some PublisherRequired
      else if (case mmRuntime m of Some r \<Rightarrow> \<not> Validate_runtime r | None \<Rightarrow> False) then Some BadRuntime
      else case permission_problem [] (mmPermissions m) of
             Some e \<Rightarrow> Some e
           | None \<Rightarrow> route_problem (mmID m) (mmPermissions m) (mmRoutes m))"

section \<open>The registry\<close>

datatype ModuleState = StateInstalled | StateEnabled | StateDisabled | StateQuarantined

record InstalledModule =
  imManifest :: ModuleManifest
  imState :: ModuleState
  imInstalledAt :: instant
  imUpdatedAt :: instant
  imReason :: string

type_synonym registry = "InstalledModule bucket"

datatype module_error =
    ErrNotFound | ErrAlreadyExists | ErrQuarantined | ErrPermissionDenied | ErrVersionTransition | EnabledUninstall
  | InvalidManifest manifest_error | PersistedManifest manifest_error | PersistedTimestamps | DuplicateModule string
  | ActorRequired | InvalidAction string | InvalidTransition string | DatabaseFailure bool
  | ErrModuleDisabled | ErrRouteNotDeclared | ErrMethodNotDeclared | ErrPermissionMismatch | ErrRuntimeUnavailable string
  | ErrUnsafeInstallRoot | ErrUntrustedPublisher | ErrInvalidSignature | InvalidPackage | InvalidPayload | EntrypointMissing
  | ErrPayloadIdentityMismatch | ErrMaterializedVersionExists | ErrInstallInProgress | UnsafeComponent | FilesystemFailure
  | ErrNoActiveVersion | ErrNoRollbackVersion | ErrActivationInProgress | ErrInvalidActivationState | ErrActivationStateChanged
  | ErrReleaseMetadataConflict | ErrReleaseMetadataInvalid | VersionStateMismatch
  | PackageBodyRequired | RuntimeRootRequired | PublisherTrustRequired | HealthTimeoutRange | ErrCandidateHealthTimeout | ErrCandidateUnhealthy | CandidateCheckCancelled

definition Install :: "instant \<Rightarrow> ModuleManifest \<Rightarrow> registry \<Rightarrow> (module_error + InstalledModule) \<times> registry" where
  "Install now manifest r =
     (case ValidateManifest manifest of
        Some e \<Rightarrow> (Inl (InvalidManifest e), r)
      | None \<Rightarrow>
          if bucket_get r (mmID manifest) \<noteq> None then (Inl ErrAlreadyExists, r)
          else (let m = \<lparr>imManifest = manifest, imState = StateInstalled, imInstalledAt = now, imUpdatedAt = now, imReason = []\<rparr>
                in (Inr m, bucket_put (mmID manifest) m r)))"

definition validatePersistedModule :: "InstalledModule \<Rightarrow> module_error option" where
  "validatePersistedModule m =
     (case ValidateManifest (imManifest m) of
        Some e \<Rightarrow> Some (PersistedManifest e)
      | None \<Rightarrow>
          if imInstalledAt m = zero_time \<or> imUpdatedAt m = zero_time \<or> imUpdatedAt m < imInstalledAt m then Some PersistedTimestamps else None)"

definition Restore :: "InstalledModule \<Rightarrow> registry \<Rightarrow> module_error + registry" where
  "Restore m r =
     (case validatePersistedModule m of
        Some e \<Rightarrow> Inl e
      | None \<Rightarrow>
          if bucket_get r (mmID (imManifest m)) \<noteq> None then Inl ErrAlreadyExists else Inr (bucket_put (mmID (imManifest m)) m r))"

fun snapshot_registry :: "registry \<Rightarrow> InstalledModule list \<Rightarrow> module_error + registry" where
  "snapshot_registry acc [] = Inr acc"
| "snapshot_registry acc (m # ms) =
     (case validatePersistedModule m of
        Some e \<Rightarrow> Inl e
      | None \<Rightarrow>
          if bucket_get acc (mmID (imManifest m)) \<noteq> None then Inl (DuplicateModule (mmID (imManifest m)))
          else snapshot_registry (bucket_put (mmID (imManifest m)) m acc) ms)"

definition ReplaceSnapshot :: "InstalledModule list \<Rightarrow> registry \<Rightarrow> module_error option \<times> registry" where
  "ReplaceSnapshot snapshot r = (case snapshot_registry [] snapshot of Inl e \<Rightarrow> (Some e, r) | Inr next \<Rightarrow> (None, next))"

definition transition ::
  "instant \<Rightarrow> string \<Rightarrow> (InstalledModule \<Rightarrow> module_error + InstalledModule) \<Rightarrow> registry \<Rightarrow> (module_error + InstalledModule) \<times> registry" where
  "transition now mid fn r =
     (case bucket_get r mid of
        None \<Rightarrow> (Inl ErrNotFound, r)
      | Some m \<Rightarrow>
          (case fn m of
             Inl e \<Rightarrow> (Inl e, r)
           | Inr m' \<Rightarrow> (let u = m'\<lparr>imUpdatedAt := now\<rparr> in (Inr u, bucket_put mid u r))))"

definition Enable :: "instant \<Rightarrow> string \<Rightarrow> registry \<Rightarrow> (module_error + InstalledModule) \<times> registry" where
  "Enable now mid =
     transition now mid (\<lambda>m. if imState m = StateQuarantined then Inl ErrQuarantined else Inr (m\<lparr>imState := StateEnabled, imReason := []\<rparr>))"

definition Disable :: "instant \<Rightarrow> string \<Rightarrow> string \<Rightarrow> registry \<Rightarrow> (module_error + InstalledModule) \<times> registry" where
  "Disable now mid reason =
     transition now mid (\<lambda>m. if imState m = StateQuarantined then Inl ErrQuarantined else Inr (m\<lparr>imState := StateDisabled, imReason := reason\<rparr>))"

definition Quarantine :: "instant \<Rightarrow> string \<Rightarrow> string \<Rightarrow> registry \<Rightarrow> (module_error + InstalledModule) \<times> registry" where
  "Quarantine now mid reason =
     transition now mid (\<lambda>m. Inr (m\<lparr>imState := StateQuarantined,
       imReason := (if reason = [] then ''administratively quarantined'' else reason)\<rparr>))"

text \<open>\<^verbatim>\<open>Upgrade\<close> and \<^verbatim>\<open>Rollback\<close> are both this function.\<close>

definition replaceManifest :: "instant \<Rightarrow> string \<Rightarrow> ModuleManifest \<Rightarrow> registry \<Rightarrow> (module_error + InstalledModule) \<times> registry" where
  "replaceManifest now mid manifest r =
     (case ValidateManifest manifest of
        Some e \<Rightarrow> (Inl (InvalidManifest e), r)
      | None \<Rightarrow>
          if mmID manifest \<noteq> mid then (Inl ErrVersionTransition, r)
          else transition now mid (\<lambda>m.
            if imState m = StateEnabled \<or> imState m = StateQuarantined then Inl ErrVersionTransition
            else if mmVersion (imManifest m) = mmVersion manifest then Inl ErrVersionTransition
            else Inr (m\<lparr>imManifest := manifest, imReason := []\<rparr>)) r)"

definition Uninstall :: "string \<Rightarrow> registry \<Rightarrow> module_error option \<times> registry" where
  "Uninstall mid r =
     (case bucket_get r mid of
        None \<Rightarrow> (Some ErrNotFound, r)
      | Some m \<Rightarrow> if imState m = StateEnabled then (Some EnabledUninstall, r) else (None, bucket_delete mid r))"

definition Get_module :: "string \<Rightarrow> registry \<Rightarrow> module_error + InstalledModule" where
  "Get_module mid r = (case bucket_get r mid of None \<Rightarrow> Inl ErrNotFound | Some m \<Rightarrow> Inr m)"

definition List_modules :: "registry \<Rightarrow> InstalledModule list" where
  "List_modules r = map snd r"

definition RequirePermission :: "string \<Rightarrow> string \<Rightarrow> registry \<Rightarrow> module_error option" where
  "RequirePermission mid permission r =
     (case Get_module mid r of
        Inl e \<Rightarrow> Some e
      | Inr m \<Rightarrow> if imState m \<noteq> StateEnabled then Some ErrPermissionDenied
                 else if permission \<in> set (mmPermissions (imManifest m)) then None else Some ErrPermissionDenied)"

section \<open>The module tables\<close>

record module_audit =
  auModule :: string
  auAction :: string
  auPrevious :: "ModuleState option"
  auNew :: "ModuleState option"
  auReason :: string
  auActor :: string

record module_db =
  dbModules :: "InstalledModule bucket"
  dbAudit :: "module_audit list"

text \<open>The check constraint on the action of an audit row.\<close>

definition audit_action_check :: "string \<Rightarrow> bool" where
  "audit_action_check action = (action \<in> set [''install'', ''enable'', ''disable'', ''quarantine'', ''restore'', ''uninstall''])"

definition validAuditAction :: "string \<Rightarrow> bool" where
  "validAuditAction action =
     (action \<in> set [''install'', ''enable'', ''disable'', ''quarantine'', ''restore'', ''upgrade'', ''rollback'', ''uninstall''])"

definition validateAuditTransition :: "ModuleState option \<Rightarrow> ModuleState \<Rightarrow> string \<Rightarrow> module_error option" where
  "validateAuditTransition previous next action =
     (case previous of
        None \<Rightarrow> if action \<noteq> ''install'' \<or> next \<noteq> StateInstalled then Some (InvalidTransition action) else None
      | Some prev \<Rightarrow>
          if action = ''install'' then Some (InvalidTransition action)
          else if action = ''enable'' then
            (if next \<noteq> StateEnabled \<or> prev = StateQuarantined then Some (InvalidTransition action) else None)
          else if action = ''disable'' then
            (if next \<noteq> StateDisabled \<or> prev = StateQuarantined then Some (InvalidTransition action) else None)
          else if action = ''quarantine'' then (if next \<noteq> StateQuarantined then Some (InvalidTransition action) else None)
          else if action = ''restore'' \<or> action = ''upgrade'' \<or> action = ''rollback'' then
            (if next \<noteq> prev then Some (InvalidTransition action) else None)
          else Some (InvalidAction action))"

text \<open>
  \<open>fault\<close> is the failure of the statements, if there is one. On an error the transaction is the caller's to roll back, with
  what the statements before have written.
\<close>

definition Save :: "module_error option \<Rightarrow> InstalledModule \<Rightarrow> string \<Rightarrow> string \<Rightarrow> module_db \<Rightarrow> module_error option \<times> module_db" where
  "Save fault m actor action db =
     (case validatePersistedModule m of
        Some e \<Rightarrow> (Some e, db)
      | None \<Rightarrow>
          if actor = [] then (Some ActorRequired, db)
          else if \<not> validAuditAction action \<or> action = ''uninstall'' then (Some (InvalidAction action), db)
          else
            (case fault of
               Some e \<Rightarrow> (Some e, db)
             | None \<Rightarrow>
                 (let mid = mmID (imManifest m); old = bucket_get (dbModules db) mid
                  in case validateAuditTransition (map_option imState old) (imState m) action of
                       Some e \<Rightarrow> (Some e, db)
                     | None \<Rightarrow>
                         (let row = (case old of None \<Rightarrow> m | Some o' \<Rightarrow> m\<lparr>imInstalledAt := imInstalledAt o'\<rparr>);
                              db1 = db\<lparr>dbModules := bucket_put mid row (dbModules db)\<rparr>
                          in if \<not> audit_action_check action then (Some (DatabaseFailure False), db1)
                             else (None, db1\<lparr>dbAudit := dbAudit db1 @ [\<lparr>auModule = mid, auAction = action, auPrevious = map_option imState old,
                                                auNew = Some (imState m), auReason = imReason m, auActor = actor\<rparr>]\<rparr>)))))"

definition Delete_module :: "module_error option \<Rightarrow> string \<Rightarrow> string \<Rightarrow> string \<Rightarrow> module_db \<Rightarrow> module_error option \<times> module_db" where
  "Delete_module fault mid actor reason db =
     (if actor = [] then (Some ActorRequired, db)
      else case fault of
             Some e \<Rightarrow> (Some e, db)
           | None \<Rightarrow>
               (case bucket_get (dbModules db) mid of
                  None \<Rightarrow> (Some ErrNotFound, db)
                | Some m \<Rightarrow>
                    if imState m = StateEnabled then (Some EnabledUninstall, db)
                    else (None, db\<lparr>dbAudit := dbAudit db @ [\<lparr>auModule = mid, auAction = ''uninstall'', auPrevious = Some (imState m), auNew = None,
                                      auReason = reason, auActor = actor\<rparr>],
                                    dbModules := bucket_delete mid (dbModules db)\<rparr>)))"

definition List_persisted :: "module_error option \<Rightarrow> module_db \<Rightarrow> module_error + InstalledModule list" where
  "List_persisted fault db =
     (case fault of
        Some e \<Rightarrow> Inl e
      | None \<Rightarrow>
          (let ms = map snd (dbModules db)
           in case find (\<lambda>m. validatePersistedModule m \<noteq> None) ms of
                Some m \<Rightarrow> Inl (the (validatePersistedModule m))
              | None \<Rightarrow> Inr ms))"

fun restore_all :: "registry \<Rightarrow> InstalledModule list \<Rightarrow> module_error + registry" where
  "restore_all r [] = Inr r"
| "restore_all r (m # ms) = (case Restore m r of Inl e \<Rightarrow> Inl e | Inr r' \<Rightarrow> restore_all r' ms)"

definition RestoreRegistry :: "module_error option \<Rightarrow> module_db \<Rightarrow> module_error + registry" where
  "RestoreRegistry fault db = (case List_persisted fault db of Inl e \<Rightarrow> Inl e | Inr ms \<Rightarrow> restore_all [] ms)"

section \<open>Supervised invocations\<close>

record ResourceScope =
  scMSPID :: string
  scClientID :: string
  scSiteID :: string

record Invocation =
  ivMethod :: string
  ivPath :: string
  ivPermission :: string
  ivBody :: string
  ivScope :: ResourceScope

record InvocationResult =
  irStatusCode :: int
  irBody :: string

datatype sup_event =
    Invoked InstalledModule Invocation bool
  | Registered string

record Supervisor =
  suRegistry :: registry
  suThreshold :: int
  suFailures :: "int bucket"
  suLog :: "sup_event list"

definition NewSupervisor :: "registry \<Rightarrow> int \<Rightarrow> Supervisor" where
  "NewSupervisor r threshold = \<lparr>suRegistry = r, suThreshold = (if threshold \<le> 0 then 3 else threshold), suFailures = [], suLog = []\<rparr>"

definition enabledModule :: "string \<Rightarrow> registry \<Rightarrow> module_error + InstalledModule" where
  "enabledModule mid r =
     (case Get_module mid r of
        Inl e \<Rightarrow> Inl e
      | Inr m \<Rightarrow> if imState m = StateQuarantined then Inl ErrQuarantined
                 else if imState m \<noteq> StateEnabled then Inl ErrModuleDisabled else Inr m)"

fun declared_in :: "ModuleRoute list \<Rightarrow> string \<Rightarrow> string \<Rightarrow> module_error + ModuleRoute" where
  "declared_in [] meth path = Inl ErrRouteNotDeclared"
| "declared_in (r # rs) meth path =
     (if mrPath r \<noteq> path then declared_in rs meth path
      else if list_ex (\<lambda>d. EqualFold d meth) (mrMethods r) then Inr r else Inl ErrMethodNotDeclared)"

definition declaredRoute :: "ModuleManifest \<Rightarrow> string \<Rightarrow> string \<Rightarrow> module_error + ModuleRoute" where
  "declaredRoute manifest meth path = declared_in (mmRoutes manifest) (ToUpper (TrimSpace meth)) path"

definition failure_count :: "string \<Rightarrow> Supervisor \<Rightarrow> int" where
  "failure_count mid s = (case bucket_get (suFailures s) mid of None \<Rightarrow> 0 | Some n \<Rightarrow> n)"

definition recordFailure :: "instant \<Rightarrow> string \<Rightarrow> string \<Rightarrow> Supervisor \<Rightarrow> Supervisor" where
  "recordFailure now mid cause s =
     (let count = failure_count mid s + 1; s1 = s\<lparr>suFailures := bucket_put mid count (suFailures s)\<rparr>
      in if count < suThreshold s then s1
         else s1\<lparr>suRegistry := snd (Quarantine now mid
                   (''runtime failure threshold reached after '' @ int_digits count @ '' consecutive failures: '' @ cause) (suRegistry s1))\<rparr>)"

definition resetFailures :: "string \<Rightarrow> Supervisor \<Rightarrow> Supervisor" where
  "resetFailures mid s = s\<lparr>suFailures := bucket_delete mid (suFailures s)\<rparr>"

text \<open>\<open>answer\<close> is what the runtime would return for this call.\<close>

definition Invoke ::
  "(InstalledModule \<Rightarrow> Invocation \<Rightarrow> string + InvocationResult) \<Rightarrow> instant \<Rightarrow> string \<Rightarrow> Invocation \<Rightarrow> Supervisor \<Rightarrow>
   (module_error + InvocationResult) \<times> Supervisor" where
  "Invoke answer now mid req s =
     (case enabledModule mid (suRegistry s) of
        Inl e \<Rightarrow> (Inl e, s)
      | Inr m \<Rightarrow>
          (case declaredRoute (imManifest m) (ivMethod req) (ivPath req) of
             Inl e \<Rightarrow> (Inl e, s)
           | Inr route \<Rightarrow>
               if ivPermission req \<noteq> mrPermission route then (Inl ErrPermissionMismatch, s)
               else (case (if mrPermission route \<noteq> [] then RequirePermission mid (mrPermission route) (suRegistry s) else None) of
                       Some e \<Rightarrow> (Inl e, s)
                     | None \<Rightarrow>
                         (case answer m req of
                            Inl cause \<Rightarrow> (Inl (ErrRuntimeUnavailable cause), recordFailure now mid cause (s\<lparr>suLog := suLog s @ [Invoked m req False]\<rparr>))
                          | Inr result \<Rightarrow> (Inr result, resetFailures mid (s\<lparr>suLog := suLog s @ [Invoked m req True]\<rparr>))))))"

definition InvokeDeclared ::
  "(InstalledModule \<Rightarrow> Invocation \<Rightarrow> string + InvocationResult) \<Rightarrow> instant \<Rightarrow> string \<Rightarrow> string \<Rightarrow> string \<Rightarrow> string \<Rightarrow> ResourceScope \<Rightarrow>
   Supervisor \<Rightarrow> (module_error + InvocationResult) \<times> Supervisor" where
  "InvokeDeclared answer now mid meth path body scope s =
     (case enabledModule mid (suRegistry s) of
        Inl e \<Rightarrow> (Inl e, s)
      | Inr m \<Rightarrow>
          (case declaredRoute (imManifest m) meth path of
             Inl e \<Rightarrow> (Inl e, s)
           | Inr route \<Rightarrow>
               Invoke answer now mid \<lparr>ivMethod = meth, ivPath = path, ivPermission = mrPermission route, ivBody = body, ivScope = scope\<rparr> s))"

definition Health :: "(InstalledModule \<Rightarrow> string option) \<Rightarrow> string \<Rightarrow> registry \<Rightarrow> module_error option" where
  "Health answer mid r =
     (case enabledModule mid r of
        Inl e \<Rightarrow> Some e
      | Inr m \<Rightarrow> (case answer m of Some cause \<Rightarrow> Some (ErrRuntimeUnavailable cause) | None \<Rightarrow> None))"

end
