(* ===== verification/ModuleAccess.thy ===== *)
theory ModuleAccess
  imports ModuleRegistry AccessControl
begin

text \<open>
  What a module may reach (\<^verbatim>\<open>internal/modules\<close> and \<^verbatim>\<open>internal/platform\<close>): service identities and their revocation
  (\<^verbatim>\<open>identity.go\<close>, \<^verbatim>\<open>identity_redis.go\<close>), the authorization of requests (\<^verbatim>\<open>api_authorization.go\<close>,
  \<^verbatim>\<open>module_authorization.go\<close>, \<^verbatim>\<open>module_reference_api.go\<close>) and the broker of host capabilities
  (\<^verbatim>\<open>capability_broker.go\<close>, \<^verbatim>\<open>broker_devices.go\<close>, \<^verbatim>\<open>broker_devices_postgres.go\<close>).

  Tokens are those of \<open>Tokens\<close>. A read or write of the database or of Redis that fails is the value \<open>None\<close> of an argument.
\<close>

section \<open>Service identities\<close>

definition validateServiceScope :: "string \<Rightarrow> string \<Rightarrow> string \<Rightarrow> bool" where
  "validateServiceScope mspID clientID siteID \<longleftrightarrow> \<not> (siteID \<noteq> [] \<and> clientID = []) \<and> \<not> (clientID \<noteq> [] \<and> mspID = [])"

datatype identity_error =
    TokenRejected token_error | ModuleRejected module_error | ModuleTokenRequired | InvalidScope | RevocationUnavailable | IdentityRevoked
  | EmptyPermission | RepeatedPermission string | FieldMissing string | IdentityMismatch | ScopeDenied

record ServiceIdentityRequest =
  siModuleID :: string
  siMSPID :: string
  siClientID :: string
  siSiteID :: string
  siPermissions :: "string list"
  siTTL :: int

fun validateRequestedPermissions :: "registry \<Rightarrow> string \<Rightarrow> string list \<Rightarrow> string list \<Rightarrow> identity_error option" where
  "validateRequestedPermissions r mid seen [] = None"
| "validateRequestedPermissions r mid seen (p # ps) =
     (if p = [] then Some EmptyPermission
      else if p \<in> set seen then Some (RepeatedPermission p)
      else if RequirePermission mid p r \<noteq> None then Some (ModuleRejected ErrPermissionDenied)
      else validateRequestedPermissions r mid (p # seen) ps)"

definition DefaultServiceIdentityTTL :: int where
  "DefaultServiceIdentityTTL = 5 * Minute"

text \<open>A credential is the token, its identifier and the time at which it expires.\<close>

definition Issue ::
  "token_env \<Rightarrow> TokenGenerator \<Rightarrow> string option \<Rightarrow> instant \<Rightarrow> registry \<Rightarrow> ServiceIdentityRequest \<Rightarrow> identity_error + (string \<times> string \<times> instant)" where
  "Issue env g random now r req =
     (case Get_module (siModuleID req) r of
        Inl e \<Rightarrow> Inl (ModuleRejected e)
      | Inr m \<Rightarrow>
          if imState m \<noteq> StateEnabled then Inl (ModuleRejected ErrPermissionDenied)
          else if \<not> validateServiceScope (siMSPID req) (siClientID req) (siSiteID req) then Inl InvalidScope
          else
            (case validateRequestedPermissions r (siModuleID req) [] (siPermissions req) of
               Some e \<Rightarrow> Inl e
             | None \<Rightarrow>
                 (let ttl = (if siTTL req = 0 then DefaultServiceIdentityTTL else siTTL req)
                  in case GenerateModuleToken env g random now (siModuleID req) (siMSPID req) (siClientID req) (siSiteID req) (siPermissions req) ttl of
                       Inl e \<Rightarrow> Inl (TokenRejected e)
                     | Inr token \<Rightarrow>
                         (case Validate_token env g now token of
                            Inl e \<Rightarrow> Inl (TokenRejected e)
                          | Inr c \<Rightarrow> Inr (token, clTokenID c, clExpiresAt c * Second)))))"

text \<open>\<open>revoked\<close> is the answer of the revocation store.\<close>

definition Validate_identity ::
  "token_env \<Rightarrow> TokenGenerator \<Rightarrow> (string \<Rightarrow> bool option) \<Rightarrow> instant \<Rightarrow> registry \<Rightarrow> string \<Rightarrow> identity_error + Claims" where
  "Validate_identity env g revoked now r token =
     (case Validate_token env g now token of
        Inl e \<Rightarrow> Inl (TokenRejected e)
      | Inr c \<Rightarrow>
          if clTokenUse c \<noteq> ''module'' then Inl ModuleTokenRequired
          else if \<not> validateServiceScope (clMSPID c) (clClientID c) (clSiteID c) then Inl InvalidScope
          else
            (case Get_module (clModuleID c) r of
               Inl e \<Rightarrow> Inl (ModuleRejected e)
             | Inr m \<Rightarrow>
                 if imState m \<noteq> StateEnabled then Inl (ModuleRejected ErrPermissionDenied)
                 else if list_ex (\<lambda>p. RequirePermission (clModuleID c) p r \<noteq> None) (clPermissions c) then Inl (ModuleRejected ErrPermissionDenied)
                 else (case revoked (clTokenID c) of
                         None \<Rightarrow> Inl RevocationUnavailable
                       | Some True \<Rightarrow> Inl IdentityRevoked
                       | Some False \<Rightarrow> Inr c)))"

section \<open>Revocation stores\<close>

type_synonym revocations = "instant bucket"

definition Revoke_memory :: "instant \<Rightarrow> string \<Rightarrow> instant \<Rightarrow> revocations \<Rightarrow> bool \<times> revocations" where
  "Revoke_memory now tokenID expiresAt s =
     (if tokenID = [] \<or> expiresAt = zero_time then (False, s) else (True, bucket_put tokenID expiresAt s))"

definition IsRevoked_memory :: "instant \<Rightarrow> string \<Rightarrow> revocations \<Rightarrow> bool option \<times> revocations" where
  "IsRevoked_memory now tokenID s =
     (if tokenID = [] then (None, s)
      else case bucket_get s tokenID of
             None \<Rightarrow> (Some False, s)
           | Some expiresAt \<Rightarrow> if expiresAt \<le> now then (Some False, bucket_delete tokenID s) else (Some True, s))"

text \<open>
  Redis keeps a key until its time to live has passed; the entry holds the time at which it disappears. The last argument says
  whether Redis answers.
\<close>

definition Revoke_redis :: "bool \<Rightarrow> instant \<Rightarrow> string \<Rightarrow> instant \<Rightarrow> revocations \<Rightarrow> bool \<times> revocations" where
  "Revoke_redis up now tokenID expiresAt s =
     (if tokenID = [] then (False, s)
      else let ttl = expiresAt - now
           in if ttl \<le> 0 then (True, s) else if \<not> up then (False, s) else (True, bucket_put tokenID (now + ttl) s))"

definition IsRevoked_redis :: "bool \<Rightarrow> instant \<Rightarrow> string \<Rightarrow> revocations \<Rightarrow> bool option \<times> revocations" where
  "IsRevoked_redis up now tokenID s =
     (if tokenID = [] \<or> \<not> up then (None, s)
      else (Some (case bucket_get s tokenID of None \<Rightarrow> False | Some gone \<Rightarrow> now < gone), s))"

definition Revoke_identity ::
  "token_env \<Rightarrow> TokenGenerator \<Rightarrow> (instant \<Rightarrow> string \<Rightarrow> instant \<Rightarrow> 's \<Rightarrow> bool \<times> 's) \<Rightarrow> instant \<Rightarrow> string \<Rightarrow> 's \<Rightarrow> identity_error option \<times> 's" where
  "Revoke_identity env g revoke now token s =
     (case Validate_token env g now token of
        Inl e \<Rightarrow> (Some (TokenRejected e), s)
      | Inr c \<Rightarrow>
          if clTokenUse c \<noteq> ''module'' then (Some ModuleTokenRequired, s)
          else (case revoke now (clTokenID c) (clExpiresAt c * Second) s of
                  (False, s') \<Rightarrow> (Some RevocationUnavailable, s')
                | (True, s') \<Rightarrow> (None, s')))"

section \<open>Authorization of requests\<close>

record APIAuthorizationRequest =
  arModuleID :: string
  arPermission :: string
  arScope :: ResourceScope

definition scopeAllows :: "string \<Rightarrow> string \<Rightarrow> string \<Rightarrow> ResourceScope \<Rightarrow> bool" where
  "scopeAllows tokenMSP tokenClient tokenSite target \<longleftrightarrow>
     \<not> (tokenMSP \<noteq> [] \<and> (scMSPID target = [] \<or> scMSPID target \<noteq> tokenMSP)) \<and>
     \<not> (tokenClient \<noteq> [] \<and> (scClientID target = [] \<or> scClientID target \<noteq> tokenClient)) \<and>
     \<not> (tokenSite \<noteq> [] \<and> (scSiteID target = [] \<or> scSiteID target \<noteq> tokenSite))"

definition Authorize_module ::
  "token_env \<Rightarrow> TokenGenerator \<Rightarrow> (string \<Rightarrow> bool option) \<Rightarrow> instant \<Rightarrow> registry \<Rightarrow> string \<Rightarrow> APIAuthorizationRequest \<Rightarrow> identity_error + Claims" where
  "Authorize_module env g revoked now r token req =
     (if arModuleID req = [] then Inl (FieldMissing ''module id'')
      else if arPermission req = [] then Inl (FieldMissing ''permission'')
      else if \<not> validateServiceScope (scMSPID (arScope req)) (scClientID (arScope req)) (scSiteID (arScope req)) then Inl InvalidScope
      else
        (case Validate_identity env g revoked now r token of
           Inl e \<Rightarrow> Inl e
         | Inr c \<Rightarrow>
             if clModuleID c \<noteq> arModuleID req then Inl IdentityMismatch
             else if arPermission req \<notin> set (clPermissions c) then Inl (ModuleRejected ErrPermissionDenied)
             else if \<not> scopeAllows (clMSPID c) (clClientID c) (clSiteID c) (arScope req) then Inl ScopeDenied
             else Inr c))"

text \<open>The status for a refused request, or the claims with which the handler is called.\<close>

definition denied_status :: "identity_error \<Rightarrow> nat" where
  "denied_status e =
     (if e = ModuleRejected ErrPermissionDenied \<or> e = ScopeDenied \<or> e = IdentityMismatch \<or> e = IdentityRevoked then 403 else 401)"

definition WithModuleAuthorization ::
  "token_env \<Rightarrow> TokenGenerator \<Rightarrow> (string \<Rightarrow> bool option) \<Rightarrow> instant \<Rightarrow> registry option \<Rightarrow> string \<Rightarrow> string \<Rightarrow> ResourceScope option \<Rightarrow> string \<Rightarrow> nat + Claims" where
  "WithModuleAuthorization env g revoked now authorizer moduleID permission target authorization =
     (case authorizer of
        None \<Rightarrow> Inl 503
      | Some r \<Rightarrow>
          if moduleID = [] \<or> permission = [] then Inl 503
          else
            (let rawToken = extractBearerToken authorization
             in if rawToken = [] then Inl 401
                else case target of
                       None \<Rightarrow> Inl 403
                     | Some scope \<Rightarrow>
                         (case Authorize_module env g revoked now r rawToken \<lparr>arModuleID = moduleID, arPermission = permission, arScope = scope\<rparr> of
                            Inl e \<Rightarrow> Inl (denied_status e)
                          | Inr c \<Rightarrow> Inr c)))"

section \<open>The device endpoint of the reference module\<close>

record fleet_device =
  fdID :: string
  fdHostname :: string
  fdStatus :: string
  fdMSP :: "string option"
  fdClient :: "string option"
  fdSite :: "string option"

record fleet =
  flDevices :: "fleet_device list"
  flMSPs :: "(string \<times> bool) list"
  flClients :: "(string \<times> string \<times> bool) list"
  flSites :: "(string \<times> string \<times> bool) list"

definition coalesce_id :: "string option \<Rightarrow> string" where
  "coalesce_id x = (case x of None \<Rightarrow> [] | Some s \<Rightarrow> s)"

text \<open>The owner, client and site of the device are active and belong to each other.\<close>

definition owners_active :: "fleet \<Rightarrow> fleet_device \<Rightarrow> bool" where
  "owners_active f d \<longleftrightarrow>
     (case fdMSP d of None \<Rightarrow> True | Some m \<Rightarrow> (m, True) \<in> set (flMSPs f)) \<and>
     (case fdClient d of None \<Rightarrow> True | Some c \<Rightarrow> (case fdMSP d of None \<Rightarrow> False | Some m \<Rightarrow> (c, m, True) \<in> set (flClients f))) \<and>
     (case fdSite d of None \<Rightarrow> True | Some s \<Rightarrow> (case fdClient d of None \<Rightarrow> False | Some c \<Rightarrow> (s, c, True) \<in> set (flSites f)))"

definition resolveReferenceModuleDeviceScope :: "bool \<Rightarrow> fleet \<Rightarrow> string \<Rightarrow> ResourceScope option" where
  "resolveReferenceModuleDeviceScope ok f deviceID =
     (if \<not> ok \<or> TrimSpace deviceID = [] then None
      else case find (\<lambda>d. fdID d = TrimSpace deviceID \<and> fdStatus d \<noteq> ''disabled'' \<and> owners_active f d) (flDevices f) of
             None \<Rightarrow> None
           | Some d \<Rightarrow>
               (let scope = \<lparr>scMSPID = coalesce_id (fdMSP d), scClientID = coalesce_id (fdClient d), scSiteID = coalesce_id (fdSite d)\<rparr>
                in if scMSPID scope = [] then None else if scSiteID scope \<noteq> [] \<and> scClientID scope = [] then None else Some scope))"

definition handleReferenceModuleDevice :: "bool \<Rightarrow> fleet \<Rightarrow> ResourceScope \<Rightarrow> string \<Rightarrow> nat + fleet_device" where
  "handleReferenceModuleDevice ok f target deviceID =
     (if scMSPID target = [] then Inl 403
      else if \<not> ok then Inl 500
      else case find (\<lambda>d. fdID d = TrimSpace deviceID \<and> fdMSP d = Some (scMSPID target) \<and> coalesce_id (fdClient d) = scClientID target \<and>
                          coalesce_id (fdSite d) = scSiteID target \<and> fdStatus d \<noteq> ''disabled'') (flDevices f) of
             None \<Rightarrow> Inl 403
           | Some d \<Rightarrow> Inr d)"

definition referenceModuleID :: string where "referenceModuleID = ''com.example.backup''"

definition referenceModuleDeviceID :: "string \<Rightarrow> string option" where
  "referenceModuleDeviceID path =
     (case segments path of
        [p0, p1, p2, p3, p4] \<Rightarrow>
          if p0 = ''api'' \<and> p1 = ''modules'' \<and> p2 = referenceModuleID \<and> p3 = ''devices'' \<and> TrimSpace p4 \<noteq> [] then Some (TrimSpace p4) else None
      | _ \<Rightarrow> None)"

text \<open>The tables may change between the authorization, which sees \<open>f\<close>, and the read, which sees \<open>f'\<close>.\<close>

definition serveReferenceModuleDevice ::
  "token_env \<Rightarrow> TokenGenerator \<Rightarrow> (string \<Rightarrow> bool option) \<Rightarrow> instant \<Rightarrow> registry option \<Rightarrow> bool \<Rightarrow> fleet \<Rightarrow> bool \<Rightarrow> fleet \<Rightarrow> http_request \<Rightarrow> nat + fleet_device" where
  "serveReferenceModuleDevice env g revoked now authorizer ok f ok' f' q =
     (case referenceModuleDeviceID (hqPath q) of
        None \<Rightarrow> Inl 403
      | Some deviceID \<Rightarrow>
          (let target = resolveReferenceModuleDeviceScope ok f deviceID
           in case WithModuleAuthorization env g revoked now authorizer referenceModuleID ''devices.read'' target (hqAuthorization q) of
                Inl status \<Rightarrow> Inl status
              | Inr c \<Rightarrow> (case target of None \<Rightarrow> Inl 403 | Some scope \<Rightarrow> handleReferenceModuleDevice ok' f' scope deviceID)))"

section \<open>The registry of the authorizer\<close>

text \<open>
  The authorizer is built from the database on first use and its registry refreshed after five seconds; after an error it is
  unavailable for five seconds. \<open>load\<close> is the snapshot that the database gives, and \<open>ready\<close> says whether the other
  parts of the authorizer, which need Redis, can be built.
\<close>

record module_runtime =
  mtRegistry :: "registry option"
  mtRetryAfter :: instant
  mtRefreshAfter :: instant

definition configuredModuleAuthorizer :: "instant \<Rightarrow> bool \<Rightarrow> module_error + InstalledModule list \<Rightarrow> module_runtime \<Rightarrow> registry option \<times> module_runtime" where
  "configuredModuleAuthorizer now ready load st =
     (if mtRetryAfter st \<noteq> zero_time \<and> now < mtRetryAfter st then (None, st)
      else
        (let failed = (None, st\<lparr>mtRetryAfter := now + 5 * Second\<rparr>);
             loaded = (\<lambda>r. (Some r, \<lparr>mtRegistry = Some r, mtRetryAfter = zero_time, mtRefreshAfter = now + 5 * Second\<rparr>))
         in case mtRegistry st of
              Some r \<Rightarrow>
                if now < mtRefreshAfter st then (Some r, st)
                else (case load of Inl e \<Rightarrow> failed | Inr ms \<Rightarrow> (case ReplaceSnapshot ms r of (Some e, _) \<Rightarrow> failed | (None, r') \<Rightarrow> loaded r'))
            | None \<Rightarrow>
                (case load of
                   Inl e \<Rightarrow> failed
                 | Inr ms \<Rightarrow> (case ReplaceSnapshot ms [] of (Some e, _) \<Rightarrow> failed | (None, r') \<Rightarrow> if ready then loaded r' else failed))))"

definition invalidateModuleRuntimeRegistry :: "module_runtime \<Rightarrow> module_runtime" where
  "invalidateModuleRuntimeRegistry st = st\<lparr>mtRefreshAfter := zero_time, mtRetryAfter := zero_time\<rparr>"

section \<open>The capability broker\<close>

datatype broker_error =
    BrokerOperationUnknown | BrokerVersionMismatch | BrokerInputTooLarge | BrokerOutputTooLarge | BrokerScopeInvalid
  | BrokerModule module_error | BrokerRequestInvalid | BrokerDeviceUnavailable

type_synonym broker_handler = "InstalledModule \<Rightarrow> ResourceScope \<Rightarrow> string \<Rightarrow> broker_error + string"

record BrokerOperation =
  boName :: string
  boPermission :: string
  boHandler :: broker_handler

record CapabilityBroker =
  cbOperations :: "BrokerOperation bucket"
  cbMaxIOBytes :: int

fun register_operations :: "BrokerOperation bucket \<Rightarrow> BrokerOperation list \<Rightarrow> BrokerOperation bucket option" where
  "register_operations acc [] = Some acc"
| "register_operations acc (p # ps) =
     (let name = TrimSpace (boName p)
      in if name = [] \<or> bucket_get acc name \<noteq> None \<or> boPermission p \<notin> set knownPermissions then None
         else register_operations (bucket_put name (p\<lparr>boName := name\<rparr>) acc) ps)"

definition NewCapabilityBroker :: "BrokerOperation list \<Rightarrow> int \<Rightarrow> CapabilityBroker option" where
  "NewCapabilityBroker operations maxIOBytes =
     map_option (\<lambda>reg. \<lparr>cbOperations = reg, cbMaxIOBytes = (if maxIOBytes \<le> 0 then 1048576 else maxIOBytes)\<rparr>) (register_operations [] operations)"

definition Call_broker :: "CapabilityBroker \<Rightarrow> registry \<Rightarrow> InstalledModule \<Rightarrow> string \<Rightarrow> ResourceScope \<Rightarrow> string \<Rightarrow> broker_error + string" where
  "Call_broker b r m operation scope input =
     (case bucket_get (cbOperations b) (TrimSpace operation) of
        None \<Rightarrow> Inl BrokerOperationUnknown
      | Some p \<Rightarrow>
          if cbMaxIOBytes b < int (length input) then Inl BrokerInputTooLarge
          else if \<not> validateServiceScope (scMSPID scope) (scClientID scope) (scSiteID scope) then Inl BrokerScopeInvalid
          else
            (case Get_module (mmID (imManifest m)) r of
               Inl e \<Rightarrow> Inl (BrokerModule e)
             | Inr current \<Rightarrow>
                 if imState current = StateQuarantined then Inl (BrokerModule ErrQuarantined)
                 else if imState current \<noteq> StateEnabled then Inl (BrokerModule ErrModuleDisabled)
                 else if mmVersion (imManifest current) \<noteq> mmVersion (imManifest m) then Inl BrokerVersionMismatch
                 else (case RequirePermission (mmID (imManifest m)) (boPermission p) r of
                         Some e \<Rightarrow> Inl (BrokerModule e)
                       | None \<Rightarrow>
                           (case boHandler p current scope input of
                              Inl e \<Rightarrow> Inl e
                            | Inr output \<Rightarrow> if cbMaxIOBytes b < int (length output) then Inl BrokerOutputTooLarge else Inr output))))"

text \<open>The scope of a device as the tables have it; each identifier must belong to the one above it.\<close>

definition validateResolvedBrokerDeviceScope :: "string \<Rightarrow> string \<Rightarrow> string \<Rightarrow> string \<Rightarrow> string \<Rightarrow> ResourceScope option" where
  "validateResolvedBrokerDeviceScope deviceMSP deviceClient deviceSite clientMSP siteClient =
     (let scope = \<lparr>scMSPID = TrimSpace deviceMSP, scClientID = TrimSpace deviceClient, scSiteID = TrimSpace deviceSite\<rparr>;
          cm = TrimSpace clientMSP; sc = TrimSpace siteClient
      in if \<not> validateServiceScope (scMSPID scope) (scClientID scope) (scSiteID scope) then None
         else if scClientID scope \<noteq> [] \<and> (cm = [] \<or> cm \<noteq> scMSPID scope) then None
         else if scClientID scope = [] \<and> cm \<noteq> [] then None
         else if scSiteID scope \<noteq> [] \<and> (sc = [] \<or> sc \<noteq> scClientID scope) then None
         else if scSiteID scope = [] \<and> sc \<noteq> [] then None
         else Some scope)"

definition ResolveBrokerDevice :: "bool \<Rightarrow> fleet \<Rightarrow> string \<Rightarrow> (fleet_device \<times> ResourceScope) option" where
  "ResolveBrokerDevice ok f deviceID =
     (let wanted = TrimSpace deviceID
      in if wanted = [] \<or> 128 < length wanted \<or> \<not> ok then None
         else case find (\<lambda>d. fdID d = wanted \<and> fdStatus d \<noteq> ''disabled'') (flDevices f) of
                None \<Rightarrow> None
              | Some d \<Rightarrow>
                  (let cm = (case fdClient d of None \<Rightarrow> [] | Some c \<Rightarrow> (case map_of (flClients f) c of None \<Rightarrow> [] | Some (m, _) \<Rightarrow> m));
                       sc = (case fdSite d of None \<Rightarrow> [] | Some s \<Rightarrow> (case map_of (flSites f) s of None \<Rightarrow> [] | Some (c, _) \<Rightarrow> c))
                   in map_option (Pair d)
                        (validateResolvedBrokerDeviceScope (coalesce_id (fdMSP d)) (coalesce_id (fdClient d)) (coalesce_id (fdSite d)) cm sc)))"

text \<open>\<open>parse\<close> reads the single JSON document of the input; trailing data makes it malformed.\<close>

definition decodeBrokerDeviceGetRequest :: "(string \<Rightarrow> json wire) \<Rightarrow> string \<Rightarrow> string option" where
  "decodeBrokerDeviceGetRequest parse input = do {
     kvs \<leftarrow> dec_object (parse input);
     (if known_fields [''device_id''] kvs then Some () else None);
     raw \<leftarrow> dec_str kvs ''device_id'';
     let wanted = TrimSpace raw;
     (if wanted = [] \<or> 128 < length wanted then None else Some wanted) }"

definition device_get_handler :: "(string \<Rightarrow> json wire) \<Rightarrow> (json \<Rightarrow> string) \<Rightarrow> (string \<Rightarrow> (fleet_device \<times> ResourceScope) option) \<Rightarrow> broker_handler" where
  "device_get_handler parse render resolve m trusted input =
     (case decodeBrokerDeviceGetRequest parse input of
        None \<Rightarrow> Inl BrokerRequestInvalid
      | Some wanted \<Rightarrow>
          (case resolve wanted of
             None \<Rightarrow> Inl BrokerDeviceUnavailable
           | Some (d, scope) \<Rightarrow>
               if TrimSpace (fdID d) \<noteq> wanted then Inl BrokerScopeInvalid
               else if \<not> validateServiceScope (scMSPID scope) (scClientID scope) (scSiteID scope) then Inl BrokerScopeInvalid
               else if scope \<noteq> trusted then Inl BrokerScopeInvalid
               else Inr (render (JObj [(''id'', JStr (fdID d)), (''hostname'', JStr (fdHostname d)), (''status'', JStr (fdStatus d))]))))"

definition NewDeviceGetBrokerOperation :: "(string \<Rightarrow> json wire) \<Rightarrow> (json \<Rightarrow> string) \<Rightarrow> (string \<Rightarrow> (fleet_device \<times> ResourceScope) option) \<Rightarrow> BrokerOperation" where
  "NewDeviceGetBrokerOperation parse render resolve =
     \<lparr>boName = ''devices.get'', boPermission = ''devices.read'', boHandler = device_get_handler parse render resolve\<rparr>"

end
