(* ===== verification/ModuleInstall.thy ===== *)
theory ModuleInstall
  imports ModuleAccess Releases
begin

text \<open>
  Installing modules: signed packages (\<^verbatim>\<open>internal/modules/package.go\<close>, \<^verbatim>\<open>trust.go\<close>), payloads (\<^verbatim>\<open>payload.go\<close>), their
  materialization below the install root (\<^verbatim>\<open>materialize.go\<close>, \<^verbatim>\<open>materialize_retry.go\<close>, \<^verbatim>\<open>release_metadata.go\<close>), the selection of
  the active version (\<^verbatim>\<open>activation.go\<close>, \<^verbatim>\<open>activation_expected.go\<close>, \<^verbatim>\<open>activation_health.go\<close>) and the handlers of the lifecycle
  (\<^verbatim>\<open>internal/platform/module_lifecycle_api.go\<close>, \<^verbatim>\<open>module_package_install.go\<close>, \<^verbatim>\<open>module_version_http.go\<close>,
  \<^verbatim>\<open>module_invocation_api.go\<close>).

  The install root has one directory per module, whose entries are directories with their regular files, files and anything
  else. Versions, the record of the active version, locks and the directory of release metadata share the names of
  that directory, as they do on disk. Symbolic links are \<open>OtherNode\<close>. Archives, SHA-256 (in hexadecimal), Ed25519, base64 and the text of JSON
  documents are arguments, as is the failure of each file operation and database statement. The ownership option, which the
  handlers do not set, is left out.
\<close>

text \<open>Hexadecimal digits are compared as binary numbers when they are evaluated.\<close>

lemma hex_char_code [code]:
  "hex_char c = (let n = (of_char c :: int) in (48 \<le> n \<and> n \<le> 57) \<or> (65 \<le> n \<and> n \<le> 70) \<or> (97 \<le> n \<and> n \<le> 102))"
proof -
  have "(of_char c :: int) = int (of_char c)" by (simp only: of_nat_of_char)
  then show ?thesis by (simp only: hex_char_def Let_def of_nat_le_iff of_nat_numeral [symmetric, where ?'a = int])
qed

section \<open>Packages\<close>

record PublisherKey =
  pkPublisher :: string
  pkKeyID :: string
  pkPublicKey :: string

type_synonym trust_store = "PublisherKey bucket"

record zip_entry =
  zeName :: string
  zeIsDir :: bool
  zeData :: "string option"

datatype tar_type = TarDir | TarReg | TarOther

record tar_entry =
  teName :: string
  teType :: tar_type
  teSize :: int
  teMode :: int
  teData :: string

record module_crypto =
  mcSHA256 :: "string \<Rightarrow> string"
  mcVerify :: "string \<Rightarrow> string \<Rightarrow> string \<Rightarrow> bool"
  mcBase64 :: "string \<Rightarrow> string option"
  mcUnzip :: "string \<Rightarrow> zip_entry list option"
  mcUntar :: "string \<Rightarrow> tar_entry list option"
  mcParse :: "string \<Rightarrow> json wire"
  mcRender :: "json \<Rightarrow> string"
  mcManifest :: "json \<Rightarrow> ModuleManifest option"
  mcManifestJSON :: "ModuleManifest \<Rightarrow> json"

definition trust_key :: "string \<Rightarrow> string \<Rightarrow> string" where
  "trust_key publisher keyID = publisher @ [CHR 0x00] @ keyID"

definition LookupPublisherKey :: "string \<Rightarrow> string \<Rightarrow> trust_store \<Rightarrow> PublisherKey option" where
  "LookupPublisherKey publisher keyID store =
     (case bucket_get store (trust_key publisher keyID) of
        None \<Rightarrow> None
      | Some k \<Rightarrow> if pkPublisher k \<noteq> publisher \<or> pkKeyID k \<noteq> keyID \<or> length (pkPublicKey k) \<noteq> 32 then None else Some k)"

definition trust_entry :: "json \<Rightarrow> (string \<times> string \<times> string) option" where
  "trust_entry j = do {
     kvs \<leftarrow> dec_object (Decoded j);
     (if known_fields [''publisher'', ''key_id'', ''public_key''] kvs then Some () else None);
     p \<leftarrow> dec_str kvs ''publisher''; k \<leftarrow> dec_str kvs ''key_id''; e \<leftarrow> dec_str kvs ''public_key'';
     Some (TrimSpace p, TrimSpace k, TrimSpace e) }"

fun trust_entries :: "module_crypto \<Rightarrow> trust_store \<Rightarrow> json list \<Rightarrow> trust_store option" where
  "trust_entries c acc [] = Some acc"
| "trust_entries c acc (j # js) =
     (case trust_entry j of
        None \<Rightarrow> None
      | Some (p, k, e) \<Rightarrow>
          if p = [] \<or> k = [] \<or> e = [] then None
          else case mcBase64 c e of
                 None \<Rightarrow> None
               | Some raw \<Rightarrow>
                   if length raw \<noteq> 32 \<or> bucket_get acc (trust_key p k) \<noteq> None then None
                   else trust_entries c (bucket_put (trust_key p k) \<lparr>pkPublisher = p, pkKeyID = k, pkPublicKey = raw\<rparr> acc) js)"

definition ParsePublisherTrustStoreJSON :: "module_crypto \<Rightarrow> string \<Rightarrow> trust_store option" where
  "ParsePublisherTrustStoreJSON c data =
     (if TrimSpace data = [] then None
      else case mcParse c data of
             Decoded (JArr (j # js)) \<Rightarrow> trust_entries c [] (j # js)
           | _ \<Rightarrow> None)"

record VerifiedPackage =
  vpManifest :: ModuleManifest
  vpPayload :: string
  vpPayloadSHA256 :: string
  vpPublisherKey :: PublisherKey

fun zip_entries :: "zip_entry bucket \<Rightarrow> zip_entry list \<Rightarrow> zip_entry bucket option" where
  "zip_entries acc [] = Some acc"
| "zip_entries acc (e # es) =
     (let clean = Clean (zeName e)
      in if clean \<noteq> zeName e \<or> HasPrefix clean ''/'' \<or> clean = ''.'' \<or> HasPrefix clean ''../'' \<or> Contains clean [CHR 0x5C] then None
         else if zeIsDir e \<or> bucket_get acc (zeName e) \<noteq> None then None
         else zip_entries (bucket_put (zeName e) e acc) es)"

definition readZipEntry :: "zip_entry \<Rightarrow> int \<Rightarrow> string option" where
  "readZipEntry e limit = (case zeData e of None \<Rightarrow> None | Some d \<Rightarrow> if limit < int (length d) then None else Some d)"

definition decode_manifest :: "module_crypto \<Rightarrow> string \<Rightarrow> ModuleManifest option" where
  "decode_manifest c data = (case mcParse c data of Decoded j \<Rightarrow> mcManifest c j | Malformed \<Rightarrow> None)"

text \<open>Algorithm, key identifier, digest of the payload and signature.\<close>

definition decode_signature :: "module_crypto \<Rightarrow> string \<Rightarrow> (string \<times> string \<times> string \<times> string) option" where
  "decode_signature c data = do {
     kvs \<leftarrow> dec_object (mcParse c data);
     (if known_fields [''algorithm'', ''key_id'', ''payload_sha256'', ''signature''] kvs then Some () else None);
     a \<leftarrow> dec_str kvs ''algorithm''; k \<leftarrow> dec_str kvs ''key_id''; d \<leftarrow> dec_str kvs ''payload_sha256''; s \<leftarrow> dec_str kvs ''signature'';
     Some (a, k, d, s) }"

definition packageSigningMessage :: "module_crypto \<Rightarrow> ModuleManifest \<Rightarrow> string \<Rightarrow> string option" where
  "packageSigningMessage c manifest digest =
     (if length digest \<noteq> 64 \<or> \<not> isHex digest then None
      else Some (mcRender c (mcManifestJSON c manifest) @ [CHR 0x0A] @ digest))"

definition package_parts :: "module_crypto \<Rightarrow> string \<Rightarrow> (string \<times> string \<times> string) option" where
  "package_parts c data = do {
     files \<leftarrow> mcUnzip c data;
     entries \<leftarrow> zip_entries [] files;
     (if length entries \<noteq> 3 then None else Some ());
     m \<leftarrow> bucket_get entries ''manifest.json''; p \<leftarrow> bucket_get entries ''payload.tar.gz''; s \<leftarrow> bucket_get entries ''signature.json'';
     manifest \<leftarrow> readZipEntry m 1048576; payload \<leftarrow> readZipEntry p 62914560; signature \<leftarrow> readZipEntry s 65536;
     Some (manifest, payload, signature) }"

definition VerifyPackage :: "module_crypto \<Rightarrow> string \<Rightarrow> trust_store \<Rightarrow> module_error + VerifiedPackage" where
  "VerifyPackage c data trust =
     (if data = [] \<or> 67108864 < int (length data) then Inl InvalidPackage
      else case package_parts c data of
             None \<Rightarrow> Inl InvalidPackage
           | Some (manifestBytes, payload, signatureBytes) \<Rightarrow>
               (case decode_manifest c manifestBytes of
                  None \<Rightarrow> Inl InvalidPackage
                | Some manifest \<Rightarrow>
                    if ValidateManifest manifest \<noteq> None then Inl InvalidPackage
                    else
                      (case decode_signature c signatureBytes of
                         None \<Rightarrow> Inl InvalidPackage
                       | Some (algorithm, keyID, digest, signature) \<Rightarrow>
                           if algorithm \<noteq> ''ed25519'' \<or> TrimSpace keyID = [] \<or> \<not> EqualFold digest (mcSHA256 c payload) then Inl InvalidPackage
                           else
                             (case LookupPublisherKey (mmPublisher manifest) keyID trust of
                                None \<Rightarrow> Inl ErrUntrustedPublisher
                              | Some key \<Rightarrow>
                                  if \<not> isHex signature \<or> length signature \<noteq> 128 then Inl ErrInvalidSignature
                                  else
                                    (case packageSigningMessage c manifest (mcSHA256 c payload) of
                                       None \<Rightarrow> Inl InvalidPackage
                                     | Some message \<Rightarrow>
                                         if \<not> mcVerify c (pkPublicKey key) message signature then Inl ErrInvalidSignature
                                         else Inr \<lparr>vpManifest = manifest, vpPayload = payload, vpPayloadSHA256 = mcSHA256 c payload,
                                                    vpPublisherKey = key\<rparr>)))))"

section \<open>Payloads\<close>

record PayloadFile =
  pfPath :: string
  pfMode :: int
  pfData :: string

record ValidatedPayload =
  vyModuleID :: string
  vyVersion :: string
  vyPayloadSHA256 :: string
  vyFiles :: "PayloadFile list"
  vyFingerprint :: string

definition cleanPayloadPath :: "string \<Rightarrow> bool" where
  "cleanPayloadPath name \<longleftrightarrow>
     name \<noteq> [] \<and> \<not> Contains name [CHR 0x5C] \<and>
     (let clean = Clean name in clean \<noteq> ''.'' \<and> clean = name \<and> \<not> HasPrefix clean ''/'' \<and> clean \<noteq> ''..'' \<and> \<not> HasPrefix clean ''../'')"

definition validatePayloadLimits :: "int \<Rightarrow> int \<Rightarrow> int \<Rightarrow> bool" where
  "validatePayloadLimits fileCount expandedBytes fileSize \<longleftrightarrow>
     fileCount < 1024 \<and> fileSize \<le> 67108864 \<and> 0 \<le> expandedBytes \<and> expandedBytes \<le> 134217728 \<and> fileSize \<le> 134217728 - expandedBytes"

definition payload_mode_ok :: "int \<Rightarrow> bool" where
  "payload_mode_ok mode \<longleftrightarrow> 0 \<le> mode \<and> mode \<le> 511"

text \<open>The loop over the archive; the files come in its order.\<close>

fun tar_files :: "string list \<Rightarrow> int \<Rightarrow> int \<Rightarrow> tar_entry list \<Rightarrow> PayloadFile list option" where
  "tar_files seen count expanded [] = Some []"
| "tar_files seen count expanded (e # es) =
     (if \<not> cleanPayloadPath (teName e) \<or> teName e \<in> set seen then None
      else case teType e of
             TarDir \<Rightarrow> if teSize e \<noteq> 0 then None else tar_files (teName e # seen) count expanded es
           | TarOther \<Rightarrow> None
           | TarReg \<Rightarrow>
               if teSize e < 0 \<or> \<not> payload_mode_ok (teMode e) \<or> \<not> validatePayloadLimits count expanded (teSize e) \<or> int (length (teData e)) \<noteq> teSize e
               then None
               else map_option (\<lambda>fs. \<lparr>pfPath = teName e, pfMode = teMode e, pfData = teData e\<rparr> # fs)
                      (tar_files (teName e # seen) (count + 1) (expanded + int (length (teData e))) es))"

definition be64 :: "nat \<Rightarrow> string" where
  "be64 n = map (\<lambda>i. char_of (int n div 256 ^ i)) [7, 6, 5, 4, 3, 2, 1, 0]"

definition writeBytes :: "string \<Rightarrow> string" where
  "writeBytes d = be64 (length d) @ d"

definition fingerprint_message :: "string \<Rightarrow> string \<Rightarrow> string \<Rightarrow> PayloadFile list \<Rightarrow> string" where
  "fingerprint_message moduleID version digest files =
     writeBytes moduleID @ writeBytes version @ writeBytes (ToLower digest) @ be64 (length files) @
     concat (map (\<lambda>f. writeBytes (pfPath f) @ writeBytes (int_digits (pfMode f)) @ writeBytes (pfData f)) files)"

definition fingerprintValidatedPayload :: "module_crypto \<Rightarrow> string \<Rightarrow> string \<Rightarrow> string \<Rightarrow> PayloadFile list \<Rightarrow> string" where
  "fingerprintValidatedPayload c moduleID version digest files = mcSHA256 c (fingerprint_message moduleID version digest files)"

definition ValidatePayload :: "module_crypto \<Rightarrow> VerifiedPackage \<Rightarrow> module_error + ValidatedPayload" where
  "ValidatePayload c pkg =
     (if vpPayload pkg = [] then Inl InvalidPayload
      else case mcUntar c (vpPayload pkg) of
             None \<Rightarrow> Inl InvalidPayload
           | Some es \<Rightarrow>
               (case tar_files [] 0 0 es of
                  None \<Rightarrow> Inl InvalidPayload
                | Some [] \<Rightarrow> Inl InvalidPayload
                | Some fs \<Rightarrow>
                    Inr \<lparr>vyModuleID = mmID (vpManifest pkg), vyVersion = mmVersion (vpManifest pkg), vyPayloadSHA256 = vpPayloadSHA256 pkg, vyFiles = fs,
                         vyFingerprint = fingerprintValidatedPayload c (mmID (vpManifest pkg)) (mmVersion (vpManifest pkg)) (vpPayloadSHA256 pkg) fs\<rparr>))"

section \<open>The install root\<close>

datatype node = DirNode "PayloadFile list" | FileNode string instant | OtherNode

type_synonym module_dir = "node bucket"
type_synonym install_root = "module_dir bucket"

text \<open>Which file operations succeed; a crash is a failure after which the cleanup fails too.\<close>

record fs_env =
  feNow :: instant
  feRoot :: bool
  feDir :: bool
  feInspect :: bool
  feLock :: bool
  feStage :: bool
  feRename :: bool
  feUnlock :: bool
  feMetadata :: bool
  feActivationLock :: bool
  feActivationRead :: bool
  feActivationWrite :: bool
  feActivationUnlock :: bool

definition validateInstallComponent :: "string \<Rightarrow> bool" where
  "validateInstallComponent v \<longleftrightarrow> plain_element v \<and> CHR 0x5C \<notin> set v"

definition existingModuleDirectory :: "fs_env \<Rightarrow> string \<Rightarrow> install_root \<Rightarrow> module_error + module_dir" where
  "existingModuleDirectory fe mid tree =
     (if \<not> validateInstallComponent mid then Inl UnsafeComponent
      else if \<not> feRoot fe then Inl ErrUnsafeInstallRoot
      else case bucket_get tree mid of None \<Rightarrow> Inl FilesystemFailure | Some d \<Rightarrow> Inr d)"

definition validateMaterializedVersionDirectory :: "string \<Rightarrow> module_dir \<Rightarrow> module_error option" where
  "validateMaterializedVersionDirectory version d =
     (if \<not> validateInstallComponent version then Some UnsafeComponent
      else case bucket_get d version of Some (DirNode _) \<Rightarrow> None | _ \<Rightarrow> Some FilesystemFailure)"

section \<open>Materialization\<close>

definition validateMaterializeIdentity :: "module_crypto \<Rightarrow> VerifiedPackage \<Rightarrow> ValidatedPayload \<Rightarrow> bool" where
  "validateMaterializeIdentity c pkg payload \<longleftrightarrow>
     vpPayloadSHA256 pkg \<noteq> [] \<and> EqualFold (vpPayloadSHA256 pkg) (mcSHA256 c (vpPayload pkg)) \<and>
     vyModuleID payload = mmID (vpManifest pkg) \<and> vyVersion payload = mmVersion (vpManifest pkg) \<and>
     EqualFold (vyPayloadSHA256 payload) (vpPayloadSHA256 pkg) \<and>
     vyFingerprint payload = fingerprintValidatedPayload c (vyModuleID payload) (vyVersion payload) (vyPayloadSHA256 payload) (vyFiles payload)"

text \<open>The nine permission bits.\<close>

definition payloadFileMode :: "int \<Rightarrow> int" where
  "payloadFileMode mode = sum_list (map (\<lambda>b. if (mode div 2 ^ b) mod 2 = 1 then 2 ^ b else 0) [0..<9])"

definition materialized :: "PayloadFile list \<Rightarrow> PayloadFile list" where
  "materialized fs = map (\<lambda>f. f\<lparr>pfMode := payloadFileMode (pfMode f)\<rparr>) fs"

text \<open>The directories above a file, as slash-separated paths.\<close>

definition parent_paths :: "string \<Rightarrow> string list" where
  "parent_paths p = (let parts = Split (CHR ''/'') p in map (\<lambda>k. Join (CHR ''/'') (take k parts)) [1..<length parts])"

text \<open>
  The loop over the files: it ends with an error when a path is unsafe or repeated, a mode or a size is out of range, or a
  file is in the way of a directory.
\<close>

fun stage_files :: "string list \<Rightarrow> int \<Rightarrow> int \<Rightarrow> PayloadFile list \<Rightarrow> bool" where
  "stage_files earlier count expanded [] = True"
| "stage_files earlier count expanded (f # fs) =
     (cleanPayloadPath (pfPath f) \<and> pfPath f \<notin> set earlier \<and> payload_mode_ok (pfMode f) \<and>
      validatePayloadLimits count expanded (int (length (pfData f))) \<and>
      \<not> list_ex (\<lambda>q. q \<in> set (parent_paths (pfPath f)) \<or> pfPath f \<in> set (parent_paths q)) earlier \<and>
      stage_files (pfPath f # earlier) (count + 1) (expanded + int (length (pfData f))) fs)"

definition install_lock :: "string \<Rightarrow> string" where
  "install_lock version = ''.'' @ version @ ''.install.lock''"

definition reclaimStaleInstallLock :: "fs_env \<Rightarrow> string \<Rightarrow> module_dir \<Rightarrow> module_error option \<times> module_dir" where
  "reclaimStaleInstallLock fe version d =
     (case bucket_get d (install_lock version) of
        None \<Rightarrow> (None, d)
      | Some (FileNode _ modified) \<Rightarrow>
          (let age = feNow fe - modified
           in if age < 0 \<or> age < 30 * Minute then (Some ErrInstallInProgress, d)
              else if bucket_get d version \<noteq> None then (Some ErrMaterializedVersionExists, d)
              else (None, bucket_delete (install_lock version) d))
      | Some _ \<Rightarrow> (Some ErrInstallInProgress, d))"

definition acquireInstallLock :: "fs_env \<Rightarrow> string \<Rightarrow> module_dir \<Rightarrow> module_error option \<times> module_dir" where
  "acquireInstallLock fe version d =
     (case (if bucket_get d (install_lock version) = None then (None, d) else reclaimStaleInstallLock fe version d) of
        (Some e, d1) \<Rightarrow> (Some e, d1)
      | (None, d1) \<Rightarrow>
          if \<not> feLock fe then (Some FilesystemFailure, d1) else (None, bucket_put (install_lock version) (FileNode [] (feNow fe)) d1))"

definition release_install_lock :: "fs_env \<Rightarrow> string \<Rightarrow> module_dir \<Rightarrow> module_dir" where
  "release_install_lock fe version d = (if feUnlock fe then bucket_delete (install_lock version) d else d)"

definition MaterializePayload :: "module_crypto \<Rightarrow> fs_env \<Rightarrow> VerifiedPackage \<Rightarrow> ValidatedPayload \<Rightarrow> install_root \<Rightarrow> module_error option \<times> install_root" where
  "MaterializePayload c fe pkg payload tree =
     (let mid = mmID (vpManifest pkg); version = mmVersion (vpManifest pkg)
      in case ValidateManifest (vpManifest pkg) of
           Some e \<Rightarrow> (Some (InvalidManifest e), tree)
         | None \<Rightarrow>
             if \<not> validateMaterializeIdentity c pkg payload then (Some ErrPayloadIdentityMismatch, tree)
             else if \<not> validateInstallComponent mid \<or> \<not> validateInstallComponent version then (Some UnsafeComponent, tree)
             else if \<not> feRoot fe then (Some ErrUnsafeInstallRoot, tree)
             else if \<not> feDir fe then (Some FilesystemFailure, tree)
             else
               (let d = (case bucket_get tree mid of None \<Rightarrow> [] | Some d \<Rightarrow> d); put = (\<lambda>d'. bucket_put mid d' tree)
                in if \<not> feInspect fe then (Some FilesystemFailure, put d)
                   else if bucket_get d version \<noteq> None then (Some ErrMaterializedVersionExists, put d)
                   else
                     (case acquireInstallLock fe version d of
                        (Some e, d1) \<Rightarrow> (Some e, put d1)
                      | (None, d1) \<Rightarrow>
                          if \<not> feStage fe \<or> \<not> stage_files [] 0 0 (vyFiles payload) \<or> vyFiles payload = []
                          then (Some InvalidPayload, put (release_install_lock fe version d1))
                          else if bucket_get d1 version \<noteq> None then (Some ErrMaterializedVersionExists, put (release_install_lock fe version d1))
                          else if \<not> feRename fe then (Some FilesystemFailure, put (release_install_lock fe version d1))
                          else (None, put (release_install_lock fe version (bucket_put version (DirNode (materialized (vyFiles payload))) d1))))))"

definition verifyExistingMaterializedPayload :: "fs_env \<Rightarrow> VerifiedPackage \<Rightarrow> ValidatedPayload \<Rightarrow> install_root \<Rightarrow> module_error option" where
  "verifyExistingMaterializedPayload fe pkg payload tree =
     (let mid = mmID (vpManifest pkg); version = mmVersion (vpManifest pkg); expected = materialized (vyFiles payload)
      in if \<not> feRoot fe then Some ErrUnsafeInstallRoot
         else if \<not> validateInstallComponent mid \<or> \<not> validateInstallComponent version then Some UnsafeComponent
         else case (case bucket_get tree mid of None \<Rightarrow> None | Some d \<Rightarrow> bucket_get d version) of
                Some (DirNode fs) \<Rightarrow>
                  if \<not> list_all (\<lambda>f. cleanPayloadPath (pfPath f)) expected \<or> \<not> distinct (map pfPath expected) then Some InvalidPayload
                  else if list_all (\<lambda>f. f \<in> set expected) fs \<and> length fs = length expected then None
                  else Some ErrMaterializedVersionExists
              | Some _ \<Rightarrow> Some ErrMaterializedVersionExists
              | None \<Rightarrow> Some FilesystemFailure)"

section \<open>Release metadata\<close>

record ReleaseMetadata =
  rdManifest :: ModuleManifest
  rdPayloadSHA256 :: string
  rdPublisher :: string
  rdKeyID :: string

definition releaseMetadataFromPackage :: "VerifiedPackage \<Rightarrow> ReleaseMetadata option" where
  "releaseMetadataFromPackage pkg =
     (if ValidateManifest (vpManifest pkg) \<noteq> None \<or> length (vpPayloadSHA256 pkg) \<noteq> 64 \<or> \<not> isHex (vpPayloadSHA256 pkg) \<or>
         pkPublisher (vpPublisherKey pkg) \<noteq> mmPublisher (vpManifest pkg) \<or> TrimSpace (pkKeyID (vpPublisherKey pkg)) = [] then None
      else Some \<lparr>rdManifest = vpManifest pkg, rdPayloadSHA256 = ToLower (vpPayloadSHA256 pkg), rdPublisher = pkPublisher (vpPublisherKey pkg),
                  rdKeyID = pkKeyID (vpPublisherKey pkg)\<rparr>)"

definition metadata_json :: "module_crypto \<Rightarrow> ReleaseMetadata \<Rightarrow> json" where
  "metadata_json c md = JObj [(''schema_version'', JNum 1), (''manifest'', mcManifestJSON c (rdManifest md)),
     (''payload_sha256'', JStr (rdPayloadSHA256 md)), (''publisher'', JStr (rdPublisher md)), (''key_id'', JStr (rdKeyID md))]"

definition validateReleaseMetadata :: "int \<Rightarrow> ReleaseMetadata \<Rightarrow> bool" where
  "validateReleaseMetadata schema md \<longleftrightarrow>
     schema = 1 \<and> ValidateManifest (rdManifest md) = None \<and> rdPublisher md = mmPublisher (rdManifest md) \<and> TrimSpace (rdKeyID md) \<noteq> [] \<and>
     length (rdPayloadSHA256 md) = 64 \<and> isHex (rdPayloadSHA256 md)"

definition decode_metadata :: "module_crypto \<Rightarrow> string \<Rightarrow> ReleaseMetadata option" where
  "decode_metadata c data = do {
     kvs \<leftarrow> dec_object (mcParse c data);
     (if known_fields [''schema_version'', ''manifest'', ''payload_sha256'', ''publisher'', ''key_id''] kvs then Some () else None);
     schema \<leftarrow> dec_int kvs ''schema_version''; raw \<leftarrow> dec_raw kvs ''manifest''; m \<leftarrow> mcManifest c raw;
     digest \<leftarrow> dec_str kvs ''payload_sha256''; publisher \<leftarrow> dec_str kvs ''publisher''; keyID \<leftarrow> dec_str kvs ''key_id'';
     let md = \<lparr>rdManifest = m, rdPayloadSHA256 = digest, rdPublisher = publisher, rdKeyID = keyID\<rparr>;
     (if validateReleaseMetadata schema md then Some md else None) }"

text \<open>The record of a version among the files of the directory \<^verbatim>\<open>.releases\<close>; \<open>Inr None\<close> if there is none.\<close>

definition readReleaseMetadataFromRoot :: "module_crypto \<Rightarrow> string \<Rightarrow> PayloadFile list \<Rightarrow> module_error + ReleaseMetadata option" where
  "readReleaseMetadataFromRoot c version files =
     (case find (\<lambda>f. pfPath f = version @ ''.json'') files of
        None \<Rightarrow> Inr None
      | Some f \<Rightarrow>
          if 2097152 < int (length (pfData f)) then Inl ErrReleaseMetadataInvalid
          else case decode_metadata c (pfData f) of None \<Rightarrow> Inl ErrReleaseMetadataInvalid | Some md \<Rightarrow> Inr (Some md))"

definition PersistReleaseMetadata :: "module_crypto \<Rightarrow> fs_env \<Rightarrow> VerifiedPackage \<Rightarrow> install_root \<Rightarrow> module_error option \<times> install_root" where
  "PersistReleaseMetadata c fe pkg tree =
     (let mid = mmID (vpManifest pkg); version = mmVersion (vpManifest pkg)
      in case releaseMetadataFromPackage pkg of
           None \<Rightarrow> (Some ErrReleaseMetadataInvalid, tree)
         | Some md \<Rightarrow>
             (case existingModuleDirectory fe mid tree of
                Inl e \<Rightarrow> (Some e, tree)
              | Inr d \<Rightarrow>
                  (case (case bucket_get d ''.releases'' of None \<Rightarrow> Some [] | Some (DirNode fs) \<Rightarrow> Some fs | Some _ \<Rightarrow> None) of
                     None \<Rightarrow> (Some ErrUnsafeInstallRoot, tree)
                   | Some fs \<Rightarrow>
                       (case readReleaseMetadataFromRoot c version fs of
                          Inl e \<Rightarrow> (Some e, bucket_put mid (bucket_put ''.releases'' (DirNode fs) d) tree)
                        | Inr (Some old) \<Rightarrow>
                            (if mcRender c (metadata_json c old) = mcRender c (metadata_json c md) then None else Some ErrReleaseMetadataConflict,
                             bucket_put mid (bucket_put ''.releases'' (DirNode fs) d) tree)
                        | Inr None \<Rightarrow>
                            if \<not> feMetadata fe then (Some FilesystemFailure, bucket_put mid (bucket_put ''.releases'' (DirNode fs) d) tree)
                            else (None, bucket_put mid (bucket_put ''.releases'' (DirNode (fs @ [\<lparr>pfPath = version @ ''.json'', pfMode = 384,
                                     pfData = mcRender c (metadata_json c md) @ [CHR 0x0A]\<rparr>])) d) tree)))))"

definition ReadReleaseMetadata :: "module_crypto \<Rightarrow> fs_env \<Rightarrow> string \<Rightarrow> string \<Rightarrow> install_root \<Rightarrow> module_error + ReleaseMetadata" where
  "ReadReleaseMetadata c fe mid version tree =
     (if \<not> validateInstallComponent mid \<or> \<not> validateInstallComponent version then Inl UnsafeComponent
      else case existingModuleDirectory fe mid tree of
             Inl e \<Rightarrow> Inl e
           | Inr d \<Rightarrow>
               (case bucket_get d ''.releases'' of
                  Some (DirNode fs) \<Rightarrow>
                    (case readReleaseMetadataFromRoot c version fs of
                       Inl e \<Rightarrow> Inl e
                     | Inr None \<Rightarrow> Inl FilesystemFailure
                     | Inr (Some md) \<Rightarrow> Inr md)
                | _ \<Rightarrow> Inl FilesystemFailure))"

definition MaterializePayloadRetrySafe ::
  "module_crypto \<Rightarrow> fs_env \<Rightarrow> VerifiedPackage \<Rightarrow> ValidatedPayload \<Rightarrow> install_root \<Rightarrow> module_error option \<times> install_root" where
  "MaterializePayloadRetrySafe c fe pkg payload tree =
     (case MaterializePayload c fe pkg payload tree of
        (None, tree1) \<Rightarrow> PersistReleaseMetadata c fe pkg tree1
      | (Some e, tree1) \<Rightarrow>
          if e \<noteq> ErrMaterializedVersionExists then (Some e, tree1)
          else if \<not> validateMaterializeIdentity c pkg payload then (Some ErrPayloadIdentityMismatch, tree1)
          else (case verifyExistingMaterializedPayload fe pkg payload tree1 of
                  Some e' \<Rightarrow> (Some e', tree1)
                | None \<Rightarrow> PersistReleaseMetadata c fe pkg tree1))"

section \<open>Active versions\<close>

record ActivationState =
  avSchemaVersion :: int
  avActiveVersion :: string
  avPreviousVersion :: string

definition activation_json :: "ActivationState \<Rightarrow> json" where
  "activation_json st =
     JObj ([(''schema_version'', JNum (of_int (avSchemaVersion st))), (''active_version'', JStr (avActiveVersion st))] @
           (if avPreviousVersion st = [] then [] else [(''previous_version'', JStr (avPreviousVersion st))]))"

definition decode_activation :: "module_crypto \<Rightarrow> string \<Rightarrow> ActivationState option" where
  "decode_activation c data = do {
     kvs \<leftarrow> dec_object (mcParse c data);
     schema \<leftarrow> dec_int kvs ''schema_version''; active \<leftarrow> dec_str kvs ''active_version''; previous \<leftarrow> dec_str kvs ''previous_version'';
     Some \<lparr>avSchemaVersion = schema, avActiveVersion = active, avPreviousVersion = previous\<rparr> }"

definition readActivationState :: "module_crypto \<Rightarrow> fs_env \<Rightarrow> module_dir \<Rightarrow> module_error + ActivationState" where
  "readActivationState c fe d =
     (case bucket_get d ''.active.json'' of
        None \<Rightarrow> if feActivationRead fe then Inl ErrNoActiveVersion else Inl FilesystemFailure
      | Some (FileNode data _) \<Rightarrow>
          if \<not> feActivationRead fe then Inl FilesystemFailure
          else (case decode_activation c data of
                  None \<Rightarrow> Inl ErrInvalidActivationState
                | Some st \<Rightarrow>
                    if avSchemaVersion st \<noteq> 1 \<or> avActiveVersion st = [] \<or> \<not> validateInstallComponent (avActiveVersion st) \<or>
                       (avPreviousVersion st \<noteq> [] \<and> \<not> validateInstallComponent (avPreviousVersion st))
                    then Inl ErrInvalidActivationState else Inr st)
      | Some _ \<Rightarrow> Inl ErrInvalidActivationState)"

definition writeActivationState :: "module_crypto \<Rightarrow> fs_env \<Rightarrow> ActivationState \<Rightarrow> module_dir \<Rightarrow> module_error option \<times> module_dir" where
  "writeActivationState c fe st d =
     (if avSchemaVersion st \<noteq> 1 \<or> avActiveVersion st = [] then (Some ErrInvalidActivationState, d)
      else if \<not> feActivationWrite fe then (Some FilesystemFailure, d)
      else case bucket_get d ''.active.json'' of
             Some (DirNode _) \<Rightarrow> (Some ErrInvalidActivationState, d)
           | Some OtherNode \<Rightarrow> (Some ErrInvalidActivationState, d)
           | _ \<Rightarrow> (None, bucket_put ''.active.json'' (FileNode (mcRender c (activation_json st) @ [CHR 0x0A]) (feNow fe)) d))"

text \<open>The code between taking the activation lock of a module and releasing it.\<close>

definition with_activation_lock ::
  "fs_env \<Rightarrow> string \<Rightarrow> module_dir \<Rightarrow> (module_dir \<Rightarrow> (module_error + ActivationState) \<times> module_dir) \<Rightarrow> install_root \<Rightarrow>
   (module_error + ActivationState) \<times> install_root" where
  "with_activation_lock fe mid d body tree =
     (if bucket_get d ''.activation.lock'' \<noteq> None then (Inl ErrActivationInProgress, tree)
      else if \<not> feActivationLock fe then (Inl FilesystemFailure, tree)
      else (case body (bucket_put ''.activation.lock'' (FileNode [] (feNow fe)) d) of
              (result, d1) \<Rightarrow> (result, bucket_put mid (if feActivationUnlock fe then bucket_delete ''.activation.lock'' d1 else d1) tree)))"

definition select_version :: "module_crypto \<Rightarrow> fs_env \<Rightarrow> string \<Rightarrow> string \<Rightarrow> module_dir \<Rightarrow> (module_error + ActivationState) \<times> module_dir" where
  "select_version c fe active previous d =
     (let next = \<lparr>avSchemaVersion = 1, avActiveVersion = active, avPreviousVersion = previous\<rparr>
      in case writeActivationState c fe next d of (Some e, d1) \<Rightarrow> (Inl e, d1) | (None, d1) \<Rightarrow> (Inr next, d1))"

definition ActivateMaterializedVersion :: "module_crypto \<Rightarrow> fs_env \<Rightarrow> string \<Rightarrow> string \<Rightarrow> install_root \<Rightarrow> (module_error + ActivationState) \<times> install_root" where
  "ActivateMaterializedVersion c fe mid version tree =
     (case existingModuleDirectory fe mid tree of
        Inl e \<Rightarrow> (Inl e, tree)
      | Inr d \<Rightarrow>
          (case validateMaterializedVersionDirectory version d of
             Some e \<Rightarrow> (Inl e, tree)
           | None \<Rightarrow>
               with_activation_lock fe mid d (\<lambda>d1.
                 case readActivationState c fe d1 of
                   Inl e \<Rightarrow> if e \<noteq> ErrNoActiveVersion then (Inl e, d1) else select_version c fe version [] d1
                 | Inr current \<Rightarrow>
                     if avActiveVersion current = version then (Inr current, d1)
                     else select_version c fe version (avActiveVersion current) d1) tree))"

definition RollbackActiveVersion :: "module_crypto \<Rightarrow> fs_env \<Rightarrow> string \<Rightarrow> install_root \<Rightarrow> (module_error + ActivationState) \<times> install_root" where
  "RollbackActiveVersion c fe mid tree =
     (case existingModuleDirectory fe mid tree of
        Inl e \<Rightarrow> (Inl e, tree)
      | Inr d \<Rightarrow>
          with_activation_lock fe mid d (\<lambda>d1.
            case readActivationState c fe d1 of
              Inl e \<Rightarrow> (Inl e, d1)
            | Inr current \<Rightarrow>
                if avPreviousVersion current = [] then (Inl ErrNoRollbackVersion, d1)
                else (case validateMaterializedVersionDirectory (avPreviousVersion current) d1 of
                        Some e \<Rightarrow> (Inl e, d1)
                      | None \<Rightarrow> select_version c fe (avPreviousVersion current) (avActiveVersion current) d1)) tree)"

definition ReadActiveVersion :: "module_crypto \<Rightarrow> fs_env \<Rightarrow> string \<Rightarrow> install_root \<Rightarrow> module_error + ActivationState" where
  "ReadActiveVersion c fe mid tree =
     (case existingModuleDirectory fe mid tree of
        Inl e \<Rightarrow> Inl e
      | Inr d \<Rightarrow>
          (case readActivationState c fe d of
             Inl e \<Rightarrow> Inl e
           | Inr st \<Rightarrow>
               (case validateMaterializedVersionDirectory (avActiveVersion st) d of
                  Some e \<Rightarrow> Inl e
                | None \<Rightarrow>
                    (case (if avPreviousVersion st = [] then None else validateMaterializedVersionDirectory (avPreviousVersion st) d) of
                       Some e \<Rightarrow> Inl e
                     | None \<Rightarrow> Inr st))))"

definition ActivateExpectedPreviousVersion ::
  "module_crypto \<Rightarrow> fs_env \<Rightarrow> string \<Rightarrow> ActivationState \<Rightarrow> install_root \<Rightarrow> (module_error + ActivationState) \<times> install_root" where
  "ActivateExpectedPreviousVersion c fe mid expected tree =
     (if avSchemaVersion expected \<noteq> 1 \<or> avActiveVersion expected = [] \<or> avPreviousVersion expected = [] then (Inl ErrNoRollbackVersion, tree)
      else case existingModuleDirectory fe mid tree of
             Inl e \<Rightarrow> (Inl e, tree)
           | Inr d \<Rightarrow>
               (case validateMaterializedVersionDirectory (avActiveVersion expected) d of
                  Some e \<Rightarrow> (Inl e, tree)
                | None \<Rightarrow>
                    (case validateMaterializedVersionDirectory (avPreviousVersion expected) d of
                       Some e \<Rightarrow> (Inl e, tree)
                     | None \<Rightarrow>
                         with_activation_lock fe mid d (\<lambda>d1.
                           case readActivationState c fe d1 of
                             Inl e \<Rightarrow> (Inl e, d1)
                           | Inr current \<Rightarrow>
                               if current = \<lparr>avSchemaVersion = 1, avActiveVersion = avPreviousVersion expected, avPreviousVersion = avActiveVersion expected\<rparr>
                               then (Inr current, d1)
                               else if current \<noteq> expected then (Inl ErrActivationStateChanged, d1)
                               else select_version c fe (avPreviousVersion expected) (avActiveVersion expected) d1) tree)))"

text \<open>How the health check of a candidate ends.\<close>

datatype health_outcome = CandidateHealthy | CandidateFailed | CandidateTimedOut | CandidateCancelled

definition ActivateMaterializedVersionWithHealth ::
  "module_crypto \<Rightarrow> fs_env \<Rightarrow> (string \<Rightarrow> string \<Rightarrow> health_outcome) \<Rightarrow> int \<Rightarrow> string \<Rightarrow> string \<Rightarrow> install_root \<Rightarrow> (module_error + ActivationState) \<times> install_root" where
  "ActivateMaterializedVersionWithHealth c fe check timeout mid version tree =
     (if timeout \<le> 0 \<or> 2 * Minute < timeout then (Inl HealthTimeoutRange, tree)
      else case existingModuleDirectory fe mid tree of
             Inl e \<Rightarrow> (Inl e, tree)
           | Inr d \<Rightarrow>
               (case validateMaterializedVersionDirectory version d of
                  Some e \<Rightarrow> (Inl e, tree)
                | None \<Rightarrow>
                    with_activation_lock fe mid d (\<lambda>d1.
                      let go = (\<lambda>previous. case check mid version of
                                  CandidateHealthy \<Rightarrow> select_version c fe version previous d1
                                | CandidateTimedOut \<Rightarrow> (Inl ErrCandidateHealthTimeout, d1)
                                | CandidateFailed \<Rightarrow> (Inl ErrCandidateUnhealthy, d1)
                                | CandidateCancelled \<Rightarrow> (Inl CandidateCheckCancelled, d1))
                      in case readActivationState c fe d1 of
                           Inl e \<Rightarrow> if e \<noteq> ErrNoActiveVersion then (Inl e, d1) else go []
                         | Inr current \<Rightarrow> if avActiveVersion current = version then (Inr current, d1) else go (avActiveVersion current)) tree))"

end
