(* ===== verification/ModuleLifecycle.thy ===== *)
theory ModuleLifecycle
  imports ModuleInstall
begin

text \<open>
  The handlers of the module lifecycle (\<^verbatim>\<open>internal/platform/module_lifecycle_api.go\<close>, \<^verbatim>\<open>module_package_install.go\<close>,
  \<^verbatim>\<open>module_version_http.go\<close>, \<^verbatim>\<open>module_invocation_api.go\<close>): each runs its changes in one transaction, which is repeated on a
  serialization failure, and changes the install root on the way.

  An error whose status depends on the text of its message has the status of the messages this code makes; the texts of
  database and file errors are taken not to contain the words the handler looks for.
\<close>

section \<open>Transactions\<close>

record module_world =
  mwDB :: module_db
  mwTree :: install_root
  mwRuntime :: module_runtime

record module_server =
  msCrypto :: module_crypto
  msRoot :: string
  msTrust :: string

record tx_env =
  txBegin :: "module_error option"
  txRead :: "module_error option"
  txWrite :: "module_error option"
  txCommit :: "module_error option"
  txNow :: instant
  txFs :: fs_env

type_synonym mutation = "tx_env \<Rightarrow> registry \<Rightarrow> module_db \<Rightarrow> install_root \<Rightarrow> (module_error + InstalledModule) \<times> module_db \<times> install_root"

definition retryableModuleLifecycleTransaction :: "module_error \<Rightarrow> bool" where
  "retryableModuleLifecycleTransaction e \<longleftrightarrow> e = DatabaseFailure True"

definition beginModuleLifecycleTransaction :: "tx_env \<Rightarrow> string \<Rightarrow> module_error option" where
  "beginModuleLifecycleTransaction e actor = (if TrimSpace actor = [] then Some ActorRequired else txBegin e)"

text \<open>The install root keeps what the mutation did to it, whether or not the transaction commits.\<close>

definition runModuleLifecycleMutation :: "tx_env \<Rightarrow> string \<Rightarrow> mutation \<Rightarrow> module_world \<Rightarrow> (module_error + InstalledModule) \<times> module_world" where
  "runModuleLifecycleMutation e actor mutation w =
     (case beginModuleLifecycleTransaction e actor of
        Some err \<Rightarrow> (Inl err, w)
      | None \<Rightarrow>
          (case RestoreRegistry (txRead e) (mwDB w) of
             Inl err \<Rightarrow> (Inl err, w)
           | Inr r \<Rightarrow>
               (case mutation e r (mwDB w) (mwTree w) of
                  (Inl err, db, tree) \<Rightarrow> (Inl err, w\<lparr>mwTree := tree\<rparr>)
                | (Inr m, db, tree) \<Rightarrow>
                    (case txCommit e of
                       Some err \<Rightarrow> (Inl err, w\<lparr>mwTree := tree\<rparr>)
                     | None \<Rightarrow> (Inr m, w\<lparr>mwDB := db, mwTree := tree\<rparr>)))))"

fun mutate_from :: "module_error \<Rightarrow> tx_env list \<Rightarrow> string \<Rightarrow> mutation \<Rightarrow> module_world \<Rightarrow> (module_error + InstalledModule) \<times> module_world" where
  "mutate_from lastErr [] actor mutation w = (Inl lastErr, w)"
| "mutate_from lastErr (e # es) actor mutation w =
     (case runModuleLifecycleMutation e actor mutation w of
        (Inr m, w1) \<Rightarrow> (Inr m, w1\<lparr>mwRuntime := invalidateModuleRuntimeRegistry (mwRuntime w1)\<rparr>)
      | (Inl err, w1) \<Rightarrow> if retryableModuleLifecycleTransaction err then mutate_from err es actor mutation w1 else (Inl err, w1))"

definition mutateModuleLifecycle :: "(nat \<Rightarrow> tx_env) \<Rightarrow> string \<Rightarrow> mutation \<Rightarrow> module_world \<Rightarrow> (module_error + InstalledModule) \<times> module_world" where
  "mutateModuleLifecycle envs actor mutation w = mutate_from (DatabaseFailure False) (map envs [0, 1, 2]) actor mutation w"

definition runModuleLifecycleDelete :: "tx_env \<Rightarrow> string \<Rightarrow> string \<Rightarrow> string \<Rightarrow> module_world \<Rightarrow> module_error option \<times> module_world" where
  "runModuleLifecycleDelete e actor mid reason w =
     (case beginModuleLifecycleTransaction e actor of
        Some err \<Rightarrow> (Some err, w)
      | None \<Rightarrow>
          (case Delete_module (txWrite e) mid actor reason (mwDB w) of
             (Some err, db) \<Rightarrow> (Some err, w)
           | (None, db) \<Rightarrow> (case txCommit e of Some err \<Rightarrow> (Some err, w) | None \<Rightarrow> (None, w\<lparr>mwDB := db\<rparr>))))"

fun delete_from :: "module_error \<Rightarrow> tx_env list \<Rightarrow> string \<Rightarrow> string \<Rightarrow> string \<Rightarrow> module_world \<Rightarrow> module_error option \<times> module_world" where
  "delete_from lastErr [] actor mid reason w = (Some lastErr, w)"
| "delete_from lastErr (e # es) actor mid reason w =
     (case runModuleLifecycleDelete e actor mid reason w of
        (None, w1) \<Rightarrow> (None, w1\<lparr>mwRuntime := invalidateModuleRuntimeRegistry (mwRuntime w1)\<rparr>)
      | (Some err, w1) \<Rightarrow> if retryableModuleLifecycleTransaction err then delete_from err es actor mid reason w1 else (Some err, w1))"

definition deleteModuleLifecycle :: "(nat \<Rightarrow> tx_env) \<Rightarrow> string \<Rightarrow> string \<Rightarrow> string \<Rightarrow> module_world \<Rightarrow> module_error option \<times> module_world" where
  "deleteModuleLifecycle envs actor mid reason w = delete_from (DatabaseFailure False) (map envs [0, 1, 2]) actor mid reason w"

section \<open>Replies\<close>

type_synonym module_reply = "nat \<times> InstalledModule option"

definition lifecycle_status :: "module_error \<Rightarrow> nat" where
  "lifecycle_status e =
     (case e of
        ErrNotFound \<Rightarrow> 404
      | ErrAlreadyExists \<Rightarrow> 409
      | ErrQuarantined \<Rightarrow> 409
      | ErrPermissionDenied \<Rightarrow> 403
      | DatabaseFailure retry \<Rightarrow> if retry then 409 else 500
      | InvalidManifest _ \<Rightarrow> 400
      | PersistedManifest _ \<Rightarrow> 400
      | InvalidAction _ \<Rightarrow> 400
      | EnabledUninstall \<Rightarrow> 409
      | InvalidTransition a \<Rightarrow> if a = ''enable'' \<or> a = ''disable'' then 409 else 500
      | _ \<Rightarrow> 500)"

definition install_status :: "module_error \<Rightarrow> nat option" where
  "install_status e =
     (case e of
        PackageBodyRequired \<Rightarrow> Some 400
      | RuntimeRootRequired \<Rightarrow> Some 503
      | PublisherTrustRequired \<Rightarrow> Some 503
      | ErrUnsafeInstallRoot \<Rightarrow> Some 503
      | ErrUntrustedPublisher \<Rightarrow> Some 403
      | ErrInvalidSignature \<Rightarrow> Some 400
      | ErrMaterializedVersionExists \<Rightarrow> Some 409
      | ErrInstallInProgress \<Rightarrow> Some 409
      | ErrActivationInProgress \<Rightarrow> Some 409
      | EntrypointMissing \<Rightarrow> Some 400
      | _ \<Rightarrow> None)"

definition version_status :: "module_error \<Rightarrow> nat" where
  "version_status e =
     (if e \<in> {ErrVersionTransition, ErrNoRollbackVersion, ErrActivationStateChanged, VersionStateMismatch, ErrReleaseMetadataInvalid,
              ErrReleaseMetadataConflict, ErrNoActiveVersion} then 409 else lifecycle_status e)"

definition or_status :: "nat option \<Rightarrow> nat \<Rightarrow> nat" where
  "or_status s n = (case s of None \<Rightarrow> n | Some k \<Rightarrow> k)"

section \<open>Handlers\<close>

definition validateSignedModuleEntrypoint :: "ModuleManifest \<Rightarrow> ValidatedPayload \<Rightarrow> bool" where
  "validateSignedModuleEntrypoint m payload =
     (case mmRuntime m of None \<Rightarrow> True | Some rt \<Rightarrow> list_ex (\<lambda>f. pfPath f = Clean (rsEntrypoint rt)) (vyFiles payload))"

text \<open>\<open>body\<close> is the body of the request if it can be read within its limit.\<close>

definition prepareSignedModulePackage :: "module_server \<Rightarrow> string option \<Rightarrow> module_error + (VerifiedPackage \<times> ValidatedPayload)" where
  "prepareSignedModulePackage srv body =
     (case body of
        None \<Rightarrow> Inl InvalidPackage
      | Some data \<Rightarrow>
          if data = [] then Inl PackageBodyRequired
          else if TrimSpace (msRoot srv) = [] then Inl RuntimeRootRequired
          else if TrimSpace (msTrust srv) = [] then Inl PublisherTrustRequired
          else
            (case ParsePublisherTrustStoreJSON (msCrypto srv) (TrimSpace (msTrust srv)) of
               None \<Rightarrow> Inl PublisherTrustRequired
             | Some trust \<Rightarrow>
                 (case VerifyPackage (msCrypto srv) data trust of
                    Inl e \<Rightarrow> Inl e
                  | Inr pkg \<Rightarrow>
                      (case ValidatePayload (msCrypto srv) pkg of
                         Inl e \<Rightarrow> Inl e
                       | Inr payload \<Rightarrow>
                           if \<not> validateSignedModuleEntrypoint (vpManifest pkg) payload then Inl EntrypointMissing else Inr (pkg, payload)))))"

text \<open>The steps after the registry has accepted a module: files, selection, tables.\<close>

definition save_module :: "string \<Rightarrow> string \<Rightarrow> tx_env \<Rightarrow> InstalledModule \<Rightarrow> module_db \<Rightarrow> install_root \<Rightarrow> (module_error + InstalledModule) \<times> module_db \<times> install_root" where
  "save_module actor action e m db tree =
     (case Save (txWrite e) m actor action db of (Some err, db1) \<Rightarrow> (Inl err, db1, tree) | (None, db1) \<Rightarrow> (Inr m, db1, tree))"

definition deploy_version ::
  "module_crypto \<Rightarrow> string \<Rightarrow> string \<Rightarrow> VerifiedPackage \<Rightarrow> ValidatedPayload \<Rightarrow> tx_env \<Rightarrow> InstalledModule \<Rightarrow> module_db \<Rightarrow> install_root \<Rightarrow>
   (module_error + InstalledModule) \<times> module_db \<times> install_root" where
  "deploy_version c actor action pkg payload e m db tree =
     (case MaterializePayloadRetrySafe c (txFs e) pkg payload tree of
        (Some err, tree1) \<Rightarrow> (Inl err, db, tree1)
      | (None, tree1) \<Rightarrow>
          (case ActivateMaterializedVersion c (txFs e) (mmID (vpManifest pkg)) (mmVersion (vpManifest pkg)) tree1 of
             (Inl err, tree2) \<Rightarrow> (Inl err, db, tree2)
           | (Inr st, tree2) \<Rightarrow> save_module actor action e m db tree2))"

definition install_mutation :: "module_crypto \<Rightarrow> string \<Rightarrow> VerifiedPackage \<Rightarrow> ValidatedPayload \<Rightarrow> mutation" where
  "install_mutation c actor pkg payload e r db tree =
     (case Install (txNow e) (vpManifest pkg) r of
        (Inl err, _) \<Rightarrow> (Inl err, db, tree)
      | (Inr m, _) \<Rightarrow> deploy_version c actor ''install'' pkg payload e m db tree)"

definition handleModuleInstall :: "module_server \<Rightarrow> (nat \<Rightarrow> tx_env) \<Rightarrow> string \<Rightarrow> string option \<Rightarrow> module_world \<Rightarrow> module_reply \<times> module_world" where
  "handleModuleInstall srv envs actor body w =
     (case prepareSignedModulePackage srv body of
        Inl err \<Rightarrow> ((or_status (install_status err) 400, None), w)
      | Inr (pkg, payload) \<Rightarrow>
          (case mutateModuleLifecycle envs actor (install_mutation (msCrypto srv) actor pkg payload) w of
             (Inl err, w1) \<Rightarrow> ((or_status (install_status err) (lifecycle_status err), None), w1)
           | (Inr m, w1) \<Rightarrow> ((201, Some m), w1)))"

definition state_mutation :: "string \<Rightarrow> string \<Rightarrow> (instant \<Rightarrow> registry \<Rightarrow> (module_error + InstalledModule) \<times> registry) \<Rightarrow> mutation" where
  "state_mutation actor action change e r db tree =
     (case change (txNow e) r of (Inl err, _) \<Rightarrow> (Inl err, db, tree) | (Inr m, _) \<Rightarrow> save_module actor action e m db tree)"

definition state_reply :: "(module_error + InstalledModule) \<times> module_world \<Rightarrow> module_reply \<times> module_world" where
  "state_reply res = (case res of (Inl err, w) \<Rightarrow> ((lifecycle_status err, None), w) | (Inr m, w) \<Rightarrow> ((200, Some m), w))"

definition handleModuleEnable :: "(nat \<Rightarrow> tx_env) \<Rightarrow> string \<Rightarrow> string \<Rightarrow> module_world \<Rightarrow> module_reply \<times> module_world" where
  "handleModuleEnable envs actor mid w =
     state_reply (mutateModuleLifecycle envs actor (state_mutation actor ''enable'' (\<lambda>now. Enable now mid)) w)"

definition decodeModuleLifecycleReason :: "module_crypto \<Rightarrow> string option \<Rightarrow> string option" where
  "decodeModuleLifecycleReason c body = do {
     data \<leftarrow> body;
     (if 1048576 < int (length data) then None else Some ());
     kvs \<leftarrow> dec_object (mcParse c data);
     (if known_fields [''reason''] kvs then Some () else None);
     raw \<leftarrow> dec_str kvs ''reason'';
     let reason = TrimSpace raw;
     (if reason = [] \<or> 1024 < length reason then None else Some reason) }"

definition handleModuleDisable :: "module_server \<Rightarrow> (nat \<Rightarrow> tx_env) \<Rightarrow> string \<Rightarrow> string \<Rightarrow> string option \<Rightarrow> module_world \<Rightarrow> module_reply \<times> module_world" where
  "handleModuleDisable srv envs actor mid body w =
     (case decodeModuleLifecycleReason (msCrypto srv) body of
        None \<Rightarrow> ((400, None), w)
      | Some reason \<Rightarrow> state_reply (mutateModuleLifecycle envs actor (state_mutation actor ''disable'' (\<lambda>now. Disable now mid reason)) w))"

definition handleModuleQuarantine :: "module_server \<Rightarrow> (nat \<Rightarrow> tx_env) \<Rightarrow> string \<Rightarrow> string \<Rightarrow> string option \<Rightarrow> module_world \<Rightarrow> module_reply \<times> module_world" where
  "handleModuleQuarantine srv envs actor mid body w =
     (case decodeModuleLifecycleReason (msCrypto srv) body of
        None \<Rightarrow> ((400, None), w)
      | Some reason \<Rightarrow> state_reply (mutateModuleLifecycle envs actor (state_mutation actor ''quarantine'' (\<lambda>now. Quarantine now mid reason)) w))"

definition handleModuleUninstall :: "module_server \<Rightarrow> (nat \<Rightarrow> tx_env) \<Rightarrow> string \<Rightarrow> string \<Rightarrow> string option \<Rightarrow> module_world \<Rightarrow> module_reply \<times> module_world" where
  "handleModuleUninstall srv envs actor mid body w =
     (case decodeModuleLifecycleReason (msCrypto srv) body of
        None \<Rightarrow> ((400, None), w)
      | Some reason \<Rightarrow>
          (case deleteModuleLifecycle envs actor mid reason w of
             (Some err, w1) \<Rightarrow> ((lifecycle_status err, None), w1)
           | (None, w1) \<Rightarrow> ((200, None), w1)))"

definition version_mutation :: "string \<Rightarrow> ActivationState \<Rightarrow> ModuleManifest \<Rightarrow> (InstalledModule \<Rightarrow> mutation) \<Rightarrow> mutation" where
  "version_mutation mid expected manifest rest e r db tree =
     (case Get_module mid r of
        Inl err \<Rightarrow> (Inl err, db, tree)
      | Inr current \<Rightarrow>
          if mmVersion (imManifest current) \<noteq> avActiveVersion expected then (Inl VersionStateMismatch, db, tree)
          else (case replaceManifest (txNow e) mid manifest r of
                  (Inl err, _) \<Rightarrow> (Inl err, db, tree)
                | (Inr m, _) \<Rightarrow> rest m e r db tree))"

definition upgrade_mutation :: "module_crypto \<Rightarrow> string \<Rightarrow> string \<Rightarrow> ActivationState \<Rightarrow> VerifiedPackage \<Rightarrow> ValidatedPayload \<Rightarrow> mutation" where
  "upgrade_mutation c actor mid expected pkg payload =
     version_mutation mid expected (vpManifest pkg) (\<lambda>m e r db tree. deploy_version c actor ''upgrade'' pkg payload e m db tree)"

definition rollback_mutation :: "module_crypto \<Rightarrow> string \<Rightarrow> string \<Rightarrow> ActivationState \<Rightarrow> ModuleManifest \<Rightarrow> mutation" where
  "rollback_mutation c actor mid expected manifest =
     version_mutation mid expected manifest (\<lambda>m e r db tree.
       case ActivateExpectedPreviousVersion c (txFs e) mid expected tree of
         (Inl err, tree1) \<Rightarrow> (Inl err, db, tree1)
       | (Inr st, tree1) \<Rightarrow> save_module actor ''rollback'' e m db tree1)"

text \<open>\<open>fe\<close> is the environment of the reads before the transaction.\<close>

definition handleModuleUpgrade ::
  "module_server \<Rightarrow> fs_env \<Rightarrow> (nat \<Rightarrow> tx_env) \<Rightarrow> string \<Rightarrow> string \<Rightarrow> string option \<Rightarrow> module_world \<Rightarrow> module_reply \<times> module_world" where
  "handleModuleUpgrade srv fe envs actor mid body w =
     (case prepareSignedModulePackage srv body of
        Inl err \<Rightarrow> ((or_status (install_status err) 400, None), w)
      | Inr (pkg, payload) \<Rightarrow>
          if mmID (vpManifest pkg) \<noteq> mid then ((400, None), w)
          else
            (case ReadActiveVersion (msCrypto srv) fe mid (mwTree w) of
               Inl err \<Rightarrow> ((version_status err, None), w)
             | Inr expected \<Rightarrow>
                 (case mutateModuleLifecycle envs actor (upgrade_mutation (msCrypto srv) actor mid expected pkg payload) w of
                    (Inl err, w1) \<Rightarrow> ((or_status (install_status err) (version_status err), None), w1)
                  | (Inr m, w1) \<Rightarrow> ((200, Some m), w1))))"

definition handleModuleRollback ::
  "module_server \<Rightarrow> fs_env \<Rightarrow> (nat \<Rightarrow> tx_env) \<Rightarrow> string \<Rightarrow> string \<Rightarrow> string option \<Rightarrow> module_world \<Rightarrow> module_reply \<times> module_world" where
  "handleModuleRollback srv fe envs actor mid body w =
     (if body \<noteq> Some [] then ((400, None), w)
      else if TrimSpace (msRoot srv) = [] then ((503, None), w)
      else
        (case ReadActiveVersion (msCrypto srv) fe mid (mwTree w) of
           Inl err \<Rightarrow> ((version_status err, None), w)
         | Inr expected \<Rightarrow>
             if avPreviousVersion expected = [] then ((version_status ErrNoRollbackVersion, None), w)
             else
               (case ReadReleaseMetadata (msCrypto srv) fe mid (avPreviousVersion expected) (mwTree w) of
                  Inl err \<Rightarrow> ((version_status err, None), w)
                | Inr md \<Rightarrow>
                    if mmID (rdManifest md) \<noteq> mid \<or> mmVersion (rdManifest md) \<noteq> avPreviousVersion expected
                    then ((version_status VersionStateMismatch, None), w)
                    else
                      (case mutateModuleLifecycle envs actor (rollback_mutation (msCrypto srv) actor mid expected (rdManifest md)) w of
                         (Inl err, w1) \<Rightarrow> ((version_status err, None), w1)
                       | (Inr m, w1) \<Rightarrow> ((200, Some m), w1)))))"

definition moduleLifecycleActor :: "AuthorizationResult option \<Rightarrow> string \<Rightarrow> string option" where
  "moduleLifecycleActor authorization userID =
     (case authorization of
        None \<Rightarrow> None
      | Some a \<Rightarrow> if \<not> IsPlatformGlobal a \<or> TrimSpace userID = [] then None else Some (TrimSpace userID))"

definition moduleLifecycleID :: "string \<Rightarrow> (string \<times> string) option" where
  "moduleLifecycleID path =
     (case segments path of
        [p0, p1, p2, p3, p4, p5] \<Rightarrow>
          if p0 \<noteq> ''api'' \<or> p1 \<noteq> ''v2'' \<or> p2 \<noteq> ''platform'' \<or> p3 \<noteq> ''modules'' \<or> TrimSpace p4 = [] \<or> TrimSpace p5 = []
          then None else Some (TrimSpace p4, TrimSpace p5)
      | _ \<Rightarrow> None)"

record lifecycle_call =
  lcMethod :: string
  lcPath :: string
  lcAuthorization :: "AuthorizationResult option"
  lcUserID :: string
  lcBody :: "string option"
  lcFs :: fs_env
  lcEnvs :: "nat \<Rightarrow> tx_env"
  lcInvocation :: nat

text \<open>\<open>lcInvocation\<close> is the status with which the handler of invocations answers, which changes none of this state.\<close>

definition serveModuleLifecycle :: "module_server \<Rightarrow> lifecycle_call \<Rightarrow> module_world \<Rightarrow> module_reply \<times> module_world" where
  "serveModuleLifecycle srv q w =
     (case moduleLifecycleActor (lcAuthorization q) (lcUserID q) of
        None \<Rightarrow> ((403, None), w)
      | Some actor \<Rightarrow>
          if lcMethod q = ''POST'' \<and> lcPath q = ''/api/v2/platform/modules'' then handleModuleInstall srv (lcEnvs q) actor (lcBody q) w
          else if lcMethod q = ''POST'' \<and> moduleDeviceInvocationTarget (lcPath q) \<noteq> None then ((lcInvocation q, None), w)
          else
            (case moduleLifecycleID (lcPath q) of
               None \<Rightarrow> ((404, None), w)
             | Some (mid, action) \<Rightarrow>
                 if lcMethod q = ''POST'' \<and> action = ''enable'' then handleModuleEnable (lcEnvs q) actor mid w
                 else if lcMethod q = ''POST'' \<and> action = ''disable'' then handleModuleDisable srv (lcEnvs q) actor mid (lcBody q) w
                 else if lcMethod q = ''POST'' \<and> action = ''quarantine'' then handleModuleQuarantine srv (lcEnvs q) actor mid (lcBody q) w
                 else if lcMethod q = ''POST'' \<and> action = ''upgrade'' then handleModuleUpgrade srv (lcFs q) (lcEnvs q) actor mid (lcBody q) w
                 else if lcMethod q = ''POST'' \<and> action = ''rollback'' then handleModuleRollback srv (lcFs q) (lcEnvs q) actor mid (lcBody q) w
                 else if lcMethod q = ''DELETE'' \<and> action = ''uninstall'' then handleModuleUninstall srv (lcEnvs q) actor mid (lcBody q) w
                 else ((404, None), w)))"

definition run_lifecycle :: "module_server \<Rightarrow> lifecycle_call list \<Rightarrow> module_world \<Rightarrow> module_world" where
  "run_lifecycle srv qs w = fold (\<lambda>q w. snd (serveModuleLifecycle srv q w)) qs w"

section \<open>Invocations for a device\<close>

definition invocation_status :: "module_error \<Rightarrow> nat" where
  "invocation_status e =
     (case e of
        ErrNotFound \<Rightarrow> 404
      | ErrModuleDisabled \<Rightarrow> 409
      | ErrQuarantined \<Rightarrow> 409
      | ErrRouteNotDeclared \<Rightarrow> 400
      | ErrMethodNotDeclared \<Rightarrow> 400
      | ErrPermissionDenied \<Rightarrow> 403
      | ErrPermissionMismatch \<Rightarrow> 403
      | _ \<Rightarrow> 502)"

text \<open>
  Every request has its own registry, made from the database, and its own supervisor. The request holds method, path and
  body; \<open>answer\<close> is what the runtime returns. The second component is the supervisor at the end, if it was reached.
\<close>

definition handleModuleDeviceInvocation ::
  "module_server \<Rightarrow> module_error option \<Rightarrow> (string \<Rightarrow> (fleet_device \<times> ResourceScope) option) \<Rightarrow> (InstalledModule \<Rightarrow> Invocation \<Rightarrow> string + InvocationResult) \<Rightarrow>
   instant \<Rightarrow> string \<Rightarrow> string \<Rightarrow> (string \<times> string \<times> string) option \<Rightarrow> module_db \<Rightarrow> (nat + InvocationResult) \<times> Supervisor option" where
  "handleModuleDeviceInvocation srv fault resolve answer now mid deviceID request db =
     (case request of
        None \<Rightarrow> (Inl 400, None)
      | Some (rawMethod, rawPath, body) \<Rightarrow>
          (let meth = ToUpper (TrimSpace rawMethod); path = TrimSpace rawPath
           in if meth = [] \<or> path = [] then (Inl 400, None)
              else if \<not> HasPrefix path (''/api/modules/'' @ mid @ ''/'') then (Inl 400, None)
              else if TrimSpace (msRoot srv) = [] then (Inl 503, None)
              else
                (case List_persisted fault db of
                   Inl e \<Rightarrow> (Inl 503, None)
                 | Inr ms \<Rightarrow>
                     (case ReplaceSnapshot ms [] of
                        (Some e, _) \<Rightarrow> (Inl 503, None)
                      | (None, r) \<Rightarrow>
                          (case resolve deviceID of
                             None \<Rightarrow> (Inl 403, None)
                           | Some (d, scope) \<Rightarrow>
                               (case InvokeDeclared answer now mid meth path body scope (NewSupervisor r 0) of
                                  (Inl e, s) \<Rightarrow> (Inl (invocation_status e), Some s)
                                | (Inr res, s) \<Rightarrow> if irStatusCode res < 100 \<or> 599 < irStatusCode res then (Inl 502, Some s) else (Inr res, Some s)))))))"

end
