(* ===== verification/ModuleAccessSafety.thy ===== *)
theory ModuleAccessSafety
  imports ModuleAccess
begin

text \<open>
  What modules can reach: a supervised runtime runs only what the manifest declares and the registry grants and is quarantined after
  repeated failures, a request with a module token is within the token's scope, and revoked tokens stay refused while the
  revocation is kept. The contract of revocation stores is a locale with the in-memory and the Redis store as instances.
\<close>

section \<open>Revocation\<close>

text \<open>
  A store answers whether a token is revoked. What it has accepted it keeps until the token expires, whatever is asked
  or revoked in between, provided the clock does not go back and a token always comes with the same expiry.
\<close>

locale revocation_store =
  fixes revoke :: "instant \<Rightarrow> string \<Rightarrow> instant \<Rightarrow> 's \<Rightarrow> bool \<times> 's"
    and is_revoked :: "instant \<Rightarrow> string \<Rightarrow> 's \<Rightarrow> bool option \<times> 's"
    and store_ok :: "'s \<Rightarrow> bool"
    and until :: "'s \<Rightarrow> string \<Rightarrow> instant option"
  assumes revoke_accepts: "store_ok s \<Longrightarrow> revoke now t e s = (True, s') \<Longrightarrow> now < e \<Longrightarrow> until s' t = Some e"
    and revoke_keeps: "store_ok s \<Longrightarrow> until s t = Some e \<Longrightarrow> t' \<noteq> t \<or> e' = e \<Longrightarrow> until (snd (revoke now t' e' s)) t = Some e"
    and revoke_ok: "store_ok s \<Longrightarrow> store_ok (snd (revoke now t e s))"
    and asked_keeps: "store_ok s \<Longrightarrow> until s t = Some e \<Longrightarrow> now < e \<Longrightarrow> until (snd (is_revoked now t' s)) t = Some e"
    and asked_ok: "store_ok s \<Longrightarrow> store_ok (snd (is_revoked now t s))"
    and answers: "store_ok s \<Longrightarrow> until s t = Some e \<Longrightarrow> now < e \<Longrightarrow> fst (is_revoked now t s) \<noteq> Some False"
begin

definition store_step :: "(string \<Rightarrow> instant) \<Rightarrow> instant \<times> string \<times> bool \<Rightarrow> 's \<Rightarrow> 's" where
  "store_step expiry op s = (case op of (now, t, True) \<Rightarrow> snd (revoke now t (expiry t) s) | (now, t, False) \<Rightarrow> snd (is_revoked now t s))"

lemma kept:
  assumes "store_ok s" "until s t = Some (expiry t)" "\<forall>(now, _) \<in> set ops. now < expiry t"
  shows "store_ok (fold (store_step expiry) ops s) \<and> until (fold (store_step expiry) ops s) t = Some (expiry t)"
  using assms
proof (induction ops arbitrary: s)
  case (Cons op ops)
  obtain now t' b where op: "op = (now, t', b)" by (cases op) auto
  have "store_ok (store_step expiry op s)" "until (store_step expiry op s) t = Some (expiry t)"
    using Cons.prems op revoke_ok asked_ok asked_keeps revoke_keeps [OF Cons.prems(1,2), of t' "expiry t'"]
    by (auto simp: store_step_def split: bool.split)
  then show ?case using Cons by simp
qed simp

lemma refused_until_expiry:
  assumes "store_ok s" "revoke now t (expiry t) s = (True, s')" "now < expiry t" "\<forall>(now', _) \<in> set ops. now' < expiry t" "later < expiry t"
  shows "fst (is_revoked later t (fold (store_step expiry) ops s')) \<noteq> Some False"
  using kept [of s' t expiry ops] revoke_ok [OF assms(1), of now t "expiry t"] revoke_accepts [OF assms(1-3)] assms answers by simp

end

interpretation memory: revocation_store Revoke_memory IsRevoked_memory bucket_ok bucket_get
  by unfold_locales
    (auto simp: Revoke_memory_def IsRevoked_memory_def bucket_get_put split: if_splits option.splits)

interpretation redis: revocation_store "Revoke_redis up" "IsRevoked_redis up" bucket_ok bucket_get for up
  by unfold_locales
    (auto simp: Revoke_redis_def IsRevoked_redis_def Let_def bucket_get_put split: if_splits option.splits)

section \<open>Requests with a module token\<close>


text \<open>The claims of a token do not depend on when it is read.\<close>

lemma same_claims: "Validate_token env g now token = Inr c \<Longrightarrow> Validate_token env g later token = Inr c' \<Longrightarrow> c' = c"
  by (auto simp: Validate_token_def split: option.splits list.splits if_splits)


text \<open>
  A token is valid through the second in which it expires, the revocation only to its beginning: in between the revoked token
  is accepted again.
\<close>

lemma revoked_token_accepted_again:
  assumes "Validate_identity env g (\<lambda>t. Some False) later r token = Inr c" "bucket_get s (clTokenID c) = Some (clExpiresAt c * Second)"
    "clExpiresAt c * Second \<le> later" "clTokenID c \<noteq> []"
  shows "Validate_identity env g (\<lambda>t. fst (IsRevoked_redis True later t s)) later r token = Inr c"
  using assms by (auto simp: Validate_identity_def IsRevoked_redis_def split: sum.splits if_splits option.splits)

section \<open>Supervised invocations\<close>

text \<open>The operations on a registry that a supervisor shares.\<close>

datatype sup_op =
    SupInvoke string Invocation "string + InvocationResult"
  | SupInvokeDeclared string string string string ResourceScope "string + InvocationResult"
  | SupInstall ModuleManifest
  | SupEnable string
  | SupDisable string string
  | SupQuarantine string string
  | SupReplace string ModuleManifest
  | SupUninstall string
  | SupSnapshot "InstalledModule list"

text \<open>
  An installation, and a snapshot for each of its modules, registers a module anew; the log says so.
\<close>

fun apply_sup_op :: "instant \<times> sup_op \<Rightarrow> Supervisor \<Rightarrow> Supervisor" where
  "apply_sup_op (now, SupInvoke mid req answer) s = snd (Invoke (\<lambda>_ _. answer) now mid req s)"
| "apply_sup_op (now, SupInvokeDeclared mid meth path body scope answer) s = snd (InvokeDeclared (\<lambda>_ _. answer) now mid meth path body scope s)"
| "apply_sup_op (now, SupInstall manifest) s =
     (case Install now manifest (suRegistry s) of
        (Inl e, r) \<Rightarrow> s
      | (Inr m, r) \<Rightarrow> s\<lparr>suRegistry := r, suLog := suLog s @ [Registered (mmID manifest)]\<rparr>)"
| "apply_sup_op (now, SupEnable mid) s = s\<lparr>suRegistry := snd (Enable now mid (suRegistry s))\<rparr>"
| "apply_sup_op (now, SupDisable mid reason) s = s\<lparr>suRegistry := snd (Disable now mid reason (suRegistry s))\<rparr>"
| "apply_sup_op (now, SupQuarantine mid reason) s = s\<lparr>suRegistry := snd (Quarantine now mid reason (suRegistry s))\<rparr>"
| "apply_sup_op (now, SupReplace mid manifest) s = s\<lparr>suRegistry := snd (replaceManifest now mid manifest (suRegistry s))\<rparr>"
| "apply_sup_op (now, SupUninstall mid) s = s\<lparr>suRegistry := snd (Uninstall mid (suRegistry s))\<rparr>"
| "apply_sup_op (now, SupSnapshot ms) s =
     (case ReplaceSnapshot ms (suRegistry s) of
        (Some e, r) \<Rightarrow> s
      | (None, r) \<Rightarrow> s\<lparr>suRegistry := r, suLog := suLog s @ map (\<lambda>m. Registered (mmID (imManifest m))) ms\<rparr>)"

text \<open>A call of the runtime that the manifest of the module allows.\<close>

fun proper_event :: "sup_event \<Rightarrow> bool" where
  "proper_event (Registered mid) = True"
| "proper_event (Invoked m req ok) =
     (imState m = StateEnabled \<and> ValidateManifest (imManifest m) = None \<and> HasPrefix (ivPath req) (''/api/modules/'' @ mmID (imManifest m) @ ''/'') \<and>
      (\<exists>r \<in> set (mmRoutes (imManifest m)). mrPath r = ivPath req \<and> mrPermission r = ivPermission req \<and>
         (\<exists>d \<in> set (mrMethods r). EqualFold d (ToUpper (TrimSpace (ivMethod req))))) \<and>
      (ivPermission req = [] \<or> ivPermission req \<in> set (mmPermissions (imManifest m))))"

text \<open>The failures of a module at the end of a log, since its last success or registration.\<close>

fun count_event :: "string \<Rightarrow> sup_event \<Rightarrow> int \<Rightarrow> int" where
  "count_event mid (Registered k) n = (if k = mid then 0 else n)"
| "count_event mid (Invoked m req ok) n = (if mmID (imManifest m) = mid then (if ok then 0 else n + 1) else n)"

definition trailing_failures :: "string \<Rightarrow> sup_event list \<Rightarrow> int" where
  "trailing_failures mid evs = fold (count_event mid) evs 0"

definition registry_ok :: "registry \<Rightarrow> bool" where
  "registry_ok r \<longleftrightarrow> bucket_ok r \<and> (\<forall>(k, m) \<in> set r. mmID (imManifest m) = k \<and> ValidateManifest (imManifest m) = None)"

lemma registry_get:
  assumes "registry_ok r" "bucket_get r k = Some m"
  shows "mmID (imManifest m) = k" "ValidateManifest (imManifest m) = None"
  using assms bucket_get_in [OF assms(2)] by (auto simp: registry_ok_def)

lemma registry_put:
  assumes "registry_ok r" "ValidateManifest (imManifest m) = None" "k = mmID (imManifest m)"
  shows "registry_ok (bucket_put k m r)"
  using assms set_bucket_put_sub [of k m r] by (auto simp: registry_ok_def)

lemma registry_delete: "registry_ok r \<Longrightarrow> registry_ok (bucket_delete k r)"
  by (auto simp: registry_ok_def bucket_delete_def [of k r] intro: bucket_ok_delete [unfolded bucket_delete_def])

definition barred :: "string \<Rightarrow> registry \<Rightarrow> bool" where
  "barred mid r \<longleftrightarrow> (case bucket_get r mid of None \<Rightarrow> True | Some m \<Rightarrow> imState m = StateQuarantined)"

definition sup_inv :: "Supervisor \<Rightarrow> bool" where
  "sup_inv s \<longleftrightarrow> registry_ok (suRegistry s) \<and> bucket_ok (suFailures s) \<and> 0 < suThreshold s \<and> list_all proper_event (suLog s) \<and>
     (\<forall>mid. 0 \<le> trailing_failures mid (suLog s) \<and> trailing_failures mid (suLog s) \<le> failure_count mid s \<and>
        trailing_failures mid (suLog s) \<le> suThreshold s \<and> (trailing_failures mid (suLog s) < suThreshold s \<or> barred mid (suRegistry s)))"

text \<open>A change of the registry that bars no module less.\<close>

lemma sup_inv_registry:
  assumes "sup_inv s" "registry_ok r" "\<And>mid. barred mid (suRegistry s) \<Longrightarrow> barred mid r"
  shows "sup_inv (s\<lparr>suRegistry := r\<rparr>)"
  using assms unfolding sup_inv_def by (auto simp: failure_count_def)

lemma transition_barred:
  assumes "registry_ok r"
    and fn: "\<And>m m'. fn m = Inr m' \<Longrightarrow> ValidateManifest (imManifest m) = None \<Longrightarrow> mmID (imManifest m) = mid \<Longrightarrow>
      mmID (imManifest m') = mid \<and> ValidateManifest (imManifest m') = None \<and> (imState m = StateQuarantined \<longrightarrow> imState m' = StateQuarantined)"
  shows "registry_ok (snd (transition now mid fn r))" "barred k r \<Longrightarrow> barred k (snd (transition now mid fn r))"
proof -
  have "registry_ok (snd (transition now mid fn r)) \<and> (barred k r \<longrightarrow> barred k (snd (transition now mid fn r)))" for k
  proof (cases "bucket_get r mid")
    case (Some m)
    note ids = registry_get [OF assms(1) Some]
    show ?thesis
    proof (cases "fn m")
      case (Inr m')
      then show ?thesis
        using fn [OF Inr ids(2,1)] ids assms(1) Some
        by (auto simp: transition_def Let_def barred_def bucket_get_put registry_ok_def [of r] intro!: registry_put split: option.splits)
    qed (use assms(1) Some in \<open>simp add: transition_def\<close>)
  qed (use assms(1) in \<open>simp add: transition_def\<close>)
  then show "registry_ok (snd (transition now mid fn r))" "barred k r \<Longrightarrow> barred k (snd (transition now mid fn r))" by blast+
qed

lemma transition_sup_inv:
  assumes "sup_inv s"
    and "\<And>m m'. fn m = Inr m' \<Longrightarrow> ValidateManifest (imManifest m) = None \<Longrightarrow> mmID (imManifest m) = mid \<Longrightarrow>
      mmID (imManifest m') = mid \<and> ValidateManifest (imManifest m') = None \<and> (imState m = StateQuarantined \<longrightarrow> imState m' = StateQuarantined)"
  shows "sup_inv (s\<lparr>suRegistry := snd (transition now mid fn (suRegistry s))\<rparr>)"
proof -
  have "registry_ok (suRegistry s)" using assms(1) by (simp add: sup_inv_def)
  then show ?thesis using transition_barred [OF _ assms(2)] by (intro sup_inv_registry [OF assms(1)]) blast+
qed

lemma declared_member:
  "declared_in rs meth path = Inr r \<Longrightarrow> r \<in> set rs \<and> mrPath r = path \<and> (\<exists>d \<in> set (mrMethods r). EqualFold d meth)"
  by (induction rs) (auto simp: list_ex_iff split: if_splits)

lemma route_namespaced: "route_problem mid perms rs = None \<Longrightarrow> r \<in> set rs \<Longrightarrow> HasPrefix (mrPath r) (''/api/modules/'' @ mid @ ''/'')"
  by (induction rs) (auto split: if_splits)

lemma manifest_routes: "ValidateManifest m = None \<Longrightarrow> r \<in> set (mmRoutes m) \<Longrightarrow> HasPrefix (mrPath r) (''/api/modules/'' @ mmID m @ ''/'')"
  by (auto simp: ValidateManifest_def dest: route_namespaced split: if_splits option.splits)

lemma Invoke_cases:
  assumes "registry_ok (suRegistry s)"
  obtains (refused) "snd (Invoke answer now mid req s) = s"
  | (called) m ok where "bucket_get (suRegistry s) mid = Some m" "mmID (imManifest m) = mid" "proper_event (Invoked m req ok)" "imState m = StateEnabled"
      "snd (Invoke answer now mid req s) =
        (if ok then resetFailures mid (s\<lparr>suLog := suLog s @ [Invoked m req True]\<rparr>)
         else recordFailure now mid (projl (answer m req)) (s\<lparr>suLog := suLog s @ [Invoked m req False]\<rparr>))"
proof (cases "snd (Invoke answer now mid req s) = s")
  case True
  then show thesis by (rule refused)
next
  case False
  then obtain m route where m: "enabledModule mid (suRegistry s) = Inr m" "declaredRoute (imManifest m) (ivMethod req) (ivPath req) = Inr route"
    "ivPermission req = mrPermission route" "mrPermission route \<noteq> [] \<longrightarrow> RequirePermission mid (mrPermission route) (suRegistry s) = None"
    by (auto simp: Invoke_def split: sum.splits if_splits option.splits)
  have get: "bucket_get (suRegistry s) mid = Some m" "imState m = StateEnabled"
    using m(1) by (auto simp: enabledModule_def Get_module_def split: option.splits if_splits)
  note ids = registry_get [OF assms get(1)]
  have route: "route \<in> set (mmRoutes (imManifest m))" "mrPath route = ivPath req" "\<exists>d \<in> set (mrMethods route). EqualFold d (ToUpper (TrimSpace (ivMethod req)))"
    using declared_member m(2) unfolding declaredRoute_def by blast+
  have "mrPermission route \<noteq> [] \<Longrightarrow> mrPermission route \<in> set (mmPermissions (imManifest m))"
    using m(4) get by (auto simp: RequirePermission_def Get_module_def split: if_splits)
  then have proper: "proper_event (Invoked m req ok)" for ok
    using get(2) ids(2) route m(3) manifest_routes [OF ids(2) route(1)] by auto
  have "snd (Invoke answer now mid req s) =
      (if \<not> isl (answer m req) then resetFailures mid (s\<lparr>suLog := suLog s @ [Invoked m req True]\<rparr>)
       else recordFailure now mid (projl (answer m req)) (s\<lparr>suLog := suLog s @ [Invoked m req False]\<rparr>))"
    using m by (cases "answer m req") (simp_all add: Invoke_def)
  then show thesis by (rule called [OF get(1) ids(1) proper get(2)])
qed

lemma trailing_snoc: "trailing_failures mid (evs @ [ev]) = count_event mid ev (trailing_failures mid evs)"
  by (simp add: trailing_failures_def)

lemma Invoke_sup_inv:
  assumes "sup_inv s"
  shows "sup_inv (snd (Invoke answer now mid req s))"
proof -
  have reg: "registry_ok (suRegistry s)" using assms by (simp add: sup_inv_def)
  from reg show ?thesis
  proof (cases rule: Invoke_cases [where answer = answer and now = now and mid = mid and req = req])
    case refused
    then show ?thesis using assms by simp
  next
    case (called m ok)
    show ?thesis
    proof (cases ok)
      case True
      then show ?thesis
        using assms called by (auto simp: sup_inv_def resetFailures_def failure_count_def trailing_snoc)
    next
      case False
      define s1 where "s1 = s\<lparr>suLog := suLog s @ [Invoked m req False], suFailures := bucket_put mid (failure_count mid s + 1) (suFailures s)\<rparr>"
      have okf: "bucket_ok (suFailures s)" using assms by (simp add: sup_inv_def)
      have counts: "failure_count k s1 = (if k = mid then failure_count mid s + 1 else failure_count k s)" for k
        using okf by (simp add: s1_def failure_count_def bucket_get_put)
      have trail: "trailing_failures k (suLog s1) = (if k = mid then trailing_failures mid (suLog s) + 1 else trailing_failures k (suLog s))" for k
        using called(2) by (simp add: s1_def trailing_snoc)
      have below: "trailing_failures mid (suLog s) < suThreshold s" using assms called(1,4) by (auto simp: sup_inv_def barred_def)
      define cause where "cause = ''runtime failure threshold reached after '' @ int_digits (failure_count mid s + 1) @ '' consecutive failures: '' @ projl (answer m req)"
      have out: "snd (Invoke answer now mid req s) =
          (if failure_count mid s + 1 < suThreshold s then s1 else s1\<lparr>suRegistry := snd (Quarantine now mid cause (suRegistry s))\<rparr>)"
        using called(5) False by (simp add: recordFailure_def Let_def s1_def failure_count_def cause_def)
      have quar: "registry_ok (snd (Quarantine now mid cause (suRegistry s)))" "\<And>k. barred k (suRegistry s) \<Longrightarrow> barred k (snd (Quarantine now mid cause (suRegistry s)))"
        unfolding Quarantine_def by (rule transition_barred [OF reg]; auto)+
      have now_barred: "barred mid (snd (Quarantine now mid cause (suRegistry s)))"
        using reg called(1) by (simp add: Quarantine_def transition_def Let_def barred_def bucket_get_put registry_ok_def)
      have base: "registry_ok (suRegistry s1)" "bucket_ok (suFailures s1)" "0 < suThreshold s1" "list_all proper_event (suLog s1)"
        using assms called(3) False okf by (auto simp: sup_inv_def s1_def)
      have old: "0 \<le> trailing_failures k (suLog s)" "trailing_failures k (suLog s) \<le> failure_count k s" "trailing_failures k (suLog s) \<le> suThreshold s"
        "trailing_failures k (suLog s) < suThreshold s \<or> barred k (suRegistry s)" for k
        using assms by (auto simp: sup_inv_def)
      show ?thesis
      proof (cases "failure_count mid s + 1 < suThreshold s")
        case True
        then have "trailing_failures mid (suLog s) + 1 < suThreshold s" using old(2) [of mid] by simp
        then show ?thesis
          using True base old unfolding out sup_inv_def by (simp add: counts trail) (auto simp: s1_def)
      next
        case False
        define s2 where "s2 = s1\<lparr>suRegistry := snd (Quarantine now mid cause (suRegistry s))\<rparr>"
        have s2: "suRegistry s2 = snd (Quarantine now mid cause (suRegistry s))" "suLog s2 = suLog s1" "suThreshold s2 = suThreshold s"
          "suFailures s2 = suFailures s1" "\<And>k. failure_count k s2 = failure_count k s1"
          by (simp_all add: s2_def s1_def failure_count_def)
        have "trailing_failures k (suLog s2) < suThreshold s2 \<or> barred k (suRegistry s2)" for k
          using old(4) [of k] quar(2) [of k] now_barred by (cases "k = mid") (auto simp: s2 trail)
        moreover have "0 \<le> trailing_failures k (suLog s2) \<and> trailing_failures k (suLog s2) \<le> failure_count k s2 \<and> trailing_failures k (suLog s2) \<le> suThreshold s2" for k
          using old [of k] below by (auto simp: s2 trail counts)
        ultimately have "sup_inv s2" using base(2-4) quar(1) base(3) unfolding sup_inv_def by (simp add: s2 s1_def)
        then show ?thesis using False out by (simp add: s2_def)
      qed
    qed
  qed
qed

lemma snapshot_members:
  assumes "snapshot_registry acc ms = Inr r" "registry_ok acc"
  shows "registry_ok r \<and> set r \<subseteq> set acc \<union> (\<lambda>m. (mmID (imManifest m), m)) ` set ms"
  using assms
proof (induction ms arbitrary: acc)
  case (Cons m ms)
  define acc' where "acc' = bucket_put (mmID (imManifest m)) m acc"
  have "validatePersistedModule m = None" "snapshot_registry acc' ms = Inr r"
    using Cons.prems(1) by (auto simp: acc'_def split: option.splits if_splits)
  moreover from this have "registry_ok acc'"
    using Cons.prems(2) by (auto simp: acc'_def validatePersistedModule_def intro: registry_put split: option.splits)
  ultimately show ?case using Cons.IH set_bucket_put_sub [of "mmID (imManifest m)" m acc] unfolding acc'_def by fastforce
qed simp

lemma registered_trailing:
  "trailing_failures k (evs @ map (\<lambda>m. Registered (mmID (imManifest m))) ms) =
   (if k \<in> (\<lambda>m. mmID (imManifest m)) ` set ms then 0 else trailing_failures k evs)"
proof (induction ms rule: rev_induct)
  case (snoc m ms)
  then show ?case
    using trailing_snoc [of k "evs @ map (\<lambda>m. Registered (mmID (imManifest m))) ms" "Registered (mmID (imManifest m))"] by auto
qed simp

lemma register_sup_inv:
  assumes "sup_inv s" "registry_ok r" "\<And>k. k \<in> K \<or> (barred k (suRegistry s) \<longrightarrow> barred k r)"
    and "\<And>k. trailing_failures k evs = (if k \<in> K then 0 else trailing_failures k (suLog s))" "list_all proper_event evs"
  shows "sup_inv (s\<lparr>suRegistry := r, suLog := evs\<rparr>)"
  using assms by (auto simp: sup_inv_def failure_count_def) (metis order.trans)

lemma apply_sup_inv: "sup_inv s \<Longrightarrow> sup_inv (apply_sup_op op s)"
proof (induction op s rule: apply_sup_op.induct)
  case (2 now mid meth path body scope answer s)
  then show ?case by (simp add: InvokeDeclared_def Invoke_sup_inv split: sum.split)
next
  case (3 now manifest s)
  have reg: "registry_ok (suRegistry s)" using 3 by (simp add: sup_inv_def)
  show ?case
  proof (cases "fst (Install now manifest (suRegistry s))")
    case (Inr m)
    then have m: "ValidateManifest manifest = None" "imManifest m = manifest" "snd (Install now manifest (suRegistry s)) = bucket_put (mmID manifest) m (suRegistry s)"
      by (auto simp: Install_def Let_def split: option.splits if_splits)
    have "sup_inv (s\<lparr>suRegistry := bucket_put (mmID manifest) m (suRegistry s), suLog := suLog s @ [Registered (mmID manifest)]\<rparr>)"
    proof (rule register_sup_inv [OF 3, where K = "{mmID manifest}"])
      show "registry_ok (bucket_put (mmID manifest) m (suRegistry s))" using reg m by (auto intro: registry_put)
      show "k \<in> {mmID manifest} \<or> (barred k (suRegistry s) \<longrightarrow> barred k (bucket_put (mmID manifest) m (suRegistry s)))" for k
        using reg by (simp add: barred_def bucket_get_put registry_ok_def)
    qed (use 3 in \<open>auto simp: trailing_snoc sup_inv_def\<close>)
    then show ?thesis using Inr m(3) by (simp add: case_prod_beta)
  qed (use 3 in \<open>simp add: case_prod_beta\<close>)
next
  case (7 now mid manifest s)
  show ?case
  proof (cases "ValidateManifest manifest")
    case None
    then show ?thesis
      using 7 by (auto simp: replaceManifest_def intro!: transition_sup_inv dest: ModuleManifest.equality split: if_splits)
  qed (use 7 in \<open>simp add: replaceManifest_def\<close>)
next
  case (8 now mid s)
  have reg: "registry_ok (suRegistry s)" using 8 by (simp add: sup_inv_def)
  have "sup_inv (s\<lparr>suRegistry := bucket_delete mid (suRegistry s)\<rparr>)"
    by (rule sup_inv_registry [OF 8 registry_delete [OF reg]]) (auto simp: barred_def)
  then show ?case using 8 by (auto simp: Uninstall_def split: option.split)
next
  case (9 now ms s)
  show ?case
  proof (cases "snapshot_registry [] ms")
    case (Inr r)
    have r: "registry_ok r" "set r \<subseteq> (\<lambda>m. (mmID (imManifest m), m)) ` set ms" using snapshot_members [OF Inr] by (auto simp: registry_ok_def)
    have "sup_inv (s\<lparr>suRegistry := r, suLog := suLog s @ map (\<lambda>m. Registered (mmID (imManifest m))) ms\<rparr>)"
    proof (rule register_sup_inv [OF 9 r(1), where K = "(\<lambda>m. mmID (imManifest m)) ` set ms"])
      show "k \<in> (\<lambda>m. mmID (imManifest m)) ` set ms \<or> (barred k (suRegistry s) \<longrightarrow> barred k r)" for k
        using bucket_get_in [of r k] r(2) by (fastforce simp: barred_def split: option.split)
    qed (use 9 in \<open>auto simp: registered_trailing sup_inv_def list_all_iff\<close>)
    then show ?thesis using Inr by (simp add: ReplaceSnapshot_def)
  qed (use 9 in \<open>simp add: ReplaceSnapshot_def\<close>)
qed (auto simp: Enable_def Disable_def Quarantine_def Invoke_sup_inv intro!: transition_sup_inv split: if_splits)


section \<open>Examples\<close>

definition sample_module_claims :: Claims where
  "sample_module_claims = \<lparr>clSubject = ''module:com.example.backup'', clTokenID = ''t'', clIssuer = issuer, clAudience = audience, clTokenUse = ''module'',
     clExpiresAt = 305, clIssuedAt = 5, clNotBefore = 0, clTenantID = [], clMSPID = ''m'', clClientID = [], clSiteID = [], clAgentID = [],
     clModuleID = ''com.example.backup'', clRoles = [''module''], clPermissions = [''devices.read'']\<rparr>"

definition sample_module_env :: token_env where
  "sample_module_env = \<lparr>te_text = (\<lambda>j. if j = header_json then ''h'' else ''p''),
     te_parse = (\<lambda>s. if s = ''h'' then Decoded header_json else Decoded (claims_json sample_module_claims)), te_hmac = (\<lambda>k d. k)\<rparr>"

definition sample_module_token :: string where
  "sample_module_token = encode sample_module_env example_generator sample_module_claims"

lemma sample_module_valid:
  assumes "5 \<le> n" "n \<le> 305"
  shows "Validate_token sample_module_env example_generator (n * 1000000000) sample_module_token = Inr sample_module_claims"
proof -
  have json: "te_parse sample_module_env (te_text sample_module_env header_json) = Decoded header_json"
    "te_parse sample_module_env (te_text sample_module_env (claims_json sample_module_claims)) = Decoded (claims_json sample_module_claims)"
    by (simp_all add: sample_module_env_def claims_json_def header_json_def)
  have "claims_in_range sample_module_claims" by code_simp
  moreover have "check_claims (unix (n * 1000000000)) sample_module_claims = None"
    using assms by (simp add: check_claims_def sample_module_claims_def issuer_def audience_def unix_def maxLifetime_def wrap64_exact)
  ultimately show ?thesis unfolding sample_module_token_def by (rule Validate_encode [OF json example_token_secret])
qed

lemma sample_bearer: "extractBearerToken (''Bearer '' @ sample_module_token) = sample_module_token"
  by code_simp

definition sample_manifest :: ModuleManifest where
  "sample_manifest = \<lparr>mmID = ''com.example.backup'', mmName = ''Backup'', mmVersion = ''1'', mmAPIVersion = ''v1'', mmPublisher = ''acme'', mmDescription = [],
     mmPermissions = [''devices.read''], mmSubscribe = [], mmPublish = [],
     mmRoutes = [\<lparr>mrPath = ''/api/modules/com.example.backup/run'', mrMethods = [''POST''], mrPermission = ''devices.read''\<rparr>], mmNavigation = [], mmRuntime = None\<rparr>"

definition sample_registry :: registry where
  "sample_registry = [(''com.example.backup'', \<lparr>imManifest = sample_manifest, imState = StateEnabled, imInstalledAt = 1, imUpdatedAt = 1, imReason = []\<rparr>)]"

definition sample_target :: ResourceScope where
  "sample_target = \<lparr>scMSPID = ''m'', scClientID = ''c'', scSiteID = []\<rparr>"

lemma sample_module_allowed:
  "WithModuleAuthorization sample_module_env example_generator (\<lambda>t. Some False) (6 * 1000000000) (Some sample_registry) ''com.example.backup'' ''devices.read''
     (Some sample_target) (''Bearer '' @ sample_module_token) = Inr sample_module_claims"
proof -
  have "sample_module_token \<noteq> []" by (simp add: sample_module_token_def encode_def Let_def)
  moreover have "bucket_get sample_registry ''com.example.backup'' =
      Some \<lparr>imManifest = sample_manifest, imState = StateEnabled, imInstalledAt = 1, imUpdatedAt = 1, imReason = []\<rparr>"
    by (simp add: sample_registry_def bucket_get_def)
  ultimately show ?thesis
    using sample_module_valid [of 6]
    by (simp add: WithModuleAuthorization_def Let_def sample_bearer [simplified] Authorize_module_def Validate_identity_def validateServiceScope_def sample_target_def
        sample_module_claims_def Get_module_def RequirePermission_def sample_manifest_def scopeAllows_def)
qed


lemma sample_revoked:
  "Revoke_identity sample_module_env example_generator (Revoke_redis True) (6 * 1000000000) sample_module_token [] = (None, [(''t'', 305 * Second)])"
  using sample_module_valid [of 6]
  by (simp add: Revoke_identity_def Revoke_redis_def Let_def sample_module_claims_def Second_def)


end
