(* ===== verification/ModuleSafety.thy ===== *)
theory ModuleSafety
  imports ModuleLifecycle ModuleAccessSafety
begin

text \<open>
  What holds of add-on modules: the audit explains the state of every module, materialized code is signed and never changes,
  invocations and requests stay within what the manifest and the token grant, and versions cannot be changed at all
  because the audit table refuses it.
\<close>

section \<open>The tables and their audit\<close>

text \<open>
  The steps a module may take: it begins installed, leaves quarantine only by being removed, and is not removed while
  enabled.
\<close>

fun legal_step :: "ModuleState option \<Rightarrow> ModuleState option \<Rightarrow> bool" where
  "legal_step None (Some s) = (s = StateInstalled)"
| "legal_step None None = False"
| "legal_step (Some p) None = (p \<noteq> StateEnabled)"
| "legal_step (Some p) (Some n) = (n = p \<or> n = StateQuarantined \<or> (p \<noteq> StateQuarantined \<and> (n = StateEnabled \<or> n = StateDisabled)))"

definition audited :: "module_audit \<Rightarrow> (string \<rightharpoonup> ModuleState) \<Rightarrow> (string \<rightharpoonup> ModuleState)" where
  "audited a cur = cur(auModule a := auNew a)"

fun audit_ok :: "(string \<rightharpoonup> ModuleState) \<Rightarrow> module_audit list \<Rightarrow> bool" where
  "audit_ok cur [] = True"
| "audit_ok cur (a # as) = (auPrevious a = cur (auModule a) \<and> legal_step (auPrevious a) (auNew a) \<and> audit_ok (audited a cur) as)"

definition replay :: "module_audit list \<Rightarrow> (string \<rightharpoonup> ModuleState)" where
  "replay as = fold audited as Map.empty"

lemma audit_ok_snoc:
  "audit_ok cur (as @ [a]) \<longleftrightarrow> audit_ok cur as \<and> auPrevious a = fold audited as cur (auModule a) \<and> legal_step (auPrevious a) (auNew a)"
  by (induction as arbitrary: cur) auto

definition db_inv :: "module_db \<Rightarrow> bool" where
  "db_inv db \<longleftrightarrow> bucket_ok (dbModules db) \<and> (\<forall>(k, m) \<in> set (dbModules db). mmID (imManifest m) = k) \<and>
     audit_ok Map.empty (dbAudit db) \<and> (\<forall>k. replay (dbAudit db) k = map_option imState (bucket_get (dbModules db) k))"

lemma transition_legal:
  assumes "validateAuditTransition prev next action = None" "audit_action_check action"
  shows "legal_step prev (Some next)"
  using assms by (cases prev) (auto simp: validateAuditTransition_def audit_action_check_def split: if_splits)

lemma Save_done:
  assumes "Save fault m actor action db = (None, db')"
  obtains old row where "old = bucket_get (dbModules db) (mmID (imManifest m))" "imManifest row = imManifest m" "imState row = imState m"
    "validateAuditTransition (map_option imState old) (imState m) action = None" "audit_action_check action"
    "db' = db\<lparr>dbModules := bucket_put (mmID (imManifest m)) row (dbModules db),
       dbAudit := dbAudit db @ [\<lparr>auModule = mmID (imManifest m), auAction = action, auPrevious = map_option imState old, auNew = Some (imState m),
         auReason = imReason m, auActor = actor\<rparr>]\<rparr>"
proof -
  define old where "old = bucket_get (dbModules db) (mmID (imManifest m))"
  define row where "row = (case old of None \<Rightarrow> m | Some o' \<Rightarrow> m\<lparr>imInstalledAt := imInstalledAt o'\<rparr>)"
  have row: "imManifest row = imManifest m" "imState row = imState m" by (simp_all add: row_def split: option.split)
  show thesis
    using assms row by (intro that [of old row]) (simp_all add: Save_def Let_def old_def [symmetric] row_def [symmetric] split: option.splits if_splits)
qed

lemma Save_inv:
  assumes "db_inv db" "Save fault m actor action db = (None, db')"
  shows "db_inv db'"
proof -
  obtain old row where s: "old = bucket_get (dbModules db) (mmID (imManifest m))" "imManifest row = imManifest m" "imState row = imState m"
    "validateAuditTransition (map_option imState old) (imState m) action = None" "audit_action_check action"
    "db' = db\<lparr>dbModules := bucket_put (mmID (imManifest m)) row (dbModules db),
       dbAudit := dbAudit db @ [\<lparr>auModule = mmID (imManifest m), auAction = action, auPrevious = map_option imState old, auNew = Some (imState m),
         auReason = imReason m, auActor = actor\<rparr>]\<rparr>"
    using assms(2) by (rule Save_done)
  define k where "k = mmID (imManifest m)"
  have inv: "bucket_ok (dbModules db)" "\<forall>(k, m) \<in> set (dbModules db). mmID (imManifest m) = k" "audit_ok Map.empty (dbAudit db)"
    "\<And>k. replay (dbAudit db) k = map_option imState (bucket_get (dbModules db) k)"
    using assms(1) by (auto simp: db_inv_def)
  have "\<forall>(k', m') \<in> set (bucket_put k row (dbModules db)). mmID (imManifest m') = k'"
    using set_bucket_put_sub [of k row "dbModules db"] inv(2) s(2) by (auto simp: k_def)
  moreover have "fold audited (dbAudit db) Map.empty k = map_option imState old" using inv(4) [of k] s(1) by (simp add: replay_def k_def)
  ultimately show ?thesis
    using inv s(3,6) transition_legal [OF s(4,5)] unfolding db_inv_def
    by (auto simp: bucket_get_put k_def [symmetric] audit_ok_snoc replay_def audited_def)
qed

lemma Delete_inv:
  assumes "db_inv db" "Delete_module fault mid actor reason db = (None, db')"
  shows "db_inv db'"
proof -
  obtain m where m: "bucket_get (dbModules db) mid = Some m" "imState m \<noteq> StateEnabled"
    "db' = db\<lparr>dbAudit := dbAudit db @ [\<lparr>auModule = mid, auAction = ''uninstall'', auPrevious = Some (imState m), auNew = None,
       auReason = reason, auActor = actor\<rparr>], dbModules := bucket_delete mid (dbModules db)\<rparr>"
    using assms(2) by (auto simp: Delete_module_def split: if_splits option.splits)
  have "\<forall>(k, m) \<in> set (bucket_delete mid (dbModules db)). mmID (imManifest m) = k"
    using assms(1) by (auto simp: db_inv_def bucket_delete_def)
  then show ?thesis
    using assms(1) m unfolding db_inv_def by (auto simp: audit_ok_snoc replay_def audited_def)
qed

text \<open>Every mutation that succeeds has written with \<^const>\<open>Save\<close> and nothing else.\<close>

definition saves :: "mutation \<Rightarrow> bool" where
  "saves mutation \<longleftrightarrow> (\<forall>e r db tree m db' tree'. mutation e r db tree = (Inr m, db', tree') \<longrightarrow>
     (\<exists>fault m' actor action. Save fault m' actor action db = (None, db')))"

lemma save_module_saves: "save_module actor action e m db tree = (Inr m', db', tree') \<Longrightarrow> \<exists>fault m' actor action. Save fault m' actor action db = (None, db')"
  by (auto simp: save_module_def split: prod.splits option.splits)

lemma deploy_saves:
  "deploy_version c actor action pkg payload e m db tree = (Inr m', db', tree') \<Longrightarrow> \<exists>fault m' actor action. Save fault m' actor action db = (None, db')"
  by (auto simp: deploy_version_def split: prod.splits option.splits sum.splits dest: save_module_saves)

lemma saves_install: "saves (install_mutation c actor pkg payload)"
  unfolding saves_def by (auto simp: install_mutation_def split: prod.splits sum.splits dest: deploy_saves)

lemma saves_state: "saves (state_mutation actor action change)"
  unfolding saves_def by (auto simp: state_mutation_def split: prod.splits sum.splits dest: save_module_saves)

text \<open>A property of the world that one attempt keeps is kept by the loop of attempts.\<close>

lemma mutate_keeps:
  assumes "\<And>e w. P w \<Longrightarrow> P (snd (runModuleLifecycleMutation e actor mutation w))" "\<And>w rt. P w \<Longrightarrow> P (w\<lparr>mwRuntime := rt\<rparr>)"
  shows "P w \<Longrightarrow> P (snd (mutate_from err es actor mutation w))"
proof (induction es arbitrary: w err)
  case (Cons e es)
  obtain res w1 where run: "runModuleLifecycleMutation e actor mutation w = (res, w1)" by (rule prod.exhaust)
  then have "P w1" using assms(1) [OF Cons.prems, of e] by simp
  then show ?case using run Cons.IH assms(2) by (simp split: sum.split)
qed simp

lemma delete_keeps:
  assumes "\<And>e w. P w \<Longrightarrow> P (snd (runModuleLifecycleDelete e actor mid reason w))" "\<And>w rt. P w \<Longrightarrow> P (w\<lparr>mwRuntime := rt\<rparr>)"
  shows "P w \<Longrightarrow> P (snd (delete_from err es actor mid reason w))"
proof (induction es arbitrary: w err)
  case (Cons e es)
  obtain res w1 where run: "runModuleLifecycleDelete e actor mid reason w = (res, w1)" by (rule prod.exhaust)
  then have "P w1" using assms(1) [OF Cons.prems, of e] by simp
  then show ?case using run Cons.IH assms(2) by (simp split: option.split)
qed simp

lemma run_mutation_inv:
  assumes "saves mutation" "db_inv (mwDB w)"
  shows "db_inv (mwDB (snd (runModuleLifecycleMutation e actor mutation w)))"
proof -
  have "db_inv db'" if "mutation e r (mwDB w) tree = (Inr m, db', tree')" for r tree m db' tree'
    using assms that unfolding saves_def by (blast intro: Save_inv)
  then show ?thesis using assms(2) by (simp add: runModuleLifecycleMutation_def split: option.split sum.split prod.split)
qed

lemma mutate_inv:
  assumes "saves mutation" "db_inv (mwDB w)"
  shows "db_inv (mwDB (snd (mutateModuleLifecycle envs actor mutation w)))"
  unfolding mutateModuleLifecycle_def
  by (rule mutate_keeps [of "\<lambda>w. db_inv (mwDB w)"]) (simp_all add: run_mutation_inv assms)

lemma delete_inv:
  assumes "db_inv (mwDB w)"
  shows "db_inv (mwDB (snd (deleteModuleLifecycle envs actor mid reason w)))"
proof -
  have "db_inv (mwDB (snd (runModuleLifecycleDelete e actor mid reason w)))" if "db_inv (mwDB w)" for e w
    using that Delete_inv by (fastforce simp: runModuleLifecycleDelete_def split: option.split prod.split)
  then show ?thesis
    unfolding deleteModuleLifecycle_def by (intro delete_keeps [of "\<lambda>w. db_inv (mwDB w)"]) (simp_all add: assms)
qed

section \<open>Versions\<close>

text \<open>
  A mutation that cannot succeed leaves the tables as they are. The audit table has no actions \<^verbatim>\<open>upgrade\<close> and
  \<^verbatim>\<open>rollback\<close>, and so both are such mutations.
\<close>

definition fails :: "mutation \<Rightarrow> bool" where
  "fails mutation \<longleftrightarrow> (\<forall>e r db tree. \<exists>err. fst (mutation e r db tree) = Inl err)"

lemma fails_run:
  assumes "fails mutation"
  shows "\<exists>err. fst (runModuleLifecycleMutation e actor mutation w) = Inl err" "mwDB (snd (runModuleLifecycleMutation e actor mutation w)) = mwDB w"
proof -
  have step: "\<exists>err db tree. mutation e r (mwDB w) (mwTree w) = (Inl err, db, tree)" for r
    using assms unfolding fails_def by (metis prod.collapse)
  then have one: "\<exists>err db tree. mutation e (projr (RestoreRegistry (txRead e) (mwDB w))) (mwDB w) (mwTree w) = (Inl err, db, tree)" by blast
  then show "\<exists>err. fst (runModuleLifecycleMutation e actor mutation w) = Inl err"
    by (auto simp: runModuleLifecycleMutation_def split: option.split sum.split)
  show "mwDB (snd (runModuleLifecycleMutation e actor mutation w)) = mwDB w"
    using one by (auto simp: runModuleLifecycleMutation_def split: option.split sum.split)
qed

lemma fails_mutate:
  assumes "fails mutation"
  shows "(\<exists>err. fst (mutateModuleLifecycle envs actor mutation w) = Inl err) \<and> mwDB (snd (mutateModuleLifecycle envs actor mutation w)) = mwDB w"
proof -
  have "(\<exists>err. fst (mutate_from err0 es actor mutation w) = Inl err) \<and> mwDB (snd (mutate_from err0 es actor mutation w)) = mwDB w" for err0 es w
  proof (induction es arbitrary: err0 w)
    case (Cons e es)
    obtain err w1 where "runModuleLifecycleMutation e actor mutation w = (Inl err, w1)" "mwDB w1 = mwDB w"
      using fails_run [OF assms, of e actor w] by (metis prod.collapse)
    then show ?case using Cons.IH [of err w1] by simp
  qed simp
  then show ?thesis unfolding mutateModuleLifecycle_def .
qed

lemma Save_refused: "\<not> audit_action_check action \<Longrightarrow> fst (Save fault m actor action db) \<noteq> None"
  by (simp add: Save_def Let_def split: option.split)

lemma save_module_fails: "\<not> audit_action_check action \<Longrightarrow> \<exists>err. fst (save_module actor action e m db tree) = Inl err"
  using Save_refused [of action "txWrite e" m actor db] by (auto simp: save_module_def split: prod.splits option.splits)

lemma deploy_fails: "\<not> audit_action_check action \<Longrightarrow> \<exists>err. fst (deploy_version c actor action pkg payload e m db tree) = Inl err"
  by (auto simp: deploy_version_def save_module_fails split: prod.split option.split sum.split)

lemma version_fails: "(\<And>m. fails (rest m)) \<Longrightarrow> fails (version_mutation mid expected manifest rest)"
  unfolding fails_def by (auto simp: version_mutation_def split: prod.split sum.split)

lemma upgrade_fails: "fails (upgrade_mutation c actor mid expected pkg payload)"
  unfolding upgrade_mutation_def
proof (rule version_fails)
  have "\<not> audit_action_check ''upgrade''" by (simp add: audit_action_check_def)
  then show "fails (\<lambda>e r db tree. deploy_version c actor ''upgrade'' pkg payload e m db tree)" for m
    unfolding fails_def by (blast intro: deploy_fails)
qed

lemma rollback_fails:
  "fails (rollback_mutation c actor mid expected manifest)"
  unfolding rollback_mutation_def
proof (rule version_fails)
  have "\<not> audit_action_check ''rollback''" by (simp add: audit_action_check_def)
  then show "fails (\<lambda>e r db tree. case ActivateExpectedPreviousVersion c (txFs e) mid expected tree of
     (Inl err, tree1) \<Rightarrow> (Inl err, db, tree1) | (Inr st, tree1) \<Rightarrow> save_module actor ''rollback'' e m db tree1)" for m
    unfolding fails_def by (auto simp: save_module_fails split: prod.split sum.split)
qed

lemma no_success:
  "lifecycle_status e \<noteq> 200" "install_status e \<noteq> Some 200" "version_status e \<noteq> 200" "or_status (install_status e) 400 \<noteq> 200"
  "or_status (install_status e) (version_status e) \<noteq> 200"
  by (simp_all add: lifecycle_status_def install_status_def version_status_def or_status_def split: module_error.split)

lemma upgrade_unsuccessful:
  "fst (fst (handleModuleUpgrade srv fe envs actor mid body w)) \<noteq> 200 \<and> mwDB (snd (handleModuleUpgrade srv fe envs actor mid body w)) = mwDB w"
proof (cases "prepareSignedModulePackage srv body")
  case (Inl err)
  then show ?thesis by (simp add: handleModuleUpgrade_def no_success)
next
  case (Inr p)
  obtain pkg payload where p: "p = (pkg, payload)" by (rule prod.exhaust)
  show ?thesis
  proof (cases "ReadActiveVersion (msCrypto srv) fe mid (mwTree w)")
    case (Inl err)
    then show ?thesis using Inr p by (simp add: handleModuleUpgrade_def no_success)
  next
    case read: (Inr expected)
    obtain err w1 where "mutateModuleLifecycle envs actor (upgrade_mutation (msCrypto srv) actor mid expected pkg payload) w = (Inl err, w1)" "mwDB w1 = mwDB w"
      using fails_mutate [OF upgrade_fails] by (metis prod.collapse)
    then show ?thesis using Inr p read by (simp add: handleModuleUpgrade_def no_success)
  qed
qed

lemma rollback_unsuccessful:
  "fst (fst (handleModuleRollback srv fe envs actor mid body w)) \<noteq> 200 \<and> mwDB (snd (handleModuleRollback srv fe envs actor mid body w)) = mwDB w"
proof (cases "ReadActiveVersion (msCrypto srv) fe mid (mwTree w)")
  case (Inl err)
  then show ?thesis by (simp add: handleModuleRollback_def no_success)
next
  case (Inr expected)
  show ?thesis
  proof (cases "ReadReleaseMetadata (msCrypto srv) fe mid (avPreviousVersion expected) (mwTree w)")
    case (Inl err)
    then show ?thesis using Inr by (simp add: handleModuleRollback_def no_success)
  next
    case read: (Inr md)
    obtain err w1 where "mutateModuleLifecycle envs actor (rollback_mutation (msCrypto srv) actor mid expected (rdManifest md)) w = (Inl err, w1)" "mwDB w1 = mwDB w"
      using fails_mutate [OF rollback_fails] by (metis prod.collapse)
    then show ?thesis using Inr read by (simp add: handleModuleRollback_def no_success)
  qed
qed


section \<open>Runs of the lifecycle\<close>

lemma install_inv:
  assumes "db_inv (mwDB w)"
  shows "db_inv (mwDB (snd (handleModuleInstall srv envs actor body w)))"
proof (cases "prepareSignedModulePackage srv body")
  case (Inl err)
  then show ?thesis using assms by (simp add: handleModuleInstall_def)
next
  case (Inr p)
  obtain pkg payload where p: "p = (pkg, payload)" by (rule prod.exhaust)
  show ?thesis
    using Inr p mutate_inv [OF saves_install assms, of envs actor "msCrypto srv" actor pkg payload]
    by (auto simp: handleModuleInstall_def split: prod.split sum.split)
qed

lemma state_inv:
  assumes "db_inv (mwDB w)"
  shows "db_inv (mwDB (snd (state_reply (mutateModuleLifecycle envs actor (state_mutation actor' action change) w))))"
  using mutate_inv [OF saves_state assms, of envs actor actor' action change] by (auto simp: state_reply_def split: prod.split sum.split)

lemma uninstall_inv:
  assumes "db_inv (mwDB w)"
  shows "db_inv (mwDB (snd (handleModuleUninstall srv envs actor mid body w)))"
proof (cases "decodeModuleLifecycleReason (msCrypto srv) body")
  case (Some reason)
  then show ?thesis
    using delete_inv [OF assms, of envs actor mid reason] by (auto simp: handleModuleUninstall_def split: prod.split option.split)
qed (simp add: handleModuleUninstall_def assms)

lemma serve_inv: "db_inv (mwDB w) \<Longrightarrow> db_inv (mwDB (snd (serveModuleLifecycle srv q w)))"
  by (auto simp: serveModuleLifecycle_def handleModuleEnable_def handleModuleDisable_def handleModuleQuarantine_def state_inv install_inv
      uninstall_inv upgrade_unsuccessful rollback_unsuccessful split: option.split)

definition fresh_modules :: "install_root \<Rightarrow> module_runtime \<Rightarrow> module_world" where
  "fresh_modules tree rt = \<lparr>mwDB = \<lparr>dbModules = [], dbAudit = []\<rparr>, mwTree = tree, mwRuntime = rt\<rparr>"

lemma run_lifecycle_inv: "db_inv (mwDB (run_lifecycle srv qs (fresh_modules tree rt)))"
proof -
  have "db_inv (mwDB w) \<Longrightarrow> db_inv (mwDB (run_lifecycle srv qs w))" for w
    by (induction qs arbitrary: w) (simp_all add: run_lifecycle_def serve_inv)
  moreover have "db_inv (mwDB (fresh_modules tree rt))" by (simp add: db_inv_def fresh_modules_def replay_def bucket_get_def)
  ultimately show ?thesis by blast
qed


section \<open>A module whose version on disk is ahead\<close>

lemma restore_all_members: "restore_all r ms = Inr r' \<Longrightarrow> set r' \<subseteq> set r \<union> (\<lambda>m. (mmID (imManifest m), m)) ` set ms"
proof (induction ms arbitrary: r)
  case (Cons m ms)
  obtain r1 where r1: "Restore m r = Inr r1" "restore_all r1 ms = Inr r'" using Cons.prems(1) by (auto split: sum.splits)
  then have "r1 = bucket_put (mmID (imManifest m)) m r" by (auto simp: Restore_def split: option.splits if_splits)
  then show ?case using Cons.IH [OF r1(2)] set_bucket_put_sub [of "mmID (imManifest m)" m r] by auto
qed simp

lemma restored_from_table:
  assumes "RestoreRegistry fault db = Inr r" "db_inv db" "bucket_get r mid = Some m"
  shows "bucket_get (dbModules db) mid = Some m"
proof -
  have "restore_all [] (map snd (dbModules db)) = Inr r"
    using assms(1) by (auto simp: RestoreRegistry_def List_persisted_def Let_def split: option.splits sum.splits)
  then have "(mid, m) \<in> (\<lambda>m. (mmID (imManifest m), m)) ` snd ` set (dbModules db)"
    using restore_all_members bucket_get_in [OF assms(3)] by fastforce
  then have "(mid, m) \<in> set (dbModules db)" using assms(2) by (auto simp: db_inv_def)
  then show ?thesis using assms(2) by (auto simp: db_inv_def intro: in_bucket_get)
qed

lemma stuck_mutation:
  assumes "db_inv (mwDB w)" "bucket_get (dbModules (mwDB w)) mid = Some m" "mmVersion (imManifest m) \<noteq> avActiveVersion expected"
  shows "snd (mutateModuleLifecycle envs actor (version_mutation mid expected manifest rest) w) = w"
proof -
  have one: "\<exists>err. runModuleLifecycleMutation e actor (version_mutation mid expected manifest rest) w = (Inl err, w)" for e
  proof (cases "RestoreRegistry (txRead e) (mwDB w)")
    case (Inl err)
    then show ?thesis by (auto simp: runModuleLifecycleMutation_def split: option.split)
  next
    case (Inr r)
    have "current = m" if "Get_module mid r = Inr current" for current
      using that restored_from_table [OF Inr assms(1), of mid current] assms(2) by (auto simp: Get_module_def split: option.splits)
    then have "\<exists>err. version_mutation mid expected manifest rest e r (mwDB w) (mwTree w) = (Inl err, mwDB w, mwTree w)"
      using assms(3) by (auto simp: version_mutation_def split: sum.split)
    then show ?thesis using Inr by (auto simp: runModuleLifecycleMutation_def split: option.split)
  qed
  have "snd (mutate_from err es actor (version_mutation mid expected manifest rest) w) = w" for err es
  proof (induction es arbitrary: err)
    case (Cons e es)
    obtain err' where "runModuleLifecycleMutation e actor (version_mutation mid expected manifest rest) w = (Inl err', w)" using one by blast
    then show ?case using Cons.IH by simp
  qed simp
  then show ?thesis unfolding mutateModuleLifecycle_def .
qed

text \<open>
  Once the selected version on disk is not the one of the table, upgrades and rollbacks of the module change nothing any more. An
  upgrade leads there, since it selects the new version before its transaction fails.
\<close>

lemma module_stuck:
  assumes "bucket_get (dbModules (mwDB w)) mid = Some m" "db_inv (mwDB w)"
    "\<And>fe st. ReadActiveVersion (msCrypto srv) fe mid (mwTree w) = Inr st \<Longrightarrow> avActiveVersion st \<noteq> mmVersion (imManifest m)"
  shows "snd (handleModuleUpgrade srv fe envs actor mid body w) = w" "snd (handleModuleRollback srv fe envs actor mid body w) = w"
proof -
  have stuck: "snd (mutateModuleLifecycle envs actor (version_mutation mid expected manifest rest) w) = w"
    if "ReadActiveVersion (msCrypto srv) fe mid (mwTree w) = Inr expected" for expected manifest rest
    using stuck_mutation [OF assms(2,1)] assms(3) [OF that] by metis
  show "snd (handleModuleUpgrade srv fe envs actor mid body w) = w"
    using stuck by (simp add: handleModuleUpgrade_def upgrade_mutation_def case_prod_beta split: sum.split)
  show "snd (handleModuleRollback srv fe envs actor mid body w) = w"
    using stuck by (simp add: handleModuleRollback_def rollback_mutation_def case_prod_beta split: sum.split)
qed

section \<open>What is on disk\<close>

definition version_files :: "install_root \<Rightarrow> string \<Rightarrow> string \<Rightarrow> PayloadFile list option" where
  "version_files tree mid v =
     (case bucket_get tree mid of
        None \<Rightarrow> None
      | Some d \<Rightarrow> (case bucket_get d v of Some (DirNode fs) \<Rightarrow> Some fs | _ \<Rightarrow> None))"

abbreviation hidden :: "string \<Rightarrow> bool" where
  "hidden v \<equiv> HasPrefix v ''.''"

definition tree_ok :: "install_root \<Rightarrow> bool" where
  "tree_ok tree \<longleftrightarrow> bucket_ok tree \<and> (\<forall>(k, d) \<in> set tree. bucket_ok d)"

text \<open>The directory is the same up to hidden names.\<close>

definition same_versions :: "module_dir \<Rightarrow> module_dir \<Rightarrow> bool" where
  "same_versions d d' \<longleftrightarrow> (bucket_ok d \<longrightarrow> bucket_ok d' \<and> (\<forall>v. \<not> hidden v \<longrightarrow> bucket_get d' v = bucket_get d v))"

text \<open>New versions satisfy \<open>S\<close>; the others stay as they are.\<close>

definition grows :: "(string \<Rightarrow> string \<Rightarrow> PayloadFile list \<Rightarrow> bool) \<Rightarrow> install_root \<Rightarrow> install_root \<Rightarrow> bool" where
  "grows S tree tree' \<longleftrightarrow> (tree_ok tree \<longrightarrow> tree_ok tree' \<and> (\<forall>mid v. \<not> hidden v \<longrightarrow>
     version_files tree' mid v = version_files tree mid v \<or> version_files tree mid v = None \<and> (\<exists>fs. version_files tree' mid v = Some fs \<and> S mid v fs)))"

lemma same_versions_refl [simp]: "same_versions d d"
  by (simp add: same_versions_def)

lemma same_versions_trans: "same_versions d d1 \<Longrightarrow> same_versions d1 d2 \<Longrightarrow> same_versions d d2"
  by (simp add: same_versions_def)

lemma same_versions_put: "hidden name \<Longrightarrow> same_versions d (bucket_put name n d)"
  by (auto simp: same_versions_def bucket_get_put)

lemma same_versions_delete: "hidden name \<Longrightarrow> same_versions d (bucket_delete name d)"
  by (auto simp: same_versions_def)

lemma grows_refl [simp]: "grows S tree tree"
  by (simp add: grows_def)

lemma grows_trans:
  assumes "grows S tree tree1" "grows S tree1 tree2"
  shows "grows S tree tree2"
  unfolding grows_def
proof (intro impI conjI allI)
  assume ok: "tree_ok tree"
  then have ok1: "tree_ok tree1" using assms(1) by (simp add: grows_def)
  then show "tree_ok tree2" using assms(2) by (simp add: grows_def)
  fix mid v assume v: "\<not> hidden v"
  consider "version_files tree1 mid v = version_files tree mid v" | fs where "version_files tree mid v = None" "version_files tree1 mid v = Some fs" "S mid v fs"
    using assms(1) ok v unfolding grows_def by blast
  then show "version_files tree2 mid v = version_files tree mid v \<or> version_files tree mid v = None \<and> (\<exists>fs. version_files tree2 mid v = Some fs \<and> S mid v fs)"
    using assms(2) ok1 v unfolding grows_def by (metis option.distinct(1))
qed

lemma tree_ok_put: "tree_ok tree \<Longrightarrow> bucket_ok d \<Longrightarrow> tree_ok (bucket_put mid d tree)"
  using set_bucket_put_sub [of mid d tree] by (auto simp: tree_ok_def)

lemma tree_ok_get: "tree_ok tree \<Longrightarrow> bucket_get tree mid = Some d \<Longrightarrow> bucket_ok d"
  using bucket_get_in [of tree mid d] by (auto simp: tree_ok_def)

definition dir_of :: "install_root \<Rightarrow> string \<Rightarrow> module_dir" where
  "dir_of tree mid = (case bucket_get tree mid of None \<Rightarrow> [] | Some d \<Rightarrow> d)"

lemma dir_of_ok: "tree_ok tree \<Longrightarrow> bucket_ok (dir_of tree mid)"
  by (auto simp: dir_of_def split: option.split dest: tree_ok_get)

lemma version_files_dir: "version_files tree mid v = (case bucket_get (dir_of tree mid) v of Some (DirNode fs) \<Rightarrow> Some fs | _ \<Rightarrow> None)"
  by (simp add: version_files_def dir_of_def bucket_get_def split: option.split)

lemma dir_of_put: "tree_ok tree \<Longrightarrow> dir_of (bucket_put mid d tree) k = (if k = mid then d else dir_of tree k)"
  by (simp add: dir_of_def tree_ok_def bucket_get_put)

lemma grows_hidden:
  assumes "same_versions (dir_of tree mid) d"
  shows "grows S tree (bucket_put mid d tree)"
  using assms by (auto simp: grows_def same_versions_def version_files_dir dir_of_put tree_ok_put dir_of_ok)

lemma existing_dir: "existingModuleDirectory fe mid tree = Inr d \<Longrightarrow> dir_of tree mid = d"
  by (auto simp: existingModuleDirectory_def dir_of_def split: if_splits option.splits)

section \<open>Materialized code\<close>

lemma hidden_lock [simp]: "hidden (install_lock v)"
  by (simp add: install_lock_def)

lemma acquire_same: "same_versions d (snd (acquireInstallLock fe v d))"
proof -
  have "same_versions d (snd (reclaimStaleInstallLock fe v d))"
    by (simp add: reclaimStaleInstallLock_def Let_def same_versions_delete split: option.split node.split)
  then show ?thesis
    by (auto simp: acquireInstallLock_def case_prod_beta split: option.split
        intro: same_versions_trans same_versions_put hidden_lock)
qed

lemma release_same: "same_versions d (release_install_lock fe v d)"
  by (simp add: release_install_lock_def same_versions_delete)

lemma materialize_grows:
  assumes "\<And>v. v = mmVersion (vpManifest pkg) \<Longrightarrow> S (mmID (vpManifest pkg)) v (materialized (vyFiles payload))"
  shows "grows S tree (snd (MaterializePayload c fe pkg payload tree))"
proof -
  define mid v d where "mid = mmID (vpManifest pkg)" and "v = mmVersion (vpManifest pkg)" and "d = dir_of tree mid"
  obtain err d1 where lock: "acquireInstallLock fe v d = (err, d1)" by (rule prod.exhaust)
  have d1: "same_versions d d1" using acquire_same [of d fe v] lock by simp
  then have d2: "same_versions d (release_install_lock fe v d1)" using release_same same_versions_trans by blast
  have new: "grows S tree (bucket_put mid (release_install_lock fe v (bucket_put v (DirNode (materialized (vyFiles payload))) d1)) tree)"
    if "bucket_get d v = None"
    unfolding grows_def
  proof (intro impI)
    assume ok: "tree_ok tree"
    then have okd: "bucket_ok d" "bucket_ok d1" using dir_of_ok d1 by (auto simp: d_def same_versions_def)
    define d3 where "d3 = bucket_put v (DirNode (materialized (vyFiles payload))) d1"
    have ok3: "bucket_ok d3" using okd by (auto simp: d3_def)
    then have rel: "bucket_ok (release_install_lock fe v d3)" "\<And>x. \<not> hidden x \<Longrightarrow> bucket_get (release_install_lock fe v d3) x = bucket_get d3 x"
      using release_same [of d3 fe v] by (auto simp: same_versions_def)
    have get: "bucket_get d3 x = (if x = v then Some (DirNode (materialized (vyFiles payload))) else bucket_get d x)" if "\<not> hidden x" for x
      using that okd d1 by (auto simp: d3_def bucket_get_put same_versions_def)
    show "tree_ok (bucket_put mid (release_install_lock fe v d3) tree) \<and> (\<forall>mid' v'. \<not> hidden v' \<longrightarrow>
      version_files (bucket_put mid (release_install_lock fe v d3) tree) mid' v' = version_files tree mid' v' \<or> version_files tree mid' v' = None \<and>
      (\<exists>fs. version_files (bucket_put mid (release_install_lock fe v d3) tree) mid' v' = Some fs \<and> S mid' v' fs))"
      using ok rel get that assms by (auto simp: tree_ok_put version_files_dir dir_of_put d_def mid_def v_def)
  qed
  show ?thesis
    using lock d1 d2 new
    by (auto simp: MaterializePayload_def Let_def mid_def [symmetric] v_def [symmetric] dir_of_def [symmetric] d_def [symmetric]
        intro: grows_hidden split: option.split)
qed

lemma metadata_grows: "grows S tree (snd (PersistReleaseMetadata c fe pkg tree))"
proof (cases "existingModuleDirectory fe (mmID (vpManifest pkg)) tree")
  case (Inl e)
  then show ?thesis by (simp add: PersistReleaseMetadata_def Let_def split: option.split)
next
  case (Inr d)
  have "grows S tree (bucket_put (mmID (vpManifest pkg)) (bucket_put ''.releases'' n d) tree)" for n
    using existing_dir [OF Inr] by (intro grows_hidden) (simp add: same_versions_put)
  then show ?thesis using Inr by (simp add: PersistReleaseMetadata_def Let_def split: option.split node.split sum.split)
qed

lemma retry_safe_grows:
  assumes "\<And>v. v = mmVersion (vpManifest pkg) \<Longrightarrow> S (mmID (vpManifest pkg)) v (materialized (vyFiles payload))"
  shows "grows S tree (snd (MaterializePayloadRetrySafe c fe pkg payload tree))"
proof -
  obtain err tree1 where run: "MaterializePayload c fe pkg payload tree = (err, tree1)" by (rule prod.exhaust)
  then have one: "grows S tree tree1" using materialize_grows [where S = S and c = c and fe = fe and tree = tree, OF assms] by simp
  then have "grows S tree (snd (PersistReleaseMetadata c fe pkg tree1))" using metadata_grows grows_trans by blast
  then show ?thesis using one run by (simp add: MaterializePayloadRetrySafe_def split: option.split)
qed

lemma select_same: "same_versions d (snd (select_version c fe a p d))"
proof -
  have "same_versions d (snd (writeActivationState c fe st d))" for st
    by (simp add: writeActivationState_def same_versions_put split: option.split node.split)
  then show ?thesis by (simp add: select_version_def Let_def case_prod_beta split: option.split)
qed

lemma lock_grows:
  assumes "dir_of tree mid = d" "\<And>d1. same_versions d1 (snd (body d1))"
  shows "grows S tree (snd (with_activation_lock fe mid d body tree))"
proof -
  define d1 where "d1 = bucket_put ''.activation.lock'' (FileNode [] (feNow fe)) d"
  obtain res d2 where run: "body d1 = (res, d2)" by (rule prod.exhaust)
  have "same_versions d d1" by (simp add: d1_def same_versions_put)
  then have "same_versions d d2" using assms(2) [of d1] run by (auto intro: same_versions_trans)
  moreover have "same_versions d2 (bucket_delete ''.activation.lock'' d2)" by (simp add: same_versions_delete)
  ultimately have "same_versions d (if feActivationUnlock fe then bucket_delete ''.activation.lock'' d2 else d2)"
    by (auto intro: same_versions_trans)
  then show ?thesis using assms(1) run by (auto simp: with_activation_lock_def d1_def [symmetric] intro: grows_hidden)
qed

lemma activate_grows: "grows S tree (snd (ActivateMaterializedVersion c fe mid v tree))"
proof (cases "existingModuleDirectory fe mid tree")
  case (Inr d)
  show ?thesis
    using existing_dir [OF Inr] Inr
    by (auto simp: ActivateMaterializedVersion_def select_same intro!: lock_grows split: option.split sum.split)
qed (simp add: ActivateMaterializedVersion_def)

lemma expected_grows: "grows S tree (snd (ActivateExpectedPreviousVersion c fe mid expected tree))"
proof (cases "existingModuleDirectory fe mid tree")
  case (Inr d)
  show ?thesis
    using existing_dir [OF Inr] Inr
    by (auto simp: ActivateExpectedPreviousVersion_def select_same intro!: lock_grows split: option.split sum.split)
qed (simp add: ActivateExpectedPreviousVersion_def)

definition tree_grows :: "(string \<Rightarrow> string \<Rightarrow> PayloadFile list \<Rightarrow> bool) \<Rightarrow> mutation \<Rightarrow> bool" where
  "tree_grows S mutation \<longleftrightarrow> (\<forall>e r db tree. grows S tree (snd (snd (mutation e r db tree))))"

lemma save_tree: "snd (snd (save_module actor action e m db tree)) = tree"
  by (simp add: save_module_def split: prod.split option.split)

lemma deploy_grows:
  assumes "\<And>v. v = mmVersion (vpManifest pkg) \<Longrightarrow> S (mmID (vpManifest pkg)) v (materialized (vyFiles payload))"
  shows "grows S tree (snd (snd (deploy_version c actor action pkg payload e m db tree)))"
proof -
  obtain err tree1 where run: "MaterializePayloadRetrySafe c (txFs e) pkg payload tree = (err, tree1)" by (rule prod.exhaust)
  obtain res tree2 where act: "ActivateMaterializedVersion c (txFs e) (mmID (vpManifest pkg)) (mmVersion (vpManifest pkg)) tree1 = (res, tree2)"
    by (rule prod.exhaust)
  have one: "grows S tree tree1" using retry_safe_grows [where S = S and c = c and fe = "txFs e" and tree = tree, OF assms] run by simp
  moreover have "grows S tree1 tree2" using activate_grows [of S tree1 c "txFs e"] act by (metis snd_conv)
  ultimately have "grows S tree tree2" by (rule grows_trans)
  then show ?thesis using one run act by (simp add: deploy_version_def save_tree split: option.split sum.split)
qed

lemma install_tree:
  assumes "\<And>v. v = mmVersion (vpManifest pkg) \<Longrightarrow> S (mmID (vpManifest pkg)) v (materialized (vyFiles payload))"
  shows "tree_grows S (install_mutation c actor pkg payload)"
  unfolding tree_grows_def using deploy_grows [where S = S, OF assms] by (auto simp: install_mutation_def split: prod.split sum.split)

lemma state_tree: "tree_grows S (state_mutation actor action change)"
  unfolding tree_grows_def by (auto simp: state_mutation_def save_tree split: prod.split sum.split)

lemma version_tree: "(\<And>m. tree_grows S (rest m)) \<Longrightarrow> tree_grows S (version_mutation mid expected manifest rest)"
  unfolding tree_grows_def by (auto simp: version_mutation_def split: prod.split sum.split)

lemma upgrade_tree:
  assumes "\<And>v. v = mmVersion (vpManifest pkg) \<Longrightarrow> S (mmID (vpManifest pkg)) v (materialized (vyFiles payload))"
  shows "tree_grows S (upgrade_mutation c actor mid expected pkg payload)"
  unfolding upgrade_mutation_def
  by (rule version_tree) (auto simp: tree_grows_def intro: deploy_grows [where S = S, OF assms])

lemma rollback_tree: "tree_grows S (rollback_mutation c actor mid expected manifest)"
  unfolding rollback_mutation_def
proof (rule version_tree)
  fix m
  have "grows S tree (snd (snd (case ActivateExpectedPreviousVersion c (txFs e) mid expected tree of
      (Inl err, tree1) \<Rightarrow> (Inl err, db, tree1) | (Inr st, tree1) \<Rightarrow> save_module actor ''rollback'' e m db tree1)))" for e db tree
    using expected_grows [of S tree c "txFs e" mid expected] by (auto simp: save_tree split: prod.split sum.split)
  then show "tree_grows S (\<lambda>e r db tree. case ActivateExpectedPreviousVersion c (txFs e) mid expected tree of
      (Inl err, tree1) \<Rightarrow> (Inl err, db, tree1) | (Inr st, tree1) \<Rightarrow> save_module actor ''rollback'' e m db tree1)"
    unfolding tree_grows_def by blast
qed

lemma mutate_grows:
  assumes "tree_grows S mutation"
  shows "grows S (mwTree w) (mwTree (snd (mutateModuleLifecycle envs actor mutation w)))"
proof -
  have one: "grows S (mwTree w) (mwTree (snd (runModuleLifecycleMutation e actor mutation w)))" for e w
  proof (cases "RestoreRegistry (txRead e) (mwDB w)")
    case (Inr r)
    obtain res db tree where run: "mutation e r (mwDB w) (mwTree w) = (res, db, tree)" by (metis prod.collapse)
    then have "grows S (mwTree w) tree" using assms unfolding tree_grows_def by (metis snd_conv)
    then show ?thesis using Inr run by (simp add: runModuleLifecycleMutation_def split: option.split sum.split)
  qed (simp add: runModuleLifecycleMutation_def split: option.split)
  have step: "grows S (mwTree w) (mwTree (snd (runModuleLifecycleMutation e actor mutation u)))" if "grows S (mwTree w) (mwTree u)" for e u
    using that one by (rule grows_trans)
  show ?thesis
    unfolding mutateModuleLifecycle_def
    by (rule mutate_keeps [of "\<lambda>u. grows S (mwTree w) (mwTree u)"]) (simp_all add: step)
qed

section \<open>Only signed code is installed\<close>

text \<open>
  The files are those of a payload whose digest, together with a manifest for this module and version, is signed with a
  trusted key of the publisher the manifest names.
\<close>

definition signed_release :: "module_server \<Rightarrow> string \<Rightarrow> string \<Rightarrow> PayloadFile list \<Rightarrow> bool" where
  "signed_release srv mid v fs \<longleftrightarrow>
     (\<exists>trust m payload keyID key signature entries files.
        ParsePublisherTrustStoreJSON (msCrypto srv) (TrimSpace (msTrust srv)) = Some trust \<and>
        ValidateManifest m = None \<and> mmID m = mid \<and> mmVersion m = v \<and> LookupPublisherKey (mmPublisher m) keyID trust = Some key \<and>
        mcVerify (msCrypto srv) (pkPublicKey key)
          (mcRender (msCrypto srv) (mcManifestJSON (msCrypto srv) m) @ [CHR 0x0A] @ mcSHA256 (msCrypto srv) payload) signature \<and>
        mcUntar (msCrypto srv) payload = Some entries \<and> tar_files [] 0 0 entries = Some files \<and> fs = materialized files)"

lemma verified_package:
  assumes "VerifyPackage c data trust = Inr pkg"
  obtains keyID signature where "ValidateManifest (vpManifest pkg) = None" "LookupPublisherKey (mmPublisher (vpManifest pkg)) keyID trust = Some (vpPublisherKey pkg)"
    "mcVerify c (pkPublicKey (vpPublisherKey pkg)) (mcRender c (mcManifestJSON c (vpManifest pkg)) @ [CHR 0x0A] @ mcSHA256 c (vpPayload pkg)) signature"
  using assms
  by (auto simp: VerifyPackage_def packageSigningMessage_def split: if_splits option.splits)

lemma prepared_signed:
  assumes "prepareSignedModulePackage srv body = Inr (pkg, payload)"
  shows "signed_release srv (mmID (vpManifest pkg)) (mmVersion (vpManifest pkg)) (materialized (vyFiles payload))"
proof -
  obtain data trust where t: "ParsePublisherTrustStoreJSON (msCrypto srv) (TrimSpace (msTrust srv)) = Some trust"
    "VerifyPackage (msCrypto srv) data trust = Inr pkg" "ValidatePayload (msCrypto srv) pkg = Inr payload"
    using assms by (auto simp: prepareSignedModulePackage_def split: option.splits sum.splits if_splits)
  obtain entries where "mcUntar (msCrypto srv) (vpPayload pkg) = Some entries" "tar_files [] 0 0 entries = Some (vyFiles payload)"
    using t(3) by (auto simp: ValidatePayload_def split: option.splits list.splits if_splits)
  then show ?thesis unfolding signed_release_def using t(1) verified_package [OF t(2)] by metis
qed

lemma handle_install_grows: "grows (signed_release srv) (mwTree w) (mwTree (snd (handleModuleInstall srv envs actor body w)))"
proof (cases "prepareSignedModulePackage srv body")
  case (Inr p)
  obtain pkg payload where p: "p = (pkg, payload)" by (rule prod.exhaust)
  show ?thesis
    using Inr p mutate_grows [OF install_tree [where S = "signed_release srv"], of pkg payload w envs actor "msCrypto srv" actor] prepared_signed [of srv body pkg payload]
    by (auto simp: handleModuleInstall_def split: prod.split sum.split)
qed (simp add: handleModuleInstall_def)

lemma handle_upgrade_grows: "grows (signed_release srv) (mwTree w) (mwTree (snd (handleModuleUpgrade srv fe envs actor mid body w)))"
proof (cases "prepareSignedModulePackage srv body")
  case (Inr p)
  obtain pkg payload where p: "p = (pkg, payload)" by (rule prod.exhaust)
  have "grows (signed_release srv) (mwTree w) (mwTree (snd (mutateModuleLifecycle envs actor (upgrade_mutation (msCrypto srv) actor mid expected pkg payload) w)))"
    for expected
    using prepared_signed [of srv body pkg payload] Inr p by (intro mutate_grows upgrade_tree) simp
  then show ?thesis using Inr p by (simp add: handleModuleUpgrade_def case_prod_beta split: sum.split)
qed (simp add: handleModuleUpgrade_def)

lemma handle_rollback_grows: "grows (signed_release srv) (mwTree w) (mwTree (snd (handleModuleRollback srv fe envs actor mid body w)))"
proof -
  have "grows (signed_release srv) (mwTree w) (mwTree (snd (mutateModuleLifecycle envs actor (rollback_mutation (msCrypto srv) actor mid expected manifest) w)))"
    for expected manifest
    by (intro mutate_grows rollback_tree)
  then show ?thesis by (simp add: handleModuleRollback_def case_prod_beta split: sum.split)
qed

lemma state_reply_grows:
  "grows S (mwTree w) (mwTree (snd (state_reply (mutateModuleLifecycle envs actor (state_mutation actor' action change) w))))"
  using mutate_grows [OF state_tree, of S w envs actor actor' action change] by (auto simp: state_reply_def split: prod.split sum.split)

lemma uninstall_tree: "mwTree (snd (handleModuleUninstall srv envs actor mid body w)) = mwTree w"
proof -
  have one: "mwTree (snd (runModuleLifecycleDelete e actor mid reason u)) = mwTree w" if "mwTree u = mwTree w" for e reason u
    using that by (auto simp: runModuleLifecycleDelete_def split: option.split prod.split)
  have "mwTree (snd (deleteModuleLifecycle envs actor mid reason w)) = mwTree w" for reason
    unfolding deleteModuleLifecycle_def by (rule delete_keeps [of "\<lambda>u. mwTree u = mwTree w"]) (simp_all add: one)
  then show ?thesis by (simp add: handleModuleUninstall_def case_prod_beta split: option.split)
qed

lemma serve_grows: "grows (signed_release srv) (mwTree w) (mwTree (snd (serveModuleLifecycle srv q w)))"
  by (auto simp: serveModuleLifecycle_def handleModuleEnable_def handleModuleDisable_def handleModuleQuarantine_def state_reply_grows
      handle_install_grows handle_upgrade_grows handle_rollback_grows uninstall_tree split: option.split)

lemma run_grows: "grows (signed_release srv) (mwTree w) (mwTree (run_lifecycle srv qs w))"
proof (induction qs arbitrary: w)
  case (Cons q qs)
  show ?case using grows_trans [OF serve_grows Cons.IH, of w q] by (simp add: run_lifecycle_def)
qed (simp add: run_lifecycle_def)


text \<open>
  The handler of invocations makes a supervisor for each request, so that failures never add up to the threshold and no module
  is quarantined.
\<close>

lemma invocation_never_quarantines:
  assumes "handleModuleDeviceInvocation srv fault resolve answer now mid deviceID request db = (reply, Some s)"
  shows "\<exists>ms. List_persisted fault db = Inr ms \<and> snapshot_registry [] ms = Inr (suRegistry s)"
proof -
  have one: "suRegistry (snd (InvokeDeclared answer now mid meth path body scope (NewSupervisor r 0))) = r" for meth path body scope r
    by (auto simp: InvokeDeclared_def Invoke_def NewSupervisor_def recordFailure_def resetFailures_def failure_count_def bucket_get_def Let_def
        split: sum.split option.split)
  obtain ms r meth path body scope where "List_persisted fault db = Inr ms" "ReplaceSnapshot ms [] = (None, r)"
    "s = snd (InvokeDeclared answer now mid meth path body scope (NewSupervisor r 0))"
    using assms by (auto simp: handleModuleDeviceInvocation_def Let_def split: option.splits if_splits sum.splits prod.splits) (metis snd_conv)+
  then show ?thesis using one by (auto simp: ReplaceSnapshot_def split: sum.splits)
qed

section \<open>Examples\<close>

text \<open>A server that trusts one key, and packages ''1'' and ''2'' with these versions of a module with one file.\<close>

definition sample_digest :: string where
  "sample_digest = replicate 64 (CHR ''a'')"

fun sample_render :: "json \<Rightarrow> string" where
  "sample_render (JStr s) = s"
| "sample_render (JObj kvs) = concat (map (\<lambda>(k, v). case v of JStr s \<Rightarrow> s | _ \<Rightarrow> []) kvs)"
| "sample_render _ = []"

definition sample_metadata :: "string \<Rightarrow> json" where
  "sample_metadata v = JObj [(''schema_version'', JNum 1), (''manifest'', JStr v), (''payload_sha256'', JStr sample_digest), (''publisher'', JStr ''acme''),
     (''key_id'', JStr ''k'')]"

definition sample_documents :: "json list" where
  "sample_documents = [activation_json \<lparr>avSchemaVersion = 1, avActiveVersion = ''1'', avPreviousVersion = []\<rparr>,
     activation_json \<lparr>avSchemaVersion = 1, avActiveVersion = ''2'', avPreviousVersion = ''1''\<rparr>, sample_metadata ''1'', sample_metadata ''2'']"

definition sample_parse :: "string \<Rightarrow> json wire" where
  "sample_parse s =
     (if s = ''t'' then Decoded (JArr [JObj [(''publisher'', JStr ''acme''), (''key_id'', JStr ''k''), (''public_key'', JStr ''b'')]])
      else if s = ''s'' then Decoded (JObj [(''algorithm'', JStr ''ed25519''), (''key_id'', JStr ''k''), (''payload_sha256'', JStr sample_digest),
             (''signature'', JStr (sample_digest @ sample_digest))])
      else if s = ''m1'' then Decoded (JStr ''1'')
      else if s = ''m2'' then Decoded (JStr ''2'')
      else case find (\<lambda>j. sample_render j @ [CHR 0x0A] = s) sample_documents of Some j \<Rightarrow> Decoded j | None \<Rightarrow> Malformed)"

definition sample_crypto :: module_crypto where
  "sample_crypto = \<lparr>mcSHA256 = (\<lambda>s. sample_digest), mcVerify = (\<lambda>k m s. True), mcBase64 = (\<lambda>s. Some (replicate 32 (CHR ''k''))),
     mcUnzip = (\<lambda>s. Some [\<lparr>zeName = ''manifest.json'', zeIsDir = False, zeData = Some (''m'' @ s)\<rparr>, \<lparr>zeName = ''payload.tar.gz'', zeIsDir = False, zeData = Some ''p''\<rparr>,
       \<lparr>zeName = ''signature.json'', zeIsDir = False, zeData = Some ''s''\<rparr>]),
     mcUntar = (\<lambda>s. Some [\<lparr>teName = ''bin/run.wasm'', teType = TarReg, teSize = 1, teMode = 493, teData = ''x''\<rparr>]),
     mcParse = sample_parse, mcRender = sample_render,
     mcManifest = (\<lambda>j. case j of JStr v \<Rightarrow> Some (sample_manifest\<lparr>mmVersion := v\<rparr>) | _ \<Rightarrow> None), mcManifestJSON = (\<lambda>m. JStr (mmVersion m))\<rparr>"

definition sample_module_server :: module_server where
  "sample_module_server = \<lparr>msCrypto = sample_crypto, msRoot = ''/modules'', msTrust = ''t''\<rparr>"

definition sample_fs :: fs_env where
  "sample_fs = \<lparr>feNow = 5, feRoot = True, feDir = True, feInspect = True, feLock = True, feStage = True, feRename = True, feUnlock = True, feMetadata = True,
     feActivationLock = True, feActivationRead = True, feActivationWrite = True, feActivationUnlock = True\<rparr>"

definition sample_tx :: tx_env where
  "sample_tx = \<lparr>txBegin = None, txRead = None, txWrite = None, txCommit = None, txNow = 5, txFs = sample_fs\<rparr>"

definition sample_admin :: AuthorizationResult where
  "sample_admin = \<lparr>aSelected = \<lparr>sType = ScopePlatform, sID = SingletonPlatformID, sPlatformID = SingletonPlatformID, sMSPID = [], sClientID = [], sSiteID = []\<rparr>,
     aGrants = [\<lparr>gRole = ''platform_admin'', gSourceType = ScopePlatform, gSourceID = SingletonPlatformID, gInherited = False\<rparr>],
     aRoles = [''platform_admin''], aPermissions = []\<rparr>"

definition sample_call :: "string \<Rightarrow> string \<Rightarrow> lifecycle_call" where
  "sample_call path body = \<lparr>lcMethod = ''POST'', lcPath = path, lcAuthorization = Some sample_admin, lcUserID = ''u'', lcBody = Some body, lcFs = sample_fs,
     lcEnvs = (\<lambda>n. sample_tx), lcInvocation = 200\<rparr>"

definition sample_install :: lifecycle_call where
  "sample_install = sample_call ''/api/v2/platform/modules'' ''1''"

definition sample_upgrade :: lifecycle_call where
  "sample_upgrade = sample_call ''/api/v2/platform/modules/com.example.backup/upgrade'' ''2''"

definition sample_modules :: module_world where
  "sample_modules = fresh_modules [] \<lparr>mtRegistry = None, mtRetryAfter = zero_time, mtRefreshAfter = zero_time\<rparr>"

definition sample_after_install :: module_world where
  "sample_after_install = \<lparr>
     mwDB = \<lparr>dbModules = [(''com.example.backup'', \<lparr>imManifest = sample_manifest, imState = StateInstalled, imInstalledAt = 5, imUpdatedAt = 5, imReason = []\<rparr>)],
       dbAudit = [\<lparr>auModule = ''com.example.backup'', auAction = ''install'', auPrevious = None, auNew = Some StateInstalled, auReason = [], auActor = ''u''\<rparr>]\<rparr>,
     mwTree = [(''com.example.backup'', [(''.active.json'', FileNode (''1'' @ [CHR 0x0A]) 5),
       (''.releases'', DirNode [\<lparr>pfPath = ''1.json'', pfMode = 384, pfData = sample_render (sample_metadata ''1'') @ [CHR 0x0A]\<rparr>]),
       (''1'', DirNode [\<lparr>pfPath = ''bin/run.wasm'', pfMode = 493, pfData = ''x''\<rparr>])])],
     mwRuntime = \<lparr>mtRegistry = None, mtRetryAfter = zero_time, mtRefreshAfter = zero_time\<rparr>\<rparr>"

lemma sample_run: "run_lifecycle sample_module_server [sample_install] sample_modules = sample_after_install"
  by code_simp

lemma sample_installed:
  "version_files (mwTree (run_lifecycle sample_module_server [sample_install] sample_modules)) ''com.example.backup'' ''1'' =
     Some [\<lparr>pfPath = ''bin/run.wasm'', pfMode = 493, pfData = ''x''\<rparr>]"
  unfolding sample_run by code_simp


text \<open>The upgrade is answered with an error, and the version on disk is then ahead of the one in the table.\<close>

lemma sample_upgrade_stuck:
  "case serveModuleLifecycle sample_module_server sample_upgrade sample_after_install of (reply, w) \<Rightarrow>
     reply = (500, None) \<and>
     ReadActiveVersion sample_crypto sample_fs ''com.example.backup'' (mwTree w) = Inr \<lparr>avSchemaVersion = 1, avActiveVersion = ''2'', avPreviousVersion = ''1''\<rparr> \<and>
     map (\<lambda>(k, m). mmVersion (imManifest m)) (dbModules (mwDB w)) = [''1'']"
  by code_simp

end
