(* ===== verification/Spec2Isabelle.thy ===== *)
theory Spec2Isabelle
  imports AgentDispatcher SmartGroups PolicyEnforcement SoftwareInstaller AccessControl RateLimit EndpointApprovals DockerSafety AlertSafety PatchSafety ModuleSafety
begin

text \<open>
  A verification development for the Strata RMM orchestrator: the server that manages fleets of endpoints
  (\<^verbatim>\<open>cmd/orchestrator\<close>, \<^verbatim>\<open>internal/platform\<close>) and the agent that runs on them (\<^verbatim>\<open>internal/agent\<close>). All paths below are
  relative to \<^verbatim>\<open>src/\<close>.

  \<^bold>\<open>The program.\<close> The orchestrator accepts jobs over its HTTP API, stores them with an outbox in PostgreSQL, publishes
  commands to agents over NATS and applies the acknowledgements and results that come back. The agent keeps a durable
  ledger of commands so that redelivery never executes one twice, and replays results until they are receipted. Around this
  pipeline stand access control (tokens, routes, roles, support grants), operations on endpoints with approvals,
  policies, smart groups, alerting, patch rollouts, add-on modules and the updates of the orchestrator itself.

  \<^bold>\<open>How the code is modelled.\<close> Structs are records, enumerations and Go error values are datatypes, tables are lists of
  rows inside a database record, handlers are functions from request and state to reply and state, and transactions
  return their state unchanged when a statement fails. Strings are lists of characters, times are integers
  (nanoseconds), Go maps that are iterated are association lists whose order stands for the unspecified order of the
  iteration. What is not under \<^verbatim>\<open>src/\<close> is an argument of the definitions: clocks, generated identifiers, HMAC,
  regular expressions, floating-point printing, the network, subprocesses, and for every database statement whether it
  fails. Loops are structural or have a termination proof; there is no fuel except the bounds the code has itself (attempt
  limits, deadlines).

  \<^bold>\<open>The theories\<close>, in the order of the dependencies:

  \<^item> \<open>Prelude\<close>, \<open>Json\<close>, \<open>GoTime\<close>, \<open>GoPath\<close>, \<open>Base64\<close>: the parts of the Go library that the components call, with
    their lemmas (decimal printing, splitting and joining, buckets, field decoding, RFC 3339, path cleaning, base64).

  \<^item> \<open>Lifecycle\<close>, \<open>OnceLedger\<close>: the two contracts shared between components, as locales. A ranked lifecycle always
    reaches a final state and never leaves it; a once ledger grants each key at most one start in every interleaving, and
    gives the weaker contract of a claim ledger. They are interpreted in \<open>JobState\<close>, \<open>ReceiptLedger\<close> and
    \<open>SoftwareInstaller\<close>.

  \<^item> \<open>JobState\<close> (\<^verbatim>\<open>internal/platform/statemachine.go\<close>): the transition table of jobs.
    \<open>Envelope\<close> (\<^verbatim>\<open>command.go\<close>, \<^verbatim>\<open>internal/agent/jobs\<close>): commands, acknowledgements, results, subjects, and that both
    sides agree on them.

  \<^item> \<open>ReceiptLedger\<close>, \<open>AgentDispatcher\<close> (\<^verbatim>\<open>internal/agent/jobs/ledger.go\<close>, \<^verbatim>\<open>recovery.go\<close>, \<^verbatim>\<open>handler.go\<close>): the agent's
    side of the protocol. A command starts at most once, an acknowledged delivery has a stored result, and every result
    is replayed until it is receipted.

  \<^item> \<open>JobStore\<close> (the job tables and triggers of \<^verbatim>\<open>pkg/postgres/durability_schema.go\<close>), \<open>ResultProcessing\<close>,
    \<open>JobDispatch\<close> (\<^verbatim>\<open>internal/platform/dispatcher.go\<close>, \<^verbatim>\<open>result_retry.go\<close>), \<open>JobsApi\<close> (\<^verbatim>\<open>jobs.go\<close>): the orchestrator's
    side. Results change only the target they own, final targets stay final, aggregates follow the targets, nothing is
    published before it is recorded as dispatched.

  \<^item> \<open>EndpointOperations\<close>, \<open>EndpointApprovals\<close> (\<^verbatim>\<open>device_handlers.go\<close>, \<^verbatim>\<open>agent_capabilities.go\<close>, \<^verbatim>\<open>endpoint_audit.go\<close>,
    \<^verbatim>\<open>endpoint_approvals.go\<close>): device actions behind their gates, approvals with separation of duties and a quorum.

  \<^item> \<open>SmartGroups\<close> (\<^verbatim>\<open>internal/groups/dsl.go\<close>), \<open>Policy\<close>, \<open>PolicyEnforcement\<close> (\<^verbatim>\<open>policy_model.go\<close>,
    \<^verbatim>\<open>policy_effective.go\<close>, \<^verbatim>\<open>policy_diff.go\<close>, \<^verbatim>\<open>policy_enforcement.go\<close>, \<^verbatim>\<open>policy_scheduler.go\<close>): evaluation of filter
    expressions against a reference semantics, merging of policy layers, exact differences of versions.

  \<^item> \<open>SoftwareInstaller\<close> (\<^verbatim>\<open>internal/agent/software\<close>): execution claims, verified downloads, recorded outcomes.

  \<^item> \<open>Tokens\<close> (\<^verbatim>\<open>pkg/auth/jwt.go\<close>), \<open>Routes\<close>, \<open>Authorization\<close>, \<open>AuthorizationPolicy\<close>, \<open>AccessControl\<close>
    (\<^verbatim>\<open>middleware.go\<close>, \<^verbatim>\<open>authorization_result.go\<close>, \<^verbatim>\<open>authorize.go\<close>, \<^verbatim>\<open>setup_gate.go\<close> and others), \<open>RateLimit\<close>
    (\<^verbatim>\<open>pkg/auth/ratelimit.go\<close>): who may call what. Resolution computes exactly the roles of an abstract policy over
    memberships and hierarchy, the management checks refine that policy, the front door admits only what the route
    registry and the principal allow, and a bucket never grants more than its burst and rate.

  \<^item> \<open>Releases\<close>, \<open>ReleaseUpdater\<close>, \<open>UpdateSafety\<close> (\<^verbatim>\<open>internal/update\<close>, \<^verbatim>\<open>update_handlers.go\<close>): version precedence equals a
    lexicographic order, what is staged was signed and checked, chains of upgrades increase the version, one database
    recovery point at a time.

  \<^item> \<open>DockerUpgrade\<close>, \<open>DockerSafety\<close> (\<^verbatim>\<open>docker_transaction.go\<close>, \<^verbatim>\<open>docker_executor.go\<close>, \<^verbatim>\<open>docker_reconcile.go\<close>,
    \<^verbatim>\<open>cmd/orchestrator/docker_update_host.go\<close>): container upgrades over every failure and crash point. The world after
    each step is in a trace, of which consistency is an invariant; reconciliation recovers; the health loop ends.

  \<^item> \<open>Alerting\<close>, \<open>AlertSafety\<close> (\<^verbatim>\<open>internal/alerting\<close>): rules, maintenance windows, groups, the alerts table and the
    engine. The locale \<open>alert_invariant\<close> lists the moves every operation is made of; its interpretations show that
    alerts fire and resolve in turn, keep their cooldowns and respect maintenance windows.

  \<^item> \<open>PatchRollout\<close>, \<open>PatchSafety\<close> (\<^verbatim>\<open>internal/patch\<close>): deployments of patches over the job tables. The broad group waits for
    the canary gate, attempts stay within the policy's budget whatever the job pipeline does, and work ends with its
    maintenance window.

  \<^item> \<open>ModuleRegistry\<close>, \<open>ModuleAccess\<close>, \<open>ModuleInstall\<close>, \<open>ModuleLifecycle\<close> (\<^verbatim>\<open>internal/modules\<close>,
    \<^verbatim>\<open>internal/platform/module_*.go\<close>): manifests, the registry and its tables, service identities, the broker, signed
    packages and their files, the endpoints. \<open>ModuleAccessSafety\<close> and \<open>ModuleSafety\<close> show that modules act only within
    token, manifest and scope, that the code on disk was signed, that the audit trail explains every state, and that
    upgrades never commit. The locale \<open>revocation_store\<close> is the contract of the memory and the Redis store.

  \<^bold>\<open>Bounds.\<close> Integers of the code are \<open>int\<close> where they cannot wrap, with the range checks of JSON decoding written
  out; where wrap-around or saturation decides (timeouts of software commands, differences of times, version
  numbers of 64 bits) it is part of the definition.

  \<^bold>\<open>Not modelled.\<close> The SQL text of the schema and of listings; HTTP encoding, route wiring and read-only handlers;
  connection set-up and tickers, of which one tick is modelled; the senders of the notifier; reporting, billing, branding;
  inventory probes, remote access; account administration, scripts and schedules, package managers, updates of the agent, the
  WebAssembly engine that runs modules, backups and configuration; goroutines are modelled as sequences of atomic
  operations, each of which is one critical section or one transaction of the code.
\<close>

end
